(* ===== verification/Prelude.thy ===== *)
theory Prelude
  imports Main "HOL-Library.AList" "HOL-Library.List_Lexorder" "HOL-Library.Char_ord"
    "HOL-Library.Word" "HOL-Library.Signed_Division"
begin

text \<open>
  What the models of the components share: the Go maps, strings, machine integers and times
  the source computes with, and the lemmas about them that carry the component proofs.

  A Go map is modelled as an association list with distinct keys (\<open>wf_map\<close>). The order
  of the list stands for the order in which a \<open>range\<close> loop yields the entries, which the
  language leaves open; a property that must not depend on that order is therefore stated for
  every list, through \<open>mget\<close>, which reads the map and does not see the order. A nil map
  and an empty map read alike and are both the empty list; where the source tells them apart
  the model uses an option.
\<close>

named_theorems gomap_simps "reading and writing Go maps"
named_theorems gomap_intros "well-formedness of Go maps"

section \<open>Go maps\<close>

type_synonym ('k, 'v) gomap = "('k \<times> 'v) list"

definition wf_map :: "('k, 'v) gomap \<Rightarrow> bool" where
  "wf_map m \<longleftrightarrow> distinct (map fst m)"

definition mget :: "('k, 'v) gomap \<Rightarrow> 'k \<Rightarrow> 'v option" where
  "mget m k = map_of m k"

definition mput :: "'k \<Rightarrow> 'v \<Rightarrow> ('k, 'v) gomap \<Rightarrow> ('k, 'v) gomap" where
  "mput k v m = AList.update k v m"

definition mdel :: "'k \<Rightarrow> ('k, 'v) gomap \<Rightarrow> ('k, 'v) gomap" where
  "mdel k m = filter (\<lambda>e. fst e \<noteq> k) m"

definition mkeys :: "('k, 'v) gomap \<Rightarrow> 'k list" where
  "mkeys m = map fst m"

definition mhas :: "('k, 'v) gomap \<Rightarrow> 'k \<Rightarrow> bool" where
  "mhas m k \<longleftrightarrow> mget m k \<noteq> None"

text \<open>Reading a missing key yields the zero value; for strings that is the empty string.\<close>

definition mgets :: "('k, string) gomap \<Rightarrow> 'k \<Rightarrow> string" where
  "mgets m k = (case mget m k of None \<Rightarrow> [] | Some v \<Rightarrow> v)"

text \<open>Copying every entry of one map into another, later entries winning.\<close>

definition mput_all :: "('k, 'v) gomap \<Rightarrow> ('k, 'v) gomap \<Rightarrow> ('k, 'v) gomap" where
  "mput_all src dst = foldl (\<lambda>d e. mput (fst e) (snd e) d) dst src"

text \<open>Keeping the entries whose key satisfies a predicate: a loop that deletes the others.\<close>

definition mfilter :: "('k \<Rightarrow> bool) \<Rightarrow> ('k, 'v) gomap \<Rightarrow> ('k, 'v) gomap" where
  "mfilter P m = filter (\<lambda>e. P (fst e)) m"

lemma wf_map_Nil [simp, gomap_intros]: "wf_map []"
  by (simp add: wf_map_def)

lemma wf_map_mput [simp, gomap_intros]: "wf_map m \<Longrightarrow> wf_map (mput k v m)"
  by (simp add: wf_map_def mput_def distinct_update)

lemma wf_map_filter [simp, gomap_intros]: "wf_map m \<Longrightarrow> wf_map (filter P m)"
  by (simp add: wf_map_def distinct_map_filter)

lemma wf_map_mdel [simp, gomap_intros]: "wf_map m \<Longrightarrow> wf_map (mdel k m)"
  by (simp add: mdel_def)

lemma wf_map_mfilter [simp, gomap_intros]: "wf_map m \<Longrightarrow> wf_map (mfilter P m)"
  by (simp add: mfilter_def)

lemma mget_Nil [simp, gomap_simps]: "mget [] k = None"
  by (simp add: mget_def)

lemma mget_Cons [gomap_simps]: "mget (e # m) k = (if fst e = k then Some (snd e) else mget m k)"
  by (cases e) (simp add: mget_def)

lemma mget_mput [simp, gomap_simps]: "mget (mput k v m) k' = (if k = k' then Some v else mget m k')"
  by (simp add: mget_def mput_def update_conv)

lemma mget_mfilter [simp, gomap_simps]: "mget (mfilter P m) k = (if P k then mget m k else None)"
  by (induction m) (auto simp: mget_def mfilter_def)

lemma mdel_mfilter: "mdel k m = mfilter (\<lambda>k'. k' \<noteq> k) m"
  by (simp add: mdel_def mfilter_def)

lemma mget_mdel [simp, gomap_simps]: "mget (mdel k m) k' = (if k = k' then None else mget m k')"
  by (auto simp: mdel_mfilter)

lemma mgets_mput [simp, gomap_simps]: "mgets (mput k v m) k' = (if k = k' then v else mgets m k')"
  by (simp add: mgets_def)

lemma mhas_mput [simp, gomap_simps]: "mhas (mput k v m) k' \<longleftrightarrow> k = k' \<or> mhas m k'"
  by (simp add: mhas_def)

lemma mhas_mkeys: "mhas m k \<longleftrightarrow> k \<in> set (mkeys m)"
  by (induction m) (auto simp: mhas_def mget_def mkeys_def)

lemma mget_in_set: "mget m k = Some v \<Longrightarrow> (k, v) \<in> set m"
  by (simp add: mget_def map_of_SomeD)

lemma mget_iff_in_set: "wf_map m \<Longrightarrow> mget m k = Some v \<longleftrightarrow> (k, v) \<in> set m"
  by (simp add: mget_def wf_map_def map_of_eq_Some_iff)

lemma wf_map_mput_all [simp, gomap_intros]: "wf_map dst \<Longrightarrow> wf_map (mput_all src dst)"
  by (induction src arbitrary: dst) (simp_all add: mput_all_def)

lemma mput_all_Nil [simp]: "mput_all [] dst = dst"
  by (simp add: mput_all_def)

lemma mput_all_Cons: "mput_all (e # src) dst = mput_all src (mput (fst e) (snd e) dst)"
  by (simp add: mput_all_def)

lemma mget_None_iff: "mget m k = None \<longleftrightarrow> k \<notin> fst ` set m"
  by (simp add: mget_def map_of_eq_None_iff)

lemma mget_mput_all [simp, gomap_simps]:
  "wf_map src \<Longrightarrow> mget (mput_all src dst) k =
     (case mget src k of None \<Rightarrow> mget dst k | Some v \<Rightarrow> Some v)"
proof (induction src arbitrary: dst)
  case (Cons e src)
  then have wf: "wf_map src" and e: "mget src (fst e) = None"
    by (auto simp: wf_map_def mget_None_iff)
  show ?case
    using e by (auto simp: mput_all_Cons Cons.IH [OF wf] mget_Cons split: option.splits)
qed simp

text \<open>Two lists stand for the same map when every read agrees; the order is not observable.\<close>

definition same_map :: "('k, 'v) gomap \<Rightarrow> ('k, 'v) gomap \<Rightarrow> bool" where
  "same_map m n \<longleftrightarrow> (\<forall>k. mget m k = mget n k)"

lemma same_map_refl [simp]: "same_map m m"
  by (simp add: same_map_def)

lemma same_mapD: "same_map m n \<Longrightarrow> mget m k = mget n k"
  by (simp add: same_map_def)

lemma same_map_sym: "same_map m n \<Longrightarrow> same_map n m"
  by (simp add: same_map_def)

lemma same_map_trans: "same_map m n \<Longrightarrow> same_map n p \<Longrightarrow> same_map m p"
  by (simp add: same_map_def)

lemma same_map_keys: "same_map m n \<Longrightarrow> set (mkeys m) = set (mkeys n)"
  by (auto simp: same_map_def mhas_mkeys [symmetric] mhas_def)

lemma length_mkeys [simp]: "length (mkeys m) = length m"
  by (simp add: mkeys_def)

lemma wf_map_card: "wf_map m \<Longrightarrow> length m = card (set (mkeys m))"
  using distinct_card [of "map fst m"] by (simp add: wf_map_def mkeys_def)

lemma same_map_length: "same_map m n \<Longrightarrow> wf_map m \<Longrightarrow> wf_map n \<Longrightarrow> length m = length n"
  by (simp add: wf_map_card same_map_keys)

lemma same_map_mput [gomap_intros]: "same_map m n \<Longrightarrow> same_map (mput k v m) (mput k v n)"
  by (simp add: same_map_def)

lemma same_map_mdel [gomap_intros]: "same_map m n \<Longrightarrow> same_map (mdel k m) (mdel k n)"
  by (simp add: same_map_def)

lemma same_map_mfilter [gomap_intros]: "same_map m n \<Longrightarrow> same_map (mfilter P m) (mfilter P n)"
  by (simp add: same_map_def)

lemma set_mfilter: "set (mkeys (mfilter P m)) = {k \<in> set (mkeys m). P k}"
  by (auto simp: mkeys_def mfilter_def)

text \<open>Sorted key lists, as the source builds them before a loop whose order matters.\<close>

definition sorted_keys :: "(string, 'v) gomap \<Rightarrow> string list" where
  "sorted_keys m = sort (mkeys m)"

lemma set_sorted_keys [simp]: "set (sorted_keys m) = set (mkeys m)"
  by (simp add: sorted_keys_def)

lemma distinct_sorted_keys: "wf_map m \<Longrightarrow> distinct (sorted_keys m)"
  by (simp add: sorted_keys_def wf_map_def mkeys_def)

lemma sorted_sorted_keys [simp]: "sorted (sorted_keys m)"
  by (simp add: sorted_keys_def)

lemma sorted_keys_same_map:
  assumes "same_map m n" and "wf_map m" and "wf_map n"
  shows "sorted_keys m = sorted_keys n"
proof (rule sorted_distinct_set_unique)
  show "set (sorted_keys m) = set (sorted_keys n)"
    using assms(1) by (simp add: same_map_keys)
qed (use assms in \<open>auto simp: distinct_sorted_keys\<close>)

subsection \<open>The map interface\<close>

text \<open>
  What the components ask of a Go map, as a contract: reads after writes and deletes, and the
  well-formedness every operation keeps. The lemmas below are the ones every component uses;
  they are proved from the contract alone and hold of the association lists by interpretation.
\<close>

locale map_ops =
  fixes lookup :: "'m \<Rightarrow> 'k \<Rightarrow> 'v option"
    and insert :: "'k \<Rightarrow> 'v \<Rightarrow> 'm \<Rightarrow> 'm"
    and remove :: "'k \<Rightarrow> 'm \<Rightarrow> 'm"
    and valid :: "'m \<Rightarrow> bool"
  assumes lookup_insert: "valid m \<Longrightarrow> lookup (insert k v m) k' = (if k = k' then Some v else lookup m k')"
    and lookup_remove: "valid m \<Longrightarrow> lookup (remove k m) k' = (if k = k' then None else lookup m k')"
    and valid_insert: "valid m \<Longrightarrow> valid (insert k v m)"
    and valid_remove: "valid m \<Longrightarrow> valid (remove k m)"
begin

lemma insert_insert: "valid m \<Longrightarrow> lookup (insert k v (insert k w m)) = lookup (insert k v m)"
  by (rule ext) (simp add: lookup_insert valid_insert)

lemma insert_commute:
  "valid m \<Longrightarrow> k \<noteq> k' \<Longrightarrow> lookup (insert k v (insert k' w m)) = lookup (insert k' w (insert k v m))"
  by (rule ext) (auto simp: lookup_insert valid_insert)

lemma valid_fold: "valid m \<Longrightarrow> valid (foldl (\<lambda>d e. insert (fst e) (snd e) d) m es)"
  by (induction es arbitrary: m) (simp_all add: valid_insert)

lemma lookup_fold_remove:
  "valid m \<Longrightarrow> lookup (foldl (\<lambda>d k. remove k d) m ks) k = (if k \<in> set ks then None else lookup m k)"
  by (induction ks arbitrary: m) (auto simp: lookup_remove valid_remove)

end

interpretation gm: map_ops mget mput mdel wf_map
  by unfold_locales auto

section \<open>Strings\<close>

text \<open>The functions of the package \<open>strings\<close> that the source uses; a string is a list of bytes.\<close>

fun HasPrefix :: "string \<Rightarrow> string \<Rightarrow> bool" where
  "HasPrefix s [] = True"
| "HasPrefix [] (c # cs) = False"
| "HasPrefix (d # s) (c # cs) = (d = c \<and> HasPrefix s cs)"

definition HasSuffix :: "string \<Rightarrow> string \<Rightarrow> bool" where
  "HasSuffix s t = HasPrefix (rev s) (rev t)"

fun Contains :: "string \<Rightarrow> string \<Rightarrow> bool" where
  "Contains [] t = (t = [])"
| "Contains (c # s) t = (HasPrefix (c # s) t \<or> Contains s t)"

definition TrimPrefix :: "string \<Rightarrow> string \<Rightarrow> string" where
  "TrimPrefix s p = (if HasPrefix s p then drop (length p) s else s)"

text \<open>\<open>Split\<close> and \<open>SplitN(s, sep, 2)\<close> for a separator of one byte, \<open>Join\<close>, and \<open>ReplaceAll\<close> of one byte.\<close>

fun Split :: "char \<Rightarrow> string \<Rightarrow> string list" where
  "Split c [] = [[]]"
| "Split c (x # xs) = (if x = c then [] # Split c xs
     else (case Split c xs of [] \<Rightarrow> [[x]] | y # ys \<Rightarrow> (x # y) # ys))"

definition SplitN2 :: "char \<Rightarrow> string \<Rightarrow> string list" where
  "SplitN2 c s = (if c \<in> set s then [takeWhile (\<lambda>x. x \<noteq> c) s, tl (dropWhile (\<lambda>x. x \<noteq> c) s)] else [s])"

fun Join :: "string \<Rightarrow> string list \<Rightarrow> string" where
  "Join sep [] = []"
| "Join sep [x] = x"
| "Join sep (x # y # zs) = x @ sep @ Join sep (y # zs)"

definition ReplaceChar :: "char \<Rightarrow> string \<Rightarrow> string \<Rightarrow> string" where
  "ReplaceChar c r s = concat (map (\<lambda>x. if x = c then r else [x]) s)"

definition Trim :: "(char \<Rightarrow> bool) \<Rightarrow> string \<Rightarrow> string" where
  "Trim P s = rev (dropWhile P (rev (dropWhile P s)))"

text \<open>Decimal digits, as \<open>%d\<close> prints them.\<close>

fun show_nat :: "nat \<Rightarrow> string" where
  "show_nat n = (if n < 10 then [char_of (48 + n)] else show_nat (n div 10) @ [char_of (48 + n mod 10)])"

declare show_nat.simps [simp del]

definition show_int :: "int \<Rightarrow> string" where
  "show_int i = (if i < 0 then ''-'' @ show_nat (nat (- i)) else show_nat (nat i))"

lemma HasPrefix_iff: "HasPrefix s p \<longleftrightarrow> (\<exists>t. s = p @ t)"
  by (induction s p rule: HasPrefix.induct) auto

lemma HasPrefix_append [simp]: "HasPrefix (p @ t) p"
  by (simp add: HasPrefix_iff)

lemma HasSuffix_iff: "HasSuffix s t \<longleftrightarrow> (\<exists>r. s = r @ t)"
  unfolding HasSuffix_def HasPrefix_iff by (metis rev_append rev_rev_ident)

lemma Contains_iff: "Contains s t \<longleftrightarrow> (\<exists>u v. s = u @ t @ v)"
proof (induction s)
  case (Cons c s)
  show ?case
  proof
    assume "Contains (c # s) t"
    then consider "HasPrefix (c # s) t" | "Contains s t" by auto
    then show "\<exists>u v. c # s = u @ t @ v"
    proof cases
      case 1
      then show ?thesis by (auto simp: HasPrefix_iff intro: exI [of _ "[]"])
    next
      case 2
      then obtain u v where "s = u @ t @ v" using Cons.IH by auto
      then show ?thesis by (auto intro: exI [of _ "c # u"])
    qed
  next
    assume "\<exists>u v. c # s = u @ t @ v"
    then obtain u v where eq: "c # s = u @ t @ v" by auto
    show "Contains (c # s) t"
    proof (cases u)
      case Nil
      with eq show ?thesis by (metis Contains.simps(2) HasPrefix_append append_Nil)
    next
      case (Cons d u')
      with eq Cons.IH show ?thesis by auto
    qed
  qed
qed auto

lemma Split_not_Nil [simp]: "Split c s \<noteq> []"
  by (induction s) (auto split: list.splits)

lemma Split_no_sep: "c \<notin> set s \<Longrightarrow> Split c s = [s]"
  by (induction s) auto

lemma Split_append: "c \<notin> set s \<Longrightarrow> Split c (s @ c # t) = s # Split c t"
  by (induction s) auto

text \<open>Splitting undoes joining when no part contains the separator.\<close>

lemma Split_Join:
  "xs \<noteq> [] \<Longrightarrow> (\<And>x. x \<in> set xs \<Longrightarrow> c \<notin> set x) \<Longrightarrow> Split c (Join [c] xs) = xs"
  by (induction "[c]" xs rule: Join.induct) (auto simp: Split_no_sep Split_append)

lemma Join_Split: "Join [c] (Split c s) = s"
proof (induction s)
  case (Cons x s)
  show ?case
  proof (cases "Split c s")
    case (Cons y ys)
    then show ?thesis using Cons.IH by (cases ys) auto
  qed simp
qed simp

section \<open>Loops that may stop with an error\<close>

text \<open>A loop whose body can return early with an error: the state, or the first error.\<close>

fun foldM :: "('s \<Rightarrow> 'a \<Rightarrow> 'e + 's) \<Rightarrow> 's \<Rightarrow> 'a list \<Rightarrow> 'e + 's" where
  "foldM f s [] = Inr s"
| "foldM f s (x # xs) = (case f s x of Inl e \<Rightarrow> Inl e | Inr s' \<Rightarrow> foldM f s' xs)"

lemma foldM_append:
  "foldM f s (xs @ ys) = (case foldM f s xs of Inl e \<Rightarrow> Inl e | Inr s' \<Rightarrow> foldM f s' ys)"
  by (induction xs arbitrary: s) (auto split: sum.splits)

lemma foldM_invariant:
  "P s \<Longrightarrow> (\<And>s x s'. P s \<Longrightarrow> x \<in> set xs \<Longrightarrow> f s x = Inr s' \<Longrightarrow> P s') \<Longrightarrow> foldM f s xs = Inr t \<Longrightarrow> P t"
proof (induction xs arbitrary: s)
  case (Cons x xs)
  from Cons.prems(3) obtain s' where s': "f s x = Inr s'" and t: "foldM f s' xs = Inr t"
    by (auto split: sum.splits)
  have "P s'" using Cons.prems(1,2) s' by auto
  then show ?case using Cons.IH [of s'] Cons.prems(2) t by (meson list.set_intros(2))
qed simp

lemma foldM_total:
  "P s \<Longrightarrow> (\<And>s x. P s \<Longrightarrow> x \<in> set xs \<Longrightarrow> \<exists>s'. f s x = Inr s' \<and> P s') \<Longrightarrow> \<exists>t. foldM f s xs = Inr t \<and> P t"
proof (induction xs arbitrary: s)
  case (Cons x xs)
  from Cons.prems(2) [OF Cons.prems(1), of x] obtain s' where "f s x = Inr s'" "P s'" by auto
  with Cons.IH [of s'] Cons.prems(2) show ?case by simp
qed simp

lemma foldl_invariant:
  "P s \<Longrightarrow> (\<And>s x. P s \<Longrightarrow> x \<in> set xs \<Longrightarrow> P (f s x)) \<Longrightarrow> P (foldl f s xs)"
  by (induction xs arbitrary: s) auto

lemma foldM_Inr:
  "(\<And>s x. x \<in> set xs \<Longrightarrow> f s x = Inr (g s x)) \<Longrightarrow> foldM f s xs = Inr (foldl g s xs)"
  by (induction xs arbitrary: s) auto

end
