(* ===== verification/Float64.thy ===== *)
theory Float64
  imports Complex_Main Prelude "HOL-Library.Log_Nat"
begin

text \<open>
  Go's \<open>float64\<close>: IEEE 754 binary64 with round-to-nearest, ties to even. A finite value is the
  rational it denotes; an operation is the exact rational operation followed by \<open>rnd\<close>.
  The sign of zero is not kept: the source never divides by a float that may be a zero of either
  sign without guarding it (the sizer of Pixie divides by gauges and converted integers, whose zero is
  positive), and compares zeros only with \<open>==\<close>, which ignores the sign.
  The central facts are \<open>rnd_exact\<close>, rounding leaves a representable value alone, and
  \<open>rnd_int\<close>, integers up to 2^53 are representable.
\<close>

datatype f64 = NaN | PInf | NInf | Fin rat

section \<open>Rounding\<close>

definition rat_log2 :: "rat \<Rightarrow> int" where
  "rat_log2 q =
     (let ab = quotient_of q;
          e = int (floorlog 2 (nat (fst ab))) - int (floorlog 2 (nat (snd ab)))
      in if 2 powi e \<le> q then e else e - 1)"

definition f64_exp :: "rat \<Rightarrow> int" where
  "f64_exp q = max (rat_log2 \<bar>q\<bar> - 52) (- 1074)"

definition round_half_even :: "rat \<Rightarrow> int" where
  "round_half_even x =
     (let f = \<lfloor>x\<rfloor>; d = x - of_int f
      in if d < 1 / 2 then f else if 1 / 2 < d then f + 1 else if even f then f else f + 1)"

definition f64_max :: rat where
  "f64_max = (2 ^ 53 - 1) * 2 ^ 971"

definition rnd :: "rat \<Rightarrow> f64" where
  "rnd q =
     (if q = 0 then Fin 0
      else let u = 2 powi f64_exp q; r = of_int (round_half_even (q / u)) * u
           in if f64_max < r then PInf else if r < - f64_max then NInf else Fin r)"

definition representable :: "rat \<Rightarrow> bool" where
  "representable q \<longleftrightarrow>
     (\<exists>m e. q = of_int m * 2 powi e \<and> \<bar>m\<bar> \<le> 2 ^ 53 \<and> - 1074 \<le> e) \<and> \<bar>q\<bar> \<le> f64_max"

lemma round_half_even_int [simp]: "round_half_even (of_int n) = n"
  by (simp add: round_half_even_def)

lemma round_half_even_nonneg: "0 \<le> x \<Longrightarrow> 0 \<le> round_half_even x"
  by (auto simp: round_half_even_def Let_def)

lemma floorlog_le: "0 < n \<Longrightarrow> 2 ^ (floorlog 2 n - 1) \<le> n"
  using floorlog_bounds [of n 2] by simp

lemma floorlog_gt: "0 < n \<Longrightarrow> n < 2 ^ floorlog 2 n"
  using floorlog_bounds [of n 2] by simp

lemma rat_pow2_le: "0 < n \<Longrightarrow> (2::rat) powi (int (floorlog 2 n) - 1) \<le> of_nat n"
proof -
  assume n: "0 < n"
  then have fl: "0 < floorlog 2 n" by (simp add: floorlog_def)
  have "(2::rat) powi (int (floorlog 2 n) - 1) = 2 ^ (floorlog 2 n - 1)"
    using fl by (simp add: power_int_def nat_diff_distrib)
  also have "\<dots> = of_nat (2 ^ (floorlog 2 n - 1))" by simp
  also have "\<dots> \<le> of_nat n" using floorlog_le [OF n] of_nat_le_iff by blast
  finally show ?thesis .
qed

lemma rat_pow2_gt: "0 < n \<Longrightarrow> of_nat n < (2::rat) powi int (floorlog 2 n)"
proof -
  assume n: "0 < n"
  have "(of_nat n :: rat) < of_nat (2 ^ floorlog 2 n)" using floorlog_gt [OF n] of_nat_less_iff by blast
  then show ?thesis by (simp add: power_int_def)
qed

lemma rat_log2_bounds:
  assumes "0 < q"
  shows "2 powi rat_log2 q \<le> q" and "q < 2 powi (rat_log2 q + 1)"
proof -
  obtain a b where ab: "quotient_of q = (a, b)" by (cases "quotient_of q")
  have b: "0 < b" using quotient_of_denom_pos [OF ab] .
  have q: "q = of_int a / of_int b" using quotient_of_div [OF ab] .
  have a: "0 < a" using assms b by (simp add: q zero_less_divide_iff)
  define la where "la = int (floorlog 2 (nat a))"
  define lb where "lb = int (floorlog 2 (nat b))"
  have qn: "q = of_nat (nat a) / of_nat (nat b)" using a b q by simp
  have b0: "(0::rat) < of_nat (nat b)" using b by simp
  have "(2::rat) powi (la - lb - 1) * of_nat (nat b) < 2 powi (la - lb - 1) * 2 powi lb"
    using rat_pow2_gt [of "nat b"] b by (simp add: lb_def)
  also have "\<dots> = 2 powi (la - 1)" by (simp add: power_int_add [symmetric])
  also have "\<dots> \<le> of_nat (nat a)" using rat_pow2_le [of "nat a"] a by (simp add: la_def)
  finally have lo: "(2::rat) powi (la - lb - 1) < q"
    using b0 by (simp add: qn less_divide_eq)
  have "(of_nat (nat a) :: rat) < 2 powi la" using rat_pow2_gt [of "nat a"] a by (simp add: la_def)
  also have "\<dots> = 2 powi (la - lb + 1) * 2 powi (lb - 1)" by (simp add: power_int_add [symmetric])
  also have "\<dots> \<le> 2 powi (la - lb + 1) * of_nat (nat b)"
    using rat_pow2_le [of "nat b"] b by (simp add: lb_def)
  finally have hi: "q < 2 powi (la - lb + 1)" using b0 by (simp add: qn divide_less_eq)
  have rl: "rat_log2 q = (if 2 powi (la - lb) \<le> q then la - lb else la - lb - 1)"
    by (simp add: rat_log2_def Let_def ab la_def lb_def)
  show "2 powi rat_log2 q \<le> q" and "q < 2 powi (rat_log2 q + 1)"
    using lo hi by (auto simp: rl)
qed

lemma powi2_pos [simp]: "(0::rat) < 2 powi e"
  by simp

lemma powi2_nonneg_int: "0 \<le> e \<Longrightarrow> \<exists>n::int. (2::rat) powi e = of_int n"
  by (rule exI [of _ "2 ^ nat e"]) (simp add: power_int_def)

lemma powi2_add53: "(2::rat) powi (e + 53) = 2 ^ 53 * 2 powi e"
proof -
  have "(2::rat) powi (e + 53) = 2 powi e * 2 powi 53" by (rule power_int_add) simp
  also have "(2::rat) powi 53 = 2 ^ 53" using power_int_of_nat [of "2::rat" 53] by simp
  finally show ?thesis by (simp only: mult.commute)
qed

lemma pow_lt_lt: "(2::rat) powi a < 2 powi b \<Longrightarrow> a < b"
  using power_int_increasing [of b a "2::rat"] by (meson leD leI one_le_numeral)

lemma pow_le_le: "(2::rat) powi a \<le> 2 powi b \<Longrightarrow> a \<le> b"
  using power_int_strict_increasing [of b a "2::rat"] by (meson leD leI one_less_numeral_iff semiring_norm(76))

text \<open>
  A representable value is an integer multiple of the unit \<open>rnd\<close> rounds to. Either the
  exponent of its representation is at least the unit's, or its significand is 2^53 and the
  exponent is one less.
\<close>

lemma representable_multiple:
  assumes "q \<noteq> 0" and q: "q = of_int m * 2 powi e" and m: "\<bar>m\<bar> \<le> 2 ^ 53" and e: "- 1074 \<le> e"
  shows "\<exists>n. q / 2 powi f64_exp q = of_int n"
proof (cases "f64_exp q \<le> e")
  case True
  then obtain k :: int where k: "(2::rat) powi (e - f64_exp q) = of_int k"
    using powi2_nonneg_int [of "e - f64_exp q"] by auto
  have "q / 2 powi f64_exp q = of_int m * 2 powi (e - f64_exp q)"
    by (simp add: q power_int_diff)
  then show ?thesis by (auto simp: k simp flip: of_int_mult)
next
  case False
  then have fe: "f64_exp q = rat_log2 \<bar>q\<bar> - 52" and lt: "e < rat_log2 \<bar>q\<bar> - 52"
    using e by (auto simp: f64_exp_def max_def split: if_splits)
  have "2 powi rat_log2 \<bar>q\<bar> \<le> \<bar>q\<bar>" using rat_log2_bounds(1) assms(1) by simp
  also have "\<bar>q\<bar> = of_int \<bar>m\<bar> * 2 powi e" by (simp add: q abs_mult)
  also have "\<dots> \<le> 2 ^ 53 * 2 powi e"
  proof (rule mult_right_mono)
    have "of_int \<bar>m\<bar> \<le> (of_int (2 ^ 53) :: rat)" using m by (simp only: of_int_le_iff)
    then show "of_int \<bar>m\<bar> \<le> (2 ^ 53 :: rat)" by simp
  qed simp
  also have "\<dots> = 2 powi (e + 53)" by (simp only: powi2_add53)
  finally have "rat_log2 \<bar>q\<bar> \<le> e + 53" by (rule pow_le_le)
  with lt have e53: "rat_log2 \<bar>q\<bar> = e + 53" by simp
  have "of_int \<bar>m\<bar> * 2 powi e \<ge> (2 powi (e + 53) :: rat)"
    using rat_log2_bounds(1) [of "\<bar>q\<bar>"] assms(1) e53 by (simp add: q abs_mult)
  then have "of_int \<bar>m\<bar> \<ge> (2 ^ 53 :: rat)"
    unfolding powi2_add53 by (rule mult_right_le_imp_le) (rule powi2_pos)
  then have "(of_int (2 ^ 53) :: rat) \<le> of_int \<bar>m\<bar>" by simp
  then have "2 ^ 53 \<le> \<bar>m\<bar>" by (simp only: of_int_le_iff)
  with m have "m = 2 ^ 53 \<or> m = - (2 ^ 53)" by (auto simp: abs_if split: if_splits)
  then have "\<exists>n. (of_int m :: rat) = 2 * of_int n"
  proof
    assume "m = 2 ^ 53"
    then show ?thesis by (intro exI [of _ "2 ^ 52"]) simp
  next
    assume "m = - (2 ^ 53)"
    then show ?thesis by (intro exI [of _ "- (2 ^ 52)"]) simp
  qed
  then obtain n where n: "(of_int m :: rat) = 2 * of_int n" by blast
  have "f64_exp q = e + 1" by (simp add: fe e53)
  then have "q / 2 powi f64_exp q = of_int m * 2 powi e / 2 powi (e + 1)" by (metis q)
  also have "\<dots> = of_int n" by (simp add: n power_int_add)
  finally show ?thesis by blast
qed

theorem rnd_exact: "representable q \<Longrightarrow> rnd q = Fin q"
proof (cases "q = 0")
  case False
  assume r: "representable q"
  then obtain m e where q: "q = of_int m * 2 powi e" "\<bar>m\<bar> \<le> 2 ^ 53" "- 1074 \<le> e"
    by (auto simp: representable_def)
  obtain n where n: "q / 2 powi f64_exp q = of_int n"
    using representable_multiple [OF False q] by blast
  then have "q = of_int n * 2 powi f64_exp q" by (simp add: divide_eq_eq)
  moreover have "\<bar>q\<bar> \<le> f64_max" using r by (simp add: representable_def)
  ultimately show ?thesis using False n
    by (simp add: rnd_def Let_def) (metis abs_le_iff leD minus_le_iff)
qed (simp add: rnd_def)

lemma int_le_f64_max: "\<bar>n\<bar> \<le> 2 ^ 53 \<Longrightarrow> (\<bar>of_int n\<bar> :: rat) \<le> f64_max"
proof -
  assume "\<bar>n\<bar> \<le> 2 ^ 53"
  then have "(\<bar>of_int n\<bar> :: rat) \<le> of_int (2 ^ 53)" by (simp only: of_int_abs [symmetric] of_int_le_iff)
  also have "\<dots> \<le> f64_max" by (simp add: f64_max_def)
  finally show ?thesis .
qed

lemma representable_int: "\<bar>n\<bar> \<le> 2 ^ 53 \<Longrightarrow> representable (of_int n)"
  unfolding representable_def
  by (intro conjI exI [of _ n] exI [of _ 0]) (auto intro: int_le_f64_max)

corollary rnd_int: "\<bar>n\<bar> \<le> 2 ^ 53 \<Longrightarrow> rnd (of_int n) = Fin (of_int n)"
  by (simp add: rnd_exact representable_int)

text \<open>Rounding keeps the sign: it never turns a value that is not negative into one that is.\<close>

definition f64_nonneg :: "f64 \<Rightarrow> bool" where
  "f64_nonneg x = (case x of Fin q \<Rightarrow> 0 \<le> q | PInf \<Rightarrow> True | _ \<Rightarrow> False)"

lemma rnd_nonneg: "0 \<le> q \<Longrightarrow> f64_nonneg (rnd q)"
proof -
  assume q: "0 \<le> q"
  then have "0 \<le> round_half_even (q / 2 powi f64_exp q)"
    by (intro round_half_even_nonneg) simp
  then have "0 \<le> (of_int (round_half_even (q / 2 powi f64_exp q)) :: rat) * 2 powi f64_exp q"
    by (intro mult_nonneg_nonneg) auto
  moreover have "0 \<le> f64_max" by (simp add: f64_max_def)
  ultimately show ?thesis by (auto simp: rnd_def Let_def f64_nonneg_def)
qed

lemma rnd_not_NaN [simp]: "rnd q \<noteq> NaN"
  by (simp add: rnd_def Let_def)

text \<open>
  Evaluating a rounding without computing logarithms: give the binade of the value.
\<close>

lemma rat_log2_unique: "2 powi e \<le> q \<Longrightarrow> q < 2 powi (e + 1) \<Longrightarrow> rat_log2 q = e"
proof -
  assume lo: "2 powi e \<le> q" and hi: "q < 2 powi (e + 1)"
  then have q: "0 < q" using powi2_pos [of e] by linarith
  have "e < rat_log2 q + 1" using lo rat_log2_bounds(2) [OF q] by (intro pow_lt_lt) linarith
  moreover have "rat_log2 q < e + 1" using hi rat_log2_bounds(1) [OF q] by (intro pow_lt_lt) linarith
  ultimately show ?thesis by simp
qed

lemma rnd_eval:
  assumes "2 powi e \<le> \<bar>q\<bar>" and "\<bar>q\<bar> < 2 powi (e + 1)" and "- 1022 \<le> e" and "e \<le> 970"
    and n: "round_half_even (q / 2 powi (e - 52)) = n"
  shows "rnd q = (if f64_max < of_int n * 2 powi (e - 52) then PInf
    else if of_int n * 2 powi (e - 52) < - f64_max then NInf else Fin (of_int n * 2 powi (e - 52)))"
proof -
  have q: "q \<noteq> 0" using assms(1) powi2_pos [of e] by (metis abs_zero leD)
  have "f64_exp q = e - 52" using rat_log2_unique [OF assms(1,2)] assms(3) by (simp add: f64_exp_def)
  with q n show ?thesis by (simp add: rnd_def Let_def)
qed

lemma rnd_dyadic:
  "\<bar>m\<bar> \<le> 2 ^ 53 \<Longrightarrow> k \<le> 1074 \<Longrightarrow> rnd (of_int m / 2 ^ k) = Fin (of_int m / 2 ^ k)"
proof -
  assume m: "\<bar>m\<bar> \<le> 2 ^ 53" and k: "k \<le> 1074"
  have eq: "of_int m / 2 ^ k = (of_int m * 2 powi (- int k) :: rat)"
    by (simp add: power_int_minus divide_inverse)
  have "\<bar>of_int m / 2 ^ k\<bar> \<le> (\<bar>of_int m\<bar> :: rat)"
    by (simp add: abs_divide divide_le_eq mult_le_cancel_left1)
  also have "\<dots> \<le> f64_max" using int_le_f64_max [OF m] .
  finally have "\<bar>of_int m / 2 ^ k\<bar> \<le> f64_max" .
  then show ?thesis
    using m k eq unfolding representable_def [symmetric]
    by (intro rnd_exact) (unfold representable_def,
        intro conjI exI [of _ m] exI [of _ "- int k"], simp_all)
qed

lemma rnd_0 [simp]: "rnd 0 = Fin 0"
  by (simp add: rnd_def)

lemma rnd_numeral [simp]: "numeral n \<le> (2 ^ 53 :: int) \<Longrightarrow> rnd (numeral n) = Fin (numeral n)"
  using rnd_int [of "numeral n"] by simp

lemma rnd_1 [simp]: "rnd 1 = Fin 1"
  using rnd_int [of 1] by simp

section \<open>Bounds on rounded values\<close>

lemma round_half_even_le: "x \<le> of_int n \<Longrightarrow> round_half_even x \<le> n"
proof -
  assume x: "x \<le> of_int n"
  show ?thesis
  proof (cases "x - of_int \<lfloor>x\<rfloor> < 1 / 2")
    case True
    moreover have "\<lfloor>x\<rfloor> \<le> n" using floor_mono [OF x] by simp
    ultimately show ?thesis by (simp add: round_half_even_def Let_def)
  next
    case False
    then have "of_int \<lfloor>x\<rfloor> < x" by linarith
    with x have "(of_int \<lfloor>x\<rfloor> :: rat) < of_int n" by linarith
    then have "\<lfloor>x\<rfloor> + 1 \<le> n" by simp
    then show ?thesis by (auto simp: round_half_even_def Let_def)
  qed
qed

lemma round_half_even_ge: "of_int n \<le> x \<Longrightarrow> n \<le> round_half_even x"
proof -
  assume "of_int n \<le> x"
  then have "n \<le> \<lfloor>x\<rfloor>" by (simp add: le_floor_iff)
  then show ?thesis by (auto simp: round_half_even_def Let_def)
qed

lemma scaled_bound: "q \<noteq> 0 \<Longrightarrow> \<bar>q / 2 powi f64_exp q\<bar> \<le> 2 ^ 53"
proof -
  assume "q \<noteq> 0"
  then have q: "0 < \<bar>q\<bar>" by simp
  have "\<bar>q\<bar> < 2 powi (rat_log2 \<bar>q\<bar> + 1)" using rat_log2_bounds(2) [OF q] .
  also have "\<dots> \<le> 2 powi (f64_exp q + 53)" by (rule power_int_increasing) (auto simp: f64_exp_def)
  also have "\<dots> = 2 ^ 53 * 2 powi f64_exp q" by (rule powi2_add53)
  finally show ?thesis by (simp add: abs_divide divide_le_eq)
qed

text \<open>What rounding yields is representable, so rounding is idempotent.\<close>

theorem rnd_representable: "rnd q = Fin r \<Longrightarrow> representable r"
proof (cases "q = 0")
  case True
  assume "rnd q = Fin r"
  with True show ?thesis using representable_int [of 0] by simp
next
  case False
  assume r: "rnd q = Fin r"
  define n where "n = round_half_even (q / 2 powi f64_exp q)"
  have b: "q / 2 powi f64_exp q \<le> of_int (2 ^ 53)" "of_int (- (2 ^ 53)) \<le> q / 2 powi f64_exp q"
    using scaled_bound [OF False] by (simp_all only: abs_le_iff, simp_all)
  have n: "\<bar>n\<bar> \<le> 2 ^ 53"
    using round_half_even_le [OF b(1)] round_half_even_ge [OF b(2)] by (simp add: n_def)
  have "r = of_int n * 2 powi f64_exp q" and "\<bar>r\<bar> \<le> f64_max"
    using r False by (auto simp: rnd_def Let_def n_def split: if_splits)
  moreover have "- 1074 \<le> f64_exp q" by (simp add: f64_exp_def)
  ultimately show ?thesis using n by (auto simp: representable_def)
qed

lemma powi2_int: "0 \<le> e \<Longrightarrow> (2::rat) powi e = of_int (2 ^ nat e)"
  by (simp add: power_int_def)

text \<open>A value between 0 and a power of two rounds to a finite value between them.\<close>

lemma rnd_upto:
  assumes q: "0 < q" and hi: "q \<le> 2 ^ k" and k: "k \<le> 1000"
  obtains r where "rnd q = Fin r" and "0 \<le> r" and "r \<le> 2 ^ k"
    and "r = of_int (round_half_even (q / 2 powi f64_exp q)) * 2 powi f64_exp q"
proof -
  have "2 powi rat_log2 q \<le> (2::rat) powi int k"
    using rat_log2_bounds(1) [OF q] hi by (simp add: power_int_of_nat)
  then have lk: "rat_log2 q \<le> int k" by (rule pow_le_le)
  then have ek: "f64_exp q \<le> int k" using q by (simp add: f64_exp_def)
  define u where "u = (2::rat) powi f64_exp q"
  have u: "0 < u" by (simp add: u_def)
  have "(2::rat) ^ k = 2 powi (int k - f64_exp q) * u"
    by (simp add: u_def power_int_add [symmetric] power_int_of_nat)
  then have ku: "(2::rat) ^ k = of_int (2 ^ nat (int k - f64_exp q)) * u" using ek by (simp add: powi2_int)
  have "q / u \<le> of_int (2 ^ nat (int k - f64_exp q))" using hi u by (simp add: ku divide_le_eq)
  then have "round_half_even (q / u) \<le> 2 ^ nat (int k - f64_exp q)" by (rule round_half_even_le)
  then have "(of_int (round_half_even (q / u)) :: rat) \<le> of_int (2 ^ nat (int k - f64_exp q))" by (simp only: of_int_le_iff)
  then have rk: "of_int (round_half_even (q / u)) * u \<le> 2 ^ k" unfolding ku using u by (intro mult_right_mono) auto
  have "0 \<le> q / u" using q u by simp
  then have r0: "0 \<le> of_int (round_half_even (q / u)) * u"
    using u round_half_even_nonneg by (intro mult_nonneg_nonneg) auto
  have "(2::rat) ^ k \<le> 2 ^ 1000" using k by (intro power_increasing) auto
  also have "\<dots> \<le> f64_max" by (simp add: f64_max_def)
  finally have "rnd q = Fin (of_int (round_half_even (q / u)) * u)"
    using q rk r0 by (simp add: rnd_def Let_def u_def [symmetric])
  then show thesis using r0 rk that u_def by blast
qed

text \<open>When it is not too small to be normal, the result is positive.\<close>

lemma rnd_between:
  assumes lo: "2 powi (- 1022) \<le> q" and hi: "q \<le> 2 ^ k" and k: "k \<le> 1000"
  obtains r where "rnd q = Fin r" and "0 < r" and "r \<le> 2 ^ k" and "2 powi f64_exp q \<le> r"
proof -
  have q: "0 < q" using lo powi2_pos [of "- 1022"] by linarith
  define u where "u = (2::rat) powi f64_exp q"
  have u: "0 < u" by (simp add: u_def)
  have "2 powi (- 1022) < (2::rat) powi (rat_log2 q + 1)" using lo rat_log2_bounds(2) [OF q] by linarith
  then have "- 1022 < rat_log2 q + 1" by (rule pow_lt_lt)
  then have eu: "f64_exp q = rat_log2 q - 52" using q by (simp add: f64_exp_def)
  have "u \<le> 2 powi rat_log2 q" unfolding u_def by (rule power_int_increasing) (auto simp: eu)
  also have "\<dots> \<le> q" by (rule rat_log2_bounds(1) [OF q])
  finally have "of_int 1 \<le> q / u" using u by (simp add: le_divide_eq)
  then have n1: "1 \<le> round_half_even (q / u)" by (rule round_half_even_ge)
  then have "of_int 1 \<le> (of_int (round_half_even (q / u)) :: rat)" by (simp only: of_int_le_iff)
  then have "u \<le> of_int (round_half_even (q / u)) * u" using u by simp
  with u rnd_upto [OF q hi k] that show thesis unfolding u_def by (metis order_less_le_trans)
qed

section \<open>The operations\<close>

fun fneg :: "f64 \<Rightarrow> f64" where
  "fneg NaN = NaN"
| "fneg PInf = NInf"
| "fneg NInf = PInf"
| "fneg (Fin a) = Fin (- a)"

fun fadd :: "f64 \<Rightarrow> f64 \<Rightarrow> f64" where
  "fadd (Fin a) (Fin b) = rnd (a + b)"
| "fadd NaN y = NaN"
| "fadd x NaN = NaN"
| "fadd PInf NInf = NaN"
| "fadd NInf PInf = NaN"
| "fadd PInf y = PInf"
| "fadd NInf y = NInf"
| "fadd x PInf = PInf"
| "fadd x NInf = NInf"

definition fsub :: "f64 \<Rightarrow> f64 \<Rightarrow> f64" where
  "fsub x y = fadd x (fneg y)"

definition fsign :: "f64 \<Rightarrow> int" where
  "fsign x = (case x of PInf \<Rightarrow> 1 | NInf \<Rightarrow> -1 | Fin a \<Rightarrow> (if 0 < a then 1 else if a < 0 then -1 else 0) | NaN \<Rightarrow> 0)"

definition finf :: "int \<Rightarrow> f64" where
  "finf s = (if 0 < s then PInf else if s < 0 then NInf else NaN)"

fun fmul :: "f64 \<Rightarrow> f64 \<Rightarrow> f64" where
  "fmul (Fin a) (Fin b) = rnd (a * b)"
| "fmul NaN y = NaN"
| "fmul x NaN = NaN"
| "fmul x y = finf (fsign x * fsign y)"

text \<open>Division by a zero is an infinity of the dividend's sign, and NaN for 0/0.\<close>

fun fdiv :: "f64 \<Rightarrow> f64 \<Rightarrow> f64" where
  "fdiv (Fin a) (Fin b) = (if b = 0 then finf (fsign (Fin a)) else rnd (a / b))"
| "fdiv NaN y = NaN"
| "fdiv x NaN = NaN"
| "fdiv (Fin a) y = Fin 0"
| "fdiv x (Fin b) = finf (fsign x * (if b < 0 then -1 else 1))"
| "fdiv x y = NaN"

fun flt :: "f64 \<Rightarrow> f64 \<Rightarrow> bool" where
  "flt (Fin a) (Fin b) \<longleftrightarrow> a < b"
| "flt NaN y \<longleftrightarrow> False"
| "flt x NaN \<longleftrightarrow> False"
| "flt NInf y \<longleftrightarrow> y \<noteq> NInf"
| "flt x PInf \<longleftrightarrow> x \<noteq> PInf"
| "flt x y \<longleftrightarrow> False"

definition feq :: "f64 \<Rightarrow> f64 \<Rightarrow> bool" where
  "feq x y \<longleftrightarrow> x = y \<and> x \<noteq> NaN"

definition fle :: "f64 \<Rightarrow> f64 \<Rightarrow> bool" where
  "fle x y \<longleftrightarrow> flt x y \<or> feq x y"

text \<open>\<open>math.Max\<close>: an infinity wins over NaN, NaN over everything else.\<close>

definition fmax :: "f64 \<Rightarrow> f64 \<Rightarrow> f64" where
  "fmax x y = (if x = PInf \<or> y = PInf then PInf else if x = NaN \<or> y = NaN then NaN
     else if flt y x then x else y)"

text \<open>\<open>math.Trunc\<close>; the conversion \<open>float64(n)\<close> of an integer.\<close>

definition rat_trunc :: "rat \<Rightarrow> int" where
  "rat_trunc q = (if 0 \<le> q then \<lfloor>q\<rfloor> else \<lceil>q\<rceil>)"

fun ftrunc :: "f64 \<Rightarrow> f64" where
  "ftrunc (Fin a) = Fin (of_int (rat_trunc a))"
| "ftrunc x = x"

definition f64_of_int :: "int \<Rightarrow> f64" where
  "f64_of_int n = rnd (of_int n)"

definition isNaN :: "f64 \<Rightarrow> bool" where
  "isNaN x \<longleftrightarrow> x = NaN"

lemma f64_of_int_exact [simp]: "\<bar>n\<bar> \<le> 2 ^ 53 \<Longrightarrow> f64_of_int n = Fin (of_int n)"
  by (simp add: f64_of_int_def rnd_int)

lemma fadd_int: "\<bar>a + b\<bar> \<le> 2 ^ 53 \<Longrightarrow> fadd (Fin (of_int a)) (Fin (of_int b)) = Fin (of_int (a + b))"
  using rnd_int [of "a + b"] by simp

lemma f64_nonneg_of_int: "0 \<le> n \<Longrightarrow> f64_nonneg (f64_of_int n)"
  by (simp add: f64_of_int_def rnd_nonneg)

lemma f64_nonneg_fmul: "0 \<le> a \<Longrightarrow> 0 \<le> b \<Longrightarrow> f64_nonneg (fmul (Fin a) (Fin b))"
  by (simp add: rnd_nonneg)

lemma f64_nonneg_fdiv: "0 \<le> a \<Longrightarrow> 0 < b \<Longrightarrow> f64_nonneg (fdiv (Fin a) (Fin b))"
  by (simp add: rnd_nonneg)

end
