(* ===== verification/Metrics_Model.thy ===== *)
theory Metrics_Model
  imports Prelude Float64
begin

text \<open>
  The data model of the collector (\<open>collector/internal/metrics\<close>): values, labelled values,
  metric sets, batches, resource keys, the label descriptors of \<open>labels.go\<close> and the metric
  descriptors of \<open>metrics.go\<close>. A struct is a record with the source's field names; the
  functions of \<open>Metric\<close> that read a cAdvisor sample are not modelled.
\<close>

named_theorems label_defs "the label keys"
named_theorems metric_defs "the metric descriptors"

section \<open>Types (types.go, set.go, batch.go)\<close>

type_synonym int64 = "64 word"

text \<open>A time is a number of nanoseconds since the Unix epoch; a duration a number of nanoseconds.\<close>

type_synonym gotime = int
type_synonym duration = int

definition Second :: duration where "Second = 1000000000"
definition Minute :: duration where "Minute = 60 * Second"

text \<open>\<open>Time.UnixNano\<close>, \<open>Time.Unix\<close>, \<open>Time.Sub\<close> (which saturates), \<open>Duration.Seconds\<close> and
  \<open>Duration.Minutes\<close>, as the standard library computes them; the zero time is year 1.\<close>

definition UnixNano :: "gotime \<Rightarrow> int64" where "UnixNano t = word_of_int t"
definition Unix :: "gotime \<Rightarrow> int64" where "Unix t = word_of_int (t div Second)"

definition time_sub :: "gotime \<Rightarrow> gotime \<Rightarrow> duration" where
  "time_sub t u = max (- (2 ^ 63)) (min (2 ^ 63 - 1) (t - u))"

definition duration_in :: "duration \<Rightarrow> duration \<Rightarrow> f64" where
  "duration_in unit d =
     fadd (f64_of_int (d sdiv unit)) (fdiv (f64_of_int (d smod unit)) (f64_of_int unit))"

definition Seconds :: "duration \<Rightarrow> f64" where "Seconds d = duration_in Second d"
definition Minutes :: "duration \<Rightarrow> f64" where "Minutes d = duration_in Minute d"

definition zero_time :: gotime where "zero_time = -62135596800 * Second"

definition f64_of_int64 :: "int64 \<Rightarrow> f64" where "f64_of_int64 w = f64_of_int (sint w)"

lemma sint_word64: "- (2 ^ 63) \<le> k \<Longrightarrow> k < 2 ^ 63 \<Longrightarrow> sint (word_of_int k :: int64) = k"
  by (simp add: int_word_sint)

datatype mtype = Cumulative | Gauge | Delta

fun Type_String :: "mtype \<Rightarrow> string" where
  "Type_String Cumulative = ''cumulative''"
| "Type_String Gauge = ''gauge''"
| "Type_String Delta = ''delta''"

datatype unit_of_measure = Count | Bytes | Milliseconds | Nanoseconds | Millicores

fun Unit_String :: "unit_of_measure \<Rightarrow> string" where
  "Unit_String Bytes = ''bytes''"
| "Unit_String Milliseconds = ''ms''"
| "Unit_String Nanoseconds = ''ns''"
| "Unit_String Millicores = ''millicores''"
| "Unit_String Count = ''''"

text \<open>\<open>ValueType\<close> is an \<open>int8\<close> with two named values; the source has branches for the others.\<close>

datatype ValueType = ValueInt64 | ValueFloat | ValueTypeOther nat

fun ValueType_String :: "ValueType \<Rightarrow> string" where
  "ValueType_String ValueInt64 = ''int64''"
| "ValueType_String ValueFloat = ''double''"
| "ValueType_String (ValueTypeOther _) = ''''"

record mvalue =
  IntValue :: int64
  FloatValue :: f64
  ValueTypeOf :: ValueType

text \<open>\<open>GetValue\<close> returns an \<open>interface{}\<close> that holds an integer, a float or nothing.\<close>

datatype anyval = AnyInt int64 | AnyFloat f64 | AnyNil

definition GetValue :: "mvalue \<Rightarrow> anyval" where
  "GetValue v = (if ValueInt64 = ValueTypeOf v then AnyInt (IntValue v)
     else if ValueFloat = ValueTypeOf v then AnyFloat (FloatValue v) else AnyNil)"

definition IsZeroValue :: "mvalue \<Rightarrow> bool" where
  "IsZeroValue v = (if ValueInt64 = ValueTypeOf v then IntValue v = 0
     else if ValueFloat = ValueTypeOf v then feq (FloatValue v) (Fin 0) else True)"

text \<open>\<open>intValue\<close> and the value \<open>setFloat\<close> stores (processors).\<close>

definition intValue :: "int64 \<Rightarrow> mvalue" where
  "intValue n = \<lparr>IntValue = n, FloatValue = Fin 0, ValueTypeOf = ValueInt64\<rparr>"

definition floatValue :: "f64 \<Rightarrow> mvalue" where
  "floatValue x = \<lparr>IntValue = 0, FloatValue = x, ValueTypeOf = ValueFloat\<rparr>"

lemma value_sel [simp]:
  "IntValue (intValue n) = n" "ValueTypeOf (intValue n) = ValueInt64"
  "FloatValue (floatValue x) = x" "ValueTypeOf (floatValue x) = ValueFloat"
  by (simp_all add: intValue_def floatValue_def)

type_synonym tagmap = "(string, string) gomap"

record LabeledValue =
  lvName :: string
  lvLabels :: tagmap
  lvValue :: mvalue

record mset =
  CollectionStartTime :: gotime
  EntityCreateTime :: gotime
  ScrapeTime :: gotime
  Values :: "(string, mvalue) gomap"
  Labels :: tagmap
  LabeledValues :: "LabeledValue list"

definition emptySet :: mset where
  "emptySet = \<lparr>CollectionStartTime = zero_time, EntityCreateTime = zero_time,
     ScrapeTime = zero_time, Values = [], Labels = [], LabeledValues = []\<rparr>"

definition wf_set :: "mset \<Rightarrow> bool" where
  "wf_set s \<longleftrightarrow> wf_map (Values s) \<and> wf_map (Labels s) \<and>
     list_all (\<lambda>lv. wf_map (lvLabels lv)) (LabeledValues s)"

text \<open>\<open>FindLabels\<close>: the labels of a metric of the set, and whether the metric was found.\<close>

definition FindLabels :: "mset \<Rightarrow> string \<Rightarrow> tagmap \<times> bool" where
  "FindLabels s name =
     (if mhas (Values s) name then (Labels s, True)
      else case find (\<lambda>lv. lvName lv = name) (LabeledValues s) of
             Some lv \<Rightarrow> (mput_all (Labels s) (mput_all (lvLabels lv) []), True)
           | None \<Rightarrow> ([], False))"

definition Set_Points :: "mset \<Rightarrow> nat" where
  "Set_Points s = length (Values s) + length (LabeledValues s)"

lemma mget_FindLabels_Values: "mhas (Values s) name \<Longrightarrow> FindLabels s name = (Labels s, True)"
  by (simp add: FindLabels_def)

lemma mget_FindLabels:
  assumes "wf_set s" and "\<not> mhas (Values s) name"
    and f: "find (\<lambda>lv. lvName lv = name) (LabeledValues s) = Some lv"
  shows "mget (fst (FindLabels s name)) k =
    (case mget (Labels s) k of Some v \<Rightarrow> Some v | None \<Rightarrow> mget (lvLabels lv) k)"
proof -
  from f have "lv \<in> set (LabeledValues s)" by (auto simp: find_Some_iff)
  with assms(1) have "wf_map (lvLabels lv)" by (auto simp: wf_set_def list_all_iff)
  with assms show ?thesis by (auto simp: FindLabels_def wf_set_def split: option.splits)
qed

section \<open>Resource keys (resource_key.go)\<close>

type_synonym ResourceKey = string

definition PodContainerKey :: "string \<Rightarrow> string \<Rightarrow> string \<Rightarrow> ResourceKey" where
  "PodContainerKey namespace podName containerName =
     ''namespace:'' @ namespace @ ''/pod:'' @ podName @ ''/container:'' @ containerName"

definition PodKey :: "string \<Rightarrow> string \<Rightarrow> ResourceKey" where
  "PodKey namespace podName = ''namespace:'' @ namespace @ ''/pod:'' @ podName"

definition WorkloadStatusPodKey :: "string \<Rightarrow> string \<Rightarrow> ResourceKey" where
  "WorkloadStatusPodKey namespace podName = ''workloadStatus/namespace:'' @ namespace @ ''/pod:'' @ podName"

definition NamespaceKey :: "string \<Rightarrow> ResourceKey" where
  "NamespaceKey namespace = ''namespace:'' @ namespace"

definition NodeKey :: "string \<Rightarrow> ResourceKey" where
  "NodeKey node = ''node:'' @ node"

definition NodeContainerKey :: "string \<Rightarrow> string \<Rightarrow> ResourceKey" where
  "NodeContainerKey node container = ''node:'' @ node @ ''/container:'' @ container"

definition ClusterKey :: ResourceKey where
  "ClusterKey = ''cluster''"

definition Append :: "ResourceKey \<Rightarrow> ResourceKey \<Rightarrow> ResourceKey" where
  "Append s t = s @ t"

text \<open>
  The keys name a resource unambiguously as long as no name has a slash in it, which Kubernetes
  names never have.
\<close>

lemma append_sep_inject:
  assumes "c \<notin> set a" and "c \<notin> set b" and "a @ c # x = b @ c # y"
  shows "a = b \<and> x = y"
  using assms
proof (induction a arbitrary: b)
  case Nil
  then show ?case by (cases b) auto
next
  case (Cons d a)
  then show ?case by (cases b) auto
qed

lemma PodKey_inject:
  "CHR ''/'' \<notin> set ns \<Longrightarrow> CHR ''/'' \<notin> set ns' \<Longrightarrow> PodKey ns p = PodKey ns' p' \<longleftrightarrow> ns = ns' \<and> p = p'"
  using append_sep_inject [of "CHR ''/''" ns ns' "''pod:'' @ p" "''pod:'' @ p'"]
  by (auto simp: PodKey_def)

lemma PodContainerKey_inject:
  assumes "CHR ''/'' \<notin> set ns" "CHR ''/'' \<notin> set ns'" "CHR ''/'' \<notin> set p" "CHR ''/'' \<notin> set p'"
  shows "PodContainerKey ns p c = PodContainerKey ns' p' c' \<longleftrightarrow> ns = ns' \<and> p = p' \<and> c = c'"
  using append_sep_inject [of "CHR ''/''" ns ns' "''pod:'' @ p @ ''/container:'' @ c" "''pod:'' @ p' @ ''/container:'' @ c'"]
    append_sep_inject [of "CHR ''/''" p p' "''container:'' @ c" "''container:'' @ c'"] assms
  by (auto simp: PodContainerKey_def)

lemma PodKey_not_PodContainerKey:
  assumes "CHR ''/'' \<notin> set ns" "CHR ''/'' \<notin> set ns'" "CHR ''/'' \<notin> set p"
  shows "PodKey ns p \<noteq> PodContainerKey ns' p' c'"
proof
  assume "PodKey ns p = PodContainerKey ns' p' c'"
  then have "p = p' @ ''/container:'' @ c'"
    using append_sep_inject [of "CHR ''/''" ns ns' "''pod:'' @ p" "''pod:'' @ p' @ ''/container:'' @ c'"] assms
    by (auto simp: PodKey_def PodContainerKey_def)
  with assms(3) show False by simp
qed

lemma NamespaceKey_inject [simp]: "NamespaceKey a = NamespaceKey b \<longleftrightarrow> a = b"
  by (simp add: NamespaceKey_def)

lemma NodeKey_inject [simp]: "NodeKey a = NodeKey b \<longleftrightarrow> a = b"
  by (simp add: NodeKey_def)

lemma key_kinds_differ [simp]:
  "NamespaceKey a \<noteq> ClusterKey" "ClusterKey \<noteq> NamespaceKey a"
  "NodeKey b \<noteq> ClusterKey" "ClusterKey \<noteq> NodeKey b"
  "NamespaceKey a \<noteq> NodeKey b" "NodeKey b \<noteq> NamespaceKey a"
  "PodKey n p \<noteq> ClusterKey" "ClusterKey \<noteq> PodKey n p"
  "PodKey n p \<noteq> NodeKey b" "NodeKey b \<noteq> PodKey n p"
  by (simp_all add: NamespaceKey_def ClusterKey_def NodeKey_def PodKey_def)

section \<open>Labels (labels.go)\<close>

record LabelDescriptor =
  LabelKey :: string
  LabelDescription :: string

definition LabelMetricSetType :: LabelDescriptor where
  [label_defs]: "LabelMetricSetType = \<lparr>LabelKey = ''type'',
     LabelDescription = ''Type of the metrics set (container, pod, namespace, node, cluster)''\<rparr>"

definition MetricSetTypeSystemContainer :: string where
  [label_defs]: "MetricSetTypeSystemContainer = ''sys_container''"

definition MetricSetTypePodContainer :: string where
  [label_defs]: "MetricSetTypePodContainer = ''pod_container''"

definition MetricSetTypePod :: string where
  [label_defs]: "MetricSetTypePod = ''pod''"

definition MetricSetTypeNamespace :: string where
  [label_defs]: "MetricSetTypeNamespace = ''ns''"

definition MetricSetTypeNode :: string where
  [label_defs]: "MetricSetTypeNode = ''node''"

definition MetricSetTypeCluster :: string where
  [label_defs]: "MetricSetTypeCluster = ''cluster''"

definition MetricSetTypePersistentVolume :: string where
  [label_defs]: "MetricSetTypePersistentVolume = ''persistent_volume''"

definition LabelCluster :: LabelDescriptor where
  [label_defs]: "LabelCluster = \<lparr>LabelKey = ''cluster'',
     LabelDescription = ''The name of the kubernetes cluster''\<rparr>"

definition LabelPodId :: LabelDescriptor where
  [label_defs]: "LabelPodId = \<lparr>LabelKey = ''pod_id'',
     LabelDescription = ''The unique ID of the pod''\<rparr>"

definition LabelPodName :: LabelDescriptor where
  [label_defs]: "LabelPodName = \<lparr>LabelKey = ''pod_name'',
     LabelDescription = ''The name of the pod''\<rparr>"

definition LabelNamespaceName :: LabelDescriptor where
  [label_defs]: "LabelNamespaceName = \<lparr>LabelKey = ''namespace_name'',
     LabelDescription = ''The name of the namespace''\<rparr>"

definition LabelWorkloadName :: LabelDescriptor where
  [label_defs]: "LabelWorkloadName = \<lparr>LabelKey = ''workload_name'',
     LabelDescription = ''Workload name, derived from top level Deployment or DaemonSet''\<rparr>"

definition LabelWorkloadKind :: LabelDescriptor where
  [label_defs]: "LabelWorkloadKind = \<lparr>LabelKey = ''workload_kind'',
     LabelDescription = ''Workload Kind, derived from top level Deployment or DaemonSet''\<rparr>"

definition LabelDesired :: LabelDescriptor where
  [label_defs]: "LabelDesired = \<lparr>LabelKey = ''desired'',
     LabelDescription = ''The desired number for the Pod''\<rparr>"

definition LabelAvailable :: LabelDescriptor where
  [label_defs]: "LabelAvailable = \<lparr>LabelKey = ''available'',
     LabelDescription = ''The available number for the Pod''\<rparr>"

definition LabelReason :: LabelDescriptor where
  [label_defs]: "LabelReason = \<lparr>LabelKey = ''reason'',
     LabelDescription = ''The failure reason for the Pod''\<rparr>"

definition LabelMessage :: LabelDescriptor where
  [label_defs]: "LabelMessage = \<lparr>LabelKey = ''message'',
     LabelDescription = ''The failure message for the Pod''\<rparr>"

definition LabelPodNamespaceUID :: LabelDescriptor where
  [label_defs]: "LabelPodNamespaceUID = \<lparr>LabelKey = ''namespace_id'',
     LabelDescription = ''The UID of namespace of the pod''\<rparr>"

definition LabelContainerName :: LabelDescriptor where
  [label_defs]: "LabelContainerName = \<lparr>LabelKey = ''container_name'',
     LabelDescription = ''User-provided name of the container or full container name for system containers''\<rparr>"

definition LabelLabels :: LabelDescriptor where
  [label_defs]: "LabelLabels = \<lparr>LabelKey = ''labels'',
     LabelDescription = ''Comma-separated list of user-provided labels''\<rparr>"

definition LabelNodename :: LabelDescriptor where
  [label_defs]: "LabelNodename = \<lparr>LabelKey = ''nodename'',
     LabelDescription = ''nodename where the container ran''\<rparr>"

definition LabelNodeRole :: LabelDescriptor where
  [label_defs]: "LabelNodeRole = \<lparr>LabelKey = ''node_role'',
     LabelDescription = ''Node role worker or control-plane''\<rparr>"

definition LabelHostname :: LabelDescriptor where
  [label_defs]: "LabelHostname = \<lparr>LabelKey = ''hostname'',
     LabelDescription = ''Hostname where the container ran''\<rparr>"

definition LabelResourceID :: LabelDescriptor where
  [label_defs]: "LabelResourceID = \<lparr>LabelKey = ''resource_id'',
     LabelDescription = ''Identifier(s) specific to a metric''\<rparr>"

definition LabelHostID :: LabelDescriptor where
  [label_defs]: "LabelHostID = \<lparr>LabelKey = ''host_id'',
     LabelDescription = ''Identifier specific to a host. Set by cloud provider or user''\<rparr>"

definition LabelContainerBaseImage :: LabelDescriptor where
  [label_defs]: "LabelContainerBaseImage = \<lparr>LabelKey = ''container_base_image'',
     LabelDescription = ''User-defined image name that is run inside the container''\<rparr>"

definition LabelCustomMetricName :: LabelDescriptor where
  [label_defs]: "LabelCustomMetricName = \<lparr>LabelKey = ''custom_metric_name'',
     LabelDescription = ''User-defined name of the exported custom metric''\<rparr>"

definition LabelGCEResourceID :: LabelDescriptor where
  [label_defs]: "LabelGCEResourceID = \<lparr>LabelKey = ''resource_id'',
     LabelDescription = ''Resource id for nodes specific for GCE.''\<rparr>"

definition LabelGCEResourceType :: LabelDescriptor where
  [label_defs]: "LabelGCEResourceType = \<lparr>LabelKey = ''resource_type'',
     LabelDescription = ''Resource types for nodes specific for GCE.''\<rparr>"

definition LabelNodeSchedulable :: LabelDescriptor where
  [label_defs]: "LabelNodeSchedulable = \<lparr>LabelKey = ''schedulable'',
     LabelDescription = ''Node schedulable status.''\<rparr>"

definition LabelVolumeName :: LabelDescriptor where
  [label_defs]: "LabelVolumeName = \<lparr>LabelKey = ''volume_name'',
     LabelDescription = ''The name of the volume.''\<rparr>"

definition LabelPVCName :: LabelDescriptor where
  [label_defs]: "LabelPVCName = \<lparr>LabelKey = ''pvc_name'',
     LabelDescription = ''The name of the persistent volume claim.''\<rparr>"

definition LabelAcceleratorMake :: LabelDescriptor where
  [label_defs]: "LabelAcceleratorMake = \<lparr>LabelKey = ''make'',
     LabelDescription = ''Make of the accelerator (nvidia, amd, google etc.)''\<rparr>"

definition LabelAcceleratorModel :: LabelDescriptor where
  [label_defs]: "LabelAcceleratorModel = \<lparr>LabelKey = ''model'',
     LabelDescription = ''Model of the accelerator (tesla-p100, tesla-k80 etc.)''\<rparr>"

definition LabelAcceleratorID :: LabelDescriptor where
  [label_defs]: "LabelAcceleratorID = \<lparr>LabelKey = ''accelerator_id'',
     LabelDescription = ''ID of the accelerator''\<rparr>"

section \<open>Metric descriptors (metrics.go)\<close>

record MetricDescriptor =
  Name :: string
  Description :: string
  DescLabels :: "LabelDescriptor list"
  Type :: mtype
  DescValueType :: ValueType
  Units :: unit_of_measure

definition metricLabels :: "LabelDescriptor list" where
  "metricLabels = [LabelResourceID]"

definition acceleratorLabels :: "LabelDescriptor list" where
  "acceleratorLabels = [LabelAcceleratorMake, LabelAcceleratorModel, LabelAcceleratorID]"

definition MetricUptime :: MetricDescriptor where
  [metric_defs]: "MetricUptime = \<lparr>Name = ''uptime'',
     Description = ''Number of milliseconds since the container was started'',
     DescLabels = [], Type = Cumulative, DescValueType = ValueInt64, Units = Milliseconds\<rparr>"

definition MetricRestartCount :: MetricDescriptor where
  [metric_defs]: "MetricRestartCount = \<lparr>Name = ''restart_count'',
     Description = ''Number of container restarts'',
     DescLabels = [], Type = Cumulative, DescValueType = ValueInt64, Units = Count\<rparr>"

definition MetricCpuLoad :: MetricDescriptor where
  [metric_defs]: "MetricCpuLoad = \<lparr>Name = ''cpu/load'',
     Description = ''CPU load'',
     DescLabels = [], Type = Gauge, DescValueType = ValueInt64, Units = Count\<rparr>"

definition MetricCpuUsage :: MetricDescriptor where
  [metric_defs]: "MetricCpuUsage = \<lparr>Name = ''cpu/usage'',
     Description = ''Cumulative CPU usage on all cores'',
     DescLabels = [], Type = Cumulative, DescValueType = ValueInt64, Units = Nanoseconds\<rparr>"

definition MetricCpuUsageCores :: MetricDescriptor where
  [metric_defs]: "MetricCpuUsageCores = \<lparr>Name = ''cpu/usage_millicores'',
     Description = ''Cumulative CPU usage on all cores averaged over time window'',
     DescLabels = [], Type = Cumulative, DescValueType = ValueInt64, Units = Millicores\<rparr>"

definition MetricEphemeralStorageUsage :: MetricDescriptor where
  [metric_defs]: "MetricEphemeralStorageUsage = \<lparr>Name = ''ephemeral_storage/usage'',
     Description = ''Ephemeral storage usage'',
     DescLabels = [], Type = Gauge, DescValueType = ValueInt64, Units = Bytes\<rparr>"

definition MetricMemoryUsage :: MetricDescriptor where
  [metric_defs]: "MetricMemoryUsage = \<lparr>Name = ''memory/usage'',
     Description = ''Total memory usage'',
     DescLabels = [], Type = Gauge, DescValueType = ValueInt64, Units = Bytes\<rparr>"

definition MetricMemoryCache :: MetricDescriptor where
  [metric_defs]: "MetricMemoryCache = \<lparr>Name = ''memory/cache'',
     Description = ''Cache memory'',
     DescLabels = [], Type = Gauge, DescValueType = ValueInt64, Units = Bytes\<rparr>"

definition MetricMemoryRSS :: MetricDescriptor where
  [metric_defs]: "MetricMemoryRSS = \<lparr>Name = ''memory/rss'',
     Description = ''RSS memory'',
     DescLabels = [], Type = Gauge, DescValueType = ValueInt64, Units = Bytes\<rparr>"

definition MetricMemoryWorkingSet :: MetricDescriptor where
  [metric_defs]: "MetricMemoryWorkingSet = \<lparr>Name = ''memory/working_set'',
     Description = ''Total working set usage. Working set is the memory being used and not easily dropped by the kernel'',
     DescLabels = [], Type = Gauge, DescValueType = ValueInt64, Units = Bytes\<rparr>"

definition MetricMemoryPageFaults :: MetricDescriptor where
  [metric_defs]: "MetricMemoryPageFaults = \<lparr>Name = ''memory/page_faults'',
     Description = ''Number of page faults'',
     DescLabels = [], Type = Cumulative, DescValueType = ValueInt64, Units = Count\<rparr>"

definition MetricMemoryMajorPageFaults :: MetricDescriptor where
  [metric_defs]: "MetricMemoryMajorPageFaults = \<lparr>Name = ''memory/major_page_faults'',
     Description = ''Number of major page faults'',
     DescLabels = [], Type = Cumulative, DescValueType = ValueInt64, Units = Count\<rparr>"

definition MetricNetworkRx :: MetricDescriptor where
  [metric_defs]: "MetricNetworkRx = \<lparr>Name = ''network/rx'',
     Description = ''Cumulative number of bytes received over the network'',
     DescLabels = [], Type = Cumulative, DescValueType = ValueInt64, Units = Bytes\<rparr>"

definition MetricNetworkRxErrors :: MetricDescriptor where
  [metric_defs]: "MetricNetworkRxErrors = \<lparr>Name = ''network/rx_errors'',
     Description = ''Cumulative number of errors while receiving over the network'',
     DescLabels = [], Type = Cumulative, DescValueType = ValueInt64, Units = Count\<rparr>"

definition MetricNetworkTx :: MetricDescriptor where
  [metric_defs]: "MetricNetworkTx = \<lparr>Name = ''network/tx'',
     Description = ''Cumulative number of bytes sent over the network'',
     DescLabels = [], Type = Cumulative, DescValueType = ValueInt64, Units = Bytes\<rparr>"

definition MetricNetworkTxErrors :: MetricDescriptor where
  [metric_defs]: "MetricNetworkTxErrors = \<lparr>Name = ''network/tx_errors'',
     Description = ''Cumulative number of errors while sending over the network'',
     DescLabels = [], Type = Cumulative, DescValueType = ValueInt64, Units = Count\<rparr>"

definition MetricCpuRequest :: MetricDescriptor where
  [metric_defs]: "MetricCpuRequest = \<lparr>Name = ''cpu/request'',
     Description = ''CPU request (the guaranteed amount of resources) in millicores. This metric is Kubernetes specific.'',
     DescLabels = [], Type = Gauge, DescValueType = ValueInt64, Units = Count\<rparr>"

definition MetricCpuLimit :: MetricDescriptor where
  [metric_defs]: "MetricCpuLimit = \<lparr>Name = ''cpu/limit'',
     Description = ''CPU hard limit in millicores.'',
     DescLabels = [], Type = Gauge, DescValueType = ValueInt64, Units = Count\<rparr>"

definition MetricMemoryRequest :: MetricDescriptor where
  [metric_defs]: "MetricMemoryRequest = \<lparr>Name = ''memory/request'',
     Description = ''Memory request (the guaranteed amount of resources) in bytes. This metric is Kubernetes specific.'',
     DescLabels = [], Type = Gauge, DescValueType = ValueInt64, Units = Bytes\<rparr>"

definition MetricMemoryLimit :: MetricDescriptor where
  [metric_defs]: "MetricMemoryLimit = \<lparr>Name = ''memory/limit'',
     Description = ''Memory hard limit in bytes.'',
     DescLabels = [], Type = Gauge, DescValueType = ValueInt64, Units = Bytes\<rparr>"

definition MetricEphemeralStorageRequest :: MetricDescriptor where
  [metric_defs]: "MetricEphemeralStorageRequest = \<lparr>Name = ''ephemeral_storage/request'',
     Description = ''ephemeral storage request (the guaranteed amount of resources) in bytes. This metric is Kubernetes specific.'',
     DescLabels = [], Type = Gauge, DescValueType = ValueInt64, Units = Bytes\<rparr>"

definition MetricEphemeralStorageLimit :: MetricDescriptor where
  [metric_defs]: "MetricEphemeralStorageLimit = \<lparr>Name = ''ephemeral_storage/limit'',
     Description = ''ephemeral storage hard limit in bytes.'',
     DescLabels = [], Type = Gauge, DescValueType = ValueInt64, Units = Bytes\<rparr>"

definition MetricCpuUsageRate :: MetricDescriptor where
  [metric_defs]: "MetricCpuUsageRate = \<lparr>Name = ''cpu/usage_rate'',
     Description = ''CPU usage on all cores in millicores'',
     DescLabels = [], Type = Gauge, DescValueType = ValueInt64, Units = Count\<rparr>"

definition MetricMemoryPageFaultsRate :: MetricDescriptor where
  [metric_defs]: "MetricMemoryPageFaultsRate = \<lparr>Name = ''memory/page_faults_rate'',
     Description = ''Rate of page faults in counts per second'',
     DescLabels = [], Type = Gauge, DescValueType = ValueFloat, Units = Count\<rparr>"

definition MetricMemoryMajorPageFaultsRate :: MetricDescriptor where
  [metric_defs]: "MetricMemoryMajorPageFaultsRate = \<lparr>Name = ''memory/major_page_faults_rate'',
     Description = ''Rate of major page faults in counts per second'',
     DescLabels = [], Type = Gauge, DescValueType = ValueFloat, Units = Count\<rparr>"

definition MetricNetworkRxRate :: MetricDescriptor where
  [metric_defs]: "MetricNetworkRxRate = \<lparr>Name = ''network/rx_rate'',
     Description = ''Rate of bytes received over the network in bytes per second'',
     DescLabels = [], Type = Gauge, DescValueType = ValueFloat, Units = Count\<rparr>"

definition MetricNetworkRxErrorsRate :: MetricDescriptor where
  [metric_defs]: "MetricNetworkRxErrorsRate = \<lparr>Name = ''network/rx_errors_rate'',
     Description = ''Rate of errors sending over the network in errors per second'',
     DescLabels = [], Type = Gauge, DescValueType = ValueFloat, Units = Count\<rparr>"

definition MetricNetworkTxRate :: MetricDescriptor where
  [metric_defs]: "MetricNetworkTxRate = \<lparr>Name = ''network/tx_rate'',
     Description = ''Rate of bytes transmitted over the network in bytes per second'',
     DescLabels = [], Type = Gauge, DescValueType = ValueFloat, Units = Count\<rparr>"

definition MetricNetworkTxErrorsRate :: MetricDescriptor where
  [metric_defs]: "MetricNetworkTxErrorsRate = \<lparr>Name = ''network/tx_errors_rate'',
     Description = ''Rate of errors transmitting over the network in errors per second'',
     DescLabels = [], Type = Gauge, DescValueType = ValueFloat, Units = Count\<rparr>"

definition MetricNodeCpuCapacity :: MetricDescriptor where
  [metric_defs]: "MetricNodeCpuCapacity = \<lparr>Name = ''cpu/node_capacity'',
     Description = ''Cpu capacity of a node'',
     DescLabels = [], Type = Gauge, DescValueType = ValueFloat, Units = Count\<rparr>"

definition MetricNodeMemoryCapacity :: MetricDescriptor where
  [metric_defs]: "MetricNodeMemoryCapacity = \<lparr>Name = ''memory/node_capacity'',
     Description = ''Memory capacity of a node'',
     DescLabels = [], Type = Gauge, DescValueType = ValueFloat, Units = Count\<rparr>"

definition MetricNodeEphemeralStorageCapacity :: MetricDescriptor where
  [metric_defs]: "MetricNodeEphemeralStorageCapacity = \<lparr>Name = ''ephemeral_storage/node_capacity'',
     Description = ''Ephemeral storage capacity of a node'',
     DescLabels = [], Type = Gauge, DescValueType = ValueFloat, Units = Count\<rparr>"

definition MetricNodeCpuAllocatable :: MetricDescriptor where
  [metric_defs]: "MetricNodeCpuAllocatable = \<lparr>Name = ''cpu/node_allocatable'',
     Description = ''Cpu allocatable of a node'',
     DescLabels = [], Type = Gauge, DescValueType = ValueFloat, Units = Count\<rparr>"

definition MetricNodeMemoryAllocatable :: MetricDescriptor where
  [metric_defs]: "MetricNodeMemoryAllocatable = \<lparr>Name = ''memory/node_allocatable'',
     Description = ''Memory allocatable of a node'',
     DescLabels = [], Type = Gauge, DescValueType = ValueFloat, Units = Count\<rparr>"

definition MetricNodeEphemeralStorageAllocatable :: MetricDescriptor where
  [metric_defs]: "MetricNodeEphemeralStorageAllocatable = \<lparr>Name = ''ephemeral_storage/node_allocatable'',
     Description = ''Ephemeral storage allocatable of a node'',
     DescLabels = [], Type = Gauge, DescValueType = ValueFloat, Units = Count\<rparr>"

definition MetricNodeCpuUtilization :: MetricDescriptor where
  [metric_defs]: "MetricNodeCpuUtilization = \<lparr>Name = ''cpu/node_utilization'',
     Description = ''Cpu utilization as a share of node capacity'',
     DescLabels = [], Type = Gauge, DescValueType = ValueFloat, Units = Count\<rparr>"

definition MetricNodeMemoryUtilization :: MetricDescriptor where
  [metric_defs]: "MetricNodeMemoryUtilization = \<lparr>Name = ''memory/node_utilization'',
     Description = ''Memory utilization as a share of memory capacity'',
     DescLabels = [], Type = Gauge, DescValueType = ValueFloat, Units = Count\<rparr>"

definition MetricNodeEphemeralStorageUtilization :: MetricDescriptor where
  [metric_defs]: "MetricNodeEphemeralStorageUtilization = \<lparr>Name = ''ephemeral_storage/node_utilization'',
     Description = ''Ephemeral storage utilization as a share of storage capacity'',
     DescLabels = [], Type = Gauge, DescValueType = ValueFloat, Units = Count\<rparr>"

definition MetricNodeCpuReservation :: MetricDescriptor where
  [metric_defs]: "MetricNodeCpuReservation = \<lparr>Name = ''cpu/node_reservation'',
     Description = ''Share of cpu that is reserved on the node'',
     DescLabels = [], Type = Gauge, DescValueType = ValueFloat, Units = Count\<rparr>"

definition MetricNodeMemoryReservation :: MetricDescriptor where
  [metric_defs]: "MetricNodeMemoryReservation = \<lparr>Name = ''memory/node_reservation'',
     Description = ''Share of memory that is reserved on the node'',
     DescLabels = [], Type = Gauge, DescValueType = ValueFloat, Units = Count\<rparr>"

definition MetricNodeEphemeralStorageReservation :: MetricDescriptor where
  [metric_defs]: "MetricNodeEphemeralStorageReservation = \<lparr>Name = ''ephemeral_storage/node_reservation'',
     Description = ''Share of ephemeral storage that is reserved on the node'',
     DescLabels = [], Type = Gauge, DescValueType = ValueFloat, Units = Count\<rparr>"

definition MetricNodeCondition :: MetricDescriptor where
  [metric_defs]: "MetricNodeCondition = \<lparr>Name = ''status/condition'',
     Description = ''Node conditions'',
     DescLabels = [], Type = Gauge, DescValueType = ValueInt64, Units = Count\<rparr>"

definition MetricPodPhase :: MetricDescriptor where
  [metric_defs]: "MetricPodPhase = \<lparr>Name = ''status/phase'',
     Description = ''Phase of pods'',
     DescLabels = [], Type = Gauge, DescValueType = ValueInt64, Units = Count\<rparr>"

definition MetricWorkloadStatus :: MetricDescriptor where
  [metric_defs]: "MetricWorkloadStatus = \<lparr>Name = ''workload/status'',
     Description = ''Status of the workload'',
     DescLabels = [], Type = Gauge, DescValueType = ValueInt64, Units = Count\<rparr>"

definition MetricContainerStatus :: MetricDescriptor where
  [metric_defs]: "MetricContainerStatus = \<lparr>Name = ''status'',
     Description = ''Container status'',
     DescLabels = [], Type = Gauge, DescValueType = ValueInt64, Units = Count\<rparr>"

definition MetricPodCount :: MetricDescriptor where
  [metric_defs]: "MetricPodCount = \<lparr>Name = ''pod/count'',
     Description = ''Count of pods'',
     DescLabels = [], Type = Gauge, DescValueType = ValueInt64, Units = Count\<rparr>"

definition MetricPodContainerCount :: MetricDescriptor where
  [metric_defs]: "MetricPodContainerCount = \<lparr>Name = ''pod_container/count'',
     Description = ''Count of pod containers'',
     DescLabels = [], Type = Gauge, DescValueType = ValueInt64, Units = Count\<rparr>"

definition MetricFilesystemUsage :: MetricDescriptor where
  [metric_defs]: "MetricFilesystemUsage = \<lparr>Name = ''filesystem/usage'',
     Description = ''Total number of bytes consumed on a filesystem'',
     DescLabels = metricLabels, Type = Gauge, DescValueType = ValueInt64, Units = Bytes\<rparr>"

definition MetricFilesystemLimit :: MetricDescriptor where
  [metric_defs]: "MetricFilesystemLimit = \<lparr>Name = ''filesystem/limit'',
     Description = ''The total size of filesystem in bytes'',
     DescLabels = metricLabels, Type = Gauge, DescValueType = ValueInt64, Units = Bytes\<rparr>"

definition MetricFilesystemAvailable :: MetricDescriptor where
  [metric_defs]: "MetricFilesystemAvailable = \<lparr>Name = ''filesystem/available'',
     Description = ''The number of available bytes remaining in a the filesystem'',
     DescLabels = metricLabels, Type = Gauge, DescValueType = ValueInt64, Units = Bytes\<rparr>"

definition MetricFilesystemInodes :: MetricDescriptor where
  [metric_defs]: "MetricFilesystemInodes = \<lparr>Name = ''filesystem/inodes'',
     Description = ''Total number of inodes on a filesystem'',
     DescLabels = metricLabels, Type = Gauge, DescValueType = ValueInt64, Units = Bytes\<rparr>"

definition MetricFilesystemInodesFree :: MetricDescriptor where
  [metric_defs]: "MetricFilesystemInodesFree = \<lparr>Name = ''filesystem/inodes_free'',
     Description = ''Free number of inodes on a filesystem'',
     DescLabels = metricLabels, Type = Gauge, DescValueType = ValueInt64, Units = Bytes\<rparr>"

definition MetricAcceleratorMemoryTotal :: MetricDescriptor where
  [metric_defs]: "MetricAcceleratorMemoryTotal = \<lparr>Name = ''accelerator/memory_total'',
     Description = ''Total accelerator memory (in bytes)'',
     DescLabels = acceleratorLabels, Type = Gauge, DescValueType = ValueInt64, Units = Bytes\<rparr>"

definition MetricAcceleratorMemoryUsed :: MetricDescriptor where
  [metric_defs]: "MetricAcceleratorMemoryUsed = \<lparr>Name = ''accelerator/memory_used'',
     Description = ''Total accelerator memory allocated (in bytes)'',
     DescLabels = acceleratorLabels, Type = Gauge, DescValueType = ValueInt64, Units = Bytes\<rparr>"

definition MetricAcceleratorDutyCycle :: MetricDescriptor where
  [metric_defs]: "MetricAcceleratorDutyCycle = \<lparr>Name = ''accelerator/duty_cycle'',
     Description = ''Percent of time over the past sample period (10s) during which the accelerator was actively processing'',
     DescLabels = acceleratorLabels, Type = Gauge, DescValueType = ValueInt64, Units = Count\<rparr>"

definition MetricDiskIORead :: MetricDescriptor where
  [metric_defs]: "MetricDiskIORead = \<lparr>Name = ''disk/io_read_bytes'',
     Description = ''Cumulative number of bytes read over disk'',
     DescLabels = metricLabels, Type = Cumulative, DescValueType = ValueInt64, Units = Bytes\<rparr>"

definition MetricDiskIOWrite :: MetricDescriptor where
  [metric_defs]: "MetricDiskIOWrite = \<lparr>Name = ''disk/io_write_bytes'',
     Description = ''Cumulative number of bytes write over disk'',
     DescLabels = metricLabels, Type = Cumulative, DescValueType = ValueInt64, Units = Bytes\<rparr>"

definition MetricDiskIOReadRate :: MetricDescriptor where
  [metric_defs]: "MetricDiskIOReadRate = \<lparr>Name = ''disk/io_read_bytes_rate'',
     Description = ''Rate of bytes read over disk in bytes per second'',
     DescLabels = metricLabels, Type = Gauge, DescValueType = ValueFloat, Units = Count\<rparr>"

definition MetricDiskIOWriteRate :: MetricDescriptor where
  [metric_defs]: "MetricDiskIOWriteRate = \<lparr>Name = ''disk/io_write_bytes_rate'',
     Description = ''Rate of bytes written over disk in bytes per second'',
     DescLabels = metricLabels, Type = Gauge, DescValueType = ValueFloat, Units = Count\<rparr>"

definition StandardMetrics :: "MetricDescriptor list" where
  "StandardMetrics = [
     MetricUptime,
     MetricCpuUsage,
     MetricCpuLoad,
     MetricEphemeralStorageUsage,
     MetricMemoryUsage,
     MetricMemoryRSS,
     MetricMemoryCache,
     MetricMemoryWorkingSet,
     MetricMemoryPageFaults,
     MetricMemoryMajorPageFaults,
     MetricNetworkRx,
     MetricNetworkRxErrors,
     MetricNetworkTx,
     MetricNetworkTxErrors]"

definition AdditionalMetrics :: "MetricDescriptor list" where
  "AdditionalMetrics = [
     MetricCpuRequest,
     MetricCpuLimit,
     MetricMemoryRequest,
     MetricMemoryLimit,
     MetricEphemeralStorageRequest,
     MetricEphemeralStorageLimit]"

definition RateMetrics :: "MetricDescriptor list" where
  "RateMetrics = [
     MetricCpuUsageRate,
     MetricMemoryPageFaultsRate,
     MetricMemoryMajorPageFaultsRate,
     MetricNetworkRxRate,
     MetricNetworkRxErrorsRate,
     MetricNetworkTxRate,
     MetricNetworkTxErrorsRate,
     MetricDiskIOReadRate,
     MetricDiskIOWriteRate]"

definition LabeledMetrics :: "MetricDescriptor list" where
  "LabeledMetrics = [
     MetricDiskIORead,
     MetricDiskIOReadRate,
     MetricDiskIOWrite,
     MetricDiskIOWriteRate,
     MetricFilesystemUsage,
     MetricFilesystemLimit,
     MetricFilesystemAvailable,
     MetricFilesystemInodes,
     MetricFilesystemInodesFree,
     MetricAcceleratorMemoryTotal,
     MetricAcceleratorMemoryUsed,
     MetricAcceleratorDutyCycle]"

definition NodeAutoscalingMetrics :: "MetricDescriptor list" where
  "NodeAutoscalingMetrics = [
     MetricNodeCpuCapacity,
     MetricNodeMemoryCapacity,
     MetricNodeEphemeralStorageCapacity,
     MetricNodeCpuAllocatable,
     MetricNodeMemoryAllocatable,
     MetricNodeEphemeralStorageAllocatable,
     MetricNodeCpuUtilization,
     MetricNodeMemoryUtilization,
     MetricNodeEphemeralStorageUtilization,
     MetricNodeCpuReservation,
     MetricNodeMemoryReservation,
     MetricNodeEphemeralStorageReservation]"

definition CpuMetrics :: "MetricDescriptor list" where
  "CpuMetrics = [
     MetricCpuLimit,
     MetricCpuRequest,
     MetricCpuUsage,
     MetricCpuLoad,
     MetricCpuUsageRate,
     MetricNodeCpuAllocatable,
     MetricNodeCpuCapacity,
     MetricNodeCpuReservation,
     MetricNodeCpuUtilization]"

definition FilesystemMetrics :: "MetricDescriptor list" where
  "FilesystemMetrics = [
     MetricFilesystemAvailable,
     MetricFilesystemLimit,
     MetricFilesystemUsage,
     MetricFilesystemInodes,
     MetricFilesystemInodesFree]"

definition MemoryMetrics :: "MetricDescriptor list" where
  "MemoryMetrics = [
     MetricMemoryLimit,
     MetricMemoryMajorPageFaults,
     MetricMemoryMajorPageFaultsRate,
     MetricMemoryPageFaults,
     MetricMemoryPageFaultsRate,
     MetricMemoryRequest,
     MetricMemoryUsage,
     MetricMemoryRSS,
     MetricMemoryCache,
     MetricMemoryWorkingSet,
     MetricNodeMemoryAllocatable,
     MetricNodeMemoryCapacity,
     MetricNodeMemoryUtilization,
     MetricNodeMemoryReservation]"

definition NetworkMetrics :: "MetricDescriptor list" where
  "NetworkMetrics = [
     MetricNetworkRx,
     MetricNetworkRxErrors,
     MetricNetworkRxErrorsRate,
     MetricNetworkRxRate,
     MetricNetworkTx,
     MetricNetworkTxErrors,
     MetricNetworkTxErrorsRate,
     MetricNetworkTxRate]"

definition RateMetricsMapping :: "(string, MetricDescriptor) gomap" where
  "RateMetricsMapping = [
     (Name MetricCpuUsage, MetricCpuUsageRate),
     (Name MetricMemoryPageFaults, MetricMemoryPageFaultsRate),
     (Name MetricMemoryMajorPageFaults, MetricMemoryMajorPageFaultsRate),
     (Name MetricNetworkRx, MetricNetworkRxRate),
     (Name MetricNetworkRxErrors, MetricNetworkRxErrorsRate),
     (Name MetricNetworkTx, MetricNetworkTxRate),
     (Name MetricNetworkTxErrors, MetricNetworkTxErrorsRate),
     (Name MetricDiskIORead, MetricDiskIOReadRate),
     (Name MetricDiskIOWrite, MetricDiskIOWriteRate)]"

definition AllMetrics :: "MetricDescriptor list" where
  "AllMetrics = StandardMetrics @ AdditionalMetrics @ RateMetrics @ LabeledMetrics @ NodeAutoscalingMetrics"

definition ResourceRequestMetrics :: "(string, MetricDescriptor) gomap" where
  "ResourceRequestMetrics = [
     (''cpu'', MetricCpuRequest),
     (''memory'', MetricMemoryRequest),
     (''ephemeral-storage'', MetricEphemeralStorageRequest)]"

definition MetricFamilies :: "(string, MetricDescriptor list) gomap" where
  "MetricFamilies = [
     (''cpu'', CpuMetrics),
     (''filesystem'', FilesystemMetrics),
     (''memory'', MemoryMetrics),
     (''network'', NetworkMetrics)]"

text \<open>\<open>MetricFamilyForName\<close> ranges over the map of families, in the order \<open>fams\<close>.\<close>

definition MetricFamilyForName :: "(string, MetricDescriptor list) gomap \<Rightarrow> string \<Rightarrow> string" where
  "MetricFamilyForName fams metricName =
     (case find (\<lambda>fm. list_ex (\<lambda>m. metricName = Name m) (snd fm)) fams of
        Some fm \<Rightarrow> fst fm | None \<Rightarrow> ''general'')"

definition IsNodeAutoscalingMetric :: "string \<Rightarrow> bool" where
  "IsNodeAutoscalingMetric name = list_ex (\<lambda>m. Name m = name) NodeAutoscalingMetrics"

lemmas metric_list_defs = StandardMetrics_def AdditionalMetrics_def RateMetrics_def
  LabeledMetrics_def NodeAutoscalingMetrics_def CpuMetrics_def FilesystemMetrics_def
  MemoryMetrics_def NetworkMetrics_def

text \<open>No metric is in two families, so the order of the range over the families is not seen.\<close>

lemma families_disjoint:
  "list_all (\<lambda>fm. list_all (\<lambda>fm'. fst fm = fst fm' \<or>
     list_all (\<lambda>m. \<not> list_ex (\<lambda>m'. Name m = Name m') (snd fm')) (snd fm)) MetricFamilies) MetricFamilies"
  by code_simp

text \<open>Every rate is computed from a cumulative integer metric of another name.\<close>

lemma rate_sources_cumulative:
  "list_all (\<lambda>e. list_ex (\<lambda>m. Name m = fst e \<and> Type m = Cumulative \<and> DescValueType m = ValueInt64)
     (StandardMetrics @ LabeledMetrics) \<and> Type (snd e) = Gauge) RateMetricsMapping"
  by code_simp

lemma rate_names_fresh:
  "list_all (\<lambda>e. \<not> mhas RateMetricsMapping (Name (snd e))) RateMetricsMapping"
  by code_simp

lemma wf_RateMetricsMapping: "wf_map RateMetricsMapping"
  by code_simp

lemma rate_targets_distinct: "distinct (map (Name \<circ> snd) RateMetricsMapping)"
  by code_simp

end
