(* ===== verification/Filters.thy ===== *)
theory Filters
  imports Metrics_Model
begin

text \<open>
  Metric and tag filters (\<open>collector/internal/filter\<close>). The glob library is not part of the
  repository's own code: \<open>gc\<close> stands for \<open>glob.Compile\<close>, which yields no glob when the pattern
  does not parse; a compiled glob is the predicate that its \<open>Match\<close> decides.
\<close>

type_synonym glob = "string \<Rightarrow> bool"
type_synonym glob_compile = "string \<Rightarrow> glob option"
type_synonym strlists = "(string, string list) gomap"

section \<open>Configuration (config.go, util.go)\<close>

record Config =
  MetricAllowList :: "string list"
  MetricDenyList :: "string list"
  MetricTagAllowList :: strlists
  MetricTagDenyList :: strlists
  TagInclude :: "string list"
  TagExclude :: "string list"
  TagGuaranteeList :: "string list"
  MetricWhitelist :: "string list"
  MetricBlacklist :: "string list"
  MetricTagWhitelist :: strlists
  MetricTagBlacklist :: strlists

definition emptyConfig :: Config where
  "emptyConfig = \<lparr>MetricAllowList = [], MetricDenyList = [], MetricTagAllowList = [],
     MetricTagDenyList = [], TagInclude = [], TagExclude = [], TagGuaranteeList = [],
     MetricWhitelist = [], MetricBlacklist = [], MetricTagWhitelist = [], MetricTagBlacklist = []\<rparr>"

definition Config_Empty :: "Config \<Rightarrow> bool" where
  "Config_Empty cfg \<longleftrightarrow>
     length (MetricWhitelist cfg) = 0 \<and> length (MetricAllowList cfg) = 0 \<and>
     length (MetricBlacklist cfg) = 0 \<and> length (MetricDenyList cfg) = 0 \<and>
     length (MetricTagWhitelist cfg) = 0 \<and> length (MetricTagAllowList cfg) = 0 \<and>
     length (MetricTagBlacklist cfg) = 0 \<and> length (MetricTagDenyList cfg) = 0 \<and>
     length (TagInclude cfg) = 0 \<and> length (TagExclude cfg) = 0 \<and> length (TagGuaranteeList cfg) = 0"

text \<open>\<open>parseValue\<close> takes the patterns of \<open>[p1,p2]\<close>; anything else is an error.\<close>

definition parseValue :: "string \<Rightarrow> string + string list" where
  "parseValue val =
     (if \<not> HasPrefix val ''['' \<or> \<not> HasSuffix val '']''
      then Inl (''invalid metric tag filter: '' @ val)
      else let tagValue = take (length val - 2) (drop 1 val) in Inr (Split (CHR '','') tagValue))"

definition parseFilters :: "string list \<Rightarrow> strlists" where
  "parseFilters tags =
     foldl (\<lambda>out tag. case Split (CHR '':'') tag of
               [k, v] \<Rightarrow> (case parseValue v of Inl err \<Rightarrow> out | Inr patterns \<Rightarrow> mput k patterns out)
             | _ \<Rightarrow> out) [] tags"

text \<open>A missing key of the query reads as the nil slice.\<close>

definition query :: "strlists \<Rightarrow> string \<Rightarrow> string list" where
  "query vals k = (case mget vals k of None \<Rightarrow> [] | Some v \<Rightarrow> v)"

definition FromQuery :: "strlists \<Rightarrow> Config" where
  "FromQuery vals =
     (if length vals = 0 then emptyConfig
      else
       (let metricWhitelist = query vals ''metricWhitelist'';
            metricBlacklist = query vals ''metricBlacklist'';
            metricTagWhitelist = parseFilters (query vals ''metricTagWhitelist'');
            metricTagBlacklist = parseFilters (query vals ''metricTagBlacklist'');
            tagInclude = query vals ''tagInclude'';
            tagExclude = query vals ''tagExclude'';
            tagGuaranteeList = query vals ''tagGuaranteeList''
        in if length metricWhitelist = 0 \<and> length metricBlacklist = 0 \<and>
              length metricTagWhitelist = 0 \<and> length metricTagBlacklist = 0 \<and>
              length tagInclude = 0 \<and> length tagExclude = 0 \<and> length tagGuaranteeList = 0
           then emptyConfig
           else emptyConfig\<lparr>MetricWhitelist := metricWhitelist, MetricBlacklist := metricBlacklist,
                  MetricTagWhitelist := metricTagWhitelist, MetricTagBlacklist := metricTagBlacklist,
                  TagInclude := tagInclude, TagExclude := tagExclude,
                  TagGuaranteeList := tagGuaranteeList\<rparr>))"

section \<open>Glob filters (glob.go)\<close>

record globFilter =
  metricAllowList :: "glob option"
  metricDenyList :: "glob option"
  metricTagAllowList :: "(string, glob) gomap option"
  metricTagDenyList :: "(string, glob) gomap option"
  tagInclude :: "glob option"
  tagExclude :: "glob option"
  tagGuaranteeList :: "string list"

text \<open>\<open>Compile\<close> drops the error of \<open>glob.Compile\<close>: an invalid pattern gives no glob at all.\<close>

definition Compile :: "glob_compile \<Rightarrow> string list \<Rightarrow> glob option" where
  "Compile gc filters =
     (if length filters = 0 then None
      else if length filters = 1 then gc (filters ! 0)
      else gc (''{'' @ Join '','' filters @ ''}''))"

definition MultiCompile :: "glob_compile \<Rightarrow> strlists \<Rightarrow> (string, glob) gomap option" where
  "MultiCompile gc filters =
     (if length filters = 0 then None
      else Some (foldl (\<lambda>globs kv. case Compile gc (snd kv) of
                          None \<Rightarrow> globs | Some g \<Rightarrow> mput (fst kv) g globs) [] filters))"

definition MultiSetCompile :: "glob_compile \<Rightarrow> strlists list \<Rightarrow> (string, glob) gomap option list" where
  "MultiSetCompile gc filters = map (MultiCompile gc) filters"

definition NewGlobFilter :: "glob_compile \<Rightarrow> Config \<Rightarrow> globFilter" where
  "NewGlobFilter gc cfg =
     \<lparr>metricAllowList = Compile gc (MetricAllowList cfg),
      metricDenyList = Compile gc (MetricDenyList cfg),
      metricTagAllowList = MultiCompile gc (MetricTagAllowList cfg),
      metricTagDenyList = MultiCompile gc (MetricTagDenyList cfg),
      tagInclude = Compile gc (TagInclude cfg),
      tagExclude = Compile gc (TagExclude cfg),
      tagGuaranteeList = TagGuaranteeList cfg\<rparr>"

definition FromConfig :: "glob_compile \<Rightarrow> Config \<Rightarrow> globFilter option" where
  "FromConfig gc cfg =
     (if Config_Empty cfg then None
      else
       (let al = (if 0 < length (MetricAllowList cfg) then MetricAllowList cfg else MetricWhitelist cfg);
            dl = (if 0 < length (MetricDenyList cfg) then MetricDenyList cfg else MetricBlacklist cfg);
            tal = (if 0 < length (MetricTagAllowList cfg) then MetricTagAllowList cfg else MetricTagWhitelist cfg);
            tdl = (if 0 < length (MetricTagDenyList cfg) then MetricTagDenyList cfg else MetricTagBlacklist cfg)
        in if length al = 0 \<and> length dl = 0 \<and> length tal = 0 \<and> length tdl = 0 \<and>
              length (TagInclude cfg) = 0 \<and> length (TagExclude cfg) = 0 \<and> length (TagGuaranteeList cfg) = 0
           then None
           else Some (NewGlobFilter gc (emptyConfig\<lparr>MetricAllowList := al, MetricDenyList := dl,
                  MetricTagAllowList := tal, MetricTagDenyList := tdl, TagInclude := TagInclude cfg,
                  TagExclude := TagExclude cfg, TagGuaranteeList := TagGuaranteeList cfg\<rparr>))))"

text \<open>The loops over the matchers return at the first match, or at the first mismatch.\<close>

fun MatchesTags :: "(string, glob) gomap \<Rightarrow> tagmap \<Rightarrow> bool" where
  "MatchesTags [] tags = False"
| "MatchesTags ((k, matcher) # matchers) tags =
     (case mget tags k of
        Some val \<Rightarrow> if matcher val then True else MatchesTags matchers tags
      | None \<Rightarrow> MatchesTags matchers tags)"

fun MatchesAllTags :: "(string, glob) gomap \<Rightarrow> tagmap \<Rightarrow> bool" where
  "MatchesAllTags [] tags = True"
| "MatchesAllTags ((k, matcher) # matchers) tags =
     (case mget tags k of
        Some val \<Rightarrow> if \<not> matcher val then False else MatchesAllTags matchers tags
      | None \<Rightarrow> False)"

definition globMatch :: "glob option \<Rightarrow> string \<Rightarrow> bool" where
  "globMatch g s = (case g of None \<Rightarrow> False | Some p \<Rightarrow> p s)"

definition MatchMetric :: "globFilter \<Rightarrow> string \<Rightarrow> tagmap \<Rightarrow> bool" where
  "MatchMetric gf name tags =
     (if metricAllowList gf \<noteq> None \<and> \<not> globMatch (metricAllowList gf) name then False
      else if metricDenyList gf \<noteq> None \<and> globMatch (metricDenyList gf) name then False
      else if (case metricTagAllowList gf of None \<Rightarrow> False | Some ms \<Rightarrow> \<not> MatchesTags ms tags) then False
      else if (case metricTagDenyList gf of None \<Rightarrow> False | Some ms \<Rightarrow> MatchesTags ms tags) then False
      else True)"

definition MatchTag :: "globFilter \<Rightarrow> string \<Rightarrow> bool" where
  "MatchTag gf tagName =
     (if list_ex (\<lambda>tagGuaranteeKey. tagGuaranteeKey = tagName) (tagGuaranteeList gf) then True
      else
       (let matches = True;
            matches = (if tagInclude gf \<noteq> None then matches \<and> globMatch (tagInclude gf) tagName else matches);
            matches = (if tagExclude gf \<noteq> None then matches \<and> \<not> globMatch (tagExclude gf) tagName else matches)
        in matches))"

definition GetTagGuaranteeList :: "globFilter \<Rightarrow> string list" where
  "GetTagGuaranteeList gf = tagGuaranteeList gf"

section \<open>What the filters decide\<close>

lemma MatchesTags_iff: "MatchesTags ms tags \<longleftrightarrow> (\<exists>(k, g) \<in> set ms. \<exists>v. mget tags k = Some v \<and> g v)"
  by (induction ms tags rule: MatchesTags.induct) (auto split: option.splits)

lemma MatchesAllTags_iff: "MatchesAllTags ms tags \<longleftrightarrow> (\<forall>(k, g) \<in> set ms. \<exists>v. mget tags k = Some v \<and> g v)"
  by (induction ms tags rule: MatchesAllTags.induct) (auto split: option.splits)

lemma MatchTag_iff:
  "MatchTag gf t \<longleftrightarrow> t \<in> set (tagGuaranteeList gf) \<or>
     (\<forall>g. tagInclude gf = Some g \<longrightarrow> g t) \<and> (\<forall>g. tagExclude gf = Some g \<longrightarrow> \<not> g t)"
  by (auto simp: MatchTag_def list_ex_iff globMatch_def split: option.splits)

lemma MatchMetric_iff:
  "MatchMetric gf name tags \<longleftrightarrow>
     (\<forall>g. metricAllowList gf = Some g \<longrightarrow> g name) \<and>
     (\<forall>g. metricDenyList gf = Some g \<longrightarrow> \<not> g name) \<and>
     (\<forall>ms. metricTagAllowList gf = Some ms \<longrightarrow> MatchesTags ms tags) \<and>
     (\<forall>ms. metricTagDenyList gf = Some ms \<longrightarrow> \<not> MatchesTags ms tags)"
  by (auto simp: MatchMetric_def globMatch_def split: option.splits)

lemma MatchMetric_same_map: "same_map tags tags' \<Longrightarrow> MatchMetric gf name tags = MatchMetric gf name tags'"
  by (simp add: MatchMetric_iff MatchesTags_iff same_map_def)

lemma Compile_None_iff:
  "Compile gc fs = None \<longleftrightarrow>
     fs = [] \<or> length fs = 1 \<and> gc (hd fs) = None \<or> 1 < length fs \<and> gc (''{'' @ Join '','' fs @ ''}'') = None"
  by (cases fs) (auto simp: Compile_def)

text \<open>A tag filter of the legacy flags survives the round trip through its text form.\<close>

lemma parseValue_Join:
  assumes "ps \<noteq> []" and "\<And>p. p \<in> set ps \<Longrightarrow> CHR '','' \<notin> set p"
  shows "parseValue (''['' @ Join '','' ps @ '']'') = Inr ps"
proof -
  have "HasSuffix (''['' @ Join '','' ps @ '']'') '']''"
    by (metis HasSuffix_iff append.assoc)
  then show ?thesis
    using Split_Join [OF assms(1), of "CHR '',''"] assms(2) by (simp add: parseValue_def)
qed

end
