(* ===== verification/Wf_Points.thy ===== *)
theory Wf_Points
  imports Filters "HOL-Library.Multiset"
begin

text \<open>
  The metrics the collector sends (\<open>collector/internal/wf\<close>): points, histogram distributions,
  the \<open>Metric\<close> interface both implement, and the filter applied to them. \<open>blake\<close> stands for
  the hash function of \<open>golang.org/x/crypto/blake2b\<close>.
\<close>

section \<open>Points (point.go)\<close>

record point =
  ptMetric :: string
  ptValue :: f64
  ptTimestamp :: int64
  ptSource :: string
  pttags :: tagmap
  labelPairs :: "(string \<times> string) list"

definition NewPoint :: "string \<Rightarrow> f64 \<Rightarrow> int64 \<Rightarrow> string \<Rightarrow> tagmap \<Rightarrow> point" where
  "NewPoint metric value timestamp source tags =
     \<lparr>ptMetric = metric, ptValue = value, ptTimestamp = timestamp, ptSource = source,
      pttags = tags, labelPairs = []\<rparr>"

definition SetLabelPairs :: "(string \<times> string) list \<Rightarrow> point \<Rightarrow> point" where
  "SetLabelPairs pairs m = m\<lparr>labelPairs := pairs\<rparr>"

definition SetTags :: "tagmap \<Rightarrow> point \<Rightarrow> point" where
  "SetTags tags m = m\<lparr>pttags := tags\<rparr>"

definition pt_OverrideTag :: "string \<Rightarrow> string \<Rightarrow> point \<Rightarrow> point" where
  "pt_OverrideTag name value m = m\<lparr>pttags := mput name value (pttags m)\<rparr>"

definition pt_AddTag :: "string \<Rightarrow> string \<Rightarrow> point \<Rightarrow> point" where
  "pt_AddTag name value m =
     (if mhas (pttags m) name then m else m\<lparr>pttags := mput name value (pttags m)\<rparr>)"

definition pt_AddTags :: "tagmap \<Rightarrow> point \<Rightarrow> point" where
  "pt_AddTags tags m = foldl (\<lambda>m e. pt_AddTag (fst e) (snd e) m) m tags"

definition pt_Tags :: "point \<Rightarrow> tagmap" where
  "pt_Tags m = mput_all (pttags m) (mput_all (labelPairs m) [])"

definition pt_FilterTags :: "(string \<Rightarrow> bool) \<Rightarrow> point \<Rightarrow> point" where
  "pt_FilterTags pred m =
     m\<lparr>labelPairs := filter (\<lambda>lp. pred (fst lp)) (labelPairs m),
       pttags := mfilter pred (pttags m)\<rparr>"

section \<open>Distributions (distribution.go)\<close>

record Centroid =
  cValue :: f64
  cCount :: f64

record Distribution =
  isCumulative :: bool
  dname :: string
  dtags :: tagmap
  dSource :: string
  Centroids :: "Centroid list"
  dTimestamp :: gotime

text \<open>
  \<open>sort.Slice\<close> sorts short slices by insertion from the right, as \<open>sort_slice\<close> does on any
  length; for keys that are strictly ordered every sorting algorithm gives the same result.
\<close>

fun sink_into :: "('a \<Rightarrow> 'a \<Rightarrow> bool) \<Rightarrow> 'a \<Rightarrow> 'a list \<Rightarrow> 'a list" where
  "sink_into ls x [] = [x]"
| "sink_into ls x (y # ys) = (if ls x y then y # sink_into ls x ys else x # y # ys)"

definition sort_slice :: "('a \<Rightarrow> 'a \<Rightarrow> bool) \<Rightarrow> 'a list \<Rightarrow> 'a list" where
  "sort_slice ls xs = rev (foldl (\<lambda>acc x. sink_into ls x acc) [] xs)"

definition centroid_less :: "Centroid \<Rightarrow> Centroid \<Rightarrow> bool" where
  "centroid_less a b = flt (cValue a) (cValue b)"

definition newDistribution ::
  "bool \<Rightarrow> string \<Rightarrow> string \<Rightarrow> tagmap \<Rightarrow> Centroid list \<Rightarrow> gotime \<Rightarrow> Distribution" where
  "newDistribution cumulative name source tags centroids timestamp =
     \<lparr>isCumulative = cumulative, dname = name, dtags = tags, dSource = source,
      Centroids = sort_slice centroid_less centroids, dTimestamp = timestamp\<rparr>"

definition NewCumulativeDistribution ::
  "string \<Rightarrow> string \<Rightarrow> tagmap \<Rightarrow> Centroid list \<Rightarrow> gotime \<Rightarrow> Distribution" where
  "NewCumulativeDistribution name source tags centroids timestamp =
     newDistribution True name source tags centroids timestamp"

definition NewFrequencyDistribution ::
  "string \<Rightarrow> string \<Rightarrow> tagmap \<Rightarrow> Centroid list \<Rightarrow> gotime \<Rightarrow> Distribution" where
  "NewFrequencyDistribution name source tags centroids timestamp =
     newDistribution False name source tags centroids timestamp"

definition clonedTags :: "Distribution \<Rightarrow> tagmap" where
  "clonedTags d = mput_all (dtags d) []"

definition Clone :: "Distribution \<Rightarrow> Distribution" where
  "Clone d = newDistribution (isCumulative d) (dname d) (dSource d) (clonedTags d) (Centroids d) (dTimestamp d)"

subsection \<open>From cumulative to frequency\<close>

fun derive_from :: "f64 option \<Rightarrow> Centroid list \<Rightarrow> Centroid list" where
  "derive_from prev [] = []"
| "derive_from prev (centroid # cs) =
     \<lparr>cValue = cValue centroid,
      cCount = (case prev of None \<Rightarrow> cCount centroid | Some p \<Rightarrow> fsub (cCount centroid) p)\<rparr>
     # derive_from (Some (cCount centroid)) cs"

definition deriveCentroids :: "Centroid list \<Rightarrow> Centroid list" where
  "deriveCentroids centroids = derive_from None centroids"

definition smallestCountAboveZero :: "Centroid list \<Rightarrow> f64" where
  "smallestCountAboveZero centroids =
     foldl (\<lambda>minCount c. if flt (Fin 0) (cCount c) \<and> flt (cCount c) minCount then cCount c else minCount)
       (Fin f64_max) centroids"

text \<open>
  \<open>centroidCounts[k] += v\<close> on a map with float keys: a NaN key never equals a key that is
  there, so it makes a new entry.
\<close>

fun bucket_add :: "f64 \<Rightarrow> f64 \<Rightarrow> (f64 \<times> f64) list \<Rightarrow> (f64 \<times> f64) list" where
  "bucket_add k v [] = [(k, fadd (Fin 0) v)]"
| "bucket_add k v ((k', c) # m) = (if feq k k' then (k', fadd c v) # m else (k', c) # bucket_add k v m)"

datatype panic = IndexOutOfRange | DivideByZero | NilDereference

text \<open>
  The loop of \<open>smoothCentroids\<close>; \<open>prev\<close> is the previous centroid, which the first iteration
  does not have: reading it there for an infinite bound is an index out of range.
\<close>

fun smooth_loop :: "f64 \<Rightarrow> Centroid option \<Rightarrow> Centroid list \<Rightarrow> (f64 \<times> f64) list \<Rightarrow> panic + (f64 \<times> f64) list" where
  "smooth_loop amplification prev [] counts = Inr counts"
| "smooth_loop amplification prev (centroid # cs) counts =
     (let bound = cValue centroid; actual = fmul (cCount centroid) amplification
      in if fle bound (Fin 0) \<or> feq actual (Fin 0)
         then smooth_loop amplification (Some centroid) cs counts
         else if bound = PInf \<and> prev = None then Inl IndexOutOfRange
         else
          (let actual = fmax (Fin 1) actual;
               previousBound = (case prev of None \<Rightarrow> Fin 0 | Some p \<Rightarrow> cValue p);
               bound = (if bound = PInf then previousBound else bound);
               lowerCount = ftrunc (fdiv actual (Fin 4));
               counts = bucket_add previousBound lowerCount counts;
               middleCount = ftrunc (fdiv actual (Fin 2));
               counts = bucket_add (fdiv (fadd bound previousBound) (Fin 2)) middleCount counts;
               upperCount = ftrunc (fsub (fsub actual lowerCount) middleCount);
               counts = bucket_add bound upperCount counts
           in smooth_loop amplification (Some centroid) cs counts))"

definition centroidMapToSlice :: "(f64 \<times> f64) list \<Rightarrow> Centroid list" where
  "centroidMapToSlice counts = map (\<lambda>vc. \<lparr>cValue = fst vc, cCount = snd vc\<rparr>) counts"

definition amplification :: "Centroid list \<Rightarrow> f64" where
  "amplification cs = fmax (Fin 1) (fdiv (Fin 1) (smallestCountAboveZero cs))"

definition smoothCentroids :: "Centroid list \<Rightarrow> panic + Centroid list" where
  "smoothCentroids derivedCentroids =
     (if length derivedCentroids = 1 \<and> cValue (derivedCentroids ! 0) = PInf then Inr []
      else case smooth_loop (amplification derivedCentroids) None derivedCentroids [] of
             Inl e \<Rightarrow> Inl e | Inr counts \<Rightarrow> Inr (centroidMapToSlice counts))"

definition ToFrequency :: "Distribution \<Rightarrow> panic + Distribution" where
  "ToFrequency d =
     (if \<not> isCumulative d then Inr d
      else case smoothCentroids (deriveCentroids (Centroids d)) of
             Inl e \<Rightarrow> Inl e
           | Inr cs \<Rightarrow> Inr (NewFrequencyDistribution (dname d) (dSource d) (dtags d) cs (dTimestamp d)))"

subsection \<open>Tags, keys and rates\<close>

definition d_OverrideTag :: "string \<Rightarrow> string \<Rightarrow> Distribution \<Rightarrow> Distribution" where
  "d_OverrideTag name value d = d\<lparr>dtags := mput name value (dtags d)\<rparr>"

definition d_addTag :: "string \<Rightarrow> string \<Rightarrow> Distribution \<Rightarrow> Distribution" where
  "d_addTag name value d =
     (if mhas (dtags d) name then d else d\<lparr>dtags := mput name value (dtags d)\<rparr>)"

definition d_AddTags :: "tagmap \<Rightarrow> Distribution \<Rightarrow> Distribution" where
  "d_AddTags tags d = foldl (\<lambda>d e. d_addTag (fst e) (snd e) d) d tags"

definition d_FilterTags :: "(string \<Rightarrow> bool) \<Rightarrow> Distribution \<Rightarrow> Distribution" where
  "d_FilterTags pred d = d\<lparr>dtags := mfilter pred (dtags d)\<rparr>"

text \<open>\<open>int(centroid.Count)\<close> truncates; a float out of the range of \<open>int64\<close> gives the least integer, as on amd64.\<close>

definition int_of_f64 :: "f64 \<Rightarrow> int" where
  "int_of_f64 x = (case x of
     Fin q \<Rightarrow> if - (2 ^ 63) \<le> rat_trunc q \<and> rat_trunc q < 2 ^ 63 then rat_trunc q else - (2 ^ 63)
   | _ \<Rightarrow> - (2 ^ 63))"

definition sendableCentroids :: "Distribution \<Rightarrow> (f64 \<times> int) list" where
  "sendableCentroids d =
     map (\<lambda>c. (cValue c, int_of_f64 (cCount c))) (filter (\<lambda>c. \<not> feq (cCount c) (Fin 0)) (Centroids d))"

text \<open>The bytes \<open>Key\<close> hashes, and the key.\<close>

definition KeyBytes :: "Distribution \<Rightarrow> string" where
  "KeyBytes d =
     (if isCumulative d then ''true '' else ''false '') @ dname d @ '' source='' @ dSource d @
     concat (map (\<lambda>name. '' '' @ name @ ''='' @ mgets (dtags d) name) (sorted_keys (dtags d)))"

definition Key :: "(string \<Rightarrow> 'h) \<Rightarrow> Distribution \<Rightarrow> 'h" where
  "Key blake d = blake (KeyBytes d)"

fun rate_loop :: "duration \<Rightarrow> Centroid list \<Rightarrow> Centroid list \<Rightarrow> Centroid list option" where
  "rate_loop dur (c # cur) (p # prev) =
     (if \<not> feq (cValue c) (cValue p) \<or> flt (cCount c) (cCount p) \<or> fle (Seconds dur) (Fin 0) then None
      else case rate_loop dur cur prev of
             None \<Rightarrow> None
           | Some cs \<Rightarrow> Some (\<lparr>cValue = cValue c, cCount = fdiv (fsub (cCount c) (cCount p)) (Minutes dur)\<rparr> # cs))"
| "rate_loop dur _ _ = Some []"

definition CentroidRate :: "Centroid list \<Rightarrow> Centroid list \<Rightarrow> duration \<Rightarrow> Centroid list option" where
  "CentroidRate cur prev dur = (if length cur \<noteq> length prev then None else rate_loop dur cur prev)"

definition Rate :: "(string \<Rightarrow> 'h) \<Rightarrow> Distribution \<Rightarrow> Distribution option \<Rightarrow> Distribution option" where
  "Rate blake d prev =
     (case prev of None \<Rightarrow> None
      | Some p \<Rightarrow>
          if Key blake p \<noteq> Key blake d then None
          else case CentroidRate (Centroids d) (Centroids p) (time_sub (dTimestamp d) (dTimestamp p)) of
                 None \<Rightarrow> None
               | Some centroidRate \<Rightarrow>
                   Some (newDistribution (isCumulative d) (dname d) (dSource d) (dtags d) centroidRate (dTimestamp d)))"

section \<open>The Metric interface (metric.go, filter.go)\<close>

datatype metric = MPoint point | MDistribution Distribution

fun m_Name :: "metric \<Rightarrow> string" where
  "m_Name (MPoint p) = ptMetric p"
| "m_Name (MDistribution d) = dname d"

fun m_Tags :: "metric \<Rightarrow> tagmap" where
  "m_Tags (MPoint p) = pt_Tags p"
| "m_Tags (MDistribution d) = dtags d"

fun m_FilterTags :: "(string \<Rightarrow> bool) \<Rightarrow> metric \<Rightarrow> metric" where
  "m_FilterTags pred (MPoint p) = MPoint (pt_FilterTags pred p)"
| "m_FilterTags pred (MDistribution d) = MDistribution (d_FilterTags pred d)"

fun m_OverrideTag :: "string \<Rightarrow> string \<Rightarrow> metric \<Rightarrow> metric" where
  "m_OverrideTag name value (MPoint p) = MPoint (pt_OverrideTag name value p)"
| "m_OverrideTag name value (MDistribution d) = MDistribution (d_OverrideTag name value d)"

fun m_AddTags :: "tagmap \<Rightarrow> metric \<Rightarrow> metric" where
  "m_AddTags tags (MPoint p) = MPoint (pt_AddTags tags p)"
| "m_AddTags tags (MDistribution d) = MDistribution (d_AddTags tags d)"

fun m_SetSource :: "string \<Rightarrow> metric \<Rightarrow> metric" where
  "m_SetSource source (MPoint p) = MPoint (p\<lparr>ptSource := source\<rparr>)"
| "m_SetSource source (MDistribution d) = MDistribution (d\<lparr>dSource := source\<rparr>)"

fun m_Source :: "metric \<Rightarrow> string" where
  "m_Source (MPoint p) = ptSource p"
| "m_Source (MDistribution d) = dSource d"

fun m_Points :: "metric \<Rightarrow> nat" where
  "m_Points (MPoint p) = 1"
| "m_Points (MDistribution d) = 7"

text \<open>
  \<open>Filter\<close> takes and yields a metric that may be nil; \<open>filtered\<close> is the counter it increments.
\<close>

definition Filter :: "globFilter option \<Rightarrow> int64 \<Rightarrow> metric option \<Rightarrow> metric option \<times> int64" where
  "Filter fi filtered pt =
     (case (fi, pt) of
        (Some f, Some p) \<Rightarrow>
          if \<not> MatchMetric f (m_Name p) (m_Tags p) then (None, filtered + 1)
          else (Some (m_FilterTags (MatchTag f) p), filtered)
      | _ \<Rightarrow> (pt, filtered))"

definition FilterAppend :: "globFilter option \<Rightarrow> int64 \<Rightarrow> metric list \<Rightarrow> metric option \<Rightarrow> metric list \<times> int64" where
  "FilterAppend fi filtered points pt =
     (let r = Filter fi filtered pt
      in case fst r of None \<Rightarrow> (points, snd r) | Some p \<Rightarrow> (points @ [p], snd r))"

text \<open>What a filter lets through of a list of metrics, and what appending them one by one amounts to.\<close>

definition passed :: "globFilter option \<Rightarrow> metric list \<Rightarrow> metric list" where
  "passed fi ms = concat (map (\<lambda>m. case fst (Filter fi 0 (Some m)) of None \<Rightarrow> [] | Some m' \<Rightarrow> [m']) ms)"

lemma passed_simps [simp]:
  "passed fi [] = []" "passed fi (xs @ ys) = passed fi xs @ passed fi ys" "passed None ms = ms"
  by (simp_all add: passed_def Filter_def)

lemma length_passed: "length (passed fi ms) \<le> length ms"
  by (induction ms) (auto simp: passed_def split: option.splits)

lemma length_passed_split:
  "length (xs @ ys) - length (passed fi xs @ passed fi ys) = (length xs - length (passed fi xs)) + (length ys - length (passed fi ys))"
  using length_passed [of fi xs] length_passed [of fi ys] by simp

lemma FilterAppend_passed:
  "FilterAppend fi filtered points (Some m) =
     (points @ passed fi [m], filtered + of_nat (length [m] - length (passed fi [m])))"
  by (cases fi) (auto simp: FilterAppend_def Filter_def passed_def Let_def)

lemma fold_FilterAppend_passed:
  "foldl (\<lambda>st m. FilterAppend fi (snd st) (fst st) (Some m)) st ms =
     (fst st @ passed fi ms, snd st + of_nat (length ms - length (passed fi ms)))"
proof (induction ms arbitrary: st)
  case (Cons m ms)
  have split: "passed fi (m # ms) = passed fi [m] @ passed fi ms" by (simp add: passed_def)
  have "length (m # ms) - length (passed fi (m # ms)) =
      (length [m] - length (passed fi [m])) + (length ms - length (passed fi ms))"
    using length_passed [of fi "[m]"] length_passed [of fi ms] unfolding split by simp
  then show ?case
    unfolding foldl.simps Cons.IH unfolding FilterAppend_passed split
    by (simp only: fst_conv snd_conv append_assoc of_nat_add add.assoc)
qed simp

section \<open>The contract of the interface\<close>

text \<open>
  What the sink relies on, whichever metric it holds: overriding a tag sets it and leaves the
  others alone, filtering keeps exactly the tags the predicate accepts, adding tags never
  changes a tag that the added map does not mention, and the name stays.
\<close>

locale wf_metric =
  fixes tags :: "'m \<Rightarrow> tagmap"
    and override :: "string \<Rightarrow> string \<Rightarrow> 'm \<Rightarrow> 'm"
    and addTags :: "tagmap \<Rightarrow> 'm \<Rightarrow> 'm"
    and filterTags :: "(string \<Rightarrow> bool) \<Rightarrow> 'm \<Rightarrow> 'm"
    and ok :: "'m \<Rightarrow> bool"
  assumes override_tags: "ok m \<Longrightarrow> mget (tags (override n v m)) k = (if k = n then Some v else mget (tags m) k)"
    and filter_tags: "ok m \<Longrightarrow> mget (tags (filterTags P m)) k = (if P k then mget (tags m) k else None)"
    and add_frame: "ok m \<Longrightarrow> \<not> mhas new k \<Longrightarrow> mget (tags (addTags new m)) k = mget (tags m) k"
    and add_present: "ok m \<Longrightarrow> mhas new k \<Longrightarrow> mhas (tags (addTags new m)) k"
    and ok_override: "ok m \<Longrightarrow> ok (override n v m)"
    and ok_filter: "ok m \<Longrightarrow> ok (filterTags P m)"
    and ok_add: "ok m \<Longrightarrow> ok (addTags new m)"
begin

lemma filter_override:
  "ok m \<Longrightarrow> P n \<Longrightarrow> mget (tags (filterTags P (override n v m))) n = Some v"
  by (simp add: override_tags filter_tags ok_override)

lemma filter_filter: "ok m \<Longrightarrow>
  mget (tags (filterTags P (filterTags Q m))) k = mget (tags (filterTags (\<lambda>k. P k \<and> Q k) m)) k"
  by (simp add: filter_tags ok_filter)

lemma override_add_frame:
  "ok m \<Longrightarrow> \<not> mhas new n \<Longrightarrow> mget (tags (addTags new (override n v m))) n = Some v"
  by (simp add: add_frame override_tags ok_override)

end

definition wf_point :: "point \<Rightarrow> bool" where
  "wf_point p \<longleftrightarrow> wf_map (pttags p)"

definition wf_dist :: "Distribution \<Rightarrow> bool" where
  "wf_dist d \<longleftrightarrow> wf_map (dtags d)"

fun wf_metric_val :: "metric \<Rightarrow> bool" where
  "wf_metric_val (MPoint p) = wf_point p"
| "wf_metric_val (MDistribution d) = wf_dist d"

text \<open>The label pairs of a point: the last pair of a name wins, and the tags win over the pairs.\<close>

lemma mget_put_pairs:
  "mget (mput_all ps m) k = (case mget (rev ps) k of Some v \<Rightarrow> Some v | None \<Rightarrow> mget m k)"
proof (induction ps arbitrary: m)
  case (Cons p ps)
  have "mget (rev ps @ [p]) k = (case mget (rev ps) k of Some v \<Rightarrow> Some v | None \<Rightarrow> mget [p] k)"
    by (simp add: mget_def map_add_def split: option.splits)
  then show ?case
    by (auto simp: mput_all_Cons Cons.IH mget_Cons split: option.splits)
qed simp

lemma mget_pt_Tags:
  "wf_point p \<Longrightarrow> mget (pt_Tags p) k =
     (case mget (pttags p) k of Some v \<Rightarrow> Some v | None \<Rightarrow> mget (rev (labelPairs p)) k)"
  unfolding pt_Tags_def wf_point_def
  by (simp add: mget_mput_all mget_put_pairs [of "labelPairs p" "[]"] split: option.splits)

lemma wf_map_pt_Tags [simp]: "wf_map (pt_Tags p)"
  by (simp add: pt_Tags_def)

lemma mget_filter_key: "mget (filter (\<lambda>e. P (fst e)) m) k = (if P k then mget m k else None)"
  using mget_mfilter [of P m k] by (simp add: mfilter_def)

lemma mget_pt_FilterTags:
  "wf_point p \<Longrightarrow> mget (pt_Tags (pt_FilterTags P p)) k = (if P k then mget (pt_Tags p) k else None)"
  by (auto simp: mget_pt_Tags pt_FilterTags_def wf_point_def rev_filter mget_filter_key split: option.splits)

lemma wf_point_ops [simp]:
  "wf_point p \<Longrightarrow> wf_point (pt_FilterTags P p)"
  "wf_point p \<Longrightarrow> wf_point (pt_OverrideTag n v p)"
  "wf_point p \<Longrightarrow> wf_point (pt_AddTag n v p)"
  by (simp_all add: wf_point_def pt_FilterTags_def pt_OverrideTag_def pt_AddTag_def)

lemma wf_point_AddTags [simp]: "wf_point p \<Longrightarrow> wf_point (pt_AddTags ts p)"
  by (induction ts arbitrary: p) (simp_all add: pt_AddTags_def)

lemma mget_pt_OverrideTag:
  "wf_point p \<Longrightarrow> mget (pt_Tags (pt_OverrideTag n v p)) k = (if k = n then Some v else mget (pt_Tags p) k)"
  by (auto simp: mget_pt_Tags wf_point_ops) (auto simp: pt_OverrideTag_def split: option.splits)

lemma pttags_AddTags:
  "mget (pttags (pt_AddTags ts p)) k =
     (case mget (pttags p) k of Some v \<Rightarrow> Some v | None \<Rightarrow> mget ts k)"
proof (induction ts arbitrary: p)
  case (Cons t ts)
  have "mget (pttags (pt_AddTags (t # ts) p)) k = mget (pttags (pt_AddTags ts (pt_AddTag (fst t) (snd t) p))) k"
    by (simp add: pt_AddTags_def)
  also have "\<dots> = (case mget (pttags (pt_AddTag (fst t) (snd t) p)) k of Some v \<Rightarrow> Some v | None \<Rightarrow> mget ts k)"
    by (rule Cons.IH)
  finally show ?case
    by (auto simp: pt_AddTag_def mhas_def mget_Cons split: option.splits)
qed (simp add: pt_AddTags_def split: option.splits)

lemma labelPairs_AddTags [simp]: "labelPairs (pt_AddTags ts p) = labelPairs p"
  by (induction ts arbitrary: p) (simp_all add: pt_AddTags_def pt_AddTag_def)

lemma mget_pt_AddTags:
  "wf_point p \<Longrightarrow> mget (pt_Tags (pt_AddTags ts p)) k =
     (case mget (pttags p) k of Some v \<Rightarrow> Some v
      | None \<Rightarrow> (case mget ts k of Some v \<Rightarrow> Some v | None \<Rightarrow> mget (pt_Tags p) k))"
  by (auto simp: mget_pt_Tags pttags_AddTags split: option.splits)

lemma dtags_AddTags:
  "mget (dtags (d_AddTags ts d)) k = (case mget (dtags d) k of Some v \<Rightarrow> Some v | None \<Rightarrow> mget ts k)"
proof (induction ts arbitrary: d)
  case (Cons t ts)
  have "mget (dtags (d_AddTags (t # ts) d)) k = mget (dtags (d_AddTags ts (d_addTag (fst t) (snd t) d))) k"
    by (simp add: d_AddTags_def)
  also have "\<dots> = (case mget (dtags (d_addTag (fst t) (snd t) d)) k of Some v \<Rightarrow> Some v | None \<Rightarrow> mget ts k)"
    by (rule Cons.IH)
  finally show ?case
    by (auto simp: d_addTag_def mhas_def mget_Cons split: option.splits)
qed (simp add: d_AddTags_def split: option.splits)

lemma wf_dist_ops [simp]:
  "wf_dist d \<Longrightarrow> wf_dist (d_FilterTags P d)"
  "wf_dist d \<Longrightarrow> wf_dist (d_OverrideTag n v d)"
  "wf_dist d \<Longrightarrow> wf_dist (d_addTag n v d)"
  by (simp_all add: wf_dist_def d_FilterTags_def d_OverrideTag_def d_addTag_def)

lemma wf_dist_AddTags [simp]: "wf_dist d \<Longrightarrow> wf_dist (d_AddTags ts d)"
  by (induction ts arbitrary: d) (simp_all add: d_AddTags_def)

interpretation pm: wf_metric pt_Tags pt_OverrideTag pt_AddTags pt_FilterTags wf_point
proof (unfold_locales, goal_cases)
  case (1 m n v k) then show ?case by (simp add: mget_pt_OverrideTag)
next
  case (2 m P k) then show ?case by (simp add: mget_pt_FilterTags)
next
  case (3 m ts k)
  then have "mget ts k = None" by (simp add: mhas_def)
  with 3(1) show ?case by (simp add: mget_pt_AddTags) (simp add: mget_pt_Tags split: option.splits)
next
  case (4 m ts k) then show ?case by (auto simp: mget_pt_AddTags mhas_def split: option.splits)
qed simp_all

interpretation dm: wf_metric dtags d_OverrideTag d_AddTags d_FilterTags wf_dist
  by unfold_locales
    (auto simp: dtags_AddTags mhas_def d_OverrideTag_def d_FilterTags_def wf_dist_def
      wf_dist_AddTags [unfolded wf_dist_def] split: option.splits)

interpretation mm: wf_metric m_Tags m_OverrideTag m_AddTags m_FilterTags wf_metric_val
proof (unfold_locales, goal_cases)
  case (1 m n v k) then show ?case by (cases m) (simp_all add: pm.override_tags dm.override_tags)
next
  case (2 m P k) then show ?case by (cases m) (simp_all add: pm.filter_tags dm.filter_tags)
next
  case (3 m ts k) then show ?case by (cases m) (simp_all add: pm.add_frame dm.add_frame)
next
  case (4 m ts k) then show ?case by (cases m) (simp_all add: pm.add_present dm.add_present)
next
  case (5 m n v) then show ?case by (cases m) simp_all
next
  case (6 m P) then show ?case by (cases m) simp_all
next
  case (7 m ts) then show ?case by (cases m) simp_all
qed

section \<open>The filter\<close>

lemma Filter_None [simp]: "Filter None n pt = (pt, n)"
  by (simp add: Filter_def split: option.splits)

lemma Filter_cases:
  "Filter (Some f) n (Some p) =
     (if MatchMetric f (m_Name p) (m_Tags p) then (Some (m_FilterTags (MatchTag f) p), n) else (None, n + 1))"
  by (simp add: Filter_def)

lemma m_Name_ops [simp]:
  "m_Name (m_FilterTags P m) = m_Name m" "m_Name (m_OverrideTag n v m) = m_Name m"
  "m_Name (m_SetSource s m) = m_Name m"
  by (cases m; simp add: pt_FilterTags_def d_FilterTags_def pt_OverrideTag_def d_OverrideTag_def)+

lemma pt_AddTags_name [simp]: "ptMetric (pt_AddTags ts p) = ptMetric p"
  by (induction ts arbitrary: p) (simp_all add: pt_AddTags_def pt_AddTag_def)

lemma d_AddTags_name [simp]: "dname (d_AddTags ts d) = dname d"
  by (induction ts arbitrary: d) (simp_all add: d_AddTags_def d_addTag_def)

lemma m_Name_AddTags [simp]: "m_Name (m_AddTags ts m) = m_Name m"
  by (cases m) simp_all

end
