(* ===== verification/Tag_Cleaning.thy ===== *)
theory Tag_Cleaning
  imports Wf_Points
begin

text \<open>
  The tag budget of the Wavefront sink (\<open>collector/plugins/sinks/wavefront/utils.go\<close>): a point may
  carry a limited number of tags, and \<open>cleanTags\<close> chooses which. The functions mutate the map
  they are given; here they return the new map with what they removed.
\<close>

section \<open>The name patterns\<close>

text \<open>
  \<open>^label.*t\<close>: the name starts with \<open>label\<close> and \<open>t\<close> follows on the same line. The other
  alternatives of the patterns are not anchored, and a star applies to the last letter only, so
  that \<open>alpha*\<close> is found wherever \<open>alph\<close> is.
\<close>

definition label_then :: "string \<Rightarrow> string \<Rightarrow> bool" where
  "label_then t s \<longleftrightarrow>
     HasPrefix s ''label'' \<and> Contains (takeWhile (\<lambda>c. c \<noteq> CHR 0x0A) (drop 5 s)) t"

definition alphaBetaRegex :: "string \<Rightarrow> bool" where
  "alphaBetaRegex s \<longleftrightarrow> label_then ''beta'' s \<or> Contains s ''alph''"

definition iaasNameRegex :: "string \<Rightarrow> bool" where
  "iaasNameRegex s \<longleftrightarrow> label_then ''gke'' s \<or> Contains s ''azure'' \<or> Contains s ''ek''"

definition labelNameRegex :: "string \<Rightarrow> bool" where
  "labelNameRegex s \<longleftrightarrow> HasPrefix s ''label''"

section \<open>The steps\<close>

definition emptyReason :: string where "emptyReason = ''they were empty''"
definition excludeListReason :: string where "excludeListReason = ''they were on an exclude list''"
definition dedupeReason :: string where
  "dedupeReason = ''there were too many tags so we removed tags with duplicate tag values''"
definition iaasReason :: string where
  "iaasReason = ''there were too many tags so we removed IaaS specific tags''"
definition alphaBetaReason :: string where
  "alphaBetaReason = ''there were too many tags so we removed alpha and beta tags''"
definition extraTagsReason :: string where
  "extraTagsReason = ''there were too many tags so we removed label.* tags''"

lemmas reason_defs = emptyReason_def excludeListReason_def dedupeReason_def iaasReason_def
  alphaBetaReason_def extraTagsReason_def

definition excludeTagList :: "string list" where
  "excludeTagList = [''namespace_id'', ''host_id'', ''pod_id'', ''hostname'']"

definition maxWavefrontTags :: int where "maxWavefrontTags = 17"

definition minDedupeTagValueLen :: nat where "minDedupeTagValueLen = 5"

definition isAnEmptyTag :: "string \<Rightarrow> bool" where
  "isAnEmptyTag v \<longleftrightarrow> v = '''' \<or> v = ''/'' \<or> v = ''-''"

definition removeEmptyTags :: "tagmap \<Rightarrow> tagmap \<times> string list" where
  "removeEmptyTags tags =
     foldl (\<lambda>s e. if isAnEmptyTag (snd e) then (mdel (fst e) (fst s), snd s @ [fst e]) else s) (tags, []) tags"

fun excludeTag_in :: "string list \<Rightarrow> string \<Rightarrow> bool" where
  "excludeTag_in [] name = False"
| "excludeTag_in (excludeName # rest) name = (if excludeName = name then True else excludeTag_in rest name)"

definition excludeTag :: "string \<Rightarrow> bool" where
  "excludeTag name = excludeTag_in excludeTagList name"

definition excludeTags :: "tagmap \<Rightarrow> tagmap \<times> string list" where
  "excludeTags tags =
     foldl (\<lambda>s e. if excludeTag (fst e) then (mdel (fst e) (fst s), snd s @ [fst e]) else s) (tags, []) tags"

text \<open>The tags that stay, the tags that are guaranteed, and the number of the latter.\<close>

definition splitGuaranteedTags :: "tagmap \<Rightarrow> string list \<Rightarrow> tagmap \<times> tagmap \<times> int" where
  "splitGuaranteedTags tags guarantee =
     (let s1 = foldl (\<lambda>s tagKey.
                 (mdel tagKey (fst s),
                  case mget (fst s) tagKey of Some val \<Rightarrow> mput tagKey val (snd s) | None \<Rightarrow> snd s))
               (tags, []) guarantee;
          s2 = foldl (\<lambda>s e. if \<not> labelNameRegex (fst e)
                 then (mdel (fst e) (fst s), mput (fst e) (snd e) (snd s)) else s) s1 (fst s1)
      in (fst s2, snd s2, int (length (snd s2))))"

definition combineTags :: "tagmap \<Rightarrow> tagmap \<Rightarrow> tagmap" where
  "combineTags incl tags = mput_all incl tags"

text \<open>The name to keep and the name to remove.\<close>

definition compareTagNames :: "string \<Rightarrow> string \<Rightarrow> string \<times> string" where
  "compareTagNames name prevWinner =
     (if alphaBetaRegex name then (prevWinner, name)
      else if alphaBetaRegex prevWinner then (name, prevWinner)
      else if length name < length prevWinner then (name, prevWinner)
      else if length prevWinner < length name then (prevWinner, name)
      else if name < prevWinner then (name, prevWinner)
      else (prevWinner, name))"

definition dedupe_step ::
  "tagmap \<times> tagmap \<times> string list \<Rightarrow> string \<Rightarrow> tagmap \<times> tagmap \<times> string list" where
  "dedupe_step s name =
     (case s of (tags, inverted, removed) \<Rightarrow>
       let value = mgets tags name
       in if length value < minDedupeTagValueLen then s
          else case mget inverted value of
             None \<Rightarrow> (tags, mput value name inverted, removed)
           | Some prev \<Rightarrow>
               let kr = compareTagNames name prev
               in (mdel (snd kr) tags, mput value (fst kr) inverted, removed @ [snd kr]))"

definition dedupeTagValues :: "tagmap \<Rightarrow> tagmap \<times> string list" where
  "dedupeTagValues tags =
     (case foldl dedupe_step (tags, [], []) (sorted_keys tags) of (t, inverted, removed) \<Rightarrow> (t, removed))"

fun removeMatching :: "(string \<Rightarrow> bool) \<Rightarrow> int \<Rightarrow> string list \<Rightarrow> int \<Rightarrow> tagmap \<times> string list \<Rightarrow> tagmap \<times> string list" where
  "removeMatching re number [] n s = s"
| "removeMatching re number (name # names) n s =
     (if n \<ge> number then s
      else if re name then removeMatching re number names (n + 1) (mdel name (fst s), snd s @ [name])
      else removeMatching re number names n s)"

definition removeTagsLabelsMatching :: "tagmap \<Rightarrow> (string \<Rightarrow> bool) \<Rightarrow> int \<Rightarrow> tagmap \<times> string list" where
  "removeTagsLabelsMatching tags re number = removeMatching re number (sorted_keys tags) 0 (tags, [])"

definition cleanTags :: "tagmap \<Rightarrow> string list \<Rightarrow> int \<Rightarrow> tagmap \<times> (string, string list) gomap" where
  "cleanTags tags guarantee maxCapacity =
     (let r = removeEmptyTags tags; tags = fst r; removedReasons = mput emptyReason (snd r) [];
          r = excludeTags tags; tags = fst r; removedReasons = mput excludeListReason (snd r) removedReasons;
          sp = splitGuaranteedTags tags guarantee; tags = fst sp;
          adjustedMaxCapacity = maxCapacity - snd (snd sp);
          (tags, removedReasons) =
            (if int (length tags) > adjustedMaxCapacity
             then (let r = dedupeTagValues tags in (fst r, mput dedupeReason (snd r) removedReasons))
             else (tags, removedReasons));
          (tags, removedReasons) =
            (if int (length tags) > adjustedMaxCapacity
             then (let r = removeTagsLabelsMatching tags alphaBetaRegex (int (length tags) - adjustedMaxCapacity);
                       tags = fst r; removedReasons = mput alphaBetaReason (snd r) removedReasons;
                       r = removeTagsLabelsMatching tags iaasNameRegex (int (length tags) - adjustedMaxCapacity);
                       tags = fst r; removedReasons = mput iaasReason (snd r) removedReasons;
                       r = removeTagsLabelsMatching tags labelNameRegex (int (length tags) - adjustedMaxCapacity);
                       tags = fst r; removedReasons = mput extraTagsReason (snd r) removedReasons
                   in (tags, removedReasons))
             else (tags, removedReasons))
      in (combineTags (fst (snd sp)) tags, removedReasons))"

section \<open>What each step does\<close>

lemma del_loop:
  "foldl (\<lambda>s e. if P e then (mdel (fst e) (fst s), snd s @ [fst e]) else s) (m, r) es =
     (filter (\<lambda>e. fst e \<notin> fst ` set (filter P es)) m, r @ map fst (filter P es))"
proof (induction es arbitrary: m r)
  case (Cons e es)
  show ?case
  proof (cases "P e")
    case True
    then show ?thesis by (simp add: Cons.IH mdel_def)
  next
    case False
    then show ?thesis by (simp add: Cons.IH)
  qed
qed simp

lemma wf_map_key_unique: "wf_map m \<Longrightarrow> e \<in> set m \<Longrightarrow> e' \<in> set m \<Longrightarrow> fst e = fst e' \<Longrightarrow> e = e'"
  unfolding wf_map_def by (metis distinct_map inj_on_def)

lemma removeEmptyTags_eq:
  "wf_map tags \<Longrightarrow> removeEmptyTags tags =
     (filter (\<lambda>e. \<not> isAnEmptyTag (snd e)) tags, map fst (filter (\<lambda>e. isAnEmptyTag (snd e)) tags))"
  unfolding removeEmptyTags_def del_loop
  by (auto intro!: filter_cong dest: wf_map_key_unique)

lemma excludeTag_iff: "excludeTag n \<longleftrightarrow> n \<in> set excludeTagList"
proof -
  have "excludeTag_in l n \<longleftrightarrow> n \<in> set l" for l by (induction l) auto
  then show ?thesis by (simp add: excludeTag_def)
qed

lemma excludeTags_eq:
  "excludeTags tags = (mfilter (\<lambda>n. \<not> excludeTag n) tags, map fst (filter (\<lambda>e. excludeTag (fst e)) tags))"
  unfolding excludeTags_def del_loop mfilter_def by (simp, rule filter_cong) auto

lemma mget_filter_values:
  "wf_map m \<Longrightarrow> mget (filter (\<lambda>e. P (snd e)) m) k =
     (case mget m k of Some v \<Rightarrow> if P v then Some v else None | None \<Rightarrow> None)"
proof (induction m)
  case (Cons e m)
  then have "wf_map m" and "mget m (fst e) = None" by (auto simp: wf_map_def mget_None_iff)
  with Cons.IH show ?case by (auto simp: mget_Cons split: option.splits)
qed simp

definition guaranteed :: "string list \<Rightarrow> string \<Rightarrow> bool" where
  "guaranteed g k \<longleftrightarrow> k \<in> set g \<or> \<not> labelNameRegex k"

lemma split_loop1:
  "wf_map (snd s) \<Longrightarrow> (\<forall>k. mhas (snd s) k \<longrightarrow> \<not> mhas (fst s) k) \<Longrightarrow>
   (let s' = foldl (\<lambda>s k. (mdel k (fst s), case mget (fst s) k of Some v \<Rightarrow> mput k v (snd s) | None \<Rightarrow> snd s)) s g
    in fst s' = mfilter (\<lambda>k. k \<notin> set g) (fst s) \<and> wf_map (snd s') \<and>
      (\<forall>k. mget (snd s') k = (if k \<in> set g \<and> mhas (fst s) k then mget (fst s) k else mget (snd s) k)))"
proof (induction g arbitrary: s)
  case (Cons k g)
  let ?s = "(mdel k (fst s), case mget (fst s) k of Some v \<Rightarrow> mput k v (snd s) | None \<Rightarrow> snd s)"
  have wf: "wf_map (snd ?s)" using Cons.prems(1) by (simp split: option.splits)
  have dis: "\<forall>k'. mhas (snd ?s) k' \<longrightarrow> \<not> mhas (fst ?s) k'"
    using Cons.prems(2) by (auto simp: mhas_def split: option.splits)
  have f: "mfilter (\<lambda>k'. k' \<notin> set g) (mdel k (fst s)) = mfilter (\<lambda>k'. k' \<notin> set (k # g)) (fst s)"
    by (auto simp: mdel_mfilter mfilter_def conj_commute intro!: filter_cong)
  show ?case using Cons.IH [OF wf dis] Cons.prems(2) f
    by (auto simp: Let_def mhas_def split: option.splits)
qed (simp add: mfilter_def)

lemma split_loop2:
  "foldl (\<lambda>s e. if P e then (mdel (fst e) (fst s), mput (fst e) (snd e) (snd s)) else s) (m, g) es =
     (filter (\<lambda>e. fst e \<notin> fst ` set (filter P es)) m, mput_all (filter P es) g)"
proof (induction es arbitrary: m g)
  case (Cons e es)
  show ?case
  proof (cases "P e")
    case True
    then show ?thesis by (simp add: Cons.IH mdel_def mput_all_Cons)
  next
    case False
    then show ?thesis by (simp add: Cons.IH)
  qed
qed simp

lemma splitGuaranteedTags_spec:
  assumes "wf_map tags" and r: "r = splitGuaranteedTags tags g"
  shows "fst r = mfilter (\<lambda>k. \<not> guaranteed g k) tags"
    and "wf_map (fst (snd r))"
    and "mget (fst (snd r)) k = (if guaranteed g k then mget tags k else None)"
    and "snd (snd r) = int (length (fst (snd r)))"
proof -
  define s1 where "s1 = foldl (\<lambda>s tagKey.
                 (mdel tagKey (fst s),
                  case mget (fst s) tagKey of Some val \<Rightarrow> mput tagKey val (snd s) | None \<Rightarrow> snd s))
               (tags, []) g"
  have s1: "fst s1 = mfilter (\<lambda>k. k \<notin> set g) tags" "wf_map (snd s1)"
      "\<And>k. mget (snd s1) k = (if k \<in> set g \<and> mhas tags k then mget tags k else None)"
    using split_loop1 [of "(tags, [])" g] by (simp_all add: s1_def mhas_def Let_def)
  let ?P = "\<lambda>e. \<not> labelNameRegex (fst e)"
  define f where "f = filter ?P (fst s1)"
  have r2: "r = (filter (\<lambda>e. fst e \<notin> fst ` set f) (fst s1), mput_all f (snd s1),
      int (length (mput_all f (snd s1))))"
    using split_loop2 [of ?P "fst s1" "snd s1" "fst s1"]
    unfolding r splitGuaranteedTags_def s1_def [symmetric] f_def by simp
  have wff: "wf_map f" using assms(1) s1 by (simp add: f_def)
  have mf: "mget f k = (if \<not> labelNameRegex k then mget (fst s1) k else None)" for k
    unfolding f_def by (rule mget_filter_key)
  have "fst r = filter (\<lambda>e. fst e \<notin> fst ` set f) (fst s1)" by (simp add: r2)
  also have "\<dots> = mfilter (\<lambda>k. \<not> guaranteed g k) tags"
    by (auto simp: f_def s1(1) mfilter_def guaranteed_def intro!: filter_cong)
  finally show "fst r = mfilter (\<lambda>k. \<not> guaranteed g k) tags" .
  show "wf_map (fst (snd r))" using s1(2) by (simp add: r2)
  show "mget (fst (snd r)) k = (if guaranteed g k then mget tags k else None)"
    by (auto simp: r2 mget_mput_all [OF wff] mf s1 guaranteed_def mhas_def split: option.splits)
  show "snd (snd r) = int (length (fst (snd r)))" by (simp add: r2)
qed

lemma removeMatching_eq:
  "removeMatching re number names n s =
     (let rm = take (nat (number - n)) (filter re names)
      in (filter (\<lambda>e. fst e \<notin> set rm) (fst s), snd s @ rm))"
proof (induction names arbitrary: n s)
  case (Cons name names)
  show ?case
  proof (cases "n \<ge> number \<or> \<not> re name")
    case True
    then show ?thesis by (auto simp: Cons.IH Let_def)
  next
    case False
    then have "nat (number - n) = Suc (nat (number - (n + 1)))" by linarith
    with False show ?thesis
      by (simp add: Cons.IH Let_def mdel_def)
  qed
qed (simp add: Let_def)

definition removable :: "tagmap \<Rightarrow> (string \<Rightarrow> bool) \<Rightarrow> int \<Rightarrow> string list" where
  "removable tags re number = take (nat number) (filter re (sorted_keys tags))"

lemma removeTagsLabelsMatching_eq:
  "removeTagsLabelsMatching tags re number =
     (mfilter (\<lambda>k. k \<notin> set (removable tags re number)) tags, removable tags re number)"
  by (simp add: removeTagsLabelsMatching_def removeMatching_eq removable_def Let_def mfilter_def)

lemma length_mfilter_keys:
  "wf_map m \<Longrightarrow> length (mfilter P m) = card {k \<in> set (mkeys m). P k}"
  using wf_map_card [of "mfilter P m"] by (simp add: set_mfilter)

lemma removable_subset: "set (removable tags re n) \<subseteq> {k \<in> set (mkeys tags). re k}"
  unfolding removable_def using set_take_subset by fastforce

lemma removable_length:
  assumes "wf_map tags" and "\<forall>k \<in> set (mkeys tags). re k"
  shows "length (mfilter (\<lambda>k. k \<notin> set (removable tags re n)) tags) = length tags - nat n"
proof -
  have "filter re (sorted_keys tags) = sorted_keys tags" using assms(2) by simp
  then have rm: "removable tags re n = take (nat n) (sorted_keys tags)" by (simp add: removable_def)
  have d: "distinct (sorted_keys tags)" by (rule distinct_sorted_keys [OF assms(1)])
  have "{k \<in> set (mkeys tags). k \<notin> set (removable tags re n)} = set (drop (nat n) (sorted_keys tags))"
    using d set_take_disj_set_drop_if_distinct [OF d, of "nat n" "nat n"]
    by (auto simp: rm dest: in_set_dropD)
      (metis append_take_drop_id Un_iff set_append set_sorted_keys)
  then show ?thesis
    using length_mfilter_keys [OF assms(1)] distinct_card [OF distinct_drop [OF d]]
    by (simp add: sorted_keys_def)
qed

section \<open>Removing duplicate values\<close>

text \<open>
  The state after the names \<open>done\<close> were seen: what was removed is what is missing, the inverted
  map names one remaining tag for every long value seen, and no other seen tag has that value.
\<close>

definition dedupe_inv :: "tagmap \<Rightarrow> string set \<Rightarrow> tagmap \<times> tagmap \<times> string list \<Rightarrow> bool" where
  "dedupe_inv tags seen s \<longleftrightarrow>
     (case s of (t, inverted, removed) \<Rightarrow>
       wf_map t \<and> set removed \<subseteq> seen \<and> (\<forall>k. mget t k = (if k \<in> set removed then None else mget tags k)) \<and>
       (\<forall>v n. mget inverted v = Some n \<longrightarrow> n \<in> seen \<and> mget t n = Some v \<and> minDedupeTagValueLen \<le> length v) \<and>
       (\<forall>n \<in> seen. \<forall>v. mget tags n = Some v \<and> minDedupeTagValueLen \<le> length v \<longrightarrow> mget inverted v \<noteq> None) \<and>
       (\<forall>n \<in> seen. \<forall>v. mget t n = Some v \<and> minDedupeTagValueLen \<le> length v \<longrightarrow> mget inverted v = Some n))"

lemma compareTagNames_perm:
  "compareTagNames a b = (a, b) \<or> compareTagNames a b = (b, a)"
  by (simp add: compareTagNames_def)

lemma dedupe_invD:
  assumes "dedupe_inv tags seen (t, iv, r)"
  shows "wf_map t" and "set r \<subseteq> seen" and "mget t k = (if k \<in> set r then None else mget tags k)"
    and "mget iv v = Some n \<Longrightarrow> n \<in> seen" and "mget iv v = Some n \<Longrightarrow> mget t n = Some v"
    and "mget iv v = Some n \<Longrightarrow> minDedupeTagValueLen \<le> length v"
    and "n \<in> seen \<Longrightarrow> mget tags n = Some v \<Longrightarrow> minDedupeTagValueLen \<le> length v \<Longrightarrow> mget iv v \<noteq> None"
    and "n \<in> seen \<Longrightarrow> mget t n = Some v \<Longrightarrow> minDedupeTagValueLen \<le> length v \<Longrightarrow> mget iv v = Some n"
  using assms unfolding dedupe_inv_def prod.case by (blast | presburger)+

lemma dedupe_step_inv:
  assumes inv: "dedupe_inv tags seen s" and name: "name \<notin> seen" "mget tags name = Some value"
  shows "dedupe_inv tags (insert name seen) (dedupe_step s name)"
proof -
  obtain t iv r where s: "s = (t, iv, r)" by (cases s) auto
  note D = dedupe_invD [OF inv [unfolded s]]
  have tn: "mget t name = Some value" using D(2) D(3) [of name] name by (auto split: if_splits)
  show ?thesis
  proof (cases "length value < minDedupeTagValueLen")
    case True
    then have "dedupe_step s name = (t, iv, r)" using tn by (simp add: dedupe_step_def s mgets_def)
    moreover have "dedupe_inv tags (insert name seen) (t, iv, r)"
      unfolding dedupe_inv_def prod.case
    proof (intro conjI allI impI ballI)
      show "set r \<subseteq> insert name seen" using D(2) by auto
    next
      fix n v assume "n \<in> insert name seen" "mget tags n = Some v \<and> minDedupeTagValueLen \<le> length v"
      then show "mget iv v \<noteq> None" using name True D(7) [of n v] by (cases "n = name") auto
    next
      fix n v assume "n \<in> insert name seen" "mget t n = Some v \<and> minDedupeTagValueLen \<le> length v"
      then show "mget iv v = Some n" using tn True D(8) [of n v] by (cases "n = name") auto
    next
      fix v n assume iv: "mget iv v = Some n"
      show "n \<in> insert name seen" using D(4) [OF iv] by simp
      show "mget t n = Some v" by (rule D(5) [OF iv])
      show "minDedupeTagValueLen \<le> length v" by (rule D(6) [OF iv])
    qed (rule D(1), rule D(3))
    ultimately show ?thesis by simp
  next
    case long: False
    show ?thesis
    proof (cases "mget iv value")
      case None
      then have step: "dedupe_step s name = (t, mput value name iv, r)"
        using tn long by (simp add: dedupe_step_def s mgets_def)
      show ?thesis unfolding step dedupe_inv_def prod.case mget_mput
      proof (intro conjI allI impI ballI)
        show "set r \<subseteq> insert name seen" using D(2) by auto
      next
        fix n v assume "n \<in> insert name seen" "mget tags n = Some v \<and> minDedupeTagValueLen \<le> length v"
        then show "(if value = v then Some name else mget iv v) \<noteq> None"
          using name D(7) [of n v] by (cases "n = name") auto
      next
        fix n v assume nv: "n \<in> insert name seen" "mget t n = Some v \<and> minDedupeTagValueLen \<le> length v"
        show "(if value = v then Some name else mget iv v) = Some n"
        proof (cases "n = name")
          case True
          with nv tn show ?thesis by simp
        next
          case False
          then have "mget iv v = Some n" using nv D(8) [of n v] by simp
          with None show ?thesis by auto
        qed
      next
        fix v n assume iv: "(if value = v then Some name else mget iv v) = Some n"
        show "n \<in> insert name seen" using iv D(4) [of v n] by (auto split: if_splits)
        show "mget t n = Some v" using iv tn D(5) [of v n] by (auto split: if_splits)
        show "minDedupeTagValueLen \<le> length v" using iv long D(6) [of v n] by (auto split: if_splits)
      qed (rule D(1), rule D(3))
    next
      case (Some prev)
      then have prev: "prev \<in> seen" "mget t prev = Some value" "prev \<noteq> name"
        using D(4,5) name by auto
      have step: "dedupe_step s name = (mdel rem t, mput value keep iv, r @ [rem])"
        if "compareTagNames name prev = (keep, rem)" for keep rem
        using that tn long Some by (simp add: dedupe_step_def s mgets_def)
      have inv': "dedupe_inv tags (insert name seen) (mdel rem t, mput value keep iv, r @ [rem])"
        if kr: "(keep, rem) = (name, prev) \<or> (keep, rem) = (prev, name)" for keep rem
      proof -
        have kn: "keep \<noteq> rem" "mget t keep = Some value" "mget t rem = Some value" "keep \<in> insert name seen"
            "rem \<in> insert name seen"
          using kr prev tn by auto
        show ?thesis unfolding dedupe_inv_def prod.case
        proof (intro conjI allI impI ballI)
          show "wf_map (mdel rem t)" using D(1) by simp
          show "set (r @ [rem]) \<subseteq> insert name seen" using D(2) kn by auto
          show "mget (mdel rem t) k = (if k \<in> set (r @ [rem]) then None else mget tags k)" for k
            using D(3) [of k] by simp
        next
          fix v n assume n: "mget (mput value keep iv) v = Some n"
          show "n \<in> insert name seen" using n kn D(4) by (auto split: if_splits)
          show "mget (mdel rem t) n = Some v"
          proof (cases "v = value")
            case False
            then have "mget t n = Some v" using n D(5) by simp
            with False kn(3) show ?thesis by auto
          qed (use n kn in auto)
          show "minDedupeTagValueLen \<le> length v" using n D(6) long by (auto split: if_splits)
        next
          fix n v assume n: "n \<in> insert name seen" and v: "mget tags n = Some v \<and> minDedupeTagValueLen \<le> length v"
          show "mget (mput value keep iv) v \<noteq> None"
            using n v name D(7) by (cases "v = value") auto
        next
          fix n v assume n: "n \<in> insert name seen" and v: "mget (mdel rem t) n = Some v \<and> minDedupeTagValueLen \<le> length v"
          then have tnv: "mget t n = Some v" "n \<noteq> rem" by (auto split: if_splits)
          show "mget (mput value keep iv) v = Some n"
          proof (cases "v = value")
            case True
            have "n = name \<or> n = prev" using n tnv v True Some D(8) [of n v] by auto
            with kr tnv True show ?thesis by auto
          next
            case False
            then have "n \<noteq> name" using tnv tn by auto
            with False n tnv v D(8) show ?thesis by auto
          qed
        qed
      qed
      from compareTagNames_perm [of name prev] show ?thesis
        using step inv' by (metis (no_types))
    qed
  qed
qed

lemma dedupe_fold_inv:
  "dedupe_inv tags seen s \<Longrightarrow> distinct ns \<Longrightarrow> set ns \<inter> seen = {} \<Longrightarrow> \<forall>n \<in> set ns. mhas tags n \<Longrightarrow>
   dedupe_inv tags (seen \<union> set ns) (foldl dedupe_step s ns)"
proof (induction ns arbitrary: seen s)
  case (Cons n ns)
  then obtain v where "mget tags n = Some v" by (auto simp: mhas_def)
  then have "dedupe_inv tags (insert n seen) (dedupe_step s n)"
    using Cons.prems by (intro dedupe_step_inv) auto
  from Cons.IH [OF this] Cons.prems show ?case by auto
qed simp

lemma dedupeTagValues_inv:
  assumes "wf_map tags"
  obtains t iv r where "dedupeTagValues tags = (t, r)" and "dedupe_inv tags (set (mkeys tags)) (t, iv, r)"
proof -
  have start: "dedupe_inv tags {} (tags, [], [])" using assms by (simp add: dedupe_inv_def)
  have "dedupe_inv tags ({} \<union> set (sorted_keys tags)) (foldl dedupe_step (tags, [], []) (sorted_keys tags))"
    using distinct_sorted_keys [OF assms] by (intro dedupe_fold_inv [OF start]) (auto simp: mhas_mkeys)
  with that show thesis
    by (cases "foldl dedupe_step (tags, [], []) (sorted_keys tags)") (auto simp: dedupeTagValues_def)
qed

lemma dedupeTagValues_spec:
  assumes "wf_map tags"
  shows "wf_map (fst (dedupeTagValues tags))"
    and "mget (fst (dedupeTagValues tags)) k =
      (if k \<in> set (snd (dedupeTagValues tags)) then None else mget tags k)"
    and "set (snd (dedupeTagValues tags)) \<subseteq> set (mkeys tags)"
  by (rule dedupeTagValues_inv [OF assms], simp add: dedupe_inv_def)+

text \<open>Which tags remain does not depend on the order of the map.\<close>

lemma dedupe_step_same:
  assumes "same_map (fst s) (fst s')" and "snd s = snd s'"
  shows "same_map (fst (dedupe_step s n)) (fst (dedupe_step s' n)) \<and> snd (dedupe_step s n) = snd (dedupe_step s' n)"
proof -
  have "mgets (fst s) n = mgets (fst s') n" using assms(1) by (simp add: mgets_def same_map_def)
  then show ?thesis using assms
    by (cases s; cases s') (auto simp: dedupe_step_def Let_def same_map_mdel split: option.splits)
qed

lemma dedupe_fold_same:
  "same_map (fst s) (fst s') \<Longrightarrow> snd s = snd s' \<Longrightarrow>
   same_map (fst (foldl dedupe_step s ns)) (fst (foldl dedupe_step s' ns)) \<and>
   snd (foldl dedupe_step s ns) = snd (foldl dedupe_step s' ns)"
proof (induction ns arbitrary: s s')
  case (Cons n ns)
  from Cons.IH dedupe_step_same [OF Cons.prems] show ?case by simp
qed simp

lemma dedupeTagValues_same:
  assumes "same_map m n" and "wf_map m" and "wf_map n"
  shows "same_map (fst (dedupeTagValues m)) (fst (dedupeTagValues n)) \<and>
    snd (dedupeTagValues m) = snd (dedupeTagValues n)"
  using dedupe_fold_same [of "(m, [], [])" "(n, [], [])" "sorted_keys m"] sorted_keys_same_map [OF assms] assms(1)
  by (cases "foldl dedupe_step (m, [], []) (sorted_keys m)"; cases "foldl dedupe_step (n, [], []) (sorted_keys n)")
    (simp add: dedupeTagValues_def)

section \<open>The whole of cleanTags\<close>

text \<open>The tags that may be sent at all, and the reduction of the tags that are not guaranteed.\<close>

definition sendable :: "tagmap \<Rightarrow> tagmap" where
  "sendable tags = mfilter (\<lambda>n. \<not> excludeTag n) (filter (\<lambda>e. \<not> isAnEmptyTag (snd e)) tags)"

definition reduceTags :: "tagmap \<Rightarrow> int \<Rightarrow> tagmap" where
  "reduceTags tags adj =
     (let t1 = (if int (length tags) > adj then fst (dedupeTagValues tags) else tags)
      in if int (length t1) > adj
         then (let t2 = fst (removeTagsLabelsMatching t1 alphaBetaRegex (int (length t1) - adj));
                   t3 = fst (removeTagsLabelsMatching t2 iaasNameRegex (int (length t2) - adj))
               in fst (removeTagsLabelsMatching t3 labelNameRegex (int (length t3) - adj)))
         else t1)"

lemma cleanTags_eq:
  assumes "wf_map tags" and sp: "sp = splitGuaranteedTags (sendable tags) g"
  shows "fst (cleanTags tags g cap) = mput_all (fst (snd sp)) (reduceTags (fst sp) (cap - snd (snd sp)))"
  unfolding cleanTags_def removeEmptyTags_eq [OF assms(1)] excludeTags_eq Let_def fst_conv snd_conv
    sendable_def [symmetric] sp [symmetric]
  by (simp add: reduceTags_def combineTags_def Let_def split: prod.splits)

lemma wf_sendable [simp]: "wf_map tags \<Longrightarrow> wf_map (sendable tags)"
  by (simp add: sendable_def)

lemma mget_sendable:
  "wf_map tags \<Longrightarrow> mget (sendable tags) k =
     (case mget tags k of Some v \<Rightarrow> if isAnEmptyTag v \<or> excludeTag k then None else Some v | None \<Rightarrow> None)"
  using mget_filter_values [of tags "\<lambda>v. \<not> isAnEmptyTag v" k]
  by (simp add: sendable_def split: option.splits)

lemma reduceTags_wf: "wf_map tags \<Longrightarrow> wf_map (reduceTags tags adj)"
  by (simp add: reduceTags_def Let_def removeTagsLabelsMatching_eq dedupeTagValues_spec(1))

lemma reduceTags_sub:
  assumes "wf_map tags" and "mget (reduceTags tags adj) k = Some v"
  shows "mget tags k = Some v"
  using assms dedupeTagValues_spec(2) [OF assms(1), of k]
  by (simp add: reduceTags_def Let_def removeTagsLabelsMatching_eq split: if_splits)

lemma reduceTags_id: "int (length tags) \<le> adj \<Longrightarrow> reduceTags tags adj = tags"
  by (simp add: reduceTags_def)

lemma wf_mget_in_keys: "wf_map m \<Longrightarrow> k \<in> set (mkeys m) \<longleftrightarrow> (\<exists>v. mget m k = Some v)"
  by (simp add: mhas_mkeys [symmetric] mhas_def)

lemma reduceTags_length:
  assumes wf: "wf_map tags" and lab: "\<forall>k \<in> set (mkeys tags). labelNameRegex k"
  shows "int (length (reduceTags tags adj)) \<le> max 0 adj"
proof -
  define t1 where "t1 = (if int (length tags) > adj then fst (dedupeTagValues tags) else tags)"
  have wf1: "wf_map t1" using wf dedupeTagValues_spec(1) by (simp add: t1_def)
  have lab1: "\<forall>k \<in> set (mkeys t1). labelNameRegex k"
    using lab dedupeTagValues_spec(2) [OF wf]
    by (auto simp: t1_def wf_mget_in_keys [OF dedupeTagValues_spec(1) [OF wf]] wf_mget_in_keys [OF wf] split: if_splits)
  show ?thesis
  proof (cases "int (length t1) > adj")
    case True
    define t2 where "t2 = fst (removeTagsLabelsMatching t1 alphaBetaRegex (int (length t1) - adj))"
    define t3 where "t3 = fst (removeTagsLabelsMatching t2 iaasNameRegex (int (length t2) - adj))"
    have wf3: "wf_map t3" using wf1 by (simp add: t3_def t2_def removeTagsLabelsMatching_eq)
    have "set (mkeys t3) \<subseteq> set (mkeys t1)" by (auto simp: t3_def t2_def removeTagsLabelsMatching_eq set_mfilter)
    then have lab3: "\<forall>k \<in> set (mkeys t3). labelNameRegex k" using lab1 by auto
    have "reduceTags tags adj = fst (removeTagsLabelsMatching t3 labelNameRegex (int (length t3) - adj))"
      using True by (simp add: reduceTags_def t1_def [symmetric] t2_def t3_def Let_def)
    then have "length (reduceTags tags adj) = length t3 - nat (int (length t3) - adj)"
      using removable_length [OF wf3 lab3] by (simp add: removeTagsLabelsMatching_eq)
    then show ?thesis by linarith
  next
    case False
    then have "reduceTags tags adj = t1" by (simp add: reduceTags_def t1_def [symmetric] Let_def)
    with False show ?thesis by simp
  qed
qed

lemma removeTags_same:
  assumes "same_map m n" and "wf_map m" and "wf_map n"
  shows "same_map (fst (removeTagsLabelsMatching m re c)) (fst (removeTagsLabelsMatching n re c))"
  using assms sorted_keys_same_map [OF assms]
  by (simp add: removeTagsLabelsMatching_eq removable_def same_map_mfilter)

lemma reduceTags_same:
  assumes s: "same_map m n" and wf: "wf_map m" "wf_map n"
  shows "same_map (reduceTags m adj) (reduceTags n adj)"
proof -
  define red where "red t = (let t2 = fst (removeTagsLabelsMatching t alphaBetaRegex (int (length t) - adj));
                   t3 = fst (removeTagsLabelsMatching t2 iaasNameRegex (int (length t2) - adj))
               in fst (removeTagsLabelsMatching t3 labelNameRegex (int (length t3) - adj)))" for t
  have wfr: "wf_map (fst (removeTagsLabelsMatching t re c))" if "wf_map t" for t re c
    using that by (simp add: removeTagsLabelsMatching_eq)
  have red: "same_map (red t) (red u)" if t: "same_map t u" "wf_map t" "wf_map u" for t u
  proof -
    have rem: "same_map (fst (removeTagsLabelsMatching a re (int (length a) - adj))) (fst (removeTagsLabelsMatching b re (int (length b) - adj)))"
      if "same_map a b" "wf_map a" "wf_map b" for a b re
      using removeTags_same [OF that] same_map_length [OF that] by simp
    show ?thesis unfolding red_def Let_def by (intro rem wfr t)
  qed
  define one where "one t = (if int (length t) > adj then fst (dedupeTagValues t) else t)" for t
  have one: "same_map (one m) (one n)" "wf_map (one m)" "wf_map (one n)"
    using s wf same_map_length [OF s wf] dedupeTagValues_same [OF s wf] dedupeTagValues_spec(1)
    by (auto simp: one_def)
  have "reduceTags t adj = (if int (length (one t)) > adj then red (one t) else one t)" for t
    by (simp add: reduceTags_def one_def red_def Let_def)
  then show ?thesis using one red [OF one] same_map_length [OF one] by simp
qed

text \<open>The two parts of the result: the guaranteed tags \<open>G\<close> and what is left of the others, \<open>L\<close>.\<close>

definition clean_parts :: "tagmap \<Rightarrow> string list \<Rightarrow> int \<Rightarrow> tagmap \<Rightarrow> tagmap \<Rightarrow> bool" where
  "clean_parts tags g cap G L \<longleftrightarrow>
     fst (cleanTags tags g cap) = mput_all G L \<and> wf_map G \<and> wf_map L \<and>
     (\<forall>k. mget G k = (if guaranteed g k then mget (sendable tags) k else None)) \<and>
     (\<forall>k v. mget L k = Some v \<longrightarrow> mget (sendable tags) k = Some v \<and> \<not> guaranteed g k) \<and>
     int (length L) \<le> max 0 (cap - int (length G)) \<and>
     (int (length (sendable tags)) \<le> cap \<longrightarrow> L = mfilter (\<lambda>k. \<not> guaranteed g k) (sendable tags))"

lemma cleanTags_parts:
  assumes wf: "wf_map tags"
  obtains G L where "clean_parts tags g cap G L"
proof -
  define sp where "sp = splitGuaranteedTags (sendable tags) g"
  note S = splitGuaranteedTags_spec [OF wf_sendable [OF wf] sp_def]
  let ?R = "mfilter (\<lambda>k. \<not> guaranteed g k) (sendable tags)"
  define L where "L = reduceTags ?R (cap - int (length (fst (snd sp))))"
  have wfR: "wf_map ?R" using wf by simp
  have lab: "\<forall>k \<in> set (mkeys ?R). labelNameRegex k" by (auto simp: set_mfilter guaranteed_def)
  have keysG: "set (mkeys (fst (snd sp))) = {k \<in> set (mkeys (sendable tags)). guaranteed g k}"
    using S(3) by (auto simp: wf_mget_in_keys [OF S(2)] wf_mget_in_keys [OF wf_sendable [OF wf]] split: if_splits)
  have len: "length (sendable tags) = length (fst (snd sp)) + length ?R"
  proof -
    have "length (fst (snd sp)) = card {k \<in> set (mkeys (sendable tags)). guaranteed g k}"
      using wf_map_card [OF S(2)] keysG by simp
    moreover have "length ?R = card {k \<in> set (mkeys (sendable tags)). \<not> guaranteed g k}"
      by (rule length_mfilter_keys [OF wf_sendable [OF wf]])
    moreover have "card {k \<in> set (mkeys (sendable tags)). guaranteed g k} +
        card {k \<in> set (mkeys (sendable tags)). \<not> guaranteed g k} = card (set (mkeys (sendable tags)))"
      by (subst card_Un_disjoint [symmetric]) (auto intro!: arg_cong [where f = card])
    ultimately show ?thesis using wf_map_card [OF wf_sendable [OF wf]] by simp
  qed
  show thesis
  proof (rule that [of "fst (snd sp)" L], unfold clean_parts_def, intro conjI allI impI)
    show "fst (cleanTags tags g cap) = mput_all (fst (snd sp)) L"
      using cleanTags_eq [OF wf sp_def] S(1,4) by (simp add: L_def)
    show "wf_map L" unfolding L_def by (rule reduceTags_wf [OF wfR])
    fix k v assume "mget L k = Some v"
    then have "mget ?R k = Some v" using reduceTags_sub [OF wfR] unfolding L_def by blast
    then show "mget (sendable tags) k = Some v" "\<not> guaranteed g k" by (simp_all split: if_splits)
  next
    show "int (length L) \<le> max 0 (cap - int (length (fst (snd sp))))"
      unfolding L_def by (rule reduceTags_length [OF wfR lab])
  next
    assume "int (length (sendable tags)) \<le> cap"
    then show "L = ?R" unfolding L_def using len by (intro reduceTags_id) simp
  qed (rule S(2), rule S(3))
qed

section \<open>What the budget guarantees\<close>

lemma mput_all_subkeys: "wf_map G \<Longrightarrow> wf_map L \<Longrightarrow> length (mput_all G L) \<le> length G + length L"
proof -
  assume wf: "wf_map G" "wf_map L"
  have "set (mkeys (mput_all G L)) = set (mkeys G) \<union> set (mkeys L)"
    using wf by (auto simp: mhas_mkeys [symmetric] mhas_def split: option.splits)
  moreover have "card (set (mkeys G) \<union> set (mkeys L)) \<le> card (set (mkeys G)) + card (set (mkeys L))"
    by (rule card_Un_le)
  ultimately show ?thesis using wf_map_card [OF wf(1)] wf_map_card [OF wf(2)] wf_map_card [of "mput_all G L"] wf by simp
qed

text \<open>C9: after \<open>cleanTags\<close> a point carries at most the allowed number of tags, unless the tags that
  must stay (those on the guarantee list and those that are no \<open>label\<close> tags) are more than that, in which
  case it carries exactly no more than those.\<close>

theorem cleanTags_budget:
  assumes "wf_map tags"
  shows "int (length (fst (cleanTags tags g cap))) \<le>
    max cap (int (length (mfilter (guaranteed g) (sendable tags))))"
proof -
  obtain G L where "clean_parts tags g cap G L" using cleanTags_parts [OF assms] .
  then have P: "fst (cleanTags tags g cap) = mput_all G L" "wf_map G" "wf_map L"
      "int (length L) \<le> max 0 (cap - int (length G))"
      "\<And>k. mget G k = (if guaranteed g k then mget (sendable tags) k else None)"
    unfolding clean_parts_def by blast+
  have "same_map G (mfilter (guaranteed g) (sendable tags))" by (simp add: same_map_def P(5))
  then have "length G = length (mfilter (guaranteed g) (sendable tags))"
    using P(2) assms by (intro same_map_length) auto
  with P(1,4) mput_all_subkeys [OF P(2,3)] show ?thesis by simp
qed

definition sample_tags :: tagmap where
  "sample_tags = [(''label.app'', ''shop''), (''cluster'', ''c1''), (''empty'', ''-''), (''label.z'', ''1'')]"

lemma wf_sample_tags [simp]: "wf_map sample_tags"
  by (simp add: sample_tags_def wf_map_def)

lemma cleanTags_budget_witness:
  "int (length (fst (cleanTags sample_tags [] 2))) \<le> 2"
  using cleanTags_budget [OF wf_sample_tags, of "[]" 2]
  by (simp add: sample_tags_def sendable_def mfilter_def guaranteed_def labelNameRegex_def
      isAnEmptyTag_def excludeTag_iff excludeTagList_def)

text \<open>What is kept, for the components that send the result.\<close>

lemma cleanTags_kept:
  assumes "wf_map tags"
  shows "wf_map (fst (cleanTags tags g cap))"
    and "guaranteed g k \<Longrightarrow> mget (fst (cleanTags tags g cap)) k = mget (sendable tags) k"
    and "mget (fst (cleanTags tags g cap)) k = Some v \<Longrightarrow> mget (sendable tags) k = Some v"
    and "mget (sendable tags) k = Some v \<Longrightarrow> mget tags k = Some v \<and> \<not> isAnEmptyTag v \<and> \<not> excludeTag k"
proof -
  obtain G L where "clean_parts tags g cap G L" using cleanTags_parts [OF assms] .
  then have P: "fst (cleanTags tags g cap) = mput_all G L" "wf_map G" "wf_map L"
      "\<And>k. mget G k = (if guaranteed g k then mget (sendable tags) k else None)"
      "\<And>k v. mget L k = Some v \<Longrightarrow> mget (sendable tags) k = Some v \<and> \<not> guaranteed g k"
    unfolding clean_parts_def by blast+
  have r: "mget (mput_all G L) k = (case mget G k of Some v \<Rightarrow> Some v | None \<Rightarrow> mget L k)"
    using P(2) by (simp split: option.splits)
  show "wf_map (fst (cleanTags tags g cap))" unfolding P(1) using P(3) by simp
  have L: "guaranteed g k \<Longrightarrow> mget L k = None" using P(5) by (cases "mget L k") auto
  show "guaranteed g k \<Longrightarrow> mget (fst (cleanTags tags g cap)) k = mget (sendable tags) k"
    using L P(4) [of k] unfolding P(1) r by (simp split: option.splits)
  show "mget (fst (cleanTags tags g cap)) k = Some v \<Longrightarrow> mget (sendable tags) k = Some v"
    using P(4) [of k] P(5) [of k v] unfolding P(1) r by (simp split: option.splits if_splits)
  show "mget (sendable tags) k = Some v \<Longrightarrow> mget tags k = Some v \<and> \<not> isAnEmptyTag v \<and> \<not> excludeTag k"
    using mget_sendable [OF assms, of k] by (cases "mget tags k") (auto split: if_splits)
qed

lemma cleanTags_all_guaranteed:
  assumes "wf_map tags"
  shows "int (length (fst (cleanTags tags g cap))) \<le>
    max cap (int (length (mfilter (guaranteed g) (fst (cleanTags tags g cap)))))"
proof -
  obtain G L where "clean_parts tags g cap G L" using cleanTags_parts [OF assms] .
  then have P: "fst (cleanTags tags g cap) = mput_all G L" "wf_map G" "wf_map L"
      "int (length L) \<le> max 0 (cap - int (length G))"
      "\<And>k. mget G k = (if guaranteed g k then mget (sendable tags) k else None)"
    unfolding clean_parts_def by blast+
  have "same_map G (mfilter (guaranteed g) (fst (cleanTags tags g cap)))"
    using cleanTags_kept(2) [OF assms] by (simp add: same_map_def P(5))
  then have "length G = length (mfilter (guaranteed g) (fst (cleanTags tags g cap)))"
    using P(2) cleanTags_kept(1) [OF assms] by (intro same_map_length) auto
  with P(1,4) mput_all_subkeys [OF P(2,3)] show ?thesis by simp
qed

text \<open>A tag on the guarantee list, or one that is no \<open>label\<close> tag, is sent with its value unless that
  value is empty or its name is on the exclude list, however full the point is; and every tag that is
  sent was there before with the same value, is not empty and not excluded.\<close>

theorem cleanTags_guarantee:
  assumes "wf_map tags"
  shows "(guaranteed g k \<longrightarrow> mget (fst (cleanTags tags g cap)) k =
      (case mget tags k of Some v \<Rightarrow> if isAnEmptyTag v \<or> excludeTag k then None else Some v | None \<Rightarrow> None)) \<and>
    (\<forall>v. mget (fst (cleanTags tags g cap)) k = Some v \<longrightarrow>
       mget tags k = Some v \<and> \<not> isAnEmptyTag v \<and> \<not> excludeTag k)"
proof (intro conjI impI allI)
  show "guaranteed g k \<Longrightarrow> mget (fst (cleanTags tags g cap)) k =
      (case mget tags k of Some v \<Rightarrow> if isAnEmptyTag v \<or> excludeTag k then None else Some v | None \<Rightarrow> None)"
    unfolding mget_sendable [OF assms, symmetric] by (rule cleanTags_kept(2) [OF assms])
  fix v assume "mget (fst (cleanTags tags g cap)) k = Some v"
  then have "mget (sendable tags) k = Some v" by (rule cleanTags_kept(3) [OF assms])
  then show "mget tags k = Some v" "\<not> isAnEmptyTag v" "\<not> excludeTag k"
    using cleanTags_kept(4) [OF assms] by blast+
qed

lemma cleanTags_guarantee_witness:
  "mget (fst (cleanTags sample_tags [''label.z''] 0)) ''label.z'' = Some ''1''"
  using cleanTags_guarantee [OF wf_sample_tags, of "[''label.z'']" "''label.z''" 0]
  by (simp add: guaranteed_def sample_tags_def mget_Cons isAnEmptyTag_def excludeTag_iff excludeTagList_def)

text \<open>When the tags that may be sent fit, none of them is dropped: empty and excluded tags are the only ones removed.\<close>

theorem cleanTags_fits:
  assumes "wf_map tags" and "int (length (sendable tags)) \<le> cap"
  shows "same_map (fst (cleanTags tags g cap)) (sendable tags)"
proof -
  obtain G L where "clean_parts tags g cap G L" using cleanTags_parts [OF assms(1)] .
  then have P: "fst (cleanTags tags g cap) = mput_all G L" "wf_map G"
      "\<And>k. mget G k = (if guaranteed g k then mget (sendable tags) k else None)"
      "L = mfilter (\<lambda>k. \<not> guaranteed g k) (sendable tags)"
    using assms(2) unfolding clean_parts_def by blast+
  show ?thesis unfolding P(1) using P(2-4) by (auto simp: same_map_def split: option.splits)
qed

lemma cleanTags_fits_witness:
  "mget (fst (cleanTags sample_tags [] 17)) ''label.app'' = Some ''shop''"
  using cleanTags_fits [OF wf_sample_tags, of 17 "[]"]
  by (simp add: same_map_def mget_sendable [OF wf_sample_tags])
    (simp add: sample_tags_def sendable_def mfilter_def mget_Cons isAnEmptyTag_def excludeTag_iff excludeTagList_def)

text \<open>Which tags are sent does not depend on the order in which the map is traversed.\<close>

theorem cleanTags_order_independent:
  assumes s: "same_map m n" and wf: "wf_map m" "wf_map n"
  shows "same_map (fst (cleanTags m g cap)) (fst (cleanTags n g cap))"
proof -
  define a where "a = splitGuaranteedTags (sendable m) g"
  define b where "b = splitGuaranteedTags (sendable n) g"
  note A = splitGuaranteedTags_spec [OF wf_sendable [OF wf(1)] a_def]
  note B = splitGuaranteedTags_spec [OF wf_sendable [OF wf(2)] b_def]
  have se: "same_map (sendable m) (sendable n)"
    using s by (simp add: same_map_def mget_sendable wf)
  have G: "same_map (fst (snd a)) (fst (snd b))"
    using se A(3) B(3) by (simp add: same_map_def)
  have "snd (snd a) = snd (snd b)" using same_map_length [OF G A(2) B(2)] A(4) B(4) by simp
  moreover have "same_map (fst a) (fst b)" unfolding A(1) B(1) using se by (rule same_map_mfilter)
  moreover have "wf_map (fst a)" "wf_map (fst b)" unfolding A(1) B(1) using wf by simp_all
  ultimately have "same_map (reduceTags (fst a) (cap - snd (snd a))) (reduceTags (fst b) (cap - snd (snd b)))"
    using reduceTags_same by simp
  with G show ?thesis unfolding cleanTags_eq [OF wf(1) a_def] cleanTags_eq [OF wf(2) b_def]
    unfolding same_map_def using A(2) B(2) by (simp split: option.splits)
qed

lemma cleanTags_order_independent_witness:
  "same_map (fst (cleanTags sample_tags [] 1)) (fst (cleanTags (rev sample_tags) [] 1))"
proof (rule cleanTags_order_independent)
  show "same_map sample_tags (rev sample_tags)"
    by (auto simp: sample_tags_def same_map_def mget_Cons)
  show "wf_map (rev sample_tags)" by (simp add: sample_tags_def wf_map_def)
qed simp

text \<open>Removing duplicate values never loses a long value: every value of at least five bytes is
  still carried by some tag, and by only one.\<close>

theorem dedupeTagValues_keeps_values:
  assumes "wf_map tags" and "minDedupeTagValueLen \<le> length v"
  shows "(\<exists>k. mget tags k = Some v) \<longleftrightarrow> (\<exists>!k. mget (fst (dedupeTagValues tags)) k = Some v)"
proof -
  obtain t iv r where d: "dedupeTagValues tags = (t, r)" and inv: "dedupe_inv tags (set (mkeys tags)) (t, iv, r)"
    using dedupeTagValues_inv [OF assms(1)] .
  note D = dedupe_invD [OF inv]
  have key: "mget m k = Some v \<Longrightarrow> k \<in> set (mkeys m)" for m :: tagmap and k
    by (simp add: mhas_mkeys [symmetric] mhas_def)
  have sub: "mget t k = Some v \<Longrightarrow> mget tags k = Some v" for k using D(3) [of k] by (simp split: if_splits)
  have uniq: "mget t k = Some v \<Longrightarrow> mget iv v = Some k" for k
    using D(8) [OF _ _ assms(2)] key [OF sub] by blast
  have ex: "mget tags k = Some v \<Longrightarrow> \<exists>k'. mget t k' = Some v" for k
    using D(7) [OF key _ assms(2)] D(5) by (metis not_None_eq)
  show ?thesis unfolding d fst_conv using sub uniq ex by (metis option.inject)
qed

lemma dedupeTagValues_keeps_values_witness:
  "\<exists>!k. mget (fst (dedupeTagValues [(''label.a'', ''value''), (''label.b'', ''value'')])) k = Some ''value''"
  using dedupeTagValues_keeps_values [of "[(''label.a'', ''value''), (''label.b'', ''value'')]" "''value''"]
  by (auto simp: wf_map_def minDedupeTagValueLen_def mget_Cons)

end
