(* ===== verification/Kube.thy ===== *)
theory Kube
  imports Metrics_Model
begin

text \<open>
  The Kubernetes objects the collector reads, with the fields it reads of them, and the helper
  functions of \<open>collector/internal/util\<close>: workload names, label copying, phases and states,
  node addresses. The object types are those of the Kubernetes API; the listers and
  \<open>net.ParseIP\<close> are parameters of the functions that call them.
\<close>

section \<open>Kubernetes objects\<close>

record OwnerReference =
  orName :: string
  orKind :: string

record ObjectMeta =
  omName :: string
  omNamespace :: string
  omUID :: string
  omLabels :: tagmap
  omAnnotations :: tagmap
  OwnerReferences :: "OwnerReference list"

text \<open>The state of a container: at most one of the pointers is set.\<close>

record TerminatedState =
  tsReason :: string
  tsMessage :: string
  tsExitCode :: "32 word"
  tsFinishedAt :: gotime

record ContainerState =
  csRunning :: bool
  csWaiting :: "(string \<times> string) option"
  csTerminated :: "TerminatedState option"

definition noState :: ContainerState where
  "noState = \<lparr>csRunning = False, csWaiting = None, csTerminated = None\<rparr>"

record ContainerStatus =
  ctName :: string
  ctImage :: string
  ctState :: ContainerState
  ctLastTerminationState :: ContainerState
  ctReady :: bool
  ctRestartCount :: "32 word"

text \<open>A quantity is what its accessors \<open>Value\<close> and \<open>MilliValue\<close> return; a missing one reads as zero.\<close>

record quantity =
  qValue :: int64
  qMilliValue :: int64

type_synonym resources = "(string, quantity) gomap"

definition rget :: "resources \<Rightarrow> string \<Rightarrow> quantity" where
  "rget rs name = (case mget rs name of Some q \<Rightarrow> q | None \<Rightarrow> \<lparr>qValue = 0, qMilliValue = 0\<rparr>)"

record kcontainer =
  kcName :: string
  kcImage :: string
  kcRequests :: resources
  kcLimits :: resources
  kcPorts :: "32 word list"

record PodCondition =
  pcType :: string
  pcStatus :: string
  pcReason :: string
  pcMessage :: string

record Pod =
  podMeta :: ObjectMeta
  podNodeName :: string
  podPhase :: string
  podIP :: string
  podStartTime :: "gotime option"
  podDeleting :: bool
  podContainers :: "kcontainer list"
  podContainerStatuses :: "ContainerStatus list"
  podConditions :: "PodCondition list"

record NodeAddress =
  naType :: string
  naAddress :: string

record NodeTaint =
  ntKey :: string
  ntValue :: string
  ntEffect :: string

record NodeSystemInfo =
  KernelVersion :: string
  OSImage :: string
  ContainerRuntimeVersion :: string
  KubeletVersion :: string
  KubeProxyVersion :: string

record Node =
  nodeMeta :: ObjectMeta
  nodeConditions :: "PodCondition list"
  nodeAddresses :: "NodeAddress list"
  nodeTaints :: "NodeTaint list"
  nodeInfo :: NodeSystemInfo
  nodeProviderID :: string
  nodePodCIDR :: string
  nodeCapacity :: resources
  nodeAllocatable :: resources

section \<open>Phases, states and roles (util.go)\<close>

definition POD_PHASE_PENDING :: int64 where "POD_PHASE_PENDING = 1"
definition POD_PHASE_RUNNING :: int64 where "POD_PHASE_RUNNING = 2"
definition POD_PHASE_SUCCEEDED :: int64 where "POD_PHASE_SUCCEEDED = 3"
definition POD_PHASE_FAILED :: int64 where "POD_PHASE_FAILED = 4"
definition POD_PHASE_UNKNOWN :: int64 where "POD_PHASE_UNKNOWN = 5"

definition CONTAINER_STATE_RUNNING :: nat where "CONTAINER_STATE_RUNNING = 1"
definition CONTAINER_STATE_WAITING :: nat where "CONTAINER_STATE_WAITING = 2"
definition CONTAINER_STATE_TERMINATED :: nat where "CONTAINER_STATE_TERMINATED = 3"

definition PVC_PHASE_PENDING :: int64 where "PVC_PHASE_PENDING = 1"
definition PVC_PHASE_BOUND :: int64 where "PVC_PHASE_BOUND = 2"
definition PVC_PHASE_LOST :: int64 where "PVC_PHASE_LOST = 3"
definition PVC_PHASE_UNKNOWN :: int64 where "PVC_PHASE_UNKNOWN = 4"

definition PV_PHASE_PENDING :: int64 where "PV_PHASE_PENDING = 1"
definition PV_PHASE_AVAILABLE :: int64 where "PV_PHASE_AVAILABLE = 2"
definition PV_PHASE_BOUND :: int64 where "PV_PHASE_BOUND = 3"
definition PV_PHASE_RELEASED :: int64 where "PV_PHASE_RELEASED = 4"
definition PV_PHASE_FAILED :: int64 where "PV_PHASE_FAILED = 5"
definition PV_PHASE_UNKNOWN :: int64 where "PV_PHASE_UNKNOWN = 6"

lemmas phase_defs =
  POD_PHASE_PENDING_def POD_PHASE_RUNNING_def POD_PHASE_SUCCEEDED_def POD_PHASE_FAILED_def
  POD_PHASE_UNKNOWN_def PVC_PHASE_PENDING_def PVC_PHASE_BOUND_def PVC_PHASE_LOST_def
  PVC_PHASE_UNKNOWN_def PV_PHASE_PENDING_def PV_PHASE_AVAILABLE_def PV_PHASE_BOUND_def
  PV_PHASE_RELEASED_def PV_PHASE_FAILED_def PV_PHASE_UNKNOWN_def

definition ConvertPodPhase :: "string \<Rightarrow> int64" where
  "ConvertPodPhase phase =
     (if phase = ''Pending'' then POD_PHASE_PENDING
      else if phase = ''Running'' then POD_PHASE_RUNNING
      else if phase = ''Succeeded'' then POD_PHASE_SUCCEEDED
      else if phase = ''Failed'' then POD_PHASE_FAILED
      else if phase = ''Unknown'' then POD_PHASE_UNKNOWN
      else POD_PHASE_UNKNOWN)"

definition ConvertPVCPhase :: "string \<Rightarrow> int64" where
  "ConvertPVCPhase phase =
     (if phase = ''Pending'' then PVC_PHASE_PENDING
      else if phase = ''Bound'' then PVC_PHASE_BOUND
      else if phase = ''Lost'' then PVC_PHASE_LOST
      else PVC_PHASE_UNKNOWN)"

definition ConvertPVPhase :: "string \<Rightarrow> int64" where
  "ConvertPVPhase phase =
     (if phase = ''Pending'' then PV_PHASE_PENDING
      else if phase = ''Available'' then PV_PHASE_AVAILABLE
      else if phase = ''Bound'' then PV_PHASE_BOUND
      else if phase = ''Released'' then PV_PHASE_RELEASED
      else if phase = ''Failed'' then PV_PHASE_FAILED
      else PVC_PHASE_UNKNOWN)"

definition ConditionStatusFloat64 :: "string \<Rightarrow> f64" where
  "ConditionStatusFloat64 status =
     (if status = ''True'' then Fin 1 else if status = ''False'' then Fin 0 else Fin (-1))"

definition GetNodeRole :: "Node \<Rightarrow> string" where
  "GetNodeRole node =
     (if mhas (omLabels (nodeMeta node)) ''node-role.kubernetes.io/control-plane'' then ''control-plane''
      else if mhas (omLabels (nodeMeta node)) ''node-role.kubernetes.io/master'' then ''control-plane''
      else ''worker'')"

definition HasOwnerReference :: "OwnerReference list \<Rightarrow> bool" where
  "HasOwnerReference ownerReferences \<longleftrightarrow> length ownerReferences > 0"

definition PodConditionIsUnchedulable :: "PodCondition \<Rightarrow> bool" where
  "PodConditionIsUnchedulable condition \<longleftrightarrow> pcType condition = ''PodScheduled'' \<and> pcStatus condition = ''False''"

definition JobConditionIsFailed :: "PodCondition \<Rightarrow> bool" where
  "JobConditionIsFailed condition \<longleftrightarrow> pcType condition = ''Failed'' \<and> pcStatus condition = ''True''"

record ContainerStateInfo =
  csiValue :: nat
  csiState :: string
  csiReason :: string
  csiExitCode :: "32 word"

definition IsKnownState :: "ContainerStateInfo \<Rightarrow> bool" where
  "IsKnownState csi \<longleftrightarrow> csiValue csi > 0"

definition AddMetricTags :: "ContainerStateInfo \<Rightarrow> tagmap \<Rightarrow> tagmap" where
  "AddMetricTags csi tags =
     (if IsKnownState csi
      then (let tags = mput ''status'' (csiState csi) tags
            in if csiReason csi \<noteq> ''''
               then mput ''exit_code'' (show_int (sint (csiExitCode csi))) (mput ''reason'' (csiReason csi) tags)
               else tags)
      else tags)"

definition NewContainerStateInfo :: "ContainerState \<Rightarrow> ContainerStateInfo" where
  "NewContainerStateInfo state =
     (if csRunning state
      then \<lparr>csiValue = CONTAINER_STATE_RUNNING, csiState = ''running'', csiReason = '''', csiExitCode = 0\<rparr>
      else case csWaiting state of
        Some (reason, message) \<Rightarrow>
          \<lparr>csiValue = CONTAINER_STATE_WAITING, csiState = ''waiting'', csiReason = reason, csiExitCode = 0\<rparr>
      | None \<Rightarrow>
         (case csTerminated state of
            Some t \<Rightarrow>
              \<lparr>csiValue = CONTAINER_STATE_TERMINATED, csiState = ''terminated'', csiReason = tsReason t,
                csiExitCode = tsExitCode t\<rparr>
          | None \<Rightarrow> \<lparr>csiValue = 0, csiState = ''unknown'', csiReason = '''', csiExitCode = 0\<rparr>))"

section \<open>Node addresses (util.go)\<close>

text \<open>\<open>parseIP\<close> stands for \<open>net.ParseIP\<close>: whether a text is an address. The result is an error, or the host name and the address.\<close>

definition address_step :: "(string \<Rightarrow> bool) \<Rightarrow> string \<times> string \<Rightarrow> NodeAddress \<Rightarrow> string \<times> string" where
  "address_step parseIP s addr =
     (let hostname = (if naType addr = ''Hostname'' \<and> naAddress addr \<noteq> '''' then naAddress addr else fst s);
          ip = (if naType addr = ''InternalIP'' \<and> naAddress addr \<noteq> '''' \<and> parseIP (naAddress addr)
                then naAddress addr else snd s);
          ip = (if naType addr = ''ExternalIP'' \<and> naAddress addr \<noteq> '''' \<and> ip = '''' then naAddress addr else ip)
      in (hostname, ip))"

definition GetNodeHostnameAndIP :: "(string \<Rightarrow> bool) \<Rightarrow> Node \<Rightarrow> string + string \<times> string" where
  "GetNodeHostnameAndIP parseIP node =
     (if list_ex (\<lambda>c. pcType c = ''Ready'' \<and> pcStatus c \<noteq> ''True'') (nodeConditions node)
      then Inl (''node '' @ omName (nodeMeta node) @ '' is not ready'')
      else
       (let r = foldl (address_step parseIP) (omName (nodeMeta node), '''') (nodeAddresses node)
        in if parseIP (snd r) then Inr r
           else Inl (''node '' @ omName (nodeMeta node) @ '' has no valid hostname and/or IP address: '' @
                     fst r @ '' '' @ snd r)))"

section \<open>Tags from the environment (util.go)\<close>

definition SetKubernetesProvider :: "string \<Rightarrow> string" where
  "SetKubernetesProvider providerID =
     (let provider = Split (CHR '':'') providerID
      in if 0 < length (provider ! 0) then provider ! 0 else ''unknown'')"

definition AddK8sTags :: "string \<Rightarrow> string \<Rightarrow> tagmap \<Rightarrow> tagmap" where
  "AddK8sTags version provider tags =
     (let tags = (if length (mgets tags ''k8s_version'') = 0 \<and> 0 < length version
                  then mput ''k8s_version'' version tags else tags)
      in if length (mgets tags ''k8s_provider'') = 0 \<and> 0 < length provider
         then mput ''k8s_provider'' provider tags else tags)"

section \<open>Workloads (workload_cache.go)\<close>

text \<open>The listers, by namespace and name: the owners of a replica set or job, and pods.\<close>

record listers =
  podLister :: "string \<Rightarrow> string \<Rightarrow> Pod option"
  rsLister :: "string \<Rightarrow> string \<Rightarrow> OwnerReference list option"
  jobLister :: "string \<Rightarrow> string \<Rightarrow> OwnerReference list option"

definition GetPod :: "listers \<Rightarrow> string \<Rightarrow> string \<Rightarrow> Pod option" where
  "GetPod wc name ns = podLister wc ns name"

definition GetWorkloadForPod :: "listers \<Rightarrow> Pod \<Rightarrow> string \<times> string" where
  "GetWorkloadForPod wc pod =
     (if length (omName (podMeta pod)) = 0 then ('''', '''')
      else if \<not> HasOwnerReference (OwnerReferences (podMeta pod)) then (omName (podMeta pod), ''Pod'')
      else
       (let podOwner = OwnerReferences (podMeta pod) ! 0;
            parentOwners =
              (if orKind podOwner = ''ReplicaSet''
               then (case rsLister wc (omNamespace (podMeta pod)) (orName podOwner) of Some os \<Rightarrow> os | None \<Rightarrow> [])
               else if orKind podOwner = ''Job''
               then (case jobLister wc (omNamespace (podMeta pod)) (orName podOwner) of Some os \<Rightarrow> os | None \<Rightarrow> [])
               else [])
        in if length parentOwners \<noteq> 0 then (orName (parentOwners ! 0), orKind (parentOwners ! 0))
           else (orName podOwner, orKind podOwner)))"

definition GetWorkloadForPodName :: "listers \<Rightarrow> string \<Rightarrow> string \<Rightarrow> string \<times> string \<times> string" where
  "GetWorkloadForPodName wc name ns =
     (case GetPod wc name ns of
        None \<Rightarrow> ('''', '''', '''')
      | Some pod \<Rightarrow>
          let nk = GetWorkloadForPod wc pod in (fst nk, snd nk, podNodeName pod))"

section \<open>Copying labels (label_copier.go)\<close>

record LabelCopier =
  labelSeparator :: string
  storedLabels :: tagmap
  ignoredLabels :: "string list"

definition makeStoredLabels :: "string list \<Rightarrow> tagmap" where
  "makeStoredLabels labels =
     foldl (\<lambda>stored s. case SplitN2 (CHR ''='') s of
               [a] \<Rightarrow> mput a a stored
             | a # b # _ \<Rightarrow> mput b a stored
             | [] \<Rightarrow> stored) [] labels"

text \<open>A set: the source keeps a map to empty strings and only asks for its keys.\<close>

definition makeIgnoredLabels :: "string list \<Rightarrow> string list" where
  "makeIgnoredLabels labels = labels"

definition NewLabelCopier :: "string \<Rightarrow> string list \<Rightarrow> string list \<Rightarrow> LabelCopier" where
  "NewLabelCopier separator stored ignored =
     \<lparr>labelSeparator = separator, storedLabels = makeStoredLabels stored,
      ignoredLabels = makeIgnoredLabels ignored\<rparr>"

definition LabelCopier_Copy :: "LabelCopier \<Rightarrow> tagmap \<Rightarrow> tagmap \<Rightarrow> tagmap" where
  "LabelCopier_Copy copier inp out =
     (let r = foldl (\<lambda>s e.
                (case mget (storedLabels copier) (fst e) of
                   Some mappedKey \<Rightarrow> mput mappedKey (snd e) (fst s) | None \<Rightarrow> fst s,
                 if fst e \<notin> set (ignoredLabels copier)
                 then snd s @ [fst e @ '':'' @ snd e] else snd s)) (out, []) inp
      in mput (LabelKey LabelLabels) (Join (labelSeparator copier) (sort (snd r))) (fst r))"

section \<open>What the helpers promise\<close>

text \<open>The phase value of a persistent volume does not tell an unknown phase from the phase Released:
  every phase the function does not know maps to the value of Released, not to PV_PHASE_UNKNOWN.\<close>

theorem ConvertPVPhase_Released_iff:
  "ConvertPVPhase phase = PV_PHASE_RELEASED \<longleftrightarrow>
     phase \<notin> {''Pending'', ''Available'', ''Bound'', ''Failed''}"
  by (auto simp: ConvertPVPhase_def phase_defs)

definition internal_addr :: "(string \<Rightarrow> bool) \<Rightarrow> NodeAddress \<Rightarrow> bool" where
  "internal_addr parseIP a \<longleftrightarrow> naType a = ''InternalIP'' \<and> naAddress a \<noteq> '''' \<and> parseIP (naAddress a)"

lemma address_step_internal: "internal_addr parseIP a \<Longrightarrow> snd (address_step parseIP s a) = naAddress a"
  by (auto simp: address_step_def internal_addr_def)

lemma address_step_other:
  "\<not> internal_addr parseIP a \<Longrightarrow> snd s \<noteq> [] \<Longrightarrow> snd (address_step parseIP s a) = snd s"
  by (auto simp: address_step_def internal_addr_def)

lemma address_fold:
  "\<exists>a \<in> set addrs. internal_addr parseIP a \<Longrightarrow>
   \<exists>a \<in> set addrs. internal_addr parseIP a \<and> naAddress a = snd (foldl (address_step parseIP) s addrs)"
proof (induction addrs rule: rev_induct)
  case (snoc a addrs)
  show ?case
  proof (cases "internal_addr parseIP a")
    case True
    then show ?thesis by (auto simp: address_step_internal)
  next
    case False
    with snoc.prems obtain b where b: "b \<in> set addrs" "internal_addr parseIP b"
        "naAddress b = snd (foldl (address_step parseIP) s addrs)"
      using snoc.IH by auto
    then have "snd (foldl (address_step parseIP) s addrs) \<noteq> []" by (metis internal_addr_def)
    with b False show ?thesis by (auto simp: address_step_other)
  qed
qed simp

text \<open>The address found for a node always parses, the node never reports not being ready, and a
  valid internal address is preferred to any external one, whatever the order of the addresses.\<close>

theorem GetNodeHostnameAndIP_internal:
  assumes "GetNodeHostnameAndIP parseIP node = Inr (host, ip)"
  shows "parseIP ip \<and>
    (\<forall>c \<in> set (nodeConditions node). pcType c = ''Ready'' \<longrightarrow> pcStatus c = ''True'') \<and>
    ((\<exists>a \<in> set (nodeAddresses node). internal_addr parseIP a) \<longrightarrow>
     (\<exists>a \<in> set (nodeAddresses node). internal_addr parseIP a \<and> naAddress a = ip))"
  using assms address_fold [of "nodeAddresses node" parseIP "(omName (nodeMeta node), '''')"]
  by (auto simp: GetNodeHostnameAndIP_def Let_def list_ex_iff split: if_splits)

definition emptyMeta :: "string \<Rightarrow> string \<Rightarrow> ObjectMeta" where
  "emptyMeta ns name = \<lparr>omName = name, omNamespace = ns, omUID = '''', omLabels = [],
     omAnnotations = [], OwnerReferences = []\<rparr>"

definition sample_node :: Node where
  "sample_node = \<lparr>nodeMeta = emptyMeta '''' ''n1'',
     nodeConditions = [\<lparr>pcType = ''Ready'', pcStatus = ''True'', pcReason = '''', pcMessage = ''''\<rparr>],
     nodeAddresses = [\<lparr>naType = ''ExternalIP'', naAddress = ''8.8.8.8''\<rparr>,
                      \<lparr>naType = ''InternalIP'', naAddress = ''10.0.0.1''\<rparr>],
     nodeTaints = [], nodeInfo = \<lparr>KernelVersion = '''', OSImage = '''', ContainerRuntimeVersion = '''',
       KubeletVersion = '''', KubeProxyVersion = ''''\<rparr>, nodeProviderID = '''', nodePodCIDR = '''',
     nodeCapacity = [], nodeAllocatable = []\<rparr>"

lemma GetNodeHostnameAndIP_internal_witness:
  "GetNodeHostnameAndIP (\<lambda>s. s \<noteq> '''') sample_node = Inr (''n1'', ''10.0.0.1'') \<and>
   (\<exists>a \<in> set (nodeAddresses sample_node). internal_addr (\<lambda>s. s \<noteq> '''') a \<and> naAddress a = ''10.0.0.1'')"
proof -
  have r: "GetNodeHostnameAndIP (\<lambda>s. s \<noteq> '''') sample_node = Inr (''n1'', ''10.0.0.1'')"
    by (simp add: sample_node_def emptyMeta_def GetNodeHostnameAndIP_def address_step_def)
  from GetNodeHostnameAndIP_internal [OF r] r show ?thesis
    by (simp add: sample_node_def internal_addr_def)
qed

end
