(* ===== verification/Configuration.thy ===== *)
theory Configuration
  imports Filters Kube
begin

text \<open>
  The configuration of the collector (\<open>collector/internal/configuration\<close>,
  \<open>internal/discovery/configs.go\<close>, \<open>internal/httputil/configs.go\<close>, \<open>internal/options/agent_type.go\<close>):
  its records, the defaults, the validation and the properties pushed down to the sinks. A pointer
  is an option; the YAML decoder is the parameter that turns a default configuration into the
  configured one. Fields that several structs share carry a prefix.
\<close>

section \<open>Values with defaults (util.go)\<close>

definition GetStringValue :: "string \<Rightarrow> string \<Rightarrow> string" where
  "GetStringValue v d = (if v \<noteq> '''' then v else d)"

definition GetDurationValue :: "duration \<Rightarrow> duration \<Rightarrow> duration" where
  "GetDurationValue v d = (if v \<noteq> 0 then v else d)"

section \<open>Agent types (agent_type.go)\<close>

datatype AgentType = AllAgentType | ClusterAgentType | LegacyAgentType | NodeAgentType

definition NewAgentType :: "string \<Rightarrow> string + AgentType" where
  "NewAgentType v =
     (if v = ''all'' then Inr AllAgentType
      else if v = ''cluster'' then Inr ClusterAgentType
      else if v = ''node'' then Inr NodeAgentType
      else if v = ''legacy'' then Inr LegacyAgentType
      else Inl ''--agent can only be node, cluster, all or legacy'')"

fun AgentType_String :: "AgentType \<Rightarrow> string" where
  "AgentType_String AllAgentType = ''all''"
| "AgentType_String ClusterAgentType = ''cluster''"
| "AgentType_String LegacyAgentType = ''legacy''"
| "AgentType_String NodeAgentType = ''node''"

definition ScrapeCluster :: "AgentType \<Rightarrow> bool" where
  "ScrapeCluster a \<longleftrightarrow> a = AllAgentType \<or> a = LegacyAgentType \<or> a = ClusterAgentType"

definition ClusterCollector :: "AgentType \<Rightarrow> bool" where
  "ClusterCollector a \<longleftrightarrow> ScrapeCluster a"

fun ScrapeNodes :: "AgentType \<Rightarrow> string" where
  "ScrapeNodes AllAgentType = ''all''"
| "ScrapeNodes LegacyAgentType = ''own''"
| "ScrapeNodes NodeAgentType = ''own''"
| "ScrapeNodes ClusterAgentType = ''none''"

definition ScrapeAnyNodes :: "AgentType \<Rightarrow> bool" where
  "ScrapeAnyNodes a \<longleftrightarrow> a \<noteq> ClusterAgentType"

definition ScrapeOnlyOwnNode :: "AgentType \<Rightarrow> bool" where
  "ScrapeOnlyOwnNode a \<longleftrightarrow> a = LegacyAgentType \<or> a = NodeAgentType"

section \<open>Records (config.go, configs.go)\<close>

record TLSConfig =
  CAFile :: string
  CertFile :: string
  KeyFile :: string
  ServerName :: string
  InsecureSkipVerify :: bool

record ClientConfig =
  BearerToken :: string
  BearerTokenFile :: string
  ProxyURL :: "string option"
  TLSConfigOf :: TLSConfig

definition emptyTLS :: TLSConfig where
  "emptyTLS = \<lparr>CAFile = '''', CertFile = '''', KeyFile = '''', ServerName = '''', InsecureSkipVerify = False\<rparr>"

definition emptyClient :: ClientConfig where
  "emptyClient = \<lparr>BearerToken = '''', BearerTokenFile = '''', ProxyURL = None, TLSConfigOf = emptyTLS\<rparr>"

record Transforms =
  trSource :: string
  trPrefix :: string
  trTags :: tagmap
  trFilters :: Config
  ConvertHistograms :: bool

definition emptyTransforms :: Transforms where
  "emptyTransforms = \<lparr>trSource = '''', trPrefix = '''', trTags = [], trFilters = emptyConfig, ConvertHistograms = False\<rparr>"

record CollectionConfig =
  ccInterval :: duration
  ccTimeout :: duration

datatype SinkType = WavefrontSinkType | ExternalSinkType

record SinkConfig =
  skTransforms :: Transforms
  skType :: SinkType
  skEnableEvents :: "bool option"
  Server :: string
  Token :: string
  BatchSize :: int64
  MaxBufferSize :: int64
  ProxyAddress :: string
  TestMode :: bool
  ErrorLogPercent :: f64
  ExternalEndpointURL :: string
  ExternalEndpointAccessKey :: string
  skClusterName :: string
  InternalStatsPrefix :: string
  HeartbeatInterval :: duration

record SummarySourceConfig =
  ssTransforms :: Transforms
  ssCollection :: CollectionConfig
  ssURL :: string
  KubeletPort :: string
  KubeletHttps :: string
  InClusterConfig :: string
  UseServiceAccount :: string
  Insecure :: string
  Auth :: string

record CadvisorSourceConfig =
  caTransforms :: Transforms
  caCollection :: CollectionConfig

record PrometheusSourceConfig =
  psTransforms :: Transforms
  psCollection :: CollectionConfig
  psURL :: string
  HTTPClientConfig :: ClientConfig
  psName :: string
  psDiscovered :: string
  psUseLeaderElection :: bool

record TelegrafSourceConfig =
  tgTransforms :: Transforms
  tgCollection :: CollectionConfig
  tgPlugins :: "string list"
  tgConf :: string
  tgDiscovered :: string
  tgName :: string
  tgUseLeaderElection :: bool

record SystemdSourceConfig =
  sdTransforms :: Transforms
  sdCollection :: CollectionConfig
  IncludeTaskMetrics :: bool
  IncludeStartTimeMetrics :: bool
  IncludeRestartMetrics :: bool
  UnitAllowList :: "string list"
  UnitDenyList :: "string list"

record StatsSourceConfig =
  stTransforms :: Transforms
  stCollection :: CollectionConfig

text \<open>The client and the cache of the state source are set at run time and not part of the configuration.\<close>

record KubernetesStateSourceConfig =
  ksTransforms :: Transforms
  ksCollection :: CollectionConfig

record SourceConfig =
  SummaryConfig :: "SummarySourceConfig option"
  CadvisorConfig :: "CadvisorSourceConfig option"
  PrometheusConfigs :: "PrometheusSourceConfig list"
  TelegrafConfigs :: "TelegrafSourceConfig list"
  SystemdConfig :: "SystemdSourceConfig option"
  StatsConfig :: "StatsSourceConfig option"
  StateConfig :: "KubernetesStateSourceConfig option"

record EventsFilter =
  TagAllowList :: strlists
  TagDenyList :: strlists
  TagAllowListSets :: "strlists list"
  TagDenyListSets :: "strlists list"
  TagWhitelist :: strlists
  TagBlacklist :: strlists
  TagWhitelistSets :: "strlists list"
  TagBlacklistSets :: "strlists list"

record EventsConfig =
  evFilters :: EventsFilter
  evClusterName :: string
  evClusterUUID :: string

record Selectors =
  selResourceType :: string
  selImages :: "string list"
  selLabels :: strlists
  selNamespaces :: "string list"

record PluginConfig =
  plName :: string
  plType :: string
  plSelectors :: Selectors
  plPort :: string
  plScheme :: string
  plPath :: string
  plConf :: string
  plSource :: string
  plPrefix :: string
  plTags :: tagmap
  plIncludeLabels :: string
  plFilters :: Config
  plConvertHistograms :: bool
  plCollection :: CollectionConfig
  plInternal :: bool

text \<open>The deprecated form of a plugin rule.\<close>

record PrometheusConfig =
  pmName :: string
  pmResourceType :: string
  pmLabels :: tagmap
  pmNamespace :: string
  pmPort :: string
  pmPath :: string
  pmScheme :: string
  pmPrefix :: string
  pmTags :: tagmap
  pmSource :: string
  pmIncludeLabels :: string
  pmFilters :: Config

record DiscoveryConfig =
  DiscoveryInterval :: duration
  AnnotationPrefix :: string
  AnnotationExcludes :: "Selectors list"
  EnableRuntimePlugins :: bool
  DisableAnnotationDiscovery :: bool
  PluginConfigs :: "PluginConfig list"
  GlobalDiscoveryInterval :: duration
  PromConfigs :: "PrometheusConfig list"

record CollectorConfig =
  FlushInterval :: duration
  DefaultCollectionInterval :: duration
  SinkExportDataTimeout :: duration
  EnableDiscovery :: bool
  EnableEvents :: bool
  ClusterName :: string
  Sinks :: "SinkConfig list"
  Sources :: "SourceConfig option"
  EventsConfigOf :: EventsConfig
  DiscoveryConfigOf :: DiscoveryConfig
  OmitBucketSuffix :: bool
  Experimental :: "string list"

section \<open>Defaults, validation and propagation (config.go, parser.go)\<close>

definition EventsAreEnabled :: "CollectorConfig \<Rightarrow> bool" where
  "EventsAreEnabled c \<longleftrightarrow> list_ex (\<lambda>sinkCfg. skEnableEvents sinkCfg = Some True) (Sinks c)"

text \<open>What the process environment provides.\<close>

record environment =
  envNodeName :: string
  envAccessKey :: string
  envClusterUUID :: string

definition emptyEventsConfig :: EventsConfig where
  "emptyEventsConfig = \<lparr>evFilters = \<lparr>TagAllowList = [], TagDenyList = [], TagAllowListSets = [],
     TagDenyListSets = [], TagWhitelist = [], TagBlacklist = [], TagWhitelistSets = [], TagBlacklistSets = []\<rparr>,
     evClusterName = '''', evClusterUUID = ''''\<rparr>"

definition emptyDiscoveryConfig :: DiscoveryConfig where
  "emptyDiscoveryConfig = \<lparr>DiscoveryInterval = 0, AnnotationPrefix = '''', AnnotationExcludes = [],
     EnableRuntimePlugins = False, DisableAnnotationDiscovery = False, PluginConfigs = [],
     GlobalDiscoveryInterval = 0, PromConfigs = []\<rparr>"

definition defaultConfig :: CollectorConfig where
  "defaultConfig = \<lparr>FlushInterval = 30 * Second, DefaultCollectionInterval = 60 * Second,
     SinkExportDataTimeout = 20 * Second, EnableDiscovery = False, EnableEvents = False,
     ClusterName = ''k8s-cluster'', Sinks = [], Sources = None, EventsConfigOf = emptyEventsConfig,
     DiscoveryConfigOf = emptyDiscoveryConfig\<lparr>DiscoveryInterval := 5 * Minute\<rparr>,
     OmitBucketSuffix = False, Experimental = []\<rparr>"

definition validateCfg :: "CollectorConfig \<Rightarrow> string option" where
  "validateCfg cfg =
     (if FlushInterval cfg < 5 * Second
      then Some (''metric resolution should not be less than 5 seconds: '' @ show_int (FlushInterval cfg))
      else case Sources cfg of
        None \<Rightarrow> Some ''missing sources''
      | Some src \<Rightarrow>
         if SummaryConfig src = None then Some ''kubernetes_source is missing''
         else if length (Sinks cfg) = 0 then Some ''missing sink''
         else None)"

definition reconcile_sink :: "environment \<Rightarrow> CollectorConfig \<Rightarrow> string \<Rightarrow> SinkConfig \<Rightarrow> SinkConfig" where
  "reconcile_sink env cfg prefix sinkCfg =
     (let s = sinkCfg\<lparr>skClusterName := ClusterName cfg, InternalStatsPrefix := prefix,
                HeartbeatInterval := DefaultCollectionInterval cfg\<rparr>;
          s = (if skEnableEvents s = None then s\<lparr>skEnableEvents := Some (EnableEvents cfg)\<rparr> else s)
      in if skType s = ExternalSinkType then s\<lparr>ExternalEndpointAccessKey := envAccessKey env\<rparr> else s)"

text \<open>Reading a field of missing sources panics; after validation they are there.\<close>

definition reconcileGlobalProperties :: "environment \<Rightarrow> CollectorConfig \<Rightarrow> CollectorConfig option" where
  "reconcileGlobalProperties env cfg =
     (case Sources cfg of
        None \<Rightarrow> None
      | Some src \<Rightarrow>
         (let prefix = (case StatsConfig src of None \<Rightarrow> ''''
                | Some st \<Rightarrow> GetStringValue (trPrefix (stTransforms st)) ''kubernetes.'');
              src' = (case CadvisorConfig src of None \<Rightarrow> src
                | Some ca \<Rightarrow> src\<lparr>CadvisorConfig :=
                    Some (ca\<lparr>caTransforms := (caTransforms ca)\<lparr>trSource := envNodeName env\<rparr>\<rparr>)\<rparr>)
          in Some (cfg\<lparr>Sinks := map (reconcile_sink env cfg prefix) (Sinks cfg),
               EventsConfigOf := (EventsConfigOf cfg)\<lparr>evClusterName := ClusterName cfg,
                 evClusterUUID := envClusterUUID env\<rparr>,
               Sources := Some src'\<rparr>)))"

text \<open>\<open>Inl None\<close> is a panic, \<open>Inl (Some e)\<close> the error \<open>e\<close>.\<close>

definition New :: "environment \<Rightarrow> (CollectorConfig \<Rightarrow> string + CollectorConfig) \<Rightarrow> string option + CollectorConfig" where
  "New env initialize =
     (case initialize defaultConfig of
        Inl e \<Rightarrow> Inl (Some e)
      | Inr cfg \<Rightarrow>
         (case validateCfg cfg of
            Some e \<Rightarrow> Inl (Some e)
          | None \<Rightarrow> (case reconcileGlobalProperties env cfg of None \<Rightarrow> Inl None | Some c \<Rightarrow> Inr c)))"

definition FromYAML_init ::
  "(string \<Rightarrow> CollectorConfig \<Rightarrow> string + CollectorConfig) \<Rightarrow> string \<Rightarrow> CollectorConfig \<Rightarrow> string + CollectorConfig" where
  "FromYAML_init unmarshal contents cfg =
     (case unmarshal contents cfg of
        Inl err \<Rightarrow> Inl (''unable to parse configuration: '' @ err)
      | Inr cfg \<Rightarrow>
         (let cfg = (if FlushInterval cfg = 0 then cfg\<lparr>FlushInterval := 30 * Second\<rparr> else cfg);
              cfg = (if DefaultCollectionInterval cfg = 0 then cfg\<lparr>DefaultCollectionInterval := 60 * Second\<rparr> else cfg);
              cfg = (if SinkExportDataTimeout cfg = 0 then cfg\<lparr>SinkExportDataTimeout := 20 * Second\<rparr> else cfg)
          in Inr cfg))"

definition FromYAML where
  "FromYAML env unmarshal contents = New env (FromYAML_init unmarshal contents)"

section \<open>Deprecated discovery rules (helper.go)\<close>

definition promToPlugin :: "PrometheusConfig \<Rightarrow> PluginConfig" where
  "promToPlugin p =
     \<lparr>plName = pmName p, plType = ''prometheus'',
      plSelectors = \<lparr>selResourceType = pmResourceType p, selImages = [],
        selLabels = (if 0 < length (pmLabels p) then map (\<lambda>kv. (fst kv, [snd kv])) (pmLabels p) else []),
        selNamespaces = (if 0 < length (pmNamespace p) then [pmNamespace p] else [])\<rparr>,
      plPort = pmPort p, plScheme = pmScheme p, plPath = pmPath p, plConf = '''', plSource = pmSource p,
      plPrefix = pmPrefix p, plTags = pmTags p, plIncludeLabels = pmIncludeLabels p, plFilters = pmFilters p,
      plConvertHistograms = False, plCollection = \<lparr>ccInterval = 0, ccTimeout = 0\<rparr>, plInternal = False\<rparr>"

definition ConvertPromToPlugin :: "DiscoveryConfig \<Rightarrow> DiscoveryConfig" where
  "ConvertPromToPlugin cfg =
     (if 0 < length (PromConfigs cfg)
      then cfg\<lparr>PluginConfigs := PluginConfigs cfg @ map promToPlugin (PromConfigs cfg)\<rparr> else cfg)"

section \<open>What a loaded configuration satisfies\<close>

lemma NewAgentType_String: "NewAgentType (AgentType_String a) = Inr a"
  by (cases a) (simp_all add: NewAgentType_def)

text \<open>Parsing and printing of agent types are inverse to each other: every agent type is read back
  from its text, a text is accepted exactly when it is the text of an agent type, and only an agent that
  scrapes nodes, the cluster or both exists.\<close>

theorem NewAgentType_iff:
  "(NewAgentType s = Inr a \<longleftrightarrow> s = AgentType_String a) \<and> (ScrapeCluster a \<or> ScrapeAnyNodes a) \<and>
   (ScrapeOnlyOwnNode a \<longleftrightarrow> ScrapeNodes a = ''own'') \<and> (ScrapeAnyNodes a \<longleftrightarrow> ScrapeNodes a \<noteq> ''none'')"
  by (cases a) (auto simp: NewAgentType_def ScrapeCluster_def ScrapeAnyNodes_def ScrapeOnlyOwnNode_def)

lemma reconcile_sink_sel:
  "skClusterName (reconcile_sink env cfg p s) = ClusterName cfg"
  "InternalStatsPrefix (reconcile_sink env cfg p s) = p"
  "HeartbeatInterval (reconcile_sink env cfg p s) = DefaultCollectionInterval cfg"
  "skEnableEvents (reconcile_sink env cfg p s) =
     (case skEnableEvents s of None \<Rightarrow> Some (EnableEvents cfg) | Some b \<Rightarrow> Some b)"
  "skType (reconcile_sink env cfg p s) = skType s"
  by (auto simp: reconcile_sink_def Let_def split: option.splits)

lemma New_parts:
  assumes "New env initialize = Inr c"
  obtains cfg where "initialize defaultConfig = Inr cfg" "validateCfg cfg = None"
    "reconcileGlobalProperties env cfg = Some c"
  using assms that by (auto simp: New_def split: sum.splits option.splits)


definition sample_sink :: SinkConfig where
  "sample_sink = \<lparr>skTransforms = emptyTransforms, skType = WavefrontSinkType, skEnableEvents = None,
     Server = '''', Token = '''', BatchSize = 0, MaxBufferSize = 0, ProxyAddress = ''proxy:2878'',
     TestMode = False, ErrorLogPercent = Fin 0, ExternalEndpointURL = '''', ExternalEndpointAccessKey = '''',
     skClusterName = '''', InternalStatsPrefix = '''', HeartbeatInterval = 0\<rparr>"

definition sample_sources :: SourceConfig where
  "sample_sources = \<lparr>SummaryConfig = Some \<lparr>ssTransforms = emptyTransforms,
       ssCollection = \<lparr>ccInterval = 0, ccTimeout = 0\<rparr>, ssURL = '''', KubeletPort = '''', KubeletHttps = '''',
       InClusterConfig = '''', UseServiceAccount = '''', Insecure = '''', Auth = ''''\<rparr>,
     CadvisorConfig = None, PrometheusConfigs = [], TelegrafConfigs = [], SystemdConfig = None,
     StatsConfig = None, StateConfig = None\<rparr>"


end
