(* ===== verification/Wavefront_Sink.thy ===== *)
theory Wavefront_Sink
  imports Tag_Cleaning Configuration
begin

text \<open>
  The Wavefront sink (\<open>collector/plugins/sinks/wavefront/sink.go\<close>), with \<open>Send\<close> of the two metric
  types. The sender is a library of the vendor: \<open>client\<close> decides, from what was sent before and
  what is sent now, which error it returns. Logging and the sampling of log lines are left out.
\<close>

section \<open>The sink and what it sends\<close>

record 'o event =
  evMessage :: string
  evTs :: gotime
  evHost :: string
  evTags :: tagmap
  evOptions :: "'o list"

text \<open>A call of the sender. Histograms are always sent with the granularity of a minute.\<close>

datatype 'o wire =
    WMetric string f64 int64 string tagmap
  | WDistribution string "(f64 \<times> int) list" int64 string tagmap
  | WEvent string int64 string tagmap "'o list"

record wavefrontSink =
  wsClusterName :: string
  wsPrefix :: string
  wsEventsEnabled :: bool
  wsGlobalTags :: tagmap
  wsFilters :: "globFilter option"
  wsLogPercent :: f64

record 'o sinkState =
  sentPoints :: int64
  errPoints :: int64
  filteredPoints :: int64
  sentEvents :: int64
  errEvents :: int64
  calls :: "'o wire list"

type_synonym 'o client = "'o wire list \<Rightarrow> 'o wire \<Rightarrow> string option"

text \<open>A call of the sender: its error, and the state that remembers the call.\<close>

definition call :: "'o client \<Rightarrow> 'o wire \<Rightarrow> 'o sinkState \<Rightarrow> string option \<times> 'o sinkState" where
  "call client w st = (client (calls st) w, st\<lparr>calls := calls st @ [w]\<rparr>)"

definition sanitizedChars :: "string \<Rightarrow> string" where
  "sanitizedChars name = ReplaceChar (CHR ''+'') ''-'' name"

definition sink_name :: "wavefrontSink \<Rightarrow> string \<Rightarrow> string" where
  "sink_name sink name =
     (let name = sanitizedChars name
      in if 0 < length (wsPrefix sink) then wsPrefix sink @ ''.'' @ name else name)"

definition sink_guarantee :: "wavefrontSink \<Rightarrow> string list" where
  "sink_guarantee sink = (case wsFilters sink of None \<Rightarrow> [] | Some f \<Rightarrow> GetTagGuaranteeList f)"

definition sink_tags :: "wavefrontSink \<Rightarrow> tagmap \<Rightarrow> tagmap" where
  "sink_tags sink tags = fst (cleanTags tags (sink_guarantee sink) maxWavefrontTags)"

definition SendMetric ::
  "'o client \<Rightarrow> wavefrontSink \<Rightarrow> string \<Rightarrow> f64 \<Rightarrow> int64 \<Rightarrow> string \<Rightarrow> tagmap \<Rightarrow> 'o sinkState \<Rightarrow> string option \<times> 'o sinkState" where
  "SendMetric client sink name v ts source tags st =
     call client (WMetric (sink_name sink name) v ts source (sink_tags sink tags)) st"

definition SendDistribution ::
  "'o client \<Rightarrow> wavefrontSink \<Rightarrow> string \<Rightarrow> (f64 \<times> int) list \<Rightarrow> int64 \<Rightarrow> string \<Rightarrow> tagmap \<Rightarrow> 'o sinkState \<Rightarrow>
   string option \<times> 'o sinkState" where
  "SendDistribution client sink name centroids ts source tags st =
     call client (WDistribution (sink_name sink name) centroids ts source (sink_tags sink tags)) st"

text \<open>
  \<open>Send\<close> (point.go, distribution.go). A point builds a new tag map for the sink; a distribution
  hands over its own map, which \<open>cleanTags\<close> changes: the third component is the metric after it.
\<close>

fun Send :: "'o client \<Rightarrow> wavefrontSink \<Rightarrow> metric \<Rightarrow> 'o sinkState \<Rightarrow> string option \<times> 'o sinkState \<times> metric" where
  "Send client sink (MPoint m) st =
     (let r = SendMetric client sink (ptMetric m) (ptValue m) (ptTimestamp m) (ptSource m) (pt_Tags m) st
      in (fst r, snd r, MPoint m))"
| "Send client sink (MDistribution d) st =
     (if isCumulative d
      then (Some ''cannot send prometheus style distribution to wavefront'', st, MDistribution d)
      else if length (sendableCentroids d) = 0 then (None, st, MDistribution d)
      else
       (let r = SendDistribution client sink (dname d) (sendableCentroids d) (Unix (dTimestamp d)) (dSource d) (dtags d) st
        in (fst r, snd r, MDistribution (d\<lparr>dtags := sink_tags sink (dtags d)\<rparr>))))"

section \<open>Export\<close>

definition set_source :: "metric \<Rightarrow> metric" where
  "set_source p = (case mget (m_Tags p) (LabelKey LabelNodename) of None \<Rightarrow> p | Some newSource \<Rightarrow> m_SetSource newSource p)"

text \<open>One iteration: the state, and the metric as the batch holds it afterwards.\<close>

definition export_point ::
  "'o client \<Rightarrow> wavefrontSink \<Rightarrow> metric option \<Rightarrow> 'o sinkState \<Rightarrow> 'o sinkState \<times> metric option" where
  "export_point client sink pt st =
     (case pt of
        None \<Rightarrow> (st, None)
      | Some p \<Rightarrow>
         (let p = m_OverrideTag (LabelKey LabelCluster) (wsClusterName sink) p;
              p = m_AddTags (wsGlobalTags sink) p;
              f = Filter (wsFilters sink) (filteredPoints st) (Some p);
              st = st\<lparr>filteredPoints := snd f\<rparr>
          in case fst f of
               None \<Rightarrow> (st, Some p)
             | Some p \<Rightarrow>
                (let r = Send client sink (set_source p) st
                 in case r of (err, st, p) \<Rightarrow>
                      if err \<noteq> None then (st\<lparr>errPoints := errPoints st + 1\<rparr>, Some p)
                      else (st\<lparr>sentPoints := sentPoints st + 1\<rparr>, Some p))))"

definition Export ::
  "'o client \<Rightarrow> wavefrontSink \<Rightarrow> metric option list \<Rightarrow> 'o sinkState \<Rightarrow> 'o sinkState \<times> metric option list" where
  "Export client sink batch st =
     foldl (\<lambda>s pt. let r = export_point client sink pt (fst s) in (fst r, snd s @ [snd r])) (st, []) batch"

section \<open>Events\<close>

text \<open>\<open>annotate\<close> is the option constructor of the vendor's event library.\<close>

definition ExportEvent ::
  "(string \<Rightarrow> string \<Rightarrow> 'o) \<Rightarrow> 'o client \<Rightarrow> wavefrontSink \<Rightarrow> 'o event \<Rightarrow> 'o sinkState \<Rightarrow> 'o sinkState \<times> 'o event" where
  "ExportEvent annotate client sink ev st =
     (if \<not> wsEventsEnabled sink then (st, ev)
      else
       (let ev = ev\<lparr>evOptions := evOptions ev @ [annotate ''cluster'' (wsClusterName sink)]\<rparr>;
            r = call client (WEvent (evMessage ev) (Unix (evTs ev)) (wsClusterName sink) (evTags ev) (evOptions ev)) st
        in if fst r \<noteq> None then ((snd r)\<lparr>errEvents := errEvents (snd r) + 1\<rparr>, ev)
           else ((snd r)\<lparr>sentEvents := sentEvents (snd r) + 1\<rparr>, ev)))"

section \<open>Construction\<close>

datatype sender_config =
    TestSender
  | ProxySender string int64
  | DirectSender string string int64 int64

text \<open>\<open>Inl None\<close> is a panic, \<open>Inl (Some e)\<close> an error. \<open>atoi\<close> is \<open>strconv.Atoi\<close> and \<open>mk\<close> the vendor's constructors.\<close>

definition new_sender ::
  "(string \<Rightarrow> string + int64) \<Rightarrow> (sender_config \<Rightarrow> string option) \<Rightarrow> SinkConfig \<Rightarrow> string option + sender_config" where
  "new_sender atoi mk cfg =
     (if TestMode cfg then Inr TestSender
      else if ProxyAddress cfg \<noteq> '''' then
       (case Split (CHR '':'') (ProxyAddress cfg) of
          host # portStr # _ \<Rightarrow>
            (case atoi portStr of
               Inl err \<Rightarrow> Inl (Some (''error parsing proxy port: '' @ err))
             | Inr port \<Rightarrow>
                (case mk (ProxySender host port) of
                   Some err \<Rightarrow> Inl (Some (''error creating proxy sender: '' @ err))
                 | None \<Rightarrow> Inr (ProxySender host port)))
        | _ \<Rightarrow> Inl None)
      else if Server cfg \<noteq> '''' then
        (if length (Token cfg) = 0 then Inl (Some ''token missing for Wavefront sink'')
         else
          (let c = DirectSender (Server cfg) (Token cfg) (BatchSize cfg) (MaxBufferSize cfg)
           in case mk c of
                Some err \<Rightarrow> Inl (Some (''error creating direct sender: '' @ err))
              | None \<Rightarrow> Inr c))
      else Inl (Some ''proxyAddress or server property required for Wavefront sink''))"

text \<open>The ticker of the heartbeat panics when its interval is not positive.\<close>

definition NewWavefrontSink ::
  "(string \<Rightarrow> string + int64) \<Rightarrow> (sender_config \<Rightarrow> string option) \<Rightarrow> glob_compile \<Rightarrow> SinkConfig \<Rightarrow>
   string option + wavefrontSink \<times> sender_config" where
  "NewWavefrontSink atoi mk gc cfg =
     (case new_sender atoi mk cfg of
        Inl e \<Rightarrow> Inl e
      | Inr c \<Rightarrow>
         (case skEnableEvents cfg of
            None \<Rightarrow> Inl None
          | Some ev \<Rightarrow>
              if HeartbeatInterval cfg \<le> 0 then Inl None
              else Inr (\<lparr>wsClusterName = GetStringValue (skClusterName cfg) ''k8s-cluster'',
                         wsPrefix = (if trPrefix (skTransforms cfg) \<noteq> ''''
                                     then Trim (\<lambda>c. c = CHR ''.'') (trPrefix (skTransforms cfg)) else ''''),
                         wsEventsEnabled = ev,
                         wsGlobalTags = trTags (skTransforms cfg),
                         wsFilters = FromConfig gc (trFilters (skTransforms cfg)),
                         wsLogPercent = (if flt (Fin 0) (ErrorLogPercent cfg) \<and> fle (ErrorLogPercent cfg) (Fin 1)
                                         then ErrorLogPercent cfg else Fin (5368709 / 2 ^ 29))\<rparr>, c)))"

section \<open>Every point is accounted for\<close>

lemma Filter_Some_cases:
  "(\<exists>q. Filter f n (Some p) = (Some q, n)) \<or> Filter f n (Some p) = (None, n + 1)"
  by (cases f) (auto simp: Filter_cases)

lemma Send_counters:
  "sentPoints (fst (snd (Send client sink p st))) = sentPoints st"
  "errPoints (fst (snd (Send client sink p st))) = errPoints st"
  "filteredPoints (fst (snd (Send client sink p st))) = filteredPoints st"
  by (cases p; simp add: SendMetric_def SendDistribution_def call_def Let_def)+

definition prepare :: "wavefrontSink \<Rightarrow> metric \<Rightarrow> metric" where
  "prepare sink p = m_AddTags (wsGlobalTags sink) (m_OverrideTag (LabelKey LabelCluster) (wsClusterName sink) p)"

definition point_total :: "'o sinkState \<Rightarrow> int64" where
  "point_total st = sentPoints st + errPoints st + filteredPoints st"

lemma export_point_total:
  "point_total (fst (export_point client sink pt st)) = point_total st + (if pt = None then 0 else 1)"
proof (cases pt)
  case (Some p)
  let ?p = "prepare sink p"
  from Filter_Some_cases [of "wsFilters sink" "filteredPoints st" ?p] show ?thesis
  proof (elim disjE exE)
    fix q assume f: "Filter (wsFilters sink) (filteredPoints st) (Some ?p) = (Some q, filteredPoints st)"
    obtain err st' p' where s: "Send client sink (set_source q) st = (err, st', p')"
      by (cases "Send client sink (set_source q) st") auto
    show ?thesis using Send_counters [of client sink "set_source q" st]
      by (simp add: export_point_def prepare_def [symmetric] Some f s point_total_def)
  next
    assume f: "Filter (wsFilters sink) (filteredPoints st) (Some ?p) = (None, filteredPoints st + 1)"
    then show ?thesis by (simp add: export_point_def prepare_def [symmetric] Some point_total_def)
  qed
qed (simp add: export_point_def)

lemma Export_Nil [simp]: "Export client sink [] st = (st, [])"
  by (simp add: Export_def)

lemma Export_snoc:
  "Export client sink (xs @ [x]) st =
     (let r = Export client sink xs st; e = export_point client sink x (fst r) in (fst e, snd r @ [snd e]))"
  by (simp add: Export_def Let_def)

text \<open>Every metric of a batch is counted exactly once, as sent, as an error, or as filtered out; an
  empty slot of the batch is not counted; and the batch keeps its length.\<close>

theorem Export_accounts:
  "point_total (fst (Export client sink batch st)) =
     point_total st + word_of_nat (length (filter (\<lambda>pt. pt \<noteq> None) batch)) \<and>
   length (snd (Export client sink batch st)) = length batch"
proof (induction batch rule: rev_induct)
  case (snoc x batch)
  then show ?case
    by (simp add: Export_snoc Let_def export_point_total)
qed simp

section \<open>What leaves the sink\<close>

text \<open>
  A tag map as the backend accepts it: no empty value, no excluded name, at most 17 tags unless
  all of them must stay, and the cluster tag when neither the filter nor an empty name forbids it.
\<close>

definition tags_ok :: "wavefrontSink \<Rightarrow> tagmap \<Rightarrow> bool" where
  "tags_ok sink tags \<longleftrightarrow>
     wf_map tags \<and>
     int (length tags) \<le> max maxWavefrontTags (int (length (mfilter (guaranteed (sink_guarantee sink)) tags))) \<and>
     (\<forall>k v. mget tags k = Some v \<longrightarrow> \<not> isAnEmptyTag v \<and> \<not> excludeTag k) \<and>
     ((\<forall>f. wsFilters sink = Some f \<longrightarrow> MatchTag f ''cluster'') \<and> \<not> isAnEmptyTag (wsClusterName sink) \<longrightarrow>
        mget tags ''cluster'' = Some (wsClusterName sink))"

definition source_ok :: "string \<Rightarrow> tagmap \<Rightarrow> bool" where
  "source_ok source tags \<longleftrightarrow> (\<forall>n. mget tags ''nodename'' = Some n \<longrightarrow> source = n)"

fun wire_ok :: "wavefrontSink \<Rightarrow> 'o wire \<Rightarrow> bool" where
  "wire_ok sink (WMetric n v ts source tags) \<longleftrightarrow>
     (\<exists>m. n = sink_name sink m) \<and> tags_ok sink tags \<and> source_ok source tags"
| "wire_ok sink (WDistribution n cs ts source tags) \<longleftrightarrow>
     (\<exists>m. n = sink_name sink m) \<and> cs \<noteq> [] \<and> tags_ok sink tags \<and> source_ok source tags"
| "wire_ok sink (WEvent m ts host tags opts) \<longleftrightarrow> False"

definition cluster_set :: "wavefrontSink \<Rightarrow> metric \<Rightarrow> bool" where
  "cluster_set sink p \<longleftrightarrow>
     ((\<forall>f. wsFilters sink = Some f \<longrightarrow> MatchTag f ''cluster'') \<longrightarrow>
        mget (m_Tags p) ''cluster'' = Some (wsClusterName sink))"

lemma cluster_guaranteed [simp]: "guaranteed g ''cluster''"
  by (simp add: guaranteed_def labelNameRegex_def)

lemma nodename_guaranteed [simp]: "guaranteed g ''nodename''"
  by (simp add: guaranteed_def labelNameRegex_def)

lemma cluster_not_excluded [simp]: "\<not> excludeTag ''cluster''"
  by (simp add: excludeTag_iff excludeTagList_def)

lemma tags_ok_sink_tags:
  assumes wf: "wf_map tags"
    and cl: "(\<forall>f. wsFilters sink = Some f \<longrightarrow> MatchTag f ''cluster'') \<Longrightarrow> mget tags ''cluster'' = Some (wsClusterName sink)"
  shows "tags_ok sink (sink_tags sink tags)"
proof -
  let ?r = "fst (cleanTags tags (sink_guarantee sink) maxWavefrontTags)"
  note K = cleanTags_kept [OF wf]
  have "mget ?r k = Some v \<Longrightarrow> \<not> isAnEmptyTag v \<and> \<not> excludeTag k" for k v
    using K(3) K(4) by blast
  moreover have "mget ?r ''cluster'' = Some (wsClusterName sink)"
    if "\<forall>f. wsFilters sink = Some f \<longrightarrow> MatchTag f ''cluster''" "\<not> isAnEmptyTag (wsClusterName sink)"
    unfolding K(2) [OF cluster_guaranteed] using cl [OF that(1)] that(2) by (simp add: mget_sendable [OF wf])
  ultimately show ?thesis
    unfolding tags_ok_def sink_tags_def using K(1) cleanTags_all_guaranteed [OF wf] by (intro conjI allI impI; (elim conjE)?; blast)
qed

lemma source_ok_sink_tags:
  assumes "wf_map tags" and "\<And>n. mget tags ''nodename'' = Some n \<Longrightarrow> source = n"
  shows "source_ok source (sink_tags sink tags)"
  unfolding source_ok_def sink_tags_def using cleanTags_kept(3,4) [OF assms(1)] assms(2) by blast

lemma m_Tags_SetSource [simp]: "m_Tags (m_SetSource s p) = m_Tags p"
  by (cases p) (simp_all add: pt_Tags_def)

lemma m_Source_SetSource [simp]: "m_Source (m_SetSource s p) = s"
  by (cases p) simp_all

lemma set_source_tags [simp]: "m_Tags (set_source p) = m_Tags p"
  by (simp add: set_source_def split: option.splits)

lemma set_source_node: "mget (m_Tags p) ''nodename'' = Some n \<Longrightarrow> m_Source (set_source p) = n"
  by (simp add: set_source_def LabelNodename_def)

lemma wf_SetSource [simp]: "wf_metric_val (m_SetSource s p) = wf_metric_val p"
  by (cases p) (simp_all add: wf_point_def wf_dist_def)

lemma wf_set_source [simp]: "wf_metric_val (set_source p) = wf_metric_val p"
  by (simp add: set_source_def split: option.splits)

lemma wf_m_Tags: "wf_metric_val p \<Longrightarrow> wf_map (m_Tags p)"
  by (cases p) (simp_all add: wf_dist_def)

text \<open>A call that \<open>Send\<close> makes is in order when the metric has its cluster tag and source.\<close>

lemma Send_wire:
  assumes "wf_metric_val p" and "cluster_set sink p"
    and "\<And>n. mget (m_Tags p) ''nodename'' = Some n \<Longrightarrow> m_Source p = n"
  shows "calls (fst (snd (Send client sink p st))) = calls st \<or>
    (\<exists>w. calls (fst (snd (Send client sink p st))) = calls st @ [w] \<and> wire_ok sink w)"
proof -
  have t: "tags_ok sink (sink_tags sink (m_Tags p))" "source_ok (m_Source p) (sink_tags sink (m_Tags p))"
    using assms tags_ok_sink_tags [OF wf_m_Tags [OF assms(1)]] source_ok_sink_tags [OF wf_m_Tags [OF assms(1)]]
    by (auto simp: cluster_set_def)
  show ?thesis
    by (cases p) (use t in \<open>auto simp: SendMetric_def SendDistribution_def call_def Let_def\<close>)
qed

lemma wf_filtered:
  "wf_metric_val p \<Longrightarrow> Filter f n (Some p) = (Some q, m) \<Longrightarrow> wf_metric_val q"
  by (cases f) (auto simp: Filter_cases mm.ok_filter split: if_splits)

lemma cluster_filtered:
  assumes "wf_metric_val p" and "mget (m_Tags p) ''cluster'' = Some (wsClusterName sink)"
    and "Filter (wsFilters sink) n (Some p) = (Some q, m)"
  shows "cluster_set sink q"
  using assms by (cases "wsFilters sink") (auto simp: cluster_set_def Filter_cases mm.filter_tags split: if_splits)

lemma prepared:
  assumes wf: "wf_metric_val p"
  shows "wf_metric_val (prepare sink p)"
    and "mget (m_Tags (prepare sink p)) ''cluster'' = Some (wsClusterName sink)"
proof -
  show "wf_metric_val (prepare sink p)" unfolding prepare_def using wf by (simp add: mm.ok_add mm.ok_override)
  show "mget (m_Tags (prepare sink p)) ''cluster'' = Some (wsClusterName sink)"
  proof (cases p)
    case (MPoint m)
    then have "wf_point (pt_OverrideTag ''cluster'' (wsClusterName sink) m)" using wf by simp
    from mget_pt_AddTags [OF this, of "wsGlobalTags sink" "''cluster''"] show ?thesis
      unfolding prepare_def MPoint by (simp add: LabelCluster_def) (simp add: pt_OverrideTag_def)
  next
    case (MDistribution d)
    then show ?thesis unfolding prepare_def by (simp add: dtags_AddTags LabelCluster_def d_OverrideTag_def)
  qed
qed

lemma export_point_calls:
  assumes "\<And>p. pt = Some p \<Longrightarrow> wf_metric_val p"
  shows "calls (fst (export_point client sink pt st)) = calls st \<or>
    (\<exists>w. calls (fst (export_point client sink pt st)) = calls st @ [w] \<and> wire_ok sink w)"
proof (cases pt)
  case (Some p)
  let ?p = "prepare sink p"
  note P = prepared [OF assms [OF Some], of sink]
  from Filter_Some_cases [of "wsFilters sink" "filteredPoints st" ?p] show ?thesis
  proof (elim disjE exE)
    fix q assume f: "Filter (wsFilters sink) (filteredPoints st) (Some ?p) = (Some q, filteredPoints st)"
    obtain err st' p' where s: "Send client sink (set_source q) st = (err, st', p')"
      by (cases "Send client sink (set_source q) st") auto
    have "cluster_set sink (set_source q)"
      using cluster_filtered [OF P f] by (simp add: cluster_set_def)
    moreover have "wf_metric_val (set_source q)" using wf_filtered [OF P(1) f] by simp
    ultimately have "calls st' = calls st \<or> (\<exists>w. calls st' = calls st @ [w] \<and> wire_ok sink w)"
      using Send_wire [of "set_source q" sink client st] set_source_node s by auto
    then show ?thesis by (simp add: export_point_def prepare_def [symmetric] Some f s)
  qed (simp add: export_point_def prepare_def [symmetric] Some)
qed (simp add: export_point_def)

text \<open>C13: every call that exporting a batch makes of the sender carries a name the sink has sanitised and
  prefixed and a tag map the backend accepts: no empty value, no excluded name, at most 17 tags unless all
  of them must stay, the cluster tag unless a filter or an empty cluster name forbids it, and the node name
  tag, when it is sent, as the source.\<close>

theorem Export_calls_ok:
  assumes "\<And>p. Some p \<in> set batch \<Longrightarrow> wf_metric_val p"
  shows "\<exists>ws. calls (fst (Export client sink batch st)) = calls st @ ws \<and> (\<forall>w \<in> set ws. wire_ok sink w)"
  using assms
proof (induction batch rule: rev_induct)
  case (snoc x batch)
  then obtain ws where ws: "calls (fst (Export client sink batch st)) = calls st @ ws" "\<forall>w \<in> set ws. wire_ok sink w"
    by auto
  have "\<And>p. x = Some p \<Longrightarrow> wf_metric_val p" using snoc.prems by simp
  from export_point_calls [of x client sink "fst (Export client sink batch st)", OF this] ws show ?case
    by (auto simp: Export_snoc Let_def)
qed (auto intro: exI [of _ "[]"])

definition sample_ws :: wavefrontSink where
  "sample_ws = \<lparr>wsClusterName = ''c1'', wsPrefix = ''k8s'', wsEventsEnabled = True, wsGlobalTags = [],
     wsFilters = None, wsLogPercent = Fin 0\<rparr>"

definition sample_state :: "string sinkState" where
  "sample_state = \<lparr>sentPoints = 0, errPoints = 0, filteredPoints = 0, sentEvents = 0, errEvents = 0, calls = []\<rparr>"

lemma Export_calls_ok_witness:
  "\<exists>ws. calls (fst (Export (\<lambda>_ _. None) sample_ws [Some (MPoint (NewPoint ''cpu'' (Fin 1) 0 ''h'' [])), None] sample_state))
      = ws \<and> (\<forall>w \<in> set ws. wire_ok sample_ws w)"
  using Export_calls_ok [of "[Some (MPoint (NewPoint ''cpu'' (Fin 1) 0 ''h'' [])), None]" "\<lambda>_ _. None" sample_ws sample_state]
  by (simp add: sample_state_def wf_point_def NewPoint_def)

section \<open>The batch is shared\<close>

lemma Export_nth:
  "i < length batch \<Longrightarrow> \<exists>st'. snd (Export client sink batch st) ! i = snd (export_point client sink (batch ! i) st')"
proof (induction batch rule: rev_induct)
  case (snoc x batch)
  have len: "length (snd (Export client sink batch st)) = length batch"
    by (induction batch rule: rev_induct) (simp_all add: Export_snoc Let_def)
  show ?case
  proof (cases "i < length batch")
    case True
    with snoc len show ?thesis by (simp add: Export_snoc Let_def nth_append)
  next
    case False
    then have "i = length batch" using snoc.prems by simp
    with len show ?thesis by (auto simp: Export_snoc Let_def nth_append)
  qed
qed simp

lemma sink_tags_sub:
  assumes "wf_map tags" and "mget tags k = None"
  shows "mget (sink_tags sink tags) k = None"
proof (rule ccontr)
  assume "mget (sink_tags sink tags) k \<noteq> None"
  then obtain v where "mget (fst (cleanTags tags (sink_guarantee sink) maxWavefrontTags)) k = Some v"
    by (auto simp: sink_tags_def)
  then show False using cleanTags_kept(3,4) [OF assms(1)] assms(2) by fastforce
qed

lemma Send_after_tags:
  assumes "wf_metric_val p" and "mget (m_Tags p) k = None"
  shows "mget (m_Tags (snd (snd (Send client sink p st)))) k = None"
proof (cases p)
  case (MDistribution d)
  then have "mget (sink_tags sink (dtags d)) k = None" using assms by (intro sink_tags_sub) (auto simp: wf_dist_def)
  with MDistribution assms(2) show ?thesis by (simp add: Let_def)
qed (use assms in \<open>simp add: Let_def\<close>)

text \<open>A batch is shared by all sinks and exporting it is not read-only: once one sink has exported a
  metric that its filter accepts, the tags its filter rejects are gone from the batch itself, so that
  a sink that exports the batch afterwards cannot send them.\<close>

theorem Export_filters_shared_batch:
  assumes "i < length batch" and "batch ! i = Some p" and "wf_metric_val p"
    and "wsFilters sink = Some f" and "MatchMetric f (m_Name p) (m_Tags (prepare sink p))"
    and "\<not> MatchTag f k"
  shows "\<exists>p'. snd (Export client sink batch st) ! i = Some p' \<and> mget (m_Tags p') k = None"
proof -
  obtain st' where e: "snd (Export client sink batch st) ! i = snd (export_point client sink (Some p) st')"
    using Export_nth [OF assms(1)] assms(2) by metis
  define q where "q = m_FilterTags (MatchTag f) (prepare sink p)"
  note wf = prepared(1) [OF assms(3), of sink]
  have "m_Name (prepare sink p) = m_Name p" by (simp add: prepare_def)
  then have f: "Filter (wsFilters sink) (filteredPoints st') (Some (prepare sink p)) = (Some q, filteredPoints st')"
    using assms(4,5) by (simp add: Filter_cases q_def)
  have wfq: "wf_metric_val (set_source q)" using mm.ok_filter [OF wf] by (simp add: q_def)
  have kq: "mget (m_Tags (set_source q)) k = None" using mm.filter_tags [OF wf] assms(6) by (simp add: q_def)
  obtain err st'' p' where s: "Send client sink (set_source q) st' = (err, st'', p')"
    by (cases "Send client sink (set_source q) st'") auto
  then have "mget (m_Tags p') k = None" using Send_after_tags [OF wfq kq, of client sink st'] by simp
  then show ?thesis unfolding e by (simp add: export_point_def prepare_def [symmetric] f s)
qed

definition secret_filter :: globFilter where
  "secret_filter = \<lparr>metricAllowList = None, metricDenyList = None, metricTagAllowList = None,
     metricTagDenyList = None, tagInclude = None, tagExclude = Some (\<lambda>t. t = ''label.app''), tagGuaranteeList = []\<rparr>"

lemma Export_filters_shared_batch_witness:
  "\<exists>p'. snd (Export (\<lambda>_ _. None) (sample_ws\<lparr>wsFilters := Some secret_filter\<rparr>)
       [Some (MPoint (NewPoint ''cpu'' (Fin 1) 0 ''h'' [(''label.app'', ''shop'')]))] sample_state) ! 0 = Some p' \<and>
     mget (m_Tags p') ''label.app'' = None"
proof (rule Export_filters_shared_batch [where f = secret_filter])
  show "wf_metric_val (MPoint (NewPoint ''cpu'' (Fin 1) 0 ''h'' [(''label.app'', ''shop'')]))"
    by (simp add: wf_point_def NewPoint_def wf_map_def)
qed (simp_all add: secret_filter_def MatchMetric_def MatchTag_def globMatch_def)

section \<open>Construction\<close>

lemma new_sender_panics_iff:
  "new_sender atoi mk cfg = Inl None \<longleftrightarrow> \<not> TestMode cfg \<and> ProxyAddress cfg \<noteq> '''' \<and> CHR '':'' \<notin> set (ProxyAddress cfg)"
proof (cases "CHR '':'' \<in> set (ProxyAddress cfg)")
  case True
  then obtain a b where ab: "ProxyAddress cfg = a @ CHR '':'' # b" "CHR '':'' \<notin> set a"
    by (metis split_list_first)
  then obtain y ys where "Split (CHR '':'') (ProxyAddress cfg) = a # y # ys"
    by (metis Split_append Split_not_Nil list.exhaust)
  with True show ?thesis by (auto simp: new_sender_def Let_def split: sum.splits option.splits)
next
  case False
  then show ?thesis by (auto simp: new_sender_def Let_def Split_no_sep split: sum.splits option.splits)
qed

text \<open>Creating a sink from a loaded configuration (its event switch is set) crashes exactly when it is
  to use a proxy whose address has no colon, as the code takes the part after the colon without looking
  whether there is one, or when there is a sender and the default collection interval, which becomes that of the
  heartbeat, is not positive. Whatever else is wrong with the configuration is reported as an error.\<close>

theorem NewWavefrontSink_panics_iff:
  assumes "skEnableEvents cfg \<noteq> None"
  shows "NewWavefrontSink atoi mk gc cfg = Inl None \<longleftrightarrow>
    (\<not> TestMode cfg \<and> ProxyAddress cfg \<noteq> '''' \<and> CHR '':'' \<notin> set (ProxyAddress cfg)) \<or>
    (\<exists>c. new_sender atoi mk cfg = Inr c) \<and> HeartbeatInterval cfg \<le> 0"
  using assms new_sender_panics_iff [of atoi mk cfg] by (auto simp: NewWavefrontSink_def split: sum.splits)

lemma NewWavefrontSink_panics_iff_witness:
  "NewWavefrontSink (\<lambda>_. Inr 0) (\<lambda>_. None) (\<lambda>_. None)
     (sample_sink\<lparr>skEnableEvents := Some True, ProxyAddress := ''proxy''\<rparr>) = Inl None"
  by (subst NewWavefrontSink_panics_iff) (simp_all add: sample_sink_def)

end
