(* ===== verification/Histograms.thy ===== *)
theory Histograms
  imports Wf_Points
begin

text \<open>
  Lemmas about distributions: sorting by bound, the split of a bucket count by
  \<open>smoothCentroids\<close>, conservation of counts, and rates.
\<close>

section \<open>Sorting by bound\<close>

lemma mset_sink_into [simp]: "mset (sink_into ls x ys) = add_mset x (mset ys)"
  by (induction ys) auto

lemma set_sink_into [simp]: "set (sink_into ls x ys) = insert x (set ys)"
  by (induction ys) auto

lemma mset_sort_slice [simp]: "mset (sort_slice ls xs) = mset xs"
proof -
  have "mset (foldl (\<lambda>acc x. sink_into ls x acc) ys xs) = mset ys + mset xs" for ys
    by (induction xs arbitrary: ys) auto
  then show ?thesis by (simp add: sort_slice_def)
qed

lemma set_sort_slice [simp]: "set (sort_slice ls xs) = set xs"
  using mset_sort_slice by (metis set_mset_mset)

lemma length_sort_slice [simp]: "length (sort_slice ls xs) = length xs"
  using mset_sort_slice by (metis size_mset)

text \<open>The bounds without NaN are linearly ordered by \<open>flt\<close>.\<close>

lemma flt_trans: "flt x y \<Longrightarrow> flt y z \<Longrightarrow> flt x z"
  by (cases x; cases y; cases z) auto

lemma flt_total: "x \<noteq> NaN \<Longrightarrow> y \<noteq> NaN \<Longrightarrow> flt x y \<or> x = y \<or> flt y x"
  by (cases x; cases y) auto

lemma flt_irrefl [simp]: "\<not> flt x x"
  by (cases x) auto

lemma flt_not_sym: "flt x y \<Longrightarrow> \<not> flt y x"
  using flt_trans flt_irrefl by blast

definition bounds_ok :: "Centroid list \<Rightarrow> bool" where
  "bounds_ok cs \<longleftrightarrow> (\<forall>c \<in> set cs. cValue c \<noteq> NaN)"

lemma sink_into_sorted:
  assumes "sorted_wrt (\<lambda>a b. \<not> flt (cValue a) (cValue b)) ys"
    and "bounds_ok (x # ys)"
  shows "sorted_wrt (\<lambda>a b. \<not> flt (cValue a) (cValue b)) (sink_into centroid_less x ys)"
  using assms
proof (induction ys)
  case (Cons y ys)
  then have IH: "sorted_wrt (\<lambda>a b. \<not> flt (cValue a) (cValue b)) (sink_into centroid_less x ys)"
    by (simp add: bounds_ok_def)
  show ?case
  proof (cases "flt (cValue x) (cValue y)")
    case True
    have less: "centroid_less x y" using True by (simp add: centroid_less_def)
    have "\<not> flt (cValue y) (cValue z)" if "z \<in> set (sink_into centroid_less x ys)" for z
      using that Cons.prems(1) flt_not_sym [OF True] by auto
    with IH less show ?thesis by simp
  next
    case False
    have "\<not> flt (cValue x) (cValue z)" if "z \<in> set ys" for z
    proof
      assume xz: "flt (cValue x) (cValue z)"
      have "\<not> flt (cValue y) (cValue z)" using Cons.prems(1) that by simp
      then have "flt (cValue z) (cValue y) \<or> cValue y = cValue z"
        using flt_total Cons.prems(2) that by (auto simp: bounds_ok_def)
      with xz False show False using flt_trans by metis
    qed
    moreover have "\<not> centroid_less x y" using False by (simp add: centroid_less_def)
    ultimately show ?thesis using Cons.prems(1) False by simp
  qed
qed simp

lemma sort_slice_sorted:
  assumes "bounds_ok cs"
  shows "sorted_wrt (\<lambda>a b. \<not> flt (cValue b) (cValue a)) (sort_slice centroid_less cs)"
proof -
  have "sorted_wrt (\<lambda>a b. \<not> flt (cValue a) (cValue b)) (foldl (\<lambda>acc x. sink_into centroid_less x acc) ys xs)"
    if "sorted_wrt (\<lambda>a b. \<not> flt (cValue a) (cValue b)) ys" and "bounds_ok (ys @ xs)" for xs ys
    using that
  proof (induction xs arbitrary: ys)
    case (Cons x xs)
    have "bounds_ok (x # ys)" using Cons.prems(2) by (auto simp: bounds_ok_def)
    then have "sorted_wrt (\<lambda>a b. \<not> flt (cValue a) (cValue b)) (sink_into centroid_less x ys)"
      by (rule sink_into_sorted [OF Cons.prems(1)])
    moreover have "bounds_ok (sink_into centroid_less x ys @ xs)"
      using Cons.prems(2) by (auto simp: bounds_ok_def)
    ultimately show ?case using Cons.IH by simp
  qed simp
  from this [of "[]" cs] assms show ?thesis
    by (simp add: sort_slice_def sorted_wrt_rev)
qed

section \<open>Splitting the count of a bucket\<close>

lemma rep_ge1:
  assumes "representable a" and "1 \<le> a"
  obtains m e where "a = of_int m * 2 powi e" and "\<bar>m\<bar> \<le> 2 ^ 53" and "- 53 \<le> e"
proof -
  from assms(1) obtain m e where a: "a = of_int m * 2 powi e" "\<bar>m\<bar> \<le> 2 ^ 53"
    by (auto simp: representable_def)
  have "1 \<le> of_int \<bar>m\<bar> * (2::rat) powi e"
    using assms(2) a(1) by (metis abs_ge_self abs_mult abs_of_pos of_int_abs order_trans powi2_pos)
  also have "\<dots> \<le> of_int (2 ^ 53) * 2 powi e"
  proof (rule mult_right_mono)
    show "of_int \<bar>m\<bar> \<le> (of_int (2 ^ 53) :: rat)" using a(2) by (simp only: of_int_le_iff)
  qed simp
  also have "\<dots> = 2 powi (e + 53)" by (simp add: powi2_add53)
  finally have "(2::rat) powi 0 \<le> 2 powi (e + 53)" by simp
  then have "- 53 \<le> e" using pow_le_le by fastforce
  with a that show thesis by blast
qed

lemma rep_shift:
  assumes "representable a" and "1 \<le> a" and "k \<le> 100"
  shows "rnd (a / 2 ^ k) = Fin (a / 2 ^ k)"
proof (rule rnd_exact)
  obtain m e where a: "a = of_int m * 2 powi e" "\<bar>m\<bar> \<le> 2 ^ 53" "- 53 \<le> e"
    using rep_ge1 [OF assms(1,2)] .
  have "a / 2 ^ k = of_int m * 2 powi (e - int k)"
    by (simp add: a(1) power_int_diff)
  moreover have "\<bar>a / 2 ^ k\<bar> \<le> f64_max"
  proof -
    have "\<bar>a / 2 ^ k\<bar> \<le> \<bar>a\<bar>" by (simp add: abs_divide divide_le_eq mult_le_cancel_left1)
    also have "\<dots> \<le> f64_max" using assms(1) by (simp add: representable_def)
    finally show ?thesis .
  qed
  moreover have "- 1074 \<le> e - int k" using a(3) assms(3) by simp
  ultimately show "representable (a / 2 ^ k)"
    using a(2) unfolding representable_def by (intro conjI exI [of _ m] exI [of _ "e - int k"])
qed

lemma rep_sub_int:
  assumes "representable a" and "1 \<le> a" and "a \<le> 2 ^ 52" and "0 \<le> l" and "of_int l \<le> a"
  shows "representable (a - of_int l)"
proof -
  obtain m e where a: "a = of_int m * 2 powi e" "\<bar>m\<bar> \<le> 2 ^ 53" "- 53 \<le> e"
    using rep_ge1 [OF assms(1,2)] .
  have small: "\<bar>a - of_int l\<bar> \<le> f64_max"
  proof -
    have "\<bar>a - of_int l\<bar> \<le> \<bar>a\<bar>" using assms by simp
    then show ?thesis using assms(1) by (simp add: representable_def)
  qed
  show ?thesis
  proof (cases "e \<le> 0")
    case True
    define s where "s = (2::int) ^ nat (- e)"
    have s: "(of_int s :: rat) * 2 powi e = 1"
    proof -
      have "(of_int s :: rat) = 2 powi (- e)" using True by (simp add: s_def power_int_def)
      then show ?thesis by (simp add: power_int_minus)
    qed
    have eq: "a - of_int l = of_int (m - l * s) * 2 powi e"
    proof -
      have "a - of_int l = of_int m * 2 powi e - of_int l * (of_int s * 2 powi e)"
        by (simp only: s a(1) mult_1_right)
      also have "\<dots> = of_int (m - l * s) * 2 powi e" by (simp add: left_diff_distrib mult.assoc)
      finally show ?thesis .
    qed
    have "0 \<le> of_int (m - l * s) * (2::rat) powi e" using eq assms(5) by linarith
    moreover have "(0::rat) < 2 powi e" by simp
    ultimately have "(0::rat) \<le> of_int (m - l * s)" using zero_le_mult_iff by (metis linorder_not_less)
    then have lo: "0 \<le> m - l * s" by (simp only: of_int_0_le_iff)
    have "0 \<le> l * s" using assms(4) by (simp add: s_def)
    with lo a(2) have ms: "\<bar>m - l * s\<bar> \<le> 2 ^ 53" by simp
    have "- 1074 \<le> e" using a(3) by simp
    with eq ms small show ?thesis unfolding representable_def
      by (intro conjI exI [of _ "m - l * s"] exI [of _ e])
  next
    case False
    define M where "M = m * 2 ^ nat e"
    have ai: "a = of_int M" using False by (simp add: M_def a(1) power_int_def)
    have "l \<le> M" using assms(5) unfolding ai by (simp only: of_int_le_iff)
    moreover have "M \<le> 2 ^ 52"
    proof -
      have "(of_int M :: rat) \<le> of_int (2 ^ 52)" using assms(3) unfolding ai by simp
      then show ?thesis by (simp only: of_int_le_iff)
    qed
    ultimately have "\<bar>M - l\<bar> \<le> 2 ^ 53" using assms(4) by simp
    then have "representable (of_int (M - l))" by (rule representable_int)
    then show ?thesis by (simp add: ai)
  qed
qed

lemma rat_trunc_nonneg: "0 \<le> q \<Longrightarrow> rat_trunc q = \<lfloor>q\<rfloor>"
  by (simp add: rat_trunc_def)

text \<open>The three parts of a count are whole numbers, computed exactly, and add up to its integer part.\<close>

definition split_lower :: "rat \<Rightarrow> int" where "split_lower a = \<lfloor>a / 4\<rfloor>"
definition split_middle :: "rat \<Rightarrow> int" where "split_middle a = \<lfloor>a / 2\<rfloor>"
definition split_upper :: "rat \<Rightarrow> int" where "split_upper a = \<lfloor>a\<rfloor> - split_lower a - split_middle a"

lemma split_bounds:
  assumes "0 \<le> a"
  shows "0 \<le> split_lower a" "0 \<le> split_middle a" "of_int (split_lower a) + of_int (split_middle a) \<le> a"
    "0 \<le> split_upper a"
proof -
  show lo: "0 \<le> split_lower a" and mi: "0 \<le> split_middle a"
    using assms by (simp_all add: split_lower_def split_middle_def)
  have "of_int (split_lower a) \<le> a / 4" "of_int (split_middle a) \<le> a / 2"
    unfolding split_lower_def split_middle_def by (rule of_int_floor_le)+
  with assms show le: "of_int (split_lower a) + of_int (split_middle a) \<le> a" by linarith
  then have "(of_int (split_lower a + split_middle a) :: rat) \<le> a" by simp
  then have "split_lower a + split_middle a \<le> \<lfloor>a\<rfloor>" by (simp only: le_floor_iff)
  then show "0 \<le> split_upper a" by (simp add: split_upper_def)
qed

lemma split_exact:
  assumes "representable a" and "1 \<le> a" and "a \<le> 2 ^ 52"
  shows "ftrunc (fdiv (Fin a) (Fin 4)) = Fin (of_int (split_lower a))"
    and "ftrunc (fdiv (Fin a) (Fin 2)) = Fin (of_int (split_middle a))"
    and "ftrunc (fsub (fsub (Fin a) (Fin (of_int (split_lower a)))) (Fin (of_int (split_middle a))))
       = Fin (of_int (split_upper a))"
proof -
  have a0: "0 \<le> a" using assms(2) by simp
  note b = split_bounds [OF a0]
  show "ftrunc (fdiv (Fin a) (Fin 4)) = Fin (of_int (split_lower a))"
    using rep_shift [OF assms(1,2), of 2] a0 by (simp add: rat_trunc_nonneg split_lower_def)
  show "ftrunc (fdiv (Fin a) (Fin 2)) = Fin (of_int (split_middle a))"
    using rep_shift [OF assms(1,2), of 1] a0 by (simp add: rat_trunc_nonneg split_middle_def)
  have l: "of_int (split_lower a) \<le> a" using b by (metis add_increasing2 le_add_same_cancel1 of_int_0_le_iff order_trans)
  have s1: "fsub (Fin a) (Fin (of_int (split_lower a))) = Fin (a - of_int (split_lower a))"
    using rnd_exact [OF rep_sub_int [OF assms b(1) l]] by (simp add: fsub_def)
  have lm: "of_int (split_lower a + split_middle a) \<le> a" using b(3) by simp
  have s2: "fsub (Fin (a - of_int (split_lower a))) (Fin (of_int (split_middle a)))
      = Fin (a - of_int (split_lower a) - of_int (split_middle a))"
    using rnd_exact [OF rep_sub_int [OF assms _ lm]] b(1,2) by (simp add: fsub_def algebra_simps)
  have "\<lfloor>a - of_int (split_lower a) - of_int (split_middle a)\<rfloor> = split_upper a"
    by (simp add: split_upper_def floor_diff_of_int)
  moreover have "0 \<le> a - of_int (split_lower a) - of_int (split_middle a)" using b(3) by simp
  ultimately show "ftrunc (fsub (fsub (Fin a) (Fin (of_int (split_lower a)))) (Fin (of_int (split_middle a))))
       = Fin (of_int (split_upper a))"
    by (simp only: s1 s2 ftrunc.simps rat_trunc_nonneg)
qed

section \<open>Counts of the smoothed buckets\<close>

definition count_int :: "f64 \<Rightarrow> int" where
  "count_int x = (case x of Fin q \<Rightarrow> \<lfloor>q\<rfloor> | _ \<Rightarrow> 0)"

definition bucket_total :: "(f64 \<times> f64) list \<Rightarrow> int" where
  "bucket_total m = sum_list (map (\<lambda>e. count_int (snd e)) m)"

definition whole_counts :: "(f64 \<times> f64) list \<Rightarrow> bool" where
  "whole_counts m \<longleftrightarrow> (\<forall>e \<in> set m. \<exists>n. 0 \<le> n \<and> snd e = Fin (of_int n))"

lemma bucket_total_simps [simp]:
  "bucket_total [] = 0" "bucket_total (e # m) = count_int (snd e) + bucket_total m"
  by (simp_all add: bucket_total_def)

lemma count_int_of_int [simp]: "count_int (Fin (of_int n)) = n"
  by (simp add: count_int_def)

lemma whole_counts_Cons:
  "whole_counts (e # m) \<longleftrightarrow> (\<exists>n. 0 \<le> n \<and> snd e = Fin (of_int n)) \<and> whole_counts m"
  by (auto simp: whole_counts_def)

lemma bucket_total_nonneg: "whole_counts m \<Longrightarrow> 0 \<le> bucket_total m"
  by (induction m) (auto simp: whole_counts_Cons)

lemma bucket_add_whole:
  assumes "whole_counts m" and "0 \<le> v" and "bucket_total m + v \<le> 2 ^ 53"
  shows "whole_counts (bucket_add k (Fin (of_int v)) m) \<and>
    bucket_total (bucket_add k (Fin (of_int v)) m) = bucket_total m + v"
  using assms
proof (induction m)
  case Nil
  then show ?case using fadd_int [of 0 v] by (auto simp: whole_counts_def)
next
  case (Cons e m)
  obtain k' c where e: "e = (k', c)" by (cases e)
  from Cons.prems(1) obtain n where n: "0 \<le> n" "c = Fin (of_int n)" and m: "whole_counts m"
    by (auto simp: whole_counts_Cons e)
  have bt: "0 \<le> bucket_total m" using bucket_total_nonneg [OF m] .
  show ?case
  proof (cases "feq k k'")
    case True
    have "\<bar>n + v\<bar> \<le> 2 ^ 53" using Cons.prems n bt by (simp add: e)
    then have "fadd (Fin (of_int n)) (Fin (of_int v)) = Fin (of_int (n + v))" by (rule fadd_int)
    with True n m Cons.prems(2) show ?thesis
      by (auto simp: e whole_counts_Cons simp del: of_int_add fadd.simps)
  next
    case False
    have "bucket_total m + v \<le> 2 ^ 53" using Cons.prems n by (simp add: e)
    with Cons.IH [OF m Cons.prems(2)] False n show ?thesis by (simp add: e whole_counts_Cons)
  qed
qed

text \<open>
  What a bucket contributes: nothing when it is skipped, else the integer part of its amplified
  count, at least one. \<open>bucket_ok\<close> excludes counts beyond 2^52 and counts that are not finite.
\<close>

definition skipped :: "f64 \<Rightarrow> Centroid \<Rightarrow> bool" where
  "skipped amp c \<longleftrightarrow> fle (cValue c) (Fin 0) \<or> feq (fmul (cCount c) amp) (Fin 0)"

definition contribution :: "f64 \<Rightarrow> Centroid \<Rightarrow> int" where
  "contribution amp c =
     (if skipped amp c then 0
      else case fmul (cCount c) amp of Fin a \<Rightarrow> \<lfloor>max 1 a\<rfloor> | _ \<Rightarrow> 0)"

definition bucket_ok :: "f64 \<Rightarrow> Centroid \<Rightarrow> bool" where
  "bucket_ok amp c \<longleftrightarrow> skipped amp c \<or>
     (case fmul (cCount c) amp of Fin a \<Rightarrow> a \<le> 2 ^ 52 \<and> representable a | _ \<Rightarrow> False)"

lemma contribution_nonneg: "0 \<le> contribution amp c"
  by (auto simp: contribution_def split: f64.splits)

lemma fmax_1: "fmax (Fin 1) (Fin a) = Fin (max 1 a)"
  by (auto simp: fmax_def)

lemma smooth_bucket:
  assumes ok: "bucket_ok amp c" and ns: "\<not> skipped amp c" and w: "whole_counts m"
    and tot: "bucket_total m + contribution amp c \<le> 2 ^ 53"
    and m': "m' = (let actual = fmax (Fin 1) (fmul (cCount c) amp);
           lowerCount = ftrunc (fdiv actual (Fin 4)); m1 = bucket_add pb lowerCount m;
           middleCount = ftrunc (fdiv actual (Fin 2)); m2 = bucket_add mb middleCount m1;
           upperCount = ftrunc (fsub (fsub actual lowerCount) middleCount)
       in bucket_add b upperCount m2)"
  shows "whole_counts m' \<and> bucket_total m' = bucket_total m + contribution amp c"
proof -
  from ok ns obtain a where fa: "fmul (cCount c) amp = Fin a" and a: "a \<le> 2 ^ 52" "representable a"
    by (auto simp: bucket_ok_def split: f64.splits)
  define x where "x = max 1 a"
  have x: "1 \<le> x" "x \<le> 2 ^ 52" "representable x"
    using a representable_int [of 1] by (auto simp: x_def max_def)
  have con: "contribution amp c = \<lfloor>x\<rfloor>" using ns by (simp add: contribution_def fa x_def)
  have x0: "0 \<le> x" using x(1) by simp
  note sb = split_bounds [OF x0] and se = split_exact [OF x(3,1,2)]
  have sum: "split_lower x + split_middle x + split_upper x = \<lfloor>x\<rfloor>" by (simp add: split_upper_def)
  define m1 where "m1 = bucket_add pb (Fin (of_int (split_lower x))) m"
  define m2 where "m2 = bucket_add mb (Fin (of_int (split_middle x))) m1"
  have 1: "whole_counts m1 \<and> bucket_total m1 = bucket_total m + split_lower x"
    unfolding m1_def using tot con sum sb by (intro bucket_add_whole [OF w]) auto
  have 2: "whole_counts m2 \<and> bucket_total m2 = bucket_total m1 + split_middle x"
    unfolding m2_def using 1 tot con sum sb by (intro bucket_add_whole) auto
  have 3: "whole_counts (bucket_add b (Fin (of_int (split_upper x))) m2) \<and>
      bucket_total (bucket_add b (Fin (of_int (split_upper x))) m2) = bucket_total m2 + split_upper x"
    using 1 2 tot con sum sb by (intro bucket_add_whole) auto
  have "m' = bucket_add b (Fin (of_int (split_upper x))) m2"
    unfolding m' Let_def fa fmax_1 x_def [symmetric] se m1_def m2_def by (rule refl)
  with 1 2 3 con sum show ?thesis by simp
qed

lemma smooth_loop_conserves:
  assumes "smooth_loop amp prev cs m = Inr m'" and "list_all (bucket_ok amp) cs" and "whole_counts m"
    and "bucket_total m + sum_list (map (contribution amp) cs) \<le> 2 ^ 53"
  shows "whole_counts m' \<and> bucket_total m' = bucket_total m + sum_list (map (contribution amp) cs)"
  using assms
proof (induction cs arbitrary: prev m)
  case (Cons c cs)
  have rest: "0 \<le> sum_list (map (contribution amp) cs)"
    by (rule sum_list_nonneg) (auto simp: contribution_nonneg)
  show ?case
  proof (cases "skipped amp c")
    case True
    then have "smooth_loop amp (Some c) cs m = Inr m'" and "contribution amp c = 0"
      using Cons.prems(1) by (auto simp: skipped_def contribution_def)
    with Cons.IH [of "Some c" m] Cons.prems(2-4) show ?thesis by simp
  next
    case False
    with Cons.prems(1) obtain pb mb b where
      loop: "smooth_loop amp (Some c) cs
        (let actual = fmax (Fin 1) (fmul (cCount c) amp);
           lowerCount = ftrunc (fdiv actual (Fin 4)); m1 = bucket_add pb lowerCount m;
           middleCount = ftrunc (fdiv actual (Fin 2)); m2 = bucket_add mb middleCount m1;
           upperCount = ftrunc (fsub (fsub actual lowerCount) middleCount)
         in bucket_add b upperCount m2) = Inr m'"
      by (fastforce simp: skipped_def Let_def split: if_splits)
    define m1 where "m1 = (let actual = fmax (Fin 1) (fmul (cCount c) amp);
           lowerCount = ftrunc (fdiv actual (Fin 4)); m1 = bucket_add pb lowerCount m;
           middleCount = ftrunc (fdiv actual (Fin 2)); m2 = bucket_add mb middleCount m1;
           upperCount = ftrunc (fsub (fsub actual lowerCount) middleCount)
         in bucket_add b upperCount m2)"
    have "whole_counts m1 \<and> bucket_total m1 = bucket_total m + contribution amp c"
      by (rule smooth_bucket [OF _ False Cons.prems(3) _ m1_def]) (use Cons.prems rest in auto)
    moreover have "smooth_loop amp (Some c) cs m1 = Inr m'" using loop unfolding m1_def .
    ultimately show ?thesis using Cons.IH [of "Some c" m1] Cons.prems(2-4) by simp
  qed
qed simp

text \<open>The loop panics only on its first centroid.\<close>

lemma smooth_loop_Some: "\<exists>m'. smooth_loop amp (Some p) cs m = Inr m'"
  by (induction cs arbitrary: p m) (auto simp: Let_def)

lemma smooth_loop_panic_iff:
  "(\<exists>e. smooth_loop amp None cs m = Inl e) \<longleftrightarrow>
     (\<exists>c cs'. cs = c # cs' \<and> cValue c = PInf \<and> \<not> skipped amp c)"
proof (cases cs)
  case (Cons c cs')
  show ?thesis
  proof (cases "skipped amp c \<or> cValue c \<noteq> PInf")
    case True
    have "\<exists>m'. smooth_loop amp None (c # cs') m = Inr m'"
      using True smooth_loop_Some by (auto simp: Let_def skipped_def)
    with True Cons show ?thesis by auto
  next
    case False
    then show ?thesis by (auto simp: Cons skipped_def)
  qed
qed auto

lemma length_derive_from [simp]: "length (derive_from p cs) = length cs"
  by (induction cs arbitrary: p) auto

lemma cValue_derive_from [simp]: "map cValue (derive_from p cs) = map cValue cs"
  by (induction cs arbitrary: p) auto

end
