(* ===== verification/Histogram_Rates.thy ===== *)
theory Histogram_Rates
  imports Histograms
begin

text \<open>
  What the two conversions of a histogram promise: \<open>ToFrequency\<close> keeps every sample of the
  cumulative histogram it starts from (or crashes, for the inputs \<open>ToFrequency_panics_iff\<close>
  names), and \<open>CentroidRate\<close> is the per-minute increase of every bucket, or nothing.
\<close>

section \<open>Whole cumulative counts\<close>

text \<open>Counts that are whole numbers, never decrease from one bucket to the next, and stay below 2^52.\<close>

fun cum_ok :: "int \<Rightarrow> Centroid list \<Rightarrow> bool" where
  "cum_ok lo [] = True"
| "cum_ok lo (c # cs) =
     (cCount c = Fin (of_int (count_int (cCount c))) \<and> lo \<le> count_int (cCount c) \<and>
      count_int (cCount c) \<le> 2 ^ 52 \<and> cum_ok (count_int (cCount c)) cs)"

fun diffs :: "int \<Rightarrow> Centroid list \<Rightarrow> int list" where
  "diffs lo [] = []"
| "diffs lo (c # cs) = (count_int (cCount c) - lo) # diffs (count_int (cCount c)) cs"

lemma sum_diffs: "cs \<noteq> [] \<Longrightarrow> sum_list (diffs lo cs) = count_int (cCount (last cs)) - lo"
  by (induction lo cs rule: diffs.induct) auto

lemma fsub_int:
  assumes "0 \<le> b" and "b \<le> a" and "a \<le> 2 ^ 52"
  shows "fsub (Fin (of_int a)) (Fin (of_int b)) = Fin (of_int (a - b))"
  using assms fadd_int [of a "- b"] by (simp add: fsub_def)

definition int_centroids :: "Centroid list \<Rightarrow> int list \<Rightarrow> bool" where
  "int_centroids cs ns \<longleftrightarrow> list_all2 (\<lambda>c n. cCount c = Fin (of_int n) \<and> 0 \<le> n \<and> n \<le> 2 ^ 52) cs ns"

lemma derive_from_int:
  assumes "cum_ok lo cs" and "0 \<le> lo" and "lo \<le> 2 ^ 52"
  shows "int_centroids (derive_from (Some (Fin (of_int lo))) cs) (diffs lo cs)"
  using assms
proof (induction lo cs rule: diffs.induct)
  case (2 lo c cs)
  define n where "n = count_int (cCount c)"
  have n: "cCount c = Fin (of_int n)" "lo \<le> n" "n \<le> 2 ^ 52" "cum_ok n cs"
    using "2.prems"(1) by (simp_all add: n_def [symmetric])
  have "fsub (cCount c) (Fin (of_int lo)) = Fin (of_int (n - lo))"
    using n fsub_int "2.prems"(2) by simp
  moreover have "int_centroids (derive_from (Some (Fin (of_int n))) cs) (diffs n cs)"
    using "2.IH" n "2.prems"(2) unfolding n_def by simp
  ultimately show ?case using n "2.prems"(2)
    by (simp add: int_centroids_def n_def [symmetric])
qed (simp add: int_centroids_def)

lemma deriveCentroids_int: "cum_ok 0 cs \<Longrightarrow> int_centroids (deriveCentroids cs) (diffs 0 cs)"
proof (cases cs)
  case (Cons c cs')
  assume ok: "cum_ok 0 cs"
  define n where "n = count_int (cCount c)"
  have n: "cCount c = Fin (of_int n)" "0 \<le> n" "n \<le> 2 ^ 52" "cum_ok n cs'"
    using ok by (simp_all add: n_def [symmetric] Cons)
  have "int_centroids (derive_from (Some (Fin (of_int n))) cs') (diffs n cs')"
    using n by (intro derive_from_int) auto
  then show ?thesis using n
    by (simp add: int_centroids_def Cons n_def [symmetric] deriveCentroids_def)
qed (simp add: deriveCentroids_def int_centroids_def)

text \<open>No count of such a histogram is amplified.\<close>

lemma smallest_range:
  assumes "int_centroids cs ns" and "m = Fin q" and "1 \<le> q"
  shows "\<exists>r. foldl (\<lambda>minCount c. if flt (Fin 0) (cCount c) \<and> flt (cCount c) minCount then cCount c else minCount)
     m cs = Fin r \<and> 1 \<le> r"
  using assms
proof (induction cs arbitrary: ns m q)
  case (Cons c cs)
  then obtain n ns' where n: "cCount c = Fin (of_int n)" "int_centroids cs ns'"
    by (auto simp: int_centroids_def list_all2_Cons1)
  have "\<exists>q'. (if flt (Fin 0) (cCount c) \<and> flt (cCount c) m then cCount c else m) = Fin q' \<and> 1 \<le> q'"
    using Cons.prems(2,3) n(1) by simp
  then obtain q' where q': "(if flt (Fin 0) (cCount c) \<and> flt (cCount c) m then cCount c else m) = Fin q'" "1 \<le> q'"
    by blast
  show ?case using Cons.IH [OF n(2) q'] by (simp only: foldl.simps)
qed auto

lemma amplification_int:
  assumes "int_centroids cs ns"
  shows "amplification cs = Fin 1"
proof -
  have "1 \<le> f64_max" by (simp add: f64_max_def)
  then obtain r where r: "smallestCountAboveZero cs = Fin r" "1 \<le> r"
    using smallest_range [OF assms refl] unfolding smallestCountAboveZero_def by blast
  have "0 < 1 / r" "1 / r \<le> 2 ^ 0" using r(2) by simp_all
  from rnd_upto [OF this] obtain q where "rnd (1 / r) = Fin q" "q \<le> 1" by auto
  then show ?thesis using r by (auto simp: amplification_def fmax_def)
qed

lemma fmul_int_1: "0 \<le> n \<Longrightarrow> n \<le> 2 ^ 52 \<Longrightarrow> fmul (Fin (of_int n)) (Fin 1) = Fin (of_int n)"
  using rnd_int [of n] by simp

lemma contribution_int:
  assumes "cCount c = Fin (of_int n)" and "0 \<le> n" and "n \<le> 2 ^ 52"
  shows "contribution (Fin 1) c = (if fle (cValue c) (Fin 0) then 0 else n)"
    and "bucket_ok (Fin 1) c"
proof -
  have m: "fmul (cCount c) (Fin 1) = Fin (of_int n)" using assms fmul_int_1 by simp
  show "contribution (Fin 1) c = (if fle (cValue c) (Fin 0) then 0 else n)"
  proof (cases "n = 0")
    case False
    then have "max 1 (of_int n) = (of_int n :: rat)" using assms(2) by simp
    with False show ?thesis by (simp add: contribution_def skipped_def m feq_def)
  qed (simp add: contribution_def skipped_def m feq_def)
  have "(of_int n :: rat) \<le> of_int (2 ^ 52)" using assms(3) by (simp only: of_int_le_iff)
  moreover have "representable (of_int n)" using assms(2,3) by (intro representable_int) simp
  ultimately show "bucket_ok (Fin 1) c" by (simp add: bucket_ok_def m)
qed

lemma sum_contribution_int:
  assumes "int_centroids cs ns" and "list_all (\<lambda>c. flt (Fin 0) (cValue c)) cs"
  shows "sum_list (map (contribution (Fin 1)) cs) = sum_list ns \<and> list_all (bucket_ok (Fin 1)) cs"
  using assms
proof (induction cs arbitrary: ns)
  case (Cons c cs)
  from Cons.prems(1) obtain n ns' where n: "ns = n # ns'" "cCount c = Fin (of_int n)" "0 \<le> n" "n \<le> 2 ^ 52"
    and rest: "int_centroids cs ns'" by (auto simp: int_centroids_def list_all2_Cons1)
  have "\<not> fle (cValue c) (Fin 0)"
    using Cons.prems(2) by (auto simp: fle_def feq_def dest: flt_not_sym)
  with contribution_int [OF n(2-4)] Cons.IH [OF rest] Cons.prems(2) n(1) show ?case by simp
qed (simp add: int_centroids_def)

lemma centroid_counts:
  "sum_list (map (\<lambda>c. count_int (cCount c)) (centroidMapToSlice m)) = bucket_total m"
  by (simp add: centroidMapToSlice_def bucket_total_def comp_def)

lemma centroid_whole:
  "whole_counts m \<Longrightarrow> \<forall>c \<in> set (centroidMapToSlice m). cCount c = Fin (of_int (count_int (cCount c))) \<and> 0 \<le> count_int (cCount c)"
  by (fastforce simp: whole_counts_def centroidMapToSlice_def)

lemma last_derive_from [simp]: "cs \<noteq> [] \<Longrightarrow> derive_from p cs \<noteq> []"
  by (cases cs) auto

lemma positive_bounds_derive:
  "list_all (\<lambda>c. flt (Fin 0) (cValue c)) cs \<Longrightarrow> list_all (\<lambda>c. flt (Fin 0) (cValue c)) (deriveCentroids cs)"
  using cValue_derive_from [of None cs] unfolding deriveCentroids_def list_all_iff
  by (metis (mono_tags, lifting) image_iff list.set_map)

lemma hd_derive: "cs \<noteq> [] \<Longrightarrow> cValue (hd (deriveCentroids cs)) = cValue (hd cs)"
  by (cases cs) (simp_all add: deriveCentroids_def)

lemma smoothCentroids_total:
  assumes int: "int_centroids cs ns" and pos: "list_all (\<lambda>c. flt (Fin 0) (cValue c)) cs"
    and ne: "cs \<noteq> []" and hd: "cValue (hd cs) \<noteq> PInf" and bound: "sum_list ns \<le> 2 ^ 52"
  shows "\<exists>m. smoothCentroids cs = Inr (centroidMapToSlice m) \<and> whole_counts m \<and> bucket_total m = sum_list ns"
proof -
  have amp: "amplification cs = Fin 1" by (rule amplification_int [OF int])
  note sc = sum_contribution_int [OF int pos]
  have "\<nexists>e. smooth_loop (Fin 1) None cs [] = Inl e"
    using hd by (auto simp: smooth_loop_panic_iff)
  then obtain m where m: "smooth_loop (Fin 1) None cs [] = Inr m" by (cases "smooth_loop (Fin 1) None cs []") auto
  have "whole_counts m \<and> bucket_total m = bucket_total [] + sum_list (map (contribution (Fin 1)) cs)"
    by (rule smooth_loop_conserves [OF m]) (use sc bound in \<open>auto simp: whole_counts_def\<close>)
  moreover have "smoothCentroids cs = Inr (centroidMapToSlice m)"
    using ne hd m by (auto simp: smoothCentroids_def amp hd_conv_nth)
  ultimately show ?thesis using sc by auto
qed

lemma ToFrequency_smooth:
  "isCumulative d \<Longrightarrow> ToFrequency d = (case smoothCentroids (deriveCentroids (Centroids d)) of
     Inl e \<Rightarrow> Inl e
   | Inr cs \<Rightarrow> Inr (NewFrequencyDistribution (dname d) (dSource d) (dtags d) cs (dTimestamp d)))"
  by (simp add: ToFrequency_def)

lemma newDistribution_total [simp]:
  "sum_list (map f (Centroids (NewFrequencyDistribution n s t cs ts))) = sum_list (map f cs)"
  for f :: "Centroid \<Rightarrow> int"
proof -
  have "mset (map f (sort_slice centroid_less cs)) = mset (map f cs)" by simp
  then show ?thesis
    by (simp add: NewFrequencyDistribution_def newDistribution_def flip: sum_mset_sum_list)
qed

lemma NewFrequencyDistribution_sel [simp]:
  "isCumulative (NewFrequencyDistribution n s t cs ts) = False"
  "set (Centroids (NewFrequencyDistribution n s t cs ts)) = set cs"
  "dname (NewFrequencyDistribution n s t cs ts) = n"
  "dtags (NewFrequencyDistribution n s t cs ts) = t"
  by (simp_all add: NewFrequencyDistribution_def newDistribution_def)

lemma cum_ok_last: "cum_ok lo cs \<Longrightarrow> cs \<noteq> [] \<Longrightarrow> count_int (cCount (last cs)) \<le> 2 ^ 52"
  by (induction lo cs rule: cum_ok.induct) auto

section \<open>No sample is lost\<close>

text \<open>C8: converting a cumulative histogram whose buckets hold whole, non-decreasing counts (below
  2^52), with positive bounds and a first bound that is not +Inf, succeeds, and the frequency
  distribution it yields has whole, non-negative counts that add up to the cumulative count of the
  last bucket: redistributing the samples over bucket bounds loses and invents none.\<close>

theorem ToFrequency_keeps_samples:
  assumes cumulative: "isCumulative d"
    and counts: "cum_ok 0 (Centroids d)"
    and bounds: "list_all (\<lambda>c. flt (Fin 0) (cValue c)) (Centroids d)"
    and first_bound: "Centroids d \<noteq> []" "cValue (hd (Centroids d)) \<noteq> PInf"
  shows "\<exists>f. ToFrequency d = Inr f \<and> \<not> isCumulative f \<and> dname f = dname d \<and> dtags f = dtags d \<and>
    sum_list (map (\<lambda>c. count_int (cCount c)) (Centroids f)) = count_int (cCount (last (Centroids d))) \<and>
    (\<forall>c \<in> set (Centroids f). cCount c = Fin (of_int (count_int (cCount c))) \<and> 0 \<le> count_int (cCount c))"
proof -
  let ?cs = "deriveCentroids (Centroids d)"
  have int: "int_centroids ?cs (diffs 0 (Centroids d))" by (rule deriveCentroids_int [OF counts])
  have sum: "sum_list (diffs 0 (Centroids d)) = count_int (cCount (last (Centroids d)))"
    using sum_diffs [OF first_bound(1), of 0] by simp
  have last: "count_int (cCount (last (Centroids d))) \<le> 2 ^ 52"
    by (rule cum_ok_last [OF counts first_bound(1)])
  have "?cs \<noteq> []" using first_bound(1) by (simp add: deriveCentroids_def)
  moreover have "cValue (hd ?cs) \<noteq> PInf" using first_bound by (simp add: hd_derive)
  moreover have "sum_list (diffs 0 (Centroids d)) \<le> 2 ^ 52" using last sum by simp
  ultimately obtain m where m: "smoothCentroids ?cs = Inr (centroidMapToSlice m)" "whole_counts m"
      "bucket_total m = sum_list (diffs 0 (Centroids d))"
    using smoothCentroids_total [OF int positive_bounds_derive [OF bounds]] by blast
  then show ?thesis
    using centroid_whole [OF m(2)] sum by (simp add: ToFrequency_smooth [OF cumulative] centroid_counts)
qed


definition sample_cumulative :: Distribution where
  "sample_cumulative = \<lparr>isCumulative = True, dname = ''latency'', dtags = [], dSource = ''n'',
     Centroids = [\<lparr>cValue = Fin 1, cCount = Fin 4\<rparr>, \<lparr>cValue = Fin 2, cCount = Fin 10\<rparr>,
                  \<lparr>cValue = PInf, cCount = Fin 12\<rparr>], dTimestamp = 0\<rparr>"

lemma ToFrequency_keeps_samples_witness:
  "\<exists>f. ToFrequency sample_cumulative = Inr f \<and>
     sum_list (map (\<lambda>c. count_int (cCount c)) (Centroids f)) = 12"
  using ToFrequency_keeps_samples [of sample_cumulative]
  by (auto simp: sample_cumulative_def count_int_def)

section \<open>When the conversion crashes\<close>

text \<open>\<open>ToFrequency\<close> crashes with an index out of range exactly on a cumulative histogram of at
  least two buckets whose first bound is +Inf and whose first (amplified) count is not zero:
  \<open>smoothCentroids\<close> then reads the centroid before the first one. A histogram that reports its
  +Inf bucket twice is such an input.\<close>

theorem ToFrequency_panics_iff:
  "(\<exists>e. ToFrequency d = Inl e) \<longleftrightarrow>
     isCumulative d \<and> 2 \<le> length (Centroids d) \<and> cValue (hd (Centroids d)) = PInf \<and>
     \<not> feq (fmul (cCount (hd (Centroids d))) (amplification (deriveCentroids (Centroids d)))) (Fin 0)"
proof (cases "isCumulative d \<and> 2 \<le> length (Centroids d)")
  case True
  then obtain a b cs where cs: "Centroids d = a # b # cs"
    by (cases "Centroids d" rule: remdups_adj.cases) auto
  let ?c = "\<lparr>cValue = cValue a, cCount = cCount a\<rparr>" and ?amp = "amplification (deriveCentroids (Centroids d))"
  have "(\<exists>e. ToFrequency d = Inl e) \<longleftrightarrow> (\<exists>e. smoothCentroids (deriveCentroids (Centroids d)) = Inl e)"
    using True by (auto simp: ToFrequency_smooth split: sum.splits)
  also have "\<dots> \<longleftrightarrow> (\<exists>e. smooth_loop ?amp None (deriveCentroids (Centroids d)) [] = Inl e)"
    by (auto simp: smoothCentroids_def cs deriveCentroids_def split: sum.splits)
  also have "\<dots> \<longleftrightarrow> cValue a = PInf \<and> \<not> skipped ?amp ?c"
    unfolding smooth_loop_panic_iff by (simp add: cs deriveCentroids_def)
  finally show ?thesis using True by (auto simp: cs skipped_def fle_def feq_def)
next
  case False
  have "\<exists>f. ToFrequency d = Inr f"
  proof (cases "Centroids d")
    case Nil
    then show ?thesis by (simp add: ToFrequency_def smoothCentroids_def deriveCentroids_def)
  next
    case (Cons c cs)
    then show ?thesis using False
      by (auto simp: ToFrequency_def smoothCentroids_def deriveCentroids_def Suc_le_eq Let_def split: sum.splits)
  qed
  with False show ?thesis by auto
qed


section \<open>Durations as floats\<close>

lemma rnd_nonpos: "q \<le> 0 \<Longrightarrow> fle (rnd q) (Fin 0)"
proof -
  assume q: "q \<le> 0"
  have "q / 2 powi f64_exp q \<le> of_int 0" using q by (simp add: divide_nonpos_pos)
  then have "round_half_even (q / 2 powi f64_exp q) \<le> 0" by (rule round_half_even_le)
  define v where "v = (of_int (round_half_even (q / 2 powi f64_exp q)) :: rat) * 2 powi f64_exp q"
  have "v \<le> 0" unfolding v_def using \<open>round_half_even (q / 2 powi f64_exp q) \<le> 0\<close>
    by (intro mult_nonpos_nonneg) auto
  moreover have "0 \<le> f64_max" by (simp add: f64_max_def)
  moreover have "rnd q = (if q = 0 then Fin 0 else if f64_max < v then PInf else if v < - f64_max then NInf else Fin v)"
    by (simp add: rnd_def Let_def v_def)
  ultimately show ?thesis by (auto simp: fle_def feq_def)
qed

lemma fadd_nonpos: "fle x (Fin 0) \<Longrightarrow> fle y (Fin 0) \<Longrightarrow> fle (fadd x y) (Fin 0)"
proof (cases x; cases y)
  fix a b
  assume "fle x (Fin 0)" "fle y (Fin 0)" "x = Fin a" "y = Fin b"
  then show ?thesis using rnd_nonpos [of "a + b"] by (auto simp: fle_def feq_def)
qed (auto simp: fle_def feq_def)

text \<open>The duration in units of \<open>u\<close> nanoseconds is positive exactly when the duration is.\<close>

lemma duration_in_nonneg:
  "0 < unit \<Longrightarrow> 0 \<le> d \<Longrightarrow> duration_in unit d = fadd (f64_of_int (d div unit)) (fdiv (f64_of_int (d mod unit)) (f64_of_int unit))"
  by (simp add: duration_in_def signed_divide_int_def signed_modulo_int_def sgn_if minus_div_mult_eq_mod)

lemma sdiv_nonpos:
  fixes d u :: int
  assumes "0 < u" and "d \<le> 0"
  shows "d sdiv u \<le> 0" and "d smod u \<le> 0"
proof -
  have q: "d sdiv u = - (- d div u)"
    using assms by (simp add: signed_divide_int_def sgn_if)
  have r: "d smod u = - (- d mod u)"
    using assms by (auto simp: signed_modulo_int_def sgn_if)
  show "d sdiv u \<le> 0" "d smod u \<le> 0"
    unfolding q r using assms by (simp_all add: pos_imp_zdiv_nonneg_iff)
qed

lemma fdiv_nonpos: "fle x (Fin 0) \<Longrightarrow> 0 < u \<Longrightarrow> fle (fdiv x (Fin u)) (Fin 0)"
proof (cases x)
  case (Fin q)
  assume "fle x (Fin 0)" "0 < u"
  then have "q / u \<le> 0" using Fin by (auto simp: fle_def feq_def divide_nonpos_pos)
  then show ?thesis using Fin \<open>0 < u\<close> rnd_nonpos by simp
qed (auto simp: fle_def feq_def finf_def fsign_def)

lemma duration_in_nonpos:
  assumes u: "0 < unit" "unit \<le> 2 ^ 53" and d: "d \<le> 0"
  shows "fle (duration_in unit d) (Fin 0)"
proof -
  have "fle (f64_of_int (d sdiv unit)) (Fin 0)" "fle (f64_of_int (d smod unit)) (Fin 0)"
    using sdiv_nonpos [OF u(1) d] by (simp_all add: f64_of_int_def rnd_nonpos)
  moreover have "f64_of_int unit = Fin (of_int unit)" using u by (intro f64_of_int_exact) simp
  ultimately show ?thesis unfolding duration_in_def
    using u(1) by (intro fadd_nonpos) (auto intro: fdiv_nonpos)
qed

lemma duration_in_pos:
  assumes u: "0 < unit" "unit \<le> 2 ^ 40" and d: "0 < d" "d div unit \<le> 2 ^ 52"
  obtains r where "duration_in unit d = Fin r" and "0 < r" and "r \<le> 2 ^ 53"
proof -
  define n k where "n = d div unit" and "k = d mod unit"
  have n: "0 \<le> n" "n \<le> 2 ^ 52" and k: "0 \<le> k" "k < unit" and dk: "n = 0 \<Longrightarrow> 0 < k"
    using assms mod_pos_pos_trivial [of d unit] by (auto simp: n_def k_def pos_imp_zdiv_nonneg_iff zdiv_eq_0_iff)
  have eq: "duration_in unit d = fadd (Fin (of_int n)) (fdiv (Fin (of_int k)) (Fin (of_int unit)))"
    using u d n k by (simp add: duration_in_nonneg n_def k_def)
  show thesis
  proof (cases "k = 0")
    case True
    with dk n(1) have "0 < n" by (cases "n = 0") auto
    have "\<bar>n\<bar> \<le> 2 ^ 53" using n by simp
    then have "duration_in unit d = Fin (of_int n)" using rnd_int [of n] True u by (simp add: eq)
    moreover have "n \<le> 2 ^ 53" using n by simp
    then have "(of_int n :: rat) \<le> of_int (2 ^ 53)" by (simp only: of_int_le_iff)
    ultimately show thesis using that \<open>0 < n\<close> by simp
  next
    case False
    define x where "x = (of_int k / of_int unit :: rat)"
    have x40: "2 powi (- 40) \<le> x"
    proof -
      have "(2::rat) powi (- 40) = inverse (2 powi 40)" by (rule power_int_minus)
      also have "\<dots> = 1 / of_int (2 ^ 40)" by simp
      also have "\<dots> \<le> 1 / of_int unit"
      proof (rule divide_left_mono)
        show "(of_int unit :: rat) \<le> of_int (2 ^ 40)" using u(2) by (simp only: of_int_le_iff)
      qed (use u in auto)
      also have "\<dots> \<le> x" unfolding x_def using False k u by (intro divide_right_mono) auto
      finally show ?thesis .
    qed
    have small: "(2::rat) powi (- 1022) \<le> 2 powi (- 40)" by (rule power_int_increasing) auto
    with x40 have lo: "2 powi (- 1022) \<le> x" by linarith
    have x0: "0 < x" using x40 powi2_pos [of "- 40"] by linarith
    have "2 powi (- 40) < (2::rat) powi (rat_log2 x + 1)" using x40 rat_log2_bounds(2) [OF x0] by linarith
    then have "- 40 < rat_log2 x + 1" by (rule pow_lt_lt)
    then have ex: "- 1022 \<le> f64_exp x" using x0 by (simp add: f64_exp_def)
    have hi: "x \<le> 2 ^ 0" using k u by (simp add: x_def)
    obtain y where y: "rnd x = Fin y" "0 < y" "y \<le> 1" "2 powi f64_exp x \<le> y"
      using rnd_between [OF lo hi] by auto
    have "(2::rat) powi (- 1022) \<le> 2 powi f64_exp x" using ex by (intro power_int_increasing) auto
    moreover have n0: "0 \<le> (of_int n :: rat)" using n(1) by simp
    ultimately have "(2::rat) powi (- 1022) \<le> of_int n + y" using y(4) by linarith
    moreover have "of_int n + y \<le> 2 ^ 53"
    proof -
      have "(of_int n :: rat) \<le> of_int (2 ^ 52)" using n(2) by (simp only: of_int_le_iff)
      then show ?thesis using y(3) by simp
    qed
    ultimately obtain r where r: "rnd (of_int n + y) = Fin r" "0 < r" "r \<le> 2 ^ 53"
      by (rule rnd_between) simp
    have "duration_in unit d = Fin r" using y(1) u(1) r(1) by (simp add: eq x_def)
    with r(2,3) show thesis by (intro that)
  qed
qed

lemma div_le_pow: "0 < u \<Longrightarrow> d < u * 2 ^ 52 \<Longrightarrow> d div u \<le> (2 ^ 52 :: int)"
  by (metis dual_order.strict_implies_order mult.commute nonzero_mult_div_cancel_right order_less_irrefl zdiv_mono1)

lemma Seconds_pos_iff: "d < 2 ^ 63 \<Longrightarrow> \<not> fle (Seconds d) (Fin 0) \<longleftrightarrow> 0 < d"
proof
  assume d: "d < 2 ^ 63" "0 < d"
  then have "d div Second \<le> 2 ^ 52" by (intro div_le_pow) (simp_all add: Second_def)
  then obtain r where "Seconds d = Fin r" "0 < r"
    unfolding Seconds_def using duration_in_pos [of Second d] d by (auto simp: Second_def)
  then show "\<not> fle (Seconds d) (Fin 0)" by (simp add: fle_def feq_def)
next
  show "\<not> fle (Seconds d) (Fin 0) \<Longrightarrow> 0 < d"
    using duration_in_nonpos [of Second d] by (force simp: Seconds_def Second_def)
qed

lemma Minutes_pos:
  assumes "0 < d" and "d < 2 ^ 63"
  obtains r where "Minutes d = Fin r" and "0 < r" and "r \<le> 2 ^ 53"
proof -
  have "d div Minute \<le> 2 ^ 52" using assms by (intro div_le_pow) (simp_all add: Minute_def Second_def)
  moreover have "0 < Minute" "Minute \<le> 2 ^ 40" by (simp_all add: Minute_def Second_def)
  ultimately show thesis
    using duration_in_pos [of Minute d thesis] assms(1) that unfolding Minutes_def by blast
qed

section \<open>Rates of change\<close>

definition comparable :: "Centroid \<Rightarrow> Centroid \<Rightarrow> bool" where
  "comparable c p \<longleftrightarrow> feq (cValue c) (cValue p) \<and> \<not> flt (cCount c) (cCount p)"

definition per_minute :: "duration \<Rightarrow> Centroid \<Rightarrow> Centroid \<Rightarrow> Centroid" where
  "per_minute d c p = \<lparr>cValue = cValue c, cCount = fdiv (fsub (cCount c) (cCount p)) (Minutes d)\<rparr>"

lemma rate_loop_Cons:
  "rate_loop d (c # cur) (p # prev) =
     (if comparable c p \<and> \<not> fle (Seconds d) (Fin 0)
      then map_option ((#) (per_minute d c p)) (rate_loop d cur prev) else None)"
  by (simp add: comparable_def per_minute_def split: option.splits)

lemma rate_loop_Some_iff:
  assumes "length cur = length prev"
  shows "rate_loop d cur prev = Some out \<longleftrightarrow>
    (cur = [] \<or> \<not> fle (Seconds d) (Fin 0)) \<and> list_all2 comparable cur prev \<and> out = map2 (per_minute d) cur prev"
  using assms
proof (induction cur prev arbitrary: out rule: list_induct2)
  case (Cons c cur p prev)
  show ?case
    by (cases "rate_loop d cur prev")
      (use Cons.IH in \<open>auto simp: rate_loop_Cons simp del: rate_loop.simps(1)\<close>)
qed auto

text \<open>Two bucket lists have a rate of change exactly when they have the same length, a positive
  time passed between them (or there are no buckets), the bounds agree pairwise and no count
  decreased; the rate is then the list of per-minute increases, bucket by bucket. Every other
  case, a reset counter or a changed bucket layout included, yields no rate.\<close>

theorem CentroidRate_Some_iff:
  assumes "d < 2 ^ 63"
  shows "CentroidRate cur prev d = Some out \<longleftrightarrow>
    length cur = length prev \<and> (cur = [] \<or> 0 < d) \<and> list_all2 comparable cur prev \<and>
    out = map2 (per_minute d) cur prev"
  using rate_loop_Some_iff [of cur prev d out] Seconds_pos_iff [OF assms]
  by (auto simp: CentroidRate_def)

lemma CentroidRate_Some_iff_witness:
  "CentroidRate [\<lparr>cValue = Fin 1, cCount = Fin 3\<rparr>] [\<lparr>cValue = Fin 1, cCount = Fin 5\<rparr>] Minute = None \<and>
   (\<exists>r. CentroidRate [\<lparr>cValue = Fin 1, cCount = Fin 5\<rparr>] [\<lparr>cValue = Fin 1, cCount = Fin 3\<rparr>] Minute = Some r)"
proof -
  have "CentroidRate [\<lparr>cValue = Fin 1, cCount = Fin 3\<rparr>] [\<lparr>cValue = Fin 1, cCount = Fin 5\<rparr>] Minute \<noteq> Some r" for r
    by (subst CentroidRate_Some_iff) (simp_all add: comparable_def feq_def Minute_def Second_def)
  moreover have "\<exists>r. CentroidRate [\<lparr>cValue = Fin 1, cCount = Fin 5\<rparr>] [\<lparr>cValue = Fin 1, cCount = Fin 3\<rparr>] Minute = Some r"
    by (subst CentroidRate_Some_iff) (simp_all add: comparable_def feq_def Minute_def Second_def)
  ultimately show ?thesis by (metis not_None_eq)
qed

text \<open>The rates computed from finite counts are never negative and never undefined.\<close>

theorem CentroidRate_nonneg:
  assumes "CentroidRate cur prev d = Some out" and "d < 2 ^ 63"
    and "list_all (\<lambda>c. \<exists>q. cCount c = Fin q) (cur @ prev)"
  shows "list_all (\<lambda>c. f64_nonneg (cCount c)) out"
proof -
  have len: "length cur = length prev" and pos: "cur = [] \<or> \<not> fle (Seconds d) (Fin 0)"
    and cmp: "list_all2 comparable cur prev" and out: "out = map2 (per_minute d) cur prev"
    using assms(1) rate_loop_Some_iff [of cur prev d out]
    by (auto simp: CentroidRate_def split: if_splits)
  have "f64_nonneg (cCount (per_minute d c p))" if cp: "(c, p) \<in> set (zip cur prev)" for c p
  proof -
    have "comparable c p" using cmp cp by (auto simp: list_all2_iff)
    moreover obtain x y where "cCount c = Fin x" "cCount p = Fin y"
      using assms(3) set_zip_leftD [OF cp] set_zip_rightD [OF cp] by (force simp: list_all_iff)
    ultimately have xy: "cCount c = Fin x" "cCount p = Fin y" "y \<le> x" by (auto simp: comparable_def)
    have "0 < d" using pos cp Seconds_pos_iff [OF assms(2)] by (cases cur) auto
    then obtain m where m: "Minutes d = Fin m" "0 < m" using Minutes_pos assms(2) by metis
    have "f64_nonneg (rnd (x - y))" using xy by (intro rnd_nonneg) simp
    then show ?thesis using m xy
      by (cases "rnd (x - y)")
        (auto simp: per_minute_def fsub_def f64_nonneg_def finf_def fsign_def
          intro!: rnd_nonneg [unfolded f64_nonneg_def])
  qed
  then show ?thesis unfolding out by (auto simp: list_all_iff)
qed

lemma CentroidRate_nonneg_witness:
  "\<exists>r. CentroidRate [\<lparr>cValue = Fin 1, cCount = Fin 5\<rparr>] [\<lparr>cValue = Fin 1, cCount = Fin 3\<rparr>] Minute = Some r \<and>
     list_all (\<lambda>c. f64_nonneg (cCount c)) r"
proof -
  have pos: "\<not> fle (Seconds Minute) (Fin 0)" using Seconds_pos_iff [of Minute] by (simp add: Minute_def Second_def)
  obtain r where r: "CentroidRate [\<lparr>cValue = Fin 1, cCount = Fin 5\<rparr>] [\<lparr>cValue = Fin 1, cCount = Fin 3\<rparr>] Minute = Some r"
    using pos by (simp add: CentroidRate_def feq_def)
  show ?thesis using r CentroidRate_nonneg [OF r] by (simp add: Minute_def Second_def)
qed

end
