(* ===== verification/Rates.thy ===== *)
theory Rates
  imports Wf_Points Kube
begin

text \<open>
  Batches and the processors that turn cumulative values into rates
  (\<open>collector/plugins/processors\<close>: rate_calculator.go, distribution_rate_calculator.go,
  cumulative_distribution_converter.go; \<open>internal/metrics/batch.go\<close>). The order in which a batch
  lists its sets stands for the order of the \<open>range\<close> loop. A set of the cache is kept by
  value: the source keeps a pointer and relies on later processors not to change what the rate
  calculator reads.
\<close>

section \<open>Batches (batch.go)\<close>

record Batch =
  bTimestamp :: gotime
  Sets :: "(ResourceKey, mset) gomap"
  Metrics :: "metric option list"

definition wf_batch :: "Batch \<Rightarrow> bool" where
  "wf_batch b \<longleftrightarrow> wf_map (Sets b) \<and> list_all (\<lambda>e. wf_set (snd e)) (Sets b) \<and>
     list_all (\<lambda>m. \<forall>p. m = Some p \<longrightarrow> wf_metric_val p) (Metrics b)"

lemma wf_batch_set: "wf_batch b \<Longrightarrow> mget (Sets b) k = Some s \<Longrightarrow> wf_set s"
  by (force simp: wf_batch_def list_all_iff dest: mget_in_set)

text \<open>A nil metric has no points to count: asking it for them panics.\<close>

definition Batch_Points :: "Batch \<Rightarrow> nat option" where
  "Batch_Points b =
     (if list_ex (\<lambda>m. m = None) (Metrics b) then None
      else Some (sum_list (map (\<lambda>e. Set_Points (snd e)) (Sets b)) +
                 sum_list (map (\<lambda>m. case m of None \<Rightarrow> 0 | Some p \<Rightarrow> m_Points p) (Metrics b))))"

section \<open>The rate calculator\<close>

record RateCalculator =
  rateMetricsMapping :: "(string, MetricDescriptor) gomap"
  previousMetricSets :: "(ResourceKey, mset) gomap"
  cachePruneInterval :: duration
  lastPruneTime :: gotime

definition NewRateCalculator :: "(string, MetricDescriptor) gomap \<Rightarrow> gotime \<Rightarrow> RateCalculator" where
  "NewRateCalculator mapping now =
     \<lparr>rateMetricsMapping = mapping, previousMetricSets = [], cachePruneInterval = 5 * Minute, lastPruneTime = now\<rparr>"

text \<open>Go's division of \<open>int64\<close> truncates and wraps.\<close>

definition sdiv64 :: "int64 \<Rightarrow> int64 \<Rightarrow> int64" where
  "sdiv64 a b = word_of_int (sint a sdiv sint b)"

definition elapsed :: "mset \<Rightarrow> mset \<Rightarrow> int64" where
  "elapsed old new = UnixNano (ScrapeTime new) - UnixNano (ScrapeTime old)"

definition float_rate :: "mvalue \<Rightarrow> mvalue \<Rightarrow> int64 \<Rightarrow> f64" where
  "float_rate vnew vold dt =
     fdiv (fmul (Fin 1000000000) (f64_of_int64 (IntValue vnew - IntValue vold))) (f64_of_int64 dt)"

definition cpu_rate :: "mvalue \<Rightarrow> mvalue \<Rightarrow> int64 \<Rightarrow> int64" where
  "cpu_rate vnew vold dt = sdiv64 (1000 * (IntValue vnew - IntValue vold)) dt"

text \<open>The labelled value of the same device in the old set.\<close>

definition old_device :: "string \<Rightarrow> LabeledValue \<Rightarrow> mset \<Rightarrow> LabeledValue option" where
  "old_device metricName itemNew oldMs =
     find (\<lambda>itemOld. lvName itemOld = metricName \<and>
        mgets (lvLabels itemOld) (LabelKey LabelResourceID) = mgets (lvLabels itemNew) (LabelKey LabelResourceID))
       (LabeledValues oldMs)"

definition disk_step :: "string \<Rightarrow> MetricDescriptor \<Rightarrow> mset \<Rightarrow> mset \<Rightarrow> LabeledValue \<Rightarrow> mset" where
  "disk_step metricName target oldMs newMs itemNew =
     (if lvName itemNew = metricName
      then (case old_device metricName itemNew oldMs of
              Some itemOld \<Rightarrow>
                if DescValueType target = ValueFloat
                then newMs\<lparr>LabeledValues := LabeledValues newMs @
                       [\<lparr>lvName = Name target, lvLabels = lvLabels itemNew,
                         lvValue = floatValue (float_rate (lvValue itemNew) (lvValue itemOld) (elapsed oldMs newMs))\<rparr>]\<rparr>
                else newMs
            | None \<Rightarrow> newMs)
      else newMs)"

definition is_disk :: "string \<Rightarrow> bool" where
  "is_disk metricName \<longleftrightarrow> metricName = Name MetricDiskIORead \<or> metricName = Name MetricDiskIOWrite"

definition rate_metric :: "mset \<Rightarrow> mset \<Rightarrow> string \<times> MetricDescriptor \<Rightarrow> panic + mset" where
  "rate_metric oldMs newMs e =
     (case e of (metricName, target) \<Rightarrow>
        if is_disk metricName
        then Inr (foldl (disk_step metricName target oldMs) newMs (LabeledValues newMs))
        else
         (case (mget (Values newMs) metricName, mget (Values oldMs) metricName) of
            (Some vnew, Some vold) \<Rightarrow>
              if metricName = Name MetricCpuUsage
              then (if elapsed oldMs newMs = 0 then Inl DivideByZero
                    else Inr (newMs\<lparr>Values := mput (Name target)
                           (intValue (cpu_rate vnew vold (elapsed oldMs newMs))) (Values newMs)\<rparr>))
              else if DescValueType target = ValueFloat
              then Inr (newMs\<lparr>Values := mput (Name target)
                          (floatValue (float_rate vnew vold (elapsed oldMs newMs))) (Values newMs)\<rparr>)
              else Inr newMs
          | _ \<Rightarrow> Inr newMs))"

definition rate_set :: "(string, MetricDescriptor) gomap \<Rightarrow> mset \<Rightarrow> mset \<Rightarrow> panic + mset" where
  "rate_set mapping oldMs newMs = foldM (rate_metric oldMs) newMs mapping"

text \<open>One set of the batch: the cache and the sets before and after it.\<close>

definition rate_key ::
  "(string, MetricDescriptor) gomap \<Rightarrow> (ResourceKey, mset) gomap \<times> (ResourceKey, mset) gomap \<Rightarrow> ResourceKey \<Rightarrow>
   panic + (ResourceKey, mset) gomap \<times> (ResourceKey, mset) gomap" where
  "rate_key mapping s key =
     (case s of (cache, sets) \<Rightarrow>
        case mget sets key of
          None \<Rightarrow> Inr s
        | Some newMs \<Rightarrow>
           (case mget cache key of
              None \<Rightarrow> Inr (mput key newMs cache, sets)
            | Some oldMs \<Rightarrow>
               if \<not> ScrapeTime newMs > ScrapeTime oldMs then Inr s
               else if CollectionStartTime newMs \<noteq> CollectionStartTime oldMs
               then Inr (mput key newMs cache, sets)
               else (case rate_set mapping oldMs newMs of
                       Inl e \<Rightarrow> Inl e
                     | Inr newMs \<Rightarrow> Inr (mput key newMs cache, mput key newMs sets))))"

text \<open>\<open>now\<close> and \<open>now2\<close> are the two readings of the clock.\<close>

definition RateCalculator_Process ::
  "gotime \<Rightarrow> gotime \<Rightarrow> RateCalculator \<Rightarrow> Batch \<Rightarrow> panic + RateCalculator \<times> Batch" where
  "RateCalculator_Process now now2 rc batch =
     (case foldM (rate_key (rateMetricsMapping rc)) (previousMetricSets rc, Sets batch) (mkeys (Sets batch)) of
        Inl e \<Rightarrow> Inl e
      | Inr (cache, sets) \<Rightarrow>
         (let batch = batch\<lparr>Sets := sets\<rparr>;
              rc = (if lastPruneTime rc < now - cachePruneInterval rc
                    then rc\<lparr>previousMetricSets := mfilter (mhas sets) cache, lastPruneTime := now2\<rparr>
                    else rc\<lparr>previousMetricSets := cache\<rparr>)
          in Inr (rc, batch)))"

section \<open>Distribution rates\<close>

text \<open>The previous distributions by key; \<open>seen\<close> holds the keys of the batch so far.\<close>

type_synonym 'h drc = "('h, Distribution) gomap"

definition drc_metric ::
  "(string \<Rightarrow> 'h) \<Rightarrow> 'h drc \<times> 'h list \<times> metric option list \<Rightarrow> metric option \<Rightarrow> 'h drc \<times> 'h list \<times> metric option list" where
  "drc_metric blake s m =
     (case s of (prev, seen, out) \<Rightarrow>
        case m of
          Some (MDistribution d) \<Rightarrow>
            if Key blake d \<in> set seen then s
            else
             (let rate = Rate blake d (mget prev (Key blake d));
                  prev = mput (Key blake d) (Clone d) prev;
                  seen = Key blake d # seen
              in case rate of None \<Rightarrow> (prev, seen, out) | Some r \<Rightarrow> (prev, seen, out @ [Some (MDistribution r)]))
        | _ \<Rightarrow> (prev, seen, out @ [m]))"

definition DistributionRateCalculator_Process ::
  "(string \<Rightarrow> 'h) \<Rightarrow> 'h drc \<Rightarrow> Batch \<Rightarrow> 'h drc \<times> Batch" where
  "DistributionRateCalculator_Process blake prev batch =
     (case foldl (drc_metric blake) (prev, [], []) (Metrics batch) of
        (prev, seen, out) \<Rightarrow> (prev, batch\<lparr>Metrics := out\<rparr>))"

section \<open>Conversion of cumulative distributions\<close>

definition convert_metric :: "metric option \<Rightarrow> panic + metric option" where
  "convert_metric m =
     (case m of
        Some (MDistribution d) \<Rightarrow> (case ToFrequency d of Inl e \<Rightarrow> Inl e | Inr f \<Rightarrow> Inr (Some (MDistribution f)))
      | _ \<Rightarrow> Inr m)"

definition mapInPlace :: "('a \<Rightarrow> panic + 'b) \<Rightarrow> 'a list \<Rightarrow> panic + 'b list" where
  "mapInPlace transform es =
     foldM (\<lambda>out e. case transform e of Inl p \<Rightarrow> Inl p | Inr y \<Rightarrow> Inr (out @ [y])) [] es"

definition CumulativeDistributionConverter_Process :: "Batch \<Rightarrow> panic + Batch" where
  "CumulativeDistributionConverter_Process batch =
     (case mapInPlace convert_metric (Metrics batch) of Inl e \<Rightarrow> Inl e | Inr ms \<Rightarrow> Inr (batch\<lparr>Metrics := ms\<rparr>))"

section \<open>Lemmas: one set\<close>

lemma disk_step_frame:
  "Values (disk_step n t old s i) = Values s" "Labels (disk_step n t old s i) = Labels s"
  "ScrapeTime (disk_step n t old s i) = ScrapeTime s"
  "CollectionStartTime (disk_step n t old s i) = CollectionStartTime s"
  "EntityCreateTime (disk_step n t old s i) = EntityCreateTime s"
  by (auto simp: disk_step_def split: option.splits)

lemma disk_fold_frame:
  "Values (foldl (disk_step n t old) s is) = Values s \<and> Labels (foldl (disk_step n t old) s is) = Labels s \<and>
   ScrapeTime (foldl (disk_step n t old) s is) = ScrapeTime s \<and>
   CollectionStartTime (foldl (disk_step n t old) s is) = CollectionStartTime s"
  by (induction "is" arbitrary: s) (simp_all add: disk_step_frame)

lemma rate_metric_frame:
  "rate_metric old s e = Inr s' \<Longrightarrow>
   Labels s' = Labels s \<and> ScrapeTime s' = ScrapeTime s \<and> CollectionStartTime s' = CollectionStartTime s \<and>
   (\<forall>k. k \<noteq> Name (snd e) \<longrightarrow> mget (Values s') k = mget (Values s) k)"
  using disk_fold_frame [of "fst e" "snd e" old s "LabeledValues s"]
  by (cases e) (auto simp: rate_metric_def split: if_splits option.splits)

lemma rate_set_frame:
  "rate_set mapping old s = Inr s' \<Longrightarrow>
   Labels s' = Labels s \<and> ScrapeTime s' = ScrapeTime s \<and> CollectionStartTime s' = CollectionStartTime s \<and>
   (\<forall>k. k \<notin> (Name \<circ> snd) ` set mapping \<longrightarrow> mget (Values s') k = mget (Values s) k)"
  unfolding rate_set_def
proof (induction mapping arbitrary: s)
  case (Cons e mapping)
  then obtain s1 where s1: "rate_metric old s e = Inr s1" and rest: "foldM (rate_metric old) s1 mapping = Inr s'"
    by (auto split: sum.splits)
  from rate_metric_frame [OF s1] Cons.IH [OF rest] show ?case by auto
qed simp

text \<open>The rate a set is given for an entry of the mapping that is not a disk metric.\<close>

definition expected_rate :: "mset \<Rightarrow> mset \<Rightarrow> string \<times> MetricDescriptor \<Rightarrow> mvalue option" where
  "expected_rate oldMs newMs e =
     (case (mget (Values newMs) (fst e), mget (Values oldMs) (fst e)) of
        (Some vnew, Some vold) \<Rightarrow>
          if fst e = Name MetricCpuUsage then Some (intValue (cpu_rate vnew vold (elapsed oldMs newMs)))
          else if DescValueType (snd e) = ValueFloat then Some (floatValue (float_rate vnew vold (elapsed oldMs newMs)))
          else mget (Values newMs) (Name (snd e))
      | _ \<Rightarrow> mget (Values newMs) (Name (snd e)))"

definition mapping_ok :: "(string, MetricDescriptor) gomap \<Rightarrow> bool" where
  "mapping_ok mapping \<longleftrightarrow> distinct (map (Name \<circ> snd) mapping) \<and> list_all (\<lambda>e. \<not> mhas mapping (Name (snd e))) mapping"

lemma rate_metric_expected:
  "rate_metric old s e = Inr s' \<Longrightarrow> \<not> is_disk (fst e) \<Longrightarrow> mget (Values s') (Name (snd e)) = expected_rate old s e"
  by (cases e) (auto simp: rate_metric_def expected_rate_def split: if_splits option.splits)

lemma expected_rate_cong:
  "mget (Values s) (fst e) = mget (Values s') (fst e) \<Longrightarrow>
   mget (Values s) (Name (snd e)) = mget (Values s') (Name (snd e)) \<Longrightarrow> ScrapeTime s = ScrapeTime s' \<Longrightarrow>
   expected_rate old s e = expected_rate old s' e"
  by (simp add: expected_rate_def elapsed_def split: option.splits)

lemma rate_set_expected:
  assumes "rate_set mapping old s = Inr s'" and "e \<in> set mapping" and "\<not> is_disk (fst e)"
    and "distinct (map (Name \<circ> snd) mapping)" and "fst e \<notin> (Name \<circ> snd) ` set mapping"
  shows "mget (Values s') (Name (snd e)) = expected_rate old s e"
  using assms unfolding rate_set_def
proof (induction mapping arbitrary: s)
  case (Cons d mapping)
  then obtain s1 where s1: "rate_metric old s d = Inr s1" and rest: "foldM (rate_metric old) s1 mapping = Inr s'"
    by (auto split: sum.splits)
  note F = rate_metric_frame [OF s1]
  note G = rate_set_frame [OF rest [folded rate_set_def]]
  show ?case
  proof (cases "e = d")
    case True
    then have "Name (snd e) \<notin> (Name \<circ> snd) ` set mapping" using Cons.prems(4) by auto
    with G rate_metric_expected [OF s1] True Cons.prems(3) show ?thesis by simp
  next
    case False
    then have e: "e \<in> set mapping" using Cons.prems(2) by simp
    have nd: "(Name \<circ> snd) d \<notin> (Name \<circ> snd) ` set mapping" using Cons.prems(4) by simp
    have "Name (snd e) \<noteq> Name (snd d)" using nd imageI [OF e, of "Name \<circ> snd"] by (metis comp_apply)
    moreover have "fst e \<noteq> Name (snd d)" using Cons.prems(5) by auto
    ultimately have "expected_rate old s1 e = expected_rate old s e"
      using F by (intro expected_rate_cong) auto
    with Cons.IH [OF rest e Cons.prems(3)] Cons.prems(4,5) show ?thesis by simp
  qed
qed simp

lemma rate_set_no_panic:
  assumes "elapsed old s \<noteq> 0"
  shows "\<exists>s'. rate_set mapping old s = Inr s'"
  using assms unfolding rate_set_def
proof (induction mapping arbitrary: s)
  case (Cons e mapping)
  have "\<exists>s1. rate_metric old s e = Inr s1"
    using Cons.prems by (cases e) (auto simp: rate_metric_def split: option.splits)
  then obtain s1 where s1: "rate_metric old s e = Inr s1" by blast
  then have "elapsed old s1 \<noteq> 0" using Cons.prems rate_metric_frame [OF s1] by (simp add: elapsed_def)
  with Cons.IH s1 show ?case by simp
qed simp

section \<open>Lemmas: the whole batch\<close>

text \<open>What happens to one set: the set the cache keeps and the set the batch holds.\<close>

definition rate_one :: "(string, MetricDescriptor) gomap \<Rightarrow> mset option \<Rightarrow> mset \<Rightarrow> panic + mset \<times> mset" where
  "rate_one mapping oldMs newMs =
     (case oldMs of
        None \<Rightarrow> Inr (newMs, newMs)
      | Some oldMs \<Rightarrow>
         if \<not> ScrapeTime newMs > ScrapeTime oldMs then Inr (oldMs, newMs)
         else if CollectionStartTime newMs \<noteq> CollectionStartTime oldMs then Inr (newMs, newMs)
         else (case rate_set mapping oldMs newMs of Inl e \<Rightarrow> Inl e | Inr s \<Rightarrow> Inr (s, s)))"

lemma rate_key_None: "mget sets key = None \<Longrightarrow> rate_key mapping (cache, sets) key = Inr (cache, sets)"
  by (simp add: rate_key_def)

lemma rate_key_Some:
  assumes "mget sets key = Some newMs"
  shows "(case rate_key mapping (cache, sets) key of
      Inl e \<Rightarrow> rate_one mapping (mget cache key) newMs = Inl e
    | Inr (cache', sets') \<Rightarrow>
       (\<exists>c s. rate_one mapping (mget cache key) newMs = Inr (c, s) \<and>
         (\<forall>k. mget cache' k = (if k = key then Some c else mget cache k)) \<and>
         (\<forall>k. mget sets' k = (if k = key then Some s else mget sets k)) \<and> mkeys sets' = mkeys sets))"
proof -
  have keys: "mkeys (mput key s sets) = mkeys sets" for s
    using assms by (auto simp: mkeys_def mput_def update_keys mget_def dest: map_of_SomeD)
      (metis image_eqI fst_conv list.set_map map_of_SomeD)
  show ?thesis
    using assms by (auto simp: rate_key_def rate_one_def keys split: option.splits sum.splits)
qed

definition fold_result where
  "fold_result mapping cache sets seen cache' sets' k \<longleftrightarrow>
     (case mget sets k of
        Some newMs \<Rightarrow>
          if seen
          then \<exists>c s. rate_one mapping (mget cache k) newMs = Inr (c, s) \<and> mget cache' k = Some c \<and> mget sets' k = Some s
          else mget cache' k = mget cache k \<and> mget sets' k = Some newMs
      | None \<Rightarrow> mget cache' k = mget cache k \<and> mget sets' k = None)"

lemma rate_fold:
  assumes "foldM (rate_key mapping) (cache, sets) ks = Inr (cache', sets')" and "distinct ks"
  shows "fold_result mapping cache sets (k \<in> set ks) cache' sets' k"
  using assms
proof (induction ks arbitrary: cache sets)
  case (Cons key ks)
  then obtain c1 s1 where step: "rate_key mapping (cache, sets) key = Inr (c1, s1)"
      and rest: "foldM (rate_key mapping) (c1, s1) ks = Inr (cache', sets')"
    by (auto split: sum.splits)
  have IH: "fold_result mapping c1 s1 (k \<in> set ks) cache' sets' k" using Cons.IH [OF rest] Cons.prems(2) by simp
  have key: "key \<notin> set ks" using Cons.prems(2) by simp
  show ?case
  proof (cases "mget sets key")
    case None
    then have "c1 = cache \<and> s1 = sets" using step rate_key_None [OF None] by simp
    with IH None show ?thesis by (cases "k = key") (simp_all add: fold_result_def)
  next
    case (Some newMs)
    from rate_key_Some [OF Some, of mapping cache] step obtain c s where
      one: "rate_one mapping (mget cache key) newMs = Inr (c, s)"
      and c1: "\<And>k. mget c1 k = (if k = key then Some c else mget cache k)"
      and s1: "\<And>k. mget s1 k = (if k = key then Some s else mget sets k)"
      by auto
    show ?thesis
    proof (cases "k = key")
      case True
      with IH key one Some show ?thesis by (simp add: fold_result_def c1 s1)
    next
      case False
      then have e: "mget c1 k = mget cache k" "mget s1 k = mget sets k" "(k \<in> set (key # ks)) = (k \<in> set ks)"
        by (simp_all add: c1 s1)
      show ?thesis using IH unfolding fold_result_def e .
    qed
  qed
qed (simp add: fold_result_def split: option.splits)

lemma RateCalculator_parts:
  assumes "RateCalculator_Process now now2 rc b = Inr (rc', b')"
  obtains cache where
    "foldM (rate_key (rateMetricsMapping rc)) (previousMetricSets rc, Sets b) (mkeys (Sets b)) = Inr (cache, Sets b')"
    "previousMetricSets rc' = (if lastPruneTime rc < now - cachePruneInterval rc then mfilter (mhas (Sets b')) cache else cache)"
    "Metrics b' = Metrics b" "bTimestamp b' = bTimestamp b"
  using assms that by (auto simp: RateCalculator_Process_def Let_def split: sum.splits prod.splits if_splits)

lemma RateCalculator_key:
  assumes "RateCalculator_Process now now2 rc b = Inr (rc', b')" and "wf_map (Sets b)"
    and "mget (Sets b) k = Some newMs"
  obtains c s where "rate_one (rateMetricsMapping rc) (mget (previousMetricSets rc) k) newMs = Inr (c, s)"
    and "mget (Sets b') k = Some s" and "mget (previousMetricSets rc') k = Some c"
proof -
  obtain cache where f: "foldM (rate_key (rateMetricsMapping rc)) (previousMetricSets rc, Sets b) (mkeys (Sets b)) = Inr (cache, Sets b')"
    and p: "previousMetricSets rc' = (if lastPruneTime rc < now - cachePruneInterval rc then mfilter (mhas (Sets b')) cache else cache)"
    using RateCalculator_parts [OF assms(1)] .
  have d: "distinct (mkeys (Sets b))" using assms(2) by (simp add: wf_map_def mkeys_def)
  have kin: "k \<in> set (mkeys (Sets b))" using assms(3) by (simp add: mhas_mkeys [symmetric] mhas_def)
  from rate_fold [OF f d, of k] assms(3) kin obtain c s where
    "rate_one (rateMetricsMapping rc) (mget (previousMetricSets rc) k) newMs = Inr (c, s)"
    "mget cache k = Some c" "mget (Sets b') k = Some s"
    by (auto simp: fold_result_def)
  with that p show thesis by (simp add: mhas_def)
qed

section \<open>Rates of a batch\<close>


definition sample_set :: "gotime \<Rightarrow> int64 \<Rightarrow> mset" where
  "sample_set t n = emptySet\<lparr>ScrapeTime := t, Values := [(Name MetricCpuUsage, intValue n)]\<rparr>"

definition sample_rc :: RateCalculator where
  "sample_rc = (NewRateCalculator RateMetricsMapping 0)\<lparr>previousMetricSets := [(ClusterKey, sample_set 0 1000)]\<rparr>"

definition sample_batch :: Batch where
  "sample_batch = \<lparr>bTimestamp = 0, Sets = [(ClusterKey, sample_set 1000 3000)], Metrics = []\<rparr>"

text \<open>The processor applied to the sample computes a rate of 2000 millicores.\<close>

lemma sample_rate_set:
  "rate_set RateMetricsMapping (sample_set 0 1000) (sample_set 1000 3000) =
     Inr ((sample_set 1000 3000)\<lparr>Values := mput (Name MetricCpuUsageRate) (intValue 2000) (Values (sample_set 1000 3000))\<rparr>)"
  by code_simp

lemma sample_process:
  "case RateCalculator_Process 0 0 sample_rc sample_batch of
     Inl e \<Rightarrow> False | Inr (rc', b') \<Rightarrow> mhas (Sets b') ClusterKey"
  by code_simp


section \<open>Totality, exactness and the cache\<close>

definition time_ok :: "gotime \<Rightarrow> bool" where
  "time_ok t \<longleftrightarrow> - (2 ^ 62) \<le> t \<and> t < 2 ^ 62"

definition times_ok :: "(ResourceKey, mset) gomap \<Rightarrow> bool" where
  "times_ok m \<longleftrightarrow> (\<forall>k s. mget m k = Some s \<longrightarrow> time_ok (ScrapeTime s))"

lemma elapsed_nonzero:
  assumes "time_ok (ScrapeTime old)" and "time_ok (ScrapeTime s)" and "ScrapeTime old < ScrapeTime s"
  shows "elapsed old s = word_of_int (ScrapeTime s - ScrapeTime old)" and "elapsed old s \<noteq> 0"
    and "sint (elapsed old s) = ScrapeTime s - ScrapeTime old"
proof -
  show e: "elapsed old s = word_of_int (ScrapeTime s - ScrapeTime old)"
    by (simp add: elapsed_def UnixNano_def)
  have "sint (word_of_int (ScrapeTime s - ScrapeTime old) :: int64) = ScrapeTime s - ScrapeTime old"
    using assms by (intro sint_word64) (auto simp: time_ok_def)
  then show "sint (elapsed old s) = ScrapeTime s - ScrapeTime old" "elapsed old s \<noteq> 0"
    using e assms(3) by (auto simp: signed_0)
qed

text \<open>On scrape times between the years 1823 and 2116 the rate calculator always succeeds: the
  division by the elapsed time is never a division by zero.\<close>

theorem RateCalculator_total:
  assumes "wf_map (Sets b)" and "times_ok (Sets b)" and "times_ok (previousMetricSets rc)"
  shows "\<exists>rc' b'. RateCalculator_Process now now2 rc b = Inr (rc', b')"
proof -
  let ?P = "\<lambda>s. times_ok (fst s) \<and> times_ok (snd s)"
  have "\<exists>s'. rate_key (rateMetricsMapping rc) s key = Inr s' \<and> ?P s'" if P: "?P s" for s key
  proof -
    obtain cache sets where s: "s = (cache, sets)" by (cases s)
    show ?thesis
    proof (cases "mget sets key")
      case None
      with P s show ?thesis by (simp add: rate_key_def)
    next
      case (Some newMs)
      have tn: "time_ok (ScrapeTime newMs)" using P s Some by (simp add: times_ok_def)
      show ?thesis
      proof (cases "mget cache key")
        case None
        with P s Some tn show ?thesis by (simp add: rate_key_def times_ok_def)
      next
        case old: (Some oldMs)
        show ?thesis
        proof (cases "ScrapeTime newMs > ScrapeTime oldMs \<and> CollectionStartTime newMs = CollectionStartTime oldMs")
          case True
          have "time_ok (ScrapeTime oldMs)" using P s old by (simp add: times_ok_def)
          then obtain s' where s': "rate_set (rateMetricsMapping rc) oldMs newMs = Inr s'"
            using rate_set_no_panic [OF elapsed_nonzero(2)] tn True by blast
          have "ScrapeTime s' = ScrapeTime newMs" using rate_set_frame [OF s'] by simp
          with P s Some old True s' tn show ?thesis by (simp add: rate_key_def times_ok_def)
        next
          case False
          with P s Some old tn show ?thesis by (auto simp: rate_key_def times_ok_def)
        qed
      qed
    qed
  qed
  with foldM_total [of ?P "(previousMetricSets rc, Sets b)" "mkeys (Sets b)" "rate_key (rateMetricsMapping rc)"]
  obtain t where "foldM (rate_key (rateMetricsMapping rc)) (previousMetricSets rc, Sets b) (mkeys (Sets b)) = Inr t"
    using assms by auto
  then show ?thesis by (cases t) (simp add: RateCalculator_Process_def Let_def)
qed

lemma RateCalculator_total_witness:
  "\<exists>rc' b'. RateCalculator_Process 7 8 sample_rc sample_batch = Inr (rc', b')"
  by (rule RateCalculator_total)
    (auto simp: sample_batch_def sample_rc_def NewRateCalculator_def wf_map_def times_ok_def mget_Cons
      sample_set_def emptySet_def time_ok_def)

text \<open>The cpu rate is exact: when the counter did not decrease and the scaled increase fits 63 bits,
  the value computed with wrapping 64-bit arithmetic is the whole number of millicores used.\<close>

theorem cpu_rate_exact:
  assumes "sint (IntValue vold) \<le> sint (IntValue vnew)"
    and "1000 * (sint (IntValue vnew) - sint (IntValue vold)) < 2 ^ 63" and "0 < sint dt"
  shows "sint (cpu_rate vnew vold dt) = 1000 * (sint (IntValue vnew) - sint (IntValue vold)) div sint dt"
proof -
  let ?d = "1000 * (sint (IntValue vnew) - sint (IntValue vold))"
  have "1000 * (IntValue vnew - IntValue vold) = (word_of_int ?d :: int64)" by simp
  moreover have "sint (word_of_int ?d :: int64) = ?d" using assms by (intro sint_word64) auto
  ultimately have d: "sint (1000 * (IntValue vnew - IntValue vold)) = ?d" by (simp only:)
  have q: "?d sdiv sint dt = ?d div sint dt"
    using assms by (simp add: signed_divide_int_def sgn_if)
  have "0 \<le> ?d div sint dt" "?d div sint dt < 2 ^ 63"
    using assms zdiv_mono2 [of ?d 1 "sint dt"] by (auto simp: pos_imp_zdiv_nonneg_iff)
  then have "sint (word_of_int (?d div sint dt) :: int64) = ?d div sint dt" by (intro sint_word64) auto
  then show ?thesis by (simp only: cpu_rate_def sdiv64_def d q)
qed

lemma cpu_rate_exact_witness: "sint (cpu_rate (intValue 3000) (intValue 1000) 1000) = 2000"
  using cpu_rate_exact [of "intValue 1000" "intValue 3000" 1000] by simp

text \<open>After a batch was processed the cache holds a set for every resource of the batch, at most as old
  as the one it held before; and when the pruning interval has passed it holds no other resource.\<close>

theorem RateCalculator_cache:
  assumes "RateCalculator_Process now now2 rc b = Inr (rc', b')" and "wf_map (Sets b)"
  shows "(\<forall>k newMs. mget (Sets b) k = Some newMs \<longrightarrow>
      (\<exists>c. mget (previousMetricSets rc') k = Some c \<and> ScrapeTime newMs \<le> ScrapeTime c \<and>
        (\<forall>oldMs. mget (previousMetricSets rc) k = Some oldMs \<longrightarrow> ScrapeTime oldMs \<le> ScrapeTime c))) \<and>
    (lastPruneTime rc + cachePruneInterval rc < now \<longrightarrow>
      (\<forall>k. mhas (previousMetricSets rc') k \<longrightarrow> mhas (Sets b) k) \<and> lastPruneTime rc' = now2)"
proof (intro conjI allI impI)
  fix k newMs assume k: "mget (Sets b) k = Some newMs"
  obtain c s where one: "rate_one (rateMetricsMapping rc) (mget (previousMetricSets rc) k) newMs = Inr (c, s)"
    and c: "mget (previousMetricSets rc') k = Some c"
    using RateCalculator_key [OF assms k] .
  have "ScrapeTime newMs \<le> ScrapeTime c \<and> (\<forall>oldMs. mget (previousMetricSets rc) k = Some oldMs \<longrightarrow> ScrapeTime oldMs \<le> ScrapeTime c)"
  proof (cases "mget (previousMetricSets rc) k")
    case None
    with one show ?thesis by (simp add: rate_one_def)
  next
    case (Some oldMs)
    with one show ?thesis
      using rate_set_frame [of "rateMetricsMapping rc" oldMs newMs]
      by (auto simp: rate_one_def split: if_splits sum.splits)
  qed
  with c show "\<exists>c. mget (previousMetricSets rc') k = Some c \<and> ScrapeTime newMs \<le> ScrapeTime c \<and>
        (\<forall>oldMs. mget (previousMetricSets rc) k = Some oldMs \<longrightarrow> ScrapeTime oldMs \<le> ScrapeTime c)" by blast
next
  assume prune: "lastPruneTime rc + cachePruneInterval rc < now"
  then have pr: "lastPruneTime rc < now - cachePruneInterval rc" by simp
  obtain cache where f: "foldM (rate_key (rateMetricsMapping rc)) (previousMetricSets rc, Sets b) (mkeys (Sets b)) = Inr (cache, Sets b')"
    and p: "previousMetricSets rc' = mfilter (mhas (Sets b')) cache"
    using RateCalculator_parts [OF assms(1)] pr by metis
  have d: "distinct (mkeys (Sets b))" using assms(2) by (simp add: wf_map_def mkeys_def)
  fix k assume "mhas (previousMetricSets rc') k"
  then have "mget (Sets b') k \<noteq> None" by (simp add: p mhas_def split: if_splits)
  then show "mhas (Sets b) k" using rate_fold [OF f d, of k]
    by (auto simp: fold_result_def mhas_def split: option.splits)
next
  assume "lastPruneTime rc + cachePruneInterval rc < now"
  then show "lastPruneTime rc' = now2"
    using assms(1) by (auto simp: RateCalculator_Process_def Let_def split: sum.splits prod.splits)
qed

lemma RateCalculator_cache_witness:
  "\<exists>rc' b' c. RateCalculator_Process 0 0 sample_rc sample_batch = Inr (rc', b') \<and>
     mget (previousMetricSets rc') ClusterKey = Some c \<and> 1000 \<le> ScrapeTime c"
proof -
  obtain rc' b' where r: "RateCalculator_Process 0 0 sample_rc sample_batch = Inr (rc', b')"
    using sample_process by (cases "RateCalculator_Process 0 0 sample_rc sample_batch") auto
  have "wf_map (Sets sample_batch)" "mget (Sets sample_batch) ClusterKey = Some (sample_set 1000 3000)"
    by (simp_all add: sample_batch_def wf_map_def mget_Cons)
  with RateCalculator_cache [OF r] r show ?thesis by (fastforce simp: sample_set_def)
qed

section \<open>Histogram series\<close>

fun is_dist :: "metric option \<Rightarrow> bool" where
  "is_dist (Some (MDistribution d)) = True"
| "is_dist _ = False"

fun dists :: "metric option list \<Rightarrow> Distribution list" where
  "dists [] = []"
| "dists (Some (MDistribution d) # ms) = d # dists ms"
| "dists (_ # ms) = dists ms"

text \<open>The elements whose key was not seen before.\<close>

fun first_by :: "('a \<Rightarrow> 'b) \<Rightarrow> 'b list \<Rightarrow> 'a list \<Rightarrow> 'a list" where
  "first_by f seen [] = []"
| "first_by f seen (x # xs) = (if f x \<in> set seen then first_by f seen xs else x # first_by f (f x # seen) xs)"

lemma dists_append [simp]: "dists (xs @ ys) = dists xs @ dists ys"
  by (induction xs rule: dists.induct) auto

lemma plain_append: "filter (\<lambda>m. \<not> is_dist m) (xs @ ys) = filter (\<lambda>m. \<not> is_dist m) xs @ filter (\<lambda>m. \<not> is_dist m) ys"
  by simp

lemma drc_fold:
  assumes "foldl (drc_metric blake) (prev, seen, out) ms = (prev', seen', out')"
    and "\<And>h. h \<notin> set seen \<Longrightarrow> mget prev h = mget prev0 h"
  shows "filter (\<lambda>m. \<not> is_dist m) out' = filter (\<lambda>m. \<not> is_dist m) (out @ ms) \<and>
    dists out' = dists out @
      List.map_filter (\<lambda>d. Rate blake d (mget prev0 (Key blake d))) (first_by (Key blake) seen (dists ms)) \<and>
    (\<forall>h. mget prev' h =
      (if h \<in> set seen then mget prev h
       else case find (\<lambda>d. Key blake d = h) (dists ms) of Some d \<Rightarrow> Some (Clone d) | None \<Rightarrow> mget prev h))"
  using assms
proof (induction ms arbitrary: prev seen out)
  case (Cons m ms)
  show ?case
  proof (cases "is_dist m")
    case False
    then have step: "drc_metric blake (prev, seen, out) m = (prev, seen, out @ [m])" and "dists (m # ms) = dists ms"
      and "dists [m] = []"
      by (cases m rule: is_dist.cases; simp add: drc_metric_def)+
    with Cons.IH [of prev seen "out @ [m]"] Cons.prems False show ?thesis by simp
  next
    case True
    then obtain d where m: "m = Some (MDistribution d)" by (cases m rule: is_dist.cases) auto
    show ?thesis
    proof (cases "Key blake d \<in> set seen")
      case True
      then have step: "drc_metric blake (prev, seen, out) m = (prev, seen, out)" by (simp add: drc_metric_def m)
      have "h \<notin> set seen \<Longrightarrow> find (\<lambda>d. Key blake d = h) (dists (m # ms)) = find (\<lambda>d. Key blake d = h) (dists ms)" for h
        using True by (auto simp: m)
      with Cons.IH [of prev seen out] Cons.prems True step show ?thesis by (simp add: m)
    next
      case False
      define h0 where "h0 = Key blake d"
      have h0: "h0 \<notin> set seen" using False by (simp add: h0_def)
      define out1 where "out1 = (case Rate blake d (mget prev h0) of None \<Rightarrow> out | Some r \<Rightarrow> out @ [Some (MDistribution r)])"
      have step: "drc_metric blake (prev, seen, out) m = (mput h0 (Clone d) prev, h0 # seen, out1)"
        using False by (simp add: drc_metric_def m out1_def h0_def Let_def split: option.splits)
      have fold: "foldl (drc_metric blake) (mput h0 (Clone d) prev, h0 # seen, out1) ms = (prev', seen', out')"
        using Cons.prems(1) step by simp
      have "h \<notin> set (h0 # seen) \<Longrightarrow> mget (mput h0 (Clone d) prev) h = mget prev0 h" for h
        using Cons.prems(2) by auto
      note IH = Cons.IH [OF fold this]
      have p0: "mget prev h0 = mget prev0 h0" using Cons.prems(2) h0 by simp
      have 1: "filter (\<lambda>m. \<not> is_dist m) out1 = filter (\<lambda>m. \<not> is_dist m) out"
        by (simp add: out1_def split: option.splits)
      have 2: "dists out1 = dists out @ (case Rate blake d (mget prev0 h0) of None \<Rightarrow> [] | Some r \<Rightarrow> [r])"
        by (simp add: out1_def p0 split: option.splits)
      have 3: "mget prev' h = (if h \<in> set seen then mget prev h
          else case find (\<lambda>d. Key blake d = h) (dists (m # ms)) of Some d \<Rightarrow> Some (Clone d) | None \<Rightarrow> mget prev h)" for h
      proof -
        have "mget prev' h =
          (if h \<in> set (h0 # seen) then mget (mput h0 (Clone d) prev) h
           else case find (\<lambda>d. Key blake d = h) (dists ms) of Some d \<Rightarrow> Some (Clone d)
             | None \<Rightarrow> mget (mput h0 (Clone d) prev) h)"
          using IH by blast
        note now = this
        show ?thesis
        proof (cases "h = h0")
          case True
          then show ?thesis using now h0 by (simp add: m h0_def)
        next
          case False
          then have keep: "mget (mput h0 (Clone d) prev) h = mget prev h" by simp
          from False have "find (\<lambda>d. Key blake d = h) (dists (m # ms)) = find (\<lambda>d. Key blake d = h) (dists ms)"
            by (simp add: m h0_def)
          with now False show ?thesis unfolding keep by simp
        qed
      qed
      have 4: "List.map_filter (\<lambda>d. Rate blake d (mget prev0 (Key blake d))) (first_by (Key blake) seen (dists (m # ms))) =
          (case Rate blake d (mget prev0 h0) of None \<Rightarrow> [] | Some r \<Rightarrow> [r]) @
          List.map_filter (\<lambda>d. Rate blake d (mget prev0 (Key blake d))) (first_by (Key blake) (h0 # seen) (dists ms))"
        using h0 by (simp add: m h0_def [symmetric] map_filter_simps split: option.splits)
      show ?thesis using IH 1 2 3 4 by (simp add: m)
    qed
  qed
qed (auto simp: map_filter_simps)

text \<open>The distribution rate calculator keeps every metric that is no distribution, in order; of every
  histogram series (name, source and tags) only the first distribution of the batch counts, and it yields
  the rate of change against the distribution the previous batch left in the cache, or nothing; and the
  cache then holds a copy of that distribution, while the series the batch does not mention stay in the
  cache for ever.\<close>

theorem DistributionRateCalculator_series:
  "filter (\<lambda>m. \<not> is_dist m) (Metrics (snd (DistributionRateCalculator_Process blake prev b))) =
     filter (\<lambda>m. \<not> is_dist m) (Metrics b) \<and>
   dists (Metrics (snd (DistributionRateCalculator_Process blake prev b))) =
     List.map_filter (\<lambda>d. Rate blake d (mget prev (Key blake d))) (first_by (Key blake) [] (dists (Metrics b))) \<and>
   (\<forall>h. mget (fst (DistributionRateCalculator_Process blake prev b)) h =
      (case find (\<lambda>d. Key blake d = h) (dists (Metrics b)) of Some d \<Rightarrow> Some (Clone d) | None \<Rightarrow> mget prev h))"
proof -
  obtain prev' seen' out' where f: "foldl (drc_metric blake) (prev, [], []) (Metrics b) = (prev', seen', out')"
    by (cases "foldl (drc_metric blake) (prev, [], []) (Metrics b)") auto
  from drc_fold [OF f, of prev] f show ?thesis by (simp add: DistributionRateCalculator_Process_def)
qed

text \<open>Two series whose tags differ can have the same key: the separators of the key are not escaped.\<close>

lemma KeyBytes_collision:
  "\<exists>d d'. dtags d \<noteq> dtags d' \<and> wf_dist d \<and> wf_dist d' \<and> Key blake d = Key blake d'"
proof (intro exI conjI)
  let ?d = "NewCumulativeDistribution ''h'' ''s'' [(''a'', ''1 b=2'')] [] 0"
  let ?d' = "NewCumulativeDistribution ''h'' ''s'' [(''a'', ''1''), (''b'', ''2'')] [] 0"
  show "dtags ?d \<noteq> dtags ?d'" by (simp add: NewCumulativeDistribution_def newDistribution_def)
  show "wf_dist ?d" "wf_dist ?d'"
    by (simp_all add: wf_dist_def wf_map_def NewCumulativeDistribution_def newDistribution_def)
  have "KeyBytes ?d = KeyBytes ?d'" by code_simp
  then show "Key blake ?d = Key blake ?d'" by (simp add: Key_def)
qed

lemma mapInPlace_iff:
  "mapInPlace f es = Inr ys \<longleftrightarrow> list_all2 (\<lambda>e y. f e = Inr y) es ys"
proof -
  have "foldM (\<lambda>out e. case f e of Inl p \<Rightarrow> Inl p | Inr y \<Rightarrow> Inr (out @ [y])) acc es = Inr ys \<longleftrightarrow>
      (\<exists>zs. ys = acc @ zs \<and> list_all2 (\<lambda>e y. f e = Inr y) es zs)" for acc
  proof (induction es arbitrary: acc)
    case (Cons e es)
    show ?case
    proof (cases "f e")
      case (Inr y)
      have "(\<exists>zs. ys = (acc @ [y]) @ zs \<and> list_all2 (\<lambda>e y. f e = Inr y) es zs) \<longleftrightarrow>
          (\<exists>zs. ys = acc @ zs \<and> list_all2 (\<lambda>e y. f e = Inr y) (e # es) zs)"
        using Inr by (auto simp: list_all2_Cons1)
      with Inr Cons.IH show ?thesis by simp
    qed (simp add: list_all2_Cons1)
  qed auto
  from this [of "[]"] show ?thesis by (simp add: mapInPlace_def)
qed

lemma mapInPlace_total: "(\<exists>ys. mapInPlace f es = Inr ys) \<longleftrightarrow> (\<forall>e \<in> set es. \<exists>y. f e = Inr y)"
  unfolding mapInPlace_iff
proof (induction es)
  case (Cons e es)
  then show ?case by (auto simp: list_all2_Cons1)
qed simp

lemma convert_metric_not_cumulative:
  "convert_metric m = Inr y \<Longrightarrow> dists [y] = [d] \<Longrightarrow> \<not> isCumulative d"
  by (cases m rule: is_dist.cases)
    (auto simp: convert_metric_def ToFrequency_def NewFrequencyDistribution_def newDistribution_def split: sum.splits if_splits)

text \<open>Converting a batch succeeds exactly when no distribution of it crashes the conversion; it then keeps
  the number and the order of the metrics, changes only distributions, and leaves no cumulative
  distribution, so that the sink never refuses one.\<close>

theorem CumulativeDistributionConverter_converts:
  "((\<exists>b'. CumulativeDistributionConverter_Process b = Inr b') \<longleftrightarrow>
      (\<forall>m \<in> set (Metrics b). \<exists>y. convert_metric m = Inr y)) \<and>
   (\<forall>b'. CumulativeDistributionConverter_Process b = Inr b' \<longrightarrow>
      length (Metrics b') = length (Metrics b) \<and> Sets b' = Sets b \<and>
      (\<forall>i < length (Metrics b). \<not> is_dist (Metrics b ! i) \<longrightarrow> Metrics b' ! i = Metrics b ! i) \<and>
      (\<forall>d. Some (MDistribution d) \<in> set (Metrics b') \<longrightarrow> \<not> isCumulative d))"
proof (intro conjI allI impI)
  show "(\<exists>b'. CumulativeDistributionConverter_Process b = Inr b') \<longleftrightarrow>
      (\<forall>m \<in> set (Metrics b). \<exists>y. convert_metric m = Inr y)"
    unfolding mapInPlace_total [symmetric] by (auto simp: CumulativeDistributionConverter_Process_def split: sum.splits)
next
  fix b' assume "CumulativeDistributionConverter_Process b = Inr b'"
  then have ms: "list_all2 (\<lambda>m y. convert_metric m = Inr y) (Metrics b) (Metrics b')" and "Sets b' = Sets b"
    by (auto simp: CumulativeDistributionConverter_Process_def mapInPlace_iff split: sum.splits)
  then show "length (Metrics b') = length (Metrics b)" "Sets b' = Sets b" by (auto dest: list_all2_lengthD)
  show "Metrics b' ! i = Metrics b ! i" if "i < length (Metrics b)" "\<not> is_dist (Metrics b ! i)" for i
  proof -
    have "convert_metric (Metrics b ! i) = Inr (Metrics b' ! i)" using list_all2_nthD [OF ms that(1)] by simp
    with that(2) show ?thesis by (cases "Metrics b ! i" rule: is_dist.cases) (auto simp: convert_metric_def)
  qed
  fix d assume "Some (MDistribution d) \<in> set (Metrics b')"
  then obtain i where i: "i < length (Metrics b')" "Metrics b' ! i = Some (MDistribution d)" by (auto simp: in_set_conv_nth)
  have "convert_metric (Metrics b ! i) = Inr (Some (MDistribution d))" using list_all2_nthD2 [OF ms i(1)] i(2) by simp
  then show "\<not> isCumulative d" by (rule convert_metric_not_cumulative) simp
qed

lemma CumulativeDistributionConverter_converts_witness:
  "\<exists>b'. CumulativeDistributionConverter_Process \<lparr>bTimestamp = 0, Sets = [], Metrics = [None]\<rparr> = Inr b' \<and>
     length (Metrics b') = 1"
proof -
  let ?b = "\<lparr>bTimestamp = 0, Sets = [], Metrics = [None]\<rparr>"
  obtain b' where "CumulativeDistributionConverter_Process ?b = Inr b'"
    using CumulativeDistributionConverter_converts [of ?b] by (auto simp: convert_metric_def)
  with CumulativeDistributionConverter_converts [of ?b] show ?thesis by auto
qed

end
