(* ===== verification/Sources_Manager.thy ===== *)
theory Sources_Manager
  imports Rates Configuration "HOL-Library.Multiset"
begin

text \<open>
  The source manager (\<open>collector/plugins/sources\<close>: manager.go, interval_timer.go): the registry of source
  providers, a collection goroutine with a timer for each, the scrape loop, and the buffer of batches
  that the flush manager empties. Operations under the manager's lock are functions of its state; what
  the goroutines do is a step relation over them.
\<close>

section \<open>Interval timers (interval_timer.go)\<close>

text \<open>\<open>itFires\<close> is when the runtime timer fires next, none when it is stopped.\<close>

record IntervalTimer =
  itInterval :: duration
  itStartTime :: gotime
  itLastResetTime :: gotime
  itFires :: "gotime option"

definition NewIntervalTimer :: "duration \<Rightarrow> gotime \<Rightarrow> IntervalTimer" where
  "NewIntervalTimer interval now =
     \<lparr>itInterval = interval, itStartTime = now, itLastResetTime = now, itFires = Some (now + interval)\<rparr>"

definition intervalsMissed :: "IntervalTimer \<Rightarrow> gotime \<Rightarrow> panic + int64" where
  "intervalsMissed t now =
     (let elapsed = time_sub now (itLastResetTime t)
      in if elapsed < itInterval t then Inr 0
         else if itInterval t = 0 then Inl DivideByZero
         else Inr (word_of_int (elapsed sdiv itInterval t - 1)))"

text \<open>The conversion of a float to an integer rounds towards zero; the ratio is a constant of the source.\<close>

definition scaleInterval :: "duration \<Rightarrow> rat \<Rightarrow> duration" where
  "scaleInterval interval ratio =
     (case fmul (f64_of_int interval) (rnd ratio) of Fin q \<Rightarrow> rat_trunc q | _ \<Rightarrow> 0)"

definition waitToNextInterval :: "IntervalTimer \<Rightarrow> duration \<Rightarrow> panic + duration" where
  "waitToNextInterval t diff =
     (if itInterval t = 0 then Inl DivideByZero
      else let wait = itInterval t - diff smod itInterval t
           in Inr (if wait < scaleInterval (itInterval t) (333 / 10000) then wait + itInterval t else wait))"

definition Reset :: "IntervalTimer \<Rightarrow> gotime \<Rightarrow> panic + IntervalTimer \<times> int64" where
  "Reset t now =
     (case intervalsMissed t now of Inl e \<Rightarrow> Inl e
      | Inr missed \<Rightarrow>
         (case waitToNextInterval t (time_sub now (itStartTime t)) of Inl e \<Rightarrow> Inl e
          | Inr wait \<Rightarrow> Inr (t\<lparr>itLastResetTime := now, itFires := Some (now + wait)\<rparr>, missed)))"

section \<open>Providers and scraping\<close>

record source =
  srcName :: string
  srcAutoDiscovered :: bool

record provider =
  pvName :: string
  pvCollectionInterval :: duration
  pvTimeout :: duration
  pvSources :: "source list"

definition Configure :: "duration \<Rightarrow> duration \<Rightarrow> provider \<Rightarrow> provider" where
  "Configure interval timeout p =
     p\<lparr>pvCollectionInterval := interval, pvTimeout := (if timeout = 0 then 30 * Second else timeout)\<rparr>"

record scrape_counters =
  scErrors :: int64
  scWarnings :: int64
  scTimeouts :: int64
  scMissed :: int64

text \<open>One pass over the sources of a provider: every source comes with what its \<open>Scrape\<close> returned and how long
  that took. The first error ends the pass; a nil batch is sent and then dereferenced for the log.\<close>

type_synonym scraped = "source \<times> (string + Batch option) \<times> duration"

fun scrape :: "duration \<Rightarrow> scraped list \<Rightarrow> scrape_counters \<times> Batch list \<Rightarrow> panic + scrape_counters \<times> Batch list" where
  "scrape timeout [] st = Inr st"
| "scrape timeout ((source, Inl err, latency) # rest) (c, sent) =
     Inr (if srcAutoDiscovered source then c\<lparr>scWarnings := scWarnings c + 1\<rparr> else c\<lparr>scErrors := scErrors c + 1\<rparr>, sent)"
| "scrape timeout ((source, Inr None, latency) # rest) st = Inl NilDereference"
| "scrape timeout ((source, Inr (Some dataBatch), latency) # rest) (c, sent) =
     scrape timeout rest
       (if \<not> latency < timeout then c\<lparr>scTimeouts := scTimeouts c + 1\<rparr> else c, sent @ [dataBatch])"

definition scrape_timeout :: "provider \<Rightarrow> duration" where
  "scrape_timeout p = (if pvTimeout p \<le> 0 then Minute else pvTimeout p)"

section \<open>The manager\<close>

text \<open>A collection goroutine, with the timer and the quit channel that \<open>AddProvider\<close> makes for it.\<close>

record collection =
  clProvider :: provider
  clTimer :: IntervalTimer
  clQuit :: bool
  clReturned :: bool

record sourceManager =
  smDefault :: duration
  smProviders :: "(string, provider) gomap"
  smTimers :: "(string, nat) gomap"
  smQuits :: "(string, nat) gomap"
  smRuns :: "collection list"
  smResponse :: "Batch list"
  smProviderCount :: int64
  smCleaned :: "source list"
  smCounters :: scrape_counters

definition new_manager :: sourceManager where
  "new_manager = \<lparr>smDefault = Minute, smProviders = [], smTimers = [], smQuits = [], smRuns = [], smResponse = [],
     smProviderCount = 0, smCleaned = [],
     smCounters = \<lparr>scErrors = 0, scWarnings = 0, scTimeouts = 0, scMissed = 0\<rparr>\<rparr>"

definition upd_run :: "nat \<Rightarrow> (collection \<Rightarrow> collection) \<Rightarrow> sourceManager \<Rightarrow> sourceManager" where
  "upd_run i f sm = sm\<lparr>smRuns := (smRuns sm)[i := f (smRuns sm ! i)]\<rparr>"

definition stop_timer :: "collection \<Rightarrow> collection" where
  "stop_timer c = c\<lparr>clTimer := (clTimer c)\<lparr>itFires := None\<rparr>\<rparr>"

definition DeleteProvider :: "string \<Rightarrow> sourceManager \<Rightarrow> sourceManager" where
  "DeleteProvider name sm =
     (case mget (smProviders sm) name of
        None \<Rightarrow> sm
      | Some provider \<Rightarrow>
         (let sm = sm\<lparr>smProviders := mdel name (smProviders sm)\<rparr>;
              sm = (case mget (smTimers sm) name of None \<Rightarrow> sm
                    | Some i \<Rightarrow> (upd_run i stop_timer sm)\<lparr>smTimers := mdel name (smTimers sm)\<rparr>);
              sm = (case mget (smQuits sm) name of None \<Rightarrow> sm
                    | Some i \<Rightarrow> (upd_run i (clQuit_update (\<lambda>_. True)) sm)\<lparr>smQuits := mdel name (smQuits sm)\<rparr>)
          in sm\<lparr>smCleaned := smCleaned sm @ pvSources provider\<rparr>))"

definition AddProvider :: "gotime \<Rightarrow> provider \<Rightarrow> sourceManager \<Rightarrow> sourceManager" where
  "AddProvider now provider sm =
     (let name = pvName provider;
          sm = (if mhas (smProviders sm) name then DeleteProvider name sm else sm);
          interval = (if pvCollectionInterval provider > 0 then pvCollectionInterval provider else smDefault sm);
          i = length (smRuns sm);
          providers = mput name provider (smProviders sm)
      in sm\<lparr>smProviders := providers, smTimers := mput name i (smTimers sm), smQuits := mput name i (smQuits sm),
            smProviderCount := of_nat (length providers),
            smRuns := smRuns sm @ [\<lparr>clProvider = provider, clTimer = NewIntervalTimer interval now,
                                     clQuit = False, clReturned = False\<rparr>]\<rparr>)"

definition StopProviders :: "sourceManager \<Rightarrow> sourceManager" where
  "StopProviders sm = foldl (\<lambda>sm name. DeleteProvider name sm) sm (mkeys (smProviders sm))"

text \<open>\<open>run\<close> appends what is not nil; \<open>GetPendingMetrics\<close> takes everything and sorts it by time. (\<open>sort.Slice\<close> may
  leave batches of one time in any order; the model keeps them as they came.)\<close>

definition receive_batch :: "Batch option \<Rightarrow> sourceManager \<Rightarrow> sourceManager" where
  "receive_batch dataBatch sm =
     (case dataBatch of None \<Rightarrow> sm | Some b \<Rightarrow> sm\<lparr>smResponse := smResponse sm @ [b]\<rparr>)"

definition rotateResponse :: "sourceManager \<Rightarrow> sourceManager \<times> Batch list" where
  "rotateResponse sm = (sm\<lparr>smResponse := []\<rparr>, smResponse sm)"

definition GetPendingMetrics :: "sourceManager \<Rightarrow> sourceManager \<times> Batch list" where
  "GetPendingMetrics sm = (case rotateResponse sm of (sm, response) \<Rightarrow> (sm, sort_key bTimestamp response))"

text \<open>What a goroutine does when its timer fires: scrape, then reset the timer.\<close>

definition collect :: "nat \<Rightarrow> scraped list \<Rightarrow> gotime \<Rightarrow> sourceManager \<Rightarrow> panic + sourceManager" where
  "collect i results now sm =
     (let c = smRuns sm ! i
      in case scrape (scrape_timeout (clProvider c)) results (smCounters sm, []) of Inl e \<Rightarrow> Inl e
         | Inr (counters, sent) \<Rightarrow>
            (case Reset (clTimer c) now of Inl e \<Rightarrow> Inl e
             | Inr (timer, missed) \<Rightarrow>
                Inr ((upd_run i (\<lambda>c. c\<lparr>clTimer := timer\<rparr>) (foldl (\<lambda>sm b. receive_batch (Some b) sm) sm sent))
                     \<lparr>smCounters := counters\<lparr>scMissed := scMissed counters + missed\<rparr>\<rparr>)))"

section \<open>Building the providers\<close>

text \<open>What a provider is built from; \<open>mk\<close> stands for the constructors of the source packages, which may fail.\<close>

datatype provider_config =
    SummaryProvider SummarySourceConfig
  | CadvisorProvider CadvisorSourceConfig SummarySourceConfig
  | SystemdProvider SystemdSourceConfig
  | StatsProvider StatsSourceConfig
  | StateProvider KubernetesStateSourceConfig
  | TelegrafProvider TelegrafSourceConfig
  | PrometheusProvider PrometheusSourceConfig

fun collection_config :: "provider_config \<Rightarrow> CollectionConfig" where
  "collection_config (SummaryProvider c) = ssCollection c"
| "collection_config (CadvisorProvider c _) = caCollection c"
| "collection_config (SystemdProvider c) = sdCollection c"
| "collection_config (StatsProvider c) = stCollection c"
| "collection_config (StateProvider c) = ksCollection c"
| "collection_config (TelegrafProvider c) = tgCollection c"
| "collection_config (PrometheusProvider c) = psCollection c"

definition appendProvider :: "(provider_config \<Rightarrow> string + provider) \<Rightarrow> provider list \<Rightarrow> provider_config \<Rightarrow> provider list" where
  "appendProvider mk providers pc =
     (case mk pc of Inl err \<Rightarrow> providers
      | Inr p \<Rightarrow> providers @ [Configure (ccInterval (collection_config pc)) (ccTimeout (collection_config pc)) p])"

definition opt_list :: "'a option \<Rightarrow> 'a list" where
  "opt_list x = (case x of None \<Rightarrow> [] | Some y \<Rightarrow> [y])"

definition provider_configs :: "SourceConfig \<Rightarrow> provider_config list" where
  "provider_configs cfg =
     (case SummaryConfig cfg of None \<Rightarrow> []
      | Some s \<Rightarrow> SummaryProvider s # map (\<lambda>c. CadvisorProvider c s) (opt_list (CadvisorConfig cfg))) @
     map SystemdProvider (opt_list (SystemdConfig cfg)) @ map StatsProvider (opt_list (StatsConfig cfg)) @
     map StateProvider (opt_list (StateConfig cfg)) @ map TelegrafProvider (TelegrafConfigs cfg) @
     map PrometheusProvider (PrometheusConfigs cfg)"

text \<open>No provider at all ends the process.\<close>

definition buildProviders :: "(provider_config \<Rightarrow> string + provider) \<Rightarrow> SourceConfig \<Rightarrow> provider list option" where
  "buildProviders mk cfg =
     (let result = foldl (appendProvider mk) [] (provider_configs cfg)
      in if length result = 0 then None else Some result)"

definition BuildProviders :: "(provider_config \<Rightarrow> string + provider) \<Rightarrow> (provider \<Rightarrow> gotime) \<Rightarrow> SourceConfig \<Rightarrow>
    sourceManager \<Rightarrow> (string + sourceManager) option" where
  "BuildProviders mk now cfg sm =
     map_option (\<lambda>sources.
       let sm = foldl (\<lambda>sm p. AddProvider (now p) p sm) sm sources
       in if length (smProviders sm) = 0 then Inl ''no available sources to use'' else Inr sm)
     (buildProviders mk cfg)"

section \<open>The interface to the discovery of providers\<close>

text \<open>\<open>metrics.ProviderHandler\<close>: what a client may assume of adding and deleting providers by name.\<close>

locale provider_handler =
  fixes add :: "'p \<Rightarrow> 's \<Rightarrow> 's" and delete :: "string \<Rightarrow> 's \<Rightarrow> 's"
    and name_of :: "'p \<Rightarrow> string" and registered :: "'s \<Rightarrow> string \<Rightarrow> 'p option" and inv :: "'s \<Rightarrow> bool"
  assumes inv_add: "inv s \<Longrightarrow> inv (add p s)"
    and inv_delete: "inv s \<Longrightarrow> inv (delete n s)"
    and registered_add: "inv s \<Longrightarrow> registered (add p s) = (registered s)(name_of p \<mapsto> p)"
    and registered_delete: "inv s \<Longrightarrow> registered (delete n s) = (registered s)(n := None)"
begin

lemma adds:
  assumes "inv s"
  shows "inv (foldl (\<lambda>s p. add p s) s ps) \<and>
    registered (foldl (\<lambda>s p. add p s) s ps) = foldl (\<lambda>r p. r(name_of p \<mapsto> p)) (registered s) ps"
  using assms by (induction ps arbitrary: s) (simp_all add: inv_add registered_add)

lemma deletes:
  assumes "inv s"
  shows "inv (foldl (\<lambda>s n. delete n s) s ns) \<and>
    registered (foldl (\<lambda>s n. delete n s) s ns) = (\<lambda>n. if n \<in> set ns then None else registered s n)"
  using assms by (induction ns arbitrary: s) (auto simp: inv_delete registered_delete fun_eq_iff)

lemma delete_add: "inv s \<Longrightarrow> registered (delete (name_of p) (add p s)) = (registered s)(name_of p := None)"
  by (simp add: registered_delete registered_add inv_add)

end

section \<open>The registry of the source manager\<close>

definition live :: "sourceManager \<Rightarrow> nat \<Rightarrow> bool" where
  "live sm i \<longleftrightarrow> i < length (smRuns sm) \<and> \<not> clQuit (smRuns sm ! i)"

definition runs_provider :: "sourceManager \<Rightarrow> nat \<Rightarrow> provider" where
  "runs_provider sm i = clProvider (smRuns sm ! i)"

definition registry_inv :: "sourceManager \<Rightarrow> bool" where
  "registry_inv sm \<longleftrightarrow> wf_map (smProviders sm) \<and>
     (\<forall>n. mget (smTimers sm) n = mget (smQuits sm) n) \<and>
     (\<forall>n. mhas (smProviders sm) n \<longleftrightarrow> mhas (smQuits sm) n) \<and>
     (\<forall>n i. mget (smQuits sm) n = Some i \<longrightarrow> live sm i \<and> pvName (runs_provider sm i) = n \<and>
        mget (smProviders sm) n = Some (runs_provider sm i)) \<and>
     (\<forall>i. live sm i \<longrightarrow> mget (smQuits sm) (pvName (runs_provider sm i)) = Some i)"

lemma registry_inv_new: "registry_inv new_manager"
  by (simp add: registry_inv_def new_manager_def live_def mhas_def)

lemma DeleteProvider_eq:
  assumes "registry_inv sm" and "mget (smProviders sm) n = Some p"
  obtains i where "mget (smQuits sm) n = Some i" "live sm i" "runs_provider sm i = p" "pvName p = n"
    and "DeleteProvider n sm = sm\<lparr>smProviders := mdel n (smProviders sm), smTimers := mdel n (smTimers sm),
       smQuits := mdel n (smQuits sm), smCleaned := smCleaned sm @ pvSources p,
       smRuns := (smRuns sm)[i := (stop_timer (smRuns sm ! i))\<lparr>clQuit := True\<rparr>]\<rparr>"
proof -
  have "mhas (smQuits sm) n" using assms by (auto simp: registry_inv_def mhas_def)
  then obtain i where i: "mget (smQuits sm) n = Some i" by (auto simp: mhas_def)
  moreover have "mget (smTimers sm) n = Some i" using assms(1) i by (simp add: registry_inv_def)
  moreover have "live sm i" "pvName (runs_provider sm i) = n" "runs_provider sm i = p"
    using assms i unfolding registry_inv_def by (metis option.inject)+
  ultimately show thesis using assms(2) by (intro that [of i]) (auto simp: DeleteProvider_def upd_run_def live_def)
qed

lemma registry_invD:
  assumes "registry_inv sm"
  shows "wf_map (smProviders sm)" "mget (smTimers sm) n = mget (smQuits sm) n"
    "mhas (smProviders sm) n \<longleftrightarrow> mhas (smQuits sm) n"
    "mget (smQuits sm) n = Some i \<Longrightarrow> live sm i" "mget (smQuits sm) n = Some i \<Longrightarrow> pvName (runs_provider sm i) = n"
    "mget (smQuits sm) n = Some i \<Longrightarrow> mget (smProviders sm) n = Some (runs_provider sm i)"
    "live sm i \<Longrightarrow> mget (smQuits sm) (pvName (runs_provider sm i)) = Some i"
  using assms by (simp_all add: registry_inv_def)

text \<open>A state whose registry is that of another with one name changed.\<close>

lemma registry_inv_change:
  assumes inv: "registry_inv sm" and wf: "wf_map (smProviders t)"
    and same: "\<And>m. m \<noteq> n \<Longrightarrow> mget (smProviders t) m = mget (smProviders sm) m"
      "\<And>m. m \<noteq> n \<Longrightarrow> mget (smQuits t) m = mget (smQuits sm) m"
      "\<And>m. m \<noteq> n \<Longrightarrow> mget (smTimers t) m = mget (smTimers sm) m"
    and other: "\<And>i. pvName (runs_provider sm i) \<noteq> n \<Longrightarrow> live sm i \<Longrightarrow> live t i \<and> runs_provider t i = runs_provider sm i"
    and old: "\<And>i. live t i \<Longrightarrow> pvName (runs_provider t i) \<noteq> n \<Longrightarrow> live sm i \<and> runs_provider t i = runs_provider sm i"
    and new: "mget (smTimers t) n = mget (smQuits t) n" "mhas (smProviders t) n \<longleftrightarrow> mhas (smQuits t) n"
      "\<And>i. mget (smQuits t) n = Some i \<Longrightarrow>
        live t i \<and> pvName (runs_provider t i) = n \<and> mget (smProviders t) n = Some (runs_provider t i)"
      "\<And>i. live t i \<Longrightarrow> pvName (runs_provider t i) = n \<Longrightarrow> mget (smQuits t) n = Some i"
  shows "registry_inv t"
  unfolding registry_inv_def
proof (intro conjI allI impI)
  fix m i assume q: "mget (smQuits t) m = Some i"
  show "live t i" "pvName (runs_provider t i) = m" "mget (smProviders t) m = Some (runs_provider t i)"
    using q new(3) same other registry_invD(4-6) [OF inv, of m i] by (cases "m = n"; force)+
next
  fix i assume l: "live t i"
  show "mget (smQuits t) (pvName (runs_provider t i)) = Some i"
  proof (cases "pvName (runs_provider t i) = n")
    case True
    with new(4) [OF l] show ?thesis by simp
  next
    case False
    with old [OF l] have "live sm i" "runs_provider t i = runs_provider sm i" by auto
    with same(2) [OF False] registry_invD(7) [OF inv, of i] show ?thesis by simp
  qed
next
  fix m show "mget (smTimers t) m = mget (smQuits t) m"
    using same new(1) registry_invD(2) [OF inv, of m] by (cases "m = n") auto
  show "mhas (smProviders t) m \<longleftrightarrow> mhas (smQuits t) m"
    using same new(2) registry_invD(3) [OF inv, of m] by (cases "m = n") (auto simp: mhas_def)
qed (rule wf)

lemma registry_inv_Delete: "registry_inv sm \<Longrightarrow> registry_inv (DeleteProvider n sm)"
proof (cases "mget (smProviders sm) n")
  case (Some p)
  assume inv: "registry_inv sm"
  from DeleteProvider_eq [OF inv Some] obtain i where i: "mget (smQuits sm) n = Some i" "live sm i" "runs_provider sm i = p" "pvName p = n"
    and eq: "DeleteProvider n sm = sm\<lparr>smProviders := mdel n (smProviders sm), smTimers := mdel n (smTimers sm),
       smQuits := mdel n (smQuits sm), smCleaned := smCleaned sm @ pvSources p,
       smRuns := (smRuns sm)[i := (stop_timer (smRuns sm ! i))\<lparr>clQuit := True\<rparr>]\<rparr>" .
  have lv: "live (DeleteProvider n sm) j \<longleftrightarrow> live sm j \<and> j \<noteq> i" for j
    using i(2) by (auto simp: live_def eq nth_list_update)
  have rp: "runs_provider (DeleteProvider n sm) j = runs_provider sm j" for j
    using i(2) by (cases "i = j") (simp_all add: runs_provider_def eq live_def stop_timer_def)
  show ?thesis
  proof (rule registry_inv_change [OF inv, where n = n])
    fix j assume "live (DeleteProvider n sm) j" "pvName (runs_provider (DeleteProvider n sm) j) = n"
    with registry_invD(7) [OF inv, of j] i(1) have False by (auto simp: lv rp)
    then show "mget (smQuits (DeleteProvider n sm)) n = Some j" ..
  next
    fix j assume "pvName (runs_provider sm j) \<noteq> n" "live sm j"
    then show "live (DeleteProvider n sm) j \<and> runs_provider (DeleteProvider n sm) j = runs_provider sm j"
      using i by (auto simp: lv rp)
  next
    fix j assume "live (DeleteProvider n sm) j"
    then show "live sm j \<and> runs_provider (DeleteProvider n sm) j = runs_provider sm j" by (simp add: lv rp)
  qed (simp_all add: eq mhas_def registry_invD(1) [OF inv])
qed (simp add: DeleteProvider_def)

lemma mget_Providers_Delete: "registry_inv sm \<Longrightarrow> mget (smProviders (DeleteProvider m sm)) n =
    (if n = m then None else mget (smProviders sm) n)"
proof (cases "mget (smProviders sm) m")
  case (Some p)
  assume "registry_inv sm"
  then have "smProviders (DeleteProvider m sm) = mdel m (smProviders sm)" by (rule DeleteProvider_eq [OF _ Some]) simp
  then show ?thesis by simp
qed (auto simp: DeleteProvider_def)

lemma registry_inv_Add: "registry_inv sm \<Longrightarrow> registry_inv (AddProvider now p sm)"
proof -
  assume "registry_inv sm"
  define s where "s = (if mhas (smProviders sm) (pvName p) then DeleteProvider (pvName p) sm else sm)"
  have inv: "registry_inv s" using \<open>registry_inv sm\<close> registry_inv_Delete by (simp add: s_def)
  have none: "mget (smProviders s) (pvName p) = None"
    using mget_Providers_Delete [OF \<open>registry_inv sm\<close>, of "pvName p" "pvName p"] by (simp add: s_def mhas_def)
  let ?t = "AddProvider now p sm"
  define c where "c = \<lparr>clProvider = p, clTimer = NewIntervalTimer (if pvCollectionInterval p > 0 then pvCollectionInterval p else smDefault s) now,
     clQuit = False, clReturned = False\<rparr>"
  have eq: "smProviders ?t = mput (pvName p) p (smProviders s)" "smQuits ?t = mput (pvName p) (length (smRuns s)) (smQuits s)"
    "smTimers ?t = mput (pvName p) (length (smRuns s)) (smTimers s)" "smRuns ?t = smRuns s @ [c]" "clProvider c = p" "\<not> clQuit c"
    by (simp_all add: AddProvider_def Let_def s_def [symmetric] c_def)
  have lv: "live ?t i \<longleftrightarrow> live s i \<or> i = length (smRuns s)" for i
    using eq(6) by (auto simp: live_def eq(4) nth_append less_Suc_eq)
  have rp: "runs_provider ?t i = (if i = length (smRuns s) then p else runs_provider s i)" if "i \<le> length (smRuns s)" for i
    using that by (auto simp: runs_provider_def eq(4,5) nth_append)
  have le: "i < length (smRuns s)" if "live s i" for i using that by (simp add: live_def)
  have fresh: "pvName (runs_provider s i) \<noteq> pvName p" if "live s i" for i
    using registry_invD(6) [OF inv registry_invD(7) [OF inv that]] none by auto
  show ?thesis
  proof (rule registry_inv_change [OF inv, where n = "pvName p"])
    fix i assume "live ?t i" "pvName (runs_provider ?t i) = pvName p"
    then show "mget (smQuits ?t) (pvName p) = Some i" using fresh rp le by (fastforce simp: lv eq(2))
  next
    fix i assume "live ?t i" "pvName (runs_provider ?t i) \<noteq> pvName p"
    then show "live s i \<and> runs_provider ?t i = runs_provider s i" using rp le by (fastforce simp: lv)
  next
    fix i assume "live s i"
    then show "live ?t i \<and> runs_provider ?t i = runs_provider s i" using rp [of i] le [of i] by (auto simp: lv)
  next
    fix i assume "mget (smQuits ?t) (pvName p) = Some i"
    then show "live ?t i \<and> pvName (runs_provider ?t i) = pvName p \<and> mget (smProviders ?t) (pvName p) = Some (runs_provider ?t i)"
      using rp [of i] by (simp add: eq(1,2) lv)
  qed (simp_all add: eq(1-3) mhas_def registry_invD(1) [OF inv])
qed

lemma mget_Providers_Add: "registry_inv sm \<Longrightarrow> mget (smProviders (AddProvider now p sm)) n =
    (if n = pvName p then Some p else mget (smProviders sm) n)"
  by (auto simp: AddProvider_def Let_def mget_Providers_Delete)

interpretation sources: provider_handler "AddProvider now" DeleteProvider pvName "\<lambda>sm. mget (smProviders sm)" registry_inv
  by unfold_locales (auto simp: registry_inv_Add registry_inv_Delete mget_Providers_Add mget_Providers_Delete fun_eq_iff)

section \<open>The timers keep to their grid\<close>

lemma rnd_ratio: "rnd (333 / 10000) = Fin (4799035762926001 / 2 ^ 57)"
proof -
  have "round_half_even (333 / 10000 / 2 powi (- 5 - 52)) = 4799035762926001"
  proof -
    have "2 powi (- 5 - 52) = (1 / 144115188075855872 :: rat)" by (simp add: power_int_def power_one_over)
    moreover have "\<lfloor>2999397351828750336 / 625 :: rat\<rfloor> = 4799035762926000" by (rule floor_unique) simp_all
    ultimately show ?thesis by (simp add: round_half_even_def Let_def)
  qed
  from rnd_eval [OF _ _ _ _ this] show ?thesis by (simp add: power_int_def power_one_over f64_max_def)
qed

lemma scale_bounds:
  assumes "0 < n" and "n \<le> 2 ^ 53"
  shows "0 \<le> scaleInterval n (333 / 10000)" "scaleInterval n (333 / 10000) \<le> n"
proof -
  define q :: rat where "q = 4799035762926001 / 2 ^ 57"
  have q: "0 < q" "q \<le> 1 / 2" by (simp_all add: q_def)
  define k where "k = floorlog 2 (nat n)"
  have lo: "2 ^ (k - 1) \<le> nat n" and hi: "nat n < 2 ^ k"
    using floorlog_le [of "nat n"] floorlog_gt [of "nat n"] assms(1) by (auto simp: k_def)
  have k0: "0 < k" using hi assms(1) by (cases k) simp_all
  have "nat n \<le> 2 ^ 53" using assms(2) by simp
  with lo have "2 ^ (k - 1) \<le> (2 ^ 53 :: nat)" by (rule order_trans)
  then have k: "k - 1 \<le> 1000" using power_le_imp_le_exp [of "2::nat" "k - 1" 53] by simp
  have "(of_int n :: rat) \<le> 2 ^ k" proof -
    have "n \<le> 2 ^ k" using hi assms(1) by (simp add: nat_less_iff)
    then show ?thesis by (metis of_int_le_iff of_int_numeral of_int_power)
  qed
  then have "of_int n * q \<le> 2 ^ k * (1 / 2)" using q by (intro mult_mono) simp_all
  also have "\<dots> = 2 ^ (k - 1)" using k0 by (cases k) simp_all
  finally obtain r where r: "rnd (of_int n * q) = Fin r" "0 \<le> r" "r \<le> 2 ^ (k - 1)"
    using rnd_upto [OF _ _ k] assms(1) q(1) by (metis mult_pos_pos of_int_0_less_iff)
  have "(2::rat) ^ (k - 1) \<le> of_int n" proof -
    have "2 ^ (k - 1) \<le> n" using lo assms(1) by (simp add: le_nat_iff)
    then show ?thesis by (metis of_int_le_iff of_int_numeral of_int_power)
  qed
  then have "\<lfloor>r\<rfloor> \<le> n" using r(3) by linarith
  then show "0 \<le> scaleInterval n (333 / 10000)" "scaleInterval n (333 / 10000) \<le> n"
    using assms r(1,2) by (simp_all add: scaleInterval_def rnd_ratio q_def rat_trunc_def)
qed

text \<open>C19: the timer of a provider fires on its grid: after a scrape the next firing is a whole number of intervals
  after the start, not sooner than the minimal wait and at most an interval and that wait away, and the
  intervals counted as missed are the whole intervals that passed since the last reset, less one.\<close>

theorem Reset_on_grid:
  assumes "0 < itInterval t" "itInterval t \<le> 2 ^ 53"
    and "itStartTime t \<le> itLastResetTime t" "itLastResetTime t \<le> now" "now - itStartTime t < 2 ^ 63"
  shows "let wait = scaleInterval (itInterval t) (333 / 10000) in \<exists>t' missed f. Reset t now = Inr (t', missed) \<and> itFires t' = Some f \<and>
    (f - itStartTime t) mod itInterval t = 0 \<and> now + wait \<le> f \<and> f \<le> now + itInterval t + wait \<and>
    sint missed = (if now - itLastResetTime t < itInterval t then 0 else (now - itLastResetTime t) div itInterval t - 1)"
proof -
  define wait where "wait = scaleInterval (itInterval t) (333 / 10000)"
  let ?I = "itInterval t" and ?d = "now - itStartTime t" and ?e = "now - itLastResetTime t"
  have sub: "time_sub now (itStartTime t) = ?d" "time_sub now (itLastResetTime t) = ?e"
    using assms by (simp_all add: time_sub_def)
  have smod: "?d smod ?I = ?d mod ?I" "?e sdiv ?I = ?e div ?I" using assms
    by (cases "?d = 0"; cases "?e = 0"; simp add: signed_modulo_int_def signed_divide_int_def)+
  have w: "0 \<le> wait" "wait \<le> ?I" using scale_bounds [OF assms(1,2)] by (simp_all add: wait_def)
  define u where "u = ?I - ?d mod ?I"
  have u: "0 < u" "u \<le> ?I" "(?d + u) mod ?I = 0"
    using assms(1) by (simp_all add: u_def pos_mod_bound) (simp add: add_diff_eq mod_diff_right_eq)
  define v where "v = (if u < wait then u + ?I else u)"
  have v: "(?d + v) mod ?I = 0" "wait \<le> v" "v \<le> ?I + wait" using u w by (auto simp: v_def mod_simps add.assoc [symmetric])
  have "(now + v - itStartTime t) mod ?I = 0" using v(1) by (simp add: algebra_simps)
  moreover have "Reset t now = Inr (t\<lparr>itLastResetTime := now, itFires := Some (now + v)\<rparr>,
      if ?e < ?I then 0 else word_of_int (?e div ?I - 1))"
    using assms(1) by (simp add: Reset_def intervalsMissed_def waitToNextInterval_def Let_def sub smod v_def u_def wait_def)
  moreover have "sint (if ?e < ?I then 0 else word_of_int (?e div ?I - 1) :: int64) = (if ?e < ?I then 0 else ?e div ?I - 1)"
  proof -
    have "0 \<le> ?e div ?I" using assms by (simp add: pos_imp_zdiv_nonneg_iff)
    moreover have "?e div ?I \<le> ?e" using zdiv_mono2 [of ?e 1 ?I] assms by simp
    ultimately have "sint (word_of_int (?e div ?I - 1) :: int64) = ?e div ?I - 1" using assms by (intro sint_word64) linarith+
    then show ?thesis by (simp only: if_distrib [of sint] sint_0)
  qed
  ultimately show ?thesis using v(2,3) unfolding Let_def wait_def [symmetric] by (intro exI conjI) (assumption | simp)+
qed

definition sample_timer :: IntervalTimer where
  "sample_timer = NewIntervalTimer Minute 0"

lemma Reset_on_grid_witness:
  "\<exists>t' missed f. Reset sample_timer (150 * Second) = Inr (t', missed) \<and> itFires t' = Some f \<and> f mod Minute = 0 \<and> sint missed = 1"
  using Reset_on_grid [of sample_timer "150 * Second"]
  by (auto simp: sample_timer_def NewIntervalTimer_def Minute_def Second_def Let_def)

section \<open>Handling providers\<close>

text \<open>What the rest of the collector asks of the manager, and what it promises: a map from names to providers.\<close>

datatype handler_call = Add gotime provider | Delete string | Stop

fun handle :: "sourceManager \<Rightarrow> handler_call \<Rightarrow> sourceManager" where
  "handle sm (Add now p) = AddProvider now p sm"
| "handle sm (Delete n) = DeleteProvider n sm"
| "handle sm Stop = StopProviders sm"

fun handle_spec :: "(string \<rightharpoonup> provider) \<Rightarrow> handler_call \<Rightarrow> (string \<rightharpoonup> provider)" where
  "handle_spec r (Add now p) = r(pvName p \<mapsto> p)"
| "handle_spec r (Delete n) = r(n := None)"
| "handle_spec r Stop = Map.empty"

lemma StopProviders_spec:
  assumes "registry_inv sm"
  shows "registry_inv (StopProviders sm) \<and> mget (smProviders (StopProviders sm)) = Map.empty"
proof -
  have "mget (smProviders (StopProviders sm)) n = None" for n
    using sources.deletes [OF assms, of "mkeys (smProviders sm)"] mhas_mkeys [of "smProviders sm" n]
    by (auto simp: StopProviders_def mhas_def)
  then show ?thesis using sources.deletes [OF assms, of "mkeys (smProviders sm)"] by (auto simp: StopProviders_def)
qed

lemma handle_refines:
  "registry_inv sm \<Longrightarrow> registry_inv (handle sm c) \<and> mget (smProviders (handle sm c)) = handle_spec (mget (smProviders sm)) c"
  by (cases c) (auto simp: sources.inv_add sources.inv_delete sources.registered_add sources.registered_delete StopProviders_spec)

text \<open>C10: the source manager implements a map from names to providers: after any sequence of calls it has exactly
  the providers that were added last under their names and not deleted since, and for every one of them
  exactly one collection goroutine that has not been told to quit, which collects from that provider; no
  goroutine is left for anything else.\<close>

theorem source_manager_refines:
  "let sm = foldl handle new_manager cs; registered = foldl handle_spec Map.empty cs in
     mget (smProviders sm) = registered \<and>
     {(pvName (runs_provider sm i), runs_provider sm i) | i. live sm i} = {(n, p). registered n = Some p} \<and>
     inj_on (\<lambda>i. pvName (runs_provider sm i)) {i. live sm i}"
proof -
  define sm where "sm cs = foldl handle new_manager cs" for cs
  have ref: "registry_inv (foldl handle s cs) \<and> mget (smProviders (foldl handle s cs)) = foldl handle_spec (mget (smProviders s)) cs"
    if "registry_inv s" for s
    using that by (induction cs arbitrary: s) (simp_all add: handle_refines)
  have inv: "registry_inv (sm cs)" and abs: "mget (smProviders (sm cs)) = foldl handle_spec Map.empty cs"
  proof -
    have "mget (smProviders new_manager) = Map.empty" by (simp add: new_manager_def fun_eq_iff)
    with ref [OF registry_inv_new] show "registry_inv (sm cs)" "mget (smProviders (sm cs)) = foldl handle_spec Map.empty cs"
      by (simp_all add: sm_def)
  qed
  moreover have "inj_on (\<lambda>i. pvName (runs_provider (sm cs) i)) {i. live (sm cs) i}"
    using registry_invD(7) [OF inv] by (intro inj_onI) (metis mem_Collect_eq option.inject)
  moreover have "{(pvName (runs_provider (sm cs) i), runs_provider (sm cs) i) | i. live (sm cs) i} =
      {(n, p). foldl handle_spec Map.empty cs n = Some p}"
  proof (intro set_eqI iffI; clarify)
    fix i assume "live (sm cs) i"
    from registry_invD(6) [OF inv registry_invD(7) [OF inv this]]
    show "foldl handle_spec Map.empty cs (pvName (runs_provider (sm cs) i)) = Some (runs_provider (sm cs) i)"
      by (simp add: abs)
  next
    fix n p assume "foldl handle_spec Map.empty cs n = Some p"
    then have p: "mget (smProviders (sm cs)) n = Some p" by (simp add: abs)
    then obtain i where i: "mget (smQuits (sm cs)) n = Some i" using registry_invD(3) [OF inv, of n] by (auto simp: mhas_def)
    show "\<exists>i. (n, p) = (pvName (runs_provider (sm cs) i), runs_provider (sm cs) i) \<and> live (sm cs) i"
      using registry_invD(4-6) [OF inv i] p by (intro exI [of _ i]) simp
  qed
  ultimately show ?thesis by (simp add: Let_def sm_def)
qed

section \<open>Scraping\<close>

text \<open>A pass over the sources of a provider delivers the batches of the sources before the first one that fails,
  and counts that failure once, as a warning for a discovered source and as an error for a configured one;
  the sources after it are not scraped.\<close>

theorem scrape_until_error:
  assumes "\<forall>e \<in> set ok. \<exists>b. fst (snd e) = Inr (Some b)"
  shows "scrape timeout (ok @ (source, Inl err, latency) # rest) (c, sent) =
    Inr (if srcAutoDiscovered source then
           (c\<lparr>scTimeouts := scTimeouts c + of_nat (length (filter (\<lambda>e. \<not> snd (snd e) < timeout) ok)), scWarnings := scWarnings c + 1\<rparr>,
            sent @ map (\<lambda>e. the (projr (fst (snd e)))) ok)
         else
           (c\<lparr>scTimeouts := scTimeouts c + of_nat (length (filter (\<lambda>e. \<not> snd (snd e) < timeout) ok)), scErrors := scErrors c + 1\<rparr>,
            sent @ map (\<lambda>e. the (projr (fst (snd e)))) ok))"
  using assms
proof (induction ok arbitrary: c sent)
  case (Cons e ok)
  then obtain s b l where e: "e = (s, Inr (Some b), l)" by (metis list.set_intros(1) prod.collapse)
  with Cons.IH Cons.prems show ?case by (simp add: algebra_simps)
qed simp

lemma scrape_until_error_witness:
  "scrape Minute [(\<lparr>srcName = ''a'', srcAutoDiscovered = True\<rparr>, Inr (Some \<lparr>bTimestamp = 1, Sets = [], Metrics = []\<rparr>), 2 * Minute),
     (\<lparr>srcName = ''b'', srcAutoDiscovered = True\<rparr>, Inl ''refused'', 0),
     (\<lparr>srcName = ''c'', srcAutoDiscovered = True\<rparr>, Inr (Some \<lparr>bTimestamp = 3, Sets = [], Metrics = []\<rparr>), 0)]
     (\<lparr>scErrors = 0, scWarnings = 0, scTimeouts = 0, scMissed = 0\<rparr>, []) =
   Inr (\<lparr>scErrors = 0, scWarnings = 1, scTimeouts = 1, scMissed = 0\<rparr>, [\<lparr>bTimestamp = 1, Sets = [], Metrics = []\<rparr>])"
  using scrape_until_error [of "[(\<lparr>srcName = ''a'', srcAutoDiscovered = True\<rparr>, Inr (Some \<lparr>bTimestamp = 1, Sets = [], Metrics = []\<rparr>), 2 * Minute)]"]
  by (simp add: Minute_def Second_def)

end
