(* ===== verification/Aggregators.thy ===== *)
theory Aggregators
  imports Rates
begin

text \<open>
  The processors that aggregate metric sets (\<open>collector/plugins/processors\<close>: helper.go,
  sum_count_aggregator.go, namespace_aggregator.go, node_aggregator.go, cluster_aggregator.go,
  pod_aggregator.go, pod_resource_aggregator.go). A loop over \<open>batch.Sets\<close> runs over the keys the
  batch has when it starts and reads the set the batch holds at that moment; what the loops add
  are sets no iteration would aggregate, so that it does not matter whether Go visits them.
\<close>

section \<open>Adding values (helper.go)\<close>

text \<open>An unsupported or inconsistent type is an error: the name of the metric.\<close>

definition aggregate_metric :: "mset \<Rightarrow> mset \<Rightarrow> string \<Rightarrow> string + mset" where
  "aggregate_metric src dst metricName =
     (case mget (Values src) metricName of
        None \<Rightarrow> Inr dst
      | Some metricValue \<Rightarrow>
         (case mget (Values dst) metricName of
            None \<Rightarrow> Inr (dst\<lparr>Values := mput metricName metricValue (Values dst)\<rparr>)
          | Some aggregatedValue \<Rightarrow>
              if ValueTypeOf aggregatedValue \<noteq> ValueTypeOf metricValue
              then Inl (''aggregator: type not supported in '' @ metricName)
              else if ValueTypeOf aggregatedValue = ValueInt64
              then Inr (dst\<lparr>Values := mput metricName
                     (aggregatedValue\<lparr>IntValue := IntValue aggregatedValue + IntValue metricValue\<rparr>) (Values dst)\<rparr>)
              else if ValueTypeOf aggregatedValue = ValueFloat
              then Inr (dst\<lparr>Values := mput metricName
                     (aggregatedValue\<lparr>FloatValue := fadd (FloatValue aggregatedValue) (FloatValue metricValue)\<rparr>) (Values dst)\<rparr>)
              else Inl (''aggregator: type not supported in '' @ metricName)))"

definition aggregate :: "mset \<Rightarrow> mset \<Rightarrow> string list \<Rightarrow> string + mset" where
  "aggregate src dst metricsToAggregate = foldM (aggregate_metric src) dst metricsToAggregate"

definition aggregateCount :: "mset \<Rightarrow> mset \<Rightarrow> string \<Rightarrow> mset" where
  "aggregateCount src dst metricName =
     (let srcCount = (case mget (Values src) metricName of Some v \<Rightarrow> 0 + IntValue v | None \<Rightarrow> 1);
          dstCount = (case mget (Values dst) metricName of
                        Some d \<Rightarrow> d\<lparr>IntValue := IntValue d + srcCount\<rparr>
                      | None \<Rightarrow> intValue srcCount)
      in dst\<lparr>Values := mput metricName dstCount (Values dst)\<rparr>)"

section \<open>Sums and counts (sum_count_aggregator.go)\<close>

text \<open>The group of a set: its key, and the group's set if there is one or one can be made.\<close>

record SumCountAggregateSpec =
  ResourceSumMetrics :: "string list"
  ResourceCountMetric :: string
  IsPartOfGroup :: "mset \<Rightarrow> bool"
  Group :: "Batch \<Rightarrow> ResourceKey \<Rightarrow> mset \<Rightarrow> ResourceKey \<times> mset option"

definition sum_count_key :: "SumCountAggregateSpec \<Rightarrow> Batch \<Rightarrow> ResourceKey \<Rightarrow> string + Batch" where
  "sum_count_key spec batch resourceKey =
     (case mget (Sets batch) resourceKey of
        None \<Rightarrow> Inr batch
      | Some resourceSet \<Rightarrow>
          if \<not> IsPartOfGroup spec resourceSet then Inr batch
          else (case Group spec batch resourceKey resourceSet of
              (groupKey, None) \<Rightarrow> Inr batch
            | (groupKey, Some groupSet) \<Rightarrow>
               (case aggregate resourceSet (aggregateCount resourceSet groupSet (ResourceCountMetric spec))
                       (ResourceSumMetrics spec) of
                  Inl e \<Rightarrow> Inl e
                | Inr groupSet \<Rightarrow> Inr (batch\<lparr>Sets := mput groupKey groupSet (Sets batch)\<rparr>))))"

definition sum_count_spec :: "Batch \<Rightarrow> SumCountAggregateSpec \<Rightarrow> string + Batch" where
  "sum_count_spec batch spec = foldM (sum_count_key spec) batch (mkeys (Sets batch))"

definition SumCountAggregator_Process :: "SumCountAggregateSpec list \<Rightarrow> Batch \<Rightarrow> string + Batch" where
  "SumCountAggregator_Process specs batch = foldM sum_count_spec batch specs"

definition isType :: "string \<Rightarrow> mset \<Rightarrow> bool" where
  "isType matchType s \<longleftrightarrow> mgets (Labels s) (LabelKey LabelMetricSetType) = matchType"

definition podTakesUpResources :: "mset \<Rightarrow> bool" where
  "podTakesUpResources s \<longleftrightarrow>
     (let labels = fst (FindLabels s (Name MetricPodPhase))
      in mgets labels ''phase'' \<noteq> ''Succeeded'' \<and> mgets labels ''phase'' \<noteq> ''Failed'')"

definition podContainerTakesUpResources :: "mset \<Rightarrow> bool" where
  "podContainerTakesUpResources s \<longleftrightarrow>
     mgets (fst (FindLabels s (Name MetricContainerStatus))) ''state'' \<noteq> ''terminated''"

definition isAggregatablePod :: "mset \<Rightarrow> bool" where
  "isAggregatablePod s \<longleftrightarrow> isType MetricSetTypePod s \<and> podTakesUpResources s"

definition isAggregatablePodContainer :: "mset \<Rightarrow> bool" where
  "isAggregatablePodContainer s \<longleftrightarrow> isType MetricSetTypePodContainer s \<and> podContainerTakesUpResources s"

section \<open>The groups\<close>

definition namespaceMetricSet :: "string \<Rightarrow> string \<Rightarrow> mset" where
  "namespaceMetricSet namespaceName uid = emptySet\<lparr>Labels :=
     mput (LabelKey LabelPodNamespaceUID) uid (mput (LabelKey LabelNamespaceName) namespaceName
       (mput (LabelKey LabelMetricSetType) MetricSetTypeNamespace []))\<rparr>"

definition namespaceGroup :: "Batch \<Rightarrow> ResourceKey \<Rightarrow> mset \<Rightarrow> ResourceKey \<times> mset option" where
  "namespaceGroup batch resourceKey resourceSet =
     (case mget (Labels resourceSet) (LabelKey LabelNamespaceName) of
        None \<Rightarrow> ('''', None)
      | Some namespaceName \<Rightarrow>
         (NamespaceKey namespaceName,
          Some (case mget (Sets batch) (NamespaceKey namespaceName) of
             Some namespaceSet \<Rightarrow> namespaceSet
           | None \<Rightarrow> namespaceMetricSet namespaceName (mgets (Labels resourceSet) (LabelKey LabelPodNamespaceUID)))))"

definition nodeGroup :: "Batch \<Rightarrow> ResourceKey \<Rightarrow> mset \<Rightarrow> ResourceKey \<times> mset option" where
  "nodeGroup batch resourceKey resourceSet =
     (let nodeName = mgets (Labels resourceSet) (LabelKey LabelNodename)
      in if nodeName = '''' then ('''', None)
         else (NodeKey nodeName, mget (Sets batch) (NodeKey nodeName)))"

definition clusterMetricSet :: mset where
  "clusterMetricSet = emptySet\<lparr>Labels := mput (LabelKey LabelMetricSetType) MetricSetTypeCluster []\<rparr>"

definition clusterGroup :: "Batch \<Rightarrow> ResourceKey \<Rightarrow> mset \<Rightarrow> ResourceKey \<times> mset option" where
  "clusterGroup batch resourceKey resourceSet =
     (ClusterKey, Some (case mget (Sets batch) ClusterKey of Some clusterSet \<Rightarrow> clusterSet | None \<Rightarrow> clusterMetricSet))"

text \<open>The specifications of the three aggregators: sums and counts of pods, counts of containers.\<close>

definition pod_spec where
  "pod_spec sumMetrics part grp = \<lparr>ResourceSumMetrics = sumMetrics, ResourceCountMetric = Name MetricPodCount,
     IsPartOfGroup = part, Group = grp\<rparr>"

definition container_spec where
  "container_spec part grp = \<lparr>ResourceSumMetrics = [], ResourceCountMetric = Name MetricPodContainerCount,
     IsPartOfGroup = part, Group = grp\<rparr>"

lemma spec_sel [simp]:
  "ResourceSumMetrics (pod_spec ms part grp) = ms" "ResourceCountMetric (pod_spec ms part grp) = Name MetricPodCount"
  "IsPartOfGroup (pod_spec ms part grp) = part" "Group (pod_spec ms part grp) = grp"
  "ResourceSumMetrics (container_spec part grp) = []"
  "ResourceCountMetric (container_spec part grp) = Name MetricPodContainerCount"
  "IsPartOfGroup (container_spec part grp) = part" "Group (container_spec part grp) = grp"
  by (simp_all add: pod_spec_def container_spec_def)

definition NewNamespaceAggregator :: "string list \<Rightarrow> SumCountAggregateSpec list" where
  "NewNamespaceAggregator metricsToAggregate =
     [pod_spec metricsToAggregate isAggregatablePod namespaceGroup,
      container_spec isAggregatablePodContainer namespaceGroup]"

definition NewNodeAggregator :: "string list \<Rightarrow> SumCountAggregateSpec list" where
  "NewNodeAggregator metricsToAggregate =
     [pod_spec metricsToAggregate isAggregatablePod nodeGroup,
      container_spec isAggregatablePodContainer nodeGroup]"

definition NewClusterAggregator :: "string list \<Rightarrow> SumCountAggregateSpec list" where
  "NewClusterAggregator metricsToAggregate =
     [pod_spec metricsToAggregate (isType MetricSetTypeNamespace) clusterGroup,
      container_spec (isType MetricSetTypeNamespace) clusterGroup]"


section \<open>Lemmas: adding values\<close>

definition ival :: "mset option \<Rightarrow> string \<Rightarrow> int64" where
  "ival s m = (case s of None \<Rightarrow> 0 | Some s \<Rightarrow> (case mget (Values s) m of None \<Rightarrow> 0 | Some v \<Rightarrow> IntValue v))"

definition int_valued :: "mset \<Rightarrow> string \<Rightarrow> bool" where
  "int_valued s m \<longleftrightarrow> (\<forall>v. mget (Values s) m = Some v \<longrightarrow> ValueTypeOf v = ValueInt64)"

text \<open>What a set counts for: its own count, or one.\<close>

definition weight :: "string \<Rightarrow> mset \<Rightarrow> int64" where
  "weight m s = (case mget (Values s) m of Some v \<Rightarrow> IntValue v | None \<Rightarrow> 1)"

lemma ival_simps [simp]: "ival None m = 0"
  by (simp add: ival_def)

lemma aggregate_metric_frame:
  "aggregate_metric src dst n = Inr dst' \<Longrightarrow> Labels dst' = Labels dst \<and>
     (\<forall>m. m \<noteq> n \<longrightarrow> mget (Values dst') m = mget (Values dst) m)"
  by (auto simp: aggregate_metric_def split: option.splits if_splits)

lemma aggregate_metric_int:
  assumes "int_valued src n" and "int_valued dst n"
  shows "\<exists>dst'. aggregate_metric src dst n = Inr dst' \<and>
    ival (Some dst') n = ival (Some dst) n + ival (Some src) n \<and> int_valued dst' n"
  using assms by (auto simp: aggregate_metric_def ival_def int_valued_def split: option.splits)

lemma aggregate_frame:
  "aggregate src dst ms = Inr dst' \<Longrightarrow> Labels dst' = Labels dst \<and>
     (\<forall>m. m \<notin> set ms \<longrightarrow> mget (Values dst') m = mget (Values dst) m)"
  unfolding aggregate_def
proof (induction ms arbitrary: dst)
  case (Cons n ms)
  then obtain d where d: "aggregate_metric src dst n = Inr d" and rest: "foldM (aggregate_metric src) d ms = Inr dst'"
    by (auto split: sum.splits)
  from aggregate_metric_frame [OF d] Cons.IH [OF rest] show ?case by simp
qed simp

lemma ival_cong: "mget (Values s) m = mget (Values t) m \<Longrightarrow> ival (Some s) m = ival (Some t) m \<and> int_valued s m = int_valued t m"
  by (simp add: ival_def int_valued_def)

lemma aggregate_int:
  assumes "distinct ms" and "\<And>m. m \<in> set ms \<Longrightarrow> int_valued src m \<and> int_valued dst m"
  shows "\<exists>dst'. aggregate src dst ms = Inr dst' \<and>
    (\<forall>m \<in> set ms. ival (Some dst') m = ival (Some dst) m + ival (Some src) m \<and> int_valued dst' m)"
  using assms unfolding aggregate_def
proof (induction ms arbitrary: dst)
  case (Cons n ms)
  obtain d where d: "aggregate_metric src dst n = Inr d" "ival (Some d) n = ival (Some dst) n + ival (Some src) n" "int_valued d n"
    using aggregate_metric_int [of src n dst] Cons.prems(2) by auto
  have same: "ival (Some d) m = ival (Some dst) m \<and> int_valued d m = int_valued dst m" if "m \<noteq> n" for m
    using aggregate_metric_frame [OF d(1)] that by (intro ival_cong) simp
  have "\<exists>dst'. foldM (aggregate_metric src) d ms = Inr dst' \<and>
      (\<forall>m \<in> set ms. ival (Some dst') m = ival (Some d) m + ival (Some src) m \<and> int_valued dst' m)"
  proof (rule Cons.IH)
    show "distinct ms" using Cons.prems(1) by simp
    show "int_valued src m \<and> int_valued d m" if "m \<in> set ms" for m
      using Cons.prems same [of m] that by auto
  qed
  then obtain dst' where rest: "foldM (aggregate_metric src) d ms = Inr dst'"
    and sum: "\<forall>m \<in> set ms. ival (Some dst') m = ival (Some d) m + ival (Some src) m \<and> int_valued dst' m" by blast
  have n: "n \<notin> set ms" using Cons.prems(1) by simp
  have "ival (Some dst') n = ival (Some d) n \<and> int_valued dst' n = int_valued d n"
    using aggregate_frame [of src d ms dst'] rest n by (intro ival_cong) (simp add: aggregate_def)
  moreover have "m \<noteq> n" if "m \<in> set ms" for m using that n by auto
  ultimately show ?case using d sum same rest by auto
qed simp

lemma aggregateCount_frame [simp]:
  "Labels (aggregateCount src dst n) = Labels dst"
  "m \<noteq> n \<Longrightarrow> mget (Values (aggregateCount src dst n)) m = mget (Values dst) m"
  by (simp_all add: aggregateCount_def Let_def)

lemma aggregateCount_count:
  "ival (Some (aggregateCount src dst n)) n = ival (Some dst) n + weight n src"
  by (simp add: aggregateCount_def Let_def ival_def weight_def split: option.splits)

section \<open>Lemmas: grouping\<close>

text \<open>
  The contract of a group: which key a member belongs to, the set a missing group starts from,
  and that members and groups are told apart by their labels. The lemmas below are proved once
  from it and hold of the namespace, node and cluster groups by interpretation.
\<close>

locale grouping =
  fixes spec :: SumCountAggregateSpec
    and gkey :: "mset \<Rightarrow> ResourceKey option"
    and fresh :: "mset \<Rightarrow> mset option"
    and mtype :: "tagmap \<Rightarrow> bool"
    and creates :: bool
  assumes no_group: "gkey s = None \<Longrightarrow> snd (Group spec b k s) = None"
    and the_group: "gkey s = Some g \<Longrightarrow>
      Group spec b k s = (g, case mget (Sets b) g of Some t \<Rightarrow> Some t | None \<Rightarrow> fresh s)"
    and part_type: "IsPartOfGroup spec s \<Longrightarrow> mtype (Labels s)"
    and fresh_iff: "fresh s = None \<longleftrightarrow> \<not> creates"
    and fresh_group: "fresh s = Some t \<Longrightarrow> \<not> mtype (Labels t) \<and> Values t = []"
begin

definition apart :: "Batch \<Rightarrow> bool" where
  "apart b \<longleftrightarrow> (\<forall>g t k s. mget (Sets b) g = Some t \<longrightarrow> mtype (Labels t) \<longrightarrow>
     mget (Sets b) k = Some s \<longrightarrow> mtype (Labels s) \<longrightarrow> gkey s \<noteq> Some g)"

text \<open>A key no member of the batch belongs to.\<close>

definition foreign :: "Batch \<Rightarrow> ResourceKey \<Rightarrow> bool" where
  "foreign b j \<longleftrightarrow> (\<forall>k s. mget (Sets b) k = Some s \<longrightarrow> mtype (Labels s) \<longrightarrow> gkey s \<noteq> Some j)"

definition member :: "Batch \<Rightarrow> ResourceKey \<Rightarrow> ResourceKey \<Rightarrow> bool" where
  "member b g k \<longleftrightarrow> (\<exists>s. mget (Sets b) k = Some s \<and> IsPartOfGroup spec s \<and> gkey s = Some g)"

lemma step_cases:
  assumes "sum_count_key spec b k = Inr b1"
  obtains "b1 = b" "\<And>g. member b g k \<Longrightarrow> mget (Sets b) g = None \<and> \<not> creates"
  | s g t t' where "mget (Sets b) k = Some s" "IsPartOfGroup spec s" "gkey s = Some g"
      "mget (Sets b) g = Some t \<or> mget (Sets b) g = None \<and> fresh s = Some t"
      "aggregate s (aggregateCount s t (ResourceCountMetric spec)) (ResourceSumMetrics spec) = Inr t'"
      "b1 = b\<lparr>Sets := mput g t' (Sets b)\<rparr>"
proof (cases "mget (Sets b) k")
  case None
  then show thesis using assms that(1) by (auto simp: sum_count_key_def member_def)
next
  case (Some s)
  show thesis
  proof (cases "IsPartOfGroup spec s \<and> gkey s \<noteq> None")
    case False
    then have "b1 = b" using assms Some no_group [of s b k]
      by (auto simp: sum_count_key_def split: prod.splits option.splits if_splits)
    with False Some show thesis using that(1) by (auto simp: member_def)
  next
    case True
    then obtain g where g: "gkey s = Some g" and part: "IsPartOfGroup spec s" by auto
    show thesis
    proof (cases "snd (Group spec b k s)")
      case None
      then have "b1 = b" using assms Some part by (auto simp: sum_count_key_def split: prod.splits option.splits)
      moreover have "mget (Sets b) g = None \<and> \<not> creates" using None the_group [OF g, of b k] fresh_iff [of s]
        by (auto split: option.splits)
      ultimately show thesis using that(1) Some g by (auto simp: member_def)
    next
      case t: (Some t)
      then have grp: "Group spec b k s = (g, Some t)" using the_group [OF g, of b k] by (auto split: option.splits)
      then obtain t' where "aggregate s (aggregateCount s t (ResourceCountMetric spec)) (ResourceSumMetrics spec) = Inr t'"
          "b1 = b\<lparr>Sets := mput g t' (Sets b)\<rparr>"
        using assms Some part by (auto simp: sum_count_key_def split: sum.splits)
      with Some part g grp show thesis using that(2) [of s g t t'] the_group [OF g, of b k]
        by (auto split: option.splits)
    qed
  qed
qed

lemma step_member_sets:
  assumes "sum_count_key spec b k = Inr b1" and "apart b"
  shows "mtype (Labels s) \<Longrightarrow> mget (Sets b1) j = Some s \<longleftrightarrow> mget (Sets b) j = Some s"
    and "foreign b j \<Longrightarrow> mget (Sets b1) j = mget (Sets b) j"
    and "mhas (Sets b) j \<Longrightarrow> mhas (Sets b1) j"
proof -
  consider "b1 = b" | g r t t' where "b1 = b\<lparr>Sets := mput g t' (Sets b)\<rparr>" "\<not> foreign b g" "\<not> mtype (Labels t')"
      "\<forall>u. mget (Sets b) g = Some u \<longrightarrow> \<not> mtype (Labels u)"
    using assms(1)
  proof (cases rule: step_cases)
    case (2 s g t t')
    have ms: "mtype (Labels s)" using part_type [OF 2(2)] .
    have "\<not> mtype (Labels t)" using 2(1,3,4) ms assms(2) fresh_group by (auto simp: apart_def)
    moreover have "Labels t' = Labels t" using aggregate_frame [OF 2(5)] by simp
    moreover have "\<forall>u. mget (Sets b) g = Some u \<longrightarrow> \<not> mtype (Labels u)" using 2(1,3) ms assms(2) by (auto simp: apart_def)
    moreover have "\<not> foreign b g" using 2(1,3) ms by (auto simp: foreign_def)
    ultimately show thesis using that(2) 2(6) by metis
  qed auto
  note c = this
  show "mtype (Labels s) \<Longrightarrow> mget (Sets b1) j = Some s \<longleftrightarrow> mget (Sets b) j = Some s"
    using c by cases auto
  show "foreign b j \<Longrightarrow> mget (Sets b1) j = mget (Sets b) j"
    using c by cases auto
  show "mhas (Sets b) j \<Longrightarrow> mhas (Sets b1) j"
    using c by cases auto
qed

lemma apart_cong:
  assumes "\<And>s j. mtype (Labels s) \<Longrightarrow> mget (Sets b1) j = Some s \<longleftrightarrow> mget (Sets b) j = Some s"
  shows "apart b1 = apart b" "foreign b1 j = foreign b j"
  unfolding apart_def foreign_def using assms by metis+

lemma step_apart: "sum_count_key spec b k = Inr b1 \<Longrightarrow> apart b \<Longrightarrow> apart b1"
  using apart_cong(1) step_member_sets(1) by blast

lemma step_member: "sum_count_key spec b k = Inr b1 \<Longrightarrow> apart b \<Longrightarrow> member b1 g j = member b g j"
  using step_member_sets(1) [of b k b1 _ j] part_type unfolding member_def by metis

text \<open>What the set at a key adds to a metric of a group.\<close>

definition gain :: "Batch \<Rightarrow> ResourceKey \<Rightarrow> string \<Rightarrow> ResourceKey \<Rightarrow> int64" where
  "gain b g m k = (case mget (Sets b) k of
     Some s \<Rightarrow> if IsPartOfGroup spec s \<and> gkey s = Some g
               then (if m = ResourceCountMetric spec then weight m s else ival (Some s) m) else 0
   | None \<Rightarrow> 0)"

definition ints :: "Batch \<Rightarrow> bool" where
  "ints b \<longleftrightarrow> (\<forall>k s m. mget (Sets b) k = Some s \<longrightarrow> m \<in> set (ResourceSumMetrics spec) \<longrightarrow> int_valued s m)"

definition counted :: "string \<Rightarrow> bool" where
  "counted m \<longleftrightarrow> m = ResourceCountMetric spec \<or> m \<in> set (ResourceSumMetrics spec)"

lemma gain_cong:
  assumes "\<And>s j. mtype (Labels s) \<Longrightarrow> mget (Sets b1) j = Some s \<longleftrightarrow> mget (Sets b) j = Some s"
  shows "gain b1 g m j = gain b g m j"
proof (cases "\<exists>r. mget (Sets b) j = Some r \<and> IsPartOfGroup spec r")
  case True
  then obtain r where r: "mget (Sets b) j = Some r" "IsPartOfGroup spec r" by blast
  then have "mget (Sets b1) j = Some r" using assms [OF part_type [OF r(2)]] by blast
  with r show ?thesis by (simp add: gain_def)
next
  case False
  then have "\<nexists>r. mget (Sets b1) j = Some r \<and> IsPartOfGroup spec r"
    using assms [OF part_type] by blast
  with False show ?thesis by (auto simp: gain_def split: option.splits)
qed

lemma step_gain: "sum_count_key spec b k = Inr b1 \<Longrightarrow> apart b \<Longrightarrow> gain b1 g m j = gain b g m j"
  using step_member_sets(1) by (intro gain_cong) blast

lemma step_total:
  assumes "distinct (ResourceSumMetrics spec)" "ResourceCountMetric spec \<notin> set (ResourceSumMetrics spec)"
    and "ints b" "apart b"
  shows "\<exists>b1. sum_count_key spec b k = Inr b1 \<and> ints b1 \<and>
    (\<forall>g m. counted m \<longrightarrow> mhas (Sets b) g \<or> creates \<longrightarrow>
       ival (mget (Sets b1) g) m = ival (mget (Sets b) g) m + gain b g m k) \<and>
    (\<forall>g m. \<not> counted m \<longrightarrow> ival (mget (Sets b1) g) m = ival (mget (Sets b) g) m)"
proof (cases "sum_count_key spec b k = Inr b \<and> (\<forall>g. \<not> member b g k \<or> (mget (Sets b) g = None \<and> \<not> creates))")
  case True
  then have "gain b g m k = 0" if "mhas (Sets b) g \<or> creates" for g m
    using that by (auto simp: gain_def member_def mhas_def split: option.splits)
  with True assms(3) show ?thesis by auto
next
  case False
  note outer = this
  obtain s g t where s: "mget (Sets b) k = Some s" "IsPartOfGroup spec s" "gkey s = Some g"
      and grp: "Group spec b k s = (g, Some t)"
      and t: "mget (Sets b) g = Some t \<or> mget (Sets b) g = None \<and> fresh s = Some t"
  proof (cases "mget (Sets b) k")
    case None
    then show thesis using outer by (simp add: sum_count_key_def member_def)
  next
    case s: (Some s)
    show thesis
    proof (cases "IsPartOfGroup spec s \<and> gkey s \<noteq> None")
      case False
      then show thesis using outer s no_group [of s b k]
        by (auto simp: sum_count_key_def member_def split: prod.splits option.splits)
    next
      case True
      then obtain g where g: "gkey s = Some g" by auto
      show thesis
      proof (cases "snd (Group spec b k s)")
        case None
        then have "sum_count_key spec b k = Inr b" using s True
          by (auto simp: sum_count_key_def split: prod.splits)
        moreover have "mget (Sets b) g = None \<and> \<not> creates"
          using None the_group [OF g, of b k] fresh_iff [of s] by (auto split: option.splits)
        ultimately show thesis using outer s g by (auto simp: member_def)
      next
        case (Some t)
        then show thesis using that s True g the_group [OF g, of b k]
          by (auto split: option.splits)
      qed
    qed
  qed
  let ?c = "ResourceCountMetric spec" and ?ms = "ResourceSumMetrics spec"
  have tv: "int_valued t m" if "m \<in> set ?ms" for m
    using t assms(3) that fresh_group by (auto simp: ints_def int_valued_def)
  have count: "ival (Some (aggregateCount s t ?c)) m = ival (Some t) m \<and> int_valued (aggregateCount s t ?c) m = int_valued t m"
    if "m \<in> set ?ms" for m using that assms(2) by (intro ival_cong aggregateCount_frame(2)) auto
  obtain t' where t': "aggregate s (aggregateCount s t ?c) ?ms = Inr t'"
    and sum: "\<forall>m \<in> set ?ms. ival (Some t') m = ival (Some t) m + ival (Some s) m \<and> int_valued t' m"
    using aggregate_int [of ?ms s "aggregateCount s t ?c"] assms(1,3) s(1) tv count by (auto simp: ints_def)
  have "ival (Some t') ?c = ival (Some (aggregateCount s t ?c)) ?c"
    using aggregate_frame [OF t'] assms(2) by (intro conjunct1 [OF ival_cong]) simp
  then have cnt: "ival (Some t') ?c = ival (Some t) ?c + weight ?c s" by (simp add: aggregateCount_count)
  have b1: "sum_count_key spec b k = Inr (b\<lparr>Sets := mput g t' (Sets b)\<rparr>)"
    using s grp t' by (simp add: sum_count_key_def)
  have old: "ival (mget (Sets b) g) m = ival (Some t) m" for m
    using t fresh_group by (auto simp: ival_def)
  have "ints (b\<lparr>Sets := mput g t' (Sets b)\<rparr>)" using sum assms(3) by (auto simp: ints_def)
  moreover have "ival (mget (mput g t' (Sets b)) h) m = ival (mget (Sets b) h) m + gain b h m k" if "counted m" for h m
    using that sum cnt old s by (auto simp: gain_def counted_def)
  moreover have "ival (mget (mput g t' (Sets b)) h) m = ival (mget (Sets b) h) m" if "\<not> counted m" for h m
  proof -
    have "ival (Some t') m = ival (Some t) m"
      using that aggregate_frame [OF t'] by (intro conjunct1 [OF ival_cong]) (simp add: counted_def)
    then show ?thesis using old by auto
  qed
  ultimately show ?thesis using b1 by auto
qed

lemma fold_total:
  assumes "distinct (ResourceSumMetrics spec)" "ResourceCountMetric spec \<notin> set (ResourceSumMetrics spec)"
    and "ints b" "apart b"
  shows "\<exists>b1. foldM (sum_count_key spec) b ks = Inr b1 \<and> apart b1 \<and> (wf_map (Sets b) \<longrightarrow> wf_map (Sets b1)) \<and>
    (\<forall>s j. mtype (Labels s) \<longrightarrow> mget (Sets b1) j = Some s \<longleftrightarrow> mget (Sets b) j = Some s) \<and>
    (\<forall>g m. counted m \<longrightarrow> mhas (Sets b) g \<or> creates \<longrightarrow>
       ival (mget (Sets b1) g) m = ival (mget (Sets b) g) m + sum_list (map (gain b g m) ks)) \<and>
    (\<forall>g m. \<not> counted m \<longrightarrow> ival (mget (Sets b1) g) m = ival (mget (Sets b) g) m) \<and>
    (\<forall>j. mhas (Sets b) j \<longrightarrow> mhas (Sets b1) j) \<and>
    (\<forall>j. foreign b j \<longrightarrow> mget (Sets b1) j = mget (Sets b) j)"
  using assms(3,4)
proof (induction ks arbitrary: b)
  case (Cons k ks)
  obtain b1 where b1: "sum_count_key spec b k = Inr b1" "ints b1" and
      v: "\<forall>g m. counted m \<longrightarrow> mhas (Sets b) g \<or> creates \<longrightarrow>
         ival (mget (Sets b1) g) m = ival (mget (Sets b) g) m + gain b g m k" and
      u: "\<forall>g m. \<not> counted m \<longrightarrow> ival (mget (Sets b1) g) m = ival (mget (Sets b) g) m"
    using step_total [OF assms(1,2) Cons.prems] by blast
  note step = step_apart [OF b1(1) Cons.prems(2)] step_gain [OF b1(1) Cons.prems(2)]
    step_member_sets [OF b1(1) Cons.prems(2)]
  have wf1: "wf_map (Sets b) \<Longrightarrow> wf_map (Sets b1)"
    using b1(1) by (cases rule: step_cases) auto
  obtain b2 where b2: "foldM (sum_count_key spec) b1 ks = Inr b2" "apart b2" "wf_map (Sets b1) \<longrightarrow> wf_map (Sets b2)" and
      t: "\<forall>s j. mtype (Labels s) \<longrightarrow> mget (Sets b2) j = Some s \<longleftrightarrow> mget (Sets b1) j = Some s" and
      w: "\<forall>g m. counted m \<longrightarrow> mhas (Sets b1) g \<or> creates \<longrightarrow>
         ival (mget (Sets b2) g) m = ival (mget (Sets b1) g) m + sum_list (map (gain b1 g m) ks)" and
      x: "\<forall>g m. \<not> counted m \<longrightarrow> ival (mget (Sets b2) g) m = ival (mget (Sets b1) g) m" and
      h: "\<forall>j. mhas (Sets b1) j \<longrightarrow> mhas (Sets b2) j" and
      f: "\<forall>j. foreign b1 j \<longrightarrow> mget (Sets b2) j = mget (Sets b1) j"
    using Cons.IH [OF b1(2) step(1)] by blast
  have gains: "gain b1 g m = gain b g m" for g m using step(2) by blast
  have "ival (mget (Sets b2) g) m = ival (mget (Sets b) g) m + sum_list (map (gain b g m) (k # ks))"
    if "counted m" "mhas (Sets b) g \<or> creates" for g m
  proof -
    have "mhas (Sets b1) g \<or> creates" using that(2) step(5) by blast
    then have "ival (mget (Sets b2) g) m = ival (mget (Sets b1) g) m + sum_list (map (gain b g m) ks)"
      using w [rule_format, OF that(1)] by (simp add: gains)
    then show ?thesis using v [rule_format, OF that] by (simp add: add.assoc)
  qed
  note sums = this
  show ?case
  proof (intro exI [of _ b2] conjI allI impI)
    show "mget (Sets b2) j = mget (Sets b) j" if "foreign b j" for j
      using f that step(4) [of j] apart_cong(2) [OF step(3), of j] by simp
    show "ival (mget (Sets b2) g) m = ival (mget (Sets b) g) m" if "\<not> counted m" for g m
      using u x that by simp
    show "mget (Sets b2) j = Some s \<longleftrightarrow> mget (Sets b) j = Some s" if "mtype (Labels s)" for s j
      using t that step(3) by simp
  qed (use b1(1) b2 wf1 sums h step(5) in auto)
qed simp

text \<open>The loop over all sets of a batch.\<close>

lemma spec_total:
  assumes "distinct (ResourceSumMetrics spec)" "ResourceCountMetric spec \<notin> set (ResourceSumMetrics spec)"
    and "ints b" "apart b" "wf_map (Sets b)"
  obtains b1 where "sum_count_spec b spec = Inr b1" "apart b1" "wf_map (Sets b1)"
    "\<And>s j. mtype (Labels s) \<Longrightarrow> mget (Sets b1) j = Some s \<longleftrightarrow> mget (Sets b) j = Some s"
    "\<And>g m. counted m \<Longrightarrow> mhas (Sets b) g \<or> creates \<Longrightarrow>
       ival (mget (Sets b1) g) m = ival (mget (Sets b) g) m + (\<Sum>k \<in> set (mkeys (Sets b)). gain b g m k)"
    "\<And>g m. \<not> counted m \<Longrightarrow> ival (mget (Sets b1) g) m = ival (mget (Sets b) g) m"
    "\<And>j. mhas (Sets b) j \<Longrightarrow> mhas (Sets b1) j"
    "\<And>j. foreign b j \<Longrightarrow> mget (Sets b1) j = mget (Sets b) j"
proof -
  have d: "distinct (mkeys (Sets b))" using assms(5) by (simp add: wf_map_def mkeys_def)
  obtain b1 where b1: "foldM (sum_count_key spec) b (mkeys (Sets b)) = Inr b1" "apart b1" "wf_map (Sets b) \<longrightarrow> wf_map (Sets b1)"
    "\<forall>s j. mtype (Labels s) \<longrightarrow> mget (Sets b1) j = Some s \<longleftrightarrow> mget (Sets b) j = Some s"
    "\<forall>g m. counted m \<longrightarrow> mhas (Sets b) g \<or> creates \<longrightarrow>
       ival (mget (Sets b1) g) m = ival (mget (Sets b) g) m + sum_list (map (gain b g m) (mkeys (Sets b)))"
    "\<forall>g m. \<not> counted m \<longrightarrow> ival (mget (Sets b1) g) m = ival (mget (Sets b) g) m"
    "\<forall>j. mhas (Sets b) j \<longrightarrow> mhas (Sets b1) j"
    "\<forall>j. foreign b j \<longrightarrow> mget (Sets b1) j = mget (Sets b) j"
    using fold_total [OF assms(1-4)] by blast
  show thesis
    by (rule that [of b1])
      (use b1 assms(5) in \<open>auto simp: sum_count_spec_def sum_list_distinct_conv_sum_set [OF d]\<close>)
qed

text \<open>Summing over the keys is summing over the sets.\<close>

lemma gain_sum:
  assumes "wf_map (Sets b)"
  shows "(\<Sum>k \<in> set (mkeys (Sets b)). gain b g m k) =
    sum_list (map (\<lambda>s. if m = ResourceCountMetric spec then weight m s else ival (Some s) m)
      (filter (\<lambda>s. IsPartOfGroup spec s \<and> gkey s = Some g) (map snd (Sets b))))"
proof -
  have d: "distinct (mkeys (Sets b))" using assms by (simp add: wf_map_def mkeys_def)
  have "gain b g m (fst e) = (if IsPartOfGroup spec (snd e) \<and> gkey (snd e) = Some g
      then (if m = ResourceCountMetric spec then weight m (snd e) else ival (Some (snd e)) m) else 0)"
    if "e \<in> set (Sets b)" for e
    using that mget_iff_in_set [OF assms, of "fst e" "snd e"] by (simp add: gain_def)
  then have m: "map (gain b g m \<circ> fst) (Sets b) = map ((\<lambda>s. if IsPartOfGroup spec s \<and> gkey s = Some g
      then (if m = ResourceCountMetric spec then weight m s else ival (Some s) m) else 0) \<circ> snd) (Sets b)"
    by simp
  have "sum_list (map (gain b g m) (mkeys (Sets b))) = sum_list (map (\<lambda>s. if IsPartOfGroup spec s \<and> gkey s = Some g
      then (if m = ResourceCountMetric spec then weight m s else ival (Some s) m) else 0) (map snd (Sets b)))"
    unfolding mkeys_def map_map by (simp only: m)
  then show ?thesis by (simp only: sum_list_distinct_conv_sum_set [OF d] sum_list_map_filter')
qed

end

text \<open>Both specifications of an aggregator, one after the other, on the same kind of group.\<close>

locale pods_and_containers =
  pods: grouping "pod_spec sumMetrics part1 grp" gkey fresh mtype creates +
  conts: grouping "container_spec part2 grp" gkey fresh mtype creates
  for sumMetrics part1 part2 grp gkey fresh mtype creates
begin

definition members :: "(mset \<Rightarrow> bool) \<Rightarrow> ResourceKey \<Rightarrow> Batch \<Rightarrow> mset list" where
  "members part g b = filter (\<lambda>s. part s \<and> gkey s = Some g) (map snd (Sets b))"

lemma later_gains:
  assumes "\<And>s j. mtype (Labels s) \<Longrightarrow> mget (Sets b1) j = Some s \<longleftrightarrow> mget (Sets b) j = Some s"
  shows "(\<Sum>k \<in> set (mkeys (Sets b1)). conts.gain b1 g m k) = (\<Sum>k \<in> set (mkeys (Sets b)). conts.gain b g m k)"
proof (rule sum.mono_neutral_cong)
  have eq: "conts.gain b1 g m k = conts.gain b g m k" for k using assms by (rule conts.gain_cong)
  have none: "conts.gain c g m k = 0" if "k \<notin> set (mkeys (Sets c))" for c k
    using that by (simp add: conts.gain_def mhas_mkeys [symmetric] mhas_def)
  show "conts.gain b g m k = 0" if "k \<in> set (mkeys (Sets b)) - set (mkeys (Sets b1))" for k
    using that none [of k b1] eq by simp
  show "conts.gain b1 g m k = 0" if "k \<in> set (mkeys (Sets b1)) - set (mkeys (Sets b))" for k
    using that none [of k b] eq by simp
  show "conts.gain b1 g m k = conts.gain b g m k" if "k \<in> set (mkeys (Sets b1)) \<inter> set (mkeys (Sets b))" for k
    by (rule eq)
qed simp_all

lemma both_total:
  assumes "distinct sumMetrics" "Name MetricPodCount \<notin> set sumMetrics" "Name MetricPodContainerCount \<notin> set sumMetrics"
    and ints: "\<And>k s m. mget (Sets b) k = Some s \<Longrightarrow> m \<in> set sumMetrics \<Longrightarrow> int_valued s m"
    and "pods.apart b" "wf_map (Sets b)"
  obtains b2 where
    "SumCountAggregator_Process [pod_spec sumMetrics part1 grp, container_spec part2 grp] b = Inr b2" "wf_map (Sets b2)"
    "\<And>s j. mtype (Labels s) \<Longrightarrow> mget (Sets b2) j = Some s \<longleftrightarrow> mget (Sets b) j = Some s"
    "\<And>g m. mhas (Sets b) g \<or> creates \<Longrightarrow> m \<in> set sumMetrics \<Longrightarrow>
       ival (mget (Sets b2) g) m = ival (mget (Sets b) g) m + sum_list (map (\<lambda>s. ival (Some s) m) (members part1 g b))"
    "\<And>g. mhas (Sets b) g \<or> creates \<Longrightarrow> ival (mget (Sets b2) g) (Name MetricPodCount) =
       ival (mget (Sets b) g) (Name MetricPodCount) + sum_list (map (weight (Name MetricPodCount)) (members part1 g b))"
    "\<And>g. mhas (Sets b) g \<or> creates \<Longrightarrow> ival (mget (Sets b2) g) (Name MetricPodContainerCount) =
       ival (mget (Sets b) g) (Name MetricPodContainerCount) +
         sum_list (map (weight (Name MetricPodContainerCount)) (members part2 g b))"
    "\<And>j. pods.foreign b j \<Longrightarrow> mget (Sets b2) j = mget (Sets b) j"
proof -
  let ?p = "pod_spec sumMetrics part1 grp" and ?c = "container_spec part2 grp"
  have cs: "pods.counted m \<longleftrightarrow> m = Name MetricPodCount \<or> m \<in> set sumMetrics"
    "conts.counted m \<longleftrightarrow> m = Name MetricPodContainerCount" for m
    unfolding pods.counted_def conts.counted_def by simp_all
  have differ: "Name MetricPodCount \<noteq> Name MetricPodContainerCount" by (simp add: metric_defs)
  obtain b1 where b1: "sum_count_spec b ?p = Inr b1" "pods.apart b1" "wf_map (Sets b1)"
    and t1: "\<And>s j. mtype (Labels s) \<Longrightarrow> mget (Sets b1) j = Some s \<longleftrightarrow> mget (Sets b) j = Some s"
    and v1: "\<And>g m. pods.counted m \<Longrightarrow> mhas (Sets b) g \<or> creates \<Longrightarrow>
       ival (mget (Sets b1) g) m = ival (mget (Sets b) g) m + (\<Sum>k \<in> set (mkeys (Sets b)). pods.gain b g m k)"
    and u1: "\<And>g m. \<not> pods.counted m \<Longrightarrow> ival (mget (Sets b1) g) m = ival (mget (Sets b) g) m"
    and h1: "\<And>j. mhas (Sets b) j \<Longrightarrow> mhas (Sets b1) j"
    and f1: "\<And>j. pods.foreign b j \<Longrightarrow> mget (Sets b1) j = mget (Sets b) j"
    by (rule pods.spec_total [of b]) (use assms in \<open>auto simp: pods.ints_def\<close>)
  have ap: "conts.apart b1" using b1(2) by (simp add: pods.apart_def conts.apart_def)
  obtain b2 where b2: "sum_count_spec b1 ?c = Inr b2" "wf_map (Sets b2)"
    and t2: "\<And>s j. mtype (Labels s) \<Longrightarrow> mget (Sets b2) j = Some s \<longleftrightarrow> mget (Sets b1) j = Some s"
    and v2: "\<And>g m. conts.counted m \<Longrightarrow> mhas (Sets b1) g \<or> creates \<Longrightarrow>
       ival (mget (Sets b2) g) m = ival (mget (Sets b1) g) m + (\<Sum>k \<in> set (mkeys (Sets b1)). conts.gain b1 g m k)"
    and u2: "\<And>g m. \<not> conts.counted m \<Longrightarrow> ival (mget (Sets b2) g) m = ival (mget (Sets b1) g) m"
    and f2: "\<And>j. conts.foreign b1 j \<Longrightarrow> mget (Sets b2) j = mget (Sets b1) j"
    by (rule conts.spec_total [of b1]) (use b1(3) ap in \<open>auto simp: conts.ints_def\<close>)
  note gains = pods.gain_sum [OF assms(6)] conts.gain_sum [OF assms(6)]
  show thesis
  proof (rule that [of b2])
    show "SumCountAggregator_Process [?p, ?c] b = Inr b2" using b1(1) b2(1) by (simp add: SumCountAggregator_Process_def)
    show "wf_map (Sets b2)" by (rule b2(2))
    show "mget (Sets b2) j = Some s \<longleftrightarrow> mget (Sets b) j = Some s" if "mtype (Labels s)" for s j
      using t1 [OF that] t2 [OF that] by simp
    show "mget (Sets b2) j = mget (Sets b) j" if "pods.foreign b j" for j
      using f1 [OF that] f2 [of j] that pods.apart_cong(2) [OF t1, of j] by simp
    fix g assume g: "mhas (Sets b) g \<or> creates"
    then have g1: "mhas (Sets b1) g \<or> creates" using h1 by blast
    show "ival (mget (Sets b2) g) m = ival (mget (Sets b) g) m + sum_list (map (\<lambda>s. ival (Some s) m) (members part1 g b))"
      if "m \<in> set sumMetrics" for m
    proof -
      have "m \<noteq> Name MetricPodCount" "m \<noteq> Name MetricPodContainerCount" using that assms(2,3) by auto
      then show ?thesis using v1 [of m g] u2 [of m g] g that cs
        by (simp add: gains members_def)
    qed
    show "ival (mget (Sets b2) g) (Name MetricPodCount) = ival (mget (Sets b) g) (Name MetricPodCount) +
        sum_list (map (weight (Name MetricPodCount)) (members part1 g b))"
      using v1 [of "Name MetricPodCount" g] u2 [of "Name MetricPodCount" g] g cs differ
      by (simp add: gains members_def)
    show "ival (mget (Sets b2) g) (Name MetricPodContainerCount) = ival (mget (Sets b) g) (Name MetricPodContainerCount) +
        sum_list (map (weight (Name MetricPodContainerCount)) (members part2 g b))"
      using v2 [of "Name MetricPodContainerCount" g] u1 [of "Name MetricPodContainerCount" g] g1 cs differ assms(3)
        later_gains [OF t1, of g "Name MetricPodContainerCount"]
      by (simp add: gains members_def)
  qed
qed

end

section \<open>The groups keep the contract\<close>

definition ns_key :: "mset \<Rightarrow> ResourceKey option" where
  "ns_key s = map_option NamespaceKey (mget (Labels s) (LabelKey LabelNamespaceName))"

definition ns_fresh :: "mset \<Rightarrow> mset option" where
  "ns_fresh s = Some (namespaceMetricSet (mgets (Labels s) (LabelKey LabelNamespaceName))
     (mgets (Labels s) (LabelKey LabelPodNamespaceUID)))"

definition node_key :: "mset \<Rightarrow> ResourceKey option" where
  "node_key s = (let n = mgets (Labels s) (LabelKey LabelNodename) in if n = '''' then None else Some (NodeKey n))"

definition pod_labels :: "tagmap \<Rightarrow> bool" where
  "pod_labels ls \<longleftrightarrow> mgets ls (LabelKey LabelMetricSetType) \<in> {MetricSetTypePod, MetricSetTypePodContainer}"

definition ns_labels :: "tagmap \<Rightarrow> bool" where
  "ns_labels ls \<longleftrightarrow> mgets ls (LabelKey LabelMetricSetType) = MetricSetTypeNamespace"

lemmas set_type_defs = MetricSetTypePod_def MetricSetTypePodContainer_def MetricSetTypeNamespace_def
  MetricSetTypeCluster_def MetricSetTypeNode_def

lemma namespaceMetricSet_type: "\<not> pod_labels (Labels (namespaceMetricSet n u))" "Values (namespaceMetricSet n u) = []"
  by (simp_all add: namespaceMetricSet_def pod_labels_def set_type_defs emptySet_def label_defs)

lemma clusterMetricSet_type: "\<not> ns_labels (Labels clusterMetricSet)" "Values clusterMetricSet = []"
  by (simp_all add: clusterMetricSet_def ns_labels_def set_type_defs emptySet_def label_defs)

lemma aggregatable_labels:
  "isAggregatablePod s \<Longrightarrow> pod_labels (Labels s)" "isAggregatablePodContainer s \<Longrightarrow> pod_labels (Labels s)"
  by (simp_all add: isAggregatablePod_def isAggregatablePodContainer_def isType_def pod_labels_def)

lemma namespaceGroup_None: "ns_key s = None \<Longrightarrow> snd (namespaceGroup b k s) = None"
  by (simp add: ns_key_def namespaceGroup_def)

lemma namespaceGroup_Some: "ns_key s = Some g \<Longrightarrow>
  namespaceGroup b k s = (g, case mget (Sets b) g of Some t \<Rightarrow> Some t | None \<Rightarrow> ns_fresh s)"
  by (auto simp: ns_key_def namespaceGroup_def ns_fresh_def mgets_def split: option.splits)

lemma nodeGroup_None: "node_key s = None \<Longrightarrow> snd (nodeGroup b k s) = None"
  by (simp add: node_key_def nodeGroup_def Let_def split: if_splits)

lemma nodeGroup_Some: "node_key s = Some g \<Longrightarrow>
  nodeGroup b k s = (g, case mget (Sets b) g of Some t \<Rightarrow> Some t | None \<Rightarrow> None)"
  by (auto simp: node_key_def nodeGroup_def Let_def split: if_splits option.splits)

interpretation ns_pods: grouping "pod_spec sumMetrics isAggregatablePod namespaceGroup" ns_key ns_fresh pod_labels True
  for sumMetrics
  by unfold_locales
    (auto simp: namespaceGroup_None namespaceGroup_Some aggregatable_labels ns_fresh_def namespaceMetricSet_type)

interpretation ns_containers: grouping "container_spec isAggregatablePodContainer namespaceGroup" ns_key ns_fresh pod_labels True
  by unfold_locales
    (auto simp: namespaceGroup_None namespaceGroup_Some aggregatable_labels ns_fresh_def namespaceMetricSet_type)

interpretation node_pods: grouping "pod_spec sumMetrics isAggregatablePod nodeGroup" node_key "\<lambda>_. None" pod_labels False
  for sumMetrics
  by unfold_locales (auto simp: nodeGroup_None nodeGroup_Some aggregatable_labels)

interpretation node_containers: grouping "container_spec isAggregatablePodContainer nodeGroup" node_key "\<lambda>_. None" pod_labels False
  by unfold_locales (auto simp: nodeGroup_None nodeGroup_Some aggregatable_labels)

interpretation cluster_pods: grouping "pod_spec sumMetrics (isType MetricSetTypeNamespace) clusterGroup"
    "\<lambda>_. Some ClusterKey" "\<lambda>_. Some clusterMetricSet" ns_labels True
  for sumMetrics
  by unfold_locales
    (auto simp: clusterGroup_def isType_def ns_labels_def clusterMetricSet_type [unfolded ns_labels_def] split: option.splits)

interpretation cluster_containers: grouping "container_spec (isType MetricSetTypeNamespace) clusterGroup"
    "\<lambda>_. Some ClusterKey" "\<lambda>_. Some clusterMetricSet" ns_labels True
  by unfold_locales
    (auto simp: clusterGroup_def isType_def ns_labels_def clusterMetricSet_type [unfolded ns_labels_def] split: option.splits)

interpretation ns: pods_and_containers sumMetrics isAggregatablePod isAggregatablePodContainer namespaceGroup
    ns_key ns_fresh pod_labels True
  for sumMetrics
  by unfold_locales

interpretation nodes: pods_and_containers sumMetrics isAggregatablePod isAggregatablePodContainer nodeGroup
    node_key "\<lambda>_. None" pod_labels False
  for sumMetrics
  by unfold_locales

interpretation clusters: pods_and_containers sumMetrics "isType MetricSetTypeNamespace" "isType MetricSetTypeNamespace"
    clusterGroup "\<lambda>_. Some ClusterKey" "\<lambda>_. Some clusterMetricSet" ns_labels True
  for sumMetrics
  by unfold_locales

section \<open>What the aggregators promise\<close>

text \<open>The sets of a batch a namespace is made of.\<close>

definition in_namespace :: "(mset \<Rightarrow> bool) \<Rightarrow> string \<Rightarrow> Batch \<Rightarrow> mset list" where
  "in_namespace part n b =
     filter (\<lambda>s. part s \<and> mget (Labels s) (LabelKey LabelNamespaceName) = Some n) (map snd (Sets b))"

definition on_node :: "(mset \<Rightarrow> bool) \<Rightarrow> string \<Rightarrow> Batch \<Rightarrow> mset list" where
  "on_node part n b = filter (\<lambda>s. part s \<and> mgets (Labels s) (LabelKey LabelNodename) = n) (map snd (Sets b))"

text \<open>A batch the aggregators can work on: no pod or container set is stored under the key of the
  namespace or node of another, and the summed metrics are integers.\<close>

definition sums_ok :: "string list \<Rightarrow> Batch \<Rightarrow> bool" where
  "sums_ok ms b \<longleftrightarrow> wf_map (Sets b) \<and> distinct ms \<and> Name MetricPodCount \<notin> set ms \<and> Name MetricPodContainerCount \<notin> set ms \<and>
     (\<forall>e \<in> set (Sets b). \<forall>m \<in> set ms. int_valued (snd e) m)"

definition members_apart :: "Batch \<Rightarrow> bool" where
  "members_apart b \<longleftrightarrow> (\<forall>e \<in> set (Sets b). \<forall>e' \<in> set (Sets b). pod_labels (Labels (snd e)) \<longrightarrow> pod_labels (Labels (snd e')) \<longrightarrow>
     ns_key (snd e') \<noteq> Some (fst e) \<and> node_key (snd e') \<noteq> Some (fst e))"

lemma sums_okD:
  assumes "sums_ok ms b"
  shows "distinct ms" "Name MetricPodCount \<notin> set ms" "Name MetricPodContainerCount \<notin> set ms" "wf_map (Sets b)"
    "mget (Sets b) k = Some s \<Longrightarrow> m \<in> set ms \<Longrightarrow> int_valued s m"
  using assms by (auto simp: sums_ok_def dest!: mget_in_set)

lemma ns_apart: "members_apart b \<Longrightarrow> ns_pods.apart b"
  unfolding ns_pods.apart_def members_apart_def by (fastforce dest: mget_in_set)

lemma nodes_apart: "members_apart b \<Longrightarrow> node_pods.apart b"
  unfolding node_pods.apart_def members_apart_def by (fastforce dest: mget_in_set)

text \<open>A key none of the pods and containers of the batch belongs to.\<close>

definition no_group :: "(mset \<Rightarrow> ResourceKey option) \<Rightarrow> Batch \<Rightarrow> ResourceKey \<Rightarrow> bool" where
  "no_group key b j \<longleftrightarrow> (\<forall>e \<in> set (Sets b). pod_labels (Labels (snd e)) \<longrightarrow> key (snd e) \<noteq> Some j)"

lemma no_group_foreign: "no_group ns_key b j \<Longrightarrow> ns_pods.foreign b j" "no_group node_key b j \<Longrightarrow> node_pods.foreign b j"
  unfolding ns_pods.foreign_def node_pods.foreign_def no_group_def by (fastforce dest: mget_in_set)+

lemma ns_members: "ns.members part (NamespaceKey n) b = in_namespace part n b"
  by (auto simp: ns.members_def in_namespace_def ns_key_def intro!: filter_cong split: option.splits)

lemma node_members: "n \<noteq> '''' \<Longrightarrow> nodes.members part (NodeKey n) b = on_node part n b"
  by (auto simp: nodes.members_def on_node_def node_key_def Let_def intro!: filter_cong)

text \<open>C14: the namespace aggregator never fails on integer metrics; afterwards every namespace's value of a
  summed metric is its old value plus the values of the pods of the namespace that take up resources,
  its pod and container counts are the old ones plus those pods and containers (a set that carries a
  count of its own counts for it, any other for one), in 64-bit arithmetic and whatever the order of the
  map; and no set changes whose key is not the namespace of a pod or container.\<close>

theorem NamespaceAggregator_sums:
  assumes "sums_ok ms b" and "members_apart b"
  shows "\<exists>b'. SumCountAggregator_Process (NewNamespaceAggregator ms) b = Inr b' \<and>
    (\<forall>n. (\<forall>m \<in> set ms. ival (mget (Sets b') (NamespaceKey n)) m = ival (mget (Sets b) (NamespaceKey n)) m +
            sum_list (map (\<lambda>s. ival (Some s) m) (in_namespace isAggregatablePod n b))) \<and>
         ival (mget (Sets b') (NamespaceKey n)) (Name MetricPodCount) =
           ival (mget (Sets b) (NamespaceKey n)) (Name MetricPodCount) +
           sum_list (map (weight (Name MetricPodCount)) (in_namespace isAggregatablePod n b)) \<and>
         ival (mget (Sets b') (NamespaceKey n)) (Name MetricPodContainerCount) =
           ival (mget (Sets b) (NamespaceKey n)) (Name MetricPodContainerCount) +
           sum_list (map (weight (Name MetricPodContainerCount)) (in_namespace isAggregatablePodContainer n b))) \<and>
    (\<forall>k. no_group ns_key b k \<longrightarrow> mget (Sets b') k = mget (Sets b) k)"
proof -
  obtain b' where "SumCountAggregator_Process (NewNamespaceAggregator ms) b = Inr b'"
    "\<And>g m. m \<in> set ms \<Longrightarrow> ival (mget (Sets b') g) m =
       ival (mget (Sets b) g) m + sum_list (map (\<lambda>s. ival (Some s) m) (ns.members isAggregatablePod g b))"
    "\<And>g. ival (mget (Sets b') g) (Name MetricPodCount) = ival (mget (Sets b) g) (Name MetricPodCount) +
       sum_list (map (weight (Name MetricPodCount)) (ns.members isAggregatablePod g b))"
    "\<And>g. ival (mget (Sets b') g) (Name MetricPodContainerCount) = ival (mget (Sets b) g) (Name MetricPodContainerCount) +
       sum_list (map (weight (Name MetricPodContainerCount)) (ns.members isAggregatablePodContainer g b))"
    and f: "\<And>j. ns_pods.foreign b j \<Longrightarrow> mget (Sets b') j = mget (Sets b) j"
    by (rule ns.both_total [OF sums_okD(1-3) [OF assms(1)] sums_okD(5) [OF assms(1)] ns_apart [OF assms(2)] sums_okD(4) [OF assms(1)]])
      (auto simp: NewNamespaceAggregator_def)
  moreover note f [OF no_group_foreign(1)]
  ultimately show ?thesis by (auto simp: ns_members)
qed

text \<open>The node aggregator adds pods and containers to the sets of the nodes the batch knows in the same
  way, makes no set for a node it does not know, and changes nothing else.\<close>

theorem NodeAggregator_sums:
  assumes "sums_ok ms b" and "members_apart b"
  shows "\<exists>b'. SumCountAggregator_Process (NewNodeAggregator ms) b = Inr b' \<and>
    (\<forall>n. n \<noteq> '''' \<longrightarrow> mhas (Sets b) (NodeKey n) \<longrightarrow>
         (\<forall>m \<in> set ms. ival (mget (Sets b') (NodeKey n)) m = ival (mget (Sets b) (NodeKey n)) m +
            sum_list (map (\<lambda>s. ival (Some s) m) (on_node isAggregatablePod n b))) \<and>
         ival (mget (Sets b') (NodeKey n)) (Name MetricPodCount) =
           ival (mget (Sets b) (NodeKey n)) (Name MetricPodCount) +
           sum_list (map (weight (Name MetricPodCount)) (on_node isAggregatablePod n b)) \<and>
         ival (mget (Sets b') (NodeKey n)) (Name MetricPodContainerCount) =
           ival (mget (Sets b) (NodeKey n)) (Name MetricPodContainerCount) +
           sum_list (map (weight (Name MetricPodContainerCount)) (on_node isAggregatablePodContainer n b))) \<and>
    (\<forall>k. no_group node_key b k \<longrightarrow> mget (Sets b') k = mget (Sets b) k)"
proof -
  obtain b' where "SumCountAggregator_Process (NewNodeAggregator ms) b = Inr b'"
    "\<And>g m. mhas (Sets b) g \<Longrightarrow> m \<in> set ms \<Longrightarrow> ival (mget (Sets b') g) m =
       ival (mget (Sets b) g) m + sum_list (map (\<lambda>s. ival (Some s) m) (nodes.members isAggregatablePod g b))"
    "\<And>g. mhas (Sets b) g \<Longrightarrow> ival (mget (Sets b') g) (Name MetricPodCount) = ival (mget (Sets b) g) (Name MetricPodCount) +
       sum_list (map (weight (Name MetricPodCount)) (nodes.members isAggregatablePod g b))"
    "\<And>g. mhas (Sets b) g \<Longrightarrow> ival (mget (Sets b') g) (Name MetricPodContainerCount) = ival (mget (Sets b) g) (Name MetricPodContainerCount) +
       sum_list (map (weight (Name MetricPodContainerCount)) (nodes.members isAggregatablePodContainer g b))"
    and f: "\<And>j. node_pods.foreign b j \<Longrightarrow> mget (Sets b') j = mget (Sets b) j"
    by (rule nodes.both_total [OF sums_okD(1-3) [OF assms(1)] sums_okD(5) [OF assms(1)] nodes_apart [OF assms(2)] sums_okD(4) [OF assms(1)]])
      (auto simp: NewNodeAggregator_def)
  moreover note f [OF no_group_foreign(2)]
  ultimately show ?thesis by (auto simp: node_members)
qed

text \<open>The cluster aggregator adds up the namespaces of the batch: the sums of their values, and their pod
  and container counts, a namespace without a count counting for one.\<close>

theorem ClusterAggregator_sums:
  assumes "sums_ok ms b" and "\<And>s. mget (Sets b) ClusterKey = Some s \<Longrightarrow> \<not> isType MetricSetTypeNamespace s"
  shows "\<exists>b'. SumCountAggregator_Process (NewClusterAggregator ms) b = Inr b' \<and>
    (\<forall>m \<in> set ms. ival (mget (Sets b') ClusterKey) m = ival (mget (Sets b) ClusterKey) m +
       sum_list (map (\<lambda>s. ival (Some s) m) (filter (isType MetricSetTypeNamespace) (map snd (Sets b))))) \<and>
    ival (mget (Sets b') ClusterKey) (Name MetricPodCount) = ival (mget (Sets b) ClusterKey) (Name MetricPodCount) +
       sum_list (map (weight (Name MetricPodCount)) (filter (isType MetricSetTypeNamespace) (map snd (Sets b)))) \<and>
    ival (mget (Sets b') ClusterKey) (Name MetricPodContainerCount) =
       ival (mget (Sets b) ClusterKey) (Name MetricPodContainerCount) +
       sum_list (map (weight (Name MetricPodContainerCount)) (filter (isType MetricSetTypeNamespace) (map snd (Sets b)))) \<and>
    (\<forall>k. k \<noteq> ClusterKey \<longrightarrow> mget (Sets b') k = mget (Sets b) k)"
proof -
  have apart: "cluster_pods.apart b"
    using assms(2) by (auto simp: cluster_pods.apart_def ns_labels_def isType_def)
  have mem: "clusters.members (isType MetricSetTypeNamespace) ClusterKey b =
      filter (isType MetricSetTypeNamespace) (map snd (Sets b))"
    by (simp add: clusters.members_def)
  obtain b' where "SumCountAggregator_Process (NewClusterAggregator ms) b = Inr b'"
    "\<And>g m. m \<in> set ms \<Longrightarrow> ival (mget (Sets b') g) m = ival (mget (Sets b) g) m +
       sum_list (map (\<lambda>s. ival (Some s) m) (clusters.members (isType MetricSetTypeNamespace) g b))"
    "\<And>g. ival (mget (Sets b') g) (Name MetricPodCount) = ival (mget (Sets b) g) (Name MetricPodCount) +
       sum_list (map (weight (Name MetricPodCount)) (clusters.members (isType MetricSetTypeNamespace) g b))"
    "\<And>g. ival (mget (Sets b') g) (Name MetricPodContainerCount) = ival (mget (Sets b) g) (Name MetricPodContainerCount) +
       sum_list (map (weight (Name MetricPodContainerCount)) (clusters.members (isType MetricSetTypeNamespace) g b))"
    and f: "\<And>j. cluster_pods.foreign b j \<Longrightarrow> mget (Sets b') j = mget (Sets b) j"
    by (rule clusters.both_total [OF sums_okD(1-3) [OF assms(1)] sums_okD(5) [OF assms(1)] apart sums_okD(4) [OF assms(1)]])
      (auto simp: NewClusterAggregator_def)
  moreover have "cluster_pods.foreign b k" if "k \<noteq> ClusterKey" for k using that by (auto simp: cluster_pods.foreign_def)
  moreover note f
  ultimately show ?thesis by (auto simp: mem)
qed

definition typed_set :: "string \<Rightarrow> (string \<times> string) list \<Rightarrow> (string, mvalue) gomap \<Rightarrow> mset" where
  "typed_set t ls vs = emptySet\<lparr>Values := vs, Labels := (LabelKey LabelMetricSetType, t) # ls\<rparr>"

definition sample_pods :: Batch where
  "sample_pods = \<lparr>bTimestamp = 0, Sets =
     [(PodKey ''a'' ''p'', typed_set MetricSetTypePod [(LabelKey LabelNamespaceName, ''a''), (LabelKey LabelNodename, ''n'')]
         [(Name MetricMemoryUsage, intValue 5)]),
      (PodKey ''a'' ''q'', typed_set MetricSetTypePod [(LabelKey LabelNamespaceName, ''a''), (LabelKey LabelNodename, ''n'')]
         [(Name MetricMemoryUsage, intValue 7)]),
      (NodeKey ''n'', typed_set MetricSetTypeNode [] []),
      (NamespaceKey ''z'', typed_set MetricSetTypeNamespace [] [(Name MetricPodCount, intValue 4)])],
     Metrics = []\<rparr>"

lemma sample_pods_ok: "sums_ok [Name MetricMemoryUsage] sample_pods" "members_apart sample_pods"
proof -
  have "wf_map (Sets sample_pods)" by code_simp
  moreover have "Name MetricPodCount \<noteq> Name MetricMemoryUsage" "Name MetricPodContainerCount \<noteq> Name MetricMemoryUsage"
    by (simp_all add: metric_defs)
  ultimately show "sums_ok [Name MetricMemoryUsage] sample_pods"
    by (simp add: sums_ok_def sample_pods_def typed_set_def int_valued_def mget_Cons)
  show "members_apart sample_pods" by code_simp
qed

lemma NamespaceAggregator_sums_witness:
  "\<exists>b'. SumCountAggregator_Process (NewNamespaceAggregator [Name MetricMemoryUsage]) sample_pods = Inr b' \<and>
     ival (mget (Sets b') (NamespaceKey ''a'')) (Name MetricMemoryUsage) = 12"
proof -
  have p: "in_namespace isAggregatablePod ''a'' sample_pods = map snd (take 2 (Sets sample_pods))" by code_simp
  have v: "sum_list (map (\<lambda>s. ival (Some s) (Name MetricMemoryUsage)) (map snd (take 2 (Sets sample_pods)))) = 12"
    "ival (mget (Sets sample_pods) (NamespaceKey ''a'')) (Name MetricMemoryUsage) = 0" by code_simp+
  from NamespaceAggregator_sums [OF sample_pods_ok] obtain b' where
    "SumCountAggregator_Process (NewNamespaceAggregator [Name MetricMemoryUsage]) sample_pods = Inr b'"
    "ival (mget (Sets b') (NamespaceKey ''a'')) (Name MetricMemoryUsage) =
       ival (mget (Sets sample_pods) (NamespaceKey ''a'')) (Name MetricMemoryUsage) +
       sum_list (map (\<lambda>s. ival (Some s) (Name MetricMemoryUsage)) (in_namespace isAggregatablePod ''a'' sample_pods))"
    by auto
  then show ?thesis unfolding p v add_0 by blast
qed

lemma NodeAggregator_sums_witness:
  "\<exists>b'. SumCountAggregator_Process (NewNodeAggregator [Name MetricMemoryUsage]) sample_pods = Inr b' \<and>
     ival (mget (Sets b') (NodeKey ''n'')) (Name MetricPodCount) = 2"
proof -
  have v: "sum_list (map (weight (Name MetricPodCount)) (on_node isAggregatablePod ''n'' sample_pods)) = 2"
    "ival (mget (Sets sample_pods) (NodeKey ''n'')) (Name MetricPodCount) = 0" by code_simp+
  have h: "mhas (Sets sample_pods) (NodeKey ''n'')" by code_simp
  from NodeAggregator_sums [OF sample_pods_ok] obtain b' where
    "SumCountAggregator_Process (NewNodeAggregator [Name MetricMemoryUsage]) sample_pods = Inr b'"
    "ival (mget (Sets b') (NodeKey ''n'')) (Name MetricPodCount) =
       ival (mget (Sets sample_pods) (NodeKey ''n'')) (Name MetricPodCount) +
       sum_list (map (weight (Name MetricPodCount)) (on_node isAggregatablePod ''n'' sample_pods))"
    using h by auto
  then show ?thesis unfolding v(1,2) add_0 by blast
qed

lemma ClusterAggregator_sums_witness:
  "\<exists>b'. SumCountAggregator_Process (NewClusterAggregator [Name MetricMemoryUsage]) sample_pods = Inr b' \<and>
     ival (mget (Sets b') ClusterKey) (Name MetricPodCount) = 4"
proof -
  have v: "sum_list (map (weight (Name MetricPodCount)) (filter (isType MetricSetTypeNamespace) (map snd (Sets sample_pods)))) = 4"
    "ival (mget (Sets sample_pods) ClusterKey) (Name MetricPodCount) = 0" "mget (Sets sample_pods) ClusterKey = None" by code_simp+
  from ClusterAggregator_sums [OF sample_pods_ok(1)] v(3) obtain b' where
    "SumCountAggregator_Process (NewClusterAggregator [Name MetricMemoryUsage]) sample_pods = Inr b'"
    "ival (mget (Sets b') ClusterKey) (Name MetricPodCount) = ival (mget (Sets sample_pods) ClusterKey) (Name MetricPodCount) +
       sum_list (map (weight (Name MetricPodCount)) (filter (isType MetricSetTypeNamespace) (map snd (Sets sample_pods))))"
    by auto
  then show ?thesis unfolding v(1,2) add_0 by blast
qed

end
