(* ===== verification/Pod_Aggregation.thy ===== *)
theory Pod_Aggregation
  imports Aggregators
begin

text \<open>
  Pod level values (\<open>collector/plugins/processors\<close>: pod_aggregator.go sums the containers of a
  pod, pod_resource_aggregator.go adds requests and limits). The sets a loop writes through a pointer
  are looked up and stored again under their key. \<open>podRequestsAndLimits\<close> stands for the function of
  the kubectl library.
\<close>

section \<open>Summing containers (pod_aggregator.go)\<close>

definition LabelsToPopulate :: "LabelDescriptor list" where
  "LabelsToPopulate = [LabelPodId, LabelPodName, LabelNamespaceName, LabelPodNamespaceUID, LabelHostname, LabelHostID]"

definition podMetricSet :: "tagmap \<Rightarrow> mset" where
  "podMetricSet labels =
     (let newLabels = foldl (\<lambda>ls l. case mget labels (LabelKey l) of Some val \<Rightarrow> mput (LabelKey l) val ls | None \<Rightarrow> ls)
            (mput (LabelKey LabelMetricSetType) MetricSetTypePod []) LabelsToPopulate
      in emptySet\<lparr>Labels := newLabels\<rparr>)"

definition NewPodAggregator :: "string list \<Rightarrow> string list" where
  "NewPodAggregator additionalMetricsToSkip =
     additionalMetricsToSkip @
     map Name (filter (\<lambda>m. Type m = Cumulative \<or> Type m = Delta) StandardMetrics)"

text \<open>One value of a container, added to the set of its pod; the list holds the keys of the values that are sums.\<close>

definition add_container_value ::
  "string list \<Rightarrow> ResourceKey \<Rightarrow> mset \<times> string list \<Rightarrow> string \<times> mvalue \<Rightarrow> string + mset \<times> string list" where
  "add_container_value skippedMetrics podKey s e =
     (case s of (pod, requireAggregate) \<Rightarrow> case e of (metricName, metricValue) \<Rightarrow>
        if metricName \<in> set skippedMetrics then Inr s
        else
         (let aggregatedValue = mget (Values pod) metricName
          in if aggregatedValue = None \<or> IsZeroValue (the aggregatedValue)
             then Inr (pod\<lparr>Values := mput metricName metricValue (Values pod)\<rparr>, (podKey @ metricName) # requireAggregate)
             else if podKey @ metricName \<in> set requireAggregate
             then (if ValueTypeOf (the aggregatedValue) \<noteq> ValueTypeOf metricValue then Inr s
                   else if ValueTypeOf (the aggregatedValue) = ValueInt64
                   then Inr (pod\<lparr>Values := mput metricName ((the aggregatedValue)\<lparr>IntValue :=
                          IntValue (the aggregatedValue) + IntValue metricValue\<rparr>) (Values pod)\<rparr>, requireAggregate)
                   else if ValueTypeOf (the aggregatedValue) = ValueFloat
                   then Inr (pod\<lparr>Values := mput metricName ((the aggregatedValue)\<lparr>FloatValue :=
                          fadd (FloatValue (the aggregatedValue)) (FloatValue metricValue)\<rparr>) (Values pod)\<rparr>, requireAggregate)
                   else Inl (''PodAggregator: type not supported in '' @ metricName))
             else Inr (pod\<lparr>Values := mput metricName (the aggregatedValue) (Values pod)\<rparr>, requireAggregate)))"

text \<open>The batch's sets, the pods made on the way, and the sums.\<close>

record pod_state =
  psSets :: "(ResourceKey, mset) gomap"
  psNew :: "(ResourceKey, mset) gomap"
  psRequire :: "string list"

definition container_pod :: "mset \<Rightarrow> ResourceKey option" where
  "container_pod s =
     (if mget (Labels s) (LabelKey LabelMetricSetType) \<noteq> Some MetricSetTypePodContainer then None
      else case (mget (Labels s) (LabelKey LabelPodName), mget (Labels s) (LabelKey LabelNamespaceName)) of
        (Some podName, Some ns) \<Rightarrow> Some (PodKey ns podName)
      | _ \<Rightarrow> None)"

definition aggregate_container :: "string list \<Rightarrow> pod_state \<Rightarrow> ResourceKey \<Rightarrow> string + pod_state" where
  "aggregate_container skippedMetrics st key =
     (case mget (psSets st) key of
        None \<Rightarrow> Inr st
      | Some metricSet \<Rightarrow>
         (case container_pod metricSet of
            None \<Rightarrow> Inr st
          | Some podKey \<Rightarrow>
             (case mget (psSets st) podKey of
                Some pod \<Rightarrow>
                 (case foldM (add_container_value skippedMetrics podKey) (pod, psRequire st) (Values metricSet) of
                    Inl e \<Rightarrow> Inl e
                  | Inr (pod, req) \<Rightarrow> Inr (st\<lparr>psSets := mput podKey pod (psSets st), psRequire := req\<rparr>))
              | None \<Rightarrow>
                 (let pod = (case mget (psNew st) podKey of Some pod \<Rightarrow> pod | None \<Rightarrow> podMetricSet (Labels metricSet))
                  in case foldM (add_container_value skippedMetrics podKey) (pod, psRequire st) (Values metricSet) of
                       Inl e \<Rightarrow> Inl e
                     | Inr (pod, req) \<Rightarrow> Inr (st\<lparr>psNew := mput podKey pod (psNew st), psRequire := req\<rparr>)))))"

definition PodAggregator_Process :: "string list \<Rightarrow> Batch \<Rightarrow> string + Batch" where
  "PodAggregator_Process skippedMetrics batch =
     (case foldM (aggregate_container skippedMetrics) \<lparr>psSets = Sets batch, psNew = [], psRequire = []\<rparr> (mkeys (Sets batch)) of
        Inl e \<Rightarrow> Inl e
      | Inr st \<Rightarrow> Inr (batch\<lparr>Sets := mput_all (psNew st) (psSets st)\<rparr>))"

section \<open>Requests and limits (pod_resource_aggregator.go)\<close>

definition put_resource :: "string \<Rightarrow> string \<Rightarrow> mset \<Rightarrow> string \<times> quantity \<Rightarrow> mset" where
  "put_resource suffix storageMetric s e =
     (case e of (resourceName, q) \<Rightarrow>
        if resourceName = ''cpu''
        then s\<lparr>Values := mput (resourceName @ suffix) (intValue (qMilliValue q)) (Values s)\<rparr>
        else if resourceName = ''ephemeral-storage''
        then s\<lparr>Values := mput storageMetric (intValue (qValue q)) (Values s)\<rparr>
        else s\<lparr>Values := mput (resourceName @ suffix) (intValue (qValue q)) (Values s)\<rparr>)"

definition pod_resources :: "(Pod \<Rightarrow> resources \<times> resources) \<Rightarrow> Pod \<Rightarrow> mset \<Rightarrow> mset" where
  "pod_resources podRequestsAndLimits pod s =
     (let rl = podRequestsAndLimits pod;
          s = foldl (put_resource ''/request'' (Name MetricEphemeralStorageRequest)) s (fst rl)
      in foldl (put_resource ''/limit'' (Name MetricEphemeralStorageLimit)) s (snd rl))"

definition pod_resource_key ::
  "(Pod \<Rightarrow> resources \<times> resources) \<Rightarrow> (string \<Rightarrow> string \<Rightarrow> Pod option) \<Rightarrow>
   (ResourceKey, mset) gomap \<Rightarrow> ResourceKey \<Rightarrow> (ResourceKey, mset) gomap" where
  "pod_resource_key podRequestsAndLimits getPod sets batchKey =
     (case mget sets batchKey of
        None \<Rightarrow> sets
      | Some metricSet \<Rightarrow>
          if mget (Labels metricSet) (LabelKey LabelMetricSetType) \<noteq> Some MetricSetTypePod then sets
          else (case (mget (Labels metricSet) (LabelKey LabelPodName), mget (Labels metricSet) (LabelKey LabelNamespaceName)) of
              (Some podName, Some ns) \<Rightarrow>
               (case getPod ns podName of
                  None \<Rightarrow> mdel batchKey sets
                | Some pod \<Rightarrow> mput batchKey (pod_resources podRequestsAndLimits pod metricSet) sets)
            | _ \<Rightarrow> sets))"

definition PodResourceAggregator_Process ::
  "(Pod \<Rightarrow> resources \<times> resources) \<Rightarrow> (string \<Rightarrow> string \<Rightarrow> Pod option) \<Rightarrow> Batch \<Rightarrow> Batch" where
  "PodResourceAggregator_Process podRequestsAndLimits getPod batch =
     batch\<lparr>Sets := foldl (pod_resource_key podRequestsAndLimits getPod) (Sets batch) (mkeys (Sets batch))\<rparr>"

section \<open>Lemmas: the values of one container\<close>

definition known_types :: "mset \<Rightarrow> bool" where
  "known_types s \<longleftrightarrow> (\<forall>e \<in> set (Values s). ValueTypeOf (snd e) = ValueInt64 \<or> ValueTypeOf (snd e) = ValueFloat)"

lemma int_zero_iff: "mget (Values s) m = Some v \<Longrightarrow> int_valued s m \<Longrightarrow> IsZeroValue v \<longleftrightarrow> ival (Some s) m = 0"
  by (simp add: IsZeroValue_def int_valued_def ival_def)

lemma add_value_frame:
  assumes "add_container_value sk P (pod, req) (n, v) = Inr (pod', req')"
  shows "Labels pod' = Labels pod" "set req \<subseteq> set req'" "set req' \<subseteq> insert (P @ n) (set req)"
    "m \<noteq> n \<Longrightarrow> mget (Values pod') m = mget (Values pod) m"
  using assms by (auto simp: add_container_value_def Let_def split: if_splits)

lemma add_value_effect:
  assumes "add_container_value sk P (pod, req) (n, v) = Inr (pod', req')"
    and "n \<notin> set sk" "ValueTypeOf v = ValueInt64" "int_valued pod n"
  shows "ival (Some pod') n = (if ival (Some pod) n = 0 then IntValue v
           else if P @ n \<in> set req then ival (Some pod) n + IntValue v else ival (Some pod) n)"
    "P @ n \<in> set req' \<longleftrightarrow> P @ n \<in> set req \<or> ival (Some pod) n = 0" "int_valued pod' n"
proof -
  have z: "mget (Values pod) n = None \<or> IsZeroValue (the (mget (Values pod) n)) \<longleftrightarrow> ival (Some pod) n = 0"
    using int_zero_iff [OF _ assms(4)] by (cases "mget (Values pod) n") (auto simp: ival_def)
  show "ival (Some pod') n = (if ival (Some pod) n = 0 then IntValue v
           else if P @ n \<in> set req then ival (Some pod) n + IntValue v else ival (Some pod) n)"
    "P @ n \<in> set req' \<longleftrightarrow> P @ n \<in> set req \<or> ival (Some pod) n = 0" "int_valued pod' n"
    using assms z unfolding add_container_value_def
    by (auto simp: Let_def ival_def int_valued_def split: if_splits)
qed

lemma add_value_total:
  assumes "known_types pod" "wf_map (Values pod)" "ValueTypeOf v = ValueInt64 \<or> ValueTypeOf v = ValueFloat"
  obtains pod' req' where "add_container_value sk P (pod, req) (n, v) = Inr (pod', req')" "known_types pod'" "wf_map (Values pod')"
proof -
  have k: "known_types (pod\<lparr>Values := mput n u (Values pod)\<rparr>)" if "ValueTypeOf u = ValueInt64 \<or> ValueTypeOf u = ValueFloat" for u
    using assms(1,2) that by (auto simp: known_types_def mget_iff_in_set [symmetric] simp del: split_paired_All split: if_splits)
  have agg: "ValueTypeOf u = ValueInt64 \<or> ValueTypeOf u = ValueFloat" if "mget (Values pod) n = Some u" for u
    using assms(1) mget_in_set [OF that] by (auto simp: known_types_def)
  have "\<exists>p r. add_container_value sk P (pod, req) (n, v) = Inr (p, r) \<and> known_types p \<and> wf_map (Values p)"
  proof (cases "mget (Values pod) n")
    case None
    then show ?thesis using k [OF assms(3)] assms(1,2) by (simp add: add_container_value_def)
  next
    case (Some u)
    have ku: "known_types (pod\<lparr>Values := mput n (w :: mvalue) (Values pod)\<rparr>)" if "ValueTypeOf w = ValueTypeOf u" for w
      using agg [OF Some] that by (intro k) simp
    show ?thesis using k [OF assms(3)] ku assms(1,2) agg [OF Some]
      by (auto simp: add_container_value_def Some Let_def)
  qed
  then show thesis using that by blast
qed

text \<open>All values of one container.\<close>

lemma add_values_frame:
  assumes "foldM (add_container_value sk P) (pod, req) vs = Inr (pod', req')"
  shows "Labels pod' = Labels pod" "set req \<subseteq> set req'" "set req' \<subseteq> set req \<union> (@) P ` fst ` set vs"
    "m \<notin> fst ` set vs \<Longrightarrow> mget (Values pod') m = mget (Values pod) m"
proof -
  have "Labels pod' = Labels pod \<and> set req \<subseteq> set req' \<and> set req' \<subseteq> set req \<union> (@) P ` fst ` set vs \<and>
      (m \<notin> fst ` set vs \<longrightarrow> mget (Values pod') m = mget (Values pod) m)"
    using assms
  proof (induction vs arbitrary: pod req)
    case (Cons e vs)
    obtain n v where e: "e = (n, v)" by (cases e)
    obtain p r where 1: "add_container_value sk P (pod, req) (n, v) = Inr (p, r)"
      and 2: "foldM (add_container_value sk P) (p, r) vs = Inr (pod', req')"
      using Cons.prems by (auto simp: e split: sum.splits)
    from add_value_frame [OF 1] Cons.IH [OF 2] show ?case by (auto simp: e)
  qed simp
  then show "Labels pod' = Labels pod" "set req \<subseteq> set req'" "set req' \<subseteq> set req \<union> (@) P ` fst ` set vs"
    "m \<notin> fst ` set vs \<Longrightarrow> mget (Values pod') m = mget (Values pod) m" by blast+
qed

lemma add_values_total:
  assumes "known_types pod" "wf_map (Values pod)" "\<forall>e \<in> set vs. ValueTypeOf (snd e) = ValueInt64 \<or> ValueTypeOf (snd e) = ValueFloat"
  obtains pod' req' where "foldM (add_container_value sk P) (pod, req) vs = Inr (pod', req')" "known_types pod'" "wf_map (Values pod')"
  using assms
proof (induction vs arbitrary: thesis pod req)
  case (Cons e vs)
  obtain n v where e: "e = (n, v)" by (cases e)
  obtain p r where 1: "add_container_value sk P (pod, req) (n, v) = Inr (p, r)" "known_types p" "wf_map (Values p)"
    using add_value_total [of pod v sk P req n] Cons.prems by (auto simp: e)
  obtain pod' req' where "foldM (add_container_value sk P) (p, r) vs = Inr (pod', req')" "known_types pod'" "wf_map (Values pod')"
    using Cons.IH [OF _ 1(2,3)] Cons.prems(4) by auto
  then show ?case using Cons.prems(1) 1(1) by (simp add: e)
qed simp

lemma add_values_effect:
  assumes "foldM (add_container_value sk P) (pod, req) vs = Inr (pod', req')" "wf_map vs"
    and "m \<notin> set sk" "int_valued pod m" "\<And>v. mget vs m = Some v \<Longrightarrow> ValueTypeOf v = ValueInt64"
  shows "int_valued pod' m \<and>
    (case mget vs m of
       None \<Rightarrow> ival (Some pod') m = ival (Some pod) m \<and> (P @ m \<in> set req' \<longleftrightarrow> P @ m \<in> set req)
     | Some v \<Rightarrow>
         ival (Some pod') m = (if ival (Some pod) m = 0 then IntValue v
           else if P @ m \<in> set req then ival (Some pod) m + IntValue v else ival (Some pod) m) \<and>
         (P @ m \<in> set req' \<longleftrightarrow> P @ m \<in> set req \<or> ival (Some pod) m = 0))"
  using assms(1,2,4,5)
proof (induction vs arbitrary: pod req)
  case (Cons e vs)
  obtain n v where e: "e = (n, v)" by (cases e)
  obtain p r where 1: "add_container_value sk P (pod, req) (n, v) = Inr (p, r)"
    and 2: "foldM (add_container_value sk P) (p, r) vs = Inr (pod', req')"
    using Cons.prems by (auto simp: e split: sum.splits)
  have wf: "wf_map vs" "n \<notin> fst ` set vs" using Cons.prems(2) by (auto simp: wf_map_def e)
  show ?case
  proof (cases "m = n")
    case True
    have v: "ValueTypeOf v = ValueInt64" using Cons.prems(4) True by (simp add: e mget_Cons)
    note eff = add_value_effect [OF 1 _ v] add_values_frame [OF 2]
    have "mget (Values pod') m = mget (Values p) m" using eff(7) wf(2) True by blast
    then have same: "ival (Some pod') m = ival (Some p) m \<and> int_valued pod' m = int_valued p m" by (rule ival_cong)
    have "P @ m \<in> set req' \<longleftrightarrow> P @ m \<in> set r" using eff(5,6) wf(2) True by auto
    with same show ?thesis using eff(1-3) assms(3) Cons.prems(3) True by (simp add: e mget_Cons)
  next
    case False
    have "mget (Values p) m = mget (Values pod) m" using add_value_frame(4) [OF 1 False] .
    then have same: "ival (Some p) m = ival (Some pod) m \<and> int_valued p m = int_valued pod m" by (rule ival_cong)
    have r: "P @ m \<in> set r \<longleftrightarrow> P @ m \<in> set req" using add_value_frame(2,3) [OF 1] False by auto
    have "\<And>v. mget vs m = Some v \<Longrightarrow> ValueTypeOf v = ValueInt64" using Cons.prems(4) False by (simp add: e mget_Cons)
    from Cons.IH [OF 2 wf(1) _ this] Cons.prems(3) same r False show ?thesis by (simp add: e mget_Cons split: option.splits)
  qed
qed simp

section \<open>Lemmas: the loop over the containers\<close>

definition pod_at :: "pod_state \<Rightarrow> ResourceKey \<Rightarrow> mset option" where
  "pod_at st P = (case mget (psSets st) P of Some s \<Rightarrow> Some s | None \<Rightarrow> mget (psNew st) P)"

definition start_pod :: "pod_state \<Rightarrow> ResourceKey \<Rightarrow> mset \<Rightarrow> mset" where
  "start_pod st P s = (case pod_at st P of Some pod \<Rightarrow> pod | None \<Rightarrow> podMetricSet (Labels s))"

definition set_pod :: "ResourceKey \<Rightarrow> mset \<Rightarrow> string list \<Rightarrow> pod_state \<Rightarrow> pod_state" where
  "set_pod P pod req st =
     (if mhas (psSets st) P then st\<lparr>psSets := mput P pod (psSets st), psRequire := req\<rparr>
      else st\<lparr>psNew := mput P pod (psNew st), psRequire := req\<rparr>)"

lemma aggregate_container_eq:
  "aggregate_container sk st k =
     (case mget (psSets st) k of None \<Rightarrow> Inr st
      | Some s \<Rightarrow> (case container_pod s of None \<Rightarrow> Inr st
         | Some P \<Rightarrow> (case foldM (add_container_value sk P) (start_pod st P s, psRequire st) (Values s) of
              Inl e \<Rightarrow> Inl e | Inr r \<Rightarrow> Inr (set_pod P (fst r) (snd r) st))))"
  by (auto simp: aggregate_container_def start_pod_def pod_at_def set_pod_def mhas_def Let_def
      split: option.splits sum.splits prod.splits)

lemma pod_at_set_pod [simp]: "pod_at (set_pod P pod req st) Q = (if P = Q then Some pod else pod_at st Q)"
  by (auto simp: set_pod_def pod_at_def mhas_def split: option.splits)

lemma psRequire_set_pod [simp]: "psRequire (set_pod P pod req st) = req"
  by (simp add: set_pod_def)

lemma Values_podMetricSet [simp]: "Values (podMetricSet ls) = []"
  by (simp add: podMetricSet_def emptySet_def Let_def)

text \<open>What the loop keeps: the containers of the batch, and well-formed sets of known types.\<close>

definition pods_inv :: "Batch \<Rightarrow> pod_state \<Rightarrow> bool" where
  "pods_inv b st \<longleftrightarrow>
     wf_map (psSets st) \<and> wf_map (psNew st) \<and> (\<forall>k. mhas (psNew st) k \<longrightarrow> \<not> mhas (psSets st) k) \<and>
     (\<forall>k s. container_pod s \<noteq> None \<longrightarrow> mget (psSets st) k = Some s \<longleftrightarrow> mget (Sets b) k = Some s) \<and>
     (\<forall>k s. pod_at st k = Some s \<longrightarrow> known_types s \<and> wf_map (Values s))"

definition pods_ok :: "Batch \<Rightarrow> bool" where
  "pods_ok b \<longleftrightarrow> wf_map (Sets b) \<and> (\<forall>e \<in> set (Sets b). known_types (snd e) \<and> wf_map (Values (snd e))) \<and>
     (\<forall>e \<in> set (Sets b). \<forall>e' \<in> set (Sets b). container_pod (snd e) \<noteq> None \<longrightarrow> container_pod (snd e') \<noteq> Some (fst e))"

lemma container_pod_Labels: "Labels s = Labels t \<Longrightarrow> container_pod s = container_pod t"
  by (simp add: container_pod_def)

lemma container_pod_podMetricSet: "container_pod (podMetricSet ls) = None"
proof -
  have "mget (foldl (\<lambda>m l. case mget ls (LabelKey l) of Some val \<Rightarrow> mput (LabelKey l) val m | None \<Rightarrow> m) m0 ds) k = mget m0 k"
    if "k \<notin> LabelKey ` set ds" for m0 ds k
    using that by (induction ds arbitrary: m0) (auto split: option.splits)
  from this [of "LabelKey LabelMetricSetType" LabelsToPopulate "mput (LabelKey LabelMetricSetType) MetricSetTypePod []"]
  show ?thesis
    by (simp add: container_pod_def podMetricSet_def emptySet_def Let_def LabelsToPopulate_def label_defs set_type_defs)
qed

lemma container_step:
  assumes ok: "pods_ok b" and inv: "pods_inv b st" and s: "mget (Sets b) k = Some s" "container_pod s = Some P"
  obtains pod req where "aggregate_container sk st k = Inr (set_pod P pod req st)"
    "foldM (add_container_value sk P) (start_pod st P s, psRequire st) (Values s) = Inr (pod, req)"
    "pods_inv b (set_pod P pod req st)"
proof -
  have same: "mget (psSets st) j = Some t \<longleftrightarrow> mget (Sets b) j = Some t" if "container_pod t \<noteq> None" for j t
    using inv that unfolding pods_inv_def by blast
  have k: "mget (psSets st) k = Some s" using same s by simp
  have known: "known_types s" "wf_map (Values s)" using ok mget_in_set [OF s(1)] by (auto simp: pods_ok_def)
  have start: "known_types (start_pod st P s)" "wf_map (Values (start_pod st P s))"
    using inv by (auto simp: start_pod_def pods_inv_def known_types_def split: option.splits)
  obtain pod req where pr: "foldM (add_container_value sk P) (start_pod st P s, psRequire st) (Values s) = Inr (pod, req)"
      "known_types pod" "wf_map (Values pod)"
  proof (rule add_values_total [OF start])
    show "\<forall>e \<in> set (Values s). ValueTypeOf (snd e) = ValueInt64 \<or> ValueTypeOf (snd e) = ValueFloat"
      using known(1) by (simp add: known_types_def)
  qed
  have notc: "container_pod t = None" if "mget (psSets st) P = Some t" for t
  proof (rule ccontr)
    assume c: "container_pod t \<noteq> None"
    then have "mget (Sets b) P = Some t" using same that by simp
    then show False using ok c mget_in_set [OF s(1)] s(2) mget_in_set [of "Sets b" P t] by (fastforce simp: pods_ok_def)
  qed
  have "Labels pod = Labels (start_pod st P s)" using add_values_frame(1) [OF pr(1)] .
  then have cp: "container_pod pod = None" if "mhas (psSets st) P"
    using that notc container_pod_Labels [of pod "start_pod st P s"]
    by (auto simp: start_pod_def pod_at_def mhas_def split: option.splits)
  have "pods_inv b (set_pod P pod req st)"
    unfolding pods_inv_def
  proof (intro conjI allI impI)
    show "wf_map (psSets (set_pod P pod req st))" "wf_map (psNew (set_pod P pod req st))"
      using inv by (auto simp: set_pod_def pods_inv_def)
    show "\<not> mhas (psSets (set_pod P pod req st)) j" if "mhas (psNew (set_pod P pod req st)) j" for j
      using inv that by (auto simp: set_pod_def pods_inv_def split: if_splits)
    show "mget (psSets (set_pod P pod req st)) j = Some t \<longleftrightarrow> mget (Sets b) j = Some t" if "container_pod t \<noteq> None" for j t
    proof (cases "mhas (psSets st) P \<and> j = P")
      case True
      then have "mget (psSets (set_pod P pod req st)) j = Some pod" by (simp add: set_pod_def)
      moreover have "mget (Sets b) j \<noteq> Some t"
      proof
        assume "mget (Sets b) j = Some t"
        then have "mget (psSets st) P = Some t" using same [OF that, of P] True by simp
        from notc [OF this] that show False by simp
      qed
      ultimately show ?thesis using cp True that by auto
    next
      case False
      then have "mget (psSets (set_pod P pod req st)) j = mget (psSets st) j" by (auto simp: set_pod_def)
      then show ?thesis using same [OF that] by simp
    qed
    show "known_types t" "wf_map (Values t)" if "pod_at (set_pod P pod req st) j = Some t" for j t
      using that inv pr(2,3) by (auto simp: pods_inv_def split: if_splits)
  qed
  then show thesis using that pr(1) k s by (simp add: aggregate_container_eq)
qed

text \<open>What the value of one metric of one pod is while the loop runs: \<open>old\<close> is what the pod started with
  and \<open>tot\<close> the sum of the containers so far.\<close>

definition sum_state :: "int64 \<Rightarrow> int64 \<Rightarrow> pod_state \<Rightarrow> ResourceKey \<Rightarrow> string \<Rightarrow> bool" where
  "sum_state old tot st P m \<longleftrightarrow>
     (\<forall>s. pod_at st P = Some s \<longrightarrow> int_valued s m) \<and>
     (if old \<noteq> 0 then ival (pod_at st P) m = old \<and> P @ m \<notin> set (psRequire st)
      else ival (pod_at st P) m = tot \<and> (P @ m \<in> set (psRequire st) \<or> tot = 0))"

text \<open>No container of another pod writes a sum under the same key.\<close>

definition clear_key :: "Batch \<Rightarrow> ResourceKey \<Rightarrow> string \<Rightarrow> bool" where
  "clear_key b P m \<longleftrightarrow> (\<forall>e \<in> set (Sets b). \<forall>n \<in> set (mkeys (Values (snd e))).
     case container_pod (snd e) of Some Q \<Rightarrow> Q @ n = P @ m \<longrightarrow> Q = P | None \<Rightarrow> True)"

definition containers_at :: "Batch \<Rightarrow> ResourceKey \<Rightarrow> ResourceKey list \<Rightarrow> mset list" where
  "containers_at b P ks = List.map_filter (\<lambda>k. case mget (Sets b) k of
     Some s \<Rightarrow> if container_pod s = Some P then Some s else None | None \<Rightarrow> None) ks"

lemma sum_state_same:
  assumes "foldM (add_container_value sk P) (start_pod st P s, psRequire st) (Values s) = Inr (pod, req)"
    and "wf_map (Values s)" "m \<notin> set sk" "int_valued s m" "sum_state old tot st P m"
  shows "sum_state old (tot + ival (Some s) m) (set_pod P pod req st) P m"
proof -
  have i: "int_valued (start_pod st P s) m" "ival (Some (start_pod st P s)) m = ival (pod_at st P) m"
    using assms(5) by (auto simp: start_pod_def sum_state_def int_valued_def ival_def split: option.splits)
  have "\<And>v. mget (Values s) m = Some v \<Longrightarrow> ValueTypeOf v = ValueInt64" using assms(4) by (simp add: int_valued_def)
  note eff = add_values_effect [OF assms(1-3) i(1) this]
  show ?thesis
  proof (cases "mget (Values s) m")
    case None
    then have "ival (Some s) m = 0" by (simp add: ival_def)
    with None eff i(2) assms(5) show ?thesis by (simp add: sum_state_def)
  next
    case (Some v)
    then have "ival (Some s) m = IntValue v" by (simp add: ival_def)
    with Some eff i(2) assms(5) show ?thesis by (auto simp: sum_state_def)
  qed
qed

lemma sum_state_other:
  assumes "foldM (add_container_value sk Q) (start_pod st Q s, psRequire st) (Values s) = Inr (pod, req)"
    and "Q \<noteq> P" "\<forall>n \<in> set (mkeys (Values s)). Q @ n \<noteq> P @ m" "sum_state old tot st P m"
  shows "sum_state old tot (set_pod Q pod req st) P m"
proof -
  have "P @ m \<in> set req \<longleftrightarrow> P @ m \<in> set (psRequire st)"
    using add_values_frame(2,3) [OF assms(1)] assms(3) by (fastforce simp: mkeys_def)
  with assms(2,4) show ?thesis by (simp add: sum_state_def)
qed

lemma containers_fold:
  assumes ok: "pods_ok b" and "pods_inv b st"
  shows "\<exists>st'. foldM (aggregate_container sk) st ks = Inr st' \<and> pods_inv b st' \<and>
    (\<forall>P m old tot. m \<notin> set sk \<longrightarrow> clear_key b P m \<longrightarrow> (\<forall>e \<in> set (Sets b). int_valued (snd e) m) \<longrightarrow>
       sum_state old tot st P m \<longrightarrow>
       sum_state old (tot + sum_list (map (\<lambda>s. ival (Some s) m) (containers_at b P ks))) st' P m) \<and>
    (\<forall>P. containers_at b P ks = [] \<longrightarrow> pod_at st' P = pod_at st P)"
  using assms(2)
proof (induction ks arbitrary: st)
  case Nil
  then show ?case by (simp add: containers_at_def map_filter_simps)
next
  case (Cons k ks)
  show ?case
  proof (cases "\<exists>s P. mget (Sets b) k = Some s \<and> container_pod s = Some P")
    case False
    then have "mget (psSets st) k \<noteq> Some s" if "container_pod s \<noteq> None" for s
      using Cons.prems that by (auto simp: pods_inv_def)
    then have "aggregate_container sk st k = Inr st"
      by (auto simp: aggregate_container_eq split: option.splits)
    moreover have "containers_at b P (k # ks) = containers_at b P ks" for P
      using False by (auto simp: containers_at_def map_filter_simps split: option.splits)
    ultimately show ?thesis using Cons.IH [OF Cons.prems] by simp
  next
    case True
    then obtain s Q where s: "mget (Sets b) k = Some s" "container_pod s = Some Q" by blast
    obtain pod req where step: "aggregate_container sk st k = Inr (set_pod Q pod req st)"
        "foldM (add_container_value sk Q) (start_pod st Q s, psRequire st) (Values s) = Inr (pod, req)"
        "pods_inv b (set_pod Q pod req st)"
      using container_step [OF ok Cons.prems s] .
    obtain st' where st': "foldM (aggregate_container sk) (set_pod Q pod req st) ks = Inr st'" "pods_inv b st'"
      and sums: "\<And>P m old tot. m \<notin> set sk \<Longrightarrow> clear_key b P m \<Longrightarrow> \<forall>e \<in> set (Sets b). int_valued (snd e) m \<Longrightarrow>
         sum_state old tot (set_pod Q pod req st) P m \<Longrightarrow>
         sum_state old (tot + sum_list (map (\<lambda>s. ival (Some s) m) (containers_at b P ks))) st' P m"
      and rest: "\<And>P. containers_at b P ks = [] \<Longrightarrow> pod_at st' P = pod_at (set_pod Q pod req st) P"
      using Cons.IH [OF step(3)] by blast
    have cs: "containers_at b P (k # ks) = (if P = Q then s # containers_at b P ks else containers_at b P ks)" for P
      using s by (auto simp: containers_at_def map_filter_simps)
    have wf: "wf_map (Values s)" "(k, s) \<in> set (Sets b)"
      using ok mget_in_set [OF s(1)] by (auto simp: pods_ok_def)
    have "sum_state old (tot + sum_list (map (\<lambda>s. ival (Some s) m) (containers_at b P (k # ks)))) st' P m"
      if "m \<notin> set sk" "clear_key b P m" "\<forall>e \<in> set (Sets b). int_valued (snd e) m" "sum_state old tot st P m" for P m old tot
    proof (cases "P = Q")
      case True
      have "sum_state old (tot + ival (Some s) m) (set_pod Q pod req st) P m"
        using sum_state_same [OF step(2) wf(1) that(1) _ that(4) [unfolded True]] that(3) wf(2) True by fastforce
      then have "sum_state old (tot + ival (Some s) m + sum_list (map (\<lambda>s. ival (Some s) m) (containers_at b P ks))) st' P m"
        by (rule sums [OF that(1-3)])
      with True show ?thesis by (simp add: cs add.assoc)
    next
      case False
      have "\<forall>n \<in> set (mkeys (Values s)). Q @ n \<noteq> P @ m"
        using that(2) wf(2) s(2) False by (fastforce simp: clear_key_def)
      then have "sum_state old tot (set_pod Q pod req st) P m"
        using sum_state_other [OF step(2) _ _ that(4)] False by blast
      then have "sum_state old (tot + sum_list (map (\<lambda>s. ival (Some s) m) (containers_at b P ks))) st' P m"
        by (rule sums [OF that(1-3)])
      with False show ?thesis by (simp add: cs)
    qed
    moreover have "pod_at st' P = pod_at st P" if "containers_at b P (k # ks) = []" for P
      using that rest [of P] by (auto simp: cs split: if_splits)
    ultimately show ?thesis using step(1) st' by auto
  qed
qed

section \<open>What the pod aggregators promise\<close>

definition containers_of :: "Batch \<Rightarrow> ResourceKey \<Rightarrow> mset list" where
  "containers_of b P = filter (\<lambda>s. container_pod s = Some P) (map snd (Sets b))"

lemma containers_at_all:
  assumes "wf_map (Sets b)"
  shows "containers_at b P (mkeys (Sets b)) = containers_of b P"
proof -
  have "List.map_filter (\<lambda>k. case mget (Sets b) k of
        Some s \<Rightarrow> if container_pod s = Some P then Some s else None | None \<Rightarrow> None) (map fst es) =
      filter (\<lambda>s. container_pod s = Some P) (map snd es)" if "set es \<subseteq> set (Sets b)" for es
    using that
  proof (induction es)
    case (Cons e es)
    then have "mget (Sets b) (fst e) = Some (snd e)" using mget_iff_in_set [OF assms] by (cases e) auto
    with Cons show ?case by (simp add: map_filter_simps)
  qed (simp add: map_filter_simps)
  then show ?thesis by (simp add: containers_at_def containers_of_def mkeys_def)
qed

text \<open>The pod aggregator never fails on sets of known types; afterwards an integer metric of a pod that
  had a nonzero value of its own keeps it, and otherwise is the 64-bit sum of the values of the pod's
  containers, in whatever order the map yields them; a set no container points to does not change.\<close>

theorem PodAggregator_sums:
  assumes "pods_ok b"
  shows "\<exists>b'. PodAggregator_Process skipped b = Inr b' \<and>
    (\<forall>P m. m \<notin> set skipped \<longrightarrow> clear_key b P m \<longrightarrow> (\<forall>e \<in> set (Sets b). int_valued (snd e) m) \<longrightarrow>
       ival (mget (Sets b') P) m =
         (if ival (mget (Sets b) P) m \<noteq> 0 then ival (mget (Sets b) P) m
          else sum_list (map (\<lambda>s. ival (Some s) m) (containers_of b P)))) \<and>
    (\<forall>P. containers_of b P = [] \<longrightarrow> mget (Sets b') P = mget (Sets b) P)"
proof -
  let ?st = "\<lparr>psSets = Sets b, psNew = [], psRequire = []\<rparr>"
  have wf: "wf_map (Sets b)" using assms by (simp add: pods_ok_def)
  have at: "pod_at ?st P = mget (Sets b) P" for P by (simp add: pod_at_def split: option.splits)
  have "pods_inv b ?st"
    unfolding pods_inv_def at using assms wf by (auto simp: pods_ok_def mhas_def dest!: mget_in_set)
  note fold = containers_fold [OF assms this, of skipped "mkeys (Sets b)"]
  obtain st' where f: "foldM (aggregate_container skipped) ?st (mkeys (Sets b)) = Inr st'" "pods_inv b st'"
    and sums': "\<forall>P m old tot. m \<notin> set skipped \<longrightarrow> clear_key b P m \<longrightarrow> (\<forall>e \<in> set (Sets b). int_valued (snd e) m) \<longrightarrow>
       sum_state old tot ?st P m \<longrightarrow>
       sum_state old (tot + sum_list (map (\<lambda>s. ival (Some s) m) (containers_at b P (mkeys (Sets b))))) st' P m"
    and rest': "\<forall>P. containers_at b P (mkeys (Sets b)) = [] \<longrightarrow> pod_at st' P = pod_at ?st P"
    using fold by blast
  note sums = sums' [unfolded containers_at_all [OF wf], rule_format] and rest = rest' [unfolded containers_at_all [OF wf] at, rule_format]
  have final: "mget (mput_all (psNew st') (psSets st')) P = pod_at st' P" for P
    using f(2) by (auto simp: pods_inv_def pod_at_def mhas_def split: option.splits)
  have "ival (pod_at st' P) m = (if ival (mget (Sets b) P) m \<noteq> 0 then ival (mget (Sets b) P) m
          else sum_list (map (\<lambda>s. ival (Some s) m) (containers_of b P)))"
    if "m \<notin> set skipped" "clear_key b P m" "\<forall>e \<in> set (Sets b). int_valued (snd e) m" for P m
  proof -
    have "sum_state (ival (mget (Sets b) P) m) 0 ?st P m"
      using that(3) by (auto simp: sum_state_def at dest!: mget_in_set)
    then have "sum_state (ival (mget (Sets b) P) m) (0 + sum_list (map (\<lambda>s. ival (Some s) m) (containers_of b P))) st' P m"
      using sums that by blast
    then show ?thesis by (simp add: sum_state_def split: if_splits)
  qed
  with f(1) rest show ?thesis by (auto simp: PodAggregator_Process_def final)
qed

definition sample_containers :: Batch where
  "sample_containers = \<lparr>bTimestamp = 0, Sets =
     [(PodContainerKey ''a'' ''p'' ''c'', typed_set MetricSetTypePodContainer
         [(LabelKey LabelPodName, ''p''), (LabelKey LabelNamespaceName, ''a'')] [(Name MetricMemoryUsage, intValue 5)]),
      (PodContainerKey ''a'' ''p'' ''d'', typed_set MetricSetTypePodContainer
         [(LabelKey LabelPodName, ''p''), (LabelKey LabelNamespaceName, ''a'')] [(Name MetricMemoryUsage, intValue 7)])],
     Metrics = []\<rparr>"

lemma PodAggregator_sums_witness:
  "\<exists>b'. PodAggregator_Process [] sample_containers = Inr b' \<and>
     ival (mget (Sets b') (PodKey ''a'' ''p'')) (Name MetricMemoryUsage) = 12"
proof -
  have "pods_ok sample_containers" by code_simp
  from PodAggregator_sums [OF this, of "[]"] obtain b' where b': "PodAggregator_Process [] sample_containers = Inr b'" and
    v: "\<And>P m. clear_key sample_containers P m \<Longrightarrow> \<forall>e \<in> set (Sets sample_containers). int_valued (snd e) m \<Longrightarrow>
       ival (mget (Sets b') P) m = (if ival (mget (Sets sample_containers) P) m \<noteq> 0 then ival (mget (Sets sample_containers) P) m
          else sum_list (map (\<lambda>s. ival (Some s) m) (containers_of sample_containers P)))"
    by auto
  have "clear_key sample_containers (PodKey ''a'' ''p'') (Name MetricMemoryUsage)" by code_simp
  moreover have "\<forall>e \<in> set (Sets sample_containers). int_valued (snd e) (Name MetricMemoryUsage)"
    by (simp add: sample_containers_def typed_set_def int_valued_def mget_Cons)
  moreover have "ival (mget (Sets sample_containers) (PodKey ''a'' ''p'')) (Name MetricMemoryUsage) = 0"
    "sum_list (map (\<lambda>s. ival (Some s) (Name MetricMemoryUsage)) (containers_of sample_containers (PodKey ''a'' ''p''))) = 12"
    by code_simp+
  ultimately show ?thesis using b' v by simp
qed

text \<open>The sets of one resource aggregation: a pod the lister does not know leaves the batch.\<close>

lemma pod_resource_fold:
  "distinct ks \<Longrightarrow> mget (foldl (pod_resource_key rl getPod) sets ks) k =
     (if k \<in> set ks then mget (pod_resource_key rl getPod sets k) k else mget sets k)"
proof (induction ks arbitrary: sets)
  case (Cons j ks)
  have frame: "mget (pod_resource_key rl getPod sets j) i = mget sets i" if "i \<noteq> j" for i
    using that by (auto simp: pod_resource_key_def split: option.splits)
  have cong: "mget sets i = mget sets' i \<Longrightarrow> mget (pod_resource_key rl getPod sets i) i = mget (pod_resource_key rl getPod sets' i) i"
    for i sets sets'
    by (auto simp: pod_resource_key_def split: option.splits)
  show ?case
    using Cons.prems frame [of k] cong [of "pod_resource_key rl getPod sets j" k sets]
    by (auto simp: Cons.IH)
qed simp

text \<open>The resource aggregator removes exactly the named pods its lister does not know, adds requests and
  limits to the other named pods, and leaves every other set alone.\<close>

lemma PodResourceAggregator_sets:
  assumes "wf_map (Sets b)"
  shows "mget (Sets (PodResourceAggregator_Process rl getPod b)) k =
     (case mget (Sets b) k of
        None \<Rightarrow> None
      | Some s \<Rightarrow>
          if mget (Labels s) (LabelKey LabelMetricSetType) \<noteq> Some MetricSetTypePod then Some s
          else (case (mget (Labels s) (LabelKey LabelPodName), mget (Labels s) (LabelKey LabelNamespaceName)) of
              (Some name, Some ns) \<Rightarrow> map_option (\<lambda>pod. pod_resources rl pod s) (getPod ns name)
            | _ \<Rightarrow> Some s))"
proof -
  have d: "distinct (mkeys (Sets b))" using assms by (simp add: wf_map_def mkeys_def)
  have in_keys: "k \<in> set (mkeys (Sets b)) \<longleftrightarrow> mget (Sets b) k \<noteq> None" by (simp add: mhas_mkeys [symmetric] mhas_def)
  show ?thesis
    unfolding PodResourceAggregator_Process_def
    by (auto simp: pod_resource_fold [OF d] in_keys pod_resource_key_def split: option.splits)
qed

end
