(* ===== verification/Enrichers.thy ===== *)
theory Enrichers
  imports Aggregators
begin

text \<open>
  The processors that enrich metric sets with what the Kubernetes API knows
  (\<open>collector/plugins/processors\<close>: namespace_based_enricher.go, node_autoscaling_enricher.go,
  pod_based_enricher.go). The listers and the namespace store are functions; the map of resource
  request metrics, a global variable of \<open>internal/metrics\<close>, is part of the state.
\<close>

section \<open>Namespaces (namespace_based_enricher.go)\<close>

text \<open>The store yields the UID of a namespace, or nothing when it fails or does not know it.\<close>

definition addNamespaceInfo :: "(string \<Rightarrow> string option) \<Rightarrow> mset \<Rightarrow> mset" where
  "addNamespaceInfo store s =
     (case mget (Labels s) (LabelKey LabelMetricSetType) of
        None \<Rightarrow> s
      | Some metricSetType \<Rightarrow>
          if metricSetType \<noteq> MetricSetTypePodContainer \<and> metricSetType \<noteq> MetricSetTypePod \<and>
             metricSetType \<noteq> MetricSetTypeNamespace then s
          else (case mget (Labels s) (LabelKey LabelNamespaceName) of
              None \<Rightarrow> s
            | Some namespaceName \<Rightarrow>
               (case store namespaceName of
                  None \<Rightarrow> s
                | Some uid \<Rightarrow> s\<lparr>Labels := mput (LabelKey LabelPodNamespaceUID) uid (Labels s)\<rparr>)))"

definition NamespaceBasedEnricher_Process :: "(string \<Rightarrow> string option) \<Rightarrow> Batch \<Rightarrow> Batch" where
  "NamespaceBasedEnricher_Process store batch =
     batch\<lparr>Sets := map (\<lambda>e. (fst e, addNamespaceInfo store (snd e))) (Sets batch)\<rparr>"

section \<open>Nodes (node_autoscaling_enricher.go)\<close>

definition getInt :: "mset \<Rightarrow> MetricDescriptor \<Rightarrow> int64" where
  "getInt metricSet metric = (case mget (Values metricSet) (Name metric) of Some v \<Rightarrow> IntValue v | None \<Rightarrow> 0)"

definition setFloat :: "MetricDescriptor \<Rightarrow> f64 \<Rightarrow> mset \<Rightarrow> mset" where
  "setFloat metric v s = s\<lparr>Values := mput (Name metric) (floatValue v) (Values s)\<rparr>"

definition ratio :: "int64 \<Rightarrow> int64 \<Rightarrow> f64" where
  "ratio a b = fdiv (f64_of_int64 a) (f64_of_int64 b)"

definition node_cpu :: "resources \<Rightarrow> resources \<Rightarrow> int64 \<Rightarrow> int64 \<Rightarrow> mset \<Rightarrow> mset" where
  "node_cpu capacity allocatable used requested s =
     (let cap = qMilliValue (rget capacity ''cpu''); alloc = qMilliValue (rget allocatable ''cpu'');
          s = (if alloc \<noteq> 0 then setFloat MetricNodeCpuReservation (ratio requested alloc)
                 (setFloat MetricNodeCpuUtilization (ratio used alloc) s) else s)
      in setFloat MetricNodeCpuAllocatable (f64_of_int64 alloc) (setFloat MetricNodeCpuCapacity (f64_of_int64 cap) s))"

definition node_memory :: "resources \<Rightarrow> resources \<Rightarrow> int64 \<Rightarrow> int64 \<Rightarrow> mset \<Rightarrow> mset" where
  "node_memory capacity allocatable used requested s =
     (let cap = qValue (rget capacity ''memory''); alloc = qValue (rget allocatable ''memory'');
          s = (if alloc \<noteq> 0 then setFloat MetricNodeMemoryReservation (ratio requested alloc)
                 (setFloat MetricNodeMemoryUtilization (ratio used alloc) s) else s)
      in setFloat MetricNodeMemoryAllocatable (f64_of_int64 alloc) (setFloat MetricNodeMemoryCapacity (f64_of_int64 cap) s))"

definition node_storage :: "resources \<Rightarrow> resources \<Rightarrow> int64 \<Rightarrow> int64 \<Rightarrow> mset \<Rightarrow> mset" where
  "node_storage capacity allocatable used requested s =
     (if mhas capacity ''ephemeral-storage'' \<and> mhas allocatable ''ephemeral-storage''
      then
       (let cap = qValue (rget capacity ''ephemeral-storage''); alloc = qValue (rget allocatable ''ephemeral-storage'');
            s = setFloat MetricNodeEphemeralStorageAllocatable (f64_of_int64 alloc)
                  (setFloat MetricNodeEphemeralStorageCapacity (f64_of_int64 cap) s)
        in if alloc \<noteq> 0 then setFloat MetricNodeEphemeralStorageReservation (ratio requested alloc)
             (setFloat MetricNodeEphemeralStorageUtilization (ratio used alloc) s) else s)
      else s)"

definition enrich_node :: "LabelCopier \<Rightarrow> Node \<Rightarrow> mset \<Rightarrow> mset" where
  "enrich_node labelCopier node s =
     (let s = s\<lparr>Labels := mput (LabelKey LabelNodeRole) (GetNodeRole node)
                 (LabelCopier_Copy labelCopier (omLabels (nodeMeta node)) (Labels s))\<rparr>;
          cpuRequested = getInt s MetricCpuRequest; cpuUsed = getInt s MetricCpuUsageRate;
          memRequested = getInt s MetricMemoryRequest; memWorkingSet = getInt s MetricMemoryWorkingSet;
          epheRequested = getInt s MetricEphemeralStorageRequest; epheUsed = getInt s MetricEphemeralStorageUsage
      in node_storage (nodeCapacity node) (nodeAllocatable node) epheUsed epheRequested
           (node_memory (nodeCapacity node) (nodeAllocatable node) memWorkingSet memRequested
             (node_cpu (nodeCapacity node) (nodeAllocatable node) cpuUsed cpuRequested s)))"

definition enrich_node_key :: "LabelCopier \<Rightarrow> (ResourceKey, mset) gomap \<Rightarrow> Node \<Rightarrow> (ResourceKey, mset) gomap" where
  "enrich_node_key labelCopier sets node =
     (case mget sets (NodeKey (omName (nodeMeta node))) of
        None \<Rightarrow> sets
      | Some s \<Rightarrow> mput (NodeKey (omName (nodeMeta node))) (enrich_node labelCopier node s) sets)"

text \<open>The lister fails with an error or yields the nodes.\<close>

definition NodeAutoscalingEnricher_Process :: "LabelCopier \<Rightarrow> string + Node list \<Rightarrow> Batch \<Rightarrow> string + Batch" where
  "NodeAutoscalingEnricher_Process labelCopier nodes batch =
     (case nodes of Inl err \<Rightarrow> Inl err
      | Inr nodes \<Rightarrow> Inr (batch\<lparr>Sets := foldl (enrich_node_key labelCopier) (Sets batch) nodes\<rparr>))"

section \<open>Pods (pod_based_enricher.go)\<close>

record PodBasedEnricher =
  pbeGetPod :: "string \<Rightarrow> string \<Rightarrow> Pod option"
  pbeLabelCopier :: LabelCopier
  pbeCollectionInterval :: duration
  pbeWorkloadCache :: listers

definition addLabeledIntMetric :: "MetricDescriptor \<Rightarrow> tagmap \<Rightarrow> int64 \<Rightarrow> mset \<Rightarrow> mset" where
  "addLabeledIntMetric metric labels v ms =
     ms\<lparr>LabeledValues := LabeledValues ms @ [\<lparr>lvName = Name metric, lvLabels = labels, lvValue = intValue v\<rparr>]\<rparr>"

definition findContainerState :: "duration \<Rightarrow> gotime \<Rightarrow> ContainerStatus \<Rightarrow> ContainerStateInfo" where
  "findContainerState collectionInterval collectionTime status =
     (case csTerminated (ctLastTerminationState status) of
        None \<Rightarrow> NewContainerStateInfo (ctState status)
      | Some t \<Rightarrow>
         (let lastCollectionTime = collectionTime - collectionInterval
          in if lastCollectionTime > tsFinishedAt t then NewContainerStateInfo (ctState status)
             else NewContainerStateInfo (ctLastTerminationState status)))"

definition addContainerStatus :: "duration \<Rightarrow> gotime \<Rightarrow> MetricDescriptor \<Rightarrow> ContainerStatus \<Rightarrow> mset \<Rightarrow> mset" where
  "addContainerStatus collectionInterval collectionTime metric status containerMs =
     (let containerStateInfo = findContainerState collectionInterval collectionTime status
      in addLabeledIntMetric metric (AddMetricTags containerStateInfo []) (of_nat (csiValue containerStateInfo)) containerMs)"

definition setInt :: "string \<Rightarrow> int64 \<Rightarrow> mset \<Rightarrow> mset" where
  "setInt name v s = s\<lparr>Values := mput name (intValue v) (Values s)\<rparr>"

text \<open>The descriptor of the request metric of a resource, made when the global map does not have one.\<close>

definition newRequestMetric :: "string \<Rightarrow> MetricDescriptor" where
  "newRequestMetric key = \<lparr>Name = key @ ''/request'', Description = key @ '' resource request. This metric is Kubernetes specific.'',
     DescLabels = [], Type = Gauge, DescValueType = ValueInt64, Units = Count\<rparr>"

type_synonym request_metrics = "(string, MetricDescriptor) gomap"

definition add_request :: "request_metrics \<times> mset \<Rightarrow> string \<times> quantity \<Rightarrow> request_metrics \<times> mset" where
  "add_request st e =
     (case st of (rrm, s) \<Rightarrow> case e of (key, val) \<Rightarrow>
        let rrm' = (if mhas rrm key then rrm else mput key (newRequestMetric key) rrm);
            metric = (case mget rrm' key of Some m \<Rightarrow> m | None \<Rightarrow> newRequestMetric key)
        in (rrm', setInt (Name metric) (if key = ''cpu'' then qMilliValue val else qValue val) s))"

definition default_zero :: "resources \<Rightarrow> string \<Rightarrow> MetricDescriptor \<Rightarrow> mset \<Rightarrow> mset" where
  "default_zero requests resourceName metric s = (if mhas requests resourceName then s else setInt (Name metric) 0 s)"

definition updateContainerResourcesAndLimits :: "kcontainer \<Rightarrow> request_metrics \<times> mset \<Rightarrow> request_metrics \<times> mset" where
  "updateContainerResourcesAndLimits c st =
     (case foldl add_request st (kcRequests c) of (rrm, s) \<Rightarrow>
        let s = default_zero (kcRequests c) ''cpu'' MetricCpuRequest s;
            s = default_zero (kcRequests c) ''memory'' MetricMemoryRequest s;
            s = default_zero (kcRequests c) ''ephemeral-storage'' MetricEphemeralStorageRequest s;
            s = setInt (Name MetricCpuLimit) (qMilliValue (rget (kcLimits c) ''cpu'')) s;
            s = setInt (Name MetricMemoryLimit) (qValue (rget (kcLimits c) ''memory'')) s;
            s = setInt (Name MetricEphemeralStorageLimit) (qValue (rget (kcLimits c) ''ephemeral-storage'')) s
        in (rrm, s))"

definition start_time :: "Pod \<Rightarrow> gotime option" where
  "start_time pod = (case podStartTime pod of Some t \<Rightarrow> if t = zero_time then None else Some t | None \<Rightarrow> None)"

definition set_start :: "Pod \<Rightarrow> mset \<Rightarrow> mset" where
  "set_start pod s = (case start_time pod of Some t \<Rightarrow> s\<lparr>EntityCreateTime := t\<rparr> | None \<Rightarrow> s)"

definition put_label :: "LabelDescriptor \<Rightarrow> string \<Rightarrow> mset \<Rightarrow> mset" where
  "put_label l v s = s\<lparr>Labels := mput (LabelKey l) v (Labels s)\<rparr>"

text \<open>The batch's sets, the new sets, and the global map.\<close>

record enrich_state =
  enSets :: "(ResourceKey, mset) gomap"
  enNew :: "(ResourceKey, mset) gomap"
  enRequests :: request_metrics

definition meta_key :: "Pod \<Rightarrow> string \<Rightarrow> ResourceKey" where
  "meta_key pod c = PodContainerKey (omNamespace (podMeta pod)) (omName (podMeta pod)) c"

definition failed_status :: "ContainerStatus \<Rightarrow> bool" where
  "failed_status cs \<longleftrightarrow> \<not> ctReady cs \<and> (csWaiting (ctState cs) \<noteq> None \<or> csTerminated (ctState cs) \<noteq> None)"

definition workload_status_set :: "mset \<Rightarrow> Pod \<Rightarrow> mset" where
  "workload_status_set podMs pod =
     (let labels = [(LabelKey LabelNamespaceName, omNamespace (podMeta pod)),
            (LabelKey LabelWorkloadName, mgets (Labels podMs) (LabelKey LabelWorkloadName)),
            (LabelKey LabelWorkloadKind, mgets (Labels podMs) (LabelKey LabelWorkloadKind)),
            (LabelKey LabelAvailable, mgets (Labels podMs) (LabelKey LabelAvailable)),
            (LabelKey LabelDesired, mgets (Labels podMs) (LabelKey LabelDesired))];
          bad = find failed_status (podContainerStatuses pod);
          status = (if bad = None then 1 else 0);
          labels = (case bad of
              None \<Rightarrow> labels
            | Some cs \<Rightarrow>
               (case csWaiting (ctState cs) of
                  Some (reason, message) \<Rightarrow> mput (LabelKey LabelMessage) message (mput (LabelKey LabelReason) reason labels)
                | None \<Rightarrow> (case csTerminated (ctState cs) of
                     Some t \<Rightarrow> mput (LabelKey LabelMessage) (tsMessage t) (mput (LabelKey LabelReason) (tsReason t) labels)
                   | None \<Rightarrow> labels)));
          labels = mput (LabelKey LabelDesired) ''1'' (mput (LabelKey LabelAvailable) (show_nat status) labels)
      in addLabeledIntMetric MetricWorkloadStatus [] (of_nat status) (emptySet\<lparr>Labels := labels\<rparr>))"

definition addWorkloadStatusMetric :: "mset \<Rightarrow> Pod \<Rightarrow> (ResourceKey, mset) gomap \<Rightarrow> (ResourceKey, mset) gomap" where
  "addWorkloadStatusMetric podMs pod newMs =
     mput (WorkloadStatusPodKey (omNamespace (podMeta pod)) (omName (podMeta pod))) (workload_status_set podMs pod) newMs"

definition container_stub :: "PodBasedEnricher \<Rightarrow> mset \<Rightarrow> Pod \<Rightarrow> kcontainer \<Rightarrow> mset" where
  "container_stub pbe podMs pod c =
     (let label = (\<lambda>l. (LabelKey l, mgets (Labels podMs) (LabelKey l)));
          labels = [(LabelKey LabelMetricSetType, MetricSetTypePodContainer),
            (LabelKey LabelNamespaceName, omNamespace (podMeta pod)),
            (LabelKey LabelPodName, omName (podMeta pod)),
            (LabelKey LabelContainerName, kcName c), (LabelKey LabelContainerBaseImage, kcImage c),
            (LabelKey LabelPodId, omUID (podMeta pod)),
            label LabelNodename, label LabelHostname, label LabelHostID, label LabelWorkloadName, label LabelWorkloadKind]
      in emptySet\<lparr>Labels := LabelCopier_Copy (pbeLabelCopier pbe) (omLabels (podMeta pod)) labels,
           EntityCreateTime := CollectionStartTime podMs\<rparr>)"

definition add_stub :: "PodBasedEnricher \<Rightarrow> mset \<Rightarrow> Pod \<Rightarrow> enrich_state \<Rightarrow> kcontainer \<Rightarrow> enrich_state" where
  "add_stub pbe podMs pod st c =
     (let containerKey = meta_key pod (kcName c)
      in if mhas (enSets st) containerKey \<or> mhas (enNew st) containerKey then st
         else (case updateContainerResourcesAndLimits c (enRequests st, container_stub pbe podMs pod c) of
                (rrm, containerMs) \<Rightarrow> st\<lparr>enNew := mput containerKey containerMs (enNew st), enRequests := rrm\<rparr>))"

definition updateContainerStatus ::
  "duration \<Rightarrow> Pod \<Rightarrow> ContainerStatus list \<Rightarrow> gotime \<Rightarrow> (ResourceKey, mset) gomap \<Rightarrow> (ResourceKey, mset) gomap" where
  "updateContainerStatus collectionInterval pod statuses collectionTime metricSets =
     foldl (\<lambda>sets status. case mget sets (meta_key pod (ctName status)) of
              None \<Rightarrow> sets
            | Some containerMs \<Rightarrow> mput (meta_key pod (ctName status))
                (addContainerStatus collectionInterval collectionTime MetricContainerStatus status containerMs) sets)
       metricSets statuses"

text \<open>What a running pod adds to its own set.\<close>

definition pod_info :: "PodBasedEnricher \<Rightarrow> Pod \<Rightarrow> mset \<Rightarrow> mset" where
  "pod_info pbe pod podMs =
     (let podMs = set_start pod (put_label LabelPodId (omUID (podMeta pod)) podMs);
          podMs = podMs\<lparr>Labels := LabelCopier_Copy (pbeLabelCopier pbe) (omLabels (podMeta pod)) (Labels podMs)\<rparr>;
          podMs = addLabeledIntMetric MetricPodPhase [(''phase'', podPhase pod)] (ConvertPodPhase (podPhase pod)) podMs;
          workload = GetWorkloadForPod (pbeWorkloadCache pbe) pod
      in put_label LabelWorkloadKind (snd workload) (put_label LabelWorkloadName (fst workload) podMs))"

definition addPodInfo :: "PodBasedEnricher \<Rightarrow> gotime \<Rightarrow> Pod \<Rightarrow> mset \<Rightarrow> enrich_state \<Rightarrow> mset \<times> enrich_state" where
  "addPodInfo pbe timestamp pod podMs st =
     (if podPhase pod \<noteq> ''Running'' then (podMs, st)
      else
       (let podMs = pod_info pbe pod podMs;
            st = (if \<not> HasOwnerReference (OwnerReferences (podMeta pod))
                  then st\<lparr>enNew := addWorkloadStatusMetric podMs pod (enNew st)\<rparr> else st);
            st = foldl (add_stub pbe podMs pod) st (podContainers pod)
        in (podMs, st\<lparr>enNew := updateContainerStatus (pbeCollectionInterval pbe) pod (podContainerStatuses pod)
                        timestamp (enNew st)\<rparr>)))"

definition add_spec :: "ResourceKey \<Rightarrow> Pod \<Rightarrow> request_metrics \<times> mset \<Rightarrow> request_metrics \<times> mset" where
  "add_spec key pod st =
     (case find (\<lambda>c. key = meta_key pod (kcName c)) (podContainers pod) of
        None \<Rightarrow> st
      | Some c \<Rightarrow>
         (case updateContainerResourcesAndLimits c st of (rrm, s) \<Rightarrow>
            (rrm, if mhas (Labels s) (LabelKey LabelContainerBaseImage) then s
                  else put_label LabelContainerBaseImage (kcImage c) s)))"

definition add_status :: "PodBasedEnricher \<Rightarrow> gotime \<Rightarrow> ResourceKey \<Rightarrow> Pod \<Rightarrow> mset \<Rightarrow> mset" where
  "add_status pbe timestamp key pod s =
     (case find (\<lambda>cs. key = meta_key pod (ctName cs)) (podContainerStatuses pod) of
        None \<Rightarrow> s
      | Some cs \<Rightarrow> addContainerStatus (pbeCollectionInterval pbe) timestamp MetricContainerStatus cs
           (set_start pod (setInt (Name MetricRestartCount) (of_int (sint (ctRestartCount cs))) s)))"

definition pod_stub :: "Pod \<Rightarrow> mset \<Rightarrow> mset" where
  "pod_stub pod containerMs =
     (let label = (\<lambda>l. (LabelKey l, mgets (Labels containerMs) (LabelKey l)))
      in set_start pod (emptySet\<lparr>Labels := [(LabelKey LabelMetricSetType, MetricSetTypePod),
           label LabelNamespaceName, label LabelPodName, label LabelNodename, label LabelHostname, label LabelHostID]\<rparr>))"

definition addContainerInfo ::
  "PodBasedEnricher \<Rightarrow> gotime \<Rightarrow> ResourceKey \<Rightarrow> Pod \<Rightarrow> mset \<Rightarrow> enrich_state \<Rightarrow> enrich_state" where
  "addContainerInfo pbe timestamp key pod containerMs st =
     (case add_spec key pod (enRequests st, containerMs) of (rrm, s) \<Rightarrow>
        let s = add_status pbe timestamp key pod s;
            workload = GetWorkloadForPod (pbeWorkloadCache pbe) pod;
            s = put_label LabelWorkloadKind (snd workload) (put_label LabelWorkloadName (fst workload) s);
            s = put_label LabelPodId (omUID (podMeta pod)) s;
            s = s\<lparr>Labels := LabelCopier_Copy (pbeLabelCopier pbe) (omLabels (podMeta pod)) (Labels s)\<rparr>;
            st = st\<lparr>enSets := mput key s (enSets st), enRequests := rrm\<rparr>;
            podKey = PodKey (mgets (Labels s) (LabelKey LabelNamespaceName)) (mgets (Labels s) (LabelKey LabelPodName))
        in if mhas (enSets st) podKey \<or> mhas (enNew st) podKey then st
           else (case addPodInfo pbe timestamp pod (pod_stub pod s) (st\<lparr>enNew := mput podKey (pod_stub pod s) (enNew st)\<rparr>) of
                  (podMs, st) \<Rightarrow> st\<lparr>enNew := mput podKey podMs (enNew st)\<rparr>))"

definition enrich_key :: "PodBasedEnricher \<Rightarrow> gotime \<Rightarrow> enrich_state \<Rightarrow> ResourceKey \<Rightarrow> enrich_state" where
  "enrich_key pbe timestamp st resourceKey =
     (case mget (enSets st) resourceKey of
        None \<Rightarrow> st
      | Some metricSet \<Rightarrow>
         (let t = mgets (Labels metricSet) (LabelKey LabelMetricSetType);
              namespace = mgets (Labels metricSet) (LabelKey LabelNamespaceName);
              podName = mgets (Labels metricSet) (LabelKey LabelPodName)
          in if t = MetricSetTypePod
             then (case pbeGetPod pbe namespace podName of
                     None \<Rightarrow> st\<lparr>enSets := mdel resourceKey (enSets st)\<rparr>
                   | Some pod \<Rightarrow>
                      (case addPodInfo pbe timestamp pod metricSet st of
                         (podMs, st) \<Rightarrow> st\<lparr>enSets := mput resourceKey podMs (enSets st)\<rparr>))
             else if t = MetricSetTypePodContainer
             then (case pbeGetPod pbe namespace podName of
                     None \<Rightarrow> st\<lparr>enSets := mdel resourceKey (enSets st)\<rparr>
                   | Some pod \<Rightarrow> addContainerInfo pbe timestamp resourceKey pod metricSet st)
             else st))"

text \<open>The result is the global map and the batch.\<close>

definition PodBasedEnricher_Process :: "PodBasedEnricher \<Rightarrow> request_metrics \<Rightarrow> Batch \<Rightarrow> request_metrics \<times> Batch" where
  "PodBasedEnricher_Process pbe rrm batch =
     (let st = foldl (enrich_key pbe (bTimestamp batch)) \<lparr>enSets = Sets batch, enNew = [], enRequests = rrm\<rparr> (mkeys (Sets batch))
      in (enRequests st, batch\<lparr>Sets := mput_all (enNew st) (enSets st)\<rparr>))"

section \<open>Lemmas: resources\<close>

text \<open>Every descriptor of the global map is named after its resource.\<close>

definition request_name :: "string \<Rightarrow> string" where
  "request_name r = (if r = ''ephemeral-storage'' then Name MetricEphemeralStorageRequest else r @ ''/request'')"

definition requests_ok :: "request_metrics \<Rightarrow> bool" where
  "requests_ok rrm \<longleftrightarrow> mhas rrm ''ephemeral-storage'' \<and> (\<forall>k d. mget rrm k = Some d \<longrightarrow> Name d = request_name k)"

lemma request_name_inject:
  "request_name r = request_name r' \<Longrightarrow> r \<noteq> ''ephemeral_storage'' \<Longrightarrow> r' \<noteq> ''ephemeral_storage'' \<Longrightarrow> r = r'"
  by (auto simp: request_name_def metric_defs split: if_splits)

lemma requests_ok_initial: "requests_ok ResourceRequestMetrics"
  by (auto simp: requests_ok_def ResourceRequestMetrics_def mget_Cons mhas_def request_name_def metric_defs split: if_splits)

lemma add_request_step:
  assumes "requests_ok rrm"
  shows "requests_ok (fst (add_request (rrm, s) (r, q))) \<and>
    snd (add_request (rrm, s) (r, q)) = setInt (request_name r) (if r = ''cpu'' then qMilliValue q else qValue q) s"
proof -
  have n: "Name (newRequestMetric r) = request_name r" if "\<not> mhas rrm r"
    using assms that by (auto simp: requests_ok_def request_name_def newRequestMetric_def mhas_def)
  show ?thesis
    using assms n by (auto simp: add_request_def Let_def requests_ok_def mhas_def)
qed

lemma setInt_simps [simp]:
  "mget (Values (setInt n v s)) m = (if n = m then Some (intValue v) else mget (Values s) m)"
  "Labels (setInt n v s) = Labels s"
  by (simp_all add: setInt_def)

lemma add_requests:
  assumes "requests_ok rrm" "wf_map rs" "\<not> mhas rs ''ephemeral_storage''" "r \<noteq> ''ephemeral_storage''"
  shows "requests_ok (fst (foldl add_request (rrm, s) rs)) \<and> Labels (snd (foldl add_request (rrm, s) rs)) = Labels s \<and>
    mget (Values (snd (foldl add_request (rrm, s) rs))) (request_name r) =
      (case mget rs r of Some q \<Rightarrow> Some (intValue (if r = ''cpu'' then qMilliValue q else qValue q))
       | None \<Rightarrow> mget (Values s) (request_name r)) \<and>
    (\<forall>m. (\<forall>r. mhas rs r \<longrightarrow> m \<noteq> request_name r) \<longrightarrow>
       mget (Values (snd (foldl add_request (rrm, s) rs))) m = mget (Values s) m)"
  using assms(1-3)
proof (induction rs arbitrary: rrm s)
  case (Cons e rs)
  obtain r' q where e: "e = (r', q)" by (cases e)
  obtain rrm1 s1 where 1: "add_request (rrm, s) (r', q) = (rrm1, s1)" by (cases "add_request (rrm, s) (r', q)")
  note step = add_request_step [OF Cons.prems(1), of s r' q, unfolded 1]
  have wf: "wf_map rs" "mget rs r' = None" "\<not> mhas rs ''ephemeral_storage''" "r' \<noteq> ''ephemeral_storage''"
    using Cons.prems(2,3) by (auto simp: wf_map_def e mget_None_iff mhas_def mget_Cons split: if_splits)
  have IH: "requests_ok (fst (foldl add_request (rrm1, s1) rs)) \<and> Labels (snd (foldl add_request (rrm1, s1) rs)) = Labels s1 \<and>
    mget (Values (snd (foldl add_request (rrm1, s1) rs))) (request_name r) =
      (case mget rs r of Some q \<Rightarrow> Some (intValue (if r = ''cpu'' then qMilliValue q else qValue q))
       | None \<Rightarrow> mget (Values s1) (request_name r)) \<and>
    (\<forall>m. (\<forall>r. mhas rs r \<longrightarrow> m \<noteq> request_name r) \<longrightarrow>
       mget (Values (snd (foldl add_request (rrm1, s1) rs))) m = mget (Values s1) m)"
    using Cons.IH [OF _ wf(1,3), of rrm1 s1] step by simp
  show ?case
  proof (cases "r = r'")
    case True
    with IH step wf(2) show ?thesis by (auto simp: e 1 mget_Cons mhas_def)
  next
    case False
    then have "request_name r' \<noteq> request_name r" using request_name_inject wf(4) assms(4) by blast
    with False IH step show ?thesis by (auto simp: e 1 mget_Cons mhas_def split: option.splits)
  qed
qed simp

definition scaled :: "string \<Rightarrow> quantity \<Rightarrow> int64" where
  "scaled r q = (if r = ''cpu'' then qMilliValue q else qValue q)"

lemma rget_simps: "mget rs r = Some q \<Longrightarrow> rget rs r = q" "mget rs r = None \<Longrightarrow> scaled r (rget rs r) = 0"
  by (simp_all add: rget_def scaled_def)

lemma primary_names:
  "Name MetricCpuRequest = request_name ''cpu''" "Name MetricMemoryRequest = request_name ''memory''"
  "Name MetricEphemeralStorageRequest = request_name ''ephemeral-storage''"
  by (simp_all add: request_name_def metric_defs)

lemma limit_names: "Name MetricCpuLimit \<noteq> request_name r" "Name MetricMemoryLimit \<noteq> request_name r"
  "Name MetricEphemeralStorageLimit \<noteq> request_name r"
proof -
  have "\<exists>x. request_name r = x @ ''/request''"
    by (auto simp: request_name_def metric_defs intro: exI [of _ "''ephemeral_storage''"])
  then obtain x where "request_name r = x @ ''/request''" by blast
  then have h: "rev n ! 1 = CHR ''s''" if "n = request_name r" for n using that by simp
  have "rev (Name MetricCpuLimit) ! 1 \<noteq> CHR ''s''" "rev (Name MetricMemoryLimit) ! 1 \<noteq> CHR ''s''"
    "rev (Name MetricEphemeralStorageLimit) ! 1 \<noteq> CHR ''s''" by (simp_all add: metric_defs)
  then show "Name MetricCpuLimit \<noteq> request_name r" "Name MetricMemoryLimit \<noteq> request_name r"
    "Name MetricEphemeralStorageLimit \<noteq> request_name r"
    using h by blast+
qed

lemma default_zero_get [simp]:
  "mget (Values (default_zero rs r d s)) m =
     (if \<not> mhas rs r \<and> Name d = m then Some (intValue 0) else mget (Values s) m)"
  by (simp add: default_zero_def)

text \<open>A container's set always carries the requests and limits of cpu, memory and ephemeral storage, cpu
  in thousandths, zero when the specification names none, and the request of every further resource
  under its own name; the global map of request metrics keeps naming every metric after its resource.\<close>

theorem container_resources:
  assumes "requests_ok rrm" "wf_map (kcRequests c)" "\<not> mhas (kcRequests c) ''ephemeral_storage''"
  shows "requests_ok (fst (updateContainerResourcesAndLimits c (rrm, s))) \<and>
    (\<forall>r. mhas (kcRequests c) r \<or> r \<in> {''cpu'', ''memory'', ''ephemeral-storage''} \<longrightarrow>
       mget (Values (snd (updateContainerResourcesAndLimits c (rrm, s)))) (request_name r) =
         Some (intValue (scaled r (rget (kcRequests c) r)))) \<and>
    mget (Values (snd (updateContainerResourcesAndLimits c (rrm, s)))) (Name MetricCpuLimit) =
      Some (intValue (qMilliValue (rget (kcLimits c) ''cpu''))) \<and>
    mget (Values (snd (updateContainerResourcesAndLimits c (rrm, s)))) (Name MetricMemoryLimit) =
      Some (intValue (qValue (rget (kcLimits c) ''memory''))) \<and>
    mget (Values (snd (updateContainerResourcesAndLimits c (rrm, s)))) (Name MetricEphemeralStorageLimit) =
      Some (intValue (qValue (rget (kcLimits c) ''ephemeral-storage'')))"
proof -
  obtain rrm1 s1 where 1: "foldl add_request (rrm, s) (kcRequests c) = (rrm1, s1)" by (cases "foldl add_request (rrm, s) (kcRequests c)")
  note adds = add_requests [OF assms, of _ s, unfolded 1]
  have ok: "requests_ok rrm1" using adds [of "''cpu''"] by simp
  have differ: "Name MetricCpuLimit \<noteq> Name MetricMemoryLimit" "Name MetricCpuLimit \<noteq> Name MetricEphemeralStorageLimit"
    "Name MetricMemoryLimit \<noteq> Name MetricEphemeralStorageLimit" by (simp_all add: metric_defs)
  have val: "mget (Values (snd (updateContainerResourcesAndLimits c (rrm, s)))) (request_name r) =
      Some (intValue (scaled r (rget (kcRequests c) r)))"
    if r: "mhas (kcRequests c) r \<or> r \<in> {''cpu'', ''memory'', ''ephemeral-storage''}" for r
  proof -
    have ne: "r \<noteq> ''ephemeral_storage''" using r assms(3) by auto
    have inj: "request_name r = request_name r' \<longleftrightarrow> r = r'" if "r' \<in> {''cpu'', ''memory'', ''ephemeral-storage''}" for r'
      using request_name_inject [OF _ ne] that by fastforce
    have eq: "mget (Values (snd (updateContainerResourcesAndLimits c (rrm, s)))) (request_name r) =
        (if \<not> mhas (kcRequests c) r \<and> r \<in> {''cpu'', ''memory'', ''ephemeral-storage''} then Some (intValue 0)
         else mget (Values s1) (request_name r))"
      using limit_names [of r] inj [of "''cpu''"] inj [of "''memory''"] inj [of "''ephemeral-storage''"]
      unfolding updateContainerResourcesAndLimits_def 1
      by (auto simp: Let_def primary_names eq_commute [of _ "request_name r"])
    show ?thesis
    proof (cases "mget (kcRequests c) r")
      case (Some q)
      then have "mhas (kcRequests c) r" by (simp add: mhas_def)
      then show ?thesis using adds [OF ne] Some unfolding eq by (simp add: rget_def scaled_def)
    next
      case None
      then have "\<not> mhas (kcRequests c) r" "r \<in> {''cpu'', ''memory'', ''ephemeral-storage''}" using r by (auto simp: mhas_def)
      then show ?thesis unfolding eq using rget_simps(2) [OF None] by simp
    qed
  qed
  have "fst (updateContainerResourcesAndLimits c (rrm, s)) = rrm1"
    by (simp add: updateContainerResourcesAndLimits_def 1 Let_def)
  moreover have "mget (Values (snd (updateContainerResourcesAndLimits c (rrm, s)))) (Name MetricCpuLimit) =
      Some (intValue (qMilliValue (rget (kcLimits c) ''cpu'')))"
    "mget (Values (snd (updateContainerResourcesAndLimits c (rrm, s)))) (Name MetricMemoryLimit) =
      Some (intValue (qValue (rget (kcLimits c) ''memory'')))"
    "mget (Values (snd (updateContainerResourcesAndLimits c (rrm, s)))) (Name MetricEphemeralStorageLimit) =
      Some (intValue (qValue (rget (kcLimits c) ''ephemeral-storage'')))"
    unfolding updateContainerResourcesAndLimits_def 1 using differ differ [symmetric] by (simp_all add: Let_def)
  ultimately show ?thesis using ok val by blast
qed

lemma container_resources_witness:
  "mget (Values (snd (updateContainerResourcesAndLimits
     \<lparr>kcName = ''c'', kcImage = ''i'', kcRequests = [(''cpu'', \<lparr>qValue = 1, qMilliValue = 250\<rparr>)], kcLimits = [], kcPorts = []\<rparr>
     (ResourceRequestMetrics, emptySet)))) (request_name ''cpu'') = Some (intValue 250)"
proof -
  let ?c = "\<lparr>kcName = ''c'', kcImage = ''i'', kcRequests = [(''cpu'', \<lparr>qValue = 1, qMilliValue = 250\<rparr>)], kcLimits = [], kcPorts = []\<rparr>"
  have "wf_map (kcRequests ?c)" "\<not> mhas (kcRequests ?c) ''ephemeral_storage''"
    by (simp_all add: wf_map_def mhas_def mget_Cons)
  from container_resources [OF requests_ok_initial this, of emptySet] show ?thesis
    by (simp add: scaled_def rget_def mget_Cons)
qed

section \<open>Lemmas: which sets there are\<close>

definition gone :: "PodBasedEnricher \<Rightarrow> mset \<Rightarrow> bool" where
  "gone pbe s \<longleftrightarrow> mgets (Labels s) (LabelKey LabelMetricSetType) \<in> {MetricSetTypePod, MetricSetTypePodContainer} \<and>
     pbeGetPod pbe (mgets (Labels s) (LabelKey LabelNamespaceName)) (mgets (Labels s) (LabelKey LabelPodName)) = None"

definition pod_of :: "PodBasedEnricher \<Rightarrow> mset \<Rightarrow> Pod option" where
  "pod_of pbe s = (if mgets (Labels s) (LabelKey LabelMetricSetType) = MetricSetTypePod
     then pbeGetPod pbe (mgets (Labels s) (LabelKey LabelNamespaceName)) (mgets (Labels s) (LabelKey LabelPodName)) else None)"

lemma add_stub_keys:
  "enSets (add_stub pbe s pod st c) = enSets st"
  "mhas (enNew st) k \<Longrightarrow> mhas (enNew (add_stub pbe s pod st c)) k"
  "mhas (enSets st) (meta_key pod (kcName c)) \<or> mhas (enNew (add_stub pbe s pod st c)) (meta_key pod (kcName c))"
  by (auto simp: add_stub_def Let_def split: prod.splits)

lemma add_stubs_keys:
  "enSets (foldl (add_stub pbe s pod) st cs) = enSets st \<and>
   (\<forall>k. mhas (enNew st) k \<longrightarrow> mhas (enNew (foldl (add_stub pbe s pod) st cs)) k) \<and>
   (\<forall>c \<in> set cs. mhas (enSets st) (meta_key pod (kcName c)) \<or>
      mhas (enNew (foldl (add_stub pbe s pod) st cs)) (meta_key pod (kcName c)))"
proof (induction cs arbitrary: st)
  case (Cons c cs)
  define st1 where "st1 = add_stub pbe s pod st c"
  have "enSets st1 = enSets st" "\<And>k. mhas (enNew st) k \<Longrightarrow> mhas (enNew st1) k"
    "mhas (enSets st) (meta_key pod (kcName c)) \<or> mhas (enNew st1) (meta_key pod (kcName c))"
    using add_stub_keys by (simp_all add: st1_def)
  with Cons.IH [of st1] show ?case by (auto simp: st1_def [symmetric])
qed simp

lemma updateContainerStatus_keys: "mhas (updateContainerStatus i pod ss t sets) k = mhas sets k"
  unfolding updateContainerStatus_def
  by (induction ss arbitrary: sets) (auto simp: mhas_def split: option.splits)

lemma addPodInfo_keys:
  assumes "addPodInfo pbe ts pod s st = (s', st')"
  shows "enSets st' = enSets st" "mhas (enNew st) k \<Longrightarrow> mhas (enNew st') k"
    "podPhase pod = ''Running'' \<Longrightarrow> c \<in> set (podContainers pod) \<Longrightarrow>
       mhas (enSets st) (meta_key pod (kcName c)) \<or> mhas (enNew st') (meta_key pod (kcName c))"
proof -
  have "enSets st' = enSets st \<and> (\<forall>k. mhas (enNew st) k \<longrightarrow> mhas (enNew st') k) \<and>
    (podPhase pod = ''Running'' \<longrightarrow> (\<forall>c \<in> set (podContainers pod).
       mhas (enSets st) (meta_key pod (kcName c)) \<or> mhas (enNew st') (meta_key pod (kcName c))))"
  proof (cases "podPhase pod = ''Running''")
    case True
    define r where "r = pod_info pbe pod s"
    define st1 where "st1 = (if \<not> HasOwnerReference (OwnerReferences (podMeta pod))
        then st\<lparr>enNew := addWorkloadStatusMetric r pod (enNew st)\<rparr> else st)"
    have 1: "enSets st1 = enSets st" "\<forall>k. mhas (enNew st) k \<longrightarrow> mhas (enNew st1) k"
      by (simp_all add: st1_def addWorkloadStatusMetric_def)
    have "enSets st' = enSets (foldl (add_stub pbe r pod) st1 (podContainers pod))"
      "mhas (enNew st') k = mhas (enNew (foldl (add_stub pbe r pod) st1 (podContainers pod))) k" for k
      using assms True by (auto simp: addPodInfo_def Let_def updateContainerStatus_keys r_def st1_def)
    with 1 add_stubs_keys [of pbe r pod st1 "podContainers pod"] show ?thesis by auto
  qed (use assms in \<open>auto simp: addPodInfo_def\<close>)
  then show "enSets st' = enSets st" "mhas (enNew st) k \<Longrightarrow> mhas (enNew st') k"
    "podPhase pod = ''Running'' \<Longrightarrow> c \<in> set (podContainers pod) \<Longrightarrow>
       mhas (enSets st) (meta_key pod (kcName c)) \<or> mhas (enNew st') (meta_key pod (kcName c))" by blast+
qed

lemma addContainerInfo_keys:
  "\<exists>s'. enSets (addContainerInfo pbe ts key pod s st) = mput key s' (enSets st)"
  "mhas (enNew st) k \<Longrightarrow> mhas (enNew (addContainerInfo pbe ts key pod s st)) k"
  by (auto simp: addContainerInfo_def Let_def addPodInfo_keys(1,2) split: prod.splits)

lemma enrich_key_sets:
  "j \<noteq> k \<Longrightarrow> mget (enSets (enrich_key pbe ts st k)) j = mget (enSets st) j"
  "mhas (enSets (enrich_key pbe ts st k)) k \<longleftrightarrow> (\<exists>s. mget (enSets st) k = Some s \<and> \<not> gone pbe s)"
  "mhas (enNew st) j \<Longrightarrow> mhas (enNew (enrich_key pbe ts st k)) j"
  "mget (enSets st) k = Some s \<Longrightarrow> pod_of pbe s = Some pod \<Longrightarrow> podPhase pod = ''Running'' \<Longrightarrow> c \<in> set (podContainers pod) \<Longrightarrow>
     mhas (enSets st) (meta_key pod (kcName c)) \<or> mhas (enNew (enrich_key pbe ts st k)) (meta_key pod (kcName c))"
proof -
  have differ: "MetricSetTypePod \<noteq> MetricSetTypePodContainer" by (simp add: set_type_defs)
  have c: "\<exists>s'. enSets (addContainerInfo pbe ts k pod s st) = mput k s' (enSets st)" for pod s by (rule addContainerInfo_keys)
  show "j \<noteq> k \<Longrightarrow> mget (enSets (enrich_key pbe ts st k)) j = mget (enSets st) j"
    using c by (auto simp: enrich_key_def Let_def addPodInfo_keys(1) split: option.splits prod.splits) (metis mget_mput)
  show "mhas (enSets (enrich_key pbe ts st k)) k \<longleftrightarrow> (\<exists>s. mget (enSets st) k = Some s \<and> \<not> gone pbe s)"
  proof (cases "mget (enSets st) k")
    case (Some s)
    obtain s' where "enSets (addContainerInfo pbe ts k (the (pbeGetPod pbe (mgets (Labels s) (LabelKey LabelNamespaceName))
        (mgets (Labels s) (LabelKey LabelPodName)))) s st) = mput k s' (enSets st)" using c by blast
    with Some differ show ?thesis
      by (auto simp: enrich_key_def Let_def gone_def addPodInfo_keys(1) mhas_def split: option.splits prod.splits)
  qed (simp add: enrich_key_def mhas_def)
  show "mhas (enNew st) j \<Longrightarrow> mhas (enNew (enrich_key pbe ts st k)) j"
    by (auto simp: enrich_key_def Let_def addPodInfo_keys(2) addContainerInfo_keys(2) split: option.splits prod.splits)
  show "mget (enSets st) k = Some s \<Longrightarrow> pod_of pbe s = Some pod \<Longrightarrow> podPhase pod = ''Running'' \<Longrightarrow> c \<in> set (podContainers pod) \<Longrightarrow>
     mhas (enSets st) (meta_key pod (kcName c)) \<or> mhas (enNew (enrich_key pbe ts st k)) (meta_key pod (kcName c))"
    by (auto simp: enrich_key_def Let_def pod_of_def dest: addPodInfo_keys(3) split: prod.splits if_splits)
qed

lemma enrich_fold:
  assumes "distinct ks"
  shows "(\<forall>k. mhas (enSets (foldl (enrich_key pbe ts) st ks)) k \<longleftrightarrow>
       (\<exists>s. mget (enSets st) k = Some s \<and> (k \<in> set ks \<longrightarrow> \<not> gone pbe s))) \<and>
    (\<forall>k. mhas (enNew st) k \<longrightarrow> mhas (enNew (foldl (enrich_key pbe ts) st ks)) k) \<and>
    (\<forall>k \<in> set ks. \<forall>s pod c. mget (enSets st) k = Some s \<longrightarrow> pod_of pbe s = Some pod \<longrightarrow> podPhase pod = ''Running'' \<longrightarrow>
       c \<in> set (podContainers pod) \<longrightarrow>
       mhas (enSets st) (meta_key pod (kcName c)) \<or> mhas (enNew (foldl (enrich_key pbe ts) st ks)) (meta_key pod (kcName c)))"
  using assms
proof (induction ks arbitrary: st)
  case (Cons j ks)
  define st1 where "st1 = enrich_key pbe ts st j"
  have other: "mget (enSets st1) k = mget (enSets st) k" if "k \<noteq> j" for k
    using enrich_key_sets(1) [OF that] by (simp add: st1_def)
  have own: "mhas (enSets st1) j \<longleftrightarrow> (\<exists>s. mget (enSets st) j = Some s \<and> \<not> gone pbe s)"
    using enrich_key_sets(2) by (simp add: st1_def)
  have mono: "mhas (enNew st) k \<Longrightarrow> mhas (enNew st1) k" for k using enrich_key_sets(3) by (simp add: st1_def)
  have less: "mhas (enSets st1) k \<Longrightarrow> mhas (enSets st) k" for k
    using other [of k] own by (cases "k = j") (auto simp: mhas_def)
  have j: "j \<notin> set ks" "distinct ks" using Cons.prems by auto
  note IH = Cons.IH [OF j(2), of st1]
  show ?case unfolding foldl.simps st1_def [symmetric]
  proof (intro conjI allI ballI impI)
    fix k
    show "mhas (enSets (foldl (enrich_key pbe ts) st1 ks)) k \<longleftrightarrow>
        (\<exists>s. mget (enSets st) k = Some s \<and> (k \<in> set (j # ks) \<longrightarrow> \<not> gone pbe s))"
      using IH own other [of k] j(1) by (cases "k = j") (auto simp: mhas_def)
    show "mhas (enNew (foldl (enrich_key pbe ts) st1 ks)) k" if "mhas (enNew st) k"
      using IH mono [OF that] by blast
  next
    fix k s pod c assume k: "k \<in> set (j # ks)" and s: "mget (enSets st) k = Some s" "pod_of pbe s = Some pod"
      "podPhase pod = ''Running''" "c \<in> set (podContainers pod)"
    show "mhas (enSets st) (meta_key pod (kcName c)) \<or>
        mhas (enNew (foldl (enrich_key pbe ts) st1 ks)) (meta_key pod (kcName c))"
    proof (cases "k = j")
      case True
      then have "mhas (enSets st) (meta_key pod (kcName c)) \<or> mhas (enNew st1) (meta_key pod (kcName c))"
        using enrich_key_sets(4) [of st j s pbe pod c ts] s by (simp add: st1_def)
      then show ?thesis using IH by blast
    next
      case False
      then have "mget (enSets st1) k = Some s" "k \<in> set ks" using other s(1) k by auto
      then show ?thesis using IH s(2-4) less by blast
    qed
  qed
qed (auto simp: mhas_def)

text \<open>C17: the pod enricher drops only pods and containers whose pod its lister does not know, and for every
  running pod of the batch the result holds a set for each container of the pod's specification, in
  whatever order the sets are visited, unless the batch holds one of a different, unknown pod under that key.\<close>

theorem PodBasedEnricher_complete:
  assumes "wf_map (Sets b)" and "PodBasedEnricher_Process pbe rrm b = (rrm', b')"
  shows "(\<forall>k s. mget (Sets b) k = Some s \<longrightarrow> \<not> gone pbe s \<longrightarrow> mhas (Sets b') k) \<and>
    (\<forall>k s pod c. mget (Sets b) k = Some s \<longrightarrow> pod_of pbe s = Some pod \<longrightarrow> podPhase pod = ''Running'' \<longrightarrow>
       c \<in> set (podContainers pod) \<longrightarrow>
       mhas (Sets b') (meta_key pod (kcName c)) \<or> (\<exists>t. mget (Sets b) (meta_key pod (kcName c)) = Some t \<and> gone pbe t))"
proof -
  let ?st = "\<lparr>enSets = Sets b, enNew = [], enRequests = rrm\<rparr>"
  define st where "st = foldl (enrich_key pbe (bTimestamp b)) ?st (mkeys (Sets b))"
  have d: "distinct (mkeys (Sets b))" using assms(1) by (simp add: wf_map_def mkeys_def)
  have b': "Sets b' = mput_all (enNew st) (enSets st)"
    using assms(2) by (auto simp: PodBasedEnricher_Process_def Let_def st_def)
  have put: "mhas (mput_all n e) k" if "mhas n k \<or> mhas e k" for n :: "(ResourceKey, mset) gomap" and e k
    using that by (induction n arbitrary: e) (auto simp: mput_all_Cons mhas_def mget_Cons split: if_splits)
  have keys: "k \<in> set (mkeys (Sets b)) \<longleftrightarrow> mget (Sets b) k \<noteq> None" for k by (simp add: mhas_mkeys [symmetric] mhas_def)
  note fold = enrich_fold [OF d, of pbe "bTimestamp b" ?st, folded st_def]
  show ?thesis
  proof (intro conjI allI impI)
    fix k s assume "mget (Sets b) k = Some s" "\<not> gone pbe s"
    then have "mhas (enSets st) k" using fold by auto
    then show "mhas (Sets b') k" using put b' by simp
  next
    fix k s pod c assume "mget (Sets b) k = Some s" "pod_of pbe s = Some pod" "podPhase pod = ''Running''" "c \<in> set (podContainers pod)"
    then have "mhas (Sets b) (meta_key pod (kcName c)) \<or> mhas (enNew st) (meta_key pod (kcName c))"
      using fold keys [of k] by auto
    then show "mhas (Sets b') (meta_key pod (kcName c)) \<or> (\<exists>t. mget (Sets b) (meta_key pod (kcName c)) = Some t \<and> gone pbe t)"
    proof
      assume "mhas (Sets b) (meta_key pod (kcName c))"
      then obtain t where "mget (Sets b) (meta_key pod (kcName c)) = Some t" by (auto simp: mhas_def)
      then show ?thesis using fold put b' by (cases "gone pbe t") auto
    qed (use put b' in auto)
  qed
qed

definition sample_pod :: Pod where
  "sample_pod = \<lparr>podMeta = emptyMeta ''a'' ''p'', podNodeName = ''n'', podPhase = ''Running'', podIP = ''10.0.0.9'',
     podStartTime = None, podDeleting = False,
     podContainers = [\<lparr>kcName = ''c'', kcImage = ''i'', kcRequests = [], kcLimits = [], kcPorts = []\<rparr>],
     podContainerStatuses = [], podConditions = []\<rparr>"

definition sample_enricher :: PodBasedEnricher where
  "sample_enricher = \<lparr>pbeGetPod = (\<lambda>ns name. if ns = ''a'' \<and> name = ''p'' then Some sample_pod else None),
     pbeLabelCopier = NewLabelCopier '','' [] [], pbeCollectionInterval = Minute,
     pbeWorkloadCache = \<lparr>podLister = (\<lambda>_ _. None), rsLister = (\<lambda>_ _. None), jobLister = (\<lambda>_ _. None)\<rparr>\<rparr>"

definition sample_running :: Batch where
  "sample_running = \<lparr>bTimestamp = 0, Sets = [(PodKey ''a'' ''p'', typed_set MetricSetTypePod
     [(LabelKey LabelNamespaceName, ''a''), (LabelKey LabelPodName, ''p'')] [])], Metrics = []\<rparr>"

lemma PodBasedEnricher_complete_witness:
  "mhas (Sets (snd (PodBasedEnricher_Process sample_enricher ResourceRequestMetrics sample_running))) (meta_key sample_pod ''c'')"
proof -
  obtain rrm b' where p: "PodBasedEnricher_Process sample_enricher ResourceRequestMetrics sample_running = (rrm, b')"
    by (cases "PodBasedEnricher_Process sample_enricher ResourceRequestMetrics sample_running")
  have wf: "wf_map (Sets sample_running)" by code_simp
  have s: "mget (Sets sample_running) (PodKey ''a'' ''p'') = Some (snd (hd (Sets sample_running)))"
    by (simp add: sample_running_def mget_Cons)
  have t: "pod_of sample_enricher (snd (hd (Sets sample_running))) = Some sample_pod"
    by (simp add: sample_running_def pod_of_def typed_set_def sample_enricher_def mgets_def mget_Cons label_defs)
  have c: "podContainers sample_pod = [\<lparr>kcName = ''c'', kcImage = ''i'', kcRequests = [], kcLimits = [], kcPorts = []\<rparr>]"
    "podPhase sample_pod = ''Running''" by (simp_all add: sample_pod_def)
  have none: "mget (Sets sample_running) (meta_key sample_pod ''c'') = None" by code_simp
  let ?c = "\<lparr>kcName = ''c'', kcImage = ''i'', kcRequests = [], kcLimits = [], kcPorts = []\<rparr>"
  have "?c \<in> set (podContainers sample_pod)" using c(1) by simp
  then have "mhas (Sets b') (meta_key sample_pod (kcName ?c)) \<or>
      (\<exists>t. mget (Sets sample_running) (meta_key sample_pod (kcName ?c)) = Some t \<and> gone sample_enricher t)"
    using PodBasedEnricher_complete [OF wf p] s t c(2) by blast
  then show ?thesis by (simp add: p none)
qed

end
