(* ===== verification/Converter.thy ===== *)
theory Converter
  imports Rates Configuration
begin

text \<open>
  The last processor of the pipeline (\<open>collector/plugins/sources/summary\<close>: wavefront_converter.go,
  converter_utils.go): metric sets become points. The source gives all points of a set's values one
  tag map, and the point of a labelled value the label map of that value, which several labelled
  values may share; filtering a point deletes tags from the map it has. The model therefore keeps the
  maps of a set in a store, a list, and a point names its map by its index. \<open>share\<close> says for every
  labelled value of a set which labelled value's map it shares (itself when it has its own). A nil
  label map, for which the source makes a fresh map that the value does not get back, is modelled as
  an empty map of its own: the points are the same, and nothing reads the sets after this processor.
\<close>

section \<open>Points that share their tags\<close>

record ref_point =
  rpName :: string
  rpValue :: f64
  rpTimestamp :: int64
  rpSource :: string
  rpRef :: nat

definition deref :: "tagmap list \<Rightarrow> ref_point \<Rightarrow> point" where
  "deref store p = NewPoint (rpName p) (rpValue p) (rpTimestamp p) (rpSource p) (store ! rpRef p)"

text \<open>\<open>wf.FilterAppend\<close> on such a point; the state is the store, the points and the two counters.\<close>

record conversion =
  cvStore :: "tagmap list"
  cvPoints :: "ref_point list"
  cvFiltered :: int64
  cvCollected :: int64

definition filter_append :: "globFilter option \<Rightarrow> ref_point \<Rightarrow> conversion \<Rightarrow> conversion" where
  "filter_append fi p c =
     (case fi of
        None \<Rightarrow> c\<lparr>cvPoints := cvPoints c @ [p]\<rparr>
      | Some f \<Rightarrow>
          if \<not> MatchMetric f (rpName p) (cvStore c ! rpRef p) then c\<lparr>cvFiltered := cvFiltered c + 1\<rparr>
          else c\<lparr>cvStore := (cvStore c)[rpRef p := mfilter (MatchTag f) (cvStore c ! rpRef p)],
                 cvPoints := cvPoints c @ [p]\<rparr>)"

section \<open>The converter\<close>

record pointConverter =
  pcCluster :: string
  pcPrefix :: string
  pcFilters :: "globFilter option"

definition is_space :: "char \<Rightarrow> bool" where
  "is_space c \<longleftrightarrow> (of_char c :: nat) \<in> {9, 10, 11, 12, 13, 32}"

definition NewPointConverter :: "glob_compile \<Rightarrow> SummarySourceConfig \<Rightarrow> string \<Rightarrow> pointConverter" where
  "NewPointConverter gc cfg cluster =
     (let cluster = Trim is_space cluster;
          cluster = (if cluster = '''' then ''k8s-cluster'' else cluster)
      in \<lparr>pcCluster = cluster, pcPrefix = GetStringValue (trPrefix (ssTransforms cfg)) ''kubernetes.'',
          pcFilters = FromConfig gc (trFilters (ssTransforms cfg))\<rparr>)"

definition add_label_tag :: "tagmap \<Rightarrow> tagmap \<Rightarrow> string \<Rightarrow> tagmap" where
  "add_label_tag labels tags labelName =
     (let labelValue = mgets labels labelName
      in if labelName = ''labels''
         then foldl (\<lambda>tags label. case SplitN2 (CHR '':'') label of
                       [k, v] \<Rightarrow> mput (''label.'' @ k) v tags | _ \<Rightarrow> tags)
                tags (Split (CHR '','') labelValue)
         else mput labelName labelValue tags)"

definition addLabelTags :: "mset \<Rightarrow> tagmap \<Rightarrow> tagmap" where
  "addLabelTags ms tags = foldl (add_label_tag (Labels ms)) tags (sorted_keys (Labels ms))"

definition cleanMetricName :: "pointConverter \<Rightarrow> string \<Rightarrow> string \<Rightarrow> string" where
  "cleanMetricName converter metricType metricName =
     (let cleanName = pcPrefix converter;
          cleanName = (if length metricType > 0 then cleanName @ metricType @ ''.'' else cleanName)
      in cleanName @ ReplaceChar (CHR ''/'') ''.'' metricName)"

definition point_value :: "mvalue \<Rightarrow> f64 option" where
  "point_value v =
     (if ValueInt64 = ValueTypeOf v then Some (f64_of_int64 (IntValue v))
      else if ValueFloat = ValueTypeOf v then Some (FloatValue v) else None)"

text \<open>The source of a value's point: the node, or else a name that depends on the kind of the set.\<close>

definition value_source :: "pointConverter \<Rightarrow> string \<Rightarrow> string \<Rightarrow> string \<Rightarrow> tagmap \<Rightarrow> string" where
  "value_source converter nodeName metricType hostname tags =
     (if nodeName = ''''
      then (if metricType = ''cluster'' then pcCluster converter
            else if metricType = ''ns'' then mgets tags ''namespace_name'' @ ''-ns''
            else hostname)
      else nodeName)"

definition convert_value ::
  "pointConverter \<Rightarrow> string \<Rightarrow> gotime \<Rightarrow> string \<Rightarrow> string \<Rightarrow> mset \<Rightarrow> conversion \<Rightarrow> string \<Rightarrow> conversion" where
  "convert_value converter nodeName ts metricType hostname ms c metricName =
     (case mget (Values ms) metricName of
        None \<Rightarrow> c
      | Some metricValue \<Rightarrow>
         (case point_value metricValue of
            None \<Rightarrow> c
          | Some v \<Rightarrow>
              let p = \<lparr>rpName = cleanMetricName converter metricType metricName, rpValue = v, rpTimestamp = Unix ts,
                       rpSource = value_source converter nodeName metricType hostname (cvStore c ! 0), rpRef = 0\<rparr>;
                  c = filter_append (pcFilters converter) p c
              in c\<lparr>cvCollected := cvCollected c + 1\<rparr>))"

definition convert_labeled ::
  "pointConverter \<Rightarrow> string \<Rightarrow> gotime \<Rightarrow> string \<Rightarrow> string \<Rightarrow> (nat \<Rightarrow> nat) \<Rightarrow> conversion \<Rightarrow> nat \<times> LabeledValue \<Rightarrow> conversion" where
  "convert_labeled converter nodeName ts metricType hostname share c e =
     (case e of (i, metric) \<Rightarrow>
        case point_value (lvValue metric) of
          None \<Rightarrow> c
        | Some v \<Rightarrow>
           (let r = Suc (share i);
                c = c\<lparr>cvStore := (cvStore c)[r := mput_all (cvStore c ! 0) (cvStore c ! r)]\<rparr>;
                p = \<lparr>rpName = cleanMetricName converter metricType (lvName metric), rpValue = v, rpTimestamp = Unix ts,
                     rpSource = (if nodeName = '''' then hostname else nodeName), rpRef = r\<rparr>;
                c = filter_append (pcFilters converter) p c
            in c\<lparr>cvCollected := cvCollected c + 1\<rparr>))"

text \<open>One set: its store starts with the tags and the label maps; the result is the points with the tags
  they end up with, the set with its label maps changed, and the counters.\<close>

definition convert_set ::
  "pointConverter \<Rightarrow> string \<Rightarrow> gotime \<Rightarrow> (nat \<Rightarrow> nat) \<Rightarrow> mset \<Rightarrow> point list \<times> mset \<times> int64 \<times> int64" where
  "convert_set converter nodeName ts share ms =
     (let tags = addLabelTags ms []; hostname = mgets tags ''hostname''; metricType = mgets tags ''type''
      in if Contains (mgets tags ''container_name'') ''system.slice/'' then ([], ms, 0, 0)
         else
          (let c = \<lparr>cvStore = tags # map lvLabels (LabeledValues ms), cvPoints = [], cvFiltered = 0, cvCollected = 0\<rparr>;
               c = foldl (convert_value converter nodeName ts metricType hostname ms) c (sorted_keys (Values ms));
               lvs = zip [0..<length (LabeledValues ms)] (LabeledValues ms);
               c = foldl (convert_labeled converter nodeName ts metricType hostname share) c lvs;
               ms = ms\<lparr>LabeledValues := map (\<lambda>e. (snd e)\<lparr>lvLabels := cvStore c ! Suc (share (fst e))\<rparr>) lvs\<rparr>
           in (map (deref (cvStore c)) (cvPoints c), ms, cvFiltered c, cvCollected c)))"

definition convert_key ::
  "pointConverter \<Rightarrow> string \<Rightarrow> gotime \<Rightarrow> (ResourceKey \<Rightarrow> nat \<Rightarrow> nat) \<Rightarrow>
   Batch \<times> int64 \<times> int64 \<Rightarrow> ResourceKey \<Rightarrow> Batch \<times> int64 \<times> int64" where
  "convert_key converter nodeName ts share st key =
     (case st of (batch, filtered, collected) \<Rightarrow>
        case mget (Sets batch) key of
          None \<Rightarrow> st
        | Some ms \<Rightarrow>
           (case convert_set converter nodeName ts (share key) ms of
              (points, ms', f, n) \<Rightarrow>
                (batch\<lparr>Sets := mput key ms' (Sets batch), Metrics := Metrics batch @ map (Some \<circ> MPoint) points\<rparr>,
                 filtered + f, collected + n)))"

text \<open>The result is the batch and what the two counters counted.\<close>

definition pointConverter_Process ::
  "pointConverter \<Rightarrow> string \<Rightarrow> (ResourceKey \<Rightarrow> nat \<Rightarrow> nat) \<Rightarrow> Batch \<Rightarrow> Batch \<times> int64 \<times> int64" where
  "pointConverter_Process converter nodeName share batch =
     (if length (Sets batch) = 0 then (batch, 0, 0)
      else foldl (convert_key converter nodeName (bTimestamp batch) share) (batch, 0, 0) (sorted_keys (Sets batch)))"

section \<open>The conversion of independent points\<close>

text \<open>The same conversion when every point has a tag map of its own: what the source would do without sharing.\<close>

definition accepts :: "globFilter option \<Rightarrow> string \<Rightarrow> tagmap \<Rightarrow> bool" where
  "accepts fi name tags \<longleftrightarrow> (case fi of None \<Rightarrow> True | Some f \<Rightarrow> MatchMetric f name tags)"

definition kept :: "globFilter option \<Rightarrow> tagmap \<Rightarrow> tagmap" where
  "kept fi tags = (case fi of None \<Rightarrow> tags | Some f \<Rightarrow> mfilter (MatchTag f) tags)"

definition own_value_point :: "pointConverter \<Rightarrow> string \<Rightarrow> gotime \<Rightarrow> tagmap \<Rightarrow> mset \<Rightarrow> string \<Rightarrow> point option" where
  "own_value_point converter nodeName ts tags ms n =
     (let name = cleanMetricName converter (mgets tags ''type'') n
      in case mget (Values ms) n of None \<Rightarrow> None
       | Some v \<Rightarrow> (case point_value v of None \<Rightarrow> None
          | Some x \<Rightarrow> if accepts (pcFilters converter) name tags
              then Some (NewPoint name x (Unix ts)
                     (value_source converter nodeName (mgets tags ''type'') (mgets tags ''hostname'') tags)
                     (kept (pcFilters converter) tags))
              else None))"

definition own_labeled_point :: "pointConverter \<Rightarrow> string \<Rightarrow> gotime \<Rightarrow> tagmap \<Rightarrow> LabeledValue \<Rightarrow> point option" where
  "own_labeled_point converter nodeName ts tags lv =
     (let name = cleanMetricName converter (mgets tags ''type'') (lvName lv); ls = mput_all tags (lvLabels lv)
      in case point_value (lvValue lv) of None \<Rightarrow> None
       | Some x \<Rightarrow> if accepts (pcFilters converter) name ls
           then Some (NewPoint name x (Unix ts) (if nodeName = '''' then mgets tags ''hostname'' else nodeName)
                  (kept (pcFilters converter) ls))
           else None)"

definition own_points :: "pointConverter \<Rightarrow> string \<Rightarrow> gotime \<Rightarrow> mset \<Rightarrow> point list" where
  "own_points converter nodeName ts ms =
     (let tags = addLabelTags ms []
      in if Contains (mgets tags ''container_name'') ''system.slice/'' then []
         else List.map_filter (own_value_point converter nodeName ts tags ms) (sorted_keys (Values ms)) @
              List.map_filter (own_labeled_point converter nodeName ts tags) (LabeledValues ms))"

section \<open>Lemmas\<close>

lemma mput_same: "mget m k = Some v \<Longrightarrow> mput k v m = m"
  by (simp add: mget_def mput_def update_triv)

lemma mput_all_absorb:
  assumes "\<And>k v. (k, v) \<in> set src \<Longrightarrow> mget m k = Some v"
  shows "mput_all src m = m"
  using assms
proof (induction src arbitrary: m)
  case (Cons e src)
  then have "mput (fst e) (snd e) m = m" by (intro mput_same) (cases e, auto)
  with Cons show ?case by (simp add: mput_all_Cons)
qed simp

lemma mput_all_twice: "wf_map src \<Longrightarrow> mput_all src (mput_all src m) = mput_all src m"
  by (rule mput_all_absorb) (simp add: mget_iff_in_set [symmetric])

lemma wf_map_addLabelTags [simp]: "wf_map tags \<Longrightarrow> wf_map (addLabelTags ms tags)"
proof -
  have one: "wf_map (add_label_tag ls t n)" if "wf_map t" for ls t n
  proof -
    have "wf_map (foldl (\<lambda>tags label. case SplitN2 (CHR '':'') label of [k, v] \<Rightarrow> mput (''label.'' @ k) v tags | _ \<Rightarrow> tags) t xs)" for xs
      by (rule foldl_invariant [where P = wf_map]) (use that in \<open>auto split: list.splits\<close>)
    then show ?thesis using that by (simp add: add_label_tag_def Let_def)
  qed
  show "wf_map tags \<Longrightarrow> wf_map (addLabelTags ms tags)"
    unfolding addLabelTags_def by (rule foldl_invariant [where P = wf_map]) (auto intro: one)
qed

lemma filter_append_refs:
  "length (cvStore (filter_append fi p c)) = length (cvStore c)"
  "r \<noteq> rpRef p \<Longrightarrow> cvStore (filter_append fi p c) ! r = cvStore c ! r"
  "set (cvPoints (filter_append fi p c)) \<subseteq> insert p (set (cvPoints c))"
  by (auto simp: filter_append_def split: option.splits)

section \<open>Tags that pass the filter\<close>

definition clean :: "globFilter \<Rightarrow> conversion \<Rightarrow> bool" where
  "clean f c \<longleftrightarrow> (\<forall>p \<in> set (cvPoints c). rpRef p < length (cvStore c) \<and>
     (\<forall>k. mhas (cvStore c ! rpRef p) k \<longrightarrow> MatchTag f k))"

lemma clean_filter_append:
  assumes "clean f c" and "rpRef p < length (cvStore c)"
  shows "clean f (filter_append (Some f) p c)"
  using assms by (auto simp: clean_def filter_append_def nth_list_update mhas_def split: if_splits)

lemma clean_counters [simp]:
  "clean f (c\<lparr>cvCollected := n\<rparr>) = clean f c" "clean f (c\<lparr>cvFiltered := n\<rparr>) = clean f c"
  by (simp_all add: clean_def)

lemma clean_value:
  assumes "clean f c" "cvStore c \<noteq> []" "pcFilters cv = Some f"
  shows "clean f (convert_value cv node ts t h ms c n)" "length (cvStore (convert_value cv node ts t h ms c n)) = length (cvStore c)"
    "\<forall>p \<in> set (cvPoints c). rpRef p = 0 \<Longrightarrow> \<forall>p \<in> set (cvPoints (convert_value cv node ts t h ms c n)). rpRef p = 0"
  using assms filter_append_refs(3) [of "Some f" _ c]
  by (auto simp: convert_value_def Let_def filter_append_refs(1) intro!: clean_filter_append split: option.splits) fastforce

lemma clean_values:
  assumes "clean f c" "cvStore c \<noteq> []" "pcFilters cv = Some f" "\<forall>p \<in> set (cvPoints c). rpRef p = 0"
  shows "clean f (foldl (convert_value cv node ts t h ms) c ns) \<and>
    length (cvStore (foldl (convert_value cv node ts t h ms) c ns)) = length (cvStore c) \<and>
    (\<forall>p \<in> set (cvPoints (foldl (convert_value cv node ts t h ms) c ns)). rpRef p = 0)"
  using assms
proof (induction ns arbitrary: c)
  case (Cons n ns)
  note one = clean_value [OF Cons.prems(1-3), of node ts t h ms n]
  have "cvStore (convert_value cv node ts t h ms c n) \<noteq> []" using one(2) Cons.prems(2) by (metis length_0_conv)
  from Cons.IH [OF one(1) this Cons.prems(3) one(3) [OF Cons.prems(4)]] one(2) show ?case by simp
qed simp

lemma clean_labeled:
  assumes "clean f c" "pcFilters cv = Some f" "Suc i < length (cvStore c)" "\<forall>p \<in> set (cvPoints c). rpRef p \<le> i"
  shows "clean f (convert_labeled cv node ts t h id c (i, lv)) \<and>
    length (cvStore (convert_labeled cv node ts t h id c (i, lv))) = length (cvStore c) \<and>
    (\<forall>p \<in> set (cvPoints (convert_labeled cv node ts t h id c (i, lv))). rpRef p \<le> Suc i)"
proof (cases "point_value (lvValue lv)")
  case None
  with assms show ?thesis by (auto simp: convert_labeled_def)
next
  case (Some v)
  define c1 where "c1 = c\<lparr>cvStore := (cvStore c)[Suc i := mput_all (cvStore c ! 0) (cvStore c ! Suc i)]\<rparr>"
  define p where "p = \<lparr>rpName = cleanMetricName cv t (lvName lv), rpValue = v, rpTimestamp = Unix ts,
     rpSource = (if node = '''' then h else node), rpRef = Suc i\<rparr>"
  have "clean f c1" using assms by (auto simp: clean_def c1_def nth_list_update)
  then have "clean f (filter_append (Some f) p c1)" using assms(3) by (intro clean_filter_append) (simp_all add: c1_def p_def)
  moreover have "rpRef p = Suc i" "set (cvPoints c1) = set (cvPoints c)" "length (cvStore c1) = length (cvStore c)"
    by (simp_all add: c1_def p_def)
  moreover have "convert_labeled cv node ts t h id c (i, lv) =
      (filter_append (Some f) p c1)\<lparr>cvCollected := cvCollected (filter_append (Some f) p c1) + 1\<rparr>"
    using Some assms(2) by (simp add: convert_labeled_def Let_def c1_def p_def)
  ultimately show ?thesis using assms(4) filter_append_refs(1,3) [of "Some f" p c1] by fastforce
qed

lemma clean_labeleds:
  assumes "clean f c" "pcFilters cv = Some f" "length (cvStore c) = Suc (i + length lvs)" "\<forall>p \<in> set (cvPoints c). rpRef p \<le> i"
  shows "clean f (foldl (convert_labeled cv node ts t h id) c (zip [i..<i + length lvs] lvs))"
  using assms
proof (induction lvs arbitrary: c i)
  case (Cons lv lvs)
  have i: "Suc i < length (cvStore c)" using Cons.prems(3) by simp
  note one = clean_labeled [OF Cons.prems(1,2) i Cons.prems(4), of node ts t h lv]
  have "clean f (foldl (convert_labeled cv node ts t h id) (convert_labeled cv node ts t h id c (i, lv))
      (zip [Suc i..<Suc i + length lvs] lvs))"
    using one Cons.prems(2,3) by (intro Cons.IH) auto
  moreover have "zip [i..<i + length (lv # lvs)] (lv # lvs) = (i, lv) # zip [Suc i..<Suc i + length lvs] lvs"
    by (simp add: upt_conv_Cons del: upt_Suc)
  ultimately show ?case by (simp only: foldl.simps)
qed simp

text \<open>When no two labelled values share a label map, every tag of every point a set is converted to
  passes the converter's filter.\<close>

theorem convert_set_tags:
  assumes "convert_set cv node ts id ms = (pts, ms', filtered, collected)" and "pcFilters cv = Some f"
  shows "\<forall>p \<in> set pts. \<forall>k. mhas (pttags p) k \<longrightarrow> MatchTag f k"
proof (cases "Contains (mgets (addLabelTags ms []) ''container_name'') ''system.slice/''")
  case True
  with assms(1) show ?thesis by (simp add: convert_set_def Let_def)
next
  case False
  let ?t = "mgets (addLabelTags ms []) ''type''" and ?h = "mgets (addLabelTags ms []) ''hostname''"
  define c0 where "c0 = \<lparr>cvStore = addLabelTags ms [] # map lvLabels (LabeledValues ms), cvPoints = [], cvFiltered = 0, cvCollected = 0\<rparr>"
  define c1 where "c1 = foldl (convert_value cv node ts ?t ?h ms) c0 (sorted_keys (Values ms))"
  define c2 where "c2 = foldl (convert_labeled cv node ts ?t ?h id) c1 (zip [0..<length (LabeledValues ms)] (LabeledValues ms))"
  have "clean f c0" by (simp add: clean_def c0_def)
  then have 1: "clean f c1" "length (cvStore c1) = length (cvStore c0)" "\<forall>p \<in> set (cvPoints c1). rpRef p = 0"
    using clean_values [of f c0 cv node ts ?t ?h ms] assms(2) by (simp_all add: c1_def c0_def)
  have "clean f (foldl (convert_labeled cv node ts ?t ?h id) c1 (zip [0..<0 + length (LabeledValues ms)] (LabeledValues ms)))"
    using 1 assms(2) by (intro clean_labeleds) (simp_all add: c0_def)
  then have "clean f c2" by (simp add: c2_def)
  moreover have "pts = map (deref (cvStore c2)) (cvPoints c2)"
    using assms(1) False by (auto simp: convert_set_def Let_def c2_def c1_def c0_def)
  ultimately show ?thesis by (auto simp: clean_def deref_def NewPoint_def)
qed

section \<open>When sharing does not show\<close>

lemma mfilter_all: "(\<And>k. P k) \<Longrightarrow> mfilter P m = m"
  by (simp add: mfilter_def)

lemma filter_append_keeps:
  assumes "\<And>f k. fi = Some f \<Longrightarrow> MatchTag f k"
  shows "filter_append fi p c =
    (if accepts fi (rpName p) (cvStore c ! rpRef p) then c\<lparr>cvPoints := cvPoints c @ [p]\<rparr>
     else c\<lparr>cvFiltered := cvFiltered c + 1\<rparr>)"
  using assms by (cases fi) (auto simp: filter_append_def accepts_def mfilter_all)

lemma kept_all: "(\<And>f k. fi = Some f \<Longrightarrow> MatchTag f k) \<Longrightarrow> kept fi tags = tags"
  by (auto simp: kept_def mfilter_all split: option.splits)

lemma convert_values_own:
  assumes keep: "\<And>f k. pcFilters cv = Some f \<Longrightarrow> MatchTag f k"
    and "cvStore c ! 0 = tags" "\<forall>p \<in> set (cvPoints c). rpRef p = 0"
  shows "let c' = foldl (convert_value cv node ts (mgets tags ''type'') (mgets tags ''hostname'') ms) c ns
    in cvStore c' = cvStore c \<and> (\<forall>p \<in> set (cvPoints c'). rpRef p = 0) \<and>
       map (deref (cvStore c)) (cvPoints c') =
         map (deref (cvStore c)) (cvPoints c) @ List.map_filter (own_value_point cv node ts tags ms) ns"
  using assms(2,3)
proof (induction ns arbitrary: c)
  case (Cons n ns)
  let ?c = "convert_value cv node ts (mgets tags ''type'') (mgets tags ''hostname'') ms c n"
  have "cvStore ?c = cvStore c \<and> (\<forall>p \<in> set (cvPoints ?c). rpRef p = 0) \<and>
      map (deref (cvStore c)) (cvPoints ?c) = map (deref (cvStore c)) (cvPoints c) @
        (case own_value_point cv node ts tags ms n of None \<Rightarrow> [] | Some p \<Rightarrow> [p])"
    using Cons.prems
    by (auto simp: convert_value_def own_value_point_def Let_def filter_append_keeps [OF keep] kept_all [OF keep] deref_def
        split: option.splits)
  with Cons.IH [of ?c] Cons.prems(1) show ?case
    by (auto simp: Let_def map_filter_simps split: option.splits)
qed (simp add: map_filter_simps)

text \<open>The maps of a set while its labelled values are converted: each is as it was or has had the tags
  written over it, and it has had them if a point uses it.\<close>

definition sharing :: "tagmap \<Rightarrow> tagmap list \<Rightarrow> conversion \<Rightarrow> bool" where
  "sharing tags ls c \<longleftrightarrow> length (cvStore c) = Suc (length ls) \<and> cvStore c ! 0 = tags \<and>
     (\<forall>r < length ls. cvStore c ! Suc r \<in> {ls ! r, mput_all tags (ls ! r)}) \<and>
     (\<forall>p \<in> set (cvPoints c). rpRef p \<noteq> 0 \<longrightarrow>
        rpRef p \<le> length ls \<and> cvStore c ! rpRef p = mput_all tags (ls ! (rpRef p - 1)))"

lemma convert_labeled_own:
  fixes node ts
  assumes keep: "\<And>f k. pcFilters cv = Some f \<Longrightarrow> MatchTag f k" and wf: "wf_map tags"
    and sh: "sharing tags ls c" and i: "share i < length ls" "ls ! share i = lvLabels lv"
  defines "c' \<equiv> convert_labeled cv node ts (mgets tags ''type'') (mgets tags ''hostname'') share c (i, lv)"
  shows "sharing tags ls c'"
    and "map (deref (cvStore c')) (cvPoints c') = map (deref (cvStore c)) (cvPoints c) @
      (case own_labeled_point cv node ts tags lv of None \<Rightarrow> [] | Some p \<Rightarrow> [p])"
proof -
  let ?r = "Suc (share i)" and ?m = "mput_all tags (lvLabels lv)"
  have len: "length (cvStore c) = Suc (length ls)" and zero: "cvStore c ! 0 = tags" using sh by (simp_all add: sharing_def)
  have new: "mput_all tags (cvStore c ! ?r) = ?m"
    using sh i mput_all_twice [OF wf, of "lvLabels lv"] by (auto simp: sharing_def)
  have old: "deref ((cvStore c)[?r := ?m]) p = deref (cvStore c) p" if "p \<in> set (cvPoints c)" for p
    using sh that i len by (cases "rpRef p = ?r") (auto simp: sharing_def deref_def)
  have upd: "sharing tags ls (c\<lparr>cvStore := (cvStore c)[?r := ?m]\<rparr>)"
    using sh i by (auto simp: sharing_def nth_list_update split: if_splits) (metis diff_Suc_Suc diff_zero)+
  have "sharing tags ls c' \<and> map (deref (cvStore c')) (cvPoints c') = map (deref (cvStore c)) (cvPoints c) @
      (case own_labeled_point cv node ts tags lv of None \<Rightarrow> [] | Some p \<Rightarrow> [p])"
  proof (cases "point_value (lvValue lv)")
    case None
    then show ?thesis using sh by (simp add: c'_def convert_labeled_def own_labeled_point_def Let_def)
  next
    case (Some v)
    let ?n = "cleanMetricName cv (mgets tags ''type'') (lvName lv)"
    let ?p = "\<lparr>rpName = ?n, rpValue = v, rpTimestamp = Unix ts,
       rpSource = (if node = '''' then mgets tags ''hostname'' else node), rpRef = ?r\<rparr>"
    have c': "c' = (if accepts (pcFilters cv) ?n ?m
        then c\<lparr>cvStore := (cvStore c)[?r := ?m], cvPoints := cvPoints c @ [?p], cvCollected := cvCollected c + 1\<rparr>
        else c\<lparr>cvStore := (cvStore c)[?r := ?m], cvFiltered := cvFiltered c + 1, cvCollected := cvCollected c + 1\<rparr>)"
      using Some i len
      by (simp add: c'_def convert_labeled_def Let_def filter_append_keeps [OF keep] zero new)
    show ?thesis
    proof (cases "accepts (pcFilters cv) ?n ?m")
      case True
      have "sharing tags ls c'" using upd True i len by (auto simp: c' sharing_def nth_list_update)
      moreover have "own_labeled_point cv node ts tags lv = Some (deref (cvStore c') ?p)"
        using Some True i len
        by (simp add: own_labeled_point_def Let_def kept_all [OF keep] c' deref_def)
      ultimately show ?thesis using old True by (simp add: c')
    next
      case False
      then show ?thesis using Some upd old
        by (simp add: c' sharing_def own_labeled_point_def Let_def)
    qed
  qed
  then show "sharing tags ls c'"
    and "map (deref (cvStore c')) (cvPoints c') = map (deref (cvStore c)) (cvPoints c) @
      (case own_labeled_point cv node ts tags lv of None \<Rightarrow> [] | Some p \<Rightarrow> [p])" by auto
qed

lemma convert_labeleds_own:
  fixes node ts
  assumes keep: "\<And>f k. pcFilters cv = Some f \<Longrightarrow> MatchTag f k" and wf: "wf_map tags"
    and "sharing tags ls c"
    and "\<forall>(i, lv) \<in> set lvs. share i < length ls \<and> ls ! share i = lvLabels lv"
  defines "c' \<equiv> foldl (convert_labeled cv node ts (mgets tags ''type'') (mgets tags ''hostname'') share) c lvs"
  shows "map (deref (cvStore c')) (cvPoints c') = map (deref (cvStore c)) (cvPoints c) @
    List.map_filter (own_labeled_point cv node ts tags) (map snd lvs)"
  using assms(3,4) unfolding c'_def
proof (induction lvs arbitrary: c)
  case (Cons e lvs)
  obtain i lv where e: "e = (i, lv)" by (cases e)
  have i: "share i < length ls" "ls ! share i = lvLabels lv" using Cons.prems(2) by (auto simp: e)
  note one = convert_labeled_own [where share = share and i = i, OF keep wf Cons.prems(1) i, where node = node and ts = ts]
  show ?case
    using Cons.IH [OF one(1)] one(2) Cons.prems(2) by (cases "own_labeled_point cv node ts tags lv") (simp_all add: e map_filter_simps)
qed (simp add: map_filter_simps)

text \<open>C16: a converter that keeps every tag gives exactly the points it would give if every point had a tag
  map of its own, whatever label maps of equal contents the labelled values share.\<close>

theorem convert_set_own:
  assumes "\<And>f k. pcFilters cv = Some f \<Longrightarrow> MatchTag f k"
    and "\<forall>i < length (LabeledValues ms). share i < length (LabeledValues ms) \<and>
      lvLabels (LabeledValues ms ! share i) = lvLabels (LabeledValues ms ! i)"
  shows "fst (convert_set cv node ts share ms) = own_points cv node ts ms"
proof (cases "Contains (mgets (addLabelTags ms []) ''container_name'') ''system.slice/''")
  case True
  then show ?thesis by (simp add: convert_set_def own_points_def Let_def)
next
  case False
  define tags where "tags = addLabelTags ms []"
  define ls where "ls = map lvLabels (LabeledValues ms)"
  define c0 where "c0 = \<lparr>cvStore = tags # ls, cvPoints = [], cvFiltered = 0, cvCollected = 0\<rparr>"
  define c1 where "c1 = foldl (convert_value cv node ts (mgets tags ''type'') (mgets tags ''hostname'') ms) c0 (sorted_keys (Values ms))"
  define lvs where "lvs = zip [0..<length (LabeledValues ms)] (LabeledValues ms)"
  define c2 where "c2 = foldl (convert_labeled cv node ts (mgets tags ''type'') (mgets tags ''hostname'') share) c1 lvs"
  have wf: "wf_map tags" by (simp add: tags_def)
  have 1: "cvStore c1 = tags # ls" "\<forall>p \<in> set (cvPoints c1). rpRef p = 0"
    "map (deref (tags # ls)) (cvPoints c1) = List.map_filter (own_value_point cv node ts tags ms) (sorted_keys (Values ms))"
    using convert_values_own [where c = c0 and node = node and ts = ts and ms = ms, OF assms(1), where tags = tags and ns = "sorted_keys (Values ms)"]
    by (simp_all add: Let_def c1_def c0_def)
  have "sharing tags ls c1" using 1 by (auto simp: sharing_def)
  moreover have "\<forall>(i, lv) \<in> set lvs. share i < length ls \<and> ls ! share i = lvLabels lv"
    using assms(2) by (auto simp: lvs_def ls_def set_zip)
  ultimately have "map (deref (cvStore c2)) (cvPoints c2) = map (deref (cvStore c1)) (cvPoints c1) @
      List.map_filter (own_labeled_point cv node ts tags) (map snd lvs)"
    unfolding c2_def
    by (intro convert_labeleds_own [where share = share and ls = ls, OF assms(1) wf]) simp_all
  then show ?thesis using False 1
    by (simp add: convert_set_def own_points_def Let_def tags_def [symmetric] ls_def [symmetric] c0_def [symmetric]
        c1_def [symmetric] lvs_def [symmetric] c2_def [symmetric]) (simp add: lvs_def)
qed

section \<open>Concrete conversions\<close>

definition sample_converter :: pointConverter where
  "sample_converter = \<lparr>pcCluster = ''c'', pcPrefix = ''kubernetes.'', pcFilters = None\<rparr>"

text \<open>The metrics of namespace \<open>a\<close> only, without their namespace tag.\<close>

definition ns_filter :: globFilter where
  "ns_filter = \<lparr>metricAllowList = None, metricDenyList = None,
     metricTagAllowList = Some [(''namespace_name'', \<lambda>v. v = ''a'')], metricTagDenyList = None,
     tagInclude = None, tagExclude = Some (\<lambda>t. t = ''namespace_name''), tagGuaranteeList = []\<rparr>"

definition sample_set :: mset where
  "sample_set = emptySet\<lparr>
     Values := [(''cpu'', floatValue (Fin 1)), (''memory'', floatValue (Fin 2))],
     Labels := [(''namespace_name'', ''a''), (''type'', ''pod'')],
     LabeledValues := [\<lparr>lvName = ''disk/usage'', lvLabels = [(''device'', ''x'')], lvValue = floatValue (Fin 3)\<rparr>,
                       \<lparr>lvName = ''disk/limit'', lvLabels = [(''device'', ''x'')], lvValue = floatValue (Fin 4)\<rparr>]\<rparr>"

definition sample_time :: gotime where
  "sample_time = 5"

lemma convert_set_own_witness:
  "length (fst (convert_set sample_converter ''node'' sample_time (\<lambda>_. 0) sample_set)) = 4"
proof (subst convert_set_own)
  show "\<forall>i < length (LabeledValues sample_set). 0 < length (LabeledValues sample_set) \<and>
      lvLabels (LabeledValues sample_set ! 0) = lvLabels (LabeledValues sample_set ! i)"
    by (simp add: sample_set_def emptySet_def less_Suc_eq)
  show "length (own_points sample_converter ''node'' sample_time sample_set) = 4" by code_simp
qed (simp add: sample_converter_def)

lemma convert_set_tags_witness:
  "list_all (\<lambda>p. \<not> mhas (pttags p) ''namespace_name'')
     (fst (convert_set (sample_converter\<lparr>pcFilters := Some ns_filter\<rparr>) ''node'' sample_time id sample_set))"
proof -
  obtain pts ms f n where *:
    "convert_set (sample_converter\<lparr>pcFilters := Some ns_filter\<rparr>) ''node'' sample_time id sample_set = (pts, ms, f, n)"
    by (metis prod_cases4)
  have "\<not> MatchTag ns_filter ''namespace_name''" by (simp add: ns_filter_def MatchTag_def globMatch_def)
  with convert_set_tags [OF *, of ns_filter] show ?thesis by (auto simp: * list_all_iff)
qed

text \<open>The tag map of a set is shared: once the first point has lost the namespace tag, the filter that asks
  for the namespace drops the second, although on its own it would pass.\<close>

lemma convert_set_drops_shared:
  "map ptMetric (fst (convert_set (sample_converter\<lparr>pcFilters := Some ns_filter\<rparr>) ''node'' sample_time id sample_set)) =
     [''kubernetes.pod.cpu'']"
  "length (own_points (sample_converter\<lparr>pcFilters := Some ns_filter\<rparr>) ''node'' sample_time sample_set) = 4"
  by code_simp+

text \<open>Two labelled values that share a map: the second is dropped, but only after its tags have been written
  into the map, so the first is sent with the tag its filter had removed.\<close>

definition denied_filter :: globFilter where
  "denied_filter = \<lparr>metricAllowList = None, metricDenyList = Some (\<lambda>n. HasSuffix n ''limit''),
     metricTagAllowList = None, metricTagDenyList = None,
     tagInclude = None, tagExclude = Some (\<lambda>t. t = ''namespace_name''), tagGuaranteeList = []\<rparr>"

lemma convert_set_shared_labels:
  "map (\<lambda>p. mhas (pttags p) ''namespace_name'')
     (fst (convert_set (sample_converter\<lparr>pcFilters := Some denied_filter\<rparr>) ''node'' sample_time (\<lambda>_. 0)
        (sample_set\<lparr>Values := []\<rparr>))) = [True]"
  by code_simp

end
