(* ===== verification/Pipeline.thy ===== *)
theory Pipeline
  imports Sources_Manager Pod_Aggregation Enrichers Converter
begin

text \<open>
  A flush: the pending batches are combined, the processors run over the combination one after the other,
  and the sinks get the result (\<open>collector/plugins/manager/manager.go\<close>, \<open>collector/internal/setup/data_processors.go\<close>,
  \<open>collector/plugins/sinks/manager.go\<close>).
\<close>

section \<open>The processors (data_processors.go)\<close>

text \<open>What processors keep between flushes, and what they read from outside.\<close>

record 'h processor_state =
  prRates :: RateCalculator
  prDistributions :: "'h drc"
  prRequests :: request_metrics

record 'h collector_env =
  ceNow :: gotime
  ceNow2 :: gotime
  ceBlake :: "string \<Rightarrow> 'h"
  ceGetPod :: "string \<Rightarrow> string \<Rightarrow> Pod option"
  ceListers :: listers
  ceNamespaces :: "string \<Rightarrow> string option"
  ceNodes :: "string + Node list"
  cePodRequests :: "Pod \<Rightarrow> resources \<times> resources"
  ceNodeName :: string
  ceShare :: "ResourceKey \<Rightarrow> nat \<Rightarrow> nat"
  ceGlob :: glob_compile

text \<open>A processor panics, fails (its state may have changed) or yields a batch.\<close>

type_synonym 'h processor =
  "'h collector_env \<Rightarrow> 'h processor_state \<Rightarrow> Batch \<Rightarrow> panic + 'h processor_state \<times> (string + Batch)"

definition rate_processor :: "'h processor" where
  "rate_processor env st b =
     (case RateCalculator_Process (ceNow env) (ceNow2 env) (prRates st) b of
        Inl e \<Rightarrow> Inl e | Inr (rc, b) \<Rightarrow> Inr (st\<lparr>prRates := rc\<rparr>, Inr b))"

definition distribution_processor :: "'h processor" where
  "distribution_processor env st b =
     (case DistributionRateCalculator_Process (ceBlake env) (prDistributions st) b of
        (drc, b) \<Rightarrow> Inr (st\<lparr>prDistributions := drc\<rparr>, Inr b))"

definition cumulative_processor :: "'h processor" where
  "cumulative_processor env st b =
     (case CumulativeDistributionConverter_Process b of Inl e \<Rightarrow> Inl e | Inr b \<Rightarrow> Inr (st, Inr b))"

definition pod_enricher :: "LabelCopier \<Rightarrow> duration \<Rightarrow> 'h processor" where
  "pod_enricher labelCopier collectionInterval env st b =
     (case PodBasedEnricher_Process
        \<lparr>pbeGetPod = ceGetPod env, pbeLabelCopier = labelCopier, pbeCollectionInterval = collectionInterval,
         pbeWorkloadCache = ceListers env\<rparr> (prRequests st) b of
        (rrm, b) \<Rightarrow> Inr (st\<lparr>prRequests := rrm\<rparr>, Inr b))"

text \<open>A processor without a state of its own.\<close>

definition stateless :: "('h collector_env \<Rightarrow> Batch \<Rightarrow> string + Batch) \<Rightarrow> 'h processor" where
  "stateless f env st b = Inr (st, f env b)"

definition metricsToAggregate :: "string list" where
  "metricsToAggregate = [Name MetricCpuUsageRate, Name MetricMemoryUsage, Name MetricCpuRequest, Name MetricCpuLimit,
     Name MetricMemoryRequest, Name MetricMemoryLimit]"

definition metricsToAggregateForNode :: "string list" where
  "metricsToAggregateForNode = [Name MetricCpuRequest, Name MetricCpuLimit, Name MetricMemoryRequest, Name MetricMemoryLimit,
     Name MetricEphemeralStorageRequest, Name MetricEphemeralStorageLimit]"

definition podMetricsToNotAggregate :: "string list" where
  "podMetricsToNotAggregate = [Name MetricCpuRequest, Name MetricCpuLimit, Name MetricMemoryRequest, Name MetricMemoryLimit]"

definition createMetricAggregators :: "'h processor list" where
  "createMetricAggregators =
     [stateless (\<lambda>env b. Inr (PodResourceAggregator_Process (cePodRequests env) (ceGetPod env) b)),
      stateless (\<lambda>env b. PodAggregator_Process podMetricsToNotAggregate b),
      stateless (\<lambda>env b. SumCountAggregator_Process (NewNamespaceAggregator metricsToAggregate) b),
      stateless (\<lambda>env b. SumCountAggregator_Process (NewNodeAggregator metricsToAggregateForNode) b),
      stateless (\<lambda>env b. SumCountAggregator_Process (NewClusterAggregator metricsToAggregate) b)]"

text \<open>Both functions dereference the sources and the summary source, which validation has made sure of.\<close>

definition calculateCollectionInterval :: "CollectorConfig \<Rightarrow> SummarySourceConfig \<Rightarrow> duration" where
  "calculateCollectionInterval cfg summary =
     (if ccInterval (ssCollection summary) > 0 then ccInterval (ssCollection summary) else DefaultCollectionInterval cfg)"

definition CreateDataProcessors :: "glob_compile \<Rightarrow> string \<Rightarrow> CollectorConfig \<Rightarrow> SummarySourceConfig \<Rightarrow> 'h processor list" where
  "CreateDataProcessors gc cluster cfg summary =
     (let labelCopier = NewLabelCopier '','' [] []; converter = NewPointConverter gc summary cluster
      in [rate_processor, distribution_processor, cumulative_processor,
          pod_enricher labelCopier (calculateCollectionInterval cfg summary),
          stateless (\<lambda>env b. Inr (NamespaceBasedEnricher_Process (ceNamespaces env) b))] @
         createMetricAggregators @
         [stateless (\<lambda>env b. NodeAutoscalingEnricher_Process labelCopier (ceNodes env) b),
          stateless (\<lambda>env b. Inr (fst (pointConverter_Process converter (ceNodeName env) (ceShare env) b)))])"

definition new_processor_state :: "gotime \<Rightarrow> 'h processor_state" where
  "new_processor_state now = \<lparr>prRates = NewRateCalculator RateMetricsMapping now, prDistributions = [], prRequests = []\<rparr>"

section \<open>The flush manager (manager.go)\<close>

definition combineMetricSets :: "Batch \<Rightarrow> Batch \<Rightarrow> Batch" where
  "combineMetricSets src dst =
     dst\<lparr>bTimestamp := bTimestamp src, Sets := mput_all (Sets src) (Sets dst), Metrics := Metrics dst @ Metrics src\<rparr>"

definition emptyBatch :: Batch where
  "emptyBatch = \<lparr>bTimestamp = zero_time, Sets = [], Metrics = []\<rparr>"

definition combined :: "Batch list \<Rightarrow> Batch" where
  "combined dataBatches = foldl (\<lambda>dst data. combineMetricSets data dst) emptyBatch dataBatches"

fun run_processors :: "'h processor list \<Rightarrow> 'h processor" where
  "run_processors [] env st b = Inr (st, Inr b)"
| "run_processors (p # ps) env st b =
     (case p env st b of
        Inl e \<Rightarrow> Inl e
      | Inr (st, Inl err) \<Rightarrow> Inr (st, Inl err)
      | Inr (st, Inr b) \<Rightarrow> run_processors ps env st b)"

text \<open>The result: the manager, the processors' state and what goes to the sink manager, if anything does.\<close>

definition push ::
  "'h processor list \<Rightarrow> 'h collector_env \<Rightarrow> sourceManager \<Rightarrow> 'h processor_state \<Rightarrow>
   panic + sourceManager \<times> 'h processor_state \<times> Batch option" where
  "push processors env sm st =
     (case GetPendingMetrics sm of (sm, dataBatches) \<Rightarrow>
        case run_processors processors env st (combined dataBatches) of
          Inl e \<Rightarrow> Inl e
        | Inr (st, Inl err) \<Rightarrow> Inr (sm, st, None)
        | Inr (st, Inr b) \<Rightarrow> Inr (sm, st, Some b))"

section \<open>The sink manager (sinks/manager.go)\<close>

text \<open>A sink's goroutine takes one thing at a time; \<open>shReady\<close> says whether it is waiting for the next. What is offered
  to it meanwhile is dropped when the time is over, which the model decides at once.\<close>

datatype 'e offered = OData Batch | OEvent 'e

record 'e sinkHolder =
  shName :: string
  shReady :: bool
  shStopped :: bool
  shTaken :: "'e offered list"

record 'e sinkManager =
  skHolders :: "'e sinkHolder list"
  skTimeouts :: int64

definition NewSinkManager :: "string list \<Rightarrow> 'e sinkManager" where
  "NewSinkManager sinks =
     \<lparr>skHolders = map (\<lambda>n. \<lparr>shName = n, shReady = True, shStopped = False, shTaken = []\<rparr>) sinks, skTimeouts = 0\<rparr>"

definition offer :: "'e offered \<Rightarrow> 'e sinkHolder \<Rightarrow> 'e sinkHolder" where
  "offer x sh = (if shReady sh \<and> \<not> shStopped sh then sh\<lparr>shReady := False, shTaken := shTaken sh @ [x]\<rparr> else sh)"

definition offer_all :: "'e offered \<Rightarrow> 'e sinkManager \<Rightarrow> 'e sinkManager" where
  "offer_all x sm =
     sm\<lparr>skHolders := map (offer x) (skHolders sm),
        skTimeouts := skTimeouts sm + of_nat (length (filter (\<lambda>sh. \<not> (shReady sh \<and> \<not> shStopped sh)) (skHolders sm)))\<rparr>"

definition sinkManager_Export :: "Batch \<Rightarrow> 'e sinkManager \<Rightarrow> 'e sinkManager" where
  "sinkManager_Export data sm = offer_all (OData data) sm"

definition sinkManager_ExportEvent :: "'e \<Rightarrow> 'e sinkManager \<Rightarrow> 'e sinkManager" where
  "sinkManager_ExportEvent event sm = offer_all (OEvent event) sm"

text \<open>The goroutine comes back for more; a stop reaches a waiting sink, one that stays busy is given up.\<close>

definition sink_done :: "nat \<Rightarrow> 'e sinkManager \<Rightarrow> 'e sinkManager" where
  "sink_done i sm = sm\<lparr>skHolders := (skHolders sm)[i := (skHolders sm ! i)\<lparr>shReady := True\<rparr>]\<rparr>"

definition sinkManager_Stop :: "'e sinkManager \<Rightarrow> 'e sinkManager" where
  "sinkManager_Stop sm = sm\<lparr>skHolders := map (\<lambda>sh. if shReady sh then sh\<lparr>shStopped := True\<rparr> else sh) (skHolders sm)\<rparr>"

section \<open>What a flush combines\<close>

lemma combined_from:
  assumes "\<forall>b \<in> set bs. wf_map (Sets b)"
  shows "Metrics (foldl (\<lambda>dst data. combineMetricSets data dst) d bs) = Metrics d @ concat (map Metrics bs) \<and>
    bTimestamp (foldl (\<lambda>dst data. combineMetricSets data dst) d bs) = (if bs = [] then bTimestamp d else bTimestamp (last bs)) \<and>
    mget (Sets (foldl (\<lambda>dst data. combineMetricSets data dst) d bs)) k =
      (case filter (\<lambda>b. mhas (Sets b) k) bs of [] \<Rightarrow> mget (Sets d) k | xs \<Rightarrow> mget (Sets (last xs)) k)"
  using assms
proof (induction bs arbitrary: d)
  case (Cons b bs)
  then have "wf_map (Sets b)" by simp
  with Cons show ?case
    by (auto simp: combineMetricSets_def mhas_def split: list.splits option.splits)
qed simp

lemma last_sorted_Max: "sorted xs \<Longrightarrow> xs \<noteq> [] \<Longrightarrow> last xs = Max (set xs)"
proof (induction xs)
  case (Cons x xs)
  then show ?case
  proof (cases "xs = []")
    case False
    with Cons have "last xs = Max (set xs)" "x \<le> last xs" by auto
    with False show ?thesis by (simp add: Max.insert_remove [symmetric] max_def)
  qed simp
qed simp

lemma Sets_emptyBatch: "Sets emptyBatch = []"
  by (simp add: emptyBatch_def)

text \<open>C15: a flush takes every pending batch, once: the combination it works on has all their points, of every
  resource the set in the latest batch that has one, and the latest time; when the processors succeed the sinks get
  what they make of it, and when one fails nothing is exported and the pending batches are gone all the same.\<close>

theorem push_flushes:
  assumes "push processors env sm st = Inr (sm', st', out)"
    and "\<forall>b \<in> set (smResponse sm). wf_map (Sets b)"
  shows "smResponse sm' = [] \<and> (\<exists>b bs r. mset bs = mset (smResponse sm) \<and> sorted (map bTimestamp bs) \<and>
      Metrics b = concat (map Metrics bs) \<and>
      (bs \<noteq> [] \<longrightarrow> bTimestamp b = Max (bTimestamp ` set bs)) \<and>
      (\<forall>k. mget (Sets b) k = (case filter (\<lambda>c. mhas (Sets c) k) bs of [] \<Rightarrow> None | xs \<Rightarrow> mget (Sets (last xs)) k)) \<and>
      run_processors processors env st b = Inr (st', r) \<and> out = (case r of Inl err \<Rightarrow> None | Inr b' \<Rightarrow> Some b'))"
proof -
  define bs where "bs = sort_key bTimestamp (smResponse sm)"
  have wf: "\<forall>b \<in> set bs. wf_map (Sets b)" using assms(2) by (simp add: bs_def)
  note comb = combined_from [OF wf, of emptyBatch]
  obtain r where "run_processors processors env st (combined bs) = Inr (st', r)" "out = (case r of Inl err \<Rightarrow> None | Inr b' \<Rightarrow> Some b')"
    and "smResponse sm' = []"
    using assms(1) by (auto simp: push_def GetPendingMetrics_def rotateResponse_def bs_def split: sum.splits)
  moreover have "bTimestamp (combined bs) = Max (bTimestamp ` set bs)" if "bs \<noteq> []"
    using comb that last_sorted_Max [of "map bTimestamp bs"] by (simp add: combined_def last_map) (simp add: bs_def)
  moreover have "mset bs = mset (smResponse sm)" "sorted (map bTimestamp bs)" by (simp_all add: bs_def)
  moreover have "Metrics (combined bs) = concat (map Metrics bs)" using comb by (simp add: combined_def emptyBatch_def)
  moreover have "mget (Sets (combined bs)) k = (case filter (\<lambda>c. mhas (Sets c) k) bs of [] \<Rightarrow> None | xs \<Rightarrow> mget (Sets (last xs)) k)" for k
    using combined_from [OF wf, of emptyBatch k] by (simp add: combined_def Sets_emptyBatch cong: list.case_cong)
  ultimately show ?thesis by blast
qed

section \<open>A flush that loses its batches\<close>

definition sample_batches :: "Batch list" where
  "sample_batches = [emptyBatch\<lparr>bTimestamp := 2 * Minute\<rparr>, emptyBatch\<lparr>bTimestamp := Minute\<rparr>]"

definition failing :: "unit processor" where
  "failing = stateless (\<lambda>env b. NodeAutoscalingEnricher_Process (NewLabelCopier '','' [] []) (Inl ''no nodes'') b)"

lemma push_flushes_witness:
  "\<forall>env. \<exists>sm' st'. push [failing] env (new_manager\<lparr>smResponse := sample_batches\<rparr>) (new_processor_state 0) = Inr (sm', st', None) \<and>
     smResponse sm' = []"
proof
  fix env
  obtain sm' st' where *: "push [failing] env (new_manager\<lparr>smResponse := sample_batches\<rparr>) (new_processor_state 0) = Inr (sm', st', None)"
    by (auto simp: push_def GetPendingMetrics_def rotateResponse_def failing_def stateless_def NodeAutoscalingEnricher_Process_def)
  from push_flushes [OF this] have "smResponse sm' = []" by (simp add: sample_batches_def emptyBatch_def)
  with * show "\<exists>sm' st'. push [failing] env (new_manager\<lparr>smResponse := sample_batches\<rparr>) (new_processor_state 0) = Inr (sm', st', None) \<and>
     smResponse sm' = []" by blast
qed

end
