(* ===== verification/Leadership.thy ===== *)
theory Leadership
  imports Metrics_Model "HOL-Library.Multiset"
begin

text \<open>
  Leader election (\<open>collector/internal/leadership\<close>: election.go, manager.go). The lease itself is kept by
  client-go; what the collector adds is a package state under one lock, the subscribers' channels (each
  with a buffer of one), the callback that client-go starts when it sees a new leader, and the managers
  that resume or pause a subsystem on what their channel says. A blocked send blocks the callback, which
  holds the lock; so the interleaving is modelled: every operation that takes the lock is a step that
  needs the lock to be free, and the callback sends one message per step.
\<close>

section \<open>State\<close>

text \<open>The goroutine of \<open>Manager.run\<close> for a subscription: none (\<open>main.go\<close> subscribes and drops the channel),
  in its loop, with its stop channel closed, or returned.\<close>

datatype phase = NoReader | Running | Stopping | Returned

record subscription =
  sbBuf :: "bool list"
  sbPhase :: phase
  sbCalls :: "bool list"

text \<open>\<open>sbCalls\<close> is what the manager did so far: \<open>True\<close> for \<open>Resume\<close>, \<open>False\<close> for \<open>Pause\<close>. Channels are numbered in
  the order in which they were made; \<open>elCallback\<close> is the callback that holds the lock, with its message and
  the channels it has not sent to yet.\<close>

record election =
  elStarted :: bool
  elIsLeader :: bool
  elLeaderId :: string
  elGauge :: int64
  elErrors :: int64
  elSubs :: "(string, nat) gomap"
  elChans :: "subscription list"
  elCallback :: "(bool \<times> nat list) option"

definition init_election :: election where
  "init_election = \<lparr>elStarted = False, elIsLeader = False, elLeaderId = '''', elGauge = 0, elErrors = 0,
     elSubs = [], elChans = [], elCallback = None\<rparr>"

record env =
  evNodeName :: string
  evNamespace :: string
  evLockError :: "string option"

section \<open>The operations of the package (election.go)\<close>

definition getLeaderElector :: "env \<Rightarrow> string + unit" where
  "getLeaderElector env =
     (if evNodeName env = '''' then Inl ''POD_NODE_NAME envvar is not defined''
      else if evNamespace env = '''' then Inl ''POD_NAMESPACE_NAME envvar is not defined''
      else case evLockError env of Some e \<Rightarrow> Inl e | None \<Rightarrow> Inr ())"

definition startLeaderElection :: "env \<Rightarrow> election \<Rightarrow> election \<times> string option" where
  "startLeaderElection env s =
     (if elStarted s then (s, None)
      else case getLeaderElector env of
             Inl e \<Rightarrow> (s\<lparr>elErrors := elErrors s + 1\<rparr>, Some e)
           | Inr _ \<Rightarrow> (s\<lparr>elStarted := True\<rparr>, None))"

definition Subscribe :: "env \<Rightarrow> phase \<Rightarrow> string \<Rightarrow> election \<Rightarrow> election \<times> (string + nat)" where
  "Subscribe env reader name s =
     (case startLeaderElection env s of
        (s, Some e) \<Rightarrow> (s, Inl e)
      | (s, None) \<Rightarrow>
          let ch = length (elChans s);
              c = \<lparr>sbBuf = (if elIsLeader s then [True] else []), sbPhase = reader, sbCalls = []\<rparr>
          in (s\<lparr>elChans := elChans s @ [c], elSubs := mput name ch (elSubs s)\<rparr>, Inr ch))"

definition Unsubscribe :: "string \<Rightarrow> election \<Rightarrow> election" where
  "Unsubscribe name s = s\<lparr>elSubs := mdel name (elSubs s)\<rparr>"

text \<open>The callback up to its first send; \<open>order\<close> is the order in which the range loop yields the channels.\<close>

definition OnNewLeader :: "string \<Rightarrow> string \<Rightarrow> nat list \<Rightarrow> election \<Rightarrow> election" where
  "OnNewLeader nodeName identity order s =
     (let s = s\<lparr>elGauge := if identity = nodeName then 1 else 0, elLeaderId := identity\<rparr>
      in if identity = nodeName \<and> \<not> elIsLeader s then s\<lparr>elCallback := Some (True, order)\<rparr>
         else if identity \<noteq> nodeName \<and> elIsLeader s then s\<lparr>elCallback := Some (False, order)\<rparr>
         else s)"

definition upd_chan :: "nat \<Rightarrow> (subscription \<Rightarrow> subscription) \<Rightarrow> election \<Rightarrow> election" where
  "upd_chan ch f s = s\<lparr>elChans := (elChans s)[ch := f (elChans s ! ch)]\<rparr>"

definition send_msg :: "bool \<Rightarrow> subscription \<Rightarrow> subscription" where
  "send_msg m c = c\<lparr>sbBuf := sbBuf c @ [m]\<rparr>"

text \<open>The end of the callback: a promotion sets the flag, a demotion leaves it as it is.\<close>

definition end_callback :: "bool \<Rightarrow> election \<Rightarrow> election" where
  "end_callback m s = s\<lparr>elIsLeader := elIsLeader s \<or> m, elCallback := None\<rparr>"

text \<open>\<open>Leading\<close> and \<open>Leader\<close> take the lock for reading: no answer while the callback has it.\<close>

definition Leading :: "bool \<Rightarrow> election \<Rightarrow> bool option" where
  "Leading clusterCollector s = (if elCallback s \<noteq> None then None else Some (clusterCollector \<and> elIsLeader s))"

definition Leader :: "election \<Rightarrow> string option" where
  "Leader s = (if elCallback s \<noteq> None then None else Some (elLeaderId s))"

section \<open>The managers (manager.go)\<close>

definition Manager_receive :: "subscription \<Rightarrow> subscription" where
  "Manager_receive c = c\<lparr>sbBuf := tl (sbBuf c), sbCalls := sbCalls c @ [hd (sbBuf c)]\<rparr>"

definition Manager_Start :: "env \<Rightarrow> string \<Rightarrow> election \<Rightarrow> election \<times> (string + nat)" where
  "Manager_Start env name s = Subscribe env Running name s"

section \<open>Steps\<close>

inductive step :: "env \<Rightarrow> election \<Rightarrow> election \<Rightarrow> bool" for env where
  subscribe: "elCallback s = None \<Longrightarrow> step env s (fst (Subscribe env NoReader name s))"
| start: "elCallback s = None \<Longrightarrow> step env s (fst (Manager_Start env name s))"
| close: "ch < length (elChans s) \<Longrightarrow> sbPhase (elChans s ! ch) = Running \<Longrightarrow>
    step env s (upd_chan ch (sbPhase_update (\<lambda>_. Stopping)) s)"
| unsubscribe: "elCallback s = None \<Longrightarrow> step env s (Unsubscribe name s)"
| new_leader: "elCallback s = None \<Longrightarrow> elStarted s \<Longrightarrow> mset order = mset (map snd (elSubs s)) \<Longrightarrow>
    step env s (OnNewLeader (evNodeName env) identity order s)"
| send: "elCallback s = Some (m, ch # chs) \<Longrightarrow> length (sbBuf (elChans s ! ch)) < 1 \<Longrightarrow>
    step env s (upd_chan ch (send_msg m) (s\<lparr>elCallback := Some (m, chs)\<rparr>))"
| finish: "elCallback s = Some (m, []) \<Longrightarrow> step env s (end_callback m s)"
| receive: "ch < length (elChans s) \<Longrightarrow> sbPhase (elChans s ! ch) \<in> {Running, Stopping} \<Longrightarrow>
    sbBuf (elChans s ! ch) \<noteq> [] \<Longrightarrow> step env s (upd_chan ch Manager_receive s)"
| return: "ch < length (elChans s) \<Longrightarrow> sbPhase (elChans s ! ch) = Stopping \<Longrightarrow>
    step env s (upd_chan ch (sbPhase_update (\<lambda>_. Returned)) s)"

inductive reachable :: "env \<Rightarrow> election \<Rightarrow> bool" for env where
  init: "reachable env init_election"
| next_step: "reachable env s \<Longrightarrow> step env s t \<Longrightarrow> reachable env t"

section \<open>What a subscriber is told\<close>

text \<open>Everything sent on a channel, in order: what its manager has taken from it, then the buffer.\<close>

definition stream :: "election \<Rightarrow> nat \<Rightarrow> bool list" where
  "stream s ch = sbCalls (elChans s ! ch) @ sbBuf (elChans s ! ch)"

definition promoted_once :: "bool list \<Rightarrow> bool" where
  "promoted_once ms \<longleftrightarrow> (\<forall>i < length ms. ms ! i \<longleftrightarrow> i = 0)"

definition subscribed :: "election \<Rightarrow> nat set" where
  "subscribed s = {ch. \<exists>n. mget (elSubs s) n = Some ch}"

text \<open>Who has been told something, depending on what the callback is doing.\<close>

fun told :: "(bool \<times> nat list) option \<Rightarrow> bool \<Rightarrow> nat set \<Rightarrow> (nat \<Rightarrow> bool list) \<Rightarrow> bool" where
  "told None leads subs str \<longleftrightarrow> (\<forall>ch \<in> subs. str ch \<noteq> [] \<longleftrightarrow> leads)"
| "told (Some (m, chs)) leads subs str \<longleftrightarrow> leads = (\<not> m) \<and> distinct chs \<and> set chs \<subseteq> subs \<and>
     (\<forall>ch \<in> subs. str ch \<noteq> [] \<longleftrightarrow> (m \<longrightarrow> ch \<notin> set chs))"

definition own_channels :: "(string, nat) gomap \<Rightarrow> bool" where
  "own_channels m \<longleftrightarrow> (\<forall>n n' ch. mget m n = Some ch \<longrightarrow> mget m n' = Some ch \<longrightarrow> n' = n)"

definition election_inv :: "election \<Rightarrow> bool" where
  "election_inv s \<longleftrightarrow> wf_map (elSubs s) \<and> own_channels (elSubs s) \<and>
     subscribed s \<subseteq> {..<length (elChans s)} \<and>
     (\<forall>ch < length (elChans s). length (sbBuf (elChans s ! ch)) \<le> 1 \<and> promoted_once (stream s ch)) \<and>
     told (elCallback s) (elIsLeader s) (subscribed s) (stream s)"

lemma promoted_once_simps [simp]: "promoted_once []" "promoted_once [m] = m"
  by (simp_all add: promoted_once_def)

lemma promoted_once_snoc: "promoted_once (ms @ [m]) \<longleftrightarrow> promoted_once ms \<and> (m \<longleftrightarrow> ms = [])"
  by (auto simp: promoted_once_def nth_append less_Suc_eq)

lemma promoted_once_iff: "promoted_once ms \<longleftrightarrow> ms = [] \<or> (\<exists>n. ms = True # replicate n False)"
proof (cases ms)
  case (Cons m rest)
  have "(\<forall>i < length rest. \<not> rest ! i) \<longleftrightarrow> (\<exists>n. rest = replicate n False)"
    by (metis (full_types) length_replicate nth_equalityI nth_replicate)
  then show ?thesis by (auto simp: Cons promoted_once_def nth_Cons split: nat.splits)
qed simp

lemma upd_chan_simps [simp]:
  "elSubs (upd_chan ch f s) = elSubs s" "elIsLeader (upd_chan ch f s) = elIsLeader s"
  "elStarted (upd_chan ch f s) = elStarted s" "elCallback (upd_chan ch f s) = elCallback s"
  "length (elChans (upd_chan ch f s)) = length (elChans s)" "subscribed (upd_chan ch f s) = subscribed s"
  "elChans (upd_chan ch f s) = (elChans s)[ch := f (elChans s ! ch)]"
  by (simp_all add: upd_chan_def subscribed_def)

lemma stream_upd_chan: "ch < length (elChans s) \<Longrightarrow> stream (upd_chan ch f s) ch' =
    (if ch' = ch then sbCalls (f (elChans s ! ch)) @ sbBuf (f (elChans s ! ch)) else stream s ch')"
  by (simp add: stream_def nth_list_update)

text \<open>Steps of the managers change neither a stream nor what the callback holds.\<close>

lemma inv_upd_chan:
  assumes "election_inv s" "ch < length (elChans s)"
    and "sbCalls (f (elChans s ! ch)) @ sbBuf (f (elChans s ! ch)) = stream s ch" "length (sbBuf (f (elChans s ! ch))) \<le> 1"
  shows "election_inv (upd_chan ch f s)"
proof -
  have "stream (upd_chan ch f s) = stream s" using assms(2,3) by (auto simp: stream_upd_chan)
  moreover have "length (sbBuf (elChans (upd_chan ch f s) ! c)) \<le> 1" if "c < length (elChans s)" for c
    using assms that by (auto simp: nth_list_update election_inv_def)
  ultimately show ?thesis using assms(1) by (simp add: election_inv_def del: upd_chan_simps(7))
qed

lemma own_channels_mdel: "own_channels m \<Longrightarrow> own_channels (mdel name m)"
  by (simp add: own_channels_def)

lemma own_channels_mput: "own_channels m \<Longrightarrow> (\<And>n. mget m n \<noteq> Some ch) \<Longrightarrow> own_channels (mput name ch m)"
  by (simp add: own_channels_def)

lemma inv_same:
  assumes "election_inv s" "elSubs t = elSubs s" "elChans t = elChans s" "elIsLeader t = elIsLeader s" "elCallback t = elCallback s"
  shows "election_inv t"
proof -
  have "stream t = stream s" "subscribed t = subscribed s" using assms(2,3) by (auto simp: stream_def subscribed_def)
  with assms show ?thesis by (simp add: election_inv_def)
qed

lemma inv_Subscribe:
  assumes "election_inv s" "elCallback s = None"
  shows "election_inv (fst (Subscribe env ph name s))"
proof (cases "snd (startLeaderElection env s)")
  case (Some e)
  then show ?thesis using assms
    by (intro inv_same [OF assms(1)]) (auto simp: Subscribe_def startLeaderElection_def split: sum.splits if_splits)
next
  case None
  define c where "c = \<lparr>sbBuf = (if elIsLeader s then [True] else []), sbPhase = ph, sbCalls = []\<rparr>"
  define t where "t = fst (Subscribe env ph name s)"
  have t: "elSubs t = mput name (length (elChans s)) (elSubs s)" "elChans t = elChans s @ [c]"
    "elIsLeader t = elIsLeader s" "elCallback t = None"
    using None assms(2)
    by (auto simp: t_def Subscribe_def startLeaderElection_def c_def Let_def split: prod.splits sum.splits if_splits)
  have bound: "ch < length (elChans s)" if "mget (elSubs s) n = Some ch" for n ch
    using assms(1) that by (auto simp: election_inv_def subscribed_def)
  have old: "stream t ch = stream s ch" if "ch < length (elChans s)" for ch
    using that by (simp add: stream_def t nth_append)
  have new: "stream t (length (elChans s)) = (if elIsLeader s then [True] else [])" by (simp add: stream_def t c_def)
  have "stream t ch \<noteq> [] \<longleftrightarrow> elIsLeader t" if "ch \<in> subscribed t" for ch
    using that new old bound assms by (auto simp: subscribed_def t election_inv_def split: if_splits)
  moreover have "length (sbBuf (elChans t ! ch)) \<le> 1 \<and> promoted_once (stream t ch)" if "ch < length (elChans t)" for ch
    using assms(1) that old new by (cases "ch = length (elChans s)") (auto simp: t election_inv_def nth_append c_def)
  moreover have "own_channels (elSubs t)"
    unfolding t using assms(1) bound less_irrefl by (intro own_channels_mput) (simp add: election_inv_def, blast)
  moreover have "subscribed t \<subseteq> {..<length (elChans t)}"
    using bound by (auto simp: t subscribed_def less_Suc_eq split: if_splits)
  moreover have "wf_map (elSubs t)" using assms(1) by (simp add: t election_inv_def)
  ultimately show ?thesis by (auto simp: election_inv_def t(4) t_def [symmetric])
qed

lemma inv_Unsubscribe:
  assumes "election_inv s" "elCallback s = None"
  shows "election_inv (Unsubscribe name s)"
proof -
  let ?t = "Unsubscribe name s"
  have t: "elSubs ?t = mdel name (elSubs s)" "elChans ?t = elChans s" "elIsLeader ?t = elIsLeader s" "elCallback ?t = None"
    using assms(2) by (simp_all add: Unsubscribe_def)
  have "stream ?t = stream s" by (auto simp: stream_def t)
  moreover have "subscribed ?t \<subseteq> subscribed s" by (auto simp: t subscribed_def split: if_splits)
  moreover have "told None (elIsLeader s) (subscribed s) (stream s)" using assms by (simp add: election_inv_def)
  moreover have "own_channels (elSubs ?t)" using assms(1) by (simp add: t election_inv_def own_channels_mdel)
  moreover have "wf_map (elSubs ?t)" "subscribed s \<subseteq> {..<length (elChans s)}" using assms(1) by (simp_all add: t election_inv_def)
  moreover have "\<forall>ch < length (elChans s). length (sbBuf (elChans s ! ch)) \<le> 1 \<and> promoted_once (stream s ch)"
    using assms(1) by (simp add: election_inv_def)
  ultimately show ?thesis by (simp add: election_inv_def t(2-4) subset_iff)
qed

lemma inv_OnNewLeader:
  assumes "election_inv s" "elCallback s = None" "mset order = mset (map snd (elSubs s))"
  shows "election_inv (OnNewLeader node identity order s)"
proof -
  have wf: "wf_map (elSubs s)" and own: "own_channels (elSubs s)" using assms(1) by (simp_all add: election_inv_def)
  have "set order = snd ` set (elSubs s)" using assms(3) by (metis set_map set_mset_mset)
  also have "\<dots> = subscribed s"
  proof (rule set_eqI)
    show "ch \<in> snd ` set (elSubs s) \<longleftrightarrow> ch \<in> subscribed s" for ch
      by (simp add: subscribed_def mget_iff_in_set [OF wf] image_iff) (metis prod.collapse snd_conv)
  qed
  finally have set: "set order = subscribed s" .
  have "inj_on snd (set (elSubs s))"
  proof (rule inj_onI)
    fix x y assume "x \<in> set (elSubs s)" "y \<in> set (elSubs s)" and eq: "snd x = snd y"
    then have "mget (elSubs s) (fst x) = Some (snd y)" "mget (elSubs s) (fst y) = Some (snd y)"
      by (simp_all add: mget_iff_in_set [OF wf]) (metis prod.collapse)
    with own have "fst x = fst y" unfolding own_channels_def by blast
    with eq show "x = y" by (simp add: prod_eq_iff)
  qed
  moreover have "distinct (elSubs s)" using wf distinct_map by (auto simp: wf_map_def)
  ultimately have "distinct (map snd (elSubs s))" by (simp add: distinct_map)
  then have "distinct order" using assms(3) by (metis mset_eq_imp_distinct_iff)
  moreover have "stream (OnNewLeader node identity order s) = stream s" "subscribed (OnNewLeader node identity order s) = subscribed s"
    by (auto simp: OnNewLeader_def stream_def subscribed_def Let_def)
  moreover have "elSubs (OnNewLeader node identity order s) = elSubs s" "elChans (OnNewLeader node identity order s) = elChans s"
    "elIsLeader (OnNewLeader node identity order s) = elIsLeader s"
    by (auto simp: OnNewLeader_def Let_def)
  moreover have "elCallback (OnNewLeader node identity order s) \<in> {None, Some (\<not> elIsLeader s, order)}"
    using assms(2) by (auto simp: OnNewLeader_def Let_def)
  ultimately show ?thesis using assms(1,2) set by (auto simp: election_inv_def)
qed

lemmas callback_invs = inv_Subscribe inv_Unsubscribe inv_OnNewLeader

lemma inv_send:
  assumes "election_inv s" "elCallback s = Some (m, ch # chs)" "length (sbBuf (elChans s ! ch)) < 1"
  shows "election_inv (upd_chan ch (send_msg m) (s\<lparr>elCallback := Some (m, chs)\<rparr>))" (is "election_inv ?t")
proof -
  have ch: "ch < length (elChans s)" "ch \<in> subscribed s" "ch \<notin> set chs" using assms(1,2) by (auto simp: election_inv_def)
  define t where "t = ?t"
  have str: "stream t c = (if c = ch then stream s ch @ [m] else stream s c)" for c
    unfolding t_def using ch(1) by (simp add: stream_upd_chan send_msg_def) (simp add: stream_def)
  have told: "told (Some (m, ch # chs)) (elIsLeader s) (subscribed s) (stream s)" using assms(1,2) by (simp add: election_inv_def)
  then have m: "m \<longleftrightarrow> stream s ch = []" using ch by auto
  have "promoted_once (stream t c)" if "c < length (elChans s)" for c
  proof -
    have "promoted_once (stream s c)" using assms(1) that by (simp add: election_inv_def)
    with m show ?thesis by (auto simp: str promoted_once_snoc)
  qed
  moreover have "length (sbBuf (elChans t ! c)) \<le> 1" if "c < length (elChans s)" for c
    using assms(1,3) that ch(1) by (cases "c = ch") (auto simp: t_def send_msg_def election_inv_def)
  moreover have "told (Some (m, chs)) (elIsLeader s) (subscribed s) (stream t)" using told ch(3) by (auto simp: str)
  moreover have "subscribed t = subscribed s" "elSubs t = elSubs s" "length (elChans t) = length (elChans s)"
    "elIsLeader t = elIsLeader s" "elCallback t = Some (m, chs)"
    by (simp_all add: t_def subscribed_def)
  ultimately have "election_inv t" using assms(1) by (simp add: election_inv_def)
  then show ?thesis by (simp add: t_def)
qed

lemma inv_finish:
  assumes "election_inv s" "elCallback s = Some (m, [])"
  shows "election_inv (end_callback m s)"
proof -
  have "stream (end_callback m s) = stream s" "subscribed (end_callback m s) = subscribed s"
    by (auto simp: end_callback_def stream_def subscribed_def)
  with assms show ?thesis by (auto simp: election_inv_def) (auto simp: end_callback_def)
qed

lemma step_inv: "step env s t \<Longrightarrow> election_inv s \<Longrightarrow> election_inv t"
proof (induction rule: step.induct)
  case (receive ch s)
  then obtain m where "sbBuf (elChans s ! ch) = [m]"
    by (cases "sbBuf (elChans s ! ch)") (auto simp: election_inv_def)
  with receive show ?case by (intro inv_upd_chan) (auto simp: Manager_receive_def stream_def)
next
  case (close ch s)
  then show ?case by (intro inv_upd_chan) (auto simp: stream_def election_inv_def)
next
  case (return ch s)
  then show ?case by (intro inv_upd_chan) (auto simp: stream_def election_inv_def)
qed (auto simp: Manager_Start_def intro: callback_invs inv_send inv_finish)

lemma reachable_inv: "reachable env s \<Longrightarrow> election_inv s"
proof (induction rule: reachable.induct)
  case init
  show ?case by (simp add: init_election_def election_inv_def subscribed_def own_channels_def)
qed (rule step_inv)

section \<open>Properties\<close>

inductive_cases step_cases: "step env s t"


lemma step_keeps_leader: "step env s t \<Longrightarrow> elIsLeader s \<Longrightarrow> elIsLeader t"
  by (erule step_cases)
     (auto simp: Manager_Start_def Subscribe_def startLeaderElection_def Unsubscribe_def OnNewLeader_def
       end_callback_def Let_def split: sum.splits)

text \<open>Once a node has been elected it takes itself for the leader for ever: whenever \<open>Leading\<close> gives an
  answer again, the answer is yes, whoever holds the lease.\<close>

theorem leading_for_good:
  assumes "rtranclp (step env) s t" and "Leading True s = Some True"
  shows "Leading True t \<in> {None, Some True}"
proof -
  have "elIsLeader s" using assms(2) by (simp add: Leading_def split: if_splits)
  with assms(1) have "elIsLeader t" by (induction rule: rtranclp_induct) (auto intro: step_keeps_leader)
  then show ?thesis by (simp add: Leading_def)
qed

text \<open>A channel on which the callback is stuck: full, and nobody will read it.\<close>

definition stuck_chan :: "election \<Rightarrow> nat \<Rightarrow> bool" where
  "stuck_chan s ch \<longleftrightarrow> sbBuf (elChans s ! ch) \<noteq> [] \<and> sbPhase (elChans s ! ch) \<in> {NoReader, Returned}"

definition stuck :: "election \<Rightarrow> bool" where
  "stuck s \<longleftrightarrow> (\<exists>m chs. elCallback s = Some (m, chs) \<and> (\<exists>ch \<in> set chs. ch < length (elChans s) \<and> stuck_chan s ch))"

lemma stuck_upd_chan:
  assumes "stuck s" "stuck_chan s ch \<Longrightarrow> sbBuf (f (elChans s ! ch)) \<noteq> [] \<and> sbPhase (f (elChans s ! ch)) \<in> {NoReader, Returned}"
  shows "stuck (upd_chan ch f s)"
proof -
  have "stuck_chan (upd_chan ch f s) c" if "stuck_chan s c" "c < length (elChans s)" for c
    using assms(2) that by (cases "c = ch") (auto simp: stuck_chan_def)
  with assms(1) show ?thesis by (auto simp: stuck_def simp del: upd_chan_simps(7))
qed

lemma step_stuck: "step env s t \<Longrightarrow> stuck s \<Longrightarrow> stuck t"
proof (induction rule: step.induct)
  case (send s m ch chs)
  have "stuck (s\<lparr>elCallback := Some (m, chs)\<rparr>)" using send by (auto simp: stuck_def stuck_chan_def)
  then show ?case using send by (intro stuck_upd_chan) (auto simp: stuck_chan_def)
qed (auto simp: stuck_def [of "s\<lparr>elCallback := c\<rparr>" for s c] stuck_chan_def Manager_receive_def intro!: stuck_upd_chan,
     auto simp: stuck_def)

text \<open>Otherwise the managers can always let it go on.\<close>

lemma callback_can_finish:
  assumes "election_inv s" "elCallback s = Some (m, chs)" "\<And>ch. ch \<in> set chs \<Longrightarrow> \<not> stuck_chan s ch"
  shows "\<exists>t. rtranclp (step env) s t \<and> elCallback t = None"
  using assms
proof (induction chs arbitrary: s)
  case Nil
  then have "step env s (end_callback m s)" by (intro step.finish) simp
  then show ?case by (intro exI [of _ "end_callback m s"]) (auto simp: end_callback_def)
next
  case (Cons ch chs)
  have ch: "ch < length (elChans s)" "ch \<notin> set chs" using Cons.prems(1,2) by (auto simp: election_inv_def)
  have "\<exists>s'. rtranclp (step env) s s' \<and> elCallback s' = Some (m, ch # chs) \<and> sbBuf (elChans s' ! ch) = [] \<and>
      (\<forall>c \<in> set chs. \<not> stuck_chan s' c)"
  proof (cases "sbBuf (elChans s ! ch) = []")
    case False
    then have "sbPhase (elChans s ! ch) \<in> {Running, Stopping}"
      using Cons.prems(3) [of ch] phase.exhaust by (auto simp: stuck_chan_def)
    from step.receive [OF ch(1) this False] have "step env s (upd_chan ch Manager_receive s)" .
    moreover have "length (sbBuf (elChans s ! ch)) \<le> 1" using Cons.prems(1) ch(1) by (simp add: election_inv_def)
    ultimately show ?thesis using Cons.prems(2,3) ch
      by (intro exI [of _ "upd_chan ch Manager_receive s"])
         (auto simp: Manager_receive_def stuck_chan_def nth_list_update le_Suc_eq length_Suc_conv)
  qed (use Cons.prems in auto)
  then obtain s' where s': "rtranclp (step env) s s'" "elCallback s' = Some (m, ch # chs)" "sbBuf (elChans s' ! ch) = []"
    "\<forall>c \<in> set chs. \<not> stuck_chan s' c" by blast
  have inv: "election_inv s'" using s'(1) Cons.prems(1) by (induction rule: rtranclp_induct) (auto intro: step_inv)
  let ?t = "upd_chan ch (send_msg m) (s'\<lparr>elCallback := Some (m, chs)\<rparr>)"
  have st: "step env s' ?t" using s'(2,3) by (intro step.send) auto
  have "\<not> stuck_chan ?t c" if "c \<in> set chs" for c
    using s'(4) that ch(2) by (cases "c = ch") (auto simp: stuck_chan_def)
  from Cons.IH [OF step_inv [OF st inv] _ this] obtain t where "rtranclp (step env) ?t t" "elCallback t = None" by auto
  with s'(1) st show ?case by (meson rtranclp.rtrancl_into_rtrancl rtranclp_trans)
qed


section \<open>A node that is elected and demoted\<close>

definition sample_env :: env where
  "sample_env = \<lparr>evNodeName = ''n1'', evNamespace = ''obs'', evLockError = None\<rparr>"

text \<open>\<open>main.go\<close> subscribes, a manager starts, the node is elected, the manager resumes its subsystem.\<close>

definition sample_state :: "bool \<Rightarrow> subscription list \<Rightarrow> (bool \<times> nat list) option \<Rightarrow> election" where
  "sample_state leads chans cb = \<lparr>elStarted = True, elIsLeader = leads, elLeaderId = ''n1'', elGauge = 1, elErrors = 0,
     elSubs = [(''agent'', 0), (''kstate'', 1)], elChans = chans, elCallback = cb\<rparr>"

definition sample_chans :: "bool list \<Rightarrow> bool list \<Rightarrow> bool list \<Rightarrow> subscription list" where
  "sample_chans a b calls = [\<lparr>sbBuf = a, sbPhase = NoReader, sbCalls = []\<rparr>, \<lparr>sbBuf = b, sbPhase = Running, sbCalls = calls\<rparr>]"

definition elected :: election where
  "elected = sample_state True (sample_chans [True] [] [True]) None"

lemma elected_reachable: "reachable sample_env elected"
proof -
  note defs = sample_state_def sample_chans_def upd_chan_def send_msg_def end_callback_def Manager_receive_def
  let ?s0 = "fst (Manager_Start sample_env ''kstate'' (fst (Subscribe sample_env NoReader ''agent'' init_election)))"
  have s0: "?s0 = \<lparr>elStarted = True, elIsLeader = False, elLeaderId = [], elGauge = 0, elErrors = 0,
     elSubs = [(''agent'', 0), (''kstate'', 1)], elChans = sample_chans [] [] [], elCallback = None\<rparr>" by code_simp
  have "reachable sample_env (fst (Subscribe sample_env NoReader ''agent'' init_election))"
    by (rule next_step [OF reachable.init step.subscribe]) (simp add: init_election_def)
  moreover have "elCallback (fst (Subscribe sample_env NoReader ''agent'' init_election)) = None" by code_simp
  ultimately have "reachable sample_env ?s0" by (rule next_step [OF _ step.start])
  then have "reachable sample_env (OnNewLeader (evNodeName sample_env) ''n1'' [0, 1] ?s0)"
    by (rule next_step) (rule step.new_leader; simp add: s0)
  also have "OnNewLeader (evNodeName sample_env) ''n1'' [0, 1] ?s0 =
      sample_state False (sample_chans [] [] []) (Some (True, [0, 1]))"
    unfolding s0 by (simp add: OnNewLeader_def sample_env_def sample_state_def)
  finally have "reachable sample_env (sample_state False (sample_chans [True] [] []) (Some (True, [1])))"
    by (rule next_step) (use step.send [of "sample_state False (sample_chans [] [] []) (Some (True, [0, 1]))" True 0 "[1]" sample_env] in
      \<open>simp add: defs\<close>)
  then have "reachable sample_env (sample_state False (sample_chans [True] [True] []) (Some (True, [])))"
    by (rule next_step) (use step.send [of "sample_state False (sample_chans [True] [] []) (Some (True, [1]))" True 1 "[]" sample_env] in
      \<open>simp add: defs\<close>)
  then have "reachable sample_env (sample_state True (sample_chans [True] [True] []) None)"
    by (rule next_step) (use step.finish [of "sample_state False (sample_chans [True] [True] []) (Some (True, []))" True sample_env] in
      \<open>simp add: defs\<close>)
  then show ?thesis
    by (rule next_step) (use step.receive [of 1 "sample_state True (sample_chans [True] [True] []) None" sample_env] in
      \<open>simp add: defs elected_def\<close>)
qed

text \<open>Now another node gets the lease: the collector of the first node is stuck for ever.\<close>

definition demoted :: election where
  "demoted = OnNewLeader ''n1'' ''n2'' [1, 0] elected"

lemma elected_demoted: "step sample_env elected demoted"
proof -
  have "step sample_env elected (OnNewLeader (evNodeName sample_env) ''n2'' [1, 0] elected)"
    by (rule step.new_leader) (simp_all add: elected_def sample_state_def add_mset_commute)
  then show ?thesis by (simp add: demoted_def sample_env_def)
qed


lemma leading_for_good_witness: "Leading True demoted \<in> {None, Some True}"
  by (rule leading_for_good [OF r_into_rtranclp [of "step sample_env", OF elected_demoted]])
     (simp add: Leading_def elected_def sample_state_def)


end
