(* ===== verification/Discovery_Rules.thy ===== *)
theory Discovery_Rules
  imports Sources_Manager Kube
begin

text \<open>
  What is collected from a discovered resource (\<open>collector/internal/discovery\<close>: types.go, helper.go,
  utils/encoding.go; \<open>collector/plugins/discovery\<close>: filter.go, endpoint_creator.go, the rules of discoverer.go,
  prometheus/encoder.go, telegraf/handler.go): selectors, rules, annotations, and the endpoint with the source
  configuration they encode. Parsing and printing of durations, the YAML decoder and the parser of URLs are
  parameters.
\<close>

section \<open>Resources (types.go, helper.go)\<close>

datatype ResourceType = PodType | ServiceType | NodeType

fun ResourceType_String :: "ResourceType \<Rightarrow> string" where
  "ResourceType_String PodType = ''pod''"
| "ResourceType_String ServiceType = ''service''"
| "ResourceType_String NodeType = ''node''"

record Resource =
  reKind :: string
  reIP :: string
  reMeta :: ObjectMeta
  reStatus :: string
  reContainers :: "kcontainer list"

definition ResourceName :: "string \<Rightarrow> ObjectMeta \<Rightarrow> string" where
  "ResourceName kind meta =
     (if omNamespace meta \<noteq> '''' then omNamespace meta @ ''-'' @ kind @ ''-'' @ omName meta
      else kind @ ''-'' @ omName meta)"

section \<open>Selectors (filter.go)\<close>

record resourceFilter =
  rfKind :: string
  rfImages :: "glob option"
  rfNamespaces :: "glob option"
  rfLabels :: "(string, glob) gomap option"

definition resourceType :: "string \<Rightarrow> string + string" where
  "resourceType kind =
     (if kind = '''' then Inr (ResourceType_String PodType)
      else if kind \<in> {ResourceType_String PodType, ResourceType_String ServiceType, ResourceType_String NodeType} then Inr kind
      else Inl (''invalid resource type: '' @ kind))"

definition newResourceFilter :: "glob_compile \<Rightarrow> Selectors \<Rightarrow> string + resourceFilter" where
  "newResourceFilter gc selectors =
     (case resourceType (selResourceType selectors) of
        Inl err \<Rightarrow> Inl err
      | Inr kind \<Rightarrow>
         (let rf = \<lparr>rfKind = kind, rfImages = Compile gc (selImages selectors),
                    rfNamespaces = Compile gc (selNamespaces selectors), rfLabels = MultiCompile gc (selLabels selectors)\<rparr>
          in if rfKind rf \<noteq> ResourceType_String NodeType \<and> rfImages rf = None \<and> rfLabels rf = None \<and> rfNamespaces rf = None
             then Inl ''no selectors specified'' else Inr rf))"

text \<open>Unlike the tags of a metric filter, all labels of a selector must match.\<close>

definition matchesTags :: "(string, glob) gomap \<Rightarrow> tagmap \<Rightarrow> bool" where
  "matchesTags matchers tags =
     (if length tags = 0 then False
      else list_all (\<lambda>e. case mget tags (fst e) of None \<Rightarrow> False | Some val \<Rightarrow> snd e val) matchers)"

definition rf_matches :: "resourceFilter \<Rightarrow> Resource \<Rightarrow> bool" where
  "rf_matches r resource =
     (if rfKind r \<noteq> reKind resource then False
      else if (case rfLabels r of None \<Rightarrow> False | Some ls \<Rightarrow> \<not> matchesTags ls (omLabels (reMeta resource))) then False
      else if (case rfNamespaces r of None \<Rightarrow> False | Some g \<Rightarrow> \<not> g (omNamespace (reMeta resource))) then False
      else case rfImages r of None \<Rightarrow> True | Some g \<Rightarrow> list_ex (\<lambda>c. g (kcImage c)) (reContainers resource))"

section \<open>Rules (discoverer.go)\<close>

definition pluginType :: "PluginConfig \<Rightarrow> string" where
  "pluginType plugin =
     (if Contains (plType plugin) ''prometheus'' then ''prometheus''
      else if Contains (plType plugin) ''telegraf'' then ''telegraf'' else '''')"

record delegate =
  dlFilter :: resourceFilter
  dlPlugin :: PluginConfig

text \<open>\<open>strconv.ParseInt(s, 10, 32)\<close>, as far as whether it succeeds.\<close>

definition is_digit :: "char \<Rightarrow> bool" where
  "is_digit c \<longleftrightarrow> (of_char c :: nat) \<in> {48..57}"

definition decimal :: "string \<Rightarrow> int" where
  "decimal ds = foldl (\<lambda>n c. 10 * n + (int (of_char c) - 48)) 0 ds"

definition ParseInt32_ok :: "string \<Rightarrow> bool" where
  "ParseInt32_ok s =
     (let neg = HasPrefix s ''-''; ds = (if HasPrefix s ''-'' \<or> HasPrefix s ''+'' then drop 1 s else s)
      in ds \<noteq> '''' \<and> list_all is_digit ds \<and> (if neg then decimal ds \<le> 2 ^ 31 else decimal ds < 2 ^ 31))"

definition makeDelegate :: "glob_compile \<Rightarrow> PluginConfig \<Rightarrow> string + delegate" where
  "makeDelegate gc plugin =
     (case newResourceFilter gc (plSelectors plugin) of
        Inl err \<Rightarrow> Inl err
      | Inr rf \<Rightarrow>
          if plPort plugin \<noteq> '''' \<and> \<not> ParseInt32_ok (plPort plugin) then Inl (''parsing '' @ plPort plugin)
          else if \<not> (Contains (plType plugin) ''prometheus'' \<or> Contains (plType plugin) ''telegraf'')
          then Inl (''invalid plugin type: '' @ plType plugin)
          else Inr \<lparr>dlFilter = rf, dlPlugin = plugin\<rparr>)"

definition makeDelegates :: "glob_compile \<Rightarrow> DiscoveryConfig \<Rightarrow> (string, delegate) gomap" where
  "makeDelegates gc cfg =
     foldl (\<lambda>delegates plugin. case makeDelegate gc plugin of
              Inl err \<Rightarrow> delegates | Inr d \<Rightarrow> mput (plName plugin) d delegates) [] (PluginConfigs cfg)"

definition makeAnnotationExclusions :: "glob_compile \<Rightarrow> Selectors list \<Rightarrow> resourceFilter list" where
  "makeAnnotationExclusions gc selectors =
     List.map_filter (\<lambda>s. case newResourceFilter gc s of Inl err \<Rightarrow> None | Inr f \<Rightarrow> Some f) selectors"

section \<open>Parameters and tags (utils/encoding.go)\<close>

definition EncodeTags :: "tagmap \<Rightarrow> string \<Rightarrow> tagmap \<Rightarrow> tagmap" where
  "EncodeTags destTags prefix tags =
     foldl (\<lambda>dest e. if fst e \<noteq> ''pod-template-hash'' \<and> length (fst e) > 0 \<and> length (snd e) > 0
                     then mput (prefix @ fst e) (snd e) dest else dest) destTags tags"

definition EncodeMeta :: "tagmap \<Rightarrow> string \<Rightarrow> ObjectMeta \<Rightarrow> tagmap" where
  "EncodeMeta tags kind meta =
     (let tags = mput kind (omName meta) tags
      in if omNamespace meta \<noteq> '''' then mput ''namespace'' (omNamespace meta) tags else tags)"

definition Param :: "ObjectMeta \<Rightarrow> string \<Rightarrow> string \<Rightarrow> string \<Rightarrow> string" where
  "Param meta annotation cfgVal defaultVal =
     (let value = (if annotation \<noteq> '''' then mgets (omAnnotations meta) annotation else '''');
          value = (if value = '''' then cfgVal else value)
      in if value = '''' then defaultVal else value)"

section \<open>Annotations of Prometheus targets (prometheus/encoder.go)\<close>

record prometheusEncoder =
  scrapeAnnotation :: string
  schemeAnnotation :: string
  pathAnnotation :: string
  portAnnotation :: string
  prefixAnnotation :: string
  labelsAnnotation :: string
  sourceAnnotation :: string
  collectionIntervalAnnotation :: string
  timeoutAnnotation :: string
  insecureSkipVerifyAnnotation :: string
  serverNameAnnotation :: string

definition newPrometheusEncoder :: "string \<Rightarrow> prometheusEncoder" where
  "newPrometheusEncoder prefix =
     (let prefix = (if length prefix = 0 then ''prometheus.io'' else prefix)
      in \<lparr>scrapeAnnotation = prefix @ ''/scrape'', schemeAnnotation = prefix @ ''/scheme'', pathAnnotation = prefix @ ''/path'',
          portAnnotation = prefix @ ''/port'', prefixAnnotation = prefix @ ''/prefix'',
          labelsAnnotation = prefix @ ''/includeLabels'', sourceAnnotation = prefix @ ''/source'',
          collectionIntervalAnnotation = prefix @ ''/collectionInterval'', timeoutAnnotation = prefix @ ''/timeout'',
          insecureSkipVerifyAnnotation = prefix @ ''/insecureSkipVerify'', serverNameAnnotation = prefix @ ''/serverName''\<rparr>)"

text \<open>What the encoders use of the standard library and of the YAML decoder.\<close>

record codec =
  cdParseDuration :: "string \<Rightarrow> string + duration"
  cdDurationString :: "duration \<Rightarrow> string"
  cdHttpConfig :: "string \<Rightarrow> string + ClientConfig"
  cdNodeName :: string

text \<open>\<open>strconv.ParseBool\<close>; its error is dropped and its value is then false.\<close>

definition ParseBool :: "string \<Rightarrow> bool" where
  "ParseBool s \<longleftrightarrow> s \<in> {''1'', ''t'', ''T'', ''true'', ''TRUE'', ''True''}"

definition encodeHTTPConf :: "codec \<Rightarrow> PrometheusSourceConfig \<Rightarrow> string \<Rightarrow> string \<Rightarrow> string \<Rightarrow> string + PrometheusSourceConfig" where
  "encodeHTTPConf cd cfg conf insecure serverName =
     (if conf \<noteq> ''''
      then (case cdHttpConfig cd conf of Inl err \<Rightarrow> Inl err | Inr httpConf \<Rightarrow> Inr (cfg\<lparr>HTTPClientConfig := httpConf\<rparr>))
      else
       (let insecureBool = (if length insecure > 0 then ParseBool insecure else if length serverName > 0 then False else True)
        in Inr (cfg\<lparr>HTTPClientConfig := emptyClient\<lparr>TLSConfigOf :=
                  emptyTLS\<lparr>InsecureSkipVerify := insecureBool, ServerName := serverName\<rparr>\<rparr>\<rparr>)))"

definition encodeBase ::
  "PrometheusSourceConfig \<Rightarrow> string \<Rightarrow> string \<Rightarrow> string \<Rightarrow> string \<Rightarrow> string \<Rightarrow> string \<Rightarrow> string \<Rightarrow> PrometheusSourceConfig" where
  "encodeBase cfg scheme ip port path name source prefix =
     (let port = (if port \<noteq> '''' then '':'' @ port else port)
      in cfg\<lparr>psURL := scheme @ ''://'' @ ip @ port @ path, psName := name,
             psTransforms := (psTransforms cfg)\<lparr>trSource := source, trPrefix := prefix\<rparr>\<rparr>)"

definition sanitizePort :: "string \<Rightarrow> string \<Rightarrow> string" where
  "sanitizePort name port = (if Contains name ''kube-state-metrics'' \<and> port = '''' then ''8080'' else port)"

definition uniqueName :: "string \<Rightarrow> string \<Rightarrow> string \<Rightarrow> bool \<Rightarrow> string" where
  "uniqueName name port path internal =
     (let out = name;
          out = (if port \<noteq> '''' then out @ '':'' @ port else out);
          out = (if path \<noteq> '''' then out @ path else out)
      in if internal then out @ ''.internal'' else out)"

definition emptyPrometheusSource :: PrometheusSourceConfig where
  "emptyPrometheusSource = \<lparr>psTransforms = emptyTransforms, psCollection = \<lparr>ccInterval = 0, ccTimeout = 0\<rparr>, psURL = '''',
     HTTPClientConfig = emptyClient, psName = '''', psDiscovered = '''', psUseLeaderElection = False\<rparr>"

definition prom_encode :: "codec \<Rightarrow> prometheusEncoder \<Rightarrow> string \<Rightarrow> string \<Rightarrow> ObjectMeta \<Rightarrow> PluginConfig \<Rightarrow>
    (string \<times> PrometheusSourceConfig) option" where
  "prom_encode cd e ip kind meta rule =
     (if ip = '''' \<or> ip = ''None'' then None
      else
       let result = emptyPrometheusSource\<lparr>psDiscovered := (if plName rule \<noteq> '''' then ''rule'' else ''annotation''),
             psUseLeaderElection := (kind = ResourceType_String ServiceType)\<rparr>;
           result = result\<lparr>psTransforms := (psTransforms result)\<lparr>ConvertHistograms := plConvertHistograms rule\<rparr>\<rparr>;
           collectionInterval = Param meta (collectionIntervalAnnotation e) (cdDurationString cd (ccInterval (plCollection rule))) ''0s'';
           timeout = Param meta (timeoutAnnotation e) (cdDurationString cd (ccTimeout (plCollection rule))) ''0s''
       in case cdParseDuration cd collectionInterval of Inl _ \<Rightarrow> None
        | Inr collectionDuration \<Rightarrow>
          (case cdParseDuration cd timeout of Inl _ \<Rightarrow> None
           | Inr timeoutDuration \<Rightarrow>
             (let result = result\<lparr>psCollection := \<lparr>ccInterval = collectionDuration, ccTimeout = timeoutDuration\<rparr>\<rparr>;
                  scrape = Param meta (scrapeAnnotation e) '''' ''false''
              in if plName rule = '''' \<and> scrape \<noteq> ''true'' then None
                 else
                  let scheme = Param meta (schemeAnnotation e) (plScheme rule) ''http'';
                      path = Param meta (pathAnnotation e) (plPath rule) ''/metrics'';
                      port = Param meta (portAnnotation e) (plPort rule) '''';
                      prefix = Param meta (prefixAnnotation e) (plPrefix rule) '''';
                      source = Param meta (sourceAnnotation e) (plSource rule) (cdNodeName cd);
                      includeLabels = Param meta (labelsAnnotation e) (plIncludeLabels rule) ''true'';
                      insecureSkipVerify = Param meta (insecureSkipVerifyAnnotation e) '''' '''';
                      serverName = Param meta (serverNameAnnotation e) '''' '''';
                      source = (if source = '''' then omName meta else source);
                      name = ResourceName kind meta;
                      port = sanitizePort (omName meta) port;
                      name = uniqueName name port path (plInternal rule);
                      result = encodeBase result scheme ip port path name source prefix;
                      tags = EncodeTags (EncodeMeta [] kind meta) '''' (plTags rule);
                      tags = (if includeLabels = ''true'' then EncodeTags tags ''label.'' (omLabels meta) else tags);
                      result = result\<lparr>psTransforms := (psTransforms result)\<lparr>trTags := tags, trFilters := plFilters rule\<rparr>\<rparr>
                  in case encodeHTTPConf cd result (plConf rule) insecureSkipVerify serverName of
                       Inl _ \<Rightarrow> None | Inr result \<Rightarrow> Some (name, result))))"

section \<open>Telegraf plugins (telegraf/handler.go)\<close>

text \<open>\<open>strings.Replace(s, old, new, -1)\<close> for a non-empty \<open>old\<close>.\<close>

function (sequential) ReplaceAll :: "string \<Rightarrow> string \<Rightarrow> string \<Rightarrow> string" where
  "ReplaceAll old new [] = []"
| "ReplaceAll old new (c # s) =
     (if old \<noteq> [] \<and> HasPrefix (c # s) old then new @ ReplaceAll old new (drop (length old) (c # s))
      else c # ReplaceAll old new s)"
  by pat_completeness auto
termination by (relation "measure (\<lambda>(old, new, s). length s)") (auto simp: Suc_le_eq)

definition tele_uniqueName :: "string \<Rightarrow> string \<Rightarrow> string" where
  "tele_uniqueName name port = (if port = '''' then name else name @ '':'' @ port)"

definition tele_encode :: "string \<Rightarrow> string \<Rightarrow> ObjectMeta \<Rightarrow> PluginConfig \<Rightarrow> (string \<times> TelegrafSourceConfig) option" where
  "tele_encode ip kind meta cfg =
     (if ip = '''' \<or> ip = ''None'' then None
      else
       (let name = tele_uniqueName (ResourceName kind meta) (plPort cfg);
            pluginName = ReplaceAll ''telegraf/'' '''' (plType cfg);
            scheme = Param meta '''' (plScheme cfg) ''http'';
            server = scheme @ ''://'' @ ip @ '':'' @ plPort cfg;
            conf = ReplaceAll ''${server}'' server (plConf cfg);
            conf = ReplaceAll ''${host}'' ip conf;
            conf = ReplaceAll ''${port}'' (plPort cfg) conf;
            prefix = Param meta ''wavefront.com/prefix'' (plPrefix cfg) '''';
            includeLabels = Param meta ''wavefront.com/includeLabels'' (plIncludeLabels cfg) ''true'';
            tags = EncodeTags (EncodeMeta [] kind meta) '''' (plTags cfg);
            tags = (if includeLabels = ''true'' then EncodeTags tags ''label.'' (omLabels meta) else tags)
        in Some (name, \<lparr>tgTransforms = emptyTransforms\<lparr>trPrefix := prefix, trTags := tags, trFilters := plFilters cfg\<rparr>,
              tgCollection = \<lparr>ccInterval = ccInterval (plCollection cfg), ccTimeout = ccTimeout (plCollection cfg)\<rparr>,
              tgPlugins = [pluginName], tgConf = conf, tgDiscovered = ''rule'', tgName = name,
              tgUseLeaderElection = (kind = ResourceType_String ServiceType)\<rparr>)))"

section \<open>Endpoints (endpoint_creator.go)\<close>

datatype endpoint_config = PromConfig PrometheusSourceConfig | TeleConfig TelegrafSourceConfig

record Endpoint =
  epName :: string
  epPluginType :: string
  epConfig :: endpoint_config

record endpointCreator =
  ecCodec :: codec
  ecDelegates :: "(string, delegate) gomap"
  ecEncoder :: prometheusEncoder
  ecDisableAnnotationDiscovery :: bool
  ecAnnotationExcludes :: "resourceFilter list"

definition Encode :: "endpointCreator \<Rightarrow> Resource \<Rightarrow> PluginConfig \<Rightarrow> (string \<times> endpoint_config) option" where
  "Encode e resource rule =
     (if pluginType rule = ''prometheus''
      then map_option (\<lambda>(n, c). (n, PromConfig c)) (prom_encode (ecCodec e) (ecEncoder e) (reIP resource) (reKind resource) (reMeta resource) rule)
      else if pluginType rule = ''telegraf''
      then map_option (\<lambda>(n, c). (n, TeleConfig c)) (tele_encode (reIP resource) (reKind resource) (reMeta resource) rule)
      else None)"

definition makeEndpoint :: "endpointCreator \<Rightarrow> Resource \<Rightarrow> PluginConfig \<Rightarrow> Endpoint option" where
  "makeEndpoint e resource plugin =
     map_option (\<lambda>(name, cfg). \<lparr>epName = name, epPluginType = pluginType plugin, epConfig = cfg\<rparr>) (Encode e resource plugin)"

definition discoverEndpointsWithRules :: "endpointCreator \<Rightarrow> Resource \<Rightarrow> Endpoint list" where
  "discoverEndpointsWithRules e resource =
     List.map_filter (\<lambda>d. if rf_matches (dlFilter (snd d)) resource then makeEndpoint e resource (dlPlugin (snd d)) else None)
       (ecDelegates e)"

definition annotation_rule :: PluginConfig where
  "annotation_rule = \<lparr>plName = '''', plType = ''prometheus'',
     plSelectors = \<lparr>selResourceType = '''', selImages = [], selLabels = [], selNamespaces = []\<rparr>,
     plPort = '''', plScheme = '''', plPath = '''', plConf = '''', plSource = '''', plPrefix = '''', plTags = [],
     plIncludeLabels = '''', plFilters = emptyConfig, plConvertHistograms = False,
     plCollection = \<lparr>ccInterval = 0, ccTimeout = 0\<rparr>, plInternal = False\<rparr>"

definition discoverEndpointsWithAnnotations :: "endpointCreator \<Rightarrow> Resource \<Rightarrow> Endpoint list" where
  "discoverEndpointsWithAnnotations e resource =
     (if list_ex (\<lambda>x. rf_matches x resource) (ecAnnotationExcludes e) then []
      else opt_list (makeEndpoint e resource annotation_rule))"

definition discoverEndpoints :: "endpointCreator \<Rightarrow> Resource \<Rightarrow> Endpoint list" where
  "discoverEndpoints e resource =
     (let eps = discoverEndpointsWithRules e resource
      in if length eps = 0 \<and> \<not> ecDisableAnnotationDiscovery e then discoverEndpointsWithAnnotations e resource else eps)"

definition newEndpointCreator :: "glob_compile \<Rightarrow> codec \<Rightarrow> DiscoveryConfig \<Rightarrow> endpointCreator" where
  "newEndpointCreator gc cd cfg =
     \<lparr>ecCodec = cd, ecDelegates = makeDelegates gc cfg, ecEncoder = newPrometheusEncoder (AnnotationPrefix cfg),
      ecDisableAnnotationDiscovery = DisableAnnotationDiscovery cfg,
      ecAnnotationExcludes = makeAnnotationExclusions gc (AnnotationExcludes cfg)\<rparr>"

end
