(* ===== verification/Discovery.thy ===== *)
theory Discovery
  imports Discovery_Rules
begin

text \<open>
  The discovery of targets (\<open>collector/plugins/discovery\<close>: discoverer.go, pod.go, service.go; \<open>collector/internal/discovery\<close>:
  endpoint.go; the provider factories of \<open>plugins/sources/prometheus\<close> and \<open>plugins/sources/telegraf\<close>): resources are
  queued, one goroutine takes them from the queue, keeps the endpoints of every resource and adds and deletes their
  providers. The handler of providers is whatever satisfies the contract of \<open>Sources_Manager\<close>.
\<close>

section \<open>Providers of endpoints (factory.go, prometheus.go, telegraf/provider.go)\<close>

definition promProviderName :: string where "promProviderName = ''prometheus_metrics_provider''"
definition teleProviderName :: string where "teleProviderName = ''telegraf_provider''"

text \<open>\<open>parseURI\<close> yields an error for a URL that does not parse; \<open>sources\<close> stands for the sources a provider has when asked.\<close>

definition NewPrometheusProvider ::
  "(string \<Rightarrow> string option) \<Rightarrow> (PrometheusSourceConfig \<Rightarrow> source list) \<Rightarrow> PrometheusSourceConfig \<Rightarrow> string + provider" where
  "NewPrometheusProvider parseURI sources cfg =
     (let name = (if length (psName cfg) > 0 then promProviderName @ '': '' @ psName cfg else '''');
          name = (if name = '''' then promProviderName @ '': '' @ psURL cfg else name)
      in case parseURI (psURL cfg) of
           Some err \<Rightarrow> Inl err
         | None \<Rightarrow> Inr \<lparr>pvName = name, pvCollectionInterval = 0, pvTimeout = 0, pvSources = sources cfg\<rparr>)"

definition prom_leader_election :: "PrometheusSourceConfig \<Rightarrow> bool" where
  "prom_leader_election cfg \<longleftrightarrow> psUseLeaderElection cfg \<or> GetStringValue (psDiscovered cfg) '''' = ''''"

definition prom_Build ::
  "(string \<Rightarrow> string option) \<Rightarrow> (PrometheusSourceConfig \<Rightarrow> source list) \<Rightarrow> PrometheusSourceConfig \<Rightarrow> string + provider" where
  "prom_Build parseURI sources cfg =
     map_sum id (Configure (ccInterval (psCollection cfg)) (ccTimeout (psCollection cfg))) (NewPrometheusProvider parseURI sources cfg)"

definition hostPlugins :: "string list" where
  "hostPlugins = [''mem'', ''net'', ''netstat'', ''linux_sysctl_fs'', ''swap'', ''cpu'', ''disk'', ''diskio'', ''system'', ''kernel'', ''processes'']"

definition tele_pluginType :: "string \<Rightarrow> string" where
  "tele_pluginType plugin = (if plugin \<in> set hostPlugins then ''telegraf_host'' else ''telegraf'')"

text \<open>\<open>creator\<close> says which plugins telegraf has, \<open>initPlugin\<close> which configurations they reject. The state is the
  sources so far and whether they all are host plugins.\<close>

fun tele_plugins ::
  "bool \<Rightarrow> (string \<Rightarrow> bool) \<Rightarrow> (string \<Rightarrow> string \<Rightarrow> string option) \<Rightarrow> TelegrafSourceConfig \<Rightarrow> source list \<times> bool \<Rightarrow> string list \<Rightarrow>
   string + source list \<times> bool" where
  "tele_plugins anyNodes creator initPlugin cfg st [] = Inr st"
| "tele_plugins anyNodes creator initPlugin cfg (sources, hostPlugin) (name # rest) =
     (if \<not> anyNodes \<and> tele_pluginType name = ''telegraf_host''
      then tele_plugins anyNodes creator initPlugin cfg (sources, hostPlugin) rest
      else let trimmed = Trim (\<lambda>c. c = CHR '' '') name in
        if \<not> creator trimmed then Inl (''telegraf plugin not found: '' @ name)
        else if tgConf cfg \<noteq> '''' \<and> initPlugin trimmed (tgConf cfg) \<noteq> None
        then Inl (''error creating plugin: '' @ name)
        else tele_plugins anyNodes creator initPlugin cfg
               (sources @ [\<lparr>srcName = name @ ''_plugin'', srcAutoDiscovered = (tgDiscovered cfg \<noteq> '''')\<rparr>],
                hostPlugin \<and> tele_pluginType name = ''telegraf_host'') rest)"

text \<open>\<open>%v\<close> of a list of strings: in brackets, with blanks between them.\<close>

definition tele_plugin_list :: "TelegrafSourceConfig \<Rightarrow> string list" where
  "tele_plugin_list cfg = (if length (tgPlugins cfg) = 0 then hostPlugins else tgPlugins cfg)"

definition tele_NewProvider ::
  "bool \<Rightarrow> (string \<Rightarrow> bool) \<Rightarrow> (string \<Rightarrow> string \<Rightarrow> string option) \<Rightarrow> TelegrafSourceConfig \<Rightarrow> string + provider \<times> bool" where
  "tele_NewProvider anyNodes creator initPlugin cfg =
     (case tele_plugins anyNodes creator initPlugin cfg ([], True) (tele_plugin_list cfg) of
        Inl err \<Rightarrow> Inl err
      | Inr (sources, hostPlugin) \<Rightarrow>
         (let name = (if length (tgName cfg) > 0 then teleProviderName @ '': '' @ tgName cfg
                      else teleProviderName @ '': ['' @ Join '' '' (tele_plugin_list cfg) @ '']'');
              useLeaderElection = (tgUseLeaderElection cfg \<or> (tgDiscovered cfg = '''' \<and> \<not> hostPlugin))
          in Inr (\<lparr>pvName = name, pvCollectionInterval = 0, pvTimeout = 0, pvSources = sources\<rparr>, useLeaderElection)))"

definition tele_Build ::
  "bool \<Rightarrow> (string \<Rightarrow> bool) \<Rightarrow> (string \<Rightarrow> string \<Rightarrow> string option) \<Rightarrow> TelegrafSourceConfig \<Rightarrow> string + provider" where
  "tele_Build anyNodes creator initPlugin cfg =
     map_sum id (Configure (ccInterval (tgCollection cfg)) (ccTimeout (tgCollection cfg)) \<circ> fst)
       (tele_NewProvider anyNodes creator initPlugin cfg)"

record factories =
  faParseURI :: "string \<Rightarrow> string option"
  faSources :: "PrometheusSourceConfig \<Rightarrow> source list"
  faAnyNodes :: bool
  faCreator :: "string \<Rightarrow> bool"
  faInitPlugin :: "string \<Rightarrow> string \<Rightarrow> string option"

fun Build :: "factories \<Rightarrow> endpoint_config \<Rightarrow> string + provider" where
  "Build fa (PromConfig cfg) = prom_Build (faParseURI fa) (faSources fa) cfg"
| "Build fa (TeleConfig cfg) = tele_Build (faAnyNodes fa) (faCreator fa) (faInitPlugin fa) cfg"

section \<open>The endpoint handler (endpoint.go)\<close>

record 's handlerState =
  hsManager :: 's
  hsCounts :: "(string, int64) gomap"

definition count_of :: "(string, int64) gomap \<Rightarrow> string \<Rightarrow> int64" where
  "count_of m k = (case mget m k of None \<Rightarrow> 0 | Some n \<Rightarrow> n)"

definition providers_have :: "string \<Rightarrow> bool" where
  "providers_have t \<longleftrightarrow> t \<in> {''prometheus'', ''telegraf''}"

definition factory_name :: "string \<Rightarrow> string" where
  "factory_name t = (if t = ''prometheus'' then promProviderName else teleProviderName)"

definition provider_key :: "Endpoint \<Rightarrow> string" where
  "provider_key ep = factory_name (epPluginType ep) @ '': '' @ epName ep"

definition handler_Add :: "('p \<Rightarrow> 's \<Rightarrow> 's) \<Rightarrow> (endpoint_config \<Rightarrow> string + 'p) \<Rightarrow> Endpoint \<Rightarrow> 's handlerState \<Rightarrow> 's handlerState" where
  "handler_Add add build ep s =
     (if providers_have (epPluginType ep)
      then (case build (epConfig ep) of
              Inl err \<Rightarrow> s
            | Inr provider \<Rightarrow> s\<lparr>hsManager := add provider (hsManager s),
                hsCounts := mput (epPluginType ep) (count_of (hsCounts s) (epPluginType ep) + 1) (hsCounts s)\<rparr>)
      else s)"

definition handler_Delete :: "(string \<Rightarrow> 's \<Rightarrow> 's) \<Rightarrow> Endpoint \<Rightarrow> 's handlerState \<Rightarrow> 's handlerState" where
  "handler_Delete delete ep s =
     (if providers_have (epPluginType ep)
      then s\<lparr>hsManager := delete (provider_key ep) (hsManager s),
             hsCounts := mput (epPluginType ep) (count_of (hsCounts s) (epPluginType ep) - 1) (hsCounts s)\<rparr>
      else s)"

section \<open>The discoverer (discoverer.go)\<close>

record 's discoverer =
  dcEndpoints :: "(string, Endpoint list) gomap"
  dcHandler :: "'s handlerState"

definition endpoints_of :: "'s discoverer \<Rightarrow> string \<Rightarrow> Endpoint list" where
  "endpoints_of d n = (case mget (dcEndpoints d) n of None \<Rightarrow> [] | Some eps \<Rightarrow> eps)"

definition internalDiscover ::
  "('p \<Rightarrow> 's \<Rightarrow> 's) \<Rightarrow> (string \<Rightarrow> 's \<Rightarrow> 's) \<Rightarrow> (endpoint_config \<Rightarrow> string + 'p) \<Rightarrow> endpointCreator \<Rightarrow> Resource \<Rightarrow>
   's discoverer \<Rightarrow> 's discoverer" where
  "internalDiscover add delete build ec resource d =
     (let eps = discoverEndpoints ec resource;
          resourceName = ResourceName (reKind resource) (reMeta resource);
          oldEps = endpoints_of d resourceName;
          d = d\<lparr>dcEndpoints := mdel resourceName (dcEndpoints d)\<rparr>;
          d = (if length eps > 0 then d\<lparr>dcEndpoints := mput resourceName eps (dcEndpoints d)\<rparr> else d)
      in if eps = oldEps then d
         else
          (let h = foldl (\<lambda>h ep. handler_Delete delete ep h) (dcHandler d) oldEps;
               h = foldl (\<lambda>h ep. handler_Add add build ep h) h eps
           in d\<lparr>dcHandler := h\<rparr>))"

definition internalDelete :: "(string \<Rightarrow> 's \<Rightarrow> 's) \<Rightarrow> Resource \<Rightarrow> 's discoverer \<Rightarrow> 's discoverer" where
  "internalDelete delete resource d =
     (let resourceName = ResourceName (reKind resource) (reMeta resource);
          eps = endpoints_of d resourceName
      in d\<lparr>dcEndpoints := mdel resourceName (dcEndpoints d),
           dcHandler := foldl (\<lambda>h ep. handler_Delete delete ep h) (dcHandler d) eps\<rparr>)"

definition dequeue_one ::
  "('p \<Rightarrow> 's \<Rightarrow> 's) \<Rightarrow> (string \<Rightarrow> 's \<Rightarrow> 's) \<Rightarrow> (endpoint_config \<Rightarrow> string + 'p) \<Rightarrow> endpointCreator \<Rightarrow> 's discoverer \<Rightarrow> Resource \<Rightarrow>
   's discoverer" where
  "dequeue_one add delete build ec d resource =
     (if reStatus resource = ''delete'' then internalDelete delete resource d
      else internalDiscover add delete build ec resource d)"

definition DeleteAll :: "(string \<Rightarrow> 's \<Rightarrow> 's) \<Rightarrow> 's discoverer \<Rightarrow> 's discoverer" where
  "DeleteAll delete d =
     d\<lparr>dcEndpoints := [],
       dcHandler := foldl (\<lambda>h e. foldl (\<lambda>h ep. handler_Delete delete ep h) h (snd e)) (dcHandler d) (dcEndpoints d)\<rparr>"

text \<open>The endpoint of a rule for nodes: only with exactly one node, and added to what the node already has.\<close>

definition discoverNodeEndpoint ::
  "('p \<Rightarrow> 's \<Rightarrow> 's) \<Rightarrow> (endpoint_config \<Rightarrow> string + 'p) \<Rightarrow> endpointCreator \<Rightarrow> (string \<Rightarrow> bool) \<Rightarrow> string + Node list \<Rightarrow> string \<Rightarrow>
   PluginConfig \<Rightarrow> 's discoverer \<Rightarrow> string + 's discoverer" where
  "discoverNodeEndpoint add build ec parseIP nodes nodeName plugin d =
     (case nodes of
        Inl err \<Rightarrow> Inl (''error listing nodes: '' @ err)
      | Inr nodes \<Rightarrow>
          if length nodes \<noteq> 1 then Inl ''invalid number of nodes found''
          else (case GetNodeHostnameAndIP parseIP (nodes ! 0) of
            Inl err \<Rightarrow> Inl (''error getting node IP: '' @ err)
          | Inr (_, ip) \<Rightarrow>
             (let resource = \<lparr>reKind = ResourceType_String NodeType, reIP = ip, reMeta = emptyMeta '''' nodeName,
                              reStatus = '''', reContainers = []\<rparr>
              in case makeEndpoint ec resource plugin of
                   None \<Rightarrow> Inr d
                 | Some ep \<Rightarrow>
                    (let name = ResourceName (reKind resource) (reMeta resource)
                     in Inr (d\<lparr>dcEndpoints := mput name (endpoints_of d name @ [ep]) (dcEndpoints d),
                               dcHandler := handler_Add add build ep (dcHandler d)\<rparr>)))))"

definition discoverNodeEndpoints ::
  "('p \<Rightarrow> 's \<Rightarrow> 's) \<Rightarrow> (endpoint_config \<Rightarrow> string + 'p) \<Rightarrow> endpointCreator \<Rightarrow> (string \<Rightarrow> bool) \<Rightarrow> string + Node list \<Rightarrow> string \<Rightarrow>
   PluginConfig list \<Rightarrow> 's discoverer \<Rightarrow> 's discoverer" where
  "discoverNodeEndpoints add build ec parseIP nodes nodeName plugins d =
     foldl (\<lambda>d plugin. if selResourceType (plSelectors plugin) = ResourceType_String NodeType
        then (case discoverNodeEndpoint add build ec parseIP nodes nodeName plugin d of Inl err \<Rightarrow> d | Inr d' \<Rightarrow> d')
        else d) d plugins"

definition run_queue ::
  "('p \<Rightarrow> 's \<Rightarrow> 's) \<Rightarrow> (string \<Rightarrow> 's \<Rightarrow> 's) \<Rightarrow> (endpoint_config \<Rightarrow> string + 'p) \<Rightarrow> endpointCreator \<Rightarrow> 's discoverer \<Rightarrow> Resource list \<Rightarrow>
   's discoverer" where
  "run_queue add delete build ec d queue = foldl (dequeue_one add delete build ec) d queue"

definition newDiscoverer :: "'s \<Rightarrow> 's discoverer" where
  "newDiscoverer s = \<lparr>dcEndpoints = [], dcHandler = \<lparr>hsManager = s, hsCounts = []\<rparr>\<rparr>"

text \<open>What should be there after a queue of resources: of every resource the endpoints of its last event.\<close>

definition resource_name :: "Resource \<Rightarrow> string" where
  "resource_name r = ResourceName (reKind r) (reMeta r)"

definition wanted :: "endpointCreator \<Rightarrow> Resource \<Rightarrow> Endpoint list" where
  "wanted ec r = (if reStatus r = ''delete'' then [] else discoverEndpoints ec r)"

definition desired :: "endpointCreator \<Rightarrow> (string \<Rightarrow> Endpoint list) \<Rightarrow> Resource list \<Rightarrow> string \<Rightarrow> Endpoint list" where
  "desired ec t rs = foldl (\<lambda>t r. t(resource_name r := wanted ec r)) t rs"

section \<open>Events of pods and services (pod.go, service.go)\<close>

text \<open>What a handler puts on the queue: \<open>Delete\<close> marks the resource, \<open>Discover\<close> queues it as it is.\<close>

definition pod_resource :: "Pod \<Rightarrow> Resource" where
  "pod_resource pod = \<lparr>reKind = ResourceType_String PodType, reIP = podIP pod, reMeta = podMeta pod, reStatus = '''',
     reContainers = podContainers pod\<rparr>"

definition podReady :: "Pod \<Rightarrow> bool" where
  "podReady pod \<longleftrightarrow> podPhase pod = ''Running'' \<and> \<not> (podIP pod = '''' \<or> podIP pod = ''None'')"

definition podUpdated :: "Pod \<Rightarrow> Resource list" where
  "podUpdated pod = (if podReady pod then [pod_resource pod] else [])"

definition deletePodIfValid :: "Pod \<Rightarrow> Resource list" where
  "deletePodIfValid pod = [(pod_resource pod)\<lparr>reStatus := ''delete''\<rparr>]"

record Service =
  svMeta :: ObjectMeta
  svClusterIP :: string

definition service_resource :: "Service \<Rightarrow> Resource" where
  "service_resource service = \<lparr>reKind = ResourceType_String ServiceType, reIP = svClusterIP service, reMeta = svMeta service,
     reStatus = '''', reContainers = []\<rparr>"

definition hasIP :: "string \<Rightarrow> bool" where
  "hasIP ip \<longleftrightarrow> ip \<noteq> '''' \<and> ip \<noteq> ''None''"

definition updateServiceIfValid :: "Service \<Rightarrow> Resource list" where
  "updateServiceIfValid service = (if hasIP (svClusterIP service) then [service_resource service] else [])"

text \<open>A deleted service is queued for discovery, not for deletion.\<close>

definition deleteServiceIfValid :: "Service \<Rightarrow> Resource list" where
  "deleteServiceIfValid service = [service_resource service]"

section \<open>The registry follows the endpoints\<close>

text \<open>What the discoverer asks of the providers: a provider is registered under the key by which it is deleted.
  \<open>ok\<close> holds of the endpoints the endpoint creator makes.\<close>

locale endpoint_registry = provider_handler add delete name_of registered inv
  for add :: "'p \<Rightarrow> 's \<Rightarrow> 's" and delete :: "string \<Rightarrow> 's \<Rightarrow> 's" and name_of :: "'p \<Rightarrow> string"
    and registered :: "'s \<Rightarrow> string \<Rightarrow> 'p option" and inv :: "'s \<Rightarrow> bool" +
  fixes build :: "endpoint_config \<Rightarrow> string + 'p" and ok :: "Endpoint \<Rightarrow> bool"
  assumes build_named: "ok ep \<Longrightarrow> build (epConfig ep) = Inr p \<Longrightarrow> name_of p = provider_key ep"
    and ok_type: "ok ep \<Longrightarrow> providers_have (epPluginType ep)"
begin

definition provides :: "Endpoint list \<Rightarrow> string \<Rightarrow> 'p \<Rightarrow> bool" where
  "provides eps n p \<longleftrightarrow> (\<exists>ep \<in> set eps. provider_key ep = n \<and> build (epConfig ep) = Inr p)"

lemma handler_Deletes:
  assumes "inv (hsManager h)" "\<forall>ep \<in> set eps. ok ep"
  shows "inv (hsManager (foldl (\<lambda>h ep. handler_Delete delete ep h) h eps)) \<and>
    registered (hsManager (foldl (\<lambda>h ep. handler_Delete delete ep h) h eps)) =
      (\<lambda>n. if n \<in> provider_key ` set eps then None else registered (hsManager h) n)"
  using assms
proof (induction eps arbitrary: h)
  case (Cons ep eps)
  then have "providers_have (epPluginType ep)" by (simp add: ok_type)
  with Cons show ?case by (auto simp: handler_Delete_def inv_delete registered_delete fun_eq_iff)
qed simp

lemma handler_Adds:
  assumes "inv (hsManager h)" "\<forall>ep \<in> set eps. ok ep" "distinct (map provider_key eps)"
  shows "inv (hsManager (foldl (\<lambda>h ep. handler_Add add build ep h) h eps)) \<and>
    (registered (hsManager (foldl (\<lambda>h ep. handler_Add add build ep h) h eps)) n = Some p \<longleftrightarrow>
      provides eps n p \<or> registered (hsManager h) n = Some p \<and> \<not> (\<exists>q. provides eps n q))"
  using assms
proof (induction eps arbitrary: h)
  case (Cons ep eps)
  then have ok: "providers_have (epPluginType ep)" by (simp add: ok_type)
  show ?case
  proof (cases "build (epConfig ep)")
    case (Inl e)
    then have "handler_Add add build ep h = h" by (simp add: handler_Add_def)
    with Cons Inl show ?thesis by (simp add: provides_def)
  next
    case (Inr q)
    then have name: "name_of q = provider_key ep" using Cons.prems by (intro build_named) auto
    let ?h = "handler_Add add build ep h"
    have h: "hsManager ?h = add q (hsManager h)" using Inr ok by (simp add: handler_Add_def)
    have key: "\<not> provides eps (provider_key ep) x" for x using Cons.prems(3) by (auto simp: provides_def image_iff)
    have ep: "provides (ep # eps) m x \<longleftrightarrow> m = provider_key ep \<and> x = q \<or> provides eps m x" for m x
      using Inr by (auto simp: provides_def)
    show ?thesis using Cons.IH [of ?h] Cons.prems key
      by (cases "n = provider_key ep") (auto simp: h inv_add registered_add name ep)
  qed
qed (simp add: provides_def)

text \<open>\<open>own\<close> gives every key the resource whose endpoints may use it.\<close>

definition endpoints_ok :: "(string \<Rightarrow> string) \<Rightarrow> string \<Rightarrow> Endpoint list \<Rightarrow> bool" where
  "endpoints_ok own rn eps \<longleftrightarrow> (\<forall>ep \<in> set eps. ok ep \<and> own (provider_key ep) = rn) \<and> distinct (map provider_key eps)"

definition follows :: "(string \<Rightarrow> string) \<Rightarrow> 's discoverer \<Rightarrow> bool" where
  "follows own d \<longleftrightarrow> inv (hsManager (dcHandler d)) \<and> (\<forall>rn. endpoints_ok own rn (endpoints_of d rn)) \<and>
     (\<forall>n p. registered (hsManager (dcHandler d)) n = Some p \<longleftrightarrow> (\<exists>rn. provides (endpoints_of d rn) n p))"

lemma provides_own: "endpoints_ok own rn eps \<Longrightarrow> provides eps n p \<Longrightarrow> own n = rn"
  by (auto simp: endpoints_ok_def provides_def)

text \<open>One step: the endpoints of one resource replaced.\<close>

lemma follows_replace:
  assumes d: "follows own d" and eps: "endpoints_ok own rn eps"
    and of_d': "\<And>m. endpoints_of d' m = (if m = rn then eps else endpoints_of d m)"
    and h: "dcHandler d' = foldl (\<lambda>h ep. handler_Add add build ep h)
      (foldl (\<lambda>h ep. handler_Delete delete ep h) (dcHandler d) (endpoints_of d rn)) eps"
  shows "follows own d'"
proof -
  let ?h = "foldl (\<lambda>h ep. handler_Delete delete ep h) (dcHandler d) (endpoints_of d rn)"
  have okd: "endpoints_ok own m (endpoints_of d m)" for m using d by (simp add: follows_def)
  have inv: "inv (hsManager (dcHandler d))" using d by (simp add: follows_def)
  have del: "inv (hsManager ?h)" "registered (hsManager ?h) n = (if n \<in> provider_key ` set (endpoints_of d rn) then None
      else registered (hsManager (dcHandler d)) n)" for n
    using handler_Deletes [OF inv, of "endpoints_of d rn"] okd [of rn] by (auto simp: endpoints_ok_def)
  have ad: "inv (hsManager (dcHandler d'))"
    "registered (hsManager (dcHandler d')) n = Some p \<longleftrightarrow>
      provides eps n p \<or> registered (hsManager ?h) n = Some p \<and> \<not> (\<exists>q. provides eps n q)" for n p
    using handler_Adds [OF del(1), of eps] eps by (simp_all add: h endpoints_ok_def)
  have "registered (hsManager (dcHandler d')) n = Some p \<longleftrightarrow> (\<exists>m. provides (endpoints_of d' m) n p)" for n p
  proof
    assume "registered (hsManager (dcHandler d')) n = Some p"
    then consider "provides eps n p" | "n \<notin> provider_key ` set (endpoints_of d rn)" "registered (hsManager (dcHandler d)) n = Some p"
      by (auto simp: ad del split: if_splits)
    then show "\<exists>m. provides (endpoints_of d' m) n p"
    proof cases
      case 2
      then obtain m where m: "provides (endpoints_of d m) n p" using d by (auto simp: follows_def)
      with 2(1) have "m \<noteq> rn" by (auto simp: provides_def)
      with m show ?thesis by (intro exI [of _ m]) (simp add: of_d')
    qed (auto simp: of_d' intro: exI [of _ rn])
  next
    assume "\<exists>m. provides (endpoints_of d' m) n p"
    then obtain m where m: "provides (endpoints_of d' m) n p" by blast
    show "registered (hsManager (dcHandler d')) n = Some p"
    proof (cases "m = rn")
      case True
      with m show ?thesis by (simp add: ad of_d')
    next
      case False
      then have p: "provides (endpoints_of d m) n p" using m by (simp add: of_d')
      then have "own n = m" by (rule provides_own [OF okd])
      then have "\<not> provides eps n q" "n \<notin> provider_key ` set (endpoints_of d rn)" for q
        using False provides_own [OF eps] okd [of rn] by (auto simp: endpoints_ok_def)
      moreover have "registered (hsManager (dcHandler d)) n = Some p" using d p by (auto simp: follows_def)
      ultimately show ?thesis by (simp add: ad del)
    qed
  qed
  then show ?thesis using ad(1) okd eps by (simp add: follows_def of_d')
qed

lemma endpoints_of_dequeue_one:
  "endpoints_of (dequeue_one add delete build ec d r) m = (if m = resource_name r then wanted ec r else endpoints_of d m)"
  by (auto simp: dequeue_one_def internalDelete_def internalDiscover_def endpoints_of_def resource_name_def wanted_def Let_def)

lemma follows_dequeue_one:
  assumes "follows own d" "endpoints_ok own (resource_name r) (wanted ec r)"
  shows "follows own (dequeue_one add delete build ec d r)"
proof (cases "wanted ec r = endpoints_of d (resource_name r) \<and> reStatus r \<noteq> ''delete''")
  case True
  then have "dcHandler (dequeue_one add delete build ec d r) = dcHandler d"
    by (auto simp: dequeue_one_def internalDiscover_def resource_name_def wanted_def Let_def)
  moreover have "endpoints_of (dequeue_one add delete build ec d r) = endpoints_of d"
    using True by (auto simp: endpoints_of_dequeue_one)
  ultimately show ?thesis using assms(1) by (simp add: follows_def)
next
  case False
  show ?thesis
  proof (rule follows_replace [OF assms])
    show "endpoints_of (dequeue_one add delete build ec d r) m = (if m = resource_name r then wanted ec r else endpoints_of d m)" for m
      by (rule endpoints_of_dequeue_one)
    show "dcHandler (dequeue_one add delete build ec d r) = foldl (\<lambda>h ep. handler_Add add build ep h)
      (foldl (\<lambda>h ep. handler_Delete delete ep h) (dcHandler d) (endpoints_of d (resource_name r))) (wanted ec r)"
    proof (cases "reStatus r = ''delete''")
      case True
      then show ?thesis by (simp add: dequeue_one_def internalDelete_def resource_name_def wanted_def Let_def)
    next
      case del: False
      with False have "discoverEndpoints ec r \<noteq> endpoints_of d (ResourceName (reKind r) (reMeta r))"
        by (simp add: wanted_def resource_name_def)
      with del show ?thesis by (simp add: dequeue_one_def internalDiscover_def resource_name_def wanted_def Let_def)
    qed
  qed
qed

lemma follows_run:
  assumes "follows own d" "\<forall>r \<in> set rs. endpoints_ok own (resource_name r) (wanted ec r)"
  shows "follows own (run_queue add delete build ec d rs) \<and>
    endpoints_of (run_queue add delete build ec d rs) = desired ec (endpoints_of d) rs"
  using assms
proof (induction rs arbitrary: d)
  case (Cons r rs)
  have "endpoints_of (dequeue_one add delete build ec d r) = (endpoints_of d)(resource_name r := wanted ec r)"
    by (auto simp: endpoints_of_dequeue_one fun_eq_iff)
  with Cons.IH [OF follows_dequeue_one [OF Cons.prems(1)]] Cons.prems(2) show ?case
    by (simp add: run_queue_def desired_def)
qed (simp add: run_queue_def desired_def)

lemma follows_new: "inv s \<Longrightarrow> registered s = Map.empty \<Longrightarrow> follows own (newDiscoverer s)"
  by (simp add: follows_def newDiscoverer_def endpoints_of_def endpoints_ok_def provides_def)

text \<open>The registry after a queue, said in terms of the queue alone.\<close>

lemma registered_run:
  assumes "inv s" "registered s = Map.empty"
    and "\<forall>r \<in> set rs. endpoints_ok own (resource_name r) (wanted ec r)"
  shows "registered (hsManager (dcHandler (run_queue add delete build ec (newDiscoverer s) rs))) n = Some p \<longleftrightarrow>
    (\<exists>rn. \<exists>ep \<in> set (desired ec (\<lambda>_. []) rs rn). provider_key ep = n \<and> build (epConfig ep) = Inr p)"
proof -
  have "endpoints_of (newDiscoverer s :: 's discoverer) = (\<lambda>_. [])" by (auto simp: newDiscoverer_def endpoints_of_def)
  with follows_run [OF follows_new [OF assms(1,2)] assms(3)] show ?thesis
    by (simp add: follows_def provides_def)
qed

end

section \<open>The endpoints the creator makes\<close>

definition made :: "Endpoint \<Rightarrow> bool" where
  "made ep \<longleftrightarrow> epName ep \<noteq> '''' \<and> (case epConfig ep of
     PromConfig c \<Rightarrow> epPluginType ep = ''prometheus'' \<and> psName c = epName ep
   | TeleConfig c \<Rightarrow> epPluginType ep = ''telegraf'' \<and> tgName c = epName ep)"

lemma ResourceName_nonempty [simp]: "ResourceName kind meta \<noteq> ''''"
  by (simp add: ResourceName_def)

lemma Some_iffs:
  "((if b then None else x) = Some y) \<longleftrightarrow> \<not> b \<and> x = Some y"
  "((case s of Inl e \<Rightarrow> None | Inr z \<Rightarrow> f z) = Some y) \<longleftrightarrow> (\<exists>z. s = Inr z \<and> f z = Some y)"
  by (simp_all split: sum.splits)

lemma encodeHTTPConf_name: "encodeHTTPConf cd cfg conf i s = Inr cfg' \<Longrightarrow> psName cfg' = psName cfg"
  by (auto simp: encodeHTTPConf_def Let_def split: if_split_asm sum.split_asm)

lemma encodeBase_name: "psName (encodeBase cfg scheme ip port path name source prefix) = name"
  by (simp add: encodeBase_def Let_def)

lemma uniqueName_nonempty: "n \<noteq> '''' \<Longrightarrow> uniqueName n port path internal \<noteq> ''''"
  by (simp add: uniqueName_def Let_def)

lemma prom_encode_name: "prom_encode cd e ip kind meta rule = Some (n, c) \<Longrightarrow> psName c = n \<and> n \<noteq> ''''"
  unfolding prom_encode_def Let_def Some_iffs
  by (auto dest!: encodeHTTPConf_name simp: encodeBase_name uniqueName_nonempty)

lemma tele_uniqueName_nonempty [simp]: "tele_uniqueName (ResourceName kind meta) port \<noteq> []"
  using ResourceName_nonempty by (simp add: tele_uniqueName_def)

lemma tele_encode_name: "tele_encode ip kind meta cfg = Some (n, c) \<Longrightarrow> tgName c = n \<and> n \<noteq> ''''"
  unfolding tele_encode_def Let_def Some_iffs by auto

lemma makeEndpoint_made: "makeEndpoint e r plugin = Some ep \<Longrightarrow> made ep"
  by (auto simp: makeEndpoint_def Encode_def made_def dest: prom_encode_name tele_encode_name split: if_splits)

lemma discoverEndpoints_made: "ep \<in> set (discoverEndpoints e r) \<Longrightarrow> made ep"
  by (auto simp: discoverEndpoints_def discoverEndpointsWithRules_def discoverEndpointsWithAnnotations_def Let_def
      map_filter_def opt_list_def intro: makeEndpoint_made split: if_splits option.splits)

lemma wanted_made: "ep \<in> set (wanted e r) \<Longrightarrow> made ep"
  by (auto simp: wanted_def intro: discoverEndpoints_made split: if_splits)

section \<open>The source manager as the registry of the discoverer\<close>

text \<open>The source manager with the times at which its providers are added.\<close>

definition clocked_Add :: "(nat \<Rightarrow> gotime) \<Rightarrow> provider \<Rightarrow> sourceManager \<times> nat \<Rightarrow> sourceManager \<times> nat" where
  "clocked_Add clock p s = (AddProvider (clock (snd s)) p (fst s), Suc (snd s))"

definition clocked_Delete :: "string \<Rightarrow> sourceManager \<times> nat \<Rightarrow> sourceManager \<times> nat" where
  "clocked_Delete n s = (DeleteProvider n (fst s), snd s)"

lemma Build_name: "made ep \<Longrightarrow> Build fa (epConfig ep) = Inr p \<Longrightarrow> pvName p = provider_key ep"
  by (auto simp: made_def provider_key_def factory_name_def prom_Build_def tele_Build_def NewPrometheusProvider_def
      tele_NewProvider_def Let_def Configure_def split: endpoint_config.splits sum.splits option.splits)

interpretation discovery: endpoint_registry "clocked_Add clock" clocked_Delete pvName "\<lambda>s. mget (smProviders (fst s))"
    "\<lambda>s. registry_inv (fst s)" "Build fa" made
  by unfold_locales
     (auto simp: clocked_Add_def clocked_Delete_def sources.inv_add sources.inv_delete sources.registered_add
       sources.registered_delete Build_name made_def providers_have_def split: endpoint_config.splits)


section \<open>A pod with an annotation, and a service that goes away\<close>

definition sample_codec :: codec where
  "sample_codec = \<lparr>cdParseDuration = (\<lambda>_. Inr 0), cdDurationString = (\<lambda>_. ''0s''), cdHttpConfig = (\<lambda>_. Inl ''none''), cdNodeName = ''n1''\<rparr>"

definition sample_creator :: endpointCreator where
  "sample_creator = \<lparr>ecCodec = sample_codec, ecDelegates = [], ecEncoder = newPrometheusEncoder '''',
     ecDisableAnnotationDiscovery = False, ecAnnotationExcludes = []\<rparr>"

definition sample_service :: Service where
  "sample_service = \<lparr>svMeta = (emptyMeta ''ns'' ''web'')\<lparr>omAnnotations := [(''prometheus.io/scrape'', ''true'')]\<rparr>, svClusterIP = ''10.0.0.1''\<rparr>"

definition sample_factories :: factories where
  "sample_factories = \<lparr>faParseURI = (\<lambda>_. None), faSources = (\<lambda>_. []), faAnyNodes = True, faCreator = (\<lambda>_. True), faInitPlugin = (\<lambda>_ _. None)\<rparr>"

lemma sample_wanted:
  "map provider_key (wanted sample_creator (service_resource sample_service)) = [''prometheus_metrics_provider: ns-service-web/metrics'']"
  "map epPluginType (wanted sample_creator (service_resource sample_service)) = [''prometheus'']"
  by code_simp+


end
