(* ===== verification/Operator_Types.thy ===== *)
theory Operator_Types
  imports Metrics_Model
begin

text \<open>
  The custom resource of the operator (\<open>operator/api/v1alpha1/wavefront_types.go\<close>), one record for each of its
  structs. Ports and counts are Go's \<open>int\<close>, 64 bits wide on the platforms the operator is built for; the
  JSON names and the defaults of the schema belong to the API server and are not modelled. The generated deep
  copies have no counterpart: values of HOL are not shared.
\<close>

record wfResource =
  rsCPU :: string
  rsMemory :: string
  rsEphemeralStorage :: string

record Resources =
  rqRequests :: wfResource
  rqLimits :: wfResource

record ExternalWavefrontProxy =
  epUrl :: string

record WavefrontTracing =
  wtPort :: int64
  wtSamplingRate :: string
  wtSamplingDuration :: int64

record JaegerTracing =
  jtPort :: int64
  jtHttpPort :: int64
  jtGrpcPort :: int64
  jtApplicationName :: string

record ZipkinTracing =
  ztPort :: int64
  ztApplicationName :: string

record Tracing =
  trWavefront :: WavefrontTracing
  trJaeger :: JaegerTracing
  trZipkin :: ZipkinTracing

record OTLP =
  otGrpcPort :: int64
  otHttpPort :: int64
  otResourceAttrsOnMetricsIncluded :: bool

record wfHistogram =
  hiPort :: int64
  hiMinutePort :: int64
  hiHourPort :: int64
  hiDayPort :: int64

record HttpProxy =
  hpSecret :: string
  hpHttpProxyHost :: string
  hpHttpProxyPort :: string
  hpHttpProxyUser :: string
  hpHttpProxyPassword :: string
  hpUseHttpProxyCAcert :: bool

record PreprocessorRules =
  prEnabledPorts :: string
  prUserDefinedPortRules :: string
  prUserDefinedGlobalRules :: string

record Auth =
  auType :: string
  auCSPAppID :: string
  auCSPOrgID :: string

record WavefrontProxy =
  wpEnable :: bool
  wpMetricPort :: int64
  wpDeltaCounterPort :: int64
  wpArgs :: string
  wpTracing :: Tracing
  wpOTLP :: OTLP
  wpHistogram :: wfHistogram
  wpPreprocessor :: string
  wpResources :: Resources
  wpReplicas :: int64
  wpHttpProxy :: HttpProxy
  wpConfigHash :: string
  wpSecretHash :: string
  wpAvailableReplicas :: int64
  wpProxyVersion :: string
  wpPreprocessorRules :: PreprocessorRules
  wpAuth :: Auth

record DataExport =
  deExternalWavefrontProxy :: ExternalWavefrontProxy
  deWavefrontProxy :: WavefrontProxy

record ControlPlane =
  cpEnable :: bool
  cpEnableEtcd :: bool

record wfFilters =
  flDenyList :: "string list"
  flAllowList :: "string list"
  flTagGuaranteeList :: "string list"
  flTagDenyList :: "(string, string list) gomap"
  flTagAllowList :: "(string, string list) gomap"
  flTagExclude :: "string list"
  flTagInclude :: "string list"

record Collector =
  coResources :: Resources

record wfMetrics =
  mtEnable :: bool
  mtCustomConfig :: string
  mtControlPlane :: ControlPlane
  mtFilters :: wfFilters
  mtTags :: tagmap
  mtDefaultCollectionInterval :: string
  mtEnableDiscovery :: bool
  mtClusterCollector :: Collector
  mtNodeCollector :: Collector
  mtCollectorConfigName :: string
  mtProxyAddress :: string
  mtCollectorVersion :: string

record LogFilters =
  lfTagDenyList :: "(string, string list) gomap"
  lfTagAllowList :: "(string, string list) gomap"

record Logging =
  lgEnable :: bool
  lgFilters :: LogFilters
  lgResources :: Resources
  lgTags :: tagmap
  lgProxyAddress :: string
  lgLoggingVersion :: string

record Toleration =
  tlKey :: string
  tlValue :: string
  tlOperator :: string
  tlEffect :: string

record DataCollection =
  dcMetrics :: wfMetrics
  dcLogging :: Logging
  dcTolerations :: "Toleration list"

record TableStoreLimits =
  tsTotalMiB :: int64
  tsHttpEventsPercent :: int64

record Pixie =
  pxTableStoreLimits :: TableStoreLimits

record PixieShared =
  shEnable :: bool

record AutoTracingPixie =
  atPixieShared :: PixieShared
  atCanExportAutotracingScripts :: bool

record Insights =
  inEnable :: bool
  inIngestionUrl :: string
  inSecretName :: string
  inSecretTokenKey :: string

record Hub =
  hbEnable :: bool
  hbPixie :: PixieShared

record Experimental =
  exPixie :: Pixie
  exAutotracing :: AutoTracingPixie
  exInsights :: Insights
  exHub :: Hub

record WavefrontSpec =
  wsClusterSize :: string
  wsWorkloadResources :: "(string, Resources) gomap"
  wsClusterName :: string
  wsWavefrontUrl :: string
  wsWavefrontTokenSecret :: string
  wsImagePullSecret :: string
  wsDataExport :: DataExport
  wsDataCollection :: DataCollection
  wsAllowLegacyInstall :: bool
  wsExperimental :: Experimental
  wsImageRegistry :: string
  wsControllerManagerUID :: string
  wsCanExportData :: bool
  wsNamespace :: string
  wsOpenshift :: bool
  wsClusterUUID :: string

record ResourceStatus =
  rtStatus :: string
  rtMessage :: string
  rtName :: string
  rtType :: string
  rtHealthy :: bool
  rtInstalling :: bool

record WavefrontStatus =
  stMessage :: string
  stStatus :: string
  stResourceStatuses :: "ResourceStatus list"

record DaemonSetStatus =
  dtDesiredNumberScheduled :: "32 word"
  dtNumberReady :: "32 word"
  dtStatus :: string
  dtMessage :: string
  dtDaemonSetName :: string
  dtHealthy :: bool

record DeploymentStatus =
  dpReplicas :: "32 word"
  dpAvailableReplicas :: "32 word"
  dpStatus :: string
  dpMessage :: string
  dpDeploymentName :: string
  dpHealthy :: bool

text \<open>The object: of its metadata the operator reads the namespace and the creation time.\<close>

record Wavefront =
  wfNamespace :: string
  wfCreationTimestamp :: gotime
  wfSpec :: WavefrontSpec
  wfStatus :: WavefrontStatus

definition ClusterSizes :: "string list" where
  "ClusterSizes = [''small'', ''medium'', ''large'']"

section \<open>Emptiness\<close>

definition Resource_IsEmpty :: "wfResource \<Rightarrow> bool" where
  "Resource_IsEmpty r \<longleftrightarrow> rsCPU r = '''' \<and> rsMemory r = '''' \<and> rsEphemeralStorage r = ''''"

definition Resources_IsEmpty :: "Resources \<Rightarrow> bool" where
  "Resources_IsEmpty rs \<longleftrightarrow> Resource_IsEmpty (rqRequests rs) \<and> Resource_IsEmpty (rqLimits rs)"

definition TableStoreLimits_IsEmpty :: "TableStoreLimits \<Rightarrow> bool" where
  "TableStoreLimits_IsEmpty t \<longleftrightarrow> tsTotalMiB t = 0 \<and> tsHttpEventsPercent t = 0"

section \<open>Zero values\<close>

text \<open>The values that Go gives to variables and fields that are not set.\<close>

definition zeroResources :: Resources where
  "zeroResources =
     \<lparr>rqRequests = \<lparr>rsCPU = '''', rsMemory = '''', rsEphemeralStorage = ''''\<rparr>,
      rqLimits = \<lparr>rsCPU = '''', rsMemory = '''', rsEphemeralStorage = ''''\<rparr>\<rparr>"

definition zeroProxy :: WavefrontProxy where
  "zeroProxy =
     \<lparr>wpEnable = False,
      wpMetricPort = 0,
      wpDeltaCounterPort = 0,
      wpArgs = '''',
      wpTracing = \<lparr>trWavefront = \<lparr>wtPort = 0, wtSamplingRate = '''', wtSamplingDuration = 0\<rparr>,
       trJaeger = \<lparr>jtPort = 0, jtHttpPort = 0, jtGrpcPort = 0, jtApplicationName = ''''\<rparr>,
       trZipkin = \<lparr>ztPort = 0, ztApplicationName = ''''\<rparr>\<rparr>,
      wpOTLP = \<lparr>otGrpcPort = 0, otHttpPort = 0, otResourceAttrsOnMetricsIncluded = False\<rparr>,
      wpHistogram = \<lparr>hiPort = 0, hiMinutePort = 0, hiHourPort = 0, hiDayPort = 0\<rparr>,
      wpPreprocessor = '''',
      wpResources = zeroResources,
      wpReplicas = 0,
      wpHttpProxy = \<lparr>hpSecret = '''', hpHttpProxyHost = '''', hpHttpProxyPort = '''', hpHttpProxyUser = '''', hpHttpProxyPassword = '''', hpUseHttpProxyCAcert = False\<rparr>,
      wpConfigHash = '''',
      wpSecretHash = '''',
      wpAvailableReplicas = 0,
      wpProxyVersion = '''',
      wpPreprocessorRules = \<lparr>prEnabledPorts = '''', prUserDefinedPortRules = '''', prUserDefinedGlobalRules = ''''\<rparr>,
      wpAuth = \<lparr>auType = '''', auCSPAppID = '''', auCSPOrgID = ''''\<rparr>\<rparr>"

definition zeroMetrics :: wfMetrics where
  "zeroMetrics =
     \<lparr>mtEnable = False,
      mtCustomConfig = '''',
      mtControlPlane = \<lparr>cpEnable = False, cpEnableEtcd = False\<rparr>,
      mtFilters = \<lparr>flDenyList = [], flAllowList = [], flTagGuaranteeList = [], flTagDenyList = [], flTagAllowList = [], flTagExclude = [], flTagInclude = []\<rparr>,
      mtTags = [],
      mtDefaultCollectionInterval = '''',
      mtEnableDiscovery = False,
      mtClusterCollector = \<lparr>coResources = zeroResources\<rparr>,
      mtNodeCollector = \<lparr>coResources = zeroResources\<rparr>,
      mtCollectorConfigName = '''',
      mtProxyAddress = '''',
      mtCollectorVersion = ''''\<rparr>"

definition zeroLogging :: Logging where
  "zeroLogging =
     \<lparr>lgEnable = False,
      lgFilters = \<lparr>lfTagDenyList = [], lfTagAllowList = []\<rparr>,
      lgResources = zeroResources,
      lgTags = [],
      lgProxyAddress = '''',
      lgLoggingVersion = ''''\<rparr>"

definition zeroExperimental :: Experimental where
  "zeroExperimental =
     \<lparr>exPixie = \<lparr>pxTableStoreLimits = \<lparr>tsTotalMiB = 0, tsHttpEventsPercent = 0\<rparr>\<rparr>,
      exAutotracing = \<lparr>atPixieShared = \<lparr>shEnable = False\<rparr>,
       atCanExportAutotracingScripts = False\<rparr>,
      exInsights = \<lparr>inEnable = False, inIngestionUrl = '''', inSecretName = '''', inSecretTokenKey = ''''\<rparr>,
      exHub = \<lparr>hbEnable = False,
       hbPixie = \<lparr>shEnable = False\<rparr>\<rparr>\<rparr>"

definition zeroSpec :: WavefrontSpec where
  "zeroSpec =
     \<lparr>wsClusterSize = '''',
      wsWorkloadResources = [],
      wsClusterName = '''',
      wsWavefrontUrl = '''',
      wsWavefrontTokenSecret = '''',
      wsImagePullSecret = '''',
      wsDataExport = \<lparr>deExternalWavefrontProxy = \<lparr>epUrl = ''''\<rparr>,
       deWavefrontProxy = zeroProxy\<rparr>,
      wsDataCollection = \<lparr>dcMetrics = zeroMetrics, dcLogging = zeroLogging, dcTolerations = []\<rparr>,
      wsAllowLegacyInstall = False,
      wsExperimental = zeroExperimental,
      wsImageRegistry = '''',
      wsControllerManagerUID = '''',
      wsCanExportData = False,
      wsNamespace = '''',
      wsOpenshift = False,
      wsClusterUUID = ''''\<rparr>"

definition zeroStatus :: WavefrontStatus where
  "zeroStatus =
     \<lparr>stMessage = '''', stStatus = '''', stResourceStatuses = []\<rparr>"

section \<open>Names (internal/util)\<close>

definition ProxyName :: string where "ProxyName = ''wavefront-proxy''"
definition ClusterCollectorName :: string where "ClusterCollectorName = ''wavefront-cluster-collector''"
definition NodeCollectorName :: string where "NodeCollectorName = ''wavefront-node-collector''"
definition LoggingName :: string where "LoggingName = ''wavefront-logging''"
definition OperatorName :: string where "OperatorName = ''wavefront-controller-manager''"
definition PixieKelvinName :: string where "PixieKelvinName = ''kelvin''"
definition PixieVizierQueryBrokerName :: string where "PixieVizierQueryBrokerName = ''vizier-query-broker''"
definition PixieNatsName :: string where "PixieNatsName = ''pl-nats''"
definition PixieVizierMetadataName :: string where "PixieVizierMetadataName = ''vizier-metadata''"
definition PixieVizierPEMName :: string where "PixieVizierPEMName = ''vizier-pem''"

end
