(* ===== verification/Operator_Validation.thy ===== *)
theory Operator_Validation
  imports Operator_Types
begin

text \<open>
  Validation of the custom resource (\<open>operator/internal/validation/validate_wavefront.go\<close>). \<open>exists\<close> says which
  workloads the API server has; \<open>pq\<close> stands for \<open>resource.ParseQuantity\<close>, whose error leaves the zero quantity.
  An error is the list of the messages that the aggregate would join; no message is the nil error.
\<close>

datatype workload_kind = DaemonSetKind | DeploymentKind

type_synonym cluster = "workload_kind \<Rightarrow> string \<Rightarrow> string \<Rightarrow> bool"

record vresult =
  vrErrors :: "string list"
  vrIsError :: bool

definition IsValid :: "vresult \<Rightarrow> bool" where "IsValid r \<longleftrightarrow> vrErrors r = []"
definition IsError :: "vresult \<Rightarrow> bool" where "IsError r \<longleftrightarrow> vrErrors r \<noteq> [] \<and> vrIsError r"
definition IsWarning :: "vresult \<Rightarrow> bool" where "IsWarning r \<longleftrightarrow> vrErrors r \<noteq> [] \<and> \<not> vrIsError r"

definition Message :: "(string list \<Rightarrow> string) \<Rightarrow> vresult \<Rightarrow> string" where
  "Message aggregate r = (if IsValid r then '''' else aggregate (vrErrors r))"

definition NewErrorResult :: "string list \<Rightarrow> vresult" where
  "NewErrorResult errs = \<lparr>vrErrors = errs, vrIsError = True\<rparr>"

definition validResult :: vresult where
  "validResult = \<lparr>vrErrors = [], vrIsError = False\<rparr>"

definition NewValidationResult :: "string list \<Rightarrow> vresult" where
  "NewValidationResult errs = (if length errs = 0 then validResult else NewErrorResult errs)"

definition legacyComponentsToCheck :: "(string \<times> (string \<times> workload_kind) list) list" where
  "legacyComponentsToCheck = [
     (''wavefront-collector'', [(''wavefront-collector'', DaemonSetKind), (''wavefront-proxy'', DeploymentKind)]),
     (''default'', [(''wavefront-proxy'', DeploymentKind)]),
     (''wavefront'', [(''wavefront-collector'', DaemonSetKind), (''wavefront-proxy'', DeploymentKind)]),
     (''pks-system'', [(''wavefront-collector'', DeploymentKind), (''wavefront-proxy'', DeploymentKind)]),
     (''tanzu-observability-saas'', [(''wavefront-collector'', DaemonSetKind), (''wavefront-proxy'', DeploymentKind)])]"

section \<open>Resources\<close>

definition validateResourceQuantity :: "(string \<Rightarrow> rat option) \<Rightarrow> string \<Rightarrow> string \<Rightarrow> string list" where
  "validateResourceQuantity pq quantity resourcePath =
     (if length quantity > 0 \<and> pq quantity = None then [''invalid '' @ resourcePath @ '': '' @ [CHR 39] @ quantity @ [CHR 39]] else [])"

definition quantity_of :: "(string \<Rightarrow> rat option) \<Rightarrow> string \<Rightarrow> rat" where
  "quantity_of pq s = (case pq s of None \<Rightarrow> 0 | Some q \<Rightarrow> q)"

definition compareQuantities :: "(string \<Rightarrow> rat option) \<Rightarrow> string \<Rightarrow> string \<Rightarrow> int" where
  "compareQuantities pq request limit =
     (if quantity_of pq request < quantity_of pq limit then - 1
      else if quantity_of pq limit < quantity_of pq request then 1 else 0)"

definition over_limit :: "string \<Rightarrow> string \<Rightarrow> string \<Rightarrow> string \<Rightarrow> string list" where
  "over_limit resourcePath what request limit =
     [''invalid '' @ resourcePath @ ''.requests.'' @ what @ '': '' @ request @ '' must be less than or equal to '' @ limit @ '' limit'']"

definition validateResources :: "(string \<Rightarrow> rat option) \<Rightarrow> Resources \<Rightarrow> string \<Rightarrow> string list" where
  "validateResources pq resources resourcePath =
     (let req = rqRequests resources; lim = rqLimits resources;
          errs = validateResourceQuantity pq (rsCPU req) (resourcePath @ ''.requests.cpu'') @
                 validateResourceQuantity pq (rsMemory req) (resourcePath @ ''.requests.memory'') @
                 validateResourceQuantity pq (rsEphemeralStorage req) (resourcePath @ ''.requests.ephemeral-storage'') @
                 validateResourceQuantity pq (rsCPU lim) (resourcePath @ ''.limits.cpu'') @
                 validateResourceQuantity pq (rsMemory lim) (resourcePath @ ''.limits.memory'') @
                 validateResourceQuantity pq (rsEphemeralStorage lim) (resourcePath @ ''.limits.ephemeral-storage'')
      in if length errs > 0 then errs
         else (if compareQuantities pq (rsCPU req) (rsCPU lim) > 0 then over_limit resourcePath ''cpu'' (rsCPU req) ''cpu'' else []) @
              (if compareQuantities pq (rsMemory req) (rsMemory lim) > 0
               then over_limit resourcePath ''memory'' (rsMemory req) ''memory'' else []) @
              (if compareQuantities pq (rsEphemeralStorage req) (rsEphemeralStorage lim) > 0
               then over_limit resourcePath ''ephemeral-storage'' (rsEphemeralStorage req) ''ephemeral-storage'' else []))"

definition ValidateResources :: "(string \<Rightarrow> rat option) \<Rightarrow> Resources \<Rightarrow> string \<Rightarrow> vresult" where
  "ValidateResources pq resources resourceName =
     (let errs = (if length (rsMemory (rqLimits resources)) = 0
                  then [''invalid '' @ resourceName @ ''.resources.limits.memory must be set''] else []) @
                 (if length (rsCPU (rqLimits resources)) = 0
                  then [''invalid '' @ resourceName @ ''.resources.limits.cpu must be set''] else [])
      in if length errs > 0 then NewErrorResult errs
         else let errs = errs @ validateResources pq resources (resourceName @ ''.resources'')
              in if errs \<noteq> [] then NewErrorResult errs else validResult)"

section \<open>The environment and the specification\<close>

abbreviation proxy_enabled :: "WavefrontSpec \<Rightarrow> bool" where
  "proxy_enabled spec \<equiv> wpEnable (deWavefrontProxy (wsDataExport spec))"

abbreviation metrics_enabled :: "WavefrontSpec \<Rightarrow> bool" where
  "metrics_enabled spec \<equiv> mtEnable (dcMetrics (wsDataCollection spec))"

abbreviation logging_enabled :: "WavefrontSpec \<Rightarrow> bool" where
  "logging_enabled spec \<equiv> lgEnable (dcLogging (wsDataCollection spec))"

abbreviation autotracing_enabled :: "WavefrontSpec \<Rightarrow> bool" where
  "autotracing_enabled spec \<equiv> shEnable (atPixieShared (exAutotracing (wsExperimental spec)))"

abbreviation external_url :: "WavefrontSpec \<Rightarrow> string" where
  "external_url spec \<equiv> epUrl (deExternalWavefrontProxy (wsDataExport spec))"

definition legacyEnvironmentError :: "string \<Rightarrow> string" where
  "legacyEnvironmentError namespace =
     ''Found legacy Wavefront installation in the '' @ [CHR 39] @ namespace @ [CHR 39] @ '' namespace''"

definition first_legacy :: "cluster \<Rightarrow> (string \<times> (string \<times> workload_kind) list) list \<Rightarrow> string option" where
  "first_legacy exists table =
     map_option fst (List.find (\<lambda>e. list_ex (\<lambda>c. exists (snd c) (fst e) (fst c)) (snd e)) table)"

definition validateEnvironment :: "cluster \<Rightarrow> Wavefront \<Rightarrow> string list" where
  "validateEnvironment exists wavefront =
     (let spec = wfSpec wavefront
      in if wsAllowLegacyInstall spec \<or> \<not> (proxy_enabled spec \<or> metrics_enabled spec) then []
         else case first_legacy exists legacyComponentsToCheck of
                None \<Rightarrow> [] | Some namespace \<Rightarrow> [legacyEnvironmentError namespace])"

definition validClusterSize :: "Wavefront \<Rightarrow> bool" where
  "validClusterSize wavefront \<longleftrightarrow> list_ex (\<lambda>s. s = wsClusterSize (wfSpec wavefront)) ClusterSizes"

definition validateWavefrontProxyConfig :: "Wavefront \<Rightarrow> string list" where
  "validateWavefrontProxyConfig wavefront =
     (if length (wsWavefrontUrl (wfSpec wavefront)) = 0 then [[CHR 39] @ ''wavefrontUrl'' @ [CHR 39] @ '' should be set''] else []) @
     (if length (external_url (wfSpec wavefront)) \<noteq> 0
      then [''externalWavefrontProxy.url and wavefrontProxy.enable should not be set at the same time''] else [])"

definition validateWavefrontSpec :: "(string \<Rightarrow> rat option) \<Rightarrow> Wavefront \<Rightarrow> string list" where
  "validateWavefrontSpec pq wavefront =
     (let spec = wfSpec wavefront
      in (if \<not> validClusterSize wavefront then [''clusterSize must be '' @ Join '', '' ClusterSizes] else []) @
         concat (map (\<lambda>e. validateResources pq (snd e) (''workloadResources.'' @ fst e)) (wsWorkloadResources spec)) @
         (if proxy_enabled spec then validateWavefrontProxyConfig wavefront
          else if length (external_url spec) = 0 \<and> (metrics_enabled spec \<or> logging_enabled spec)
          then [''invalid proxy configuration: either set dataExport.proxy.enable to true or configure dataExport.externalWavefrontProxy.url'']
          else []) @
         (if autotracing_enabled spec \<and> \<not> proxy_enabled spec
          then [[CHR 39] @ ''wavefrontProxy.enable'' @ [CHR 39] @ '' must be enabled when the experimental.autoTracing.enable is enabled.'']
          else []) @
         (if metrics_enabled spec \<and> inEnable (exInsights (wsExperimental spec)) \<and>
             length (mtCustomConfig (dcMetrics (wsDataCollection spec))) > 0
          then [[CHR 39] @ ''metrics.customConfig'' @ [CHR 39] @ '' must not be set when the experimental.insights.enable is enabled.'']
          else []))"

definition areAnyComponentsDeployed :: "cluster \<Rightarrow> string \<Rightarrow> bool" where
  "areAnyComponentsDeployed exists namespace \<longleftrightarrow>
     exists DeploymentKind namespace ProxyName \<or> exists DaemonSetKind namespace NodeCollectorName \<or>
     exists DeploymentKind namespace ClusterCollectorName"

definition Validate :: "cluster \<Rightarrow> (string \<Rightarrow> rat option) \<Rightarrow> Wavefront \<Rightarrow> vresult" where
  "Validate exists pq wavefront =
     (let err = validateEnvironment exists wavefront
      in if err \<noteq> [] then \<lparr>vrErrors = err, vrIsError = \<not> areAnyComponentsDeployed exists (wsNamespace (wfSpec wavefront))\<rparr>
         else let err = validateWavefrontSpec pq wavefront
              in if err \<noteq> [] then \<lparr>vrErrors = err, vrIsError = True\<rparr> else validResult)"

section \<open>What a valid custom resource is\<close>

definition quantity_ok :: "(string \<Rightarrow> rat option) \<Rightarrow> string \<Rightarrow> bool" where
  "quantity_ok pq s \<longleftrightarrow> s = '''' \<or> pq s \<noteq> None"

definition within_limit :: "(string \<Rightarrow> rat option) \<Rightarrow> string \<Rightarrow> string \<Rightarrow> bool" where
  "within_limit pq request limit \<longleftrightarrow>
     quantity_ok pq request \<and> quantity_ok pq limit \<and> quantity_of pq request \<le> quantity_of pq limit"

definition resources_ok :: "(string \<Rightarrow> rat option) \<Rightarrow> Resources \<Rightarrow> bool" where
  "resources_ok pq r \<longleftrightarrow>
     within_limit pq (rsCPU (rqRequests r)) (rsCPU (rqLimits r)) \<and>
     within_limit pq (rsMemory (rqRequests r)) (rsMemory (rqLimits r)) \<and>
     within_limit pq (rsEphemeralStorage (rqRequests r)) (rsEphemeralStorage (rqLimits r))"

text \<open>
  What the specification must satisfy: a known size, requests within limits, exactly one way out for the data that
  is collected, the proxy for auto tracing, and no custom configuration of metrics beside the insights.
\<close>

definition spec_ok :: "(string \<Rightarrow> rat option) \<Rightarrow> WavefrontSpec \<Rightarrow> bool" where
  "spec_ok pq spec \<longleftrightarrow>
     wsClusterSize spec \<in> {''small'', ''medium'', ''large''} \<and>
     (\<forall>(name, r) \<in> set (wsWorkloadResources spec). resources_ok pq r) \<and>
     (proxy_enabled spec \<longrightarrow> wsWavefrontUrl spec \<noteq> '''' \<and> external_url spec = '''') \<and>
     (metrics_enabled spec \<or> logging_enabled spec \<longrightarrow> proxy_enabled spec \<or> external_url spec \<noteq> '''') \<and>
     (autotracing_enabled spec \<longrightarrow> proxy_enabled spec) \<and>
     (metrics_enabled spec \<and> inEnable (exInsights (wsExperimental spec)) \<longrightarrow>
        mtCustomConfig (dcMetrics (wsDataCollection spec)) = '''')"

text \<open>An installation of an older version that the operator must not run beside.\<close>

definition legacy_found :: "cluster \<Rightarrow> WavefrontSpec \<Rightarrow> bool" where
  "legacy_found exists spec \<longleftrightarrow>
     \<not> wsAllowLegacyInstall spec \<and> (proxy_enabled spec \<or> metrics_enabled spec) \<and>
     (\<exists>(namespace, cs) \<in> set legacyComponentsToCheck. \<exists>(name, kind) \<in> set cs. exists kind namespace name)"

lemma validateResourceQuantity_ok: "validateResourceQuantity pq s path = [] \<longleftrightarrow> quantity_ok pq s"
  by (auto simp: validateResourceQuantity_def quantity_ok_def)

lemma compareQuantities_pos: "compareQuantities pq r l > 0 \<longleftrightarrow> \<not> quantity_of pq r \<le> quantity_of pq l"
  by (auto simp: compareQuantities_def)

lemma over_limit_not_Nil: "over_limit p what r l \<noteq> []"
  by (simp add: over_limit_def)

lemma validateResources_ok: "validateResources pq r path = [] \<longleftrightarrow> resources_ok pq r"
  unfolding validateResources_def Let_def
  by (auto simp: validateResourceQuantity_ok compareQuantities_pos over_limit_not_Nil resources_ok_def within_limit_def
           split: if_splits)

lemma ValidateResources_valid:
  "IsValid (ValidateResources pq r name) \<longleftrightarrow>
     rsMemory (rqLimits r) \<noteq> '''' \<and> rsCPU (rqLimits r) \<noteq> '''' \<and> resources_ok pq r"
  by (auto simp: ValidateResources_def IsValid_def NewErrorResult_def validResult_def Let_def validateResources_ok)

lemma validClusterSize_iff: "validClusterSize w \<longleftrightarrow> wsClusterSize (wfSpec w) \<in> {''small'', ''medium'', ''large''}"
  by (auto simp: validClusterSize_def ClusterSizes_def)

lemma validateWavefrontProxyConfig_ok:
  "validateWavefrontProxyConfig w = [] \<longleftrightarrow> wsWavefrontUrl (wfSpec w) \<noteq> '''' \<and> external_url (wfSpec w) = ''''"
  by (auto simp: validateWavefrontProxyConfig_def)

lemma validateWavefrontSpec_ok: "validateWavefrontSpec pq w = [] \<longleftrightarrow> spec_ok pq (wfSpec w)"
  unfolding validateWavefrontSpec_def Let_def spec_ok_def
  by (auto simp: validClusterSize_iff validateWavefrontProxyConfig_ok validateResources_ok split_beta)

lemma find_None: "List.find P xs = None \<longleftrightarrow> (\<forall>x \<in> set xs. \<not> P x)"
  by (induction xs) auto

lemma first_legacy_None:
  "first_legacy exists table = None \<longleftrightarrow>
     \<not> (\<exists>(namespace, cs) \<in> set table. \<exists>(name, kind) \<in> set cs. exists kind namespace name)"
  by (auto simp: first_legacy_def find_None list_ex_iff split_beta)

lemma first_legacy_order:
  "set t = set t' \<Longrightarrow> first_legacy exists t = None \<longleftrightarrow> first_legacy exists t' = None"
  by (simp add: first_legacy_None)

lemma validateEnvironment_ok: "validateEnvironment exists w = [] \<longleftrightarrow> \<not> legacy_found exists (wfSpec w)"
  unfolding validateEnvironment_def Let_def legacy_found_def
  using first_legacy_None [of exists legacyComponentsToCheck]
  by (cases "first_legacy exists legacyComponentsToCheck") simp_all

text \<open>C21: Validate decides the declarative rules, whatever the API server and the quantity parser answer. A
  custom resource is valid iff no legacy installation is in the way and its specification meets \<open>spec_ok\<close>; it is
  reported as a warning iff a legacy installation is found while components of the operator are already deployed
  (the operator then goes on); in every other case it is an error. In particular a request for which
  no limit is given is compared with zero.\<close>
theorem Validate_outcome:
  "let spec = wfSpec w; r = Validate exists pq w in
     (IsValid r \<longleftrightarrow> \<not> legacy_found exists spec \<and> spec_ok pq spec) \<and>
     (IsWarning r \<longleftrightarrow> legacy_found exists spec \<and> areAnyComponentsDeployed exists (wsNamespace spec)) \<and>
     (IsError r = (\<not> IsValid r \<and> \<not> IsWarning r))"
  by (auto simp: Validate_def Let_def IsValid_def IsWarning_def IsError_def validResult_def
      validateEnvironment_ok validateWavefrontSpec_ok)

end
