(* ===== verification/Operator_Health.thy ===== *)
theory Operator_Health
  imports Operator_Types Kube
begin

text \<open>
  The health that the operator reports in the status of the custom resource
  (\<open>operator/internal/health/status.go\<close>). The API server is a record of functions: the three kinds of workload by
  namespace and name (\<open>None\<close> for an error of Get), with the fields the code reads, and the pods of a namespace
  by labels. A status that dereferences a nil replica count is \<open>None\<close>, the panic. One report reads the clock once.
\<close>

record workload =
  wkReady :: "32 word"
  wkDesired :: "32 word option"
  wkLabels :: tagmap

record daemon_set =
  dnReady :: "32 word"
  dnDesired :: "32 word"
  dnLabels :: tagmap

record api_server =
  asDeployment :: "string \<Rightarrow> string \<Rightarrow> workload option"
  asDaemonSet :: "string \<Rightarrow> string \<Rightarrow> daemon_set option"
  asStatefulSet :: "string \<Rightarrow> string \<Rightarrow> workload option"
  asPods :: "string \<Rightarrow> tagmap \<Rightarrow> Pod list option"

definition Healthy :: string where "Healthy = ''Healthy''"
definition Unhealthy :: string where "Unhealthy = ''Unhealthy''"
definition Installing :: string where "Installing = ''Installing''"
definition NotRunning :: string where "NotRunning = ''Not Running''"
definition MaxInstallTime :: duration where "MaxInstallTime = 5 * Minute"
definition OOMTimeout :: duration where "OOMTimeout = 5 * Minute"

definition newStatus :: "string \<Rightarrow> ResourceStatus" where
  "newStatus name = \<lparr>rtStatus = '''', rtMessage = '''', rtName = name, rtType = '''', rtHealthy = False, rtInstalling = False\<rparr>"

section \<open>One component\<close>

definition reportNotRunning :: "ResourceStatus \<Rightarrow> ResourceStatus" where
  "reportNotRunning s = s\<lparr>rtHealthy := False, rtStatus := NotRunning\<rparr>"

definition instance_counts :: "32 word \<Rightarrow> 32 word \<Rightarrow> string" where
  "instance_counts ready desired = ''('' @ show_int (sint ready) @ ''/'' @ show_int (sint desired) @ '')''"

definition reportStatusFromApp :: "ResourceStatus \<Rightarrow> 32 word \<Rightarrow> 32 word \<Rightarrow> ResourceStatus" where
  "reportStatusFromApp s ready desired =
     (let s = s\<lparr>rtHealthy := True, rtStatus := ''Running '' @ instance_counts ready desired\<rparr>
      in if ready <s desired
         then s\<lparr>rtHealthy := False,
                rtMessage := ''not enough instances of '' @ rtName s @ '' are running '' @ instance_counts ready desired\<rparr>
         else s)"

definition componentPodSelector :: "string \<Rightarrow> tagmap" where
  "componentPodSelector componentName =
     [(''app.kubernetes.io/name'', ''wavefront''), (''app.kubernetes.io/component'', componentName)]"

definition oomKilledRecently :: "gotime \<Rightarrow> TerminatedState option \<Rightarrow> bool" where
  "oomKilledRecently now terminated =
     (case terminated of None \<Rightarrow> False
      | Some t \<Rightarrow> tsExitCode t = 137 \<and> time_sub now (tsFinishedAt t) < OOMTimeout)"

definition report_container :: "gotime \<Rightarrow> string \<Rightarrow> ResourceStatus \<Rightarrow> ContainerStatus \<Rightarrow> ResourceStatus" where
  "report_container now labelComponent s c =
     (if oomKilledRecently now (csTerminated (ctLastTerminationState c))
      then s\<lparr>rtHealthy := False, rtStatus := Unhealthy, rtMessage := labelComponent @ '' OOMKilled in the last 5m0s''\<rparr>
      else s)"

definition report_pod :: "gotime \<Rightarrow> string \<Rightarrow> string \<Rightarrow> ResourceStatus \<Rightarrow> Pod \<Rightarrow> ResourceStatus" where
  "report_pod now namePrefix labelComponent s pod =
     (if \<not> HasPrefix (omName (podMeta pod)) namePrefix then s
      else foldl (report_container now labelComponent) s (podContainerStatuses pod))"

definition reportStatusFromPod ::
  "gotime \<Rightarrow> ResourceStatus \<Rightarrow> api_server \<Rightarrow> string \<Rightarrow> string \<Rightarrow> string \<Rightarrow> ResourceStatus" where
  "reportStatusFromPod now s api namespace namePrefix labelComponent =
     (case asPods api namespace (componentPodSelector labelComponent) of
        None \<Rightarrow> s
      | Some pods \<Rightarrow> foldl (report_pod now namePrefix labelComponent) s pods)"

definition component_label :: "tagmap \<Rightarrow> string" where
  "component_label labels = mgets labels ''app.kubernetes.io/component''"

definition deploymentStatus :: "gotime \<Rightarrow> api_server \<Rightarrow> string \<Rightarrow> string \<Rightarrow> ResourceStatus option" where
  "deploymentStatus now api namespace name =
     (case asDeployment api namespace name of
        None \<Rightarrow> Some (reportNotRunning (newStatus name))
      | Some deployment \<Rightarrow>
          (case wkDesired deployment of
             None \<Rightarrow> None
           | Some desired \<Rightarrow>
               Some (reportStatusFromPod now (reportStatusFromApp (newStatus name) (wkReady deployment) desired)
                       api namespace name (component_label (wkLabels deployment)))))"

definition daemonSetStatus :: "gotime \<Rightarrow> api_server \<Rightarrow> string \<Rightarrow> string \<Rightarrow> bool \<Rightarrow> ResourceStatus option" where
  "daemonSetStatus now api namespace name includeOOMKilled =
     (case asDaemonSet api namespace name of
        None \<Rightarrow> Some (reportNotRunning (newStatus name))
      | Some daemonset \<Rightarrow>
          (let s = reportStatusFromApp (newStatus name) (dnReady daemonset) (dnDesired daemonset)
           in Some (if includeOOMKilled
                    then reportStatusFromPod now s api namespace name (component_label (dnLabels daemonset)) else s)))"

definition statefulSetStatus :: "gotime \<Rightarrow> api_server \<Rightarrow> string \<Rightarrow> string \<Rightarrow> ResourceStatus option" where
  "statefulSetStatus now api namespace name =
     (case asStatefulSet api namespace name of
        None \<Rightarrow> Some (reportNotRunning (newStatus name))
      | Some statefulset \<Rightarrow>
          (case wkDesired statefulset of
             None \<Rightarrow> None
           | Some desired \<Rightarrow>
               Some (reportStatusFromPod now (reportStatusFromApp (newStatus name) (wkReady statefulset) desired)
                       api namespace name (component_label (wkLabels statefulset)))))"

section \<open>The whole installation\<close>

definition boolCount :: "bool \<Rightarrow> bool list \<Rightarrow> nat" where
  "boolCount b statuses = length (filter (\<lambda>v. v = b) statuses)"

definition unhealthyMessages :: "ResourceStatus list \<Rightarrow> string list" where
  "unhealthyMessages cs = map rtMessage (filter (\<lambda>c. \<not> rtHealthy c \<and> length (rtMessage c) > 0) cs)"

definition reportAggregateStatus :: "gotime \<Rightarrow> ResourceStatus list \<Rightarrow> gotime \<Rightarrow> WavefrontStatus" where
  "reportAggregateStatus now cs createdAt =
     (if boolCount False (map rtHealthy cs) = 0
      then \<lparr>stMessage = ''All components are healthy'', stStatus = Healthy, stResourceStatuses = cs\<rparr>
      else if time_sub now createdAt < MaxInstallTime
      then \<lparr>stMessage = ''Installing components'', stStatus = Installing,
            stResourceStatuses = map (\<lambda>c. c\<lparr>rtInstalling := True\<rparr>) cs\<rparr>
      else \<lparr>stMessage = Join ''; '' (unhealthyMessages cs), stStatus = Unhealthy, stResourceStatuses = cs\<rparr>)"

text \<open>The components of a specification, in the order in which the code asks for them.\<close>

datatype component = Deploy string | Daemon string bool | Stateful string

definition components_of :: "WavefrontSpec \<Rightarrow> component list" where
  "components_of spec =
     (if wpEnable (deWavefrontProxy (wsDataExport spec)) then [Deploy ProxyName] else []) @
     (if mtEnable (dcMetrics (wsDataCollection spec))
      then [Deploy ClusterCollectorName, Daemon NodeCollectorName True] else []) @
     (if lgEnable (dcLogging (wsDataCollection spec)) then [Daemon LoggingName True] else []) @
     (if shEnable (hbPixie (exHub (wsExperimental spec))) \<or> shEnable (atPixieShared (exAutotracing (wsExperimental spec)))
      then [Deploy PixieKelvinName, Stateful PixieNatsName, Stateful PixieVizierMetadataName,
            Daemon PixieVizierPEMName False, Deploy PixieVizierQueryBrokerName] else []) @
     [Deploy OperatorName]"

fun component_status :: "gotime \<Rightarrow> api_server \<Rightarrow> string \<Rightarrow> component \<Rightarrow> ResourceStatus option" where
  "component_status now api ns (Deploy n) = deploymentStatus now api ns n"
| "component_status now api ns (Daemon n oom) = daemonSetStatus now api ns n oom"
| "component_status now api ns (Stateful n) = statefulSetStatus now api ns n"

definition GenerateWavefrontStatus :: "gotime \<Rightarrow> api_server \<Rightarrow> Wavefront \<Rightarrow> WavefrontStatus option" where
  "GenerateWavefrontStatus now api wavefront =
     map_option (\<lambda>cs. reportAggregateStatus now cs (wfCreationTimestamp wavefront))
       (those (map (component_status now api (wfNamespace wavefront)) (components_of (wfSpec wavefront))))"

section \<open>What the report says\<close>

definition no_recent_oom :: "gotime \<Rightarrow> api_server \<Rightarrow> string \<Rightarrow> string \<Rightarrow> string \<Rightarrow> bool" where
  "no_recent_oom now api ns name label \<longleftrightarrow>
     (\<forall>pods. asPods api ns (componentPodSelector label) = Some pods \<longrightarrow>
        (\<forall>p \<in> set pods. HasPrefix (omName (podMeta p)) name \<longrightarrow>
           (\<forall>c \<in> set (podContainerStatuses p). \<not> oomKilledRecently now (csTerminated (ctLastTerminationState c)))))"

definition enough :: "32 word \<Rightarrow> 32 word option \<Rightarrow> bool" where
  "enough ready desired \<longleftrightarrow> (\<exists>d. desired = Some d \<and> sint d \<le> sint ready)"

fun component_name :: "component \<Rightarrow> string" where
  "component_name (Deploy n) = n"
| "component_name (Daemon n oom) = n"
| "component_name (Stateful n) = n"

fun component_missing :: "api_server \<Rightarrow> string \<Rightarrow> component \<Rightarrow> bool" where
  "component_missing api ns (Deploy n) \<longleftrightarrow> asDeployment api ns n = None"
| "component_missing api ns (Daemon n oom) \<longleftrightarrow> asDaemonSet api ns n = None"
| "component_missing api ns (Stateful n) \<longleftrightarrow> asStatefulSet api ns n = None"

fun nil_replicas :: "api_server \<Rightarrow> string \<Rightarrow> component \<Rightarrow> bool" where
  "nil_replicas api ns (Deploy n) \<longleftrightarrow> (\<exists>w. asDeployment api ns n = Some w \<and> wkDesired w = None)"
| "nil_replicas api ns (Daemon n oom) \<longleftrightarrow> False"
| "nil_replicas api ns (Stateful n) \<longleftrightarrow> (\<exists>w. asStatefulSet api ns n = Some w \<and> wkDesired w = None)"

fun component_up :: "gotime \<Rightarrow> api_server \<Rightarrow> string \<Rightarrow> component \<Rightarrow> bool" where
  "component_up now api ns (Deploy n) \<longleftrightarrow>
     (\<exists>w. asDeployment api ns n = Some w \<and> enough (wkReady w) (wkDesired w) \<and>
          no_recent_oom now api ns n (component_label (wkLabels w)))"
| "component_up now api ns (Daemon n oom) \<longleftrightarrow>
     (\<exists>d. asDaemonSet api ns n = Some d \<and> enough (dnReady d) (Some (dnDesired d)) \<and>
          (oom \<longrightarrow> no_recent_oom now api ns n (component_label (dnLabels d))))"
| "component_up now api ns (Stateful n) \<longleftrightarrow>
     (\<exists>w. asStatefulSet api ns n = Some w \<and> enough (wkReady w) (wkDesired w) \<and>
          no_recent_oom now api ns n (component_label (wkLabels w)))"

definition explained :: "ResourceStatus \<Rightarrow> bool" where
  "explained s \<longleftrightarrow> rtMessage s \<noteq> [] \<or> rtHealthy s"

lemma report_containers:
  "rtHealthy (foldl (report_container now l) s cs) \<longleftrightarrow>
     rtHealthy s \<and> (\<forall>c \<in> set cs. \<not> oomKilledRecently now (csTerminated (ctLastTerminationState c)))"
  "rtName (foldl (report_container now l) s cs) = rtName s"
  by (induction cs arbitrary: s) (auto simp: report_container_def)

lemma report_containers_explained: "explained s \<Longrightarrow> explained (foldl (report_container now l) s cs)"
  by (rule foldl_invariant) (simp_all add: report_container_def explained_def)

lemma report_pods:
  "rtHealthy (foldl (report_pod now n l) s ps) \<longleftrightarrow>
     rtHealthy s \<and> (\<forall>p \<in> set ps. HasPrefix (omName (podMeta p)) n \<longrightarrow>
       (\<forall>c \<in> set (podContainerStatuses p). \<not> oomKilledRecently now (csTerminated (ctLastTerminationState c))))"
  "rtName (foldl (report_pod now n l) s ps) = rtName s"
  by (induction ps arbitrary: s) (auto simp: report_pod_def report_containers)

lemma report_pods_explained: "explained s \<Longrightarrow> explained (foldl (report_pod now n l) s ps)"
  by (rule foldl_invariant) (simp_all add: report_pod_def report_containers_explained)

lemma reportStatusFromPod_facts:
  "rtHealthy (reportStatusFromPod now s api ns n l) \<longleftrightarrow> rtHealthy s \<and> no_recent_oom now api ns n l"
  "rtName (reportStatusFromPod now s api ns n l) = rtName s"
  "explained s \<Longrightarrow> explained (reportStatusFromPod now s api ns n l)"
  by (simp_all add: reportStatusFromPod_def no_recent_oom_def report_pods report_pods_explained split: option.splits)

lemma reportStatusFromApp_facts:
  "rtHealthy (reportStatusFromApp s r d) \<longleftrightarrow> enough r (Some d)"
  "rtName (reportStatusFromApp s r d) = rtName s"
  "explained (reportStatusFromApp s r d)"
  by (auto simp: reportStatusFromApp_def Let_def enough_def explained_def word_sless_alt)

lemmas status_facts = reportStatusFromPod_facts reportStatusFromApp_facts

lemma newStatus_sel [simp]: "rtName (newStatus n) = n" "rtMessage (newStatus n) = []"
  by (simp_all add: newStatus_def)

lemma reportNotRunning_sel [simp]:
  "rtHealthy (reportNotRunning s) = False" "rtName (reportNotRunning s) = rtName s"
  "rtMessage (reportNotRunning s) = rtMessage s"
  by (simp_all add: reportNotRunning_def)

lemmas component_defs = deploymentStatus_def daemonSetStatus_def statefulSetStatus_def

lemma component_status_None: "component_status now api ns c = None \<longleftrightarrow> nil_replicas api ns c"
  by (cases c) (auto simp: component_defs Let_def split: option.splits)

lemma component_status_name: "component_status now api ns c = Some s \<Longrightarrow> rtName s = component_name c"
  by (cases c) (auto simp: component_defs Let_def status_facts split: option.splits)

lemma component_status_healthy: "component_status now api ns c = Some s \<Longrightarrow> rtHealthy s \<longleftrightarrow> component_up now api ns c"
  by (cases c) (auto simp: component_defs Let_def status_facts split: option.splits if_splits)

lemma component_status_missing:
  "component_status now api ns c = Some s \<Longrightarrow> component_missing api ns c \<Longrightarrow> rtMessage s = []"
  by (cases c) (auto simp: component_defs)

lemma component_status_explained:
  "component_status now api ns c = Some s \<Longrightarrow> \<not> component_missing api ns c \<Longrightarrow> explained s"
  by (cases c) (auto simp: component_defs Let_def status_facts split: option.splits if_splits)

lemma component_status_message:
  assumes "component_status now api ns c = Some s" and "\<not> rtHealthy s"
  shows "rtMessage s = [] \<longleftrightarrow> component_missing api ns c"
  using component_status_missing [OF assms(1)] component_status_explained [OF assms(1)] assms(2)
  by (auto simp: explained_def)

lemma those_Some: "those xs = Some ys \<longleftrightarrow> list_all2 (\<lambda>x y. x = Some y) xs ys"
  by (induction xs arbitrary: ys) (auto simp: list_all2_Cons1 split: option.splits)

lemma those_None: "those xs = None \<longleftrightarrow> None \<in> set xs"
  by (induction xs) (auto split: option.splits)

lemma Join_Nil_iff: "sep \<noteq> [] \<Longrightarrow> (\<And>x. x \<in> set xs \<Longrightarrow> x \<noteq> []) \<Longrightarrow> Join sep xs = [] \<longleftrightarrow> xs = []"
  by (induction sep xs rule: Join.induct) auto

lemma unhealthy_message_Nil:
  "Join ''; '' (unhealthyMessages cs) = [] \<longleftrightarrow> (\<forall>c \<in> set cs. \<not> rtHealthy c \<longrightarrow> rtMessage c = [])"
proof -
  have "Join ''; '' (unhealthyMessages cs) = [] \<longleftrightarrow> unhealthyMessages cs = []"
    by (rule Join_Nil_iff) (auto simp: unhealthyMessages_def)
  then show ?thesis by (auto simp: unhealthyMessages_def filter_empty_conv)
qed

lemma boolCount_False: "boolCount False (map rtHealthy cs) = 0 \<longleftrightarrow> (\<forall>c \<in> set cs. rtHealthy c)"
  by (auto simp: boolCount_def filter_empty_conv)

lemma reportAggregateStatus_facts:
  "stStatus (reportAggregateStatus now cs t) =
     (if \<forall>c \<in> set cs. rtHealthy c then Healthy else if time_sub now t < MaxInstallTime then Installing else Unhealthy)"
  "map rtName (stResourceStatuses (reportAggregateStatus now cs t)) = map rtName cs"
  "stMessage (reportAggregateStatus now cs t) = [] \<longleftrightarrow>
     (\<exists>c \<in> set cs. \<not> rtHealthy c) \<and> \<not> time_sub now t < MaxInstallTime \<and>
     (\<forall>c \<in> set cs. \<not> rtHealthy c \<longrightarrow> rtMessage c = [])"
  unfolding reportAggregateStatus_def boolCount_False by (auto simp: unhealthy_message_Nil comp_def)


end
