(* ===== verification/Operator_Preprocess.thy ===== *)
theory Operator_Preprocess
  imports Operator_Types
begin

text \<open>
  What the operator fills into a specification before it validates it (\<open>operator/internal/preprocessor/process.go\<close>).
  The code writes into the specification in place and may stop with an error half way: a step returns the
  specification it leaves behind and the error, if there is one. The API server, JSON, YAML, SHA-1 and the parser of
  URLs are parameters. Of a secret the code reads the name and the data; its other fields only enter the hash.
\<close>

record kdeployment =
  kdUID :: string
  kdImage :: string
  kdAvailable :: "32 word"

record secret =
  scName :: string
  scData :: tagmap
  scRest :: string

record prule =
  ruleTag :: string
  ruleKey :: string
  ruleRest :: string

type_synonym rules = "(string, prule list) gomap"

record cluster_api =
  apDeployment :: "string \<Rightarrow> string \<Rightarrow> string + kdeployment"
  apDaemonSetReady :: "string \<Rightarrow> string \<Rightarrow> string + 32 word"
  apSecret :: "string \<Rightarrow> string \<Rightarrow> string + secret"
  apConfigMap :: "string \<Rightarrow> string \<Rightarrow> string + tagmap"

record encoders =
  enSecret :: "secret \<Rightarrow> string + string"
  enSHA1 :: "string \<Rightarrow> string"
  enURL :: "string \<Rightarrow> string + string \<times> string"
  enReadRules :: "string \<Rightarrow> string + rules"
  enRules :: "prule list \<Rightarrow> string + string"
  enRuleMap :: "rules \<Rightarrow> string + string"

type_synonym outcome = "WavefrontSpec \<times> string option"

definition and_then :: "outcome \<Rightarrow> (WavefrontSpec \<Rightarrow> outcome) \<Rightarrow> outcome" where
  "and_then r f = (case snd r of None \<Rightarrow> f (fst r) | Some e \<Rightarrow> r)"

abbreviation map_proxy :: "(WavefrontProxy \<Rightarrow> WavefrontProxy) \<Rightarrow> WavefrontSpec \<Rightarrow> WavefrontSpec" where
  "map_proxy f \<equiv> wsDataExport_update (deWavefrontProxy_update f)"

abbreviation map_metrics :: "(wfMetrics \<Rightarrow> wfMetrics) \<Rightarrow> WavefrontSpec \<Rightarrow> WavefrontSpec" where
  "map_metrics f \<equiv> wsDataCollection_update (dcMetrics_update f)"

abbreviation map_logging :: "(Logging \<Rightarrow> Logging) \<Rightarrow> WavefrontSpec \<Rightarrow> WavefrontSpec" where
  "map_logging f \<equiv> wsDataCollection_update (dcLogging_update f)"

abbreviation map_insights :: "(Insights \<Rightarrow> Insights) \<Rightarrow> WavefrontSpec \<Rightarrow> WavefrontSpec" where
  "map_insights f \<equiv> wsExperimental_update (exInsights_update f)"

abbreviation the_proxy :: "WavefrontSpec \<Rightarrow> WavefrontProxy" where "the_proxy spec \<equiv> deWavefrontProxy (wsDataExport spec)"
abbreviation the_metrics :: "WavefrontSpec \<Rightarrow> wfMetrics" where "the_metrics spec \<equiv> dcMetrics (wsDataCollection spec)"
abbreviation the_logging :: "WavefrontSpec \<Rightarrow> Logging" where "the_logging spec \<equiv> dcLogging (wsDataCollection spec)"
abbreviation the_insights :: "WavefrontSpec \<Rightarrow> Insights" where "the_insights spec \<equiv> exInsights (wsExperimental spec)"

section \<open>The directory of an image: filepath.Dir\<close>

definition clean_step :: "bool \<Rightarrow> string list \<Rightarrow> string \<Rightarrow> string list" where
  "clean_step rooted out e =
     (if e = '''' \<or> e = ''.'' then out
      else if e = ''..'' then
        (if out \<noteq> [] \<and> last out \<noteq> ''..'' then butlast out else if rooted then out else out @ [e])
      else out @ [e])"

definition path_clean :: "string \<Rightarrow> string" where
  "path_clean s =
     (let rooted = HasPrefix s ''/'';
          p = (if rooted then ''/'' else '''') @ Join ''/'' (foldl (clean_step rooted) [] (Split (CHR ''/'') s))
      in if p = '''' then ''.'' else p)"

definition path_dir :: "string \<Rightarrow> string" where
  "path_dir s = path_clean (rev (dropWhile (\<lambda>c. c \<noteq> CHR ''/'') (rev s)))"

section \<open>Ports, hashes and rules\<close>

definition hashValue :: "encoders \<Rightarrow> string \<Rightarrow> string" where
  "hashValue en bytes = enSHA1 en bytes"

definition all_ports :: "WavefrontProxy \<Rightarrow> int64 list" where
  "all_ports p =
     [wpMetricPort p, wpDeltaCounterPort p, otGrpcPort (wpOTLP p), otHttpPort (wpOTLP p),
      wtPort (trWavefront (wpTracing p)), jtPort (trJaeger (wpTracing p)), jtGrpcPort (trJaeger (wpTracing p)),
      jtHttpPort (trJaeger (wpTracing p)), ztPort (trZipkin (wpTracing p)),
      hiPort (wpHistogram p), hiMinutePort (wpHistogram p), hiHourPort (wpHistogram p), hiDayPort (wpHistogram p)]"

text \<open>\<open>fmt.Sprint\<close> of a slice of ints, and \<open>strings.Fields\<close> of text whose only white space is the blank.\<close>

definition sprint_ints :: "int64 list \<Rightarrow> string" where
  "sprint_ints ps = ''['' @ Join '' '' (map (\<lambda>p. show_int (sint p)) ps) @ '']''"

definition fields :: "string \<Rightarrow> string list" where
  "fields s = filter (\<lambda>f. f \<noteq> '''') (Split (CHR '' '') s)"

definition getEnabledPorts :: "WavefrontSpec \<Rightarrow> string" where
  "getEnabledPorts spec =
     Trim (\<lambda>c. c = CHR ''['' \<or> c = CHR '']'')
       (Join '','' (fields (sprint_ints (filter (\<lambda>p. p \<noteq> 0) (all_ports (the_proxy spec))))))"

definition rule_error :: "string \<Rightarrow> string \<Rightarrow> string \<Rightarrow> string \<Rightarrow> string" where
  "rule_error configMapName port what tag =
     ''Invalid rule configured in ConfigMap '' @ [CHR 39] @ configMapName @ [CHR 39] @ '' on port '' @ [CHR 39] @ port @
     [CHR 39] @ '', overriding '' @ what @ '' tag '' @ [CHR 39] @ tag @ [CHR 39] @ '' is disallowed''"

definition check_rule :: "string \<Rightarrow> string \<Rightarrow> prule \<Rightarrow> string option" where
  "check_rule configMapName port r =
     (if ruleTag r = ''cluster'' then Some (rule_error configMapName port ''metric'' ''cluster'')
      else if ruleTag r = ''cluster_uuid'' then Some (rule_error configMapName port ''metric'' ''cluster_uuid'')
      else if ruleKey r = ''cluster'' then Some (rule_error configMapName port ''span'' ''cluster'')
      else if ruleKey r = ''cluster_uuid'' then Some (rule_error configMapName port ''span'' ''cluster_uuid'')
      else None)"

fun first_error :: "('a \<Rightarrow> string option) \<Rightarrow> 'a list \<Rightarrow> string option" where
  "first_error f [] = None"
| "first_error f (x # xs) = (case f x of None \<Rightarrow> first_error f xs | Some e \<Rightarrow> Some e)"

definition validateUserRules :: "rules \<Rightarrow> string \<Rightarrow> string option" where
  "validateUserRules userRules configMapName =
     first_error (\<lambda>e. first_error (check_rule configMapName (fst e)) (snd e)) userRules"

definition getUserDefinedRules :: "cluster_api \<Rightarrow> encoders \<Rightarrow> WavefrontSpec \<Rightarrow> string + string \<times> string" where
  "getUserDefinedRules api en spec =
     (let name = wpPreprocessor (the_proxy spec) in
      if length name = 0 then Inr ('''', '''')
      else case apConfigMap api (wsNamespace spec) name of
        Inl e \<Rightarrow> Inl e
      | Inr dat \<Rightarrow>
          (case enReadRules en (mgets dat ''rules.yaml'') of
             Inl e \<Rightarrow> Inl e
           | Inr rules \<Rightarrow>
               (case validateUserRules rules name of
                  Some e \<Rightarrow> Inl e
                | None \<Rightarrow>
                    (let global = (case mget rules ''global'' of None \<Rightarrow> [] | Some rs \<Rightarrow> rs) in
                     if length global > 0
                     then case enRules en global of
                            Inl e \<Rightarrow> Inl e
                          | Inr g \<Rightarrow> (case enRuleMap en (mdel ''global'' rules) of Inl e \<Rightarrow> Inl e | Inr u \<Rightarrow> Inr (u, g))
                     else case enRuleMap en rules of Inl e \<Rightarrow> Inl e | Inr u \<Rightarrow> Inr (u, '''')))))"

section \<open>Secrets\<close>

definition set_auth :: "(Auth \<Rightarrow> Auth) \<Rightarrow> WavefrontSpec \<Rightarrow> WavefrontSpec" where
  "set_auth f = map_proxy (wpAuth_update f)"

definition checkVal :: "bool \<Rightarrow> nat" where
  "checkVal check = (if check then 1 else 0)"

definition auth_error :: "string \<Rightarrow> string \<Rightarrow> string" where
  "auth_error name what =
     ''Invalid authentication configured in Secret '' @ [CHR 39] @ name @ [CHR 39] @ ''. '' @ what @ '' Wavefront API Token '' @
     [CHR 39] @ ''token'' @ [CHR 39] @ '' or CSP API Token '' @ [CHR 39] @ ''csp-api-token'' @ [CHR 39] @
     '' or CSP App OAuth '' @ [CHR 39] @ ''csp-app-id''"

definition processWavefrontSecret :: "cluster_api \<Rightarrow> encoders \<Rightarrow> WavefrontSpec \<Rightarrow> outcome" where
  "processWavefrontSecret api en spec =
     (case apSecret api (wsNamespace spec) (wsWavefrontTokenSecret spec) of
        Inl e \<Rightarrow> (set_auth (auType_update (\<lambda>_. ''wavefront-token'')) spec, None)
      | Inr sec \<Rightarrow>
          (case enSecret en sec of
             Inl e \<Rightarrow> (spec, Some e)
           | Inr bytes \<Rightarrow>
               (let spec = map_proxy (wpSecretHash_update (\<lambda>_. hashValue en bytes)) spec;
                    wavefrontTokenAuth = mhas (scData sec) ''token'';
                    cspTokenAuth = mhas (scData sec) ''csp-api-token'';
                    cspAppID = mhas (scData sec) ''csp-app-id'';
                    checkTotal = checkVal wavefrontTokenAuth + checkVal cspTokenAuth + checkVal cspAppID
                in if checkTotal = 0
                   then (spec, Some (auth_error (wsWavefrontTokenSecret spec) ''Missing Authentication type.''))
                   else if checkTotal > 1
                   then (spec, Some (auth_error (wsWavefrontTokenSecret spec) ''Only one authentication type is allowed.''))
                   else
                     (let spec = (if wavefrontTokenAuth then set_auth (auType_update (\<lambda>_. ''wavefront-token'')) spec else spec);
                          spec = (if cspTokenAuth then set_auth (auType_update (\<lambda>_. ''csp-api-token'')) spec else spec)
                      in (if cspAppID
                          then set_auth (\<lambda>a. a\<lparr>auType := ''csp-app-oauth'', auCSPAppID := mgets (scData sec) ''csp-app-id'',
                                                auCSPOrgID := mgets (scData sec) ''csp-org-id''\<rparr>) spec
                          else spec, None)))))"

definition setHttpProxyConfigs :: "encoders \<Rightarrow> secret \<Rightarrow> WavefrontSpec \<Rightarrow> outcome" where
  "setHttpProxyConfigs en sec spec =
     (let d = scData sec;
          raw = mgets d ''http-url'';
          raw = (if \<not> Contains raw ''http://'' \<and> \<not> Contains raw ''https://'' then ''http://'' @ raw else raw)
      in case enURL en raw of
           Inl e \<Rightarrow> (spec, Some e)
         | Inr (host, port) \<Rightarrow>
             (let spec = map_proxy (wpHttpProxy_update (\<lambda>h. h\<lparr>hpHttpProxyHost := host, hpHttpProxyPort := port,
                           hpHttpProxyUser := mgets d ''basic-auth-username'',
                           hpHttpProxyPassword := mgets d ''basic-auth-password''\<rparr>)) spec
              in (if length (mgets d ''tls-root-ca-bundle'') \<noteq> 0
                  then map_proxy (\<lambda>p. p\<lparr>wpHttpProxy := (wpHttpProxy p)\<lparr>hpUseHttpProxyCAcert := True\<rparr>,
                                          wpConfigHash := hashValue en (mgets d ''tls-root-ca-bundle'')\<rparr>) spec
                  else spec, None)))"

definition parseHttpProxyConfigs :: "cluster_api \<Rightarrow> encoders \<Rightarrow> WavefrontSpec \<Rightarrow> outcome" where
  "parseHttpProxyConfigs api en spec =
     (let name = hpSecret (wpHttpProxy (the_proxy spec)) in
      if length name \<noteq> 0
      then case apSecret api (wsNamespace spec) name of Inl e \<Rightarrow> (spec, Some e) | Inr sec \<Rightarrow> setHttpProxyConfigs en sec spec
      else (spec, None))"

section \<open>The steps\<close>

definition proxy_address :: "WavefrontSpec \<Rightarrow> string" where
  "proxy_address spec = ProxyName @ '':'' @ show_int (sint (wpMetricPort (the_proxy spec)))"

definition set_availability :: "cluster_api \<Rightarrow> WavefrontSpec \<Rightarrow> WavefrontSpec" where
  "set_availability api spec =
     (case apDeployment api (wsNamespace spec) ProxyName of
        Inl e \<Rightarrow> spec
      | Inr d \<Rightarrow>
          (if 0 < sint (kdAvailable d)
           then (map_proxy (wpAvailableReplicas_update (\<lambda>_. word_of_int (sint (kdAvailable d)))) spec)\<lparr>wsCanExportData := True\<rparr>
           else spec))"

definition set_addresses :: "WavefrontSpec \<Rightarrow> WavefrontSpec" where
  "set_addresses spec =
     map_logging (lgProxyAddress_update (\<lambda>_. ''http://'' @ proxy_address spec))
       (map_metrics (mtProxyAddress_update (\<lambda>_. proxy_address spec)) spec)"

definition set_otlp :: "WavefrontSpec \<Rightarrow> WavefrontSpec" where
  "set_otlp spec =
     (if shEnable (atPixieShared (exAutotracing (wsExperimental spec)))
      then map_proxy (wpOTLP_update (\<lambda>ot. ot\<lparr>otGrpcPort := 4317, otResourceAttrsOnMetricsIncluded := True\<rparr>)) spec
      else spec)"

definition set_rules :: "cluster_api \<Rightarrow> encoders \<Rightarrow> WavefrontSpec \<Rightarrow> outcome" where
  "set_rules api en spec =
     (let spec = map_proxy (wpPreprocessorRules_update (prEnabledPorts_update (\<lambda>_. getEnabledPorts spec))) spec;
          result = getUserDefinedRules api en spec;
          rules = (case result of Inl e \<Rightarrow> ('''', '''') | Inr rs \<Rightarrow> rs)
      in (map_proxy (wpPreprocessorRules_update
            (\<lambda>r. r\<lparr>prUserDefinedPortRules := fst rules, prUserDefinedGlobalRules := snd rules\<rparr>)) spec,
          case result of Inl e \<Rightarrow> Some e | Inr rs \<Rightarrow> None))"

definition preProcessProxyConfig :: "cluster_api \<Rightarrow> encoders \<Rightarrow> WavefrontSpec \<Rightarrow> outcome" where
  "preProcessProxyConfig api en spec =
     and_then (parseHttpProxyConfigs api en (set_addresses (set_availability api spec)))
       (\<lambda>spec. and_then (set_rules api en (set_otlp spec)) (processWavefrontSecret api en))"

definition external_addresses :: "WavefrontSpec \<Rightarrow> WavefrontSpec" where
  "external_addresses spec =
     (let url = epUrl (deExternalWavefrontProxy (wsDataExport spec));
          spec = map_metrics (mtProxyAddress_update (\<lambda>_. url)) (spec\<lparr>wsCanExportData := True\<rparr>)
      in if HasPrefix url ''http''
         then map_metrics (mtProxyAddress_update (\<lambda>a. TrimPrefix a ''http://''))
                (map_logging (lgProxyAddress_update (\<lambda>_. url)) spec)
         else map_logging (lgProxyAddress_update (\<lambda>_. ''http://'' @ url)) spec)"

definition join_args :: "string \<Rightarrow> string" where
  "join_args args = filter (\<lambda>c. c \<noteq> CHR 10) (filter (\<lambda>c. c \<noteq> CHR 13) args)"

definition preProcessDataExport :: "cluster_api \<Rightarrow> encoders \<Rightarrow> WavefrontSpec \<Rightarrow> outcome" where
  "preProcessDataExport api en spec =
     (let spec = map_proxy (wpAvailableReplicas_update (\<lambda>_. 1)) spec;
          r = (if wpEnable (the_proxy spec) then preProcessProxyConfig api en spec
               else if length (epUrl (deExternalWavefrontProxy (wsDataExport spec))) \<noteq> 0 then (external_addresses spec, None)
               else (spec, None))
      in and_then r (\<lambda>spec. (map_proxy (wpArgs_update join_args) spec, None)))"

definition shouldEnableEtcdCollection :: "cluster_api \<Rightarrow> WavefrontSpec \<Rightarrow> bool" where
  "shouldEnableEtcdCollection api spec \<longleftrightarrow>
     cpEnable (mtControlPlane (the_metrics spec)) \<and> \<not> isl (apSecret api (wsNamespace spec) ''etcd-certs'')"

definition set_config_name :: "WavefrontSpec \<Rightarrow> WavefrontSpec" where
  "set_config_name spec =
     (if mtEnable (the_metrics spec)
      then map_metrics (\<lambda>m. m\<lparr>mtCollectorConfigName :=
             (if length (mtCustomConfig m) = 0 then ''default-wavefront-collector-config'' else mtCustomConfig m)\<rparr>) spec
      else if inEnable (the_insights spec)
      then map_metrics (mtCollectorConfigName_update (\<lambda>_. ''k8s-events-only-wavefront-collector-config'')) spec
      else spec)"

definition set_etcd :: "cluster_api \<Rightarrow> WavefrontSpec \<Rightarrow> WavefrontSpec" where
  "set_etcd api spec =
     (if shouldEnableEtcdCollection api spec
      then map_metrics (mtControlPlane_update (cpEnableEtcd_update (\<lambda>_. True))) spec else spec)"

definition preProcessDataCollection :: "cluster_api \<Rightarrow> WavefrontSpec \<Rightarrow> WavefrontSpec" where
  "preProcessDataCollection api spec = set_etcd api (set_config_name spec)"

definition quoted :: "string \<Rightarrow> string" where
  "quoted s = [CHR 39] @ s @ [CHR 39]"

definition InsightsSecret :: string where "InsightsSecret = ''insights-secret''"

definition preProcessInsights :: "cluster_api \<Rightarrow> WavefrontSpec \<Rightarrow> outcome" where
  "preProcessInsights api spec =
     (if \<not> inEnable (the_insights spec) then (spec, None)
      else case apSecret api (wsNamespace spec) InsightsSecret of
        Inl e \<Rightarrow> (spec, Some (''Invalid authentication configured for Experimental Insights. Missing Secret '' @ quoted InsightsSecret))
      | Inr sec \<Rightarrow>
          (if length (mgets (scData sec) ''ingestion-token'') \<noteq> 0
           then (map_insights (\<lambda>i. i\<lparr>inSecretTokenKey := ''ingestion-token'', inSecretName := scName sec\<rparr>) spec, None)
           else (spec, Some (''Invalid authentication configured for Experimental Insights. Secret '' @ quoted (scName sec) @
                             '' is missing Data '' @ quoted ''ingestion-token''))))"

definition events_only_resources :: Resources where
  "events_only_resources =
     \<lparr>rqRequests = \<lparr>rsCPU = ''200m'', rsMemory = ''10Mi'', rsEphemeralStorage = ''20Mi''\<rparr>,
      rqLimits = \<lparr>rsCPU = ''2000m'', rsMemory = ''512Mi'', rsEphemeralStorage = ''1Gi''\<rparr>\<rparr>"

definition default_collector :: "WavefrontSpec \<Rightarrow> WavefrontSpec" where
  "default_collector spec =
     (if inEnable (the_insights spec) \<and> \<not> mtEnable (the_metrics spec) \<and>
         length (rsCPU (rqLimits (coResources (mtClusterCollector (the_metrics spec))))) = 0
      then map_metrics (mtClusterCollector_update (coResources_update (\<lambda>_. events_only_resources))) spec else spec)"

definition enable_scripts :: "cluster_api \<Rightarrow> WavefrontSpec \<Rightarrow> WavefrontSpec" where
  "enable_scripts api spec =
     (if shEnable (atPixieShared (exAutotracing (wsExperimental spec))) \<and>
         (case apDaemonSetReady api (wsNamespace spec) PixieVizierPEMName of Inl e \<Rightarrow> False | Inr n \<Rightarrow> 0 < sint n)
      then wsExperimental_update (exAutotracing_update (atCanExportAutotracingScripts_update (\<lambda>_. True))) spec else spec)"

definition preProcessExperimental :: "cluster_api \<Rightarrow> WavefrontSpec \<Rightarrow> outcome" where
  "preProcessExperimental api spec =
     and_then (preProcessInsights api spec) (\<lambda>spec. (enable_scripts api (default_collector spec), None))"

definition default_requests :: "Resources \<Rightarrow> Resources" where
  "default_requests r = (if Resource_IsEmpty (rqRequests r) then r\<lparr>rqRequests := rqLimits r\<rparr> else r)"

definition PreProcess :: "cluster_api \<Rightarrow> encoders \<Rightarrow> WavefrontSpec \<Rightarrow> outcome" where
  "PreProcess api en spec =
     (case apDeployment api (wsNamespace spec) OperatorName of
        Inl e \<Rightarrow> (spec, Some e)
      | Inr operator \<Rightarrow>
          (let spec = spec\<lparr>wsControllerManagerUID := kdUID operator, wsImageRegistry := path_dir (kdImage operator),
                           wsWorkloadResources := map (\<lambda>(n, r). (n, default_requests r)) (wsWorkloadResources spec)\<rparr>
           in and_then (preProcessExperimental api spec)
                (\<lambda>spec. preProcessDataExport api en (preProcessDataCollection api spec))))"

section \<open>What the steps leave alone\<close>

text \<open>The parts of a specification that the user gives and no step writes.\<close>

definition given :: "WavefrontSpec \<Rightarrow> bool \<times> bool \<times> bool \<times> bool \<times> bool \<times> bool \<times> string \<times> string \<times> string \<times> int64" where
  "given spec = (wpEnable (the_proxy spec), mtEnable (the_metrics spec), lgEnable (the_logging spec),
     inEnable (the_insights spec), shEnable (atPixieShared (exAutotracing (wsExperimental spec))),
     shEnable (hbPixie (exHub (wsExperimental spec))), wsNamespace spec, wsWavefrontTokenSecret spec,
     epUrl (deExternalWavefrontProxy (wsDataExport spec)), wpMetricPort (the_proxy spec))"

text \<open>What leaves the specification unchanged apart from an address, a flag or the fields of the proxy.\<close>

definition addresses :: "WavefrontSpec \<Rightarrow> string \<times> string \<times> bool" where
  "addresses spec = (mtProxyAddress (the_metrics spec), lgProxyAddress (the_logging spec), wsCanExportData spec)"

lemma and_then_None: "and_then r f = (s, None) \<longleftrightarrow> (\<exists>t. r = (t, None) \<and> f t = (s, None))"
  by (cases r) (auto simp: and_then_def split: option.splits)

lemma and_then_keeps: "g (fst r) = a \<Longrightarrow> (\<And>s. g s = a \<Longrightarrow> g (fst (f s)) = a) \<Longrightarrow> g (fst (and_then r f)) = a"
  by (auto simp: and_then_def split: option.splits)

lemma processWavefrontSecret_keeps:
  "given (fst (processWavefrontSecret api en spec)) = given spec"
  "addresses (fst (processWavefrontSecret api en spec)) = addresses spec"
  by (auto simp: processWavefrontSecret_def set_auth_def Let_def given_def addresses_def split: sum.splits)

lemma parseHttpProxyConfigs_keeps:
  "given (fst (parseHttpProxyConfigs api en spec)) = given spec"
  "addresses (fst (parseHttpProxyConfigs api en spec)) = addresses spec"
  by (auto simp: parseHttpProxyConfigs_def setHttpProxyConfigs_def Let_def given_def addresses_def split: sum.splits)

lemma set_rules_keeps:
  "given (fst (set_rules api en spec)) = given spec" "addresses (fst (set_rules api en spec)) = addresses spec"
  by (auto simp: set_rules_def Let_def given_def addresses_def)

lemma set_otlp_keeps: "given (set_otlp spec) = given spec" "addresses (set_otlp spec) = addresses spec"
  by (simp_all add: set_otlp_def given_def addresses_def)

lemma set_availability_keeps: "given (set_availability api spec) = given spec"
  by (simp add: set_availability_def given_def split: sum.split)

lemma set_addresses_keeps: "given (set_addresses spec) = given spec"
  by (simp add: set_addresses_def given_def)

lemma external_addresses_keeps: "given (external_addresses spec) = given spec"
  by (simp add: external_addresses_def Let_def given_def)

lemma set_config_name_keeps:
  "given (set_config_name spec) = given spec" "addresses (set_config_name spec) = addresses spec"
  by (simp_all add: set_config_name_def given_def addresses_def)

lemma set_etcd_keeps: "given (set_etcd api spec) = given spec" "addresses (set_etcd api spec) = addresses spec"
  by (simp_all add: set_etcd_def given_def addresses_def)

lemma preProcessDataCollection_keeps:
  "given (preProcessDataCollection api spec) = given spec"
  "addresses (preProcessDataCollection api spec) = addresses spec"
  by (simp_all add: preProcessDataCollection_def set_config_name_keeps set_etcd_keeps)

lemma proxy_fields_keep:
  "given (map_proxy (wpArgs_update f) spec) = given spec"
  "addresses (map_proxy (wpArgs_update f) spec) = addresses spec"
  "given (map_proxy (wpAvailableReplicas_update g) spec) = given spec"
  "addresses (map_proxy (wpAvailableReplicas_update g) spec) = addresses spec"
  by (simp_all add: given_def addresses_def)

lemma experimental_keeps:
  "given (default_collector spec) = given spec" "addresses (default_collector spec) = addresses spec"
  "given (enable_scripts api spec) = given spec" "addresses (enable_scripts api spec) = addresses spec"
  by (simp_all add: default_collector_def enable_scripts_def given_def addresses_def)

lemma preProcessInsights_keeps:
  "given (fst (preProcessInsights api spec)) = given spec"
  "addresses (fst (preProcessInsights api spec)) = addresses spec"
  by (simp_all add: preProcessInsights_def given_def addresses_def split: sum.split)

lemma preProcessExperimental_keeps:
  "given (fst (preProcessExperimental api spec)) = given spec"
  "addresses (fst (preProcessExperimental api spec)) = addresses spec"
  unfolding preProcessExperimental_def
  by (rule and_then_keeps [where g = given] and_then_keeps [where g = addresses];
      simp add: preProcessInsights_keeps experimental_keeps)+

lemmas step_keeps = processWavefrontSecret_keeps parseHttpProxyConfigs_keeps set_rules_keeps set_otlp_keeps
  set_availability_keeps set_addresses_keeps external_addresses_keeps preProcessDataCollection_keeps proxy_fields_keep
  preProcessExperimental_keeps

section \<open>What an accepted specification says\<close>

text \<open>The way out for the data: the proxy of the operator, once it has an available instance; or an external proxy.\<close>

definition proxy_available :: "cluster_api \<Rightarrow> WavefrontSpec \<Rightarrow> bool" where
  "proxy_available api spec \<longleftrightarrow> (case apDeployment api (wsNamespace spec) ProxyName of Inl e \<Rightarrow> False | Inr d \<Rightarrow> 0 < sint (kdAvailable d))"

definition wanted_addresses :: "cluster_api \<Rightarrow> WavefrontSpec \<Rightarrow> string \<times> string \<times> bool" where
  "wanted_addresses api spec =
     (let url = epUrl (deExternalWavefrontProxy (wsDataExport spec)) in
      if wpEnable (the_proxy spec)
      then (proxy_address spec, ''http://'' @ proxy_address spec, wsCanExportData spec \<or> proxy_available api spec)
      else if url = '''' then addresses spec
      else if HasPrefix url ''http'' then (TrimPrefix url ''http://'', url, True)
      else (url, ''http://'' @ url, True))"

text \<open>The ways to authenticate that a secret offers.\<close>

definition auth_types :: "secret \<Rightarrow> string list" where
  "auth_types sec = (if mhas (scData sec) ''token'' then [''wavefront-token''] else []) @
     (if mhas (scData sec) ''csp-api-token'' then [''csp-api-token''] else []) @
     (if mhas (scData sec) ''csp-app-id'' then [''csp-app-oauth''] else [])"

definition auth_ok :: "cluster_api \<Rightarrow> WavefrontSpec \<Rightarrow> string \<Rightarrow> bool" where
  "auth_ok api spec ty \<longleftrightarrow>
     (case apSecret api (wsNamespace spec) (wsWavefrontTokenSecret spec) of
        Inl e \<Rightarrow> ty = ''wavefront-token'' | Inr sec \<Rightarrow> auth_types sec = [ty])"

lemma set_availability_addresses:
  "addresses (set_addresses (set_availability api spec)) =
     (proxy_address spec, ''http://'' @ proxy_address spec, wsCanExportData spec \<or> proxy_available api spec)"
proof -
  have avail: "wsCanExportData (set_availability api spec) = (wsCanExportData spec \<or> proxy_available api spec)"
    "proxy_address (set_availability api spec) = proxy_address spec"
    by (simp_all add: set_availability_def proxy_available_def proxy_address_def split: sum.split)
  have "addresses (set_addresses t) = (proxy_address t, ''http://'' @ proxy_address t, wsCanExportData t)" for t
    by (simp add: set_addresses_def addresses_def)
  then show ?thesis by (simp only: avail)
qed

lemma external_addresses_wanted:
  "addresses (external_addresses spec) =
     (let url = epUrl (deExternalWavefrontProxy (wsDataExport spec)) in
      if HasPrefix url ''http'' then (TrimPrefix url ''http://'', url, True) else (url, ''http://'' @ url, True))"
  by (simp add: external_addresses_def addresses_def Let_def)

lemma preProcessProxyConfig_facts:
  "given (fst (preProcessProxyConfig api en spec)) = given spec"
  "addresses (fst (preProcessProxyConfig api en spec)) =
     (proxy_address spec, ''http://'' @ proxy_address spec, wsCanExportData spec \<or> proxy_available api spec)"
  unfolding preProcessProxyConfig_def
  by (intro and_then_keeps [where g = given] and_then_keeps [where g = addresses];
      simp add: step_keeps set_availability_addresses)+

lemma given_eq:
  "given s = given t \<Longrightarrow> wpEnable (the_proxy s) = wpEnable (the_proxy t) \<and> wsNamespace s = wsNamespace t \<and>
     wsWavefrontTokenSecret s = wsWavefrontTokenSecret t \<and>
     epUrl (deExternalWavefrontProxy (wsDataExport s)) = epUrl (deExternalWavefrontProxy (wsDataExport t)) \<and>
     proxy_address s = proxy_address t \<and> proxy_available api s = proxy_available api t"
  by (simp add: given_def proxy_address_def proxy_available_def)

lemma processWavefrontSecret_auth:
  "processWavefrontSecret api en spec = (t, None) \<Longrightarrow> auth_ok api spec (auType (wpAuth (the_proxy t)))"
  by (auto simp: processWavefrontSecret_def auth_ok_def auth_types_def set_auth_def checkVal_def Let_def
      split: sum.splits if_splits)

lemma wanted_addresses_cong:
  "given s = given t \<Longrightarrow> addresses s = addresses t \<Longrightarrow> wanted_addresses api s = wanted_addresses api t"
  unfolding wanted_addresses_def Let_def using given_eq [of s t api] by (simp add: addresses_def)

lemma auth_ok_cong: "given s = given t \<Longrightarrow> auth_ok api s ty = auth_ok api t ty"
  unfolding auth_ok_def using given_eq [of s t api] by simp

definition export_step :: "cluster_api \<Rightarrow> encoders \<Rightarrow> WavefrontSpec \<Rightarrow> outcome" where
  "export_step api en spec =
     (if wpEnable (the_proxy spec) then preProcessProxyConfig api en spec
      else if length (epUrl (deExternalWavefrontProxy (wsDataExport spec))) \<noteq> 0 then (external_addresses spec, None)
      else (spec, None))"

lemma export_step_facts:
  "given (fst (export_step api en spec)) = given spec"
  "addresses (fst (export_step api en spec)) = wanted_addresses api spec"
  by (simp_all add: export_step_def wanted_addresses_def Let_def preProcessProxyConfig_facts step_keeps
      external_addresses_wanted)

lemma preProcessDataExport_step:
  "preProcessDataExport api en spec =
     and_then (export_step api en (map_proxy (wpAvailableReplicas_update (\<lambda>_. 1)) spec))
       (\<lambda>spec. (map_proxy (wpArgs_update join_args) spec, None))"
  by (simp add: preProcessDataExport_def export_step_def Let_def)

lemma preProcessDataExport_facts:
  "given (fst (preProcessDataExport api en spec)) = given spec"
  "addresses (fst (preProcessDataExport api en spec)) = wanted_addresses api spec"
  unfolding preProcessDataExport_step
   apply (rule and_then_keeps [where g = given]; simp add: export_step_facts step_keeps)
  apply (rule and_then_keeps [where g = addresses]; simp add: export_step_facts step_keeps)
  apply (rule wanted_addresses_cong; simp add: step_keeps)
  done

lemma preProcessDataExport_auth:
  assumes "preProcessDataExport api en spec = (t, None)" and "wpEnable (the_proxy spec)"
  shows "auth_ok api spec (auType (wpAuth (the_proxy t)))"
proof -
  define s1 where "s1 = map_proxy (wpAvailableReplicas_update (\<lambda>_. 1)) spec"
  from assms obtain s2 where s2: "preProcessProxyConfig api en s1 = (s2, None)"
    and t: "t = map_proxy (wpArgs_update join_args) s2"
    by (auto simp: preProcessDataExport_step export_step_def and_then_None s1_def)
  from s2 obtain s3 s4 where s3: "parseHttpProxyConfigs api en (set_addresses (set_availability api s1)) = (s3, None)"
    and s4: "set_rules api en (set_otlp s3) = (s4, None)" and last: "processWavefrontSecret api en s4 = (s2, None)"
    by (auto simp: preProcessProxyConfig_def and_then_None)
  have "given s3 = given (set_addresses (set_availability api s1))"
    using parseHttpProxyConfigs_keeps(1) [of api en "set_addresses (set_availability api s1)"] by (simp add: s3)
  also have "\<dots> = given s1" by (simp only: set_addresses_keeps set_availability_keeps)
  also have "\<dots> = given spec" unfolding s1_def by (rule proxy_fields_keep(3))
  finally have "given s3 = given spec" .
  then have "given s4 = given spec"
    using set_rules_keeps(1) [of api en "set_otlp s3"] by (simp add: s4 set_otlp_keeps)
  then show ?thesis using processWavefrontSecret_auth [OF last] by (simp add: t auth_ok_cong [of s4 spec])
qed


text \<open>The rules of the user that are accepted name neither tag of the cluster as what they act on; what a rule
  renames a tag to is not looked at.\<close>
lemma check_rule_None:
  "check_rule name port r = None \<longleftrightarrow>
     ruleTag r \<notin> {''cluster'', ''cluster_uuid''} \<and> ruleKey r \<notin> {''cluster'', ''cluster_uuid''}"
  by (auto simp: check_rule_def)

lemma first_error_None: "first_error f xs = None \<longleftrightarrow> (\<forall>x \<in> set xs. f x = None)"
  by (induction xs) (auto split: option.splits)

lemma validateUserRules_None:
  "validateUserRules rules name = None \<longleftrightarrow>
     (\<forall>(port, rs) \<in> set rules. \<forall>r \<in> set rs.
        ruleTag r \<notin> {''cluster'', ''cluster_uuid''} \<and> ruleKey r \<notin> {''cluster'', ''cluster_uuid''})"
  by (auto simp: validateUserRules_def first_error_None check_rule_None split_beta)

definition sample_api :: cluster_api where
  "sample_api =
     \<lparr>apDeployment = (\<lambda>ns n. if n = OperatorName then Inr \<lparr>kdUID = ''uid'', kdImage = ''registry/team/operator:2'', kdAvailable = 1\<rparr>
                                else Inl ''not found''),
      apDaemonSetReady = (\<lambda>ns n. Inl ''not found''), apSecret = (\<lambda>ns n. Inl ''not found''),
      apConfigMap = (\<lambda>ns n. Inl ''not found'')\<rparr>"

definition sample_encoders :: encoders where
  "sample_encoders =
     \<lparr>enSecret = (\<lambda>s. Inr (scName s)), enSHA1 = (\<lambda>s. s), enURL = (\<lambda>u. Inr (u, '''')), enReadRules = (\<lambda>y. Inr []),
      enRules = (\<lambda>r. Inr ''''), enRuleMap = (\<lambda>r. Inr '''')\<rparr>"

definition sample_spec :: WavefrontSpec where
  "sample_spec = wsDataExport_update (deExternalWavefrontProxy_update (epUrl_update (\<lambda>_. ''https://proxy:2878'')))
     (map_metrics (mtEnable_update (\<lambda>_. True)) zeroSpec)"

lemma sample_accepted: "snd (PreProcess sample_api sample_encoders sample_spec) = None"
  by code_simp


end
