(* ===== verification/Operator_Components.thy ===== *)
theory Operator_Components
  imports Operator_Validation Operator_Preprocess
begin

text \<open>
  The components that the operator installs (\<open>operator/components\<close>): the configuration each takes from the
  specification, its validation, and the objects it builds from its templates with the patches applied to them. Of an
  object the patches read and write the labels, the owner and the requests of the first container; the files of a
  component's directory, the rendering of a template (with the YAML decoder) and the marshalling of a
  configuration are parameters. \<open>fs.Sub\<close> only fails for invalid paths and is called with constant ones.
\<close>

section \<open>Configurations\<close>

record KubernetesEvents =
  kvEnable :: bool
  kvIngestionUrl :: string
  kvSecretName :: string
  kvSecretTokenKey :: string

record ProxyConfig =
  pkEnable :: bool
  pkShouldValidate :: bool
  pkControllerManagerUID :: string
  pkNamespace :: string
  pkClusterName :: string
  pkClusterUUID :: string
  pkImageRegistry :: string
  pkWavefrontTokenSecret :: string
  pkWavefrontUrl :: string
  pkResources :: Resources
  pkMetricPort :: int64
  pkProxyVersion :: string
  pkConfigHash :: string
  pkReplicas :: int64
  pkOpenshift :: bool
  pkSecretHash :: string
  pkImagePullSecret :: string
  pkLoggingEnable :: bool
  pkDeltaCounterPort :: int64
  pkArgs :: string
  pkHttpProxy :: HttpProxy
  pkOTLP :: OTLP
  pkHistogram :: wfHistogram
  pkTracing :: Tracing
  pkAuth :: Auth
  pkPreprocessorRules :: PreprocessorRules

record CollectorComponent =
  ckEnable :: bool
  ckMetricsEnable :: bool
  ckShouldValidate :: bool
  ckControllerManagerUID :: string
  ckClusterName :: string
  ckClusterUUID :: string
  ckDefaultCollectionInterval :: string
  ckProxyAddress :: string
  ckNamespace :: string
  ckProxyAvailableReplicas :: int64
  ckImageRegistry :: string
  ckCollectorVersion :: string
  ckClusterCollectorResources :: Resources
  ckNodeCollectorResources :: Resources
  ckCollectorConfigName :: string
  ckCustomConfig :: string
  ckFilters :: wfFilters
  ckEnableDiscovery :: bool
  ckTags :: tagmap
  ckKubernetesEvents :: KubernetesEvents
  ckControlPlane :: ControlPlane
  ckOpenshift :: bool
  ckTolerations :: "Toleration list"
  ckImagePullSecret :: string

record AutotracingConfig =
  akEnable :: bool
  akShouldValidate :: bool
  akControllerManagerUID :: string
  akNamespace :: string

record LoggingConfig =
  lkEnable :: bool
  lkShouldValidate :: bool
  lkClusterName :: string
  lkLoggingVersion :: string
  lkImageRegistry :: string
  lkNamespace :: string
  lkProxyAddress :: string
  lkControllerManagerUID :: string
  lkProxyAvailableReplicas :: int64
  lkImagePullSecret :: string
  lkTags :: tagmap
  lkTagAllowList :: "(string, string list) gomap"
  lkTagDenyList :: "(string, string list) gomap"
  lkTolerations :: "Toleration list"
  lkResources :: Resources
  lkConfigHash :: string

record PixieConfig =
  xkEnable :: bool
  xkShouldValidate :: bool
  xkTLSCertsSecretExists :: bool
  xkControllerManagerUID :: string
  xkClusterUUID :: string
  xkClusterName :: string
  xkNamespace :: string
  xkStirlingSources :: "string list"
  xkPEMResources :: Resources
  xkTableStoreLimits :: TableStoreLimits
  xkKelvinResources :: Resources
  xkQueryBrokerResources :: Resources
  xkNATSResources :: Resources
  xkMetadataResources :: Resources
  xkCertProvisionerJobResources :: Resources
  xkMaxHTTPBodyBytes :: int64

datatype component_config =
  ProxyC ProxyConfig | CollectorC CollectorComponent | AutotracingC AutotracingConfig | LoggingC LoggingConfig | PixieC PixieConfig

fun component_Name :: "component_config \<Rightarrow> string" where
  "component_Name (ProxyC c) = ''proxy''"
| "component_Name (CollectorC c) = ''collector''"
| "component_Name (AutotracingC c) = ''autotracing''"
| "component_Name (LoggingC c) = ''logging''"
| "component_Name (PixieC c) = ''pixie''"

definition proxy_FromWavefront :: "WavefrontSpec \<Rightarrow> ProxyConfig" where
  "proxy_FromWavefront spec =
     \<lparr>pkEnable = wpEnable (deWavefrontProxy (wsDataExport spec)),
      pkShouldValidate = wpEnable (deWavefrontProxy (wsDataExport spec)),
      pkControllerManagerUID = wsControllerManagerUID spec,
      pkNamespace = wsNamespace spec,
      pkClusterName = wsClusterName spec,
      pkClusterUUID = wsClusterUUID spec,
      pkImageRegistry = wsImageRegistry spec,
      pkWavefrontTokenSecret = wsWavefrontTokenSecret spec,
      pkWavefrontUrl = wsWavefrontUrl spec,
      pkResources = wpResources (deWavefrontProxy (wsDataExport spec)),
      pkMetricPort = wpMetricPort (deWavefrontProxy (wsDataExport spec)),
      pkProxyVersion = wpProxyVersion (deWavefrontProxy (wsDataExport spec)),
      pkConfigHash = wpConfigHash (deWavefrontProxy (wsDataExport spec)),
      pkReplicas = wpReplicas (deWavefrontProxy (wsDataExport spec)),
      pkOpenshift = wsOpenshift spec,
      pkSecretHash = wpSecretHash (deWavefrontProxy (wsDataExport spec)),
      pkImagePullSecret = wsImagePullSecret spec,
      pkLoggingEnable = lgEnable (dcLogging (wsDataCollection spec)),
      pkDeltaCounterPort = wpDeltaCounterPort (deWavefrontProxy (wsDataExport spec)),
      pkArgs = wpArgs (deWavefrontProxy (wsDataExport spec)),
      pkHttpProxy = wpHttpProxy (deWavefrontProxy (wsDataExport spec)),
      pkOTLP = wpOTLP (deWavefrontProxy (wsDataExport spec)),
      pkHistogram = wpHistogram (deWavefrontProxy (wsDataExport spec)),
      pkTracing = wpTracing (deWavefrontProxy (wsDataExport spec)),
      pkAuth = wpAuth (deWavefrontProxy (wsDataExport spec)),
      pkPreprocessorRules = wpPreprocessorRules (deWavefrontProxy (wsDataExport spec))\<rparr>"

definition collector_FromWavefront :: "WavefrontSpec \<Rightarrow> CollectorComponent" where
  "collector_FromWavefront spec =
     \<lparr>ckEnable = (wsCanExportData spec) \<and>
         (mtEnable (dcMetrics (wsDataCollection spec))) \<or> (inEnable (exInsights (wsExperimental spec))),
      ckMetricsEnable = (wsCanExportData spec) \<and> (mtEnable (dcMetrics (wsDataCollection spec))),
      ckShouldValidate = (mtEnable (dcMetrics (wsDataCollection spec))) \<or> (inEnable (exInsights (wsExperimental spec))),
      ckControllerManagerUID = wsControllerManagerUID spec,
      ckClusterName = wsClusterName spec,
      ckClusterUUID = wsClusterUUID spec,
      ckDefaultCollectionInterval = mtDefaultCollectionInterval (dcMetrics (wsDataCollection spec)),
      ckProxyAddress = mtProxyAddress (dcMetrics (wsDataCollection spec)),
      ckNamespace = wsNamespace spec,
      ckProxyAvailableReplicas = wpAvailableReplicas (deWavefrontProxy (wsDataExport spec)),
      ckImageRegistry = wsImageRegistry spec,
      ckCollectorVersion = mtCollectorVersion (dcMetrics (wsDataCollection spec)),
      ckClusterCollectorResources = coResources (mtClusterCollector (dcMetrics (wsDataCollection spec))),
      ckNodeCollectorResources = coResources (mtNodeCollector (dcMetrics (wsDataCollection spec))),
      ckCollectorConfigName = mtCollectorConfigName (dcMetrics (wsDataCollection spec)),
      ckCustomConfig = mtCustomConfig (dcMetrics (wsDataCollection spec)),
      ckFilters = mtFilters (dcMetrics (wsDataCollection spec)),
      ckEnableDiscovery = mtEnableDiscovery (dcMetrics (wsDataCollection spec)),
      ckTags = mtTags (dcMetrics (wsDataCollection spec)),
      ckKubernetesEvents = \<lparr>kvEnable = inEnable (exInsights (wsExperimental spec)),
         kvIngestionUrl = inIngestionUrl (exInsights (wsExperimental spec)),
         kvSecretName = inSecretName (exInsights (wsExperimental spec)),
         kvSecretTokenKey = inSecretTokenKey (exInsights (wsExperimental spec))\<rparr>,
      ckControlPlane = mtControlPlane (dcMetrics (wsDataCollection spec)),
      ckOpenshift = wsOpenshift spec,
      ckTolerations = dcTolerations (wsDataCollection spec),
      ckImagePullSecret = wsImagePullSecret spec\<rparr>"

definition autotracing_FromWavefront :: "WavefrontSpec \<Rightarrow> AutotracingConfig" where
  "autotracing_FromWavefront spec =
     \<lparr>akEnable = (wsCanExportData spec) \<and>
         (shEnable (atPixieShared (exAutotracing (wsExperimental spec)))) \<and>
         (atCanExportAutotracingScripts (exAutotracing (wsExperimental spec))),
      akShouldValidate = (shEnable (atPixieShared (exAutotracing (wsExperimental spec)))) \<and>
         (atCanExportAutotracingScripts (exAutotracing (wsExperimental spec))),
      akControllerManagerUID = wsControllerManagerUID spec,
      akNamespace = wsNamespace spec\<rparr>"

definition logging_FromWavefront :: "WavefrontSpec \<Rightarrow> LoggingConfig" where
  "logging_FromWavefront spec =
     \<lparr>lkEnable = (wsCanExportData spec) \<and> (lgEnable (dcLogging (wsDataCollection spec))),
      lkShouldValidate = lgEnable (dcLogging (wsDataCollection spec)),
      lkClusterName = wsClusterName spec,
      lkLoggingVersion = lgLoggingVersion (dcLogging (wsDataCollection spec)),
      lkImageRegistry = wsImageRegistry spec,
      lkNamespace = wsNamespace spec,
      lkProxyAddress = lgProxyAddress (dcLogging (wsDataCollection spec)),
      lkControllerManagerUID = wsControllerManagerUID spec,
      lkProxyAvailableReplicas = wpAvailableReplicas (deWavefrontProxy (wsDataExport spec)),
      lkImagePullSecret = wsImagePullSecret spec,
      lkTags = lgTags (dcLogging (wsDataCollection spec)),
      lkTagAllowList = lfTagAllowList (lgFilters (dcLogging (wsDataCollection spec))),
      lkTagDenyList = lfTagDenyList (lgFilters (dcLogging (wsDataCollection spec))),
      lkTolerations = dcTolerations (wsDataCollection spec),
      lkResources = lgResources (dcLogging (wsDataCollection spec)),
      lkConfigHash = ''''\<rparr>"

definition pixie_base :: "WavefrontSpec \<Rightarrow> PixieConfig" where
  "pixie_base spec =
     \<lparr>xkEnable = (shEnable (hbPixie (exHub (wsExperimental spec)))) \<or> (shEnable (atPixieShared (exAutotracing (wsExperimental spec)))),
      xkShouldValidate = (shEnable (hbPixie (exHub (wsExperimental spec)))) \<or> (shEnable (atPixieShared (exAutotracing (wsExperimental spec)))),
      xkTLSCertsSecretExists = False,
      xkControllerManagerUID = wsControllerManagerUID spec,
      xkClusterUUID = wsClusterUUID spec,
      xkClusterName = wsClusterName spec,
      xkNamespace = wsNamespace spec,
      xkStirlingSources = [],
      xkPEMResources = zeroResources,
      xkTableStoreLimits = \<lparr>tsTotalMiB = 0, tsHttpEventsPercent = 0\<rparr>,
      xkKelvinResources = zeroResources,
      xkQueryBrokerResources = zeroResources,
      xkNATSResources = zeroResources,
      xkMetadataResources = zeroResources,
      xkCertProvisionerJobResources = zeroResources,
      xkMaxHTTPBodyBytes = 0\<rparr>"

text \<open>The maps that give the resources of Pixie for a size of cluster; an unknown size reads as the zero value.\<close>

definition PEMResources :: "(string, Resources) gomap" where
  "PEMResources =
     [(''small'', \<lparr>rqRequests = \<lparr>rsCPU = ''100m'', rsMemory = ''300Mi'', rsEphemeralStorage = ''''\<rparr>,
        rqLimits = \<lparr>rsCPU = ''500m'', rsMemory = ''500Mi'', rsEphemeralStorage = ''''\<rparr>\<rparr>),
      (''medium'', \<lparr>rqRequests = \<lparr>rsCPU = ''500m'', rsMemory = ''500Mi'', rsEphemeralStorage = ''''\<rparr>,
        rqLimits = \<lparr>rsCPU = ''1'', rsMemory = ''600Mi'', rsEphemeralStorage = ''''\<rparr>\<rparr>),
      (''large'', \<lparr>rqRequests = \<lparr>rsCPU = ''1'', rsMemory = ''600Mi'', rsEphemeralStorage = ''''\<rparr>,
        rqLimits = \<lparr>rsCPU = ''2'', rsMemory = ''750Mi'', rsEphemeralStorage = ''''\<rparr>\<rparr>)]"

definition table_TableStoreLimits :: "(string, TableStoreLimits) gomap" where
  "table_TableStoreLimits =
     [(''small'', \<lparr>tsTotalMiB = 50, tsHttpEventsPercent = 20\<rparr>),
      (''medium'', \<lparr>tsTotalMiB = 150, tsHttpEventsPercent = 20\<rparr>),
      (''large'', \<lparr>tsTotalMiB = 200, tsHttpEventsPercent = 20\<rparr>)]"

definition KelvinResources :: "(string, Resources) gomap" where
  "KelvinResources =
     [(''small'', \<lparr>rqRequests = \<lparr>rsCPU = ''50m'', rsMemory = ''50Mi'', rsEphemeralStorage = ''''\<rparr>,
        rqLimits = \<lparr>rsCPU = ''100m'', rsMemory = ''100Mi'', rsEphemeralStorage = ''''\<rparr>\<rparr>),
      (''medium'', \<lparr>rqRequests = \<lparr>rsCPU = ''100m'', rsMemory = ''100Mi'', rsEphemeralStorage = ''''\<rparr>,
        rqLimits = \<lparr>rsCPU = ''1'', rsMemory = ''1Gi'', rsEphemeralStorage = ''''\<rparr>\<rparr>),
      (''large'', \<lparr>rqRequests = \<lparr>rsCPU = ''1'', rsMemory = ''1Gi'', rsEphemeralStorage = ''''\<rparr>,
        rqLimits = \<lparr>rsCPU = ''2'', rsMemory = ''10Gi'', rsEphemeralStorage = ''''\<rparr>\<rparr>)]"

definition QueryBrokerResources :: "(string, Resources) gomap" where
  "QueryBrokerResources =
     [(''small'', \<lparr>rqRequests = \<lparr>rsCPU = ''50m'', rsMemory = ''50Mi'', rsEphemeralStorage = ''''\<rparr>,
        rqLimits = \<lparr>rsCPU = ''500m'', rsMemory = ''128Mi'', rsEphemeralStorage = ''''\<rparr>\<rparr>),
      (''medium'', \<lparr>rqRequests = \<lparr>rsCPU = ''500m'', rsMemory = ''128Mi'', rsEphemeralStorage = ''''\<rparr>,
        rqLimits = \<lparr>rsCPU = ''1'', rsMemory = ''256Mi'', rsEphemeralStorage = ''''\<rparr>\<rparr>),
      (''large'', \<lparr>rqRequests = \<lparr>rsCPU = ''1'', rsMemory = ''256Mi'', rsEphemeralStorage = ''''\<rparr>,
        rqLimits = \<lparr>rsCPU = ''2'', rsMemory = ''512Mi'', rsEphemeralStorage = ''''\<rparr>\<rparr>)]"

definition NATSResources :: "(string, Resources) gomap" where
  "NATSResources =
     [(''small'', \<lparr>rqRequests = \<lparr>rsCPU = ''100m'', rsMemory = ''5Mi'', rsEphemeralStorage = ''''\<rparr>,
        rqLimits = \<lparr>rsCPU = ''500m'', rsMemory = ''25Mi'', rsEphemeralStorage = ''''\<rparr>\<rparr>),
      (''medium'', \<lparr>rqRequests = \<lparr>rsCPU = ''500m'', rsMemory = ''10Mi'', rsEphemeralStorage = ''''\<rparr>,
        rqLimits = \<lparr>rsCPU = ''1'', rsMemory = ''250Mi'', rsEphemeralStorage = ''''\<rparr>\<rparr>),
      (''large'', \<lparr>rqRequests = \<lparr>rsCPU = ''1'', rsMemory = ''250Mi'', rsEphemeralStorage = ''''\<rparr>,
        rqLimits = \<lparr>rsCPU = ''2'', rsMemory = ''500Mi'', rsEphemeralStorage = ''''\<rparr>\<rparr>)]"

definition MetadataResources :: "(string, Resources) gomap" where
  "MetadataResources =
     [(''small'', \<lparr>rqRequests = \<lparr>rsCPU = ''25m'', rsMemory = ''128Mi'', rsEphemeralStorage = ''''\<rparr>,
        rqLimits = \<lparr>rsCPU = ''250m'', rsMemory = ''250Mi'', rsEphemeralStorage = ''''\<rparr>\<rparr>),
      (''medium'', \<lparr>rqRequests = \<lparr>rsCPU = ''250m'', rsMemory = ''250Mi'', rsEphemeralStorage = ''''\<rparr>,
        rqLimits = \<lparr>rsCPU = ''500m'', rsMemory = ''1Gi'', rsEphemeralStorage = ''''\<rparr>\<rparr>),
      (''large'', \<lparr>rqRequests = \<lparr>rsCPU = ''500m'', rsMemory = ''1Gi'', rsEphemeralStorage = ''''\<rparr>,
        rqLimits = \<lparr>rsCPU = ''1'', rsMemory = ''2Gi'', rsEphemeralStorage = ''''\<rparr>\<rparr>)]"

definition CertProvisionerJobResources :: "(string, Resources) gomap" where
  "CertProvisionerJobResources =
     [(''small'', \<lparr>rqRequests = \<lparr>rsCPU = ''50m'', rsMemory = ''10Mi'', rsEphemeralStorage = ''''\<rparr>,
        rqLimits = \<lparr>rsCPU = ''100m'', rsMemory = ''100Mi'', rsEphemeralStorage = ''''\<rparr>\<rparr>),
      (''medium'', \<lparr>rqRequests = \<lparr>rsCPU = ''50m'', rsMemory = ''10Mi'', rsEphemeralStorage = ''''\<rparr>,
        rqLimits = \<lparr>rsCPU = ''100m'', rsMemory = ''100Mi'', rsEphemeralStorage = ''''\<rparr>\<rparr>),
      (''large'', \<lparr>rqRequests = \<lparr>rsCPU = ''50m'', rsMemory = ''10Mi'', rsEphemeralStorage = ''''\<rparr>,
        rqLimits = \<lparr>rsCPU = ''100m'', rsMemory = ''100Mi'', rsEphemeralStorage = ''''\<rparr>\<rparr>)]"

definition sized :: "(string, Resources) gomap \<Rightarrow> string \<Rightarrow> Resources" where
  "sized table clusterSize = (case mget table clusterSize of None \<Rightarrow> zeroResources | Some r \<Rightarrow> r)"

definition pixie_defaultResources :: "string \<Rightarrow> PixieConfig \<Rightarrow> PixieConfig" where
  "pixie_defaultResources clusterSize config =
     config\<lparr>xkPEMResources := sized PEMResources clusterSize,
            xkTableStoreLimits := (case mget table_TableStoreLimits clusterSize of
               None \<Rightarrow> \<lparr>tsTotalMiB = 0, tsHttpEventsPercent = 0\<rparr> | Some l \<Rightarrow> l),
            xkKelvinResources := sized KelvinResources clusterSize,
            xkQueryBrokerResources := sized QueryBrokerResources clusterSize,
            xkNATSResources := sized NATSResources clusterSize,
            xkMetadataResources := sized MetadataResources clusterSize,
            xkCertProvisionerJobResources := sized CertProvisionerJobResources clusterSize\<rparr>"

definition HubSources :: "string list" where
  "HubSources = [''socket_tracer'', ''network_stats'', ''process_stats'']"

definition AutoTracingSources :: "string list" where
  "AutoTracingSources = [''socket_tracer'']"

definition PixieTLSCertsName :: string where "PixieTLSCertsName = ''service-tls-certs''"
definition PixieCertProvisionerJobName :: string where "PixieCertProvisionerJobName = ''cert-provisioner-job''"

definition pixie_FromWavefront :: "cluster_api \<Rightarrow> WavefrontSpec \<Rightarrow> PixieConfig" where
  "pixie_FromWavefront api spec =
     (let config = pixie_defaultResources (wsClusterSize spec) (pixie_base spec);
          limits = pxTableStoreLimits (exPixie (wsExperimental spec));
          config = (if \<not> TableStoreLimits_IsEmpty limits then config\<lparr>xkTableStoreLimits := limits\<rparr> else config);
          config = (if shEnable (hbPixie (exHub (wsExperimental spec))) then config\<lparr>xkStirlingSources := HubSources\<rparr>
                    else if shEnable (atPixieShared (exAutotracing (wsExperimental spec)))
                    then config\<lparr>xkStirlingSources := AutoTracingSources\<rparr> else config)
      in if isl (apSecret api (wsNamespace spec) PixieTLSCertsName) then config else config\<lparr>xkTLSCertsSecretExists := True\<rparr>)"

definition StirlingSourcesEnv :: "PixieConfig \<Rightarrow> string" where
  "StirlingSourcesEnv c = Join '','' (xkStirlingSources c)"

definition default_node_resources :: Resources where
  "default_node_resources =
     \<lparr>rqRequests = \<lparr>rsCPU = ''200m'', rsMemory = ''10Mi'', rsEphemeralStorage = ''20Mi''\<rparr>,
      rqLimits = \<lparr>rsCPU = ''1000m'', rsMemory = ''256Mi'', rsEphemeralStorage = ''512Mi''\<rparr>\<rparr>"

definition default_cluster_resources :: Resources where
  "default_cluster_resources =
     \<lparr>rqRequests = \<lparr>rsCPU = ''200m'', rsMemory = ''10Mi'', rsEphemeralStorage = ''20Mi''\<rparr>,
      rqLimits = \<lparr>rsCPU = ''2000m'', rsMemory = ''512Mi'', rsEphemeralStorage = ''1Gi''\<rparr>\<rparr>"

definition collector_defaultResources :: "CollectorComponent \<Rightarrow> CollectorComponent" where
  "collector_defaultResources config =
     (let config = (if Resources_IsEmpty (ckNodeCollectorResources config)
                    then config\<lparr>ckNodeCollectorResources := default_node_resources\<rparr> else config)
      in if Resources_IsEmpty (ckClusterCollectorResources config)
         then config\<lparr>ckClusterCollectorResources := default_cluster_resources\<rparr> else config)"

section \<open>Construction\<close>

text \<open>\<open>marshal\<close> is \<open>json.Marshal\<close> of a configuration, \<open>sha1\<close> the hash in hexadecimal.\<close>

definition proxy_NewComponent ::
  "(component_config \<Rightarrow> string + string) \<Rightarrow> (string \<Rightarrow> string) \<Rightarrow> ProxyConfig \<Rightarrow> string + component_config" where
  "proxy_NewComponent marshal sha1 config =
     (case marshal (ProxyC config) of
        Inl e \<Rightarrow> Inl ''proxy: problem calculating config hash''
      | Inr bytes \<Rightarrow> Inr (ProxyC (config\<lparr>pkConfigHash := sha1 bytes\<rparr>)))"

definition logging_NewComponent ::
  "(component_config \<Rightarrow> string + string) \<Rightarrow> (string \<Rightarrow> string) \<Rightarrow> LoggingConfig \<Rightarrow> string + component_config" where
  "logging_NewComponent marshal sha1 config =
     (case marshal (LoggingC config) of
        Inl e \<Rightarrow> Inl ''logging: problem calculating config hash''
      | Inr bytes \<Rightarrow> Inr (LoggingC (config\<lparr>lkConfigHash := sha1 bytes\<rparr>)))"

definition BuildComponents ::
  "(component_config \<Rightarrow> string + string) \<Rightarrow> (string \<Rightarrow> string) \<Rightarrow> cluster_api \<Rightarrow> WavefrontSpec \<Rightarrow>
   string + component_config list" where
  "BuildComponents marshal sha1 api spec =
     (case proxy_NewComponent marshal sha1 (proxy_FromWavefront spec) of
        Inl e \<Rightarrow> Inl e
      | Inr proxy \<Rightarrow>
          (case logging_NewComponent marshal sha1 (logging_FromWavefront spec) of
             Inl e \<Rightarrow> Inl e
           | Inr logging \<Rightarrow>
               Inr [proxy, CollectorC (collector_defaultResources (collector_FromWavefront spec)),
                    AutotracingC (autotracing_FromWavefront spec), logging, PixieC (pixie_FromWavefront api spec)]))"

section \<open>Validation\<close>

definition missing :: "string \<Rightarrow> bool \<Rightarrow> string \<Rightarrow> string list" where
  "missing component absent what = (if absent then [component @ '': missing '' @ what] else [])"

definition bad_resources ::
  "(string list \<Rightarrow> string) \<Rightarrow> (string \<Rightarrow> rat option) \<Rightarrow> string \<Rightarrow> Resources \<Rightarrow> string \<Rightarrow> string list" where
  "bad_resources aggregate pq component resources name =
     (let result = ValidateResources pq resources name
      in if IsError result then [component @ '': '' @ Message aggregate result] else [])"

fun component_Validate :: "(string list \<Rightarrow> string) \<Rightarrow> (string \<Rightarrow> rat option) \<Rightarrow> component_config \<Rightarrow> vresult" where
  "component_Validate aggregate pq (ProxyC c) =
     (if \<not> pkShouldValidate c then validResult
      else NewValidationResult
        (missing ''proxy'' (length (pkControllerManagerUID c) = 0) ''controller manager uid'' @
         missing ''proxy'' (length (pkNamespace c) = 0) ''namespace'' @
         missing ''proxy'' (length (pkClusterName c) = 0) ''cluster name'' @
         missing ''proxy'' (length (pkClusterUUID c) = 0) ''cluster uuid'' @
         missing ''proxy'' (length (pkImageRegistry c) = 0) ''image registry'' @
         missing ''proxy'' (length (pkWavefrontTokenSecret c) = 0) ''wavefront token secret'' @
         missing ''proxy'' (length (pkWavefrontUrl c) = 0) ''wavefront url'' @
         bad_resources aggregate pq ''proxy'' (pkResources c) ProxyName @
         missing ''proxy'' (pkMetricPort c = 0) ''metric port'' @
         missing ''proxy'' (length (pkProxyVersion c) = 0) ''proxy version'' @
         missing ''proxy'' (length (pkConfigHash c) = 0) ''config hash''))"
| "component_Validate aggregate pq (CollectorC c) =
     (if \<not> ckShouldValidate c then validResult
      else NewValidationResult
        (missing ''collector'' (length (ckControllerManagerUID c) = 0) ''controller manager uid'' @
         missing ''collector'' (length (ckNamespace c) = 0) ''namespace'' @
         bad_resources aggregate pq ''collector'' (ckClusterCollectorResources c) ClusterCollectorName @
         bad_resources aggregate pq ''collector'' (ckNodeCollectorResources c) NodeCollectorName @
         (if kvEnable (ckKubernetesEvents c)
          then missing ''collector'' (length (kvIngestionUrl (ckKubernetesEvents c)) = 0) ''insights ingestion url'' else [])))"
| "component_Validate aggregate pq (AutotracingC c) =
     (if \<not> akShouldValidate c then validResult
      else NewValidationResult
        (missing ''autotracing'' (length (akControllerManagerUID c) = 0) ''controller manager uid'' @
         missing ''autotracing'' (length (akNamespace c) = 0) ''namespace''))"
| "component_Validate aggregate pq (LoggingC c) =
     (if \<not> lkShouldValidate c then validResult
      else NewValidationResult
        (missing ''logging'' (length (lkControllerManagerUID c) = 0) ''controller manager uid'' @
         missing ''logging'' (length (lkClusterName c) = 0) ''cluster name'' @
         missing ''logging'' (length (lkNamespace c) = 0) ''namespace'' @
         missing ''logging'' (length (lkLoggingVersion c) = 0) ''log image version'' @
         missing ''logging'' (length (lkImageRegistry c) = 0) ''image registry'' @
         (if length (lkProxyAddress c) = 0 then missing ''logging'' True ''proxy address''
          else if \<not> HasPrefix (lkProxyAddress c) ''http''
          then [''logging: proxy address ('' @ lkProxyAddress c @ '') must start with http''] else []) @
         bad_resources aggregate pq ''logging'' (lkResources c) LoggingName))"
| "component_Validate aggregate pq (PixieC c) =
     (if \<not> xkShouldValidate c then validResult
      else NewValidationResult
        (missing ''pixie'' (length (xkControllerManagerUID c) = 0) ''controller manager uid'' @
         missing ''pixie'' (length (xkClusterUUID c) = 0) ''cluster uuid'' @
         missing ''pixie'' (length (xkClusterName c) = 0) ''cluster name'' @
         bad_resources aggregate pq ''pixie'' (xkPEMResources c) PixieVizierPEMName))"

end
