(* ===== verification/Operator_Resources.thy ===== *)
theory Operator_Resources
  imports Operator_Components
begin

text \<open>
  The objects of a component (\<open>operator/components/component.go\<close> and \<open>operator/components/patch\<close>): every template of
  its directory is rendered, patched with the owner, the labels, the resources of the component and the overrides of
  the custom resource, in this order, and put with the objects to apply or those to delete. Of an object the
  model has the fields that the patches read or write; \<open>koRest\<close> stands for the others.
\<close>

record k8s_container =
  kbLimits :: tagmap
  kbRequests :: tagmap
  kbRest :: string

record k8s_template =
  ktLabels :: tagmap
  ktContainers :: "k8s_container list"

record k8s_object =
  koKind :: string
  koNamespace :: string
  koName :: string
  koLabels :: tagmap
  koAnnotations :: tagmap
  koOwner :: "string option"
  koTemplate :: "k8s_template option"
  koRest :: string

type_synonym patch = "k8s_object \<Rightarrow> k8s_object"

section \<open>Patches\<close>

definition ByName_Apply :: "(string, patch) gomap \<Rightarrow> patch" where
  "ByName_Apply patches resource = (case mget patches (koName resource) of None \<Rightarrow> resource | Some p \<Rightarrow> p resource)"

definition Composed_Apply :: "patch option list \<Rightarrow> patch" where
  "Composed_Apply patches resource =
     foldl (\<lambda>r p. case p of None \<Rightarrow> r | Some p \<Rightarrow> p r) resource patches"

definition set_if :: "string \<Rightarrow> string \<Rightarrow> tagmap \<Rightarrow> tagmap" where
  "set_if value key m = (if length value > 0 then mput key value m else m)"

definition mergeOverride :: "wfResource \<Rightarrow> tagmap \<Rightarrow> tagmap" where
  "mergeOverride override m =
     set_if (rsEphemeralStorage override) ''ephemeral-storage''
       (set_if (rsMemory override) ''memory'' (set_if (rsCPU override) ''cpu'' m))"

definition override_container :: "Resources \<Rightarrow> k8s_container \<Rightarrow> k8s_container" where
  "override_container override c =
     c\<lparr>kbLimits := mergeOverride (rqLimits override) (kbLimits c),
       kbRequests := mergeOverride (rqRequests override) (kbRequests c)\<rparr>"

definition ContainerResources_Apply :: "Resources \<Rightarrow> patch" where
  "ContainerResources_Apply override resource =
     (case koTemplate resource of
        None \<Rightarrow> resource
      | Some t \<Rightarrow>
          (case ktContainers t of
             [] \<Rightarrow> resource
           | c # cs \<Rightarrow> resource\<lparr>koTemplate := Some (t\<lparr>ktContainers := override_container override c # cs\<rparr>)\<rparr>))"

definition updateComponentLabels :: "string \<Rightarrow> tagmap \<Rightarrow> tagmap" where
  "updateComponentLabels componentName labels =
     (let labels = mput ''app.kubernetes.io/name'' ''wavefront'' labels
      in if mgets labels ''app.kubernetes.io/component'' = ''''
         then mput ''app.kubernetes.io/component'' componentName labels else labels)"

definition setResourceComponentLabels :: "string \<Rightarrow> patch" where
  "setResourceComponentLabels componentName resource =
     resource\<lparr>koLabels := updateComponentLabels componentName (koLabels resource)\<rparr>"

definition setTemplateComponentLabels :: "string \<Rightarrow> patch" where
  "setTemplateComponentLabels componentName resource =
     (case koTemplate resource of
        None \<Rightarrow> resource
      | Some t \<Rightarrow> resource\<lparr>koTemplate := Some (t\<lparr>ktLabels := updateComponentLabels componentName (ktLabels t)\<rparr>)\<rparr>)"

definition componentLabelsPatch :: "string \<Rightarrow> patch" where
  "componentLabelsPatch componentName resource =
     (let resource = setResourceComponentLabels componentName resource
      in if koTemplate resource \<noteq> None then setTemplateComponentLabels componentName resource else resource)"

definition ownerRefPatch :: "string \<Rightarrow> patch" where
  "ownerRefPatch managerUID resource = resource\<lparr>koOwner := Some managerUID\<rparr>"

section \<open>Building\<close>

text \<open>A directory is what \<open>fs.WalkDir\<close> visits, paths and whether each is a directory, or its first error.\<close>

record templates =
  tpWalk :: "string \<Rightarrow> string + (string \<times> bool) list"
  tpRender :: "string \<Rightarrow> component_config \<Rightarrow> string + k8s_object"

definition resourceFiles :: "templates \<Rightarrow> string \<Rightarrow> string + string list" where
  "resourceFiles tp dir =
     (case tpWalk tp dir of
        Inl e \<Rightarrow> Inl e
      | Inr es \<Rightarrow> Inr (map fst (filter (\<lambda>(path, isDir). \<not> isDir \<and> HasSuffix path ''.yaml'') es)))"

definition provision :: "bool \<Rightarrow> k8s_object \<Rightarrow> bool" where
  "provision enabled resource \<longleftrightarrow>
     enabled \<and> mgets (koAnnotations resource) ''wavefront.com/conditionally-provision'' \<noteq> ''false''"

definition build_file ::
  "templates \<Rightarrow> component_config \<Rightarrow> bool \<Rightarrow> patch \<Rightarrow> k8s_object list \<times> k8s_object list \<Rightarrow> string \<Rightarrow>
   string + k8s_object list \<times> k8s_object list" where
  "build_file tp dat enabled patch acc file =
     (case tpRender tp file dat of
        Inl e \<Rightarrow> Inl e
      | Inr resource \<Rightarrow>
          (let resource = patch resource
           in Inr (if provision enabled resource then (fst acc @ [resource], snd acc) else (fst acc, snd acc @ [resource]))))"

definition buildResources ::
  "templates \<Rightarrow> string \<Rightarrow> component_config \<Rightarrow> bool \<Rightarrow> patch \<Rightarrow> string + k8s_object list \<times> k8s_object list" where
  "buildResources tp dir dat enabled patch =
     (case resourceFiles tp dir of Inl e \<Rightarrow> Inl e | Inr files \<Rightarrow> foldM (build_file tp dat enabled patch) ([], []) files)"

definition all_patches :: "string \<Rightarrow> string \<Rightarrow> patch option \<Rightarrow> patch \<Rightarrow> patch" where
  "all_patches componentName managerUID componentPatches crPatches =
     Composed_Apply [Some (ownerRefPatch managerUID), Some (componentLabelsPatch componentName), componentPatches, Some crPatches]"

definition Build ::
  "templates \<Rightarrow> patch \<Rightarrow> string \<Rightarrow> string \<Rightarrow> bool \<Rightarrow> string \<Rightarrow> patch option \<Rightarrow> component_config \<Rightarrow>
   string + k8s_object list \<times> k8s_object list" where
  "Build tp crPatches dir componentName enabled managerUID componentPatches dat =
     buildResources tp dir dat enabled (all_patches componentName managerUID componentPatches crPatches)"

text \<open>Every component keeps its templates in a directory of its own name.\<close>

fun default_resources :: "component_config \<Rightarrow> (string, Resources) gomap option" where
  "default_resources (ProxyC c) = Some [(ProxyName, pkResources c)]"
| "default_resources (CollectorC c) =
     Some [(NodeCollectorName, ckNodeCollectorResources c), (ClusterCollectorName, ckClusterCollectorResources c)]"
| "default_resources (AutotracingC c) = None"
| "default_resources (LoggingC c) = Some [(LoggingName, lkResources c)]"
| "default_resources (PixieC c) =
     Some [(PixieVizierPEMName, xkPEMResources c), (PixieVizierQueryBrokerName, xkQueryBrokerResources c),
           (PixieNatsName, xkNATSResources c), (PixieKelvinName, xkKelvinResources c),
           (PixieVizierMetadataName, xkMetadataResources c),
           (PixieCertProvisionerJobName, xkCertProvisionerJobResources c)]"

definition resources_patch :: "(string, Resources) gomap \<Rightarrow> patch" where
  "resources_patch rs = ByName_Apply (map (\<lambda>(n, r). (n, ContainerResources_Apply r)) rs)"

fun enabled_and_uid :: "component_config \<Rightarrow> bool \<times> string" where
  "enabled_and_uid (ProxyC c) = (pkEnable c, pkControllerManagerUID c)"
| "enabled_and_uid (CollectorC c) = (ckEnable c, ckControllerManagerUID c)"
| "enabled_and_uid (AutotracingC c) = (akEnable c, akControllerManagerUID c)"
| "enabled_and_uid (LoggingC c) = (lkEnable c, lkControllerManagerUID c)"
| "enabled_and_uid (PixieC c) = (xkEnable c, xkControllerManagerUID c)"

definition component_Resources ::
  "templates \<Rightarrow> patch \<Rightarrow> component_config \<Rightarrow> string + k8s_object list \<times> k8s_object list" where
  "component_Resources tp crPatches c =
     Build tp crPatches (component_Name c) (component_Name c) (fst (enabled_and_uid c)) (snd (enabled_and_uid c))
       (map_option resources_patch (default_resources c)) c"

section \<open>What is built\<close>

definition res_key :: "wfResource \<Rightarrow> string \<Rightarrow> string" where
  "res_key r key = (if key = ''cpu'' then rsCPU r else if key = ''memory'' then rsMemory r
     else if key = ''ephemeral-storage'' then rsEphemeralStorage r else '''')"

text \<open>The limits and the requests of the first container; an object without one has none.\<close>

definition first_container :: "k8s_object \<Rightarrow> k8s_container option" where
  "first_container ob =
     (case koTemplate ob of None \<Rightarrow> None | Some t \<Rightarrow> (case ktContainers t of [] \<Rightarrow> None | c # cs \<Rightarrow> Some c))"

definition limit_of :: "k8s_object \<Rightarrow> string \<Rightarrow> string" where
  "limit_of ob key = (case first_container ob of None \<Rightarrow> '''' | Some c \<Rightarrow> mgets (kbLimits c) key)"

definition request_of :: "k8s_object \<Rightarrow> string \<Rightarrow> string" where
  "request_of ob key = (case first_container ob of None \<Rightarrow> '''' | Some c \<Rightarrow> mgets (kbRequests c) key)"

definition first_set :: "string list \<Rightarrow> string" where
  "first_set xs = (case filter (\<lambda>x. x \<noteq> '''') xs of [] \<Rightarrow> '''' | x # ys \<Rightarrow> x)"

definition from_table :: "(Resources \<Rightarrow> wfResource) \<Rightarrow> (string, Resources) gomap \<Rightarrow> string \<Rightarrow> string \<Rightarrow> string" where
  "from_table part table name key = (case mget table name of None \<Rightarrow> '''' | Some r \<Rightarrow> res_key (part r) key)"

lemma mgets_set_if: "mgets (set_if v k m) key = (if v \<noteq> '''' \<and> k = key then v else mgets m key)"
  by (simp add: set_if_def)

lemma mgets_mergeOverride: "mgets (mergeOverride r m) key = first_set [res_key r key, mgets m key]"
  by (auto simp: mergeOverride_def mgets_set_if res_key_def first_set_def)

lemma mget_map_value: "mget (map (\<lambda>(n, r). (n, f r)) m) k = map_option f (mget m k)"
  by (induction m) (auto simp: mget_Cons)

lemma resources_patch_eq:
  "resources_patch rs ob = (case mget rs (koName ob) of None \<Rightarrow> ob | Some r \<Rightarrow> ContainerResources_Apply r ob)"
  by (simp add: resources_patch_def ByName_Apply_def mget_map_value split: option.split)

text \<open>What the patches keep of an object.\<close>

definition identity_of :: "k8s_object \<Rightarrow> string \<times> string \<times> string \<times> tagmap \<times> string" where
  "identity_of ob = (koKind ob, koNamespace ob, koName ob, koAnnotations ob, koRest ob)"

definition marks_of :: "k8s_object \<Rightarrow> tagmap \<times> string option" where
  "marks_of ob = (koLabels ob, koOwner ob)"

lemma ContainerResources_facts:
  "identity_of (ContainerResources_Apply r ob) = identity_of ob"
  "marks_of (ContainerResources_Apply r ob) = marks_of ob"
  "first_container (ContainerResources_Apply r ob) = map_option (override_container r) (first_container ob)"
  by (simp_all add: ContainerResources_Apply_def identity_of_def marks_of_def first_container_def
      split: option.splits list.splits)

lemma resources_patch_facts:
  "identity_of (resources_patch rs ob) = identity_of ob"
  "marks_of (resources_patch rs ob) = marks_of ob"
  "first_container (resources_patch rs ob) =
     (case mget rs (koName ob) of None \<Rightarrow> first_container ob | Some r \<Rightarrow> map_option (override_container r) (first_container ob))"
  by (simp_all add: resources_patch_eq ContainerResources_facts split: option.split)

definition marked :: "string \<Rightarrow> string \<Rightarrow> patch" where
  "marked componentName managerUID ob = componentLabelsPatch componentName (ownerRefPatch managerUID ob)"

lemma marked_facts:
  "identity_of (marked n uid ob) = identity_of ob"
  "marks_of (marked n uid ob) = (updateComponentLabels n (koLabels ob), Some uid)"
  "first_container (marked n uid ob) = first_container ob"
  by (simp_all add: marked_def componentLabelsPatch_def ownerRefPatch_def setResourceComponentLabels_def
      setTemplateComponentLabels_def identity_of_def marks_of_def first_container_def Let_def
      split: option.splits list.splits)

definition default_patch :: "(string, Resources) gomap option \<Rightarrow> patch" where
  "default_patch rs ob = (case rs of None \<Rightarrow> ob | Some rs \<Rightarrow> resources_patch rs ob)"

lemma default_patch_resources: "default_patch rs ob = resources_patch (case rs of None \<Rightarrow> [] | Some t \<Rightarrow> t) ob"
  by (simp add: default_patch_def resources_patch_eq mget_Nil split: option.split)

lemma all_patches_eq:
  "all_patches n uid (map_option resources_patch rs) (resources_patch overrides) ob =
     resources_patch overrides (default_patch rs (marked n uid ob))"
  by (simp add: all_patches_def Composed_Apply_def default_patch_def marked_def split: option.split)

abbreviation defaults_of :: "component_config \<Rightarrow> (string, Resources) gomap" where
  "defaults_of c \<equiv> case default_resources c of None \<Rightarrow> [] | Some t \<Rightarrow> t"

definition finished :: "(string, Resources) gomap \<Rightarrow> component_config \<Rightarrow> patch" where
  "finished overrides c =
     all_patches (component_Name c) (snd (enabled_and_uid c)) (map_option resources_patch (default_resources c))
       (resources_patch overrides)"

lemma identity_of_name: "identity_of a = identity_of b \<Longrightarrow> koName a = koName b \<and> koAnnotations a = koAnnotations b"
  by (simp add: identity_of_def)

lemma finished_facts:
  "identity_of (finished overrides c ob) = identity_of ob"
  "marks_of (finished overrides c ob) = (updateComponentLabels (component_Name c) (koLabels ob), Some (snd (enabled_and_uid c)))"
  by (simp_all add: finished_def all_patches_eq default_patch_resources resources_patch_facts marked_facts)

lemma first_set_Cons: "first_set (x # xs) = (if x = '''' then first_set xs else x)"
  by (simp add: first_set_def)

lemma first_set_Nil [simp]: "first_set [] = ''''"
  by (simp add: first_set_def)

definition override_by :: "(string, Resources) gomap \<Rightarrow> string \<Rightarrow> k8s_container \<Rightarrow> k8s_container" where
  "override_by table name k = (case mget table name of None \<Rightarrow> k | Some r \<Rightarrow> override_container r k)"

lemma override_by_mgets:
  "mgets (kbLimits (override_by table name k)) key = first_set [from_table rqLimits table name key, mgets (kbLimits k) key]"
  "mgets (kbRequests (override_by table name k)) key = first_set [from_table rqRequests table name key, mgets (kbRequests k) key]"
  by (simp_all add: override_by_def from_table_def override_container_def mgets_mergeOverride first_set_Cons
      split: option.split)

lemma patch_names [simp]:
  "koName (resources_patch rs ob) = koName ob" "koName (marked n uid ob) = koName ob"
  using identity_of_name resources_patch_facts(1) marked_facts(1) by blast+

lemma first_container_patch:
  "first_container (resources_patch rs ob) = map_option (override_by rs (koName ob)) (first_container ob)"
  by (cases "first_container ob") (simp_all add: resources_patch_facts override_by_def split: option.split)

lemma finished_container:
  "first_container (finished overrides c ob) =
     map_option (\<lambda>k. override_by overrides (koName ob) (override_by (defaults_of c) (koName ob) k)) (first_container ob)"
  by (simp add: finished_def all_patches_eq default_patch_resources first_container_patch marked_facts option.map_comp comp_def)

text \<open>The requirement that wins: the override of the custom resource, else the component's, else the template's.\<close>

lemma finished_requirements:
  "limit_of (finished overrides c ob) key =
     (if first_container ob = None then ''''
      else first_set [from_table rqLimits overrides (koName ob) key, from_table rqLimits (defaults_of c) (koName ob) key,
                      limit_of ob key])"
  "request_of (finished overrides c ob) key =
     (if first_container ob = None then ''''
      else first_set [from_table rqRequests overrides (koName ob) key, from_table rqRequests (defaults_of c) (koName ob) key,
                      request_of ob key])"
  by (simp_all add: limit_of_def request_of_def finished_container override_by_mgets first_set_Cons
      split: option.split)

section \<open>Building a component\<close>

definition rendered :: "templates \<Rightarrow> component_config \<Rightarrow> string + k8s_object list" where
  "rendered tp c =
     (case resourceFiles tp (component_Name c) of
        Inl e \<Rightarrow> Inl e | Inr files \<Rightarrow> foldM (\<lambda>obs f. map_sum id (\<lambda>ob. obs @ [ob]) (tpRender tp f c)) [] files)"

lemma build_loop:
  "foldM (build_file tp c enabled p) (map p (filter (provision enabled \<circ> p) obs), map p (filter (Not \<circ> provision enabled \<circ> p) obs)) files =
     map_sum id (\<lambda>obs. (map p (filter (provision enabled \<circ> p) obs), map p (filter (Not \<circ> provision enabled \<circ> p) obs)))
       (foldM (\<lambda>obs f. map_sum id (\<lambda>ob. obs @ [ob]) (tpRender tp f c)) obs files)"
proof (induction files arbitrary: obs)
  case (Cons f files)
  show ?case
  proof (cases "tpRender tp f c")
    case (Inr ob)
    then have "build_file tp c enabled p acc f =
        Inr (if provision enabled (p ob) then (fst acc @ [p ob], snd acc) else (fst acc, snd acc @ [p ob]))" for acc
      by (simp add: build_file_def Let_def)
    with Inr show ?thesis using Cons.IH [of "obs @ [ob]"] by (cases "provision enabled (p ob)") simp_all
  qed (simp add: build_file_def)
qed simp

lemma component_Resources_eq:
  "component_Resources tp (resources_patch overrides) c =
     map_sum id (\<lambda>obs. let ps = map (finished overrides c) obs; on = fst (enabled_and_uid c)
                         in (filter (provision on) ps, filter (\<lambda>p. \<not> provision on p) ps)) (rendered tp c)"
  using build_loop [of tp c "fst (enabled_and_uid c)" "finished overrides c" "[]"]
  by (auto simp: component_Resources_def Build_def buildResources_def rendered_def finished_def filter_map comp_def
      Let_def split: sum.split)


lemma provision_finished: "provision on (finished overrides c ob) = provision on ob"
  using identity_of_name [OF finished_facts(1) [of overrides c ob]] by (simp add: provision_def)

text \<open>C24: a component builds, or fails with the first error of its templates; when it builds, its objects are the
  rendered templates, in their order, split into those to apply (the component is on and the object not
  annotated away) and those to delete. A finished object keeps its kind, name and annotations, is owned by the operator,
  carries the label wavefront and its own component label or else the component's, and each limit and request of its
  first container is the override of the custom resource, else the default of the component, else what the
  template says.\<close>
theorem component_Resources_built:
  "component_Resources tp (resources_patch overrides) c =
     map_sum id (\<lambda>obs. (map (finished overrides c) (filter (provision (fst (enabled_and_uid c))) obs),
                        map (finished overrides c) (filter (\<lambda>ob. \<not> provision (fst (enabled_and_uid c)) ob) obs))) (rendered tp c) \<and>
   (\<forall>ob. let p = finished overrides c ob in
     identity_of p = identity_of ob \<and> koOwner p = Some (snd (enabled_and_uid c)) \<and>
     mgets (koLabels p) ''app.kubernetes.io/name'' = ''wavefront'' \<and>
     mgets (koLabels p) ''app.kubernetes.io/component'' =
       first_set [mgets (koLabels ob) ''app.kubernetes.io/component'', component_Name c] \<and>
     (first_container ob = None \<or>
       (\<forall>key. limit_of p key = first_set [from_table rqLimits overrides (koName ob) key,
                from_table rqLimits (defaults_of c) (koName ob) key, limit_of ob key] \<and>
              request_of p key = first_set [from_table rqRequests overrides (koName ob) key,
                from_table rqRequests (defaults_of c) (koName ob) key, request_of ob key])))"
proof -
  have "koLabels (finished overrides c ob) = updateComponentLabels (component_Name c) (koLabels ob)"
    "koOwner (finished overrides c ob) = Some (snd (enabled_and_uid c))" for ob
    using finished_facts(2) [of overrides c ob] by (simp_all add: marks_of_def)
  moreover have "mgets (updateComponentLabels n m) ''app.kubernetes.io/name'' = ''wavefront''"
    "mgets (updateComponentLabels n m) ''app.kubernetes.io/component'' =
       first_set [mgets m ''app.kubernetes.io/component'', n]" for n m
    by (simp_all add: updateComponentLabels_def Let_def first_set_Cons)
  moreover have "component_Resources tp (resources_patch overrides) c =
     map_sum id (\<lambda>obs. (map (finished overrides c) (filter (provision (fst (enabled_and_uid c))) obs),
                        map (finished overrides c) (filter (\<lambda>ob. \<not> provision (fst (enabled_and_uid c)) ob) obs))) (rendered tp c)"
    by (simp add: component_Resources_eq filter_map comp_def provision_finished Let_def)
  moreover have "first_container ob = None \<or>
       (\<forall>key. limit_of (finished overrides c ob) key = first_set [from_table rqLimits overrides (koName ob) key,
                from_table rqLimits (defaults_of c) (koName ob) key, limit_of ob key] \<and>
              request_of (finished overrides c ob) key = first_set [from_table rqRequests overrides (koName ob) key,
                from_table rqRequests (defaults_of c) (koName ob) key, request_of ob key])" for ob
    by (cases "first_container ob") (simp_all add: finished_requirements)
  ultimately show ?thesis by (simp only: finished_facts Let_def) blast
qed

end
