(* ===== verification/Operator_Metrics.thy ===== *)
theory Operator_Metrics
  imports Operator_Health
begin

text \<open>
  The metrics that the operator sends about itself (\<open>operator/internal/wavefront/metric\<close>): the common tags, the status and
  version metrics, and the connection that keeps the latest metric of each name and flushes them every minute.
  Senders come from a constructor that may fail; a sender is known by the number of its creation.
\<close>

record ometric =
  mxName :: string
  mxValue :: f64
  mxSource :: string
  mxTags :: tagmap
  mxComponent :: string

section \<open>Common tags (common.go, tags.go)\<close>

definition MaxTagLength :: int where "MaxTagLength = 255"

text \<open>Cutting a slice at a negative length panics.\<close>

definition truncate_tag :: "int \<Rightarrow> string \<times> string \<Rightarrow> (string \<times> string) option" where
  "truncate_tag maxLength tag =
     (let maxLen = maxLength - int (length (fst tag)) - 1
      in if int (length (snd tag)) > maxLen
         then if maxLen < 0 then None else Some (fst tag, take (nat maxLen) (snd tag))
         else Some tag)"

definition TruncateTags :: "int \<Rightarrow> tagmap \<Rightarrow> tagmap option" where
  "TruncateTags maxLength tags = those (map (truncate_tag maxLength) tags)"

definition Common_metric :: "string \<Rightarrow> ometric \<Rightarrow> ometric option" where
  "Common_metric clusterName m =
     map_option (\<lambda>tags. m\<lparr>mxSource := clusterName, mxTags := tags\<rparr>)
       (TruncateTags MaxTagLength (mput ''cluster'' clusterName (mxTags m)))"

definition Common :: "string \<Rightarrow> ometric list \<Rightarrow> ometric list option" where
  "Common clusterName ms = those (map (Common_metric clusterName) ms)"

section \<open>Status (status/metrics.go)\<close>

definition UNHEALTHY_VALUE :: f64 where "UNHEALTHY_VALUE = Fin 0"
definition INSTALLING_VALUE :: f64 where "INSTALLING_VALUE = Fin 1"
definition HEALTHY_VALUE :: f64 where "HEALTHY_VALUE = Fin 2"
definition NOT_ENABLED_VALUE :: f64 where "NOT_ENABLED_VALUE = Fin 3"

definition NotEnabled :: string where "NotEnabled = ''Not Enabled''"

definition filterComponents :: "ResourceStatus list \<Rightarrow> string list \<Rightarrow> ResourceStatus list" where
  "filterComponents statuses resourcesInComponent = filter (\<lambda>s. rtName s \<in> set resourcesInComponent) statuses"

definition resourcesPresent :: "ResourceStatus list \<Rightarrow> bool" where
  "resourcesPresent statuses = foldl (\<lambda>present s. True) False statuses"

definition resourcesHealthy :: "ResourceStatus list \<Rightarrow> bool" where
  "resourcesHealthy statuses = foldl (\<lambda>healthy s. healthy \<and> rtHealthy s) True statuses"

definition resourceInstalling :: "ResourceStatus list \<Rightarrow> bool" where
  "resourceInstalling statuses = foldl (\<lambda>installing s. installing \<or> rtInstalling s) False statuses"

definition resourceMessages :: "ResourceStatus list \<Rightarrow> string list" where
  "resourceMessages statuses = filter (\<lambda>m. length m > 0) (map rtMessage statuses)"

text \<open>The lower-case name of a component; the display names are plain ASCII.\<close>

definition code_between :: "nat \<Rightarrow> nat \<Rightarrow> char \<Rightarrow> bool" where
  "code_between m n c \<longleftrightarrow> m \<le> of_char c \<and> of_char c \<le> n"

definition to_lower :: "string \<Rightarrow> string" where
  "to_lower = map (\<lambda>c. if code_between 65 90 c then char_of (of_char c + (32 :: nat)) else c)"

definition componentStatusMetric :: "string list \<Rightarrow> string \<Rightarrow> ResourceStatus list \<Rightarrow> ometric" where
  "componentStatusMetric resourcesInComponent componentName statuses =
     (let cs = filterComponents statuses resourcesInComponent;
          messages = Join ''; '' (resourceMessages cs);
          r = (if \<not> resourcesPresent cs then (NotEnabled, componentName @ '' component is not enabled'', NOT_ENABLED_VALUE)
               else if resourcesHealthy cs then (Healthy, componentName @ '' component is healthy'', HEALTHY_VALUE)
               else if resourceInstalling cs then (Installing, messages, INSTALLING_VALUE)
               else (Unhealthy, messages, UNHEALTHY_VALUE));
          name = to_lower componentName
      in \<lparr>mxName = ''kubernetes.observability.'' @ name @ ''.status'', mxValue = snd (snd r), mxSource = '''',
          mxTags = [(''status'', fst r), (''message'', fst (snd r))], mxComponent = name\<rparr>)"

definition metricsStatus :: "WavefrontStatus \<Rightarrow> ometric" where
  "metricsStatus st = componentStatusMetric [ClusterCollectorName, NodeCollectorName] ''Metrics'' (stResourceStatuses st)"

definition loggingStatus :: "WavefrontStatus \<Rightarrow> ometric" where
  "loggingStatus st = componentStatusMetric [LoggingName] ''Logging'' (stResourceStatuses st)"

definition proxyStatus :: "WavefrontStatus \<Rightarrow> ometric" where
  "proxyStatus st = componentStatusMetric [ProxyName] ''Proxy'' (stResourceStatuses st)"

definition integrationStatus :: "WavefrontStatus \<Rightarrow> tagmap \<Rightarrow> string \<Rightarrow> ometric" where
  "integrationStatus st componentStatuses operatorVersion =
     (let tags = [(''version'', if length operatorVersion = 0 then ''unknown'' else operatorVersion)];
          tags = (if length (stMessage st) > 0 then mput ''message'' (stMessage st) tags else tags);
          tags = (if length (stStatus st) > 0 then mput ''status'' (stStatus st) tags else tags);
          healthy = (if stStatus st = Installing then INSTALLING_VALUE
                     else if stStatus st = Healthy then HEALTHY_VALUE else UNHEALTHY_VALUE)
      in \<lparr>mxName = ''kubernetes.observability.status'', mxValue = healthy, mxSource = '''',
          mxTags = mput_all componentStatuses tags, mxComponent = ''''\<rparr>)"

definition component_statuses :: "ometric list \<Rightarrow> tagmap" where
  "component_statuses ms =
     foldl (\<lambda>m x. case mget (mxTags x) ''status'' of None \<Rightarrow> m | Some v \<Rightarrow> mput (mxComponent x) v m) [] ms"

definition status_Metrics :: "string \<Rightarrow> string \<Rightarrow> WavefrontStatus \<Rightarrow> ometric list option" where
  "status_Metrics clusterName operatorVersion st =
     (let ms = [metricsStatus st, loggingStatus st, proxyStatus st]
      in Common clusterName (ms @ [integrationStatus st (component_statuses ms) operatorVersion]))"

section \<open>Version (version/metrics.go)\<close>

definition is_decimal :: "char \<Rightarrow> bool" where
  "is_decimal = code_between 48 57"

definition is_ident :: "char \<Rightarrow> bool" where
  "is_ident c \<longleftrightarrow> c = CHR ''-'' \<or> is_decimal c \<or> code_between 97 122 c \<or> code_between 65 90 c"

text \<open>The pattern \<open>0|[1-9]\d*\<close>, and those of the identifiers of a pre-release and of a build.\<close>

definition numeric :: "string \<Rightarrow> bool" where
  "numeric s \<longleftrightarrow> s \<noteq> [] \<and> list_all is_decimal s \<and> (s = ''0'' \<or> hd s \<noteq> CHR ''0'')"

definition pre_ident :: "string \<Rightarrow> bool" where
  "pre_ident s \<longleftrightarrow> numeric s \<or> list_all is_ident s \<and> list_ex (\<lambda>c. \<not> is_decimal c) s"

definition build_ident :: "string \<Rightarrow> bool" where
  "build_ident s \<longleftrightarrow> s \<noteq> [] \<and> list_all is_ident s"

text \<open>The text before and after the first occurrence of a character.\<close>

definition cut :: "char \<Rightarrow> string \<Rightarrow> string \<times> string option" where
  "cut c s = (takeWhile (\<lambda>d. d \<noteq> c) s, if c \<in> set s then Some (tl (dropWhile (\<lambda>d. d \<noteq> c) s)) else None)"

text \<open>The three numbers of a version that the expression matches. A plus can only start the build and, before it, a hyphen
  only the pre-release.\<close>

definition match_semver :: "string \<Rightarrow> (string \<times> string \<times> string) option" where
  "match_semver version =
     (let (rest, build) = cut (CHR ''+'') version;
          (core, pre) = cut (CHR ''-'') rest
      in case Split (CHR ''.'') core of
           [a, b, c] \<Rightarrow>
             (if numeric a \<and> numeric b \<and> numeric c \<and>
                 (case pre of None \<Rightarrow> True | Some p \<Rightarrow> list_all pre_ident (Split (CHR ''.'') p)) \<and>
                 (case build of None \<Rightarrow> True | Some p \<Rightarrow> list_all build_ident (Split (CHR ''.'') p))
              then Some (a, b, c) else None)
         | _ \<Rightarrow> None)"

definition digits_value :: "string \<Rightarrow> int" where
  "digits_value s = foldl (\<lambda>n c. 10 * n + (int (of_char c) - 48)) 0 s"

definition ParseFloat :: "string \<Rightarrow> f64" where
  "ParseFloat s = f64_of_int (digits_value s)"

definition versionOffset :: f64 where "versionOffset = rnd (1 / 100)"

definition encodeSemver :: "f64 \<Rightarrow> f64 \<Rightarrow> f64 \<Rightarrow> f64" where
  "encodeSemver major minor patch =
     fadd (fadd major (fmul minor versionOffset)) (fmul (fmul patch versionOffset) versionOffset)"

text \<open>An error, a panic of the common tags (\<open>Inr None\<close>), or the metric.\<close>

definition version_Metrics :: "string \<Rightarrow> string \<Rightarrow> string + ometric list option" where
  "version_Metrics clusterName version =
     (case match_semver version of
        None \<Rightarrow> Inl ''invalid version (must be in semantic version format)''
      | Some (a, b, c) \<Rightarrow>
          (if fle (Fin 100) (ParseFloat b) then Inl ''minor version is too large (must be less than 100)''
           else if fle (Fin 100) (ParseFloat c) then Inl ''patch version is too large (must be less than 100)''
           else Inr (Common clusterName
                  [\<lparr>mxName = ''kubernetes.observability.version'',
                    mxValue = encodeSemver (ParseFloat a) (ParseFloat b) (ParseFloat c),
                    mxSource = '''', mxTags = [], mxComponent = ''''\<rparr>])))"

section \<open>The connection (connection.go)\<close>

datatype sender_event = Opened nat string | Closed nat | Sent nat ometric | Flushed nat

record connection =
  cnAddr :: string
  cnSender :: "nat option"
  cnMetrics :: "(string, ometric) gomap"
  cnNext :: nat
  cnLog :: "sender_event list"

definition NewConnection :: connection where
  "NewConnection = \<lparr>cnAddr = '''', cnSender = None, cnMetrics = [], cnNext = 0, cnLog = []\<rparr>"

definition normalizeAddr :: "string \<Rightarrow> string" where
  "normalizeAddr addr = (if HasPrefix addr ''http://'' \<or> HasPrefix addr ''https://'' then addr else ''http://'' @ addr)"

definition closeUnsynchronized :: "connection \<Rightarrow> connection" where
  "closeUnsynchronized c =
     (case cnSender c of
        None \<Rightarrow> c\<lparr>cnAddr := ''''\<rparr>
      | Some s \<Rightarrow> c\<lparr>cnAddr := '''', cnSender := None, cnLog := cnLog c @ [Closed s]\<rparr>)"

definition conn_Connect :: "(string \<Rightarrow> string option) \<Rightarrow> string \<Rightarrow> connection \<Rightarrow> connection \<times> string option" where
  "conn_Connect newSender addr c =
     (let addr = normalizeAddr addr in
      if cnAddr c = addr then (c, None)
      else let c = closeUnsynchronized c
           in case newSender addr of
                Some e \<Rightarrow> (c, Some e)
              | None \<Rightarrow> (c\<lparr>cnAddr := addr, cnSender := Some (cnNext c), cnNext := cnNext c + 1,
                           cnLog := cnLog c @ [Opened (cnNext c) addr]\<rparr>, None))"

definition conn_Send :: "ometric list \<Rightarrow> connection \<Rightarrow> connection" where
  "conn_Send metrics c = c\<lparr>cnMetrics := foldl (\<lambda>d m. mput (mxName m) m d) (cnMetrics c) metrics\<rparr>"

definition conn_Close :: "connection \<Rightarrow> connection" where
  "conn_Close c = closeUnsynchronized c"

text \<open>A flush takes the sender and the metrics under the lock and sends them after releasing it.\<close>

definition extractBatch :: "connection \<Rightarrow> nat option \<times> ometric list" where
  "extractBatch c = (cnSender c, map snd (cnMetrics c))"

definition sendBatch :: "nat option \<times> ometric list \<Rightarrow> connection \<Rightarrow> connection" where
  "sendBatch batch c =
     (case fst batch of None \<Rightarrow> c | Some s \<Rightarrow> c\<lparr>cnLog := cnLog c @ map (Sent s) (snd batch) @ [Flushed s]\<rparr>)"

definition conn_Flush :: "connection \<Rightarrow> connection" where
  "conn_Flush c = sendBatch (extractBatch c) c"

section \<open>Flushing beside the reconciler\<close>

text \<open>
  The flush loop runs in its own goroutine: it takes a batch and delivers it later, and the reconciler may connect
  elsewhere or close in between. The second component is the batch that is taken and not yet delivered.
\<close>

type_synonym conn_state = "connection \<times> (nat option \<times> ometric list) option"

inductive conn_step :: "(string \<Rightarrow> string option) \<Rightarrow> conn_state \<Rightarrow> conn_state \<Rightarrow> bool" for newSender where
  connect: "conn_step newSender (c, b) (fst (conn_Connect newSender addr c), b)"
| send: "conn_step newSender (c, b) (conn_Send ms c, b)"
| close: "conn_step newSender (c, b) (conn_Close c, b)"
| collect: "conn_step newSender (c, None) (c, Some (extractBatch c))"
| deliver: "conn_step newSender (c, Some batch) (sendBatch batch c, None)"

inductive conn_reachable :: "(string \<Rightarrow> string option) \<Rightarrow> conn_state \<Rightarrow> bool" for newSender where
  start: "conn_reachable newSender (NewConnection, None)"
| more: "conn_reachable newSender s \<Longrightarrow> conn_step newSender s t \<Longrightarrow> conn_reachable newSender t"

inductive_cases conn_step_cases: "conn_step newSender s t"

fun closed_sender :: "sender_event \<Rightarrow> nat list" where
  "closed_sender (Closed s) = [s]" | "closed_sender e = []"

fun opened_sender :: "sender_event \<Rightarrow> nat list" where
  "opened_sender (Opened s a) = [s]" | "opened_sender e = []"

definition closed_senders :: "connection \<Rightarrow> nat list" where
  "closed_senders c = concat (map closed_sender (cnLog c))"

definition opened_senders :: "connection \<Rightarrow> nat list" where
  "opened_senders c = concat (map opened_sender (cnLog c))"

definition senders_accounted :: "connection \<Rightarrow> bool" where
  "senders_accounted c \<longleftrightarrow> opened_senders c = [0..<cnNext c] \<and>
     closed_senders c @ (case cnSender c of None \<Rightarrow> [] | Some s \<Rightarrow> [s]) = [0..<cnNext c] \<and>
     (cnSender c = None \<longleftrightarrow> cnAddr c = '''')"

lemma normalizeAddr_not_Nil [simp]: "normalizeAddr a \<noteq> ''''"
  by (cases a) (auto simp: normalizeAddr_def)

lemma accounted_close: "senders_accounted c \<Longrightarrow> senders_accounted (closeUnsynchronized c)"
  by (auto simp: senders_accounted_def closeUnsynchronized_def closed_senders_def opened_senders_def split: option.splits)

lemma closeUnsynchronized_sender [simp]: "cnSender (closeUnsynchronized c) = None"
  by (simp add: closeUnsynchronized_def split: option.split)

lemma accounted_connect: "senders_accounted c \<Longrightarrow> senders_accounted (fst (conn_Connect newSender a c))"
  using accounted_close [of c]
  by (auto simp: conn_Connect_def Let_def senders_accounted_def closed_senders_def opened_senders_def split: option.split)

lemma accounted_deliver: "senders_accounted c \<Longrightarrow> senders_accounted (sendBatch b c)"
proof -
  have none: "concat (map (\<lambda>x. []) ms) = []" for ms :: "ometric list"
    by (induction ms) simp_all
  show "senders_accounted c \<Longrightarrow> ?thesis"
    by (cases "fst b") (simp_all add: senders_accounted_def sendBatch_def closed_senders_def opened_senders_def comp_def none)
qed

lemma accounted_send: "senders_accounted c \<Longrightarrow> senders_accounted (conn_Send ms c)"
  by (simp add: senders_accounted_def conn_Send_def closed_senders_def opened_senders_def)

lemma accounted_new: "senders_accounted NewConnection"
  by (simp add: senders_accounted_def NewConnection_def closed_senders_def opened_senders_def)

lemmas accounted_intros = accounted_close accounted_connect accounted_deliver accounted_send

text \<open>C25: however connects, sends, closes and flushes interleave, every sender that was created is either the current
  one or has been closed, exactly once and in the order of creation: no sender leaks and none is closed twice; there is
  a current one iff an address is kept, so that a new connection to the same address creates nothing.\<close>
theorem connection_accounts:
  assumes "conn_reachable newSender (c, b)"
  shows "opened_senders c = [0..<cnNext c] \<and>
    closed_senders c @ (case cnSender c of None \<Rightarrow> [] | Some s \<Rightarrow> [s]) = [0..<cnNext c] \<and>
    (cnSender c = None) = (cnAddr c = '''')"
proof -
  have "senders_accounted (fst s)" if "conn_reachable newSender s" for s
    using that
  proof induction
    case start
    show ?case by (simp add: accounted_new)
  next
    case (more s t)
    from more.hyps(2) more.IH show ?case
      by cases (simp_all add: accounted_intros conn_Close_def)
  qed
  from this [OF assms] show ?thesis by (simp add: senders_accounted_def)
qed

theorem connection_accounts_witness:
  "let c = conn_Close (fst (conn_Connect (\<lambda>a. None) ''proxy:2878'' NewConnection))
   in opened_senders c = [0] \<and> closed_senders c = [0]"
proof -
  let ?c = "fst (conn_Connect (\<lambda>a. None) ''proxy:2878'' NewConnection)"
  have "conn_reachable (\<lambda>a. None) (conn_Close ?c, None)"
    by (rule conn_reachable.more [OF conn_reachable.more [OF conn_reachable.start conn_step.connect] conn_step.close])
  from connection_accounts [OF this] show ?thesis
    by (simp add: Let_def conn_Close_def closeUnsynchronized_def conn_Connect_def NewConnection_def normalizeAddr_def)
qed

text \<open>A batch that was taken before a close is delivered to the closed sender.\<close>
lemma flush_after_close:
  "\<exists>c. conn_reachable (\<lambda>a. None) (c, None) \<and> cnLog c = [Opened 0 ''http://a'', Closed 0, Flushed 0]"
proof -
  let ?c = "fst (conn_Connect (\<lambda>a. None) ''http://a'' NewConnection)"
  have "conn_reachable (\<lambda>a. None) (sendBatch (extractBatch ?c) (conn_Close ?c), None)"
    by (rule conn_reachable.more [OF conn_reachable.more [OF conn_reachable.more [OF conn_reachable.more
          [OF conn_reachable.start conn_step.connect] conn_step.collect] conn_step.close] conn_step.deliver])
  moreover have "cnLog (sendBatch (extractBatch ?c) (conn_Close ?c)) = [Opened 0 ''http://a'', Closed 0, Flushed 0]"
    by (simp add: sendBatch_def extractBatch_def conn_Close_def closeUnsynchronized_def conn_Connect_def NewConnection_def
        normalizeAddr_def Let_def)
  ultimately show ?thesis by blast
qed

section \<open>Tags\<close>

lemma TruncateTags_fits:
  "TruncateTags n tags = Some tags' \<Longrightarrow> (k, v) \<in> set tags' \<Longrightarrow> int (length k + 1 + length v) \<le> max n (int (length k + 1))"
  by (auto simp: TruncateTags_def those_Some list_all2_map1 list_all2_conv_all_nth in_set_conv_nth truncate_tag_def Let_def
      split: if_splits dest!: spec) 

end
