(* ===== verification/Operator_Reconcile.thy ===== *)
theory Operator_Reconcile
  imports Operator_Resources Operator_Metrics
begin

text \<open>
  The reconciler of the operator (\<open>operator/controllers/wavefront_controller.go\<close>) and the manager of the objects in the
  cluster (\<open>operator/internal/kubernetes/manager.go\<close>). The objects of the cluster are a map by kind, namespace and
  name; any call may fail with an error of its own. A merge patch of an object onto the stored one is \<open>merge\<close>.
  The record \<open>surroundings\<close> holds what one reconciliation sees of the outside.
\<close>

section \<open>Applying and deleting objects\<close>

type_synonym object_key = "string \<times> string \<times> string"
type_synonym store = "object_key \<Rightarrow> k8s_object option"

datatype verb = VGet | VCreate | VPatch | VDelete

definition key_of :: "k8s_object \<Rightarrow> object_key" where
  "key_of ob = (koKind ob, koNamespace ob, koName ob)"

record object_api =
  oaFails :: "verb \<Rightarrow> object_key \<Rightarrow> string option"
  oaMerge :: "k8s_object \<Rightarrow> k8s_object \<Rightarrow> k8s_object"

definition write_object :: "object_api \<Rightarrow> verb \<Rightarrow> object_key \<Rightarrow> k8s_object option \<Rightarrow> store \<Rightarrow> store \<times> string option" where
  "write_object oa v k x st = (case oaFails oa v k of Some e \<Rightarrow> (st, Some e) | None \<Rightarrow> (st(k := x), None))"

definition apply_one :: "object_api \<Rightarrow> k8s_object \<Rightarrow> store \<Rightarrow> store \<times> string option" where
  "apply_one oa resource st =
     (let k = key_of resource in
      case oaFails oa VGet k of
        Some e \<Rightarrow> (st, Some e)
      | None \<Rightarrow>
          (case st k of
             None \<Rightarrow> write_object oa VCreate k (Some resource) st
           | Some old \<Rightarrow> (if koKind resource \<noteq> ''Job'' then write_object oa VPatch k (Some (oaMerge oa old resource)) st
                         else (st, None))))"

text \<open>An object that is not found is no error to a deletion.\<close>

definition delete_one :: "object_api \<Rightarrow> k8s_object \<Rightarrow> store \<Rightarrow> store \<times> string option" where
  "delete_one oa resource st = write_object oa VDelete (key_of resource) None st"

fun until_error :: "('a \<Rightarrow> 's \<Rightarrow> 's \<times> string option) \<Rightarrow> 'a list \<Rightarrow> 's \<Rightarrow> 's \<times> string option" where
  "until_error f [] s = (s, None)"
| "until_error f (x # xs) s = (case f x s of (s', Some e) \<Rightarrow> (s', Some e) | (s', None) \<Rightarrow> until_error f xs s')"

definition ApplyResources :: "object_api \<Rightarrow> k8s_object list \<Rightarrow> store \<Rightarrow> store \<times> string option" where
  "ApplyResources oa = until_error (apply_one oa)"

definition DeleteResources :: "object_api \<Rightarrow> k8s_object list \<Rightarrow> store \<Rightarrow> store \<times> string option" where
  "DeleteResources oa = until_error (delete_one oa)"

section \<open>The reconciler\<close>

record Versions =
  vsOperator :: string
  vsCollector :: string
  vsProxy :: string
  vsLogging :: string

record surroundings =
  evGet :: "string + Wavefront option"
  evTemplates :: templates
  evMarshal :: "component_config \<Rightarrow> string + string"
  evAPI :: cluster_api
  evEncoders :: encoders
  evExists :: cluster
  evHealth :: api_server
  evNow :: gotime
  evQuantity :: "string \<Rightarrow> rat option"
  evAggregate :: "string list \<Rightarrow> string"
  evGroups :: "string + string list"
  evNewSender :: "string \<Rightarrow> string option"
  evObjects :: object_api
  evPatchStatus :: "string option"

record reconciler =
  rcVersions :: Versions
  rcClusterUUID :: string
  rcNamespace :: string
  rcComponents :: "component_config list"
  rcConnection :: connection
  rcStore :: store

datatype reconcile_result = Failed string | Gone | Requeue | RequeueAfter duration | Panicked

definition maxReconcileInterval :: duration where "maxReconcileInterval = 60 * Second"

definition isAnOpenshiftEnvironment :: "surroundings \<Rightarrow> bool" where
  "isAnOpenshiftEnvironment ev =
     (case evGroups ev of Inl e \<Rightarrow> False | Inr names \<Rightarrow> list_ex (\<lambda>n. Contains n ''openshift'') names)"

definition build_components :: "surroundings \<Rightarrow> WavefrontSpec \<Rightarrow> string + component_config list" where
  "build_components ev spec = BuildComponents (evMarshal ev) (enSHA1 (evEncoders ev)) (evAPI ev) spec"

text \<open>The objects of all components; a component that cannot build its objects is skipped with a log line.\<close>

definition readAndInterpolateResources ::
  "surroundings \<Rightarrow> component_config list \<Rightarrow> WavefrontSpec \<Rightarrow> k8s_object list \<times> k8s_object list" where
  "readAndInterpolateResources ev components spec =
     foldl (\<lambda>acc c. case component_Resources (evTemplates ev) (resources_patch (wsWorkloadResources spec)) c of
              Inl e \<Rightarrow> acc | Inr r \<Rightarrow> (fst acc @ fst r, snd acc @ snd r)) ([], []) components"

definition readAndCreateResources :: "surroundings \<Rightarrow> WavefrontSpec \<Rightarrow> reconciler \<Rightarrow> reconciler \<times> string option" where
  "readAndCreateResources ev spec rc =
     (let rs = readAndInterpolateResources ev (rcComponents rc) spec;
          (st, e) = ApplyResources (evObjects ev) (fst rs) (rcStore rc);
          rc = rc\<lparr>rcStore := st\<rparr>
      in case e of
           Some e \<Rightarrow> (rc, Some e)
         | None \<Rightarrow> (let (st, e) = DeleteResources (evObjects ev) (snd rs) (rcStore rc) in (rc\<lparr>rcStore := st\<rparr>, e)))"

definition specToDelete :: "string \<Rightarrow> WavefrontSpec" where
  "specToDelete namespace =
     map_logging (lgLoggingVersion_update (\<lambda>_. ''none''))
       (map_metrics (mtCollectorVersion_update (\<lambda>_. ''none''))
         (map_proxy (wpProxyVersion_update (\<lambda>_. ''none'')) (zeroSpec\<lparr>wsNamespace := namespace\<rparr>)))"

definition readAndDeleteResources :: "surroundings \<Rightarrow> reconciler \<Rightarrow> reconciler \<times> string option" where
  "readAndDeleteResources ev rc =
     (let rc = rc\<lparr>rcConnection := conn_Close (rcConnection rc)\<rparr>;
          spec = specToDelete (rcNamespace rc)
      in case build_components ev spec of
           Inl e \<Rightarrow> (rc\<lparr>rcComponents := []\<rparr>, Some e)
         | Inr cs \<Rightarrow>
             (let rc = rc\<lparr>rcComponents := cs\<rparr>;
                  rs = readAndInterpolateResources ev cs spec;
                  (st, e) = DeleteResources (evObjects ev) (fst rs @ snd rs) (rcStore rc)
              in (rc\<lparr>rcStore := st\<rparr>, e)))"

definition with_versions :: "reconciler \<Rightarrow> WavefrontSpec \<Rightarrow> WavefrontSpec" where
  "with_versions rc spec =
     map_logging (lgLoggingVersion_update (\<lambda>_. vsLogging (rcVersions rc)))
       (map_proxy (wpProxyVersion_update (\<lambda>_. vsProxy (rcVersions rc)))
         (map_metrics (mtCollectorVersion_update (\<lambda>_. vsCollector (rcVersions rc)))
           (spec\<lparr>wsNamespace := rcNamespace rc, wsClusterUUID := rcClusterUUID rc\<rparr>)))"

definition reconciler_preprocess ::
  "surroundings \<Rightarrow> Wavefront \<Rightarrow> reconciler \<Rightarrow> Wavefront \<times> reconciler \<times> string option" where
  "reconciler_preprocess ev w rc =
     (let (spec, err) = PreProcess (evAPI ev) (evEncoders ev) (with_versions rc (wfSpec w));
          w = w\<lparr>wfSpec := spec\<rparr>
      in case err of
           Some e \<Rightarrow> (w, rc, Some e)
         | None \<Rightarrow>
             (let (conn, err) = (if wsCanExportData spec
                                 then conn_Connect (evNewSender ev) (mtProxyAddress (the_metrics spec)) (rcConnection rc)
                                 else (rcConnection rc, None));
                  rc = rc\<lparr>rcConnection := conn\<rparr>
              in case err of
                   Some e \<Rightarrow> (w, rc, Some (''error setting up proxy connection: '' @ e))
                 | None \<Rightarrow>
                     (let w = (if isAnOpenshiftEnvironment ev then w\<lparr>wfSpec := (wfSpec w)\<lparr>wsOpenshift := True\<rparr>\<rparr> else w)
                      in case build_components ev (wfSpec w) of
                           Inl e \<Rightarrow> (w, rc\<lparr>rcComponents := []\<rparr>, Some e)
                         | Inr cs \<Rightarrow> (w, rc\<lparr>rcComponents := cs\<rparr>, None))))"

fun validate_components :: "(component_config \<Rightarrow> vresult) \<Rightarrow> vresult \<Rightarrow> component_config list \<Rightarrow> vresult" where
  "validate_components v r [] = r"
| "validate_components v r (c # cs) = (if IsError (v c) then v c else validate_components v (v c) cs)"

definition reconciler_validate :: "surroundings \<Rightarrow> Wavefront \<Rightarrow> reconciler \<Rightarrow> vresult" where
  "reconciler_validate ev w rc =
     (let result = validate_components (component_Validate (evAggregate ev) (evQuantity ev)) validResult (rcComponents rc)
      in if IsError result then result else Validate (evExists ev) (evQuantity ev) w)"

definition reportMetrics :: "bool \<Rightarrow> string \<Rightarrow> string \<Rightarrow> WavefrontStatus \<Rightarrow> connection \<Rightarrow> connection option" where
  "reportMetrics sendStatusMetrics operatorVersion clusterName st conn =
     (case if sendStatusMetrics then status_Metrics clusterName operatorVersion st else Some [] of
        None \<Rightarrow> None
      | Some ms \<Rightarrow>
          (case version_Metrics clusterName operatorVersion of
             Inl e \<Rightarrow> Some (conn_Send ms conn)
           | Inr None \<Rightarrow> None
           | Inr (Some vs) \<Rightarrow> Some (conn_Send (ms @ vs) conn)))"

definition reportHealthStatus ::
  "surroundings \<Rightarrow> Wavefront \<Rightarrow> vresult \<Rightarrow> reconciler \<Rightarrow> (WavefrontStatus \<times> reconciler \<times> string option) option" where
  "reportHealthStatus ev w result rc =
     (case GenerateWavefrontStatus (evNow ev) (evHealth ev) w of
        None \<Rightarrow> None
      | Some st \<Rightarrow>
          (let st = (if \<not> IsValid result then st\<lparr>stStatus := Unhealthy, stMessage := Message (evAggregate ev) result\<rparr> else st)
           in case reportMetrics (\<not> IsError result) (vsOperator (rcVersions rc)) (wsClusterName (wfSpec w)) st (rcConnection rc) of
                None \<Rightarrow> None
              | Some conn \<Rightarrow> Some (st, rc\<lparr>rcConnection := conn\<rparr>, evPatchStatus ev)))"

definition finish :: "surroundings \<Rightarrow> Wavefront \<Rightarrow> vresult \<Rightarrow> reconciler \<Rightarrow> reconcile_result \<times> reconciler" where
  "finish ev w result rc =
     (case reportHealthStatus ev w result rc of
        None \<Rightarrow> (Panicked, rc)
      | Some (st, rc, Some e) \<Rightarrow> (Failed e, rc)
      | Some (st, rc, None) \<Rightarrow> (if stStatus st \<noteq> Healthy then Requeue else RequeueAfter maxReconcileInterval, rc))"

definition Reconcile :: "surroundings \<Rightarrow> string \<Rightarrow> reconciler \<Rightarrow> reconcile_result \<times> reconciler" where
  "Reconcile ev namespace rc =
     (let rc = rc\<lparr>rcNamespace := namespace\<rparr> in
      case evGet ev of
        Inl e \<Rightarrow> (Failed e, rc)
      | Inr None \<Rightarrow> (Gone, fst (readAndDeleteResources ev rc))
      | Inr (Some w) \<Rightarrow>
          (let (w, rc, err) = reconciler_preprocess ev w rc;
               result = (case err of Some e \<Rightarrow> NewErrorResult [e] | None \<Rightarrow> reconciler_validate ev w rc)
           in if \<not> IsError result
              then (case readAndCreateResources ev (wfSpec w) rc of
                      (rc, Some e) \<Rightarrow> (Failed e, rc)
                    | (rc, None) \<Rightarrow> finish ev w result rc)
              else finish ev w result (fst (readAndDeleteResources ev rc))))"

section \<open>The objects of the cluster\<close>

lemma until_error_Cons:
  "until_error f (x # xs) s = (t, None) \<longleftrightarrow> (\<exists>s'. f x s = (s', None) \<and> until_error f xs s' = (t, None))"
  by (auto split: prod.splits option.splits)

declare until_error.simps(2) [simp del]

lemma apply_one_ok:
  "apply_one oa ob st = (st', None) \<Longrightarrow>
     st' (key_of ob) \<noteq> None \<and> (\<forall>k. st k \<noteq> None \<longrightarrow> st' k \<noteq> None) \<and> (\<forall>k. k \<noteq> key_of ob \<longrightarrow> st' k = st k)"
  by (auto simp: apply_one_def write_object_def Let_def split: option.splits if_splits)

lemma ApplyResources_ok:
  "ApplyResources oa obs st = (st', None) \<Longrightarrow>
     (\<forall>k \<in> key_of ` set obs. st' k \<noteq> None) \<and> (\<forall>k. st k \<noteq> None \<longrightarrow> st' k \<noteq> None) \<and> (\<forall>k. k \<notin> key_of ` set obs \<longrightarrow> st' k = st k)"
proof (induction obs arbitrary: st)
  case (Cons ob obs)
  from Cons.prems obtain s where s: "apply_one oa ob st = (s, None)" and "ApplyResources oa obs s = (st', None)"
    by (auto simp: ApplyResources_def until_error_Cons)
  from Cons.IH [OF this(2)] apply_one_ok [OF s] show ?case
    by (auto simp del: split_paired_All split_paired_Ex)
qed (simp add: ApplyResources_def)

lemma DeleteResources_ok:
  "DeleteResources oa obs st = (st', None) \<Longrightarrow> st' = (\<lambda>k. if k \<in> key_of ` set obs then None else st k)"
proof (induction obs arbitrary: st)
  case (Cons ob obs)
  from Cons.prems obtain s where s: "delete_one oa ob st = (s, None)" and "DeleteResources oa obs s = (st', None)"
    by (auto simp: DeleteResources_def until_error_Cons)
  from Cons.IH [OF this(2)] s show ?case
    by (auto simp: delete_one_def write_object_def split: option.splits)
qed (simp add: DeleteResources_def)

lemma DeleteResources_total:
  "(\<And>k. oaFails oa VDelete k = None) \<Longrightarrow> \<exists>st'. DeleteResources oa obs st = (st', None)"
  by (induction obs arbitrary: st) (auto simp: DeleteResources_def until_error_Cons delete_one_def write_object_def)

section \<open>One reconciliation\<close>

text \<open>What a reconciliation decides before it touches the cluster.\<close>

definition decision :: "surroundings \<Rightarrow> string \<Rightarrow> reconciler \<Rightarrow> Wavefront \<Rightarrow> Wavefront \<times> reconciler \<times> vresult" where
  "decision ev namespace rc w =
     (let (w, rc, err) = reconciler_preprocess ev w (rc\<lparr>rcNamespace := namespace\<rparr>)
      in (w, rc, case err of Some e \<Rightarrow> NewErrorResult [e] | None \<Rightarrow> reconciler_validate ev w rc))"

text \<open>The keys of the objects that are built, to apply and to delete.\<close>

definition wanted_keys :: "surroundings \<Rightarrow> component_config list \<Rightarrow> WavefrontSpec \<Rightarrow> object_key set \<times> object_key set" where
  "wanted_keys ev components spec =
     (let rs = readAndInterpolateResources ev components spec in (key_of ` set (fst rs), key_of ` set (snd rs)))"

lemma finish_store: "finish ev w result rc = (r, rc') \<Longrightarrow> rcStore rc' = rcStore rc"
  by (auto simp: finish_def reportHealthStatus_def Let_def split: option.splits)

lemma Reconcile_decision:
  assumes "evGet ev = Inr (Some w)" and "decision ev namespace rc w = (w', rc1, result)"
  shows "Reconcile ev namespace rc =
    (if \<not> IsError result
     then (case readAndCreateResources ev (wfSpec w') rc1 of
             (rc, Some e) \<Rightarrow> (Failed e, rc) | (rc, None) \<Rightarrow> finish ev w' result rc)
     else finish ev w' result (fst (readAndDeleteResources ev rc1)))"
  using assms
  by (cases "reconciler_preprocess ev w (rc\<lparr>rcNamespace := namespace\<rparr>)") (auto simp: Reconcile_def decision_def Let_def)

lemma readAndCreateResources_ok:
  assumes "readAndCreateResources ev spec rc = (rc', None)" and "wanted_keys ev (rcComponents rc) spec = (on, off)"
  shows "(\<forall>k \<in> on - off. rcStore rc' k \<noteq> None) \<and> (\<forall>k \<in> off. rcStore rc' k = None) \<and>
    (\<forall>k. k \<notin> on \<union> off \<longrightarrow> rcStore rc' k = rcStore rc k)"
proof -
  define rs where "rs = readAndInterpolateResources ev (rcComponents rc) spec"
  from assms(1) obtain s where s: "ApplyResources (evObjects ev) (fst rs) (rcStore rc) = (s, None)"
    and "DeleteResources (evObjects ev) (snd rs) s = (rcStore rc', None)"
    by (auto simp: readAndCreateResources_def rs_def Let_def split: prod.splits option.splits)
  from DeleteResources_ok [OF this(2)] ApplyResources_ok [OF s] assms(2) show ?thesis
    by (auto simp: wanted_keys_def rs_def [symmetric] Let_def)
qed

lemma readAndDeleteResources_ok:
  assumes "\<And>k. oaFails (evObjects ev) VDelete k = None"
    and "build_components ev (specToDelete (rcNamespace rc)) = Inr cs"
    and "wanted_keys ev cs (specToDelete (rcNamespace rc)) = (on, off)"
  shows "rcStore (fst (readAndDeleteResources ev rc)) = (\<lambda>k. if k \<in> on \<union> off then None else rcStore rc k)"
proof -
  define rs where "rs = readAndInterpolateResources ev cs (specToDelete (rcNamespace rc))"
  obtain s where s: "DeleteResources (evObjects ev) (fst rs @ snd rs) (rcStore rc) = (s, None)"
    using DeleteResources_total [OF assms(1)] by blast
  have "s = (\<lambda>k. if k \<in> on \<union> off then None else rcStore rc k)"
    using DeleteResources_ok [OF s] assms(3)
    by (auto simp: wanted_keys_def rs_def [symmetric] Let_def image_Un)
  with s assms(2) show ?thesis by (simp add: readAndDeleteResources_def rs_def Let_def)
qed

lemma reconciler_preprocess_namespace:
  "rcNamespace (fst (snd (reconciler_preprocess ev w rc))) = rcNamespace rc \<and>
   rcStore (fst (snd (reconciler_preprocess ev w rc))) = rcStore rc"
  by (auto simp: reconciler_preprocess_def Let_def split: prod.splits option.splits sum.splits)

lemma decision_keeps:
  "decision ev namespace rc w = (w', rc1, result) \<Longrightarrow> rcNamespace rc1 = namespace \<and> rcStore rc1 = rcStore rc"
  using reconciler_preprocess_namespace [of ev w "rc\<lparr>rcNamespace := namespace\<rparr>"]
  by (auto simp: decision_def Let_def split: prod.splits)




text \<open>A cluster whose API server does not answer, and one that does.\<close>

definition sample_object :: k8s_object where
  "sample_object = \<lparr>koKind = ''Deployment'', koNamespace = ''ns'', koName = ''proxy.yaml'', koLabels = [],
     koAnnotations = [], koOwner = None, koTemplate = None, koRest = ''''\<rparr>"

definition sample_hub :: WavefrontSpec where
  "sample_hub = zeroSpec\<lparr>wsClusterSize := ''small'', wsClusterName := ''c'',
     wsExperimental := zeroExperimental\<lparr>exHub := \<lparr>hbEnable = True, hbPixie = \<lparr>shEnable = True\<rparr>\<rparr>\<rparr>\<rparr>"

definition sample_environment :: "cluster_api \<Rightarrow> surroundings" where
  "sample_environment api =
     \<lparr>evGet = Inr (Some \<lparr>wfNamespace = ''ns'', wfCreationTimestamp = 0, wfSpec = sample_hub, wfStatus = zeroStatus\<rparr>),
      evTemplates = \<lparr>tpWalk = (\<lambda>d. Inr (if d = ''proxy'' \<or> d = ''pixie'' then [(d @ ''.yaml'', False)] else [])),
                     tpRender = (\<lambda>f c. Inr (sample_object\<lparr>koName := f\<rparr>))\<rparr>,
      evMarshal = (\<lambda>c. Inr ''''), evAPI = api, evEncoders = sample_encoders, evExists = (\<lambda>k ns n. False),
      evHealth = \<lparr>asDeployment = (\<lambda>ns n. Some \<lparr>wkReady = 1, wkDesired = Some 1, wkLabels = []\<rparr>),
                  asDaemonSet = (\<lambda>ns n. None), asStatefulSet = (\<lambda>ns n. None), asPods = (\<lambda>ns l. None)\<rparr>,
      evNow = 0, evQuantity = (\<lambda>s. Some 0), evAggregate = concat, evGroups = Inr [], evNewSender = (\<lambda>a. None),
      evObjects = \<lparr>oaFails = (\<lambda>v k. None), oaMerge = (\<lambda>old new. new)\<rparr>, evPatchStatus = None\<rparr>"

definition sample_reconciler :: reconciler where
  "sample_reconciler =
     \<lparr>rcVersions = \<lparr>vsOperator = ''dev'', vsCollector = ''1'', vsProxy = ''1'', vsLogging = ''1''\<rparr>, rcClusterUUID = ''u'',
      rcNamespace = '''', rcComponents = [], rcConnection = NewConnection,
      rcStore = (\<lambda>k. if k = key_of sample_object then Some sample_object else None)\<rparr>"

definition silent_api :: cluster_api where
  "silent_api = sample_api\<lparr>apDeployment := (\<lambda>ns n. Inl ''timeout'')\<rparr>"

abbreviation silent_components :: "component_config list" where
  "silent_components \<equiv> projr (build_components (sample_environment silent_api) (specToDelete ''ns''))"

lemma silent_build: "build_components (sample_environment silent_api) (specToDelete ''ns'') = Inr silent_components"
proof -
  have "\<not> isl (build_components (sample_environment silent_api) (specToDelete ''ns''))" by code_simp
  then show ?thesis by (simp add: isl_def split: sum.splits)
qed

lemma silent_keys:
  "wanted_keys (sample_environment silent_api) silent_components (specToDelete ''ns'') = ({}, {key_of sample_object, key_of (sample_object\<lparr>koName := ''pixie.yaml''\<rparr>)})"
  by code_simp

abbreviation accepted_w :: "Wavefront" where
  "accepted_w \<equiv> \<lparr>wfNamespace = ''ns'', wfCreationTimestamp = 0, wfSpec = sample_hub, wfStatus = zeroStatus\<rparr>"

lemma accepted_decision:
  "\<not> IsError (snd (snd (decision (sample_environment sample_api) ''ns'' sample_reconciler accepted_w)))"
  by code_simp

lemma accepted_keys:
  "case decision (sample_environment sample_api) ''ns'' sample_reconciler accepted_w of (w, rc, r) \<Rightarrow>
     wanted_keys (sample_environment sample_api) (rcComponents rc) (wfSpec w) =
       ({key_of (sample_object\<lparr>koName := ''pixie.yaml''\<rparr>)}, {key_of sample_object})"
  by code_simp

lemma accepted_result: "fst (Reconcile (sample_environment sample_api) ''ns'' sample_reconciler) = Requeue"
  by code_simp


abbreviation sample_w :: "Wavefront" where
  "sample_w \<equiv> the (projr (evGet (sample_environment silent_api)))"

lemma silent_error:
  "IsError (snd (snd (decision (sample_environment silent_api) ''ns'' sample_reconciler sample_w)))"
  by code_simp


end
