(* ===== verification/Summary.thy ===== *)
theory Summary
  imports Rates Configuration
begin

text \<open>
  The source that reads a kubelet's summary (\<open>collector/plugins/sources/summary/summary.go\<close>): the decoding of the statistics
  of a node, its pods and their containers into metric sets, and the sets added for pods that the summary misses.
  The types of the statistics are those of the kubelet's API; the kubelet client is a parameter. A missing pointer is
  \<open>None\<close>; where the code dereferences one without a check, the result is \<open>Inl\<close>, the panic. Counters are 64 bits wide,
  and the conversion from unsigned to signed keeps the bits.
\<close>

section \<open>The statistics of the kubelet (stats/v1alpha1)\<close>

record CPUStats =
  cuTime :: gotime
  cuUsageCoreNanoSeconds :: "int64 option"
  cuUsageNanoCores :: "int64 option"

record MemoryStats =
  myTime :: gotime
  myUsageBytes :: "int64 option"
  myWorkingSetBytes :: "int64 option"
  myRSSBytes :: "int64 option"
  myPageFaults :: "int64 option"
  myMajorPageFaults :: "int64 option"

record InterfaceStats =
  ifName :: string
  ifRxBytes :: "int64 option"
  ifRxErrors :: "int64 option"
  ifTxBytes :: "int64 option"
  ifTxErrors :: "int64 option"

record NetworkStats =
  nwTime :: gotime
  nwInterfaceStats :: InterfaceStats
  nwInterfaces :: "InterfaceStats list"

record FsStats =
  fsUsedBytes :: "int64 option"
  fsCapacityBytes :: "int64 option"
  fsAvailableBytes :: "int64 option"
  fsInodes :: "int64 option"
  fsInodesFree :: "int64 option"

record AcceleratorStats =
  acMake :: string
  acModel :: string
  acID :: string
  acMemoryTotal :: int64
  acMemoryUsed :: int64
  acDutyCycle :: int64

record ContainerStats =
  cnName :: string
  cnStartTime :: gotime
  cnCPU :: "CPUStats option"
  cnMemory :: "MemoryStats option"
  cnAccelerators :: "AcceleratorStats list"
  cnRootfs :: "FsStats option"
  cnLogs :: "FsStats option"
  cnUserDefinedMetrics :: "(string \<times> f64) list"

record VolumeStats =
  vlName :: string
  vlFsStats :: FsStats
  vlPVCName :: "string option"

record PodStats =
  psName :: string
  psNamespace :: string
  psUID :: string
  psStartTime :: gotime
  psContainers :: "ContainerStats list"
  psCPU :: "CPUStats option"
  psMemory :: "MemoryStats option"
  psNetwork :: "NetworkStats option"
  psVolumeStats :: "VolumeStats list"
  psEphemeralStorage :: "FsStats option"

record NodeStats =
  nsNodeName :: string
  nsStartTime :: gotime
  nsSystemContainers :: "ContainerStats list"
  nsCPU :: "CPUStats option"
  nsMemory :: "MemoryStats option"
  nsNetwork :: "NetworkStats option"
  nsFs :: "FsStats option"

record Summary =
  smNode :: NodeStats
  smPods :: "PodStats list"

record NodeInfo =
  niNodeName :: string
  niHostName :: string
  niHostID :: string
  niKubeletVersion :: string
  niNodeRole :: string
  niIP :: string

type_synonym metric_sets = "(ResourceKey, mset) gomap"

section \<open>Adding values\<close>

definition CustomMetricPrefix :: string where "CustomMetricPrefix = ''custom/''"
definition VolumeResourcePrefix :: string where "VolumeResourcePrefix = ''Volume:''"
definition RootFsKey :: string where "RootFsKey = ''/''"
definition LogsKey :: string where "LogsKey = ''logs''"
definition NetworkInterfaceKey :: string where "NetworkInterfaceKey = ''interface_name''"

definition addIntMetric :: "MetricDescriptor \<Rightarrow> int64 option \<Rightarrow> mset \<Rightarrow> mset" where
  "addIntMetric metric v ms =
     (case v of None \<Rightarrow> ms | Some n \<Rightarrow> ms\<lparr>Values := mput (Name metric) (intValue n) (Values ms)\<rparr>)"

definition addLabeledMetric :: "MetricDescriptor \<Rightarrow> tagmap \<Rightarrow> int64 option \<Rightarrow> mset \<Rightarrow> mset" where
  "addLabeledMetric metric labels v ms =
     (case v of None \<Rightarrow> ms
      | Some n \<Rightarrow> ms\<lparr>LabeledValues := LabeledValues ms @ [\<lparr>lvName = Name metric, lvLabels = labels, lvValue = intValue n\<rparr>]\<rparr>)"

definition cloneLabels :: "tagmap \<Rightarrow> tagmap" where
  "cloneLabels labels = mput_all labels []"

definition getScrapeTime :: "CPUStats option \<Rightarrow> MemoryStats option \<Rightarrow> NetworkStats option \<Rightarrow> gotime" where
  "getScrapeTime cpu memory network =
     (case filter (\<lambda>t. t \<noteq> zero_time)
        ((case cpu of None \<Rightarrow> [] | Some c \<Rightarrow> [cuTime c]) @ (case memory of None \<Rightarrow> [] | Some m \<Rightarrow> [myTime m]) @
         (case network of None \<Rightarrow> [] | Some n \<Rightarrow> [nwTime n])) of
        [] \<Rightarrow> zero_time | t # ts \<Rightarrow> t)"

section \<open>Decoding the parts\<close>

definition decodeUptime :: "gotime \<Rightarrow> gotime \<Rightarrow> mset \<Rightarrow> mset" where
  "decodeUptime now startTime ms =
     (if startTime = zero_time then ms
      else addIntMetric MetricUptime (Some (word_of_int (time_sub now startTime sdiv 1000000))) ms)"

definition decodeCPUStats :: "CPUStats option \<Rightarrow> mset \<Rightarrow> mset" where
  "decodeCPUStats cpu ms =
     (case cpu of None \<Rightarrow> ms
      | Some c \<Rightarrow> addIntMetric MetricCpuUsageCores (map_option (\<lambda>n. n div 1000000) (cuUsageNanoCores c))
                    (addIntMetric MetricCpuUsage (cuUsageCoreNanoSeconds c) ms))"

definition decodeEphemeralStorageStats :: "FsStats option \<Rightarrow> mset \<Rightarrow> mset" where
  "decodeEphemeralStorageStats storage ms =
     (case storage of None \<Rightarrow> ms | Some s \<Rightarrow> addIntMetric MetricEphemeralStorageUsage (fsUsedBytes s) ms)"

definition decodeEphemeralStorageStatsForContainer :: "FsStats option \<Rightarrow> FsStats option \<Rightarrow> mset \<Rightarrow> mset" where
  "decodeEphemeralStorageStatsForContainer rootfs logs ms =
     (case (Option.bind rootfs fsUsedBytes, Option.bind logs fsUsedBytes) of
        (Some r, Some l) \<Rightarrow> addIntMetric MetricEphemeralStorageUsage (Some (r + l)) ms
      | _ \<Rightarrow> ms)"

definition decodeMemoryStats :: "MemoryStats option \<Rightarrow> mset \<Rightarrow> mset" where
  "decodeMemoryStats memory ms =
     (case memory of None \<Rightarrow> ms
      | Some m \<Rightarrow> addIntMetric MetricMemoryMajorPageFaults (myMajorPageFaults m)
                    (addIntMetric MetricMemoryPageFaults (myPageFaults m)
                      (addIntMetric MetricMemoryRSS (myRSSBytes m)
                        (addIntMetric MetricMemoryWorkingSet (myWorkingSetBytes m)
                          (addIntMetric MetricMemoryUsage (myUsageBytes m) ms)))))"

definition decode_accelerator :: "mset \<Rightarrow> AcceleratorStats \<Rightarrow> mset" where
  "decode_accelerator ms a =
     (let labels = [(LabelKey LabelAcceleratorMake, acMake a), (LabelKey LabelAcceleratorModel, acModel a),
                    (LabelKey LabelAcceleratorID, acID a)]
      in addLabeledMetric MetricAcceleratorDutyCycle labels (Some (acDutyCycle a))
           (addLabeledMetric MetricAcceleratorMemoryUsed labels (Some (acMemoryUsed a))
             (addLabeledMetric MetricAcceleratorMemoryTotal labels (Some (acMemoryTotal a)) ms)))"

definition decodeAcceleratorStats :: "AcceleratorStats list \<Rightarrow> mset \<Rightarrow> mset" where
  "decodeAcceleratorStats accelerators ms = foldl decode_accelerator ms accelerators"

definition decode_interface :: "mset \<Rightarrow> InterfaceStats \<Rightarrow> mset" where
  "decode_interface ms i =
     (let labels = [(NetworkInterfaceKey, ifName i)]
      in addLabeledMetric MetricNetworkTxErrors labels (ifTxErrors i)
           (addLabeledMetric MetricNetworkTx labels (ifTxBytes i)
             (addLabeledMetric MetricNetworkRxErrors labels (ifRxErrors i)
               (addLabeledMetric MetricNetworkRx labels (ifRxBytes i) ms))))"

definition decodeNetworkStats :: "NetworkStats option \<Rightarrow> mset \<Rightarrow> mset" where
  "decodeNetworkStats network ms =
     (case network of None \<Rightarrow> ms
      | Some n \<Rightarrow>
          (let ms = foldl decode_interface ms (nwInterfaces n); d = nwInterfaceStats n
           in addIntMetric MetricNetworkTxErrors (ifTxErrors d)
                (addIntMetric MetricNetworkTx (ifTxBytes d)
                  (addIntMetric MetricNetworkRxErrors (ifRxErrors d)
                    (addIntMetric MetricNetworkRx (ifRxBytes d) ms)))))"

definition fs_labels :: "string \<Rightarrow> string option \<Rightarrow> tagmap" where
  "fs_labels fsKey pvcRef =
     [(LabelKey LabelResourceID, fsKey)] @
     (case pvcRef of None \<Rightarrow> [] | Some name \<Rightarrow> if length name > 0 then [(LabelKey LabelPVCName, name)] else [])"

definition decodeFsStats :: "string \<Rightarrow> FsStats option \<Rightarrow> string option \<Rightarrow> mset \<Rightarrow> mset" where
  "decodeFsStats fsKey fs pvcRef ms =
     (case fs of None \<Rightarrow> ms
      | Some f \<Rightarrow>
          (let labels = fs_labels fsKey pvcRef
           in addLabeledMetric MetricFilesystemInodesFree labels (fsInodesFree f)
                (addLabeledMetric MetricFilesystemInodes labels (fsInodes f)
                  (addLabeledMetric MetricFilesystemAvailable labels (fsAvailableBytes f)
                    (addLabeledMetric MetricFilesystemLimit labels (fsCapacityBytes f)
                      (addLabeledMetric MetricFilesystemUsage labels (fsUsedBytes f) ms))))))"

definition decodeUserDefinedMetrics :: "(string \<times> f64) list \<Rightarrow> mset \<Rightarrow> mset" where
  "decodeUserDefinedMetrics udm ms =
     foldl (\<lambda>ms m. ms\<lparr>Values := mput (CustomMetricPrefix @ fst m)
              \<lparr>IntValue = 0, FloatValue = snd m, ValueTypeOf = ValueFloat\<rparr> (Values ms)\<rparr>) ms udm"

section \<open>Nodes, pods and containers\<close>

text \<open>For backwards compatibility, two system containers keep their old names.\<close>

definition systemNameMap :: "(string, string) gomap" where
  "systemNameMap = [(''runtime'', ''docker-daemon''), (''misc'', ''system'')]"

definition getSystemContainerName :: "ContainerStats \<Rightarrow> string" where
  "getSystemContainerName c = (case mget systemNameMap (cnName c) of Some legacyName \<Rightarrow> legacyName | None \<Rightarrow> cnName c)"

definition new_set :: "tagmap \<Rightarrow> gotime \<Rightarrow> gotime \<Rightarrow> mset" where
  "new_set labels startTime scrapeTime =
     emptySet\<lparr>Labels := cloneLabels labels, CollectionStartTime := startTime, ScrapeTime := scrapeTime\<rparr>"

definition put_label :: "string \<Rightarrow> string \<Rightarrow> mset \<Rightarrow> mset" where
  "put_label key v ms = ms\<lparr>Labels := mput key v (Labels ms)\<rparr>"

definition decodeContainerStats :: "gotime \<Rightarrow> tagmap \<Rightarrow> ContainerStats \<Rightarrow> bool \<Rightarrow> mset" where
  "decodeContainerStats now podLabels c isSystemContainer =
     (let ms = new_set podLabels (cnStartTime c) (getScrapeTime (cnCPU c) (cnMemory c) None);
          ms = put_label (LabelKey LabelMetricSetType) MetricSetTypePodContainer ms;
          ms = put_label (LabelKey LabelContainerName) (if isSystemContainer then getSystemContainerName c else cnName c) ms;
          ms = decodeUptime now (cnStartTime c) ms;
          ms = decodeCPUStats (cnCPU c) ms;
          ms = decodeMemoryStats (cnMemory c) ms;
          ms = decodeAcceleratorStats (cnAccelerators c) ms;
          ms = decodeFsStats RootFsKey (cnRootfs c) None ms;
          ms = decodeFsStats LogsKey (cnLogs c) None ms;
          ms = decodeEphemeralStorageStatsForContainer (cnRootfs c) (cnLogs c) ms
      in decodeUserDefinedMetrics (cnUserDefinedMetrics c) ms)"

definition node_set :: "gotime \<Rightarrow> NodeInfo \<Rightarrow> tagmap \<Rightarrow> NodeStats \<Rightarrow> mset" where
  "node_set now node labels n =
     (let ms = new_set labels (nsStartTime n) (getScrapeTime (nsCPU n) (nsMemory n) (nsNetwork n));
          ms = put_label (LabelKey LabelMetricSetType) MetricSetTypeNode ms;
          ms = put_label (LabelKey LabelNodeRole) (niNodeRole node) ms;
          ms = decodeUptime now (nsStartTime n) ms;
          ms = decodeCPUStats (nsCPU n) ms;
          ms = decodeMemoryStats (nsMemory n) ms;
          ms = decodeNetworkStats (nsNetwork n) ms;
          ms = decodeFsStats RootFsKey (nsFs n) None ms
      in decodeEphemeralStorageStats (nsFs n) ms)"

definition decodeNodeStats :: "gotime \<Rightarrow> NodeInfo \<Rightarrow> tagmap \<Rightarrow> NodeStats \<Rightarrow> metric_sets \<Rightarrow> metric_sets" where
  "decodeNodeStats now node labels n sets =
     foldl (\<lambda>sets c. mput (NodeContainerKey (nsNodeName n) (getSystemContainerName c))
              (put_label (LabelKey LabelMetricSetType) MetricSetTypeSystemContainer (decodeContainerStats now labels c True)) sets)
       (mput (NodeKey (nsNodeName n)) (node_set now node labels n) sets) (nsSystemContainers n)"

definition identify_pod :: "string \<Rightarrow> string \<Rightarrow> string \<Rightarrow> mset \<Rightarrow> mset" where
  "identify_pod uid name namespace ms =
     put_label (LabelKey LabelNamespaceName) namespace
       (put_label (LabelKey LabelPodName) name
         (put_label (LabelKey LabelPodId) uid
           (put_label (LabelKey LabelMetricSetType) MetricSetTypePod ms)))"

definition pod_set :: "gotime \<Rightarrow> tagmap \<Rightarrow> PodStats \<Rightarrow> mset" where
  "pod_set now nodeLabels pod =
     (let ms = new_set nodeLabels (psStartTime pod) (getScrapeTime None None (psNetwork pod));
          ms = identify_pod (psUID pod) (psName pod) (psNamespace pod) ms;
          ms = decodeUptime now (psStartTime pod) ms;
          ms = decodeNetworkStats (psNetwork pod) ms;
          ms = decodeCPUStats (psCPU pod) ms;
          ms = decodeMemoryStats (psMemory pod) ms;
          ms = decodeEphemeralStorageStats (psEphemeralStorage pod) ms
      in foldl (\<lambda>ms v. decodeFsStats (VolumeResourcePrefix @ vlName v) (Some (vlFsStats v)) (vlPVCName v) ms) ms
           (psVolumeStats pod))"

text \<open>Of two containers with one key, the one that started later is kept; of equal times, the later in the list.\<close>

definition add_container :: "gotime \<Rightarrow> PodStats \<Rightarrow> tagmap \<Rightarrow> metric_sets \<Rightarrow> ContainerStats \<Rightarrow> metric_sets" where
  "add_container now pod podLabels sets c =
     (let key = PodContainerKey (psNamespace pod) (psName pod) (cnName c) in
      case mget sets key of
        None \<Rightarrow> mput key (decodeContainerStats now podLabels c False) sets
      | Some old \<Rightarrow>
          (if cnStartTime c < CollectionStartTime old then sets
           else mput key (decodeContainerStats now podLabels c False) sets))"

definition decodePodStats :: "gotime \<Rightarrow> tagmap \<Rightarrow> metric_sets \<Rightarrow> PodStats \<Rightarrow> metric_sets" where
  "decodePodStats now nodeLabels sets pod =
     (let ms = pod_set now nodeLabels pod
      in foldl (add_container now pod (Labels ms)) (mput (PodKey (psNamespace pod) (psName pod)) ms sets) (psContainers pod))"

definition node_labels :: "NodeInfo \<Rightarrow> tagmap" where
  "node_labels node = [(LabelKey LabelNodename, niNodeName node), (LabelKey LabelHostname, niHostName node),
     (LabelKey LabelHostID, niHostID node)]"

definition addSummaryMetricSets :: "gotime \<Rightarrow> NodeInfo \<Rightarrow> Summary \<Rightarrow> metric_sets \<Rightarrow> metric_sets" where
  "addSummaryMetricSets now node summary sets =
     foldl (decodePodStats now (node_labels node)) (decodeNodeStats now node (node_labels node) (smNode summary) sets)
       (smPods summary)"

section \<open>Pods that the summary misses\<close>

definition podIsNotScheduled :: "Pod \<Rightarrow> bool" where
  "podIsNotScheduled pod \<longleftrightarrow> \<not> list_ex (\<lambda>c. pcType c = ''PodScheduled'' \<and> pcStatus c = ''True'') (podConditions pod)"

definition nil_start_time :: string where
  "nil_start_time = ''invalid memory address or nil pointer dereference''"

definition missing_pod_set :: "NodeInfo \<Rightarrow> gotime \<Rightarrow> Pod \<Rightarrow> gotime \<Rightarrow> mset" where
  "missing_pod_set node timestamp pod startTime =
     identify_pod (omUID (podMeta pod)) (omName (podMeta pod)) (omNamespace (podMeta pod))
       (new_set (node_labels node) startTime timestamp)"

definition add_missing :: "NodeInfo \<Rightarrow> gotime \<Rightarrow> (Pod \<Rightarrow> bool) \<Rightarrow> metric_sets \<Rightarrow> Pod \<Rightarrow> string + metric_sets" where
  "add_missing node timestamp wanted sets pod =
     (let key = PodKey (omNamespace (podMeta pod)) (omName (podMeta pod)) in
      if \<not> wanted pod \<or> mhas sets key then Inr sets
      else case podStartTime pod of
             None \<Rightarrow> Inl nil_start_time
           | Some startTime \<Rightarrow> Inr (mput key (missing_pod_set node timestamp pod startTime) sets))"

definition addMissingRunningPodMetricSets :: "NodeInfo \<Rightarrow> gotime \<Rightarrow> Pod list \<Rightarrow> metric_sets \<Rightarrow> string + metric_sets" where
  "addMissingRunningPodMetricSets node timestamp pods sets =
     foldM (add_missing node timestamp (\<lambda>pod. podPhase pod = ''Running'')) sets pods"

definition addMissingPendingScheduledPodMetricSets ::
  "NodeInfo \<Rightarrow> gotime \<Rightarrow> Pod list \<Rightarrow> metric_sets \<Rightarrow> string + metric_sets" where
  "addMissingPendingScheduledPodMetricSets node timestamp pods sets =
     foldM (add_missing node timestamp (\<lambda>pod. podPhase pod = ''Pending'' \<and> \<not> podIsNotScheduled pod)) sets pods"

text \<open>A scrape: a panic, an error of the kubelet, or a batch.\<close>

datatype scrape_result = ScrapePanics string | ScrapeFails string | Scraped Batch

definition Summary_Scrape ::
  "gotime \<Rightarrow> NodeInfo \<Rightarrow> string + Summary \<Rightarrow> string + Pod list \<Rightarrow> scrape_result" where
  "Summary_Scrape now node getSummary getPodList =
     (case getSummary of
        Inl e \<Rightarrow> ScrapeFails e
      | Inr summary \<Rightarrow>
          (let sets = addSummaryMetricSets now node summary [] in
           case getPodList of
             Inl e \<Rightarrow> ScrapeFails e
           | Inr pods \<Rightarrow>
               (case addMissingRunningPodMetricSets node now pods sets of
                  Inl p \<Rightarrow> ScrapePanics p
                | Inr sets \<Rightarrow>
                    (case addMissingPendingScheduledPodMetricSets node now pods sets of
                       Inl p \<Rightarrow> ScrapePanics p
                     | Inr sets \<Rightarrow> Scraped \<lparr>bTimestamp = now, Sets = sets, Metrics = []\<rparr>))))"

section \<open>The provider\<close>

text \<open>The environment variables that a node sets for the tags: version and provider.\<close>

definition getNodeInfo ::
  "(string \<Rightarrow> bool) \<Rightarrow> string \<Rightarrow> Node \<Rightarrow> string \<times> string \<Rightarrow> (string + NodeInfo) \<times> string \<times> string" where
  "getNodeInfo parseIP hostIDAnnotation node vars =
     (case GetNodeHostnameAndIP parseIP node of
        Inl e \<Rightarrow> (Inl e, vars)
      | Inr (hostname, ip) \<Rightarrow>
          (Inr \<lparr>niNodeName = omName (nodeMeta node), niHostName = hostname,
                niHostID = (if hostIDAnnotation \<noteq> '''' then mgets (omAnnotations (nodeMeta node)) hostIDAnnotation else ''''),
                niKubeletVersion = KubeletVersion (nodeInfo node), niNodeRole = GetNodeRole node, niIP = ip\<rparr>,
           KubeletVersion (nodeInfo node), SetKubernetesProvider (nodeProviderID node)))"

definition Summary_GetMetricsSources ::
  "(string \<Rightarrow> bool) \<Rightarrow> AgentType \<Rightarrow> string \<Rightarrow> string + Node list \<Rightarrow> string \<times> string \<Rightarrow> NodeInfo list \<times> string \<times> string" where
  "Summary_GetMetricsSources parseIP agent hostIDAnnotation listNodes vars =
     (if \<not> ScrapeAnyNodes agent then ([], vars)
      else case listNodes of
             Inl e \<Rightarrow> ([], vars)
           | Inr nodes \<Rightarrow>
               foldl (\<lambda>(infos, vars) node.
                  case getNodeInfo parseIP hostIDAnnotation node vars of
                    (Inl e, vars) \<Rightarrow> (infos, vars) | (Inr info, vars) \<Rightarrow> (infos @ [info], vars)) ([], vars) nodes)"

definition Summary_Name :: "(string \<Rightarrow> string) \<Rightarrow> NodeInfo \<Rightarrow> int64 \<Rightarrow> string" where
  "Summary_Name printIP node port = ''kubelet_summary:'' @ printIP (niIP node) @ '':'' @ show_int (sint port)"

section \<open>What a scrape contains\<close>

definition pod_key :: "Pod \<Rightarrow> ResourceKey" where
  "pod_key pod = PodKey (omNamespace (podMeta pod)) (omName (podMeta pod))"

text \<open>The pods that must be in the batch, in the order in which the code looks at them, and the first with a given key.\<close>

definition expected_pods :: "Pod list \<Rightarrow> Pod list" where
  "expected_pods pods = filter (\<lambda>pod. podPhase pod = ''Running'') pods @
     filter (\<lambda>pod. podPhase pod = ''Pending'' \<and> \<not> podIsNotScheduled pod) pods"

definition first_pod :: "ResourceKey \<Rightarrow> Pod list \<Rightarrow> Pod option" where
  "first_pod k = find (\<lambda>pod. pod_key pod = k)"

definition no_start :: "metric_sets \<Rightarrow> Pod list \<Rightarrow> ResourceKey \<Rightarrow> bool" where
  "no_start sets pods k \<longleftrightarrow> \<not> mhas sets k \<and> Option.bind (first_pod k pods) podStartTime = None"

definition completed :: "NodeInfo \<Rightarrow> gotime \<Rightarrow> metric_sets \<Rightarrow> Pod list \<Rightarrow> ResourceKey \<Rightarrow> mset option" where
  "completed node now sets pods k =
     (case mget sets k of
        Some s \<Rightarrow> Some s
      | None \<Rightarrow> Option.bind (first_pod k pods) (\<lambda>pod. map_option (missing_pod_set node now pod) (podStartTime pod)))"

lemma foldM_filter:
  "(\<And>s x. \<not> P x \<Longrightarrow> f s x = Inr s) \<Longrightarrow> foldM f s xs = foldM f s (filter P xs)"
  by (induction xs arbitrary: s) (auto split: sum.split)

lemma foldM_cong: "(\<And>s x. x \<in> set xs \<Longrightarrow> f s x = g s x) \<Longrightarrow> foldM f s xs = foldM g s xs"
  by (induction xs arbitrary: s) (auto split: sum.split)

lemma add_missing_all:
  "foldM (add_missing node now P) sets pods = foldM (add_missing node now (\<lambda>_. True)) sets (filter P pods)"
proof -
  have "foldM (add_missing node now P) sets pods = foldM (add_missing node now P) sets (filter P pods)"
    by (rule foldM_filter) (simp add: add_missing_def Let_def)
  also have "\<dots> = foldM (add_missing node now (\<lambda>_. True)) sets (filter P pods)"
    by (rule foldM_cong) (simp add: add_missing_def Let_def)
  finally show ?thesis .
qed

lemma add_missing_loop:
  "case foldM (add_missing node now (\<lambda>_. True)) sets pods of
     Inl p \<Rightarrow> p = nil_start_time \<and> (\<exists>pod \<in> set pods. no_start sets pods (pod_key pod))
   | Inr sets' \<Rightarrow> \<not> (\<exists>pod \<in> set pods. no_start sets pods (pod_key pod)) \<and> (\<forall>k. mget sets' k = completed node now sets pods k)"
proof (induction pods arbitrary: sets)
  case Nil
  show ?case by (simp add: completed_def first_pod_def split: option.split)
next
  case (Cons pod pods)
  let ?k = "pod_key pod"
  consider (has) "mhas sets ?k" | (panic) "\<not> mhas sets ?k" "podStartTime pod = None"
    | (new) t where "\<not> mhas sets ?k" "podStartTime pod = Some t"
    by (cases "podStartTime pod") auto
  then show ?case
  proof cases
    case has
    then have "add_missing node now (\<lambda>_. True) sets pod = Inr sets" by (simp add: add_missing_def Let_def pod_key_def)
    moreover have "no_start sets (pod # pods) k = no_start sets pods k"
      "completed node now sets (pod # pods) k = completed node now sets pods k" for k
      using has by (auto simp: no_start_def completed_def first_pod_def mhas_def split: option.splits)
    ultimately show ?thesis using Cons.IH [of sets] has by (auto simp: no_start_def split: sum.splits)
  next
    case panic
    then have "add_missing node now (\<lambda>_. True) sets pod = Inl nil_start_time"
      by (simp add: add_missing_def Let_def pod_key_def)
    with panic show ?thesis by (simp add: no_start_def first_pod_def)
  next
    case new
    define sets' where "sets' = mput ?k (missing_pod_set node now pod t) sets"
    have "add_missing node now (\<lambda>_. True) sets pod = Inr sets'"
      using new by (simp add: add_missing_def Let_def pod_key_def sets'_def)
    moreover have "no_start sets' pods k = no_start sets (pod # pods) k"
      "completed node now sets' pods k = completed node now sets (pod # pods) k" for k
      using new by (auto simp: no_start_def completed_def first_pod_def sets'_def mhas_def split: option.splits)
    moreover have "\<not> no_start sets (pod # pods) ?k" using new by (simp add: no_start_def first_pod_def)
    ultimately show ?thesis using Cons.IH [of sets'] by (auto split: sum.splits)
  qed
qed

text \<open>C26: a scrape of a kubelet that answers. Every set of the summary is kept as it was decoded; every running
  pod, and every pending pod that is scheduled, which the summary does not mention is added with a set of its own; and
  there is nothing else in the batch. The scrape panics exactly when such an added pod has no start time.\<close>
theorem Summary_Scrape_outcome:
  "let sets = addSummaryMetricSets now node summary []; pods' = expected_pods pods in
   case Summary_Scrape now node (Inr summary) (Inr pods) of
     ScrapePanics p \<Rightarrow> p = nil_start_time \<and> list_ex (\<lambda>pod. no_start sets pods' (pod_key pod)) pods'
   | ScrapeFails e \<Rightarrow> False
   | Scraped b \<Rightarrow> \<not> list_ex (\<lambda>pod. no_start sets pods' (pod_key pod)) pods' \<and> bTimestamp b = now \<and> Metrics b = [] \<and>
       (\<forall>k. mget (Sets b) k = completed node now sets pods' k)"
proof -
  let ?sets = "addSummaryMetricSets now node summary []"
  let ?f = "add_missing node now (\<lambda>_. True)"
  have "Summary_Scrape now node (Inr summary) (Inr pods) =
      (case foldM ?f ?sets (expected_pods pods) of
         Inl p \<Rightarrow> ScrapePanics p | Inr s \<Rightarrow> Scraped \<lparr>bTimestamp = now, Sets = s, Metrics = []\<rparr>)"
    by (simp add: Summary_Scrape_def addMissingRunningPodMetricSets_def addMissingPendingScheduledPodMetricSets_def
        add_missing_all [where P = "\<lambda>pod. podPhase pod = ''Running''"]
        add_missing_all [where P = "\<lambda>pod. podPhase pod = ''Pending'' \<and> \<not> podIsNotScheduled pod"]
        expected_pods_def foldM_append Let_def split: sum.split)
  then show ?thesis
    using add_missing_loop [where node = node and now = now and sets = ?sets and pods = "expected_pods pods"]
    by (auto simp: Let_def list_ex_iff split: sum.splits)
qed

end
