(* ===== verification/Kstate.thy ===== *)
theory Kstate
  imports Kube Converter "HOL-Library.Sublist"
begin

text \<open>
  The state of the objects of the cluster as points (\<open>collector/plugins/sources/kstate\<close>): for every
  kind of object the fields the handlers read, the handlers, the source that runs them over what the
  informers hold, the provider and the lister that leadership starts and stops. A handler gives the
  points of one object; several points may share one tag map, which a filter changes in place, so a
  handler yields the maps it made and points that name them by index, as in the converter. The listed
  objects, the workload cache, the clock and the node name are parameters.
\<close>

section \<open>The objects\<close>

type_synonym int32 = "32 word"

record ksDaemonSet =
  dsMeta :: ObjectMeta
  CurrentNumberScheduled :: int32
  DesiredNumberScheduled :: int32
  NumberMisscheduled :: int32
  NumberReady :: int32
  NumberAvailable :: int32

text \<open>Deployments, replica sets, replication controllers and stateful sets: the replicas wanted, when
  they are given, and the ones there are; the conditions are those of a deployment.\<close>

record ksReplicated =
  rsMeta :: ObjectMeta
  Replicas :: "int32 option"
  AvailableReplicas :: int32
  ReadyReplicas :: int32
  CurrentReplicas :: int32
  UpdatedReplicas :: int32
  rsConditions :: "PodCondition list"

record ksJob =
  jbMeta :: ObjectMeta
  jbActive :: int32
  jbFailed :: int32
  jbSucceeded :: int32
  Completions :: "int32 option"
  Parallelism :: "int32 option"
  jbConditions :: "PodCondition list"

record ksCronJob =
  cjMeta :: ObjectMeta
  cjActive :: "string list"

record ksHPA =
  hpMeta :: ObjectMeta
  MaxReplicas :: int32
  MinReplicas :: "int32 option"
  hpCurrentReplicas :: int32
  DesiredReplicas :: int32

record ksPVC =
  pvcMeta :: ObjectMeta
  pvcRequests :: resources
  pvcVolumeName :: string
  StorageClassName :: "string option"
  pvcPhase :: string
  pvcConditions :: "PodCondition list"
  pvcAccessModes :: "string list"

text \<open>The sources of a volume, of which at most one is set; a source the handlers do not know is \<open>NoVolume\<close>.\<close>

datatype volume_source =
    CephFS string
  | CSI string string
  | HostPath string "string option"
  | ISCSI string string int32 "string option"
  | LocalVolume string "string option"
  | NFS string string
  | RBD string string
  | PortworxVolume string string
  | FlexVolume string string
  | GCEPersistentDisk string
  | AWSElasticBlockStore string
  | AzureDisk string
  | FC "int32 option" "string list" "string list"
  | NoVolume

record ksPV =
  pvMeta :: ObjectMeta
  pvCapacity :: resources
  pvSource :: volume_source
  pvPhase :: string
  ClaimRef :: "(string \<times> string) option"
  pvAccessModes :: "string list"

text \<open>What an informer may hold: \<open>interface{}\<close>.\<close>

datatype kitem =
    KDaemonSet ksDaemonSet
  | KDeployment ksReplicated
  | KReplicaSet ksReplicated
  | KReplicationController ksReplicated
  | KStatefulSet ksReplicated
  | KJob ksJob
  | KCronJob ksCronJob
  | KHPA ksHPA
  | KNode Node
  | KPod Pod
  | KPVC ksPVC
  | KPV ksPV

section \<open>Helpers (helper.go, workload.go)\<close>

text \<open>The points of an object: the tag maps made for it, and the points, each with the index of its map.\<close>

type_synonym built = "tagmap list \<times> ref_point list"

definition append_built :: "built \<Rightarrow> built \<Rightarrow> built" where
  "append_built a b =
     (fst a @ fst b, snd a @ map (\<lambda>p. p\<lparr>rpRef := rpRef p + length (fst a)\<rparr>) (snd b))"

definition join_built :: "built list \<Rightarrow> built" where
  "join_built bs = foldl append_built ([], []) bs"

definition buildTags :: "string \<Rightarrow> string \<Rightarrow> string \<Rightarrow> tagmap \<Rightarrow> tagmap" where
  "buildTags key name ns srcTags =
     (let tags = mput key name []
      in mput_all srcTags (if ns \<noteq> '''' then mput ''namespace_name'' ns tags else tags))"

definition copyLabels :: "tagmap \<Rightarrow> tagmap \<Rightarrow> tagmap" where
  "copyLabels inp out =
     foldl (\<lambda>out e. if 0 < length (fst e) \<and> 0 < length (snd e) then mput (''label.'' @ fst e) (snd e) out else out)
       out inp"

definition copyTags :: "tagmap \<Rightarrow> tagmap \<Rightarrow> tagmap" where
  "copyTags inp out =
     foldl (\<lambda>out e. if 0 < length (fst e) \<and> 0 < length (snd e) then mput (fst e) (snd e) out else out) out inp"

definition metricPoint :: "string \<Rightarrow> string \<Rightarrow> f64 \<Rightarrow> int64 \<Rightarrow> string \<Rightarrow> nat \<Rightarrow> ref_point" where
  "metricPoint pfx name v ts source tags =
     \<lparr>rpName = pfx @ name, rpValue = v, rpTimestamp = ts, rpSource = source, rpRef = tags\<rparr>"

definition float32 :: "int32 \<Rightarrow> f64" where
  "float32 i = f64_of_int (sint i)"

text \<open>The conversion of a float back to \<open>int32\<close>, on the values that fit.\<close>

definition int32_of :: "f64 \<Rightarrow> int32" where
  "int32_of x = (case x of Fin q \<Rightarrow> word_of_int (rat_trunc q) | _ \<Rightarrow> 0)"

definition floatValOrDefault :: "int32 option \<Rightarrow> f64 \<Rightarrow> f64" where
  "floatValOrDefault i f = (case i of Some v \<Rightarrow> float32 v | None \<Rightarrow> f)"

definition intValOrDefault :: "int32 option \<Rightarrow> int32 \<Rightarrow> int32" where
  "intValOrDefault val i = (case val of Some v \<Rightarrow> v | None \<Rightarrow> i)"

definition workloadReady :: f64 where "workloadReady = Fin 1"
definition workloadNotReady :: f64 where "workloadNotReady = Fin 0"

definition sanitizeMessage :: "string \<Rightarrow> string" where
  "sanitizeMessage message = filter (\<lambda>c. c \<noteq> CHR 0x22) message"

definition truncateMessage :: "string \<Rightarrow> string" where
  "truncateMessage message =
     (let maxPointTagLength = 255 - length ''='' - length ''message''
      in if length message \<ge> maxPointTagLength then take maxPointTagLength message else message)"

definition buildWorkloadTags ::
  "string \<Rightarrow> string \<Rightarrow> string \<Rightarrow> int32 \<Rightarrow> int32 \<Rightarrow> string \<Rightarrow> string \<Rightarrow> tagmap \<Rightarrow> tagmap" where
  "buildWorkloadTags kind name ns desired available reason message customTags =
     (let tags = buildTags ''workload_name'' name ns customTags;
          tags = mput ''workload_kind'' kind tags;
          tags = mput ''available'' (show_int (sint available)) tags;
          tags = mput ''desired'' (show_int (sint desired)) tags;
          tags = (if 0 < length reason then mput ''reason'' reason tags else tags)
      in if 0 < length message then mput ''message'' (sanitizeMessage message) tags else tags)"

definition getWorkloadStatus :: "int32 \<Rightarrow> int32 \<Rightarrow> f64" where
  "getWorkloadStatus desired available = (if available = desired then workloadReady else workloadNotReady)"

definition buildWorkloadStatusMetric :: "string \<Rightarrow> f64 \<Rightarrow> int64 \<Rightarrow> string \<Rightarrow> nat \<Rightarrow> ref_point" where
  "buildWorkloadStatusMetric pfx status ts source tags = metricPoint pfx ''workload.status'' status ts source tags"


section \<open>Workload objects (daemonsets.go, deployments.go, replicasets.go, statefulsets.go and others)\<close>

text \<open>Every handler takes the object, the transforms and the clock; the source logs an object of another
  type and gives no points.\<close>

definition getWorkloadReasonAndMessageForDaemonSet :: "f64 \<Rightarrow> ksDaemonSet \<Rightarrow> string \<times> string" where
  "getWorkloadReasonAndMessageForDaemonSet status daemonset =
     (if feq status workloadReady then ('''', '''')
      else (''MinimumNodesUnavailable'',
            ''DaemonSet does not have minimum number of nodes that should be running the daemon pod.''))"

definition pointsForDaemonSet :: "kitem \<Rightarrow> Transforms \<Rightarrow> int64 \<Rightarrow> built" where
  "pointsForDaemonSet item transforms now =
     (case item of
        KDaemonSet daemonset \<Rightarrow>
          (let tags = buildTags ''daemonset'' (omName (dsMeta daemonset)) (omNamespace (dsMeta daemonset)) (trTags transforms);
               desired = DesiredNumberScheduled daemonset;
               available = NumberAvailable daemonset;
               workloadStatus = getWorkloadStatus desired available;
               rm = getWorkloadReasonAndMessageForDaemonSet workloadStatus daemonset;
               workloadTags = buildWorkloadTags ''DaemonSet'' (omName (dsMeta daemonset)) (omNamespace (dsMeta daemonset))
                 desired available (fst rm) (snd rm) (trTags transforms);
               point = (\<lambda>name v. metricPoint (trPrefix transforms) name v now (trSource transforms) 0)
           in ([tags, workloadTags],
               [point ''daemonset.current_scheduled'' (float32 (CurrentNumberScheduled daemonset)),
                point ''daemonset.desired_scheduled'' (float32 (DesiredNumberScheduled daemonset)),
                point ''daemonset.misscheduled'' (float32 (NumberMisscheduled daemonset)),
                point ''daemonset.ready'' (float32 (NumberReady daemonset)),
                buildWorkloadStatusMetric (trPrefix transforms) workloadStatus now (trSource transforms) 1]))
      | _ \<Rightarrow> ([], []))"

definition getWorkloadReasonAndMessageForDeployment :: "f64 \<Rightarrow> ksReplicated \<Rightarrow> string \<times> string" where
  "getWorkloadReasonAndMessageForDeployment status deployment =
     (if feq status workloadReady then ('''', '''')
      else case find (\<lambda>c. pcType c = ''Available'' \<and> pcStatus c = ''False'') (rsConditions deployment) of
             Some condition \<Rightarrow> (pcReason condition, truncateMessage (pcMessage condition))
           | None \<Rightarrow> ('''', ''''))"

definition pointsForDeployment :: "kitem \<Rightarrow> Transforms \<Rightarrow> int64 \<Rightarrow> built" where
  "pointsForDeployment item transforms now =
     (case item of
        KDeployment deployment \<Rightarrow>
          (let tags = buildTags ''deployment'' (omName (rsMeta deployment)) (omNamespace (rsMeta deployment)) (trTags transforms);
               desired = floatValOrDefault (Replicas deployment) (Fin 1);
               available = float32 (AvailableReplicas deployment);
               ready = float32 (ReadyReplicas deployment);
               workloadStatus = getWorkloadStatus (int32_of desired) (int32_of available);
               rm = getWorkloadReasonAndMessageForDeployment workloadStatus deployment;
               workloadTags = buildWorkloadTags ''Deployment'' (omName (rsMeta deployment)) (omNamespace (rsMeta deployment))
                 (int32_of desired) (int32_of available) (fst rm) (snd rm) (trTags transforms);
               point = (\<lambda>name v. metricPoint (trPrefix transforms) name v now (trSource transforms) 0)
           in ([tags, workloadTags],
               [point ''deployment.desired_replicas'' desired,
                point ''deployment.available_replicas'' available,
                point ''deployment.ready_replicas'' ready,
                buildWorkloadStatusMetric (trPrefix transforms) workloadStatus now (trSource transforms) 1]))
      | _ \<Rightarrow> ([], []))"

definition getWorkloadReasonAndMessageForReplicaSet :: "f64 \<Rightarrow> ksReplicated \<Rightarrow> string \<times> string" where
  "getWorkloadReasonAndMessageForReplicaSet status replicaset =
     (if feq status workloadReady then ('''', '''')
      else (''MinimumReplicasUnavailable'', ''ReplicaSet does not have minimum availability.''))"

definition pointsForReplicaSet :: "kitem \<Rightarrow> Transforms \<Rightarrow> int64 \<Rightarrow> built" where
  "pointsForReplicaSet item transforms now =
     (case item of
        KReplicaSet replicaset \<Rightarrow>
          (let tags = buildTags ''replicaset'' (omName (rsMeta replicaset)) (omNamespace (rsMeta replicaset)) (trTags transforms);
               desired = floatValOrDefault (Replicas replicaset) (Fin 1);
               available = float32 (AvailableReplicas replicaset);
               ready = float32 (ReadyReplicas replicaset);
               point = (\<lambda>name v. metricPoint (trPrefix transforms) name v now (trSource transforms) 0);
               points = [point ''replicaset.desired_replicas'' desired,
                         point ''replicaset.available_replicas'' available,
                         point ''replicaset.ready_replicas'' ready]
           in if \<not> HasOwnerReference (OwnerReferences (rsMeta replicaset))
              then (let workloadStatus = getWorkloadStatus (int32_of desired) (int32_of available);
                        rm = getWorkloadReasonAndMessageForReplicaSet workloadStatus replicaset;
                        workloadTags = buildWorkloadTags ''ReplicaSet'' (omName (rsMeta replicaset))
                          (omNamespace (rsMeta replicaset)) (int32_of desired) (int32_of available) (fst rm) (snd rm)
                          (trTags transforms)
                    in ([tags, workloadTags],
                        points @ [buildWorkloadStatusMetric (trPrefix transforms) workloadStatus now (trSource transforms) 1]))
              else ([tags], points))
      | _ \<Rightarrow> ([], []))"

definition pointsForReplicationController :: "kitem \<Rightarrow> Transforms \<Rightarrow> int64 \<Rightarrow> built" where
  "pointsForReplicationController item transforms now =
     (case item of
        KReplicationController rs \<Rightarrow>
          (let tags = buildTags ''replicationcontroller'' (omName (rsMeta rs)) (omNamespace (rsMeta rs)) (trTags transforms);
               desired = floatValOrDefault (Replicas rs) (Fin 1);
               point = (\<lambda>name v. metricPoint (trPrefix transforms) name v now (trSource transforms) 0)
           in ([tags],
               [point ''replicationcontroller.desired_replicas'' desired,
                point ''replicationcontroller.available_replicas'' (float32 (AvailableReplicas rs)),
                point ''replicationcontroller.ready_replicas'' (float32 (ReadyReplicas rs))]))
      | _ \<Rightarrow> ([], []))"

definition getWorkloadReasonAndMessageForStatefulSet :: "f64 \<Rightarrow> ksReplicated \<Rightarrow> string \<times> string" where
  "getWorkloadReasonAndMessageForStatefulSet status statefulset =
     (if feq status workloadReady then ('''', '''')
      else (''MinimumReplicasUnavailable'', ''StatefulSet does not have minimum availability.''))"

definition pointsForStatefulSet :: "kitem \<Rightarrow> Transforms \<Rightarrow> int64 \<Rightarrow> built" where
  "pointsForStatefulSet item transforms now =
     (case item of
        KStatefulSet statefulset \<Rightarrow>
          (let tags = buildTags ''statefulset'' (omName (rsMeta statefulset)) (omNamespace (rsMeta statefulset)) (trTags transforms);
               desired = floatValOrDefault (Replicas statefulset) (Fin 1);
               ready = float32 (ReadyReplicas statefulset);
               workloadStatus = getWorkloadStatus (int32_of desired) (int32_of ready);
               rm = getWorkloadReasonAndMessageForStatefulSet workloadStatus statefulset;
               workloadTags = buildWorkloadTags ''StatefulSet'' (omName (rsMeta statefulset))
                 (omNamespace (rsMeta statefulset)) (int32_of desired) (int32_of ready) (fst rm) (snd rm) (trTags transforms);
               point = (\<lambda>name v. metricPoint (trPrefix transforms) name v now (trSource transforms) 0)
           in ([tags, workloadTags],
               [point ''statefulset.desired_replicas'' desired,
                point ''statefulset.current_replicas'' (float32 (CurrentReplicas statefulset)),
                point ''statefulset.ready_replicas'' ready,
                point ''statefulset.updated_replicas'' (float32 (UpdatedReplicas statefulset)),
                buildWorkloadStatusMetric (trPrefix transforms) workloadStatus now (trSource transforms) 1]))
      | _ \<Rightarrow> ([], []))"

definition pointsForCronJob :: "kitem \<Rightarrow> Transforms \<Rightarrow> int64 \<Rightarrow> built" where
  "pointsForCronJob item transforms now =
     (case item of
        KCronJob job \<Rightarrow>
          ([buildTags ''cronjob'' (omName (cjMeta job)) (omNamespace (cjMeta job)) (trTags transforms)],
           [metricPoint (trPrefix transforms) ''cronjob.active'' (f64_of_int (int (length (cjActive job)))) now
              (trSource transforms) 0])
      | _ \<Rightarrow> ([], []))"

definition pointsForHPA :: "kitem \<Rightarrow> Transforms \<Rightarrow> int64 \<Rightarrow> built" where
  "pointsForHPA item transforms now =
     (case item of
        KHPA hpa \<Rightarrow>
          (let tags = buildTags ''hpa'' (omName (hpMeta hpa)) (omNamespace (hpMeta hpa)) (trTags transforms);
               point = (\<lambda>name v. metricPoint (trPrefix transforms) name v now (trSource transforms) 0)
           in ([tags],
               [point ''hpa.max_replicas'' (float32 (MaxReplicas hpa)),
                point ''hpa.min_replicas'' (floatValOrDefault (MinReplicas hpa) (Fin 1)),
                point ''hpa.current_replicas'' (float32 (hpCurrentReplicas hpa)),
                point ''hpa.desired_replicas'' (float32 (DesiredReplicas hpa))]))
      | _ \<Rightarrow> ([], []))"


section \<open>Jobs (jobs.go)\<close>

definition getWorkloadNameAndKindForJob :: "ksJob \<Rightarrow> string \<times> string" where
  "getWorkloadNameAndKindForJob job =
     (if HasOwnerReference (OwnerReferences (jbMeta job))
      then (orName (OwnerReferences (jbMeta job) ! 0), orKind (OwnerReferences (jbMeta job) ! 0))
      else (omName (jbMeta job), ''Job''))"

definition getWorkloadStatusForJob :: "PodCondition list \<Rightarrow> f64" where
  "getWorkloadStatusForJob jobConditions =
     (if length jobConditions = 0 then workloadNotReady
      else if list_ex JobConditionIsFailed jobConditions then workloadNotReady else workloadReady)"

definition getWorkloadReasonAndMessageForJob :: "f64 \<Rightarrow> ksJob \<Rightarrow> string \<times> string" where
  "getWorkloadReasonAndMessageForJob status job =
     (if feq status workloadReady then ('''', '''')
      else if sint (jbFailed job) > 0
      then (case find JobConditionIsFailed (jbConditions job) of
              Some condition \<Rightarrow> (pcReason condition, truncateMessage (pcMessage condition))
            | None \<Rightarrow> ('''', ''''))
      else ('''', ''''))"

definition pointsForJob :: "kitem \<Rightarrow> Transforms \<Rightarrow> int64 \<Rightarrow> built" where
  "pointsForJob item transforms now =
     (case item of
        KJob job \<Rightarrow>
          (let tags = buildTags ''job'' (omName (jbMeta job)) (omNamespace (jbMeta job)) (trTags transforms);
               succeeded = float32 (jbSucceeded job);
               point = (\<lambda>name v. metricPoint (trPrefix transforms) name v now (trSource transforms) 0);
               points = [point ''job.active'' (float32 (jbActive job)),
                         point ''job.failed'' (float32 (jbFailed job)),
                         point ''job.succeeded'' succeeded,
                         point ''job.completions'' (floatValOrDefault (Completions job) (Fin (-1))),
                         point ''job.parallelism'' (floatValOrDefault (Parallelism job) (Fin (-1)))];
               workload = getWorkloadNameAndKindForJob job;
               workloadStatus = getWorkloadStatusForJob (jbConditions job);
               rm = getWorkloadReasonAndMessageForJob workloadStatus job;
               desired = intValOrDefault (Completions job) 1;
               workloadTags = buildWorkloadTags (snd workload) (fst workload) (omNamespace (jbMeta job)) desired
                 (int32_of succeeded) (fst rm) (snd rm) (trTags transforms)
           in ([tags, workloadTags],
               points @ [buildWorkloadStatusMetric (trPrefix transforms) workloadStatus now (trSource transforms) 1]))
      | _ \<Rightarrow> ([], []))"

section \<open>Nodes (nodes.go)\<close>

text \<open>One point with a map of its own.\<close>

definition single :: "tagmap \<Rightarrow> (nat \<Rightarrow> ref_point) \<Rightarrow> built" where
  "single tags p = ([tags], [p 0])"

definition buildNodeConditions :: "Node \<Rightarrow> Transforms \<Rightarrow> int64 \<Rightarrow> built" where
  "buildNodeConditions node transforms ts =
     join_built (map (\<lambda>condition.
       let tags = copyLabels (omLabels (nodeMeta node)) (buildTags ''nodename'' (omName (nodeMeta node)) '''' (trTags transforms));
           tags = mput ''status'' (pcStatus condition) tags;
           tags = mput ''condition'' (pcType condition) tags;
           tags = mput (LabelKey LabelMetricSetType) MetricSetTypeNode tags;
           tags = mput (LabelKey LabelNodeRole) (GetNodeRole node) tags
       in single tags (metricPoint (trPrefix transforms) ''node.status.condition''
            (ConditionStatusFloat64 (pcStatus condition)) ts (trSource transforms))) (nodeConditions node))"

definition buildNodeTaints :: "Node \<Rightarrow> Transforms \<Rightarrow> int64 \<Rightarrow> built" where
  "buildNodeTaints node transforms ts =
     join_built (map (\<lambda>taint.
       let tags = copyLabels (omLabels (nodeMeta node)) (buildTags ''nodename'' (omName (nodeMeta node)) '''' (trTags transforms));
           tags = mput ''key'' (ntKey taint) tags;
           tags = mput ''value'' (ntValue taint) tags;
           tags = mput ''effect'' (ntEffect taint) tags
       in single tags (metricPoint (trPrefix transforms) ''node.spec.taint'' (Fin 1) ts (trSource transforms)))
       (nodeTaints node))"

definition buildNodeInfo :: "Node \<Rightarrow> Transforms \<Rightarrow> int64 \<Rightarrow> built" where
  "buildNodeInfo node transforms ts =
     (let tags = copyLabels (omLabels (nodeMeta node)) (buildTags ''nodename'' (omName (nodeMeta node)) '''' (trTags transforms));
          tags = mput ''kernel_version'' (KernelVersion (nodeInfo node)) tags;
          tags = mput ''os_image'' (OSImage (nodeInfo node)) tags;
          tags = mput ''container_runtime_version'' (ContainerRuntimeVersion (nodeInfo node)) tags;
          tags = mput ''kubelet_version'' (KubeletVersion (nodeInfo node)) tags;
          tags = mput ''kubeproxy_version'' (KubeProxyVersion (nodeInfo node)) tags;
          tags = mput ''provider_id'' (nodeProviderID node) tags;
          tags = mput ''pod_cidr'' (nodePodCIDR node) tags;
          tags = mput ''node_role'' (GetNodeRole node) tags;
          tags = foldl (\<lambda>tags address. if naType address = ''InternalIP''
                          then mput ''internal_ip'' (naAddress address) tags else tags) tags (nodeAddresses node)
      in single tags (metricPoint (trPrefix transforms) ''node.info'' (Fin 1) ts (trSource transforms)))"

definition pointsForNode :: "kitem \<Rightarrow> Transforms \<Rightarrow> int64 \<Rightarrow> built" where
  "pointsForNode item transforms now =
     (case item of
        KNode node \<Rightarrow>
          append_built (append_built (buildNodeConditions node transforms now) (buildNodeTaints node transforms now))
            (buildNodeInfo node transforms now)
      | _ \<Rightarrow> ([], []))"

section \<open>Pods that do not run (non_running_pods.go)\<close>

definition getWorkloadStatusForNonRunningPod :: "ContainerStatus list \<Rightarrow> f64" where
  "getWorkloadStatusForNonRunningPod containerStatuses =
     (if length containerStatuses = 0 then workloadNotReady
      else if list_ex (\<lambda>cs. let i = NewContainerStateInfo (ctState cs)
                 in csiValue i = CONTAINER_STATE_TERMINATED \<and> csiReason i = ''Completed'') containerStatuses
      then workloadReady else workloadNotReady)"

text \<open>What one container status, or one condition, explains, if it explains anything.\<close>

definition container_reason :: "int64 \<Rightarrow> ContainerStatus \<Rightarrow> (string \<times> string) option" where
  "container_reason phase cs =
     (if phase = POD_PHASE_PENDING
      then (if ctReady cs then None
            else map_option (\<lambda>w. (fst w, truncateMessage (snd w))) (csWaiting (ctState cs)))
      else if phase = POD_PHASE_FAILED
      then (if ctReady cs then None
            else map_option (\<lambda>t. (tsReason t, truncateMessage (tsMessage t))) (csTerminated (ctState cs)))
      else None)"

definition condition_reason :: "int64 \<Rightarrow> bool \<Rightarrow> PodCondition \<Rightarrow> (string \<times> string) option" where
  "condition_reason phase deleting condition =
     (if (phase = POD_PHASE_PENDING \<or> phase = POD_PHASE_FAILED) \<and> PodConditionIsUnchedulable condition
      then Some (if deleting then ''Terminating'' else pcReason condition, truncateMessage (pcMessage condition))
      else None)"

definition first_reason :: "(string \<times> string) option list \<Rightarrow> string \<times> string" where
  "first_reason rs = (case find (\<lambda>r. r \<noteq> None) rs of Some (Some rm) \<Rightarrow> rm | _ \<Rightarrow> ('''', ''''))"

definition getWorkloadReasonAndMessageForNonRunningPod :: "f64 \<Rightarrow> Pod \<Rightarrow> string \<times> string" where
  "getWorkloadReasonAndMessageForNonRunningPod status pod =
     (if feq status workloadReady then ('''', '''')
      else
       (let phase = ConvertPodPhase (podPhase pod)
        in if 0 < length (podContainerStatuses pod)
           then first_reason (map (container_reason phase) (podContainerStatuses pod))
           else if 0 < length (podConditions pod)
           then first_reason (map (condition_reason phase (podDeleting pod)) (podConditions pod))
           else ('''', '''')))"

definition pending_tags :: "tagmap \<Rightarrow> PodCondition \<Rightarrow> tagmap" where
  "pending_tags tags condition =
     (if pcType condition = ''PodScheduled'' \<and> pcStatus condition = ''False''
      then mput ''message'' (truncateMessage (pcMessage condition))
             (mput ''reason'' (pcReason condition) (mput (LabelKey LabelNodename) ''none'' tags))
      else if pcType condition = ''ContainersReady'' \<and> pcStatus condition = ''False''
      then mput ''message'' (truncateMessage (pcMessage condition)) (mput ''reason'' (pcReason condition) tags)
      else tags)"

definition failed_tags :: "tagmap \<Rightarrow> PodCondition \<Rightarrow> tagmap" where
  "failed_tags tags condition =
     (if pcType condition = ''Ready''
      then mput ''message'' (truncateMessage (pcMessage condition)) (mput ''reason'' (pcReason condition) tags)
      else tags)"

text \<open>The function also writes the node name into the shared tags; the result has them.\<close>

definition buildPodPhaseMetrics :: "Pod \<Rightarrow> Transforms \<Rightarrow> tagmap \<Rightarrow> int64 \<Rightarrow> built \<times> tagmap" where
  "buildPodPhaseMetrics pod transforms sharedTags now =
     (let tags = buildTags ''pod_name'' (omName (podMeta pod)) (omNamespace (podMeta pod)) (trTags transforms);
          tags = mput (LabelKey LabelMetricSetType) MetricSetTypePod tags;
          tags = mput (LabelKey LabelPodId) (omUID (podMeta pod)) tags;
          tags = mput ''phase'' (podPhase pod) tags;
          phaseValue = ConvertPodPhase (podPhase pod);
          tags = (if phaseValue = POD_PHASE_PENDING then foldl pending_tags tags (podConditions pod) else tags);
          tags = (if phaseValue = POD_PHASE_FAILED then foldl failed_tags tags (podConditions pod) else tags);
          sharedTags = (if 0 < length (podNodeName pod)
                        then mput (LabelKey LabelNodename) (podNodeName pod) sharedTags else sharedTags);
          tags = copyTags sharedTags tags
      in (single tags (metricPoint (trPrefix transforms) ''pod.status.phase'' (f64_of_int (sint phaseValue)) now
                        (trSource transforms)), sharedTags))"

definition buildContainerStatusMetrics :: "Pod \<Rightarrow> tagmap \<Rightarrow> Transforms \<Rightarrow> int64 \<Rightarrow> built" where
  "buildContainerStatusMetrics pod sharedTags transforms now =
     join_built (map (\<lambda>status.
       let info = NewContainerStateInfo (ctState status);
           tags = buildTags ''pod_name'' (omName (podMeta pod)) (omNamespace (podMeta pod)) (trTags transforms);
           tags = mput (LabelKey LabelMetricSetType) MetricSetTypePodContainer tags;
           tags = mput (LabelKey LabelContainerName) (ctName status) tags;
           tags = mput (LabelKey LabelContainerBaseImage) (ctImage status) tags;
           tags = copyTags sharedTags tags;
           tags = AddMetricTags info tags
       in single tags (metricPoint (trPrefix transforms) ''pod_container.status'' (f64_of_int (int (csiValue info))) now
            (trSource transforms))) (podContainerStatuses pod))"

definition pointsForNonRunningPods :: "listers \<Rightarrow> kitem \<Rightarrow> Transforms \<Rightarrow> int64 \<Rightarrow> built" where
  "pointsForNonRunningPods workloadCache item transforms now =
     (case item of
        KPod pod \<Rightarrow>
          (let workload = GetWorkloadForPod workloadCache pod;
               sharedTags = mput ''workload_kind'' (snd workload) (mput ''workload_name'' (fst workload) []);
               sharedTags = copyLabels (omLabels (podMeta pod)) sharedTags;
               phased = buildPodPhaseMetrics pod transforms sharedTags now;
               points = append_built (fst phased) (buildContainerStatusMetrics pod (snd phased) transforms now)
           in if \<not> HasOwnerReference (OwnerReferences (podMeta pod))
              then (let workloadStatus = getWorkloadStatusForNonRunningPod (podContainerStatuses pod);
                        rm = getWorkloadReasonAndMessageForNonRunningPod workloadStatus pod;
                        workloadTags = buildWorkloadTags ''Pod'' (omName (podMeta pod)) (omNamespace (podMeta pod))
                          1 0 (fst rm) (snd rm) (trTags transforms)
                    in append_built points (single workloadTags
                         (buildWorkloadStatusMetric (trPrefix transforms) workloadStatus now (trSource transforms))))
              else points)
      | _ \<Rightarrow> ([], []))"


section \<open>Volumes and claims (pv.go, pvc.go)\<close>

text \<open>The list of the first names of a fibre-channel volume, joined with commas: nothing for no name.\<close>

definition add_names :: "string \<Rightarrow> string list \<Rightarrow> tagmap \<Rightarrow> tagmap" where
  "add_names key names tags =
     snd (foldl (\<lambda>s name.
            let joined = (if length (fst s) \<noteq> 0 then fst s @ '','' else fst s) @ name
            in (joined, mput key joined (snd s))) ('''', tags) names)"

definition setVolumeSource :: "volume_source \<Rightarrow> tagmap \<Rightarrow> tagmap" where
  "setVolumeSource src tags =
     (case src of
        CephFS path \<Rightarrow> mput ''cephfs_path'' path tags
      | CSI driver handle \<Rightarrow> mput ''csi_volume_handle'' handle (mput ''csi_driver'' driver tags)
      | HostPath path ty \<Rightarrow>
          (let tags = mput ''host_path'' path tags
           in case ty of Some t \<Rightarrow> mput ''host_path_type'' t tags | None \<Rightarrow> tags)
      | ISCSI portal iqn lun initiator \<Rightarrow>
          (let tags = mput ''iscsi_lun'' (show_int (sint lun)) (mput ''iscsi_iqn'' iqn (mput ''iscsi_target_portal'' portal tags))
           in case initiator of Some n \<Rightarrow> mput ''iscsi_initiator_name'' n tags | None \<Rightarrow> tags)
      | LocalVolume path fsType \<Rightarrow>
          (let tags = mput ''local_path'' path tags
           in case fsType of Some t \<Rightarrow> mput ''local_fs_type'' t tags | None \<Rightarrow> tags)
      | NFS server path \<Rightarrow> mput ''nfs_path'' path (mput ''nfs_server'' server tags)
      | RBD rbdImage fsType \<Rightarrow> mput ''rbd_fs_type'' fsType (mput ''rbd_image'' rbdImage tags)
      | PortworxVolume volumeID fsType \<Rightarrow>
          mput ''portworx_fs_type'' fsType (mput ''portworx_volume_id'' volumeID tags)
      | FlexVolume driver fsType \<Rightarrow> mput ''flex_volume_fs_type'' fsType (mput ''flex_volume_driver'' driver tags)
      | GCEPersistentDisk pdName \<Rightarrow> mput ''gce_persistent_disk_name'' pdName tags
      | AWSElasticBlockStore volumeID \<Rightarrow> mput ''ebs_volume_id'' volumeID tags
      | AzureDisk diskName \<Rightarrow> mput ''azure_disk_name'' diskName tags
      | FC lun targetWWNs wwids \<Rightarrow>
          (let tags = (case lun of Some l \<Rightarrow> mput ''fc_lun'' (show_int (sint l)) tags | None \<Rightarrow> tags)
           in add_names ''fc_wwids'' wwids (add_names ''fc_target_wwns'' targetWWNs tags))
      | NoVolume \<Rightarrow> tags)"

definition buildPVPhase :: "ksPV \<Rightarrow> Transforms \<Rightarrow> int64 \<Rightarrow> tagmap \<Rightarrow> built" where
  "buildPVPhase persistentVolume transforms now sharedTags =
     (let tags = copyTags sharedTags [];
          tags = mput (LabelKey LabelMetricSetType) MetricSetTypePersistentVolume tags;
          tags = mput ''phase'' (pvPhase persistentVolume) tags;
          phaseValue = ConvertPVPhase (pvPhase persistentVolume);
          tags = (case ClaimRef persistentVolume of
                    Some (name, ns) \<Rightarrow> mput ''claim_ref_namespace'' ns (mput ''claim_ref_name'' name tags)
                  | None \<Rightarrow> tags)
      in single tags (metricPoint (trPrefix transforms) ''pv.status.phase'' (f64_of_int (sint phaseValue)) now
           (trSource transforms)))"

definition buildPVCapacityBytes :: "ksPV \<Rightarrow> Transforms \<Rightarrow> int64 \<Rightarrow> tagmap \<Rightarrow> built" where
  "buildPVCapacityBytes persistentVolume transforms now sharedTags =
     (let capacity = rget (pvCapacity persistentVolume) ''storage''
      in single (copyTags sharedTags []) (metricPoint (trPrefix transforms) ''pv.capacity_bytes''
           (f64_of_int (sint (qValue capacity))) now (trSource transforms)))"

definition buildPVAccessModes :: "ksPV \<Rightarrow> Transforms \<Rightarrow> int64 \<Rightarrow> tagmap \<Rightarrow> built" where
  "buildPVAccessModes persistentVolume transforms now sharedTags =
     join_built (map (\<lambda>accessMode.
       single (mput ''access_mode'' accessMode (copyTags sharedTags []))
         (metricPoint (trPrefix transforms) ''pv.access_mode'' (Fin 1) now (trSource transforms)))
       (pvAccessModes persistentVolume))"

definition buildPVInfo :: "ksPV \<Rightarrow> Transforms \<Rightarrow> int64 \<Rightarrow> tagmap \<Rightarrow> built" where
  "buildPVInfo persistentVolume transforms now sharedTags =
     single (setVolumeSource (pvSource persistentVolume) (copyTags sharedTags []))
       (metricPoint (trPrefix transforms) ''pv.info'' (Fin 1) now (trSource transforms))"

definition pointsForPV :: "kitem \<Rightarrow> Transforms \<Rightarrow> int64 \<Rightarrow> built" where
  "pointsForPV item transforms now =
     (case item of
        KPV persistentVolume \<Rightarrow>
          (let sharedTags = buildTags ''pv_name'' (omName (pvMeta persistentVolume)) (omNamespace (pvMeta persistentVolume))
                 (trTags transforms);
               sharedTags = copyLabels (omLabels (pvMeta persistentVolume)) sharedTags
           in join_built
                [buildPVCapacityBytes persistentVolume transforms now sharedTags,
                 buildPVInfo persistentVolume transforms now sharedTags,
                 buildPVPhase persistentVolume transforms now sharedTags,
                 buildPVAccessModes persistentVolume transforms now sharedTags])
      | _ \<Rightarrow> ([], []))"

definition buildPVCRequestStorage :: "ksPVC \<Rightarrow> Transforms \<Rightarrow> int64 \<Rightarrow> tagmap \<Rightarrow> built" where
  "buildPVCRequestStorage claim transforms now sharedTags =
     (let resourceStorage = rget (pvcRequests claim) ''storage''
      in single (copyTags sharedTags []) (metricPoint (trPrefix transforms) ''pvc.request.storage_bytes''
           (f64_of_int (sint (qValue resourceStorage))) now (trSource transforms)))"

definition buildPVCInfo :: "ksPVC \<Rightarrow> Transforms \<Rightarrow> int64 \<Rightarrow> tagmap \<Rightarrow> built" where
  "buildPVCInfo claim transforms now sharedTags =
     (let tags = mput ''volume_name'' (pvcVolumeName claim) (copyTags sharedTags []);
          tags = (case mget (omAnnotations (pvcMeta claim)) ''volume.beta.kubernetes.io/storage-class'' of
                    Some klass \<Rightarrow> mput ''storage_class_name'' klass tags
                  | None \<Rightarrow> (case StorageClassName claim of
                               Some klass \<Rightarrow> mput ''storage_class_name'' klass tags | None \<Rightarrow> tags))
      in single tags (metricPoint (trPrefix transforms) ''pvc.info'' (Fin 1) now (trSource transforms)))"

definition buildPVCPhaseMetric :: "ksPVC \<Rightarrow> Transforms \<Rightarrow> int64 \<Rightarrow> tagmap \<Rightarrow> built" where
  "buildPVCPhaseMetric claim transforms now sharedTags =
     single (mput ''phase'' (pvcPhase claim) (copyTags sharedTags []))
       (metricPoint (trPrefix transforms) ''pvc.status.phase'' (f64_of_int (sint (ConvertPVCPhase (pvcPhase claim)))) now
          (trSource transforms))"

definition buildPVCConditions :: "ksPVC \<Rightarrow> Transforms \<Rightarrow> int64 \<Rightarrow> tagmap \<Rightarrow> built" where
  "buildPVCConditions claim transforms now sharedTags =
     join_built (map (\<lambda>condition.
       single (mput ''condition'' (pcType condition) (mput ''status'' (pcStatus condition) (copyTags sharedTags [])))
         (metricPoint (trPrefix transforms) ''pvc.status.condition'' (ConditionStatusFloat64 (pcStatus condition)) now
            (trSource transforms))) (pvcConditions claim))"

definition buildPVCAccessModes :: "ksPVC \<Rightarrow> Transforms \<Rightarrow> int64 \<Rightarrow> tagmap \<Rightarrow> built" where
  "buildPVCAccessModes claim transforms now sharedTags =
     join_built (map (\<lambda>accessMode.
       single (mput ''access_mode'' accessMode (copyTags sharedTags []))
         (metricPoint (trPrefix transforms) ''pvc.access_mode'' (Fin 1) now (trSource transforms)))
       (pvcAccessModes claim))"

definition pointsForPVC :: "kitem \<Rightarrow> Transforms \<Rightarrow> int64 \<Rightarrow> built" where
  "pointsForPVC item transforms now =
     (case item of
        KPVC claim \<Rightarrow>
          (let sharedTags = buildTags ''pvc_name'' (omName (pvcMeta claim)) (omNamespace (pvcMeta claim)) (trTags transforms);
               sharedTags = copyLabels (omLabels (pvcMeta claim)) sharedTags
           in join_built
                [buildPVCRequestStorage claim transforms now sharedTags,
                 buildPVCInfo claim transforms now sharedTags,
                 buildPVCPhaseMetric claim transforms now sharedTags,
                 buildPVCConditions claim transforms now sharedTags,
                 buildPVCAccessModes claim transforms now sharedTags])
      | _ \<Rightarrow> ([], []))"

section \<open>The source and its provider (provider.go)\<close>

type_synonym resourceHandler = "kitem \<Rightarrow> Transforms \<Rightarrow> int64 \<Rightarrow> built"

record stateMetricsSource =
  ksTransforms :: Transforms
  ksFilters :: "globFilter option"
  ksFuncs :: "(string, resourceHandler) gomap"

definition getDefault :: "string \<Rightarrow> string \<Rightarrow> string" where
  "getDefault val defaultVal = (if val = '''' then defaultVal else val)"

definition state_handlers :: "listers \<Rightarrow> (string, resourceHandler) gomap" where
  "state_handlers workloadCache =
     [(''jobs'', pointsForJob), (''cronjobs'', pointsForCronJob), (''daemonsets'', pointsForDaemonSet),
      (''deployments'', pointsForDeployment), (''replicasets'', pointsForReplicaSet),
      (''replicationcontrollers'', pointsForReplicationController), (''statefulsets'', pointsForStatefulSet),
      (''horizontalpodautoscalers'', pointsForHPA), (''nodes'', pointsForNode),
      (''pods'', pointsForNonRunningPods workloadCache), (''persistentvolumeclaims'', pointsForPVC),
      (''persistentvolumes'', pointsForPV)]"

definition NewStateMetricsSource :: "glob_compile \<Rightarrow> string \<Rightarrow> listers \<Rightarrow> Transforms \<Rightarrow> stateMetricsSource" where
  "NewStateMetricsSource gc nodeName workloadCache transforms =
     (let transforms = transforms\<lparr>trSource := getDefault nodeName (trSource transforms)\<rparr>;
          transforms = transforms\<lparr>trPrefix := getDefault (trPrefix transforms) ''kubernetes.''\<rparr>
      in \<lparr>ksTransforms = transforms, ksFilters = FromConfig gc (trFilters transforms),
          ksFuncs = state_handlers workloadCache\<rparr>)"

text \<open>\<open>lst\<close> is what the lister gives for a resource, nothing for one it does not know; \<open>clock\<close> is the time
  when an object is handled.\<close>

definition pointsForResource ::
  "(string \<Rightarrow> kitem list option) \<Rightarrow> (kitem \<Rightarrow> int64) \<Rightarrow> stateMetricsSource \<Rightarrow> string \<Rightarrow> built" where
  "pointsForResource lst clock src resType =
     (case lst resType of
        None \<Rightarrow> ([], [])
      | Some items \<Rightarrow>
          if length items = 0 then ([], [])
          else case mget (ksFuncs src) resType of
                 None \<Rightarrow> ([], [])
               | Some f \<Rightarrow> join_built (map (\<lambda>item. f item (ksTransforms src) (clock item)) items))"

text \<open>A scrape: the points of each resource pass the filter as they come; the result is the points with the
  tags they end up with, and what the counters of filtered and of collected points grow by.\<close>

definition scrape_resource ::
  "(string \<Rightarrow> kitem list option) \<Rightarrow> (kitem \<Rightarrow> int64) \<Rightarrow> stateMetricsSource \<Rightarrow> conversion \<Rightarrow> string \<Rightarrow> conversion" where
  "scrape_resource lst clock src c resType =
     (let b = pointsForResource lst clock src resType;
          n = length (cvStore c);
          c = c\<lparr>cvStore := cvStore c @ fst b\<rparr>
      in foldl (\<lambda>c p. filter_append (ksFilters src) (p\<lparr>rpRef := n + rpRef p\<rparr>) c) c (snd b))"

definition kstate_Scrape ::
  "(string \<Rightarrow> kitem list option) \<Rightarrow> (kitem \<Rightarrow> int64) \<Rightarrow> stateMetricsSource \<Rightarrow> point list \<times> int64 \<times> int64" where
  "kstate_Scrape lst clock src =
     (let c = foldl (scrape_resource lst clock src)
                \<lparr>cvStore = [], cvPoints = [], cvFiltered = 0, cvCollected = 0\<rparr> (mkeys (ksFuncs src));
          points = map (deref (cvStore c)) (cvPoints c)
      in (points, cvFiltered c, of_nat (length points)))"

definition kstate_GetMetricsSources :: "bool \<Rightarrow> stateMetricsSource list \<Rightarrow> stateMetricsSource list" where
  "kstate_GetMetricsSources leading sources = (if \<not> leading then [] else sources)"

text \<open>The provider's sources; \<open>client\<close> and \<open>cache\<close> say whether the client and the cache were given.\<close>

definition NewStateProvider ::
  "glob_compile \<Rightarrow> string \<Rightarrow> bool \<Rightarrow> bool \<Rightarrow> listers option \<Rightarrow> Transforms \<Rightarrow> string + stateMetricsSource list" where
  "NewStateProvider gc nodeName scrapeCluster client cache transforms =
     (if \<not> scrapeCluster then Inr []
      else if \<not> client then Inl ''kubeclient not initialized''
      else case cache of
             None \<Rightarrow> Inl ''workload cache not initialized''
           | Some workloadCache \<Rightarrow> Inr [NewStateMetricsSource gc nodeName workloadCache transforms])"


section \<open>The lister (lister.go)\<close>

text \<open>
  \<open>Resume\<close> makes a channel and starts every informer with it, \<open>Pause\<close> closes the channel. Of an informer the
  state is what \<open>sharedIndexInformer.Run\<close> of the vendored client keeps: it runs until the channel it was
  started with is closed, and it refuses to be started twice. A channel is known by its number; closing a
  closed channel panics.
\<close>

record informer =
  ifStarted :: bool
  ifStopCh :: nat

record kslister =
  klInformers :: "(string, informer) gomap"
  klStopCh :: "nat option"
  klNext :: nat
  klClosed :: "nat list"

definition informer_Run :: "nat \<Rightarrow> informer \<Rightarrow> informer" where
  "informer_Run stopCh i = (if ifStarted i then i else \<lparr>ifStarted = True, ifStopCh = stopCh\<rparr>)"

definition informer_running :: "kslister \<Rightarrow> informer \<Rightarrow> bool" where
  "informer_running l i \<longleftrightarrow> ifStarted i \<and> ifStopCh i \<notin> set (klClosed l)"

definition new_kslister :: "string list \<Rightarrow> kslister" where
  "new_kslister names =
     \<lparr>klInformers = map (\<lambda>n. (n, \<lparr>ifStarted = False, ifStopCh = 0\<rparr>)) names, klStopCh = None, klNext = 0, klClosed = []\<rparr>"

text \<open>The names of the informers built for a client.\<close>

definition buildInformers :: "string list" where
  "buildInformers =
     [''daemonsets'', ''deployments'', ''statefulsets'', ''replicasets'', ''jobs'', ''cronjobs'',
      ''horizontalpodautoscalers'', ''nodes'', ''replicationcontrollers'', ''pods'', ''persistentvolumeclaims'',
      ''persistentvolumes'']"

definition lister_List :: "(string \<Rightarrow> kitem list) \<Rightarrow> kslister \<Rightarrow> string \<Rightarrow> kitem list option" where
  "lister_List stores l resource = (if mhas (klInformers l) resource then Some (stores resource) else None)"

definition lister_Resume :: "kslister \<Rightarrow> kslister" where
  "lister_Resume l =
     (let stopCh = klNext l
      in l\<lparr>klStopCh := Some stopCh, klNext := stopCh + 1,
           klInformers := map (\<lambda>e. (fst e, informer_Run stopCh (snd e))) (klInformers l)\<rparr>)"

text \<open>\<open>None\<close>: the channel is closed already, and the close panics.\<close>

definition lister_Pause :: "kslister \<Rightarrow> kslister option" where
  "lister_Pause l =
     (case klStopCh l of
        None \<Rightarrow> Some l
      | Some c \<Rightarrow> if c \<in> set (klClosed l) then None else Some (l\<lparr>klClosed := c # klClosed l\<rparr>))"

datatype lister_event = EvResume | EvPause

fun lister_run :: "kslister \<Rightarrow> lister_event list \<Rightarrow> kslister option" where
  "lister_run l [] = Some l"
| "lister_run l (EvResume # es) = lister_run (lister_Resume l) es"
| "lister_run l (EvPause # es) = (case lister_Pause l of None \<Rightarrow> None | Some l' \<Rightarrow> lister_run l' es)"


section \<open>The informers run once\<close>

fun double_pause :: "lister_event list \<Rightarrow> bool" where
  "double_pause (EvPause # EvPause # es) \<longleftrightarrow> True"
| "double_pause (e # es) \<longleftrightarrow> double_pause es"
| "double_pause [] \<longleftrightarrow> False"

definition starts_paused :: "lister_event list \<Rightarrow> bool" where
  "starts_paused es \<longleftrightarrow> (case es of EvPause # _ \<Rightarrow> True | _ \<Rightarrow> False)"

lemma double_pause_Cons: "double_pause (e # es) \<longleftrightarrow> e = EvPause \<and> starts_paused es \<or> double_pause es"
proof (cases e)
  case EvPause
  then show ?thesis
    by (cases es rule: double_pause.cases) (auto simp: starts_paused_def split: list.splits lister_event.splits)
qed (simp add: starts_paused_def)

text \<open>A lister whose informers all run on the channel \<open>c\<close>, and what a run does to it.\<close>

definition started_on :: "nat \<Rightarrow> kslister \<Rightarrow> bool" where
  "started_on c l \<longleftrightarrow> list_all (\<lambda>e. ifStarted (snd e) \<and> ifStopCh (snd e) = c) (klInformers l) \<and>
     c < klNext l \<and> (\<forall>d \<in> set (klClosed l). d < klNext l) \<and>
     (case klStopCh l of None \<Rightarrow> False | Some d \<Rightarrow> d < klNext l)"

lemma informer_Run_started: "list_all (\<lambda>e. ifStarted (snd e) \<and> ifStopCh (snd e) = c) is \<Longrightarrow>
  map (\<lambda>e. (fst e, informer_Run s (snd e))) is = is"
  by (induction "is") (auto simp: informer_Run_def)

lemma lister_run_started:
  assumes "started_on c l" and "klStopCh l = Some d"
  shows "case lister_run l es of
      None \<Rightarrow> double_pause es \<or> d \<in> set (klClosed l) \<and> starts_paused es
    | Some l' \<Rightarrow> \<not> double_pause es \<and> (d \<in> set (klClosed l) \<longrightarrow> \<not> starts_paused es) \<and>
        klInformers l' = klInformers l \<and>
        (c \<in> set (klClosed l') \<longleftrightarrow> c \<in> set (klClosed l) \<or> d = c \<and> starts_paused es)"
  using assms
proof (induction es arbitrary: l d)
  case (Cons e es)
  show ?case
  proof (cases e)
    case EvResume
    let ?l = "lister_Resume l"
    have same: "klInformers ?l = klInformers l" "klClosed ?l = klClosed l" "klStopCh ?l = Some (klNext l)"
      using Cons.prems(1) informer_Run_started [of c "klInformers l" "klNext l"]
      by (simp_all add: lister_Resume_def Let_def started_on_def)
    have "started_on c ?l"
      using Cons.prems(1) same(1) by (auto simp: started_on_def same) (auto simp: lister_Resume_def Let_def)
    from Cons.IH [OF this same(3)] Cons.prems show ?thesis
      by (auto simp: EvResume same started_on_def double_pause_Cons starts_paused_def split: option.splits)
  next
    case EvPause
    show ?thesis
    proof (cases "d \<in> set (klClosed l)")
      case True
      then show ?thesis using Cons.prems(2) by (simp add: EvPause lister_Pause_def starts_paused_def)
    next
      case False
      let ?l = "l\<lparr>klClosed := d # klClosed l\<rparr>"
      have "started_on c ?l" using Cons.prems by (auto simp: started_on_def)
      from Cons.IH [OF this, of d] Cons.prems(2) False show ?thesis
        by (auto simp: EvPause lister_Pause_def double_pause_Cons starts_paused_def split: option.splits)
    qed
  qed
qed (simp add: starts_paused_def)

definition after_start :: "lister_event list \<Rightarrow> lister_event list" where
  "after_start es = dropWhile (\<lambda>e. e = EvPause) es"

lemma lister_run_fresh: "lister_run (new_kslister names) es = lister_run (new_kslister names) (after_start es)"
  by (induction es) (auto simp: after_start_def lister_Pause_def new_kslister_def split: lister_event.split)

lemma after_start_cases: "after_start es = [] \<or> (\<exists>es'. after_start es = EvResume # es')"
proof (cases "after_start es")
  case (Cons e es')
  then have "e \<noteq> EvPause" unfolding after_start_def by (metis (mono_tags) dropWhile_eq_Cons_conv)
  then show ?thesis using Cons by (cases e) auto
qed simp

text \<open>C4: The informers of the state source run once. For every sequence of resumes and pauses the lister
  gets from the leadership: it panics exactly when it is paused twice in a row after a first resume; else its
  informers run at the end exactly when there was a resume and it was not followed by a pause. In
  particular no later resume starts them again, because the vendored client refuses to start an informer
  twice: an instance that leads, loses the leadership and gets it back reports the objects as they were.\<close>
theorem lister_runs_once:
  "case lister_run (new_kslister names) es of
     None \<Rightarrow> double_pause (after_start es)
   | Some l \<Rightarrow> \<not> double_pause (after_start es) \<and> mkeys (klInformers l) = names \<and>
       list_all (\<lambda>e. informer_running l (snd e) \<longleftrightarrow> after_start es \<noteq> [] \<and> \<not> starts_paused (tl (after_start es)))
         (klInformers l)"
proof (cases "after_start es = []")
  case True
  then show ?thesis
    by (subst lister_run_fresh) (simp add: new_kslister_def mkeys_def list_all_length informer_running_def comp_def)
next
  case False
  then obtain es' where es: "after_start es = EvResume # es'" using after_start_cases [of es] by auto
  let ?l = "lister_Resume (new_kslister names)"
  have l: "started_on 0 ?l" "klStopCh ?l = Some 0" "klClosed ?l = []" "mkeys (klInformers ?l) = names"
    by (simp_all add: started_on_def lister_Resume_def new_kslister_def informer_Run_def list_all_length mkeys_def comp_def)
  have "list_all (\<lambda>e. ifStarted (snd e) \<and> ifStopCh (snd e) = 0) (klInformers ?l)" using l(1) by (simp add: started_on_def)
  with lister_run_started [OF l(1,2), of es'] l(3,4) show ?thesis
    by (subst lister_run_fresh)
      (auto simp: es double_pause_Cons list_all_iff informer_running_def starts_paused_def split: option.splits)
qed


section \<open>What a scrape delivers\<close>

text \<open>The points of an object with the tags they have when nothing is filtered.\<close>

definition built_points :: "built \<Rightarrow> point list" where
  "built_points b = map (deref (fst b)) (snd b)"

definition wf_built :: "built \<Rightarrow> bool" where
  "wf_built b \<longleftrightarrow> list_all (\<lambda>p. rpRef p < length (fst b)) (snd b)"

lemma wf_built_append: "wf_built a \<Longrightarrow> wf_built b \<Longrightarrow> wf_built (append_built a b)"
  by (auto simp: wf_built_def append_built_def list_all_iff)

lemma built_points_append:
  "wf_built a \<Longrightarrow> wf_built b \<Longrightarrow> built_points (append_built a b) = built_points a @ built_points b"
  by (auto simp: wf_built_def append_built_def built_points_def list_all_iff deref_def nth_append)

lemma join_built_from:
  "wf_built a \<Longrightarrow> list_all wf_built bs \<Longrightarrow> wf_built (foldl append_built a bs) \<and>
     built_points (foldl append_built a bs) = built_points a @ concat (map built_points bs)"
  by (induction bs arbitrary: a) (simp_all add: wf_built_append built_points_append)

lemma wf_built_Nil [simp]: "wf_built ([], [])" "built_points ([], []) = []"
  by (simp_all add: wf_built_def built_points_def)

lemma wf_join_built [simp]: "list_all wf_built bs \<Longrightarrow> wf_built (join_built bs)"
  and built_points_join: "list_all wf_built bs \<Longrightarrow> built_points (join_built bs) = concat (map built_points bs)"
  using join_built_from [of "([], [])" bs] by (simp_all add: join_built_def)

lemma rpRef_metricPoint [simp]: "rpRef (metricPoint pfx name v ts source r) = r"
  by (simp add: metricPoint_def)

lemma rpRef_workload [simp]: "rpRef (buildWorkloadStatusMetric pfx v ts source r) = r"
  by (simp add: buildWorkloadStatusMetric_def)

lemma wf_single [simp]: "wf_built (single tags (metricPoint pfx name v ts source))"
  "wf_built (single tags (buildWorkloadStatusMetric pfx v ts source))"
  by (simp_all add: wf_built_def single_def)

lemma list_all_map_single [simp]: "(\<And>x. wf_built (f x)) \<Longrightarrow> list_all wf_built (map f xs)"
  by (simp add: list_all_iff)

lemma wf_node_points [simp]:
  "wf_built (buildNodeConditions node t now)" "wf_built (buildNodeTaints node t now)" "wf_built (buildNodeInfo node t now)"
  by (simp_all add: buildNodeConditions_def buildNodeTaints_def buildNodeInfo_def Let_def)

lemma wf_pod_points [simp]:
  "wf_built (fst (buildPodPhaseMetrics pod t shared now))" "wf_built (buildContainerStatusMetrics pod shared t now)"
  by (simp_all add: buildPodPhaseMetrics_def buildContainerStatusMetrics_def Let_def)

lemma wf_volume_points [simp]:
  "wf_built (buildPVPhase pv t now shared)" "wf_built (buildPVCapacityBytes pv t now shared)"
  "wf_built (buildPVAccessModes pv t now shared)" "wf_built (buildPVInfo pv t now shared)"
  "wf_built (buildPVCRequestStorage claim t now shared)" "wf_built (buildPVCInfo claim t now shared)"
  "wf_built (buildPVCPhaseMetric claim t now shared)" "wf_built (buildPVCConditions claim t now shared)"
  "wf_built (buildPVCAccessModes claim t now shared)"
  by (simp_all add: buildPVPhase_def buildPVCapacityBytes_def buildPVAccessModes_def buildPVInfo_def
      buildPVCRequestStorage_def buildPVCInfo_def buildPVCPhaseMetric_def buildPVCConditions_def buildPVCAccessModes_def Let_def)

lemmas workload_handlers =
  pointsForJob_def pointsForCronJob_def pointsForDaemonSet_def pointsForDeployment_def pointsForReplicaSet_def
  pointsForReplicationController_def pointsForStatefulSet_def pointsForHPA_def

lemma wf_workload_handlers [simp]:
  "wf_built (pointsForJob item t now)" "wf_built (pointsForCronJob item t now)" "wf_built (pointsForDaemonSet item t now)"
  "wf_built (pointsForDeployment item t now)" "wf_built (pointsForReplicaSet item t now)"
  "wf_built (pointsForReplicationController item t now)" "wf_built (pointsForStatefulSet item t now)"
  "wf_built (pointsForHPA item t now)"
  by (cases item; simp add: workload_handlers Let_def wf_built_def)+

lemma wf_object_handlers [simp]:
  "wf_built (pointsForNode item t now)" "wf_built (pointsForNonRunningPods wc item t now)"
  "wf_built (pointsForPVC item t now)" "wf_built (pointsForPV item t now)"
  by (cases item; simp add: pointsForNode_def pointsForNonRunningPods_def pointsForPVC_def pointsForPV_def Let_def
      wf_built_append)+

text \<open>A source whose handlers give maps for all their points, as the one that is made does.\<close>

definition wf_source :: "stateMetricsSource \<Rightarrow> bool" where
  "wf_source src \<longleftrightarrow> (\<forall>n f item t now. mget (ksFuncs src) n = Some f \<longrightarrow> wf_built (f item t now))"

lemma wf_NewStateMetricsSource: "wf_source (NewStateMetricsSource gc nodeName wc transforms)"
  by (auto simp: wf_source_def NewStateMetricsSource_def state_handlers_def Let_def mget_Cons split: if_splits)

lemma wf_pointsForResource: "wf_source src \<Longrightarrow> wf_built (pointsForResource lst clock src n)"
  by (auto simp: pointsForResource_def wf_source_def list_all_iff intro!: wf_join_built split: option.splits)


text \<open>What of a point no filter changes.\<close>

definition header :: "point \<Rightarrow> string \<times> f64 \<times> int64 \<times> string" where
  "header p = (ptMetric p, ptValue p, ptTimestamp p, ptSource p)"

definition scraped :: "globFilter option \<Rightarrow> conversion \<Rightarrow> point list \<Rightarrow> bool" where
  "scraped fi c built \<longleftrightarrow>
     (\<forall>p \<in> set (cvPoints c). rpRef p < length (cvStore c)) \<and>
     cvFiltered c + of_nat (length (cvPoints c)) = of_nat (length built) \<and>
     subseq (map (header \<circ> deref []) (cvPoints c)) (map header built) \<and>
     (case fi of None \<Rightarrow> map (deref (cvStore c)) (cvPoints c) = built | Some f \<Rightarrow> clean f c)"

lemma header_deref: "header (deref store p) = header (deref [] p)"
  by (simp add: header_def deref_def NewPoint_def)

lemma header_shift: "header (deref st (p\<lparr>rpRef := r\<rparr>)) = header (deref [] p)"
  by (simp add: header_def deref_def NewPoint_def)

lemma scraped_store: "scraped fi c built \<Longrightarrow> scraped fi (c\<lparr>cvStore := cvStore c @ extra\<rparr>) built"
  by (auto simp: scraped_def clean_def nth_append deref_def split: option.splits) fastforce

lemma scraped_filter_append:
  assumes "scraped fi c built" and "rpRef p < length (cvStore c)" and "header q = header (deref [] p)"
    and "fi = None \<Longrightarrow> q = deref (cvStore c) p"
  shows "scraped fi (filter_append fi p c) (built @ [q])"
proof (cases fi)
  case None
  then show ?thesis using assms
    by (auto simp: scraped_def filter_append_def intro: subseq_append [THEN iffD2])
next
  case (Some f)
  have "clean f (filter_append (Some f) p c)"
    using assms(1,2) Some by (intro clean_filter_append) (auto simp: scraped_def)
  then show ?thesis using assms Some
    by (auto simp: scraped_def filter_append_def algebra_simps intro: list_emb_prefix)
qed

lemma scraped_points:
  assumes "scraped fi c built" and "list_all (\<lambda>p. n + rpRef p < length (cvStore c)) ps"
    and "fi = None \<Longrightarrow> \<forall>p \<in> set ps. deref (cvStore c) (p\<lparr>rpRef := n + rpRef p\<rparr>) = deref st p"
  shows "scraped fi (foldl (\<lambda>c p. filter_append fi (p\<lparr>rpRef := n + rpRef p\<rparr>) c) c ps) (built @ map (deref st) ps)"
  using assms
proof (induction ps arbitrary: c built)
  case (Cons p ps)
  let ?c = "filter_append fi (p\<lparr>rpRef := n + rpRef p\<rparr>) c"
  have "scraped fi ?c (built @ [deref st p])"
    using Cons.prems by (intro scraped_filter_append) (auto simp: header_shift header_deref [of st p])
  moreover have "length (cvStore ?c) = length (cvStore c)" by (rule filter_append_refs(1))
  moreover have "fi = None \<Longrightarrow> cvStore ?c = cvStore c" by (simp add: filter_append_def)
  ultimately show ?case using Cons.IH [of ?c "built @ [deref st p]"] Cons.prems by simp
qed simp

lemma scraped_resource:
  assumes "wf_source src" and "scraped (ksFilters src) c built"
  shows "scraped (ksFilters src) (scrape_resource lst clock src c n)
    (built @ built_points (pointsForResource lst clock src n))"
proof -
  let ?b = "pointsForResource lst clock src n"
  have wf: "wf_built ?b" by (rule wf_pointsForResource [OF assms(1)])
  show ?thesis
    unfolding scrape_resource_def Let_def built_points_def
    by (rule scraped_points [OF scraped_store [OF assms(2)]])
      (use wf in \<open>auto simp: wf_built_def list_all_iff deref_def nth_append\<close>)
qed

definition all_points :: "(string \<Rightarrow> kitem list option) \<Rightarrow> (kitem \<Rightarrow> int64) \<Rightarrow> stateMetricsSource \<Rightarrow> point list" where
  "all_points lst clock src =
     concat (map (\<lambda>n. built_points (pointsForResource lst clock src n)) (mkeys (ksFuncs src)))"

lemma scraped_all:
  assumes "wf_source src"
  shows "scraped (ksFilters src)
    (foldl (scrape_resource lst clock src) \<lparr>cvStore = [], cvPoints = [], cvFiltered = 0, cvCollected = 0\<rparr> (mkeys (ksFuncs src)))
    (all_points lst clock src)"
proof -
  have "scraped (ksFilters src) c built \<Longrightarrow> scraped (ksFilters src) (foldl (scrape_resource lst clock src) c ns)
      (built @ concat (map (\<lambda>n. built_points (pointsForResource lst clock src n)) ns))" for c built ns
    by (induction ns arbitrary: c built) (use scraped_resource [OF assms] in \<open>fastforce simp flip: append_assoc\<close>)+
  from this [of _ "[]"] show ?thesis
    by (simp add: all_points_def scraped_def clean_def split: option.splits)
qed

lemma scraped_result:
  assumes "scraped fi c built"
  defines "points \<equiv> map (deref (cvStore c)) (cvPoints c)"
  shows "cvFiltered c + of_nat (length points) = of_nat (length built) \<and>
     subseq (map header points) (map header built) \<and>
     (case fi of None \<Rightarrow> points = built | Some f \<Rightarrow> list_all (\<lambda>p. list_all (MatchTag f) (mkeys (pttags p))) points)"
proof -
  have "header \<circ> deref (cvStore c) = header \<circ> deref []"
    by (rule ext) (simp add: header_deref [of "cvStore c"])
  moreover have "pttags (deref (cvStore c) p) = cvStore c ! rpRef p" for p by (simp add: deref_def NewPoint_def)
  ultimately show ?thesis
    using assms(1) by (cases fi) (auto simp: scraped_def points_def clean_def list_all_iff mhas_mkeys)
qed

text \<open>The scrape of the state of the cluster. Whatever the informers hold and whatever the filter: the
  points delivered and the points the filter dropped are all the points the handlers give for the listed
  objects, in their order and with their names, values, times and sources; without a filter they are
  exactly those points, also those that share a tag map, and with a filter every tag that is left passes it.\<close>
theorem kstate_Scrape_outcome:
  "let src = NewStateMetricsSource gc nodeName wc transforms
   in case kstate_Scrape lst clock src of (points, filtered, collected) \<Rightarrow>
     collected = of_nat (length points) \<and> filtered + collected = of_nat (length (all_points lst clock src)) \<and>
     subseq (map header points) (map header (all_points lst clock src)) \<and>
     (case ksFilters src of None \<Rightarrow> points = all_points lst clock src
      | Some f \<Rightarrow> list_all (\<lambda>p. list_all (MatchTag f) (mkeys (pttags p))) points)"
proof -
  define src where "src = NewStateMetricsSource gc nodeName wc transforms"
  have "wf_source src" unfolding src_def by (rule wf_NewStateMetricsSource)
  note result = scraped_result [OF scraped_all [OF this, of lst clock]]
  show ?thesis
    unfolding src_def [symmetric] Let_def kstate_Scrape_def prod.case using result by simp
qed


section \<open>The workload status\<close>

text \<open>
  What the status of a workload is about, by kind of object: the kind, name and namespace it is reported
  under, how many are wanted and how many are there, and whether the workload counts as ready. An object
  that has an owner reports through it, and so do replica sets and pods.
\<close>

definition wanted_replicas :: "ksReplicated \<Rightarrow> int32" where
  "wanted_replicas r = (case Replicas r of Some n \<Rightarrow> n | None \<Rightarrow> 1)"

fun workload_of :: "kitem \<Rightarrow> (string \<times> string \<times> string \<times> int32 \<times> int32 \<times> bool) option" where
  "workload_of (KDaemonSet d) = Some (''DaemonSet'', omName (dsMeta d), omNamespace (dsMeta d),
     DesiredNumberScheduled d, NumberAvailable d, NumberAvailable d = DesiredNumberScheduled d)"
| "workload_of (KDeployment r) = Some (''Deployment'', omName (rsMeta r), omNamespace (rsMeta r),
     wanted_replicas r, AvailableReplicas r, AvailableReplicas r = wanted_replicas r)"
| "workload_of (KReplicaSet r) =
     (if OwnerReferences (rsMeta r) = []
      then Some (''ReplicaSet'', omName (rsMeta r), omNamespace (rsMeta r),
        wanted_replicas r, AvailableReplicas r, AvailableReplicas r = wanted_replicas r)
      else None)"
| "workload_of (KStatefulSet r) = Some (''StatefulSet'', omName (rsMeta r), omNamespace (rsMeta r),
     wanted_replicas r, ReadyReplicas r, ReadyReplicas r = wanted_replicas r)"
| "workload_of (KJob j) =
     (let owner = (case OwnerReferences (jbMeta j) of [] \<Rightarrow> (omName (jbMeta j), ''Job'') | r # _ \<Rightarrow> (orName r, orKind r))
      in Some (snd owner, fst owner, omNamespace (jbMeta j), case Completions j of Some n \<Rightarrow> n | None \<Rightarrow> 1, jbSucceeded j,
        jbConditions j \<noteq> [] \<and> \<not> list_ex JobConditionIsFailed (jbConditions j)))"
| "workload_of (KPod pod) =
     (if OwnerReferences (podMeta pod) = []
      then Some (''Pod'', omName (podMeta pod), omNamespace (podMeta pod), 1, 0,
        list_ex (\<lambda>cs. csiValue (NewContainerStateInfo (ctState cs)) = CONTAINER_STATE_TERMINATED \<and>
          csiReason (NewContainerStateInfo (ctState cs)) = ''Completed'') (podContainerStatuses pod))
      else None)"
| "workload_of _ = None"

fun resource_of :: "kitem \<Rightarrow> string" where
  "resource_of (KDaemonSet _) = ''daemonsets''"
| "resource_of (KDeployment _) = ''deployments''"
| "resource_of (KReplicaSet _) = ''replicasets''"
| "resource_of (KReplicationController _) = ''replicationcontrollers''"
| "resource_of (KStatefulSet _) = ''statefulsets''"
| "resource_of (KJob _) = ''jobs''"
| "resource_of (KCronJob _) = ''cronjobs''"
| "resource_of (KHPA _) = ''horizontalpodautoscalers''"
| "resource_of (KNode _) = ''nodes''"
| "resource_of (KPod _) = ''pods''"
| "resource_of (KPVC _) = ''persistentvolumeclaims''"
| "resource_of (KPV _) = ''persistentvolumes''"

definition handle_item :: "listers \<Rightarrow> kitem \<Rightarrow> Transforms \<Rightarrow> int64 \<Rightarrow> built" where
  "handle_item wc item = the (mget (state_handlers wc) (resource_of item)) item"

definition status_points :: "string \<Rightarrow> built \<Rightarrow> ref_point list" where
  "status_points pfx b = filter (\<lambda>p. rpName p = pfx @ ''workload.status'') (snd b)"

lemma sint32_bound: "\<bar>sint (w :: int32)\<bar> \<le> 2 ^ 53"
  using sint_range_size [of w] by (simp add: word_size abs_le_iff)

lemma int32_of_f64_of_int: "\<bar>n\<bar> \<le> 2 ^ 53 \<Longrightarrow> int32_of (f64_of_int n) = word_of_int n"
  by (simp add: int32_of_def rat_trunc_def)

lemma int32_of_float32 [simp]: "int32_of (float32 w) = w"
  by (simp only: float32_def int32_of_f64_of_int [OF sint32_bound]) simp

lemma int32_of_1 [simp]: "int32_of (Fin 1) = 1"
  by (simp add: int32_of_def rat_trunc_def)

lemma int32_of_wanted: "int32_of (floatValOrDefault (Replicas r) (Fin 1)) = wanted_replicas r"
  by (simp add: floatValOrDefault_def wanted_replicas_def split: option.splits)

lemma feq_ready [simp]: "feq workloadReady workloadReady" "\<not> feq workloadNotReady workloadReady"
  by (simp_all add: workloadReady_def workloadNotReady_def feq_def)

lemma rpName_metricPoint [simp]: "rpName (metricPoint pfx n v ts source r) = pfx @ n"
  "rpValue (metricPoint pfx n v ts source r) = v"
  by (simp_all add: metricPoint_def)

lemma rpName_workload [simp]: "rpName (buildWorkloadStatusMetric pfx v ts source r) = pfx @ ''workload.status''"
  "rpValue (buildWorkloadStatusMetric pfx v ts source r) = v"
  by (simp_all add: buildWorkloadStatusMetric_def)

lemma truncateMessage_length: "length (truncateMessage m) \<le> 247"
  by (simp add: truncateMessage_def)


text \<open>What every reason and message is: nothing for a workload that is ready, and a message that fits into a tag.\<close>

definition explains :: "f64 \<Rightarrow> string \<times> string \<Rightarrow> bool" where
  "explains status rm \<longleftrightarrow> (if feq status workloadReady then rm = ('''', '''') else length (snd rm) \<le> 247)"

lemma first_reason_length:
  assumes "list_all (\<lambda>r. case r of None \<Rightarrow> True | Some rm \<Rightarrow> length (snd rm) \<le> 247) rs"
  shows "length (snd (first_reason rs)) \<le> 247"
proof (cases "find (\<lambda>r. r \<noteq> None) rs")
  case (Some r)
  then have "r \<in> set rs" by (auto simp: find_Some_iff intro: nth_mem)
  with assms have "case r of None \<Rightarrow> True | Some rm \<Rightarrow> length (snd rm) \<le> 247" by (simp add: list_all_iff)
  with Some show ?thesis by (cases r) (auto simp: first_reason_def simp del: split_paired_Ex)
qed (simp add: first_reason_def)

lemma container_reason_length: "case container_reason phase cs of None \<Rightarrow> True | Some rm \<Rightarrow> length (snd rm) \<le> 247"
  by (auto simp: container_reason_def truncateMessage_length split: option.splits)

lemma condition_reason_length: "case condition_reason phase d c of None \<Rightarrow> True | Some rm \<Rightarrow> length (snd rm) \<le> 247"
  by (auto simp: condition_reason_def truncateMessage_length split: option.splits)

lemma explained [simp]:
  "explains status (getWorkloadReasonAndMessageForDaemonSet status d)"
  "explains status (getWorkloadReasonAndMessageForDeployment status r)"
  "explains status (getWorkloadReasonAndMessageForReplicaSet status r)"
  "explains status (getWorkloadReasonAndMessageForStatefulSet status r)"
  "explains status (getWorkloadReasonAndMessageForJob status j)"
  "explains status (getWorkloadReasonAndMessageForNonRunningPod status pod)"
  by (auto simp: explains_def getWorkloadReasonAndMessageForDaemonSet_def getWorkloadReasonAndMessageForDeployment_def
      getWorkloadReasonAndMessageForReplicaSet_def getWorkloadReasonAndMessageForStatefulSet_def
      getWorkloadReasonAndMessageForJob_def getWorkloadReasonAndMessageForNonRunningPod_def Let_def truncateMessage_length
      list_all_iff container_reason_length condition_reason_length intro!: first_reason_length split: option.splits)

text \<open>The status of a workload as points: one, of a map with the tags of the workload.\<close>

definition reports :: "Transforms \<Rightarrow> built \<Rightarrow> string \<times> string \<times> string \<times> int32 \<times> int32 \<times> bool \<Rightarrow> bool" where
  "reports t b w \<longleftrightarrow> (case w of (kind, name, ns, desired, available, ready) \<Rightarrow>
     \<exists>p reason message. status_points (trPrefix t) b = [p] \<and>
       rpValue p = (if ready then Fin 1 else Fin 0) \<and>
       fst b ! rpRef p = buildWorkloadTags kind name ns desired available reason message (trTags t) \<and>
       (if ready then reason = '''' \<and> message = '''' else length message \<le> 247))"

lemma reportsI:
  assumes "status_points (trPrefix t) b = [buildWorkloadStatusMetric (trPrefix t) status now (trSource t) r]"
    and "status = (if ready then workloadReady else workloadNotReady)"
    and "explains status rm"
    and "fst b ! r = buildWorkloadTags kind name ns desired available (fst rm) (snd rm) (trTags t)"
  shows "reports t b (kind, name, ns, desired, available, ready)"
proof -
  have "if ready then fst rm = [] \<and> snd rm = [] else length (snd rm) \<le> 247"
    using assms(2,3) by (auto simp: explains_def)
  with assms show ?thesis
    unfolding reports_def prod.case
    by (intro exI conjI) (assumption | simp add: workloadReady_def workloadNotReady_def)+
qed

lemma workload_ref [simp]: "(buildWorkloadStatusMetric pfx v ts source r)\<lparr>rpRef := k\<rparr> = buildWorkloadStatusMetric pfx v ts source k"
  by (simp add: buildWorkloadStatusMetric_def metricPoint_def)

lemma getWorkloadStatus_iff [simp]:
  "(getWorkloadStatus d a = (if a = d then workloadReady else workloadNotReady)) \<longleftrightarrow> True"
  by (simp add: getWorkloadStatus_def)

lemma status_points_append:
  "status_points pfx (append_built a b) =
     status_points pfx a @ map (\<lambda>p. p\<lparr>rpRef := rpRef p + length (fst a)\<rparr>) (status_points pfx b)"
  by (simp add: status_points_def append_built_def filter_map comp_def)

lemma status_points_Nil [simp]: "status_points pfx ([], []) = []"
  by (simp add: status_points_def)

lemma fst_append_built: "fst (append_built a b) = fst a @ fst b"
  by (simp add: append_built_def)

lemma status_points_pair: "status_points pfx (ts, ps) = filter (\<lambda>p. rpName p = pfx @ ''workload.status'') ps"
  by (simp add: status_points_def)

lemma reports_appended:
  assumes "status_points (trPrefix t) b = []" and "status = (if ready then workloadReady else workloadNotReady)"
    and "explains status rm"
  shows "reports t (append_built b (single (buildWorkloadTags kind name ns desired available (fst rm) (snd rm) (trTags t))
      (buildWorkloadStatusMetric (trPrefix t) status now (trSource t)))) (kind, name, ns, desired, available, ready)"
  by (rule reportsI [OF _ assms(2,3), where r = "length (fst b)" and now = now])
    (simp_all add: assms(1) status_points_append status_points_pair fst_append_built single_def)

lemma getWorkloadStatusForNonRunningPod_if: "getWorkloadStatusForNonRunningPod cs =
  (if list_ex (\<lambda>cs. csiValue (NewContainerStateInfo (ctState cs)) = CONTAINER_STATE_TERMINATED \<and>
          csiReason (NewContainerStateInfo (ctState cs)) = ''Completed'') cs then workloadReady else workloadNotReady)"
  by (auto simp: getWorkloadStatusForNonRunningPod_def Let_def)

lemma status_points_join: "list_all (\<lambda>b. status_points pfx b = []) bs \<Longrightarrow> status_points pfx (join_built bs) = []"
proof -
  have "status_points pfx a = [] \<Longrightarrow> list_all (\<lambda>b. status_points pfx b = []) bs \<Longrightarrow>
      status_points pfx (foldl append_built a bs) = []" for a
    by (induction bs arbitrary: a) (simp_all add: status_points_append)
  then show "list_all (\<lambda>b. status_points pfx b = []) bs \<Longrightarrow> ?thesis" by (simp add: join_built_def)
qed

lemma status_points_single [simp]:
  "status_points pfx (single tags (metricPoint pfx n v ts source)) =
     (if n = ''workload.status'' then [metricPoint pfx n v ts source 0] else [])"
  by (simp add: status_points_def single_def)

lemma handle_item_cases:
  "handle_item wc item = (case item of
     KDaemonSet _ \<Rightarrow> pointsForDaemonSet item | KDeployment _ \<Rightarrow> pointsForDeployment item
   | KReplicaSet _ \<Rightarrow> pointsForReplicaSet item | KReplicationController _ \<Rightarrow> pointsForReplicationController item
   | KStatefulSet _ \<Rightarrow> pointsForStatefulSet item | KJob _ \<Rightarrow> pointsForJob item | KCronJob _ \<Rightarrow> pointsForCronJob item
   | KHPA _ \<Rightarrow> pointsForHPA item | KNode _ \<Rightarrow> pointsForNode item | KPod _ \<Rightarrow> pointsForNonRunningPods wc item
   | KPVC _ \<Rightarrow> pointsForPVC item | KPV _ \<Rightarrow> pointsForPV item)"
  by (cases item) (simp_all add: handle_item_def state_handlers_def mget_Cons)

lemma no_status [simp]:
  "status_points (trPrefix t) (buildNodeConditions node t now) = []"
  "status_points (trPrefix t) (buildNodeTaints node t now) = []"
  "status_points (trPrefix t) (buildNodeInfo node t now) = []"
  "status_points (trPrefix t) (fst (buildPodPhaseMetrics pod t shared now)) = []"
  "status_points (trPrefix t) (buildContainerStatusMetrics pod shared t now) = []"
  "status_points (trPrefix t) (buildPVPhase pv t now shared) = []"
  "status_points (trPrefix t) (buildPVCapacityBytes pv t now shared) = []"
  "status_points (trPrefix t) (buildPVAccessModes pv t now shared) = []"
  "status_points (trPrefix t) (buildPVInfo pv t now shared) = []"
  "status_points (trPrefix t) (buildPVCRequestStorage claim t now shared) = []"
  "status_points (trPrefix t) (buildPVCInfo claim t now shared) = []"
  "status_points (trPrefix t) (buildPVCPhaseMetric claim t now shared) = []"
  "status_points (trPrefix t) (buildPVCConditions claim t now shared) = []"
  "status_points (trPrefix t) (buildPVCAccessModes claim t now shared) = []"
  by (simp_all add: buildNodeConditions_def buildNodeTaints_def buildNodeInfo_def buildPodPhaseMetrics_def
      buildContainerStatusMetrics_def buildPVPhase_def buildPVCapacityBytes_def buildPVAccessModes_def buildPVInfo_def
      buildPVCRequestStorage_def buildPVCInfo_def buildPVCPhaseMetric_def buildPVCConditions_def buildPVCAccessModes_def
      Let_def status_points_join list_all_iff)


text \<open>The status of a workload. For every object the informers can hold: a daemon set, deployment, stateful
  set or job, and a replica set or pod without an owner, gives exactly one point for the status of its
  workload, and every other object gives none. The point is one when the workload is ready (for the
  replicated kinds: as many are available as are wanted; for a job: it has conditions, none of them
  failed; for a pod: a container completed) and zero otherwise. Its tags are those of the workload with what is
  wanted and available; a ready workload carries no reason and no message, and the message of any other
  fits into a point tag.\<close>
theorem workload_status_reported:
  "case workload_of item of
     None \<Rightarrow> status_points (trPrefix t) (handle_item wc item t now) = []
   | Some w \<Rightarrow> reports t (handle_item wc item t now) w"
proof (cases item)
  case (KDaemonSet d)
  show ?thesis
    unfolding KDaemonSet workload_of.simps option.case handle_item_cases kitem.case
    by (rule reportsI [where now = now and r = 1 and status = "getWorkloadStatus (DesiredNumberScheduled d) (NumberAvailable d)" and rm = "getWorkloadReasonAndMessageForDaemonSet
          (getWorkloadStatus (DesiredNumberScheduled d) (NumberAvailable d)) d"])
      (simp_all add: pointsForDaemonSet_def Let_def status_points_def)
next
  case (KDeployment r)
  show ?thesis
    unfolding KDeployment workload_of.simps option.case handle_item_cases kitem.case
    by (rule reportsI [where now = now and r = 1 and status = "getWorkloadStatus (wanted_replicas r) (AvailableReplicas r)" and rm = "getWorkloadReasonAndMessageForDeployment
          (getWorkloadStatus (wanted_replicas r) (AvailableReplicas r)) r"])
      (simp_all add: pointsForDeployment_def Let_def status_points_def int32_of_wanted)
next
  case (KReplicaSet r)
  show ?thesis
  proof (cases "OwnerReferences (rsMeta r) = []")
    case True
    show ?thesis
      unfolding KReplicaSet workload_of.simps option.case if_P [OF True] handle_item_cases kitem.case
      by (rule reportsI [where now = now and r = 1 and status = "getWorkloadStatus (wanted_replicas r) (AvailableReplicas r)" and rm = "getWorkloadReasonAndMessageForReplicaSet
            (getWorkloadStatus (wanted_replicas r) (AvailableReplicas r)) r"])
        (simp_all add: pointsForReplicaSet_def Let_def status_points_def int32_of_wanted
          HasOwnerReference_def True)
  qed (simp add: KReplicaSet handle_item_cases pointsForReplicaSet_def Let_def status_points_def HasOwnerReference_def)
next
  case (KStatefulSet r)
  show ?thesis
    unfolding KStatefulSet workload_of.simps option.case handle_item_cases kitem.case
    by (rule reportsI [where now = now and r = 1 and status = "getWorkloadStatus (wanted_replicas r) (ReadyReplicas r)" and rm = "getWorkloadReasonAndMessageForStatefulSet
          (getWorkloadStatus (wanted_replicas r) (ReadyReplicas r)) r"])
      (simp_all add: pointsForStatefulSet_def Let_def status_points_def int32_of_wanted)
next
  case (KJob j)
  show ?thesis
    unfolding KJob workload_of.simps option.case handle_item_cases kitem.case Let_def
    by (rule reportsI [where now = now and r = 1 and status = "getWorkloadStatusForJob (jbConditions j)" and rm = "getWorkloadReasonAndMessageForJob (getWorkloadStatusForJob (jbConditions j)) j"])
      (simp_all add: pointsForJob_def Let_def status_points_def getWorkloadStatusForJob_def intValOrDefault_def
        getWorkloadNameAndKindForJob_def HasOwnerReference_def split: list.splits option.splits)
next
  case (KPod pod)
  show ?thesis
  proof (cases "OwnerReferences (podMeta pod) = []")
    case True
    then have alone: "(\<not> HasOwnerReference (OwnerReferences (podMeta pod))) = True" by (simp add: HasOwnerReference_def)
    show ?thesis
      unfolding KPod workload_of.simps option.case if_P [OF True] handle_item_cases kitem.case
        pointsForNonRunningPods_def Let_def alone if_True
      by (intro reports_appended) (simp_all add: status_points_append getWorkloadStatusForNonRunningPod_if [symmetric])
  qed (simp add: KPod handle_item_cases pointsForNonRunningPods_def Let_def status_points_append HasOwnerReference_def)
qed (simp_all add: handle_item_cases pointsForReplicationController_def pointsForCronJob_def pointsForHPA_def
    pointsForNode_def pointsForPVC_def pointsForPV_def Let_def status_points_append status_points_join status_points_pair)

end
