(* ===== verification/Prometheus.thy ===== *)
theory Prometheus
  imports Rates Configuration
begin

text \<open>
  The Prometheus source (\<open>collector/plugins/sources/prometheus\<close>): the reader that cuts an exposition into
  blocks (lookahead_reader.go, metric_reader.go), the points of the metric families (point_builder.go), a
  scrape of one target and the targets of a provider (prometheus.go, lookup_instances.go). The parser of the
  exposition format, the HTTP client, the URL library and the API server are parameters; so is the format
  \<open>%v\<close> of a float.
\<close>

section \<open>Lines (lookahead_reader.go)\<close>

definition newline :: char where "newline = CHR 0x0A"
definition carriage :: char where "carriage = CHR 0x0D"

text \<open>
  \<open>bufio.ScanLines\<close>: a line without its newline and without one carriage return before it; at the end of the
  input what is left, if anything is. The scanner gives up on a line that does not fit its buffer of 64 kB,
  and then ends as at the end of the input.
\<close>

definition dropCR :: "string \<Rightarrow> string" where
  "dropCR line = (if line \<noteq> [] \<and> last line = carriage then butlast line else line)"

definition max_line :: nat where "max_line = 65535"

fun raw_lines :: "string \<Rightarrow> string \<Rightarrow> string list" where
  "raw_lines acc [] = (if acc = [] then [] else [acc])"
| "raw_lines acc (c # cs) = (if c = newline then acc # raw_lines [] cs else raw_lines (acc @ [c]) cs)"

definition scan_lines :: "string \<Rightarrow> string list" where
  "scan_lines body = map dropCR (takeWhile (\<lambda>l. length l \<le> max_line) (raw_lines [] body))"

record LookaheadReader =
  larCurrent :: string
  larRest :: "string list"
  larDone :: bool
  lineCount :: int

definition advanceLine :: "LookaheadReader \<Rightarrow> LookaheadReader" where
  "advanceLine r =
     (let r = r\<lparr>lineCount := lineCount r + 1\<rparr>
      in case larRest r of
           [] \<Rightarrow> r\<lparr>larCurrent := '''', larDone := True\<rparr>
         | l # ls \<Rightarrow> r\<lparr>larCurrent := l, larRest := ls, larDone := False\<rparr>)"

definition NewLookaheadReader :: "string \<Rightarrow> LookaheadReader" where
  "NewLookaheadReader body =
     advanceLine \<lparr>larCurrent = '''', larRest = scan_lines body, larDone = False, lineCount = 0\<rparr>"

definition lar_Read :: "LookaheadReader \<Rightarrow> string \<times> LookaheadReader" where
  "lar_Read r = (if larDone r then ('''', r) else (larCurrent r, advanceLine r))"

definition lar_Peek :: "LookaheadReader \<Rightarrow> string" where
  "lar_Peek r = larCurrent r"

section \<open>Blocks (metric_reader.go)\<close>

text \<open>The white space \<open>bytes.TrimSpace\<close> cuts off, of the bytes of an exposition in ASCII.\<close>

definition is_space :: "char \<Rightarrow> bool" where
  "is_space c \<longleftrightarrow> c \<in> {CHR '' '', CHR 0x09, CHR 0x0A, CHR 0x0B, CHR 0x0C, CHR 0x0D}"

definition commentNext :: "LookaheadReader \<Rightarrow> bool" where
  "commentNext r \<longleftrightarrow> list_all is_space (lar_Peek r) \<or> HasPrefix (lar_Peek r) ''#''"

text \<open>The lines a reader has left; every step of the loops below takes one.\<close>

definition lines_left :: "LookaheadReader \<Rightarrow> nat" where
  "lines_left r = (if larDone r then 0 else Suc (length (larRest r)))"

lemma lines_left_Read: "\<not> larDone r \<Longrightarrow> lines_left (snd (lar_Read r)) < lines_left r"
  by (simp add: lar_Read_def advanceLine_def Let_def lines_left_def split: list.split)

function readComments :: "LookaheadReader \<Rightarrow> string \<Rightarrow> LookaheadReader \<times> string" where
  "readComments r buffer =
     (if larDone r then (r, buffer)
      else if \<not> commentNext r then (r, buffer)
      else readComments (snd (lar_Read r)) (buffer @ fst (lar_Read r) @ [newline]))"
  by auto
termination by (relation "measure (\<lambda>(r, b). lines_left r)") (auto simp: lines_left_Read)

function readMetrics :: "LookaheadReader \<Rightarrow> string \<Rightarrow> LookaheadReader \<times> string" where
  "readMetrics r buffer =
     (if larDone r then (r, buffer)
      else if HasPrefix (lar_Peek r) ''#'' then (r, buffer)
      else readMetrics (snd (lar_Read r)) (buffer @ fst (lar_Read r) @ [newline]))"
  by auto
termination by (relation "measure (\<lambda>(r, b). lines_left r)") (auto simp: lines_left_Read)

declare readComments.simps [simp del] readMetrics.simps [simp del]

definition mr_Read :: "LookaheadReader \<Rightarrow> string \<times> LookaheadReader" where
  "mr_Read r =
     (let c = readComments r [];
          m = readMetrics (fst c) (snd c)
      in (snd m, fst m))"

lemma lines_left_readComments: "lines_left (fst (readComments r b)) \<le> lines_left r"
proof (induction r b rule: readComments.induct)
  case (1 r b)
  then show ?case using lines_left_Read [of r] by (subst readComments.simps) (auto dest: order.trans)
qed

lemma lines_left_readMetrics: "lines_left (fst (readMetrics r b)) \<le> lines_left r"
proof (induction r b rule: readMetrics.induct)
  case (1 r b)
  then show ?case using lines_left_Read [of r] by (subst readMetrics.simps) (auto dest: order.trans)
qed

text \<open>Every block takes at least one line, which is why the loop over the blocks ends.\<close>

lemma lines_left_mr_Read:
  assumes "\<not> larDone r"
  shows "lines_left (snd (mr_Read r)) < lines_left r"
proof (cases "commentNext r")
  case True
  have "lines_left (fst (readComments r [])) < lines_left r"
    by (subst readComments.simps) (use True assms le_less_trans [OF lines_left_readComments lines_left_Read] in auto)
  then show ?thesis
    using lines_left_readMetrics le_less_trans by (fastforce simp: mr_Read_def Let_def)
next
  case False
  then have "readComments r [] = (r, [])" by (subst readComments.simps) simp
  moreover have "lines_left (fst (readMetrics r [])) < lines_left r"
    by (subst readMetrics.simps)
      (use False assms le_less_trans [OF lines_left_readMetrics lines_left_Read] in \<open>auto simp: commentNext_def\<close>)
  ultimately show ?thesis by (simp add: mr_Read_def Let_def)
qed

text \<open>The blocks an exposition is parsed in.\<close>

function mr_blocks :: "LookaheadReader \<Rightarrow> string list" where
  "mr_blocks r = (if larDone r then [] else fst (mr_Read r) # mr_blocks (snd (mr_Read r)))"
  by auto
termination by (relation "measure lines_left") (auto simp: lines_left_mr_Read)

declare mr_blocks.simps [simp del]


section \<open>Points (point_builder.go)\<close>

text \<open>What the parser yields: families by name, of a type, with metrics that have labels and a value. A value
  that is missing reads as zero, a missing summary or histogram as an empty one.\<close>

datatype prom_type = PromCounter | PromGauge | PromSummary | PromUntyped | PromHistogram

record prom_metric =
  pmLabels :: "(string \<times> string) list"
  pmGauge :: "f64 option"
  pmCounter :: "f64 option"
  pmUntyped :: "f64 option"
  pmQuantiles :: "(f64 \<times> f64) list"
  pmBuckets :: "(f64 \<times> int64) list"
  pmSampleCount :: int64
  pmSampleSum :: f64

record prom_family =
  mfType :: prom_type
  mfMetric :: "prom_metric list"

record pointBuilder =
  pbFilters :: "globFilter option"
  pbSource :: string
  pbPrefix :: string
  omitBucketSuffix :: bool
  pbConvertHistograms :: bool
  pbTags :: tagmap

definition prom_buildTags :: "pointBuilder \<Rightarrow> prom_metric \<Rightarrow> tagmap" where
  "prom_buildTags builder m =
     (let tags = foldl (\<lambda>tags e. if 0 < length (snd e) then mput (fst e) (snd e) tags else tags) [] (pbTags builder)
      in foldl (\<lambda>tags label. if 0 < length (fst label) \<and> 0 < length (snd label)
                  then mput (fst label) (snd label) tags else tags) tags (pmLabels m))"

definition builder_name :: "pointBuilder \<Rightarrow> string \<Rightarrow> string" where
  "builder_name builder name = pbPrefix builder @ map (\<lambda>c. if c = CHR ''_'' then CHR ''.'' else c) name"

definition histogramName :: "pointBuilder \<Rightarrow> string \<Rightarrow> string" where
  "histogramName builder name = (if omitBucketSuffix builder then name else name @ ''.bucket'')"

text \<open>\<open>deduplicate\<close>: the tags as pairs; interning a string gives an equal string.\<close>

definition label_pairs :: "tagmap \<Rightarrow> (string \<times> string) list" where
  "label_pairs tags = tags"

definition builder_point :: "pointBuilder \<Rightarrow> string \<Rightarrow> f64 \<Rightarrow> int64 \<Rightarrow> string \<Rightarrow> tagmap \<Rightarrow> point" where
  "builder_point builder name v ts source tags =
     SetLabelPairs (label_pairs tags) (NewPoint (builder_name builder name) v ts source [])"

text \<open>\<open>wf.FilterAppend\<close> with the builder's filter; the state is the points so far and the counter of filtered points.\<close>

type_synonym built_points = "metric list \<times> int64"

definition append_point :: "pointBuilder \<Rightarrow> metric \<Rightarrow> built_points \<Rightarrow> built_points" where
  "append_point builder m st = FilterAppend (pbFilters builder) (snd st) (fst st) (Some m)"

definition buildPoints :: "pointBuilder \<Rightarrow> string \<Rightarrow> prom_metric \<Rightarrow> int64 \<Rightarrow> built_points \<Rightarrow> built_points" where
  "buildPoints builder name m now st =
     (let add = (\<lambda>suffix v. if \<not> isNaN v
                   then append_point builder (MPoint (builder_point builder (name @ suffix) v now (pbSource builder)
                          (prom_buildTags builder m))) st
                   else st)
      in case pmGauge m of Some v \<Rightarrow> add ''.gauge'' v
       | None \<Rightarrow> (case pmCounter m of Some v \<Rightarrow> add ''.counter'' v
           | None \<Rightarrow> (case pmUntyped m of Some v \<Rightarrow> add ''.value'' v | None \<Rightarrow> st)))"

definition float_u64 :: "int64 \<Rightarrow> f64" where
  "float_u64 n = f64_of_int (uint n)"

definition count_and_sum :: "pointBuilder \<Rightarrow> string \<Rightarrow> prom_metric \<Rightarrow> int64 \<Rightarrow> tagmap \<Rightarrow> built_points \<Rightarrow> built_points" where
  "count_and_sum builder name m now tags st =
     (let st = append_point builder (MPoint (builder_point builder (name @ ''.count'') (float_u64 (pmSampleCount m)) now
            (pbSource builder) tags)) st
      in append_point builder (MPoint (builder_point builder (name @ ''.sum'') (pmSampleSum m) now (pbSource builder) tags)) st)"

definition buildSummaryPoints ::
  "(f64 \<Rightarrow> string) \<Rightarrow> pointBuilder \<Rightarrow> string \<Rightarrow> prom_metric \<Rightarrow> int64 \<Rightarrow> tagmap \<Rightarrow> built_points \<Rightarrow> built_points" where
  "buildSummaryPoints fmt builder name m now tags st =
     (let st = foldl (\<lambda>st q. if \<not> isNaN (snd q)
                 then append_point builder (MPoint (builder_point builder name (snd q) now (pbSource builder)
                        (mput ''quantile'' (fmt (fst q)) tags))) st
                 else st) st (pmQuantiles m)
      in count_and_sum builder name m now tags st)"

definition buildHistogramPoints ::
  "(f64 \<Rightarrow> string) \<Rightarrow> pointBuilder \<Rightarrow> string \<Rightarrow> prom_metric \<Rightarrow> int64 \<Rightarrow> tagmap \<Rightarrow> built_points \<Rightarrow> built_points" where
  "buildHistogramPoints fmt builder name m now tags st =
     (let histName = histogramName builder name;
          st = foldl (\<lambda>st b. append_point builder (MPoint (builder_point builder histName (float_u64 (snd b)) now
                        (pbSource builder) (mput ''le'' (fmt (fst b)) tags))) st) st (pmBuckets m)
      in count_and_sum builder name m now tags st)"

definition buildWFHistogram :: "pointBuilder \<Rightarrow> string \<Rightarrow> prom_metric \<Rightarrow> int64 \<Rightarrow> tagmap \<Rightarrow> metric" where
  "buildWFHistogram builder name m now tags =
     MDistribution (NewCumulativeDistribution (builder_name builder name) (pbSource builder) tags
       (map (\<lambda>b. \<lparr>cValue = fst b, cCount = float_u64 (snd b)\<rparr>) (pmBuckets m)) (sint now * 10 ^ 9))"

definition build_metric ::
  "bool \<Rightarrow> (f64 \<Rightarrow> string) \<Rightarrow> pointBuilder \<Rightarrow> int64 \<Rightarrow> string \<Rightarrow> prom_type \<Rightarrow> built_points \<Rightarrow> prom_metric \<Rightarrow> built_points" where
  "build_metric experimental fmt builder now metricName ty st m =
     (if ty = PromSummary then buildSummaryPoints fmt builder metricName m now (prom_buildTags builder m) st
      else if ty = PromHistogram
      then (if experimental \<or> pbConvertHistograms builder
            then append_point builder (buildWFHistogram builder metricName m now (prom_buildTags builder m)) st
            else buildHistogramPoints fmt builder metricName m now (prom_buildTags builder m) st)
      else buildPoints builder metricName m now st)"

definition build ::
  "bool \<Rightarrow> (f64 \<Rightarrow> string) \<Rightarrow> pointBuilder \<Rightarrow> int64 \<Rightarrow> (string, prom_family) gomap \<Rightarrow> int64 \<Rightarrow> built_points" where
  "build experimental fmt builder now metricFamilies filtered =
     foldl (\<lambda>st e. foldl (build_metric experimental fmt builder now (fst e) (mfType (snd e))) st (mfMetric (snd e)))
       ([], filtered) metricFamilies"

section \<open>A target (prometheus.go)\<close>

record prometheusMetricsSource =
  prMetricsURL :: string
  prPrefix :: string
  prSource :: string
  prTags :: tagmap
  prFilters :: "globFilter option"
  prInternalNames :: "string list"
  prAutoDiscovered :: bool
  prOmitBucketSuffix :: bool
  prConvertHistograms :: bool

definition NewPointBuilder :: "prometheusMetricsSource \<Rightarrow> pointBuilder" where
  "NewPointBuilder src =
     \<lparr>pbFilters = prFilters src, pbSource = prSource src, pbPrefix = prPrefix src,
      omitBucketSuffix = prOmitBucketSuffix src, pbConvertHistograms = prConvertHistograms src, pbTags = prTags src\<rparr>"

definition extractTags :: "tagmap \<Rightarrow> string \<Rightarrow> string \<Rightarrow> tagmap" where
  "extractTags tags discovered metricsURL =
     (let r = mfilter (\<lambda>k. k \<in> {''pod'', ''service'', ''apiserver'', ''namespace'', ''node''}) tags;
          r = (if discovered \<noteq> '''' then mput ''discovered'' discovered r
               else mput ''url'' metricsURL (mput ''discovered'' ''static'' r))
      in mput ''type'' ''prometheus'' r)"

text \<open>\<open>client\<close> is the error of the HTTP client for the target, \<open>encodeKey\<close> the name of a counter with its tags,
  \<open>omit\<close> what the environment says of the suffix of buckets.\<close>

definition NewPrometheusMetricsSource ::
  "(string \<Rightarrow> ClientConfig \<Rightarrow> string option) \<Rightarrow> (string \<Rightarrow> tagmap \<Rightarrow> string) \<Rightarrow> bool \<Rightarrow> string \<Rightarrow> string \<Rightarrow> string \<Rightarrow>
   string \<Rightarrow> tagmap \<Rightarrow> globFilter option \<Rightarrow> bool \<Rightarrow> ClientConfig \<Rightarrow> string + prometheusMetricsSource" where
  "NewPrometheusMetricsSource client encodeKey omit metricsURL pfx source discovered tags filters convertHistograms httpCfg =
     (case client metricsURL httpCfg of
        Some err \<Rightarrow> Inl err
      | None \<Rightarrow>
          let pt = extractTags tags discovered metricsURL
          in Inr \<lparr>prMetricsURL = metricsURL, prPrefix = pfx, prSource = source, prTags = tags, prFilters = filters,
                  prInternalNames = [encodeKey ''target.points.collected'' pt, encodeKey ''target.collect.errors'' pt],
                  prAutoDiscovered = 0 < length discovered, prOmitBucketSuffix = omit,
                  prConvertHistograms = convertHistograms\<rparr>)"

text \<open>
  The parser gives the families it found and, maybe, an error. The points are built in any case: the error is
  only logged. \<open>clock\<close> is the time at which the points of a block are built. The result is the points and the counter of filtered points; the error the source returns here
  is the variable of the outer scope, which the loop shadows and never sets.
\<close>

definition parse_block ::
  "bool \<Rightarrow> (f64 \<Rightarrow> string) \<Rightarrow> (string \<Rightarrow> (string, prom_family) gomap \<times> string option) \<Rightarrow> pointBuilder \<Rightarrow>
   (string \<Rightarrow> int64) \<Rightarrow> built_points \<Rightarrow> string \<Rightarrow> built_points" where
  "parse_block experimental fmt parser builder clock st block =
     (let metricFamilies = fst (parser block);
          added = build experimental fmt builder (clock block) metricFamilies (snd st)
      in (fst st @ fst added, snd added))"

definition parseMetrics ::
  "bool \<Rightarrow> (f64 \<Rightarrow> string) \<Rightarrow> (string \<Rightarrow> (string, prom_family) gomap \<times> string option) \<Rightarrow>
   (string \<Rightarrow> int64) \<Rightarrow> prometheusMetricsSource \<Rightarrow> string \<Rightarrow> int64 \<Rightarrow> (metric list \<times> string option) \<times> int64" where
  "parseMetrics experimental fmt parser clock src body filtered =
     (let builder = NewPointBuilder src;
          st = foldl (parse_block experimental fmt parser builder clock) ([], filtered) (mr_blocks (NewLookaheadReader body))
      in ((fst st, None), snd st))"

text \<open>The counters: errors and points, of all targets and of this one, and the filtered points.\<close>

record prom_counters =
  collectErrors :: int64
  prEps :: int64
  collectedPoints :: int64
  prPps :: int64
  promFilteredPoints :: int64

datatype response = TransportError string | Response int string string

definition HTTPError :: "string \<Rightarrow> string \<Rightarrow> string" where
  "HTTPError metricsURL status =
     ''error retrieving prometheus metrics from '' @ metricsURL @ '' (http status '' @ status @ '')''"

definition count_error :: "prom_counters \<Rightarrow> prom_counters" where
  "count_error n = n\<lparr>collectErrors := collectErrors n + 1, prEps := prEps n + 1\<rparr>"

text \<open>\<open>get\<close> is what a request for the URL gives: an error, or the code, the status line and the body.\<close>

definition prom_Scrape ::
  "bool \<Rightarrow> (f64 \<Rightarrow> string) \<Rightarrow> (string \<Rightarrow> (string, prom_family) gomap \<times> string option) \<Rightarrow> (string \<Rightarrow> response) \<Rightarrow>
   gotime \<Rightarrow> (string \<Rightarrow> int64) \<Rightarrow> prometheusMetricsSource \<Rightarrow> prom_counters \<Rightarrow> (Batch option \<times> string option) \<times> prom_counters" where
  "prom_Scrape experimental fmt parser get now clock src n =
     (case get (prMetricsURL src) of
        TransportError err \<Rightarrow> ((None, Some err), count_error n)
      | Response code status body \<Rightarrow>
          if code \<noteq> 200 then ((None, Some (HTTPError (prMetricsURL src) status)), count_error n)
          else
           (case parseMetrics experimental fmt parser clock src body (promFilteredPoints n) of
              ((points, err), filtered) \<Rightarrow>
                let result = \<lparr>bTimestamp = now, Sets = [], Metrics = map Some points\<rparr>;
                    n = n\<lparr>promFilteredPoints := filtered\<rparr>
                in case err of
                     Some e \<Rightarrow> ((Some result, Some e), count_error n)
                   | None \<Rightarrow>
                       let k = of_nat (sum_list (map m_Points points))
                       in ((Some result, None), n\<lparr>collectedPoints := collectedPoints n + k, prPps := prPps n + k\<rparr>)))"


section \<open>The targets of a provider (lookup_instances.go, prometheus.go)\<close>

record Instance =
  inHost :: string
  inTags :: tagmap

record EndpointPort =
  epName :: string
  epPort :: "32 word"

record EndpointSubset =
  esAddresses :: "string list"
  esPorts :: "EndpointPort list"

definition choosePort :: "EndpointPort list \<Rightarrow> 32 word" where
  "choosePort ports =
     (case find (\<lambda>p. epName p = ''https'') ports of
        Some p \<Rightarrow> epPort p
      | None \<Rightarrow> foldl (\<lambda>http p. if epName p = ''http'' then epPort p else http) (- 1) ports)"

definition instancesFromSubset :: "EndpointSubset \<Rightarrow> string + Instance list" where
  "instancesFromSubset sub =
     (let port = choosePort (esPorts sub)
      in if port = - 1 then Inl ''could not find either HTTP or HTTPS port''
         else Inr (map (\<lambda>ip. let host = ip @ '':'' @ show_int (sint port)
                             in \<lparr>inHost = host, inTags = [(''instance'', host)]\<rparr>) (esAddresses sub)))"

fun unique_from :: "Instance list \<Rightarrow> Instance list \<Rightarrow> Instance list" where
  "unique_from uniq [] = uniq"
| "unique_from uniq (i # is) =
     unique_from (if length uniq = 0 \<or> inHost (last uniq) \<noteq> inHost i then uniq @ [i] else uniq) is"

definition removeDuplicateInstances :: "Instance list \<Rightarrow> Instance list" where
  "removeDuplicateInstances instances = unique_from [] (sort_key inHost instances)"

definition instancesFromEndpoints :: "EndpointSubset list \<Rightarrow> string + Instance list" where
  "instancesFromEndpoints subsets =
     (case foldM (\<lambda>instances sub. case instancesFromSubset sub of
             Inl err \<Rightarrow> Inl err | Inr toAdd \<Rightarrow> Inr (instances @ toAdd)) [] subsets of
        Inl err \<Rightarrow> Inl err
      | Inr instances \<Rightarrow> Inr (removeDuplicateInstances instances))"

text \<open>
  The groups of the expression \<open>^([^\.]+).([^\.]+)\.svc\<close> for a host, without newlines. The point between the
  groups is not escaped and matches any character: the longest first group is the first label of the host,
  followed by a point; failing that, a host whose first label has three characters or more is taken apart
  inside of that label.
\<close>

definition matchNSName :: "string \<Rightarrow> (string \<times> string) option" where
  "matchNSName host =
     (let h = takeWhile (\<lambda>c. c \<noteq> CHR ''.'') host; r = drop (length h) host;
          g = takeWhile (\<lambda>c. c \<noteq> CHR ''.'') (tl r)
      in if h \<noteq> [] \<and> r \<noteq> [] \<and> g \<noteq> [] \<and> HasPrefix (drop (length g) (tl r)) ''.svc'' then Some (h, g)
         else if 3 \<le> length h \<and> HasPrefix r ''.svc'' then Some (take (length h - 2) h, [last h])
         else None)"

text \<open>\<open>getEndpoints\<close> is the API server: the endpoints of a namespace and a name.\<close>

definition InstancesFromEndpoints :: "(string \<Rightarrow> string \<Rightarrow> string + EndpointSubset list) \<Rightarrow> string \<Rightarrow> string + Instance list" where
  "InstancesFromEndpoints getEndpoints host =
     (case matchNSName host of
        None \<Rightarrow> Inl ''host is not a kubernetes service''
      | Some (name, ns) \<Rightarrow>
          (case getEndpoints ns name of Inl err \<Rightarrow> Inl err | Inr endpoints \<Rightarrow> instancesFromEndpoints endpoints))"

definition InstanceFromHost :: "string \<Rightarrow> string + Instance list" where
  "InstanceFromHost instance_host = Inr [\<lparr>inHost = instance_host, inTags = []\<rparr>]"

text \<open>A provider; \<open>setHost\<close> is the URL with another host, as the URL library prints it.\<close>

record prometheusProvider =
  ppUseLeaderElection :: bool
  ppHost :: string
  ppURL :: "string \<Rightarrow> string"
  ppLookup :: "string \<Rightarrow> string + Instance list"
  ppBuildSource :: "string \<Rightarrow> tagmap \<Rightarrow> string + prometheusMetricsSource"

definition prom_GetMetricsSources :: "bool \<Rightarrow> prometheusProvider \<Rightarrow> prometheusMetricsSource list" where
  "prom_GetMetricsSources leading p =
     (if ppUseLeaderElection p \<and> \<not> leading then []
      else case ppLookup p (ppHost p) of
             Inl err \<Rightarrow> []
           | Inr instances \<Rightarrow>
               foldl (\<lambda>sources inst. case ppBuildSource p (ppURL p (inHost inst)) (inTags inst) of
                        Inr source \<Rightarrow> sources @ [source] | Inl err \<Rightarrow> sources) [] instances)"

definition build_source ::
  "(string \<Rightarrow> ClientConfig \<Rightarrow> string option) \<Rightarrow> (string \<Rightarrow> tagmap \<Rightarrow> string) \<Rightarrow> bool \<Rightarrow> glob_compile \<Rightarrow> string \<Rightarrow>
   PrometheusSourceConfig \<Rightarrow> string \<Rightarrow> tagmap \<Rightarrow> string + prometheusMetricsSource" where
  "build_source client encodeKey omit gc nodeName cfg url tags =
     (let source = GetStringValue (trSource (psTransforms cfg)) nodeName;
          source = GetStringValue source ''prom_source'';
          discovered = GetStringValue (psDiscovered cfg) '''';
          filters = FromConfig gc (trFilters (psTransforms cfg));
          copiedTags = mput_all tags (mput_all (trTags (psTransforms cfg)) [])
      in NewPrometheusMetricsSource client encodeKey omit url (trPrefix (psTransforms cfg)) source discovered copiedTags
           filters (ConvertHistograms (psTransforms cfg)) (HTTPClientConfig cfg))"


section \<open>The blocks are the exposition\<close>

definition lines_of :: "LookaheadReader \<Rightarrow> string list" where
  "lines_of r = (if larDone r then [] else larCurrent r # larRest r)"

definition comment_line :: "string \<Rightarrow> bool" where
  "comment_line l \<longleftrightarrow> list_all is_space l \<or> HasPrefix l ''#''"

definition render :: "string list \<Rightarrow> string" where
  "render ls = concat (map (\<lambda>l. l @ [newline]) ls)"

lemma render_simps [simp]: "render [] = []" "render (l # ls) = l @ newline # render ls" "render (ks @ ls) = render ks @ render ls"
  by (simp_all add: render_def)

lemma lines_of_Read: "\<not> larDone r \<Longrightarrow> lines_of (snd (lar_Read r)) = larRest r \<and> fst (lar_Read r) = larCurrent r"
  by (simp add: lines_of_def lar_Read_def advanceLine_def Let_def split: list.split)

lemma readComments_lines:
  "lines_of (fst (readComments r b)) = dropWhile comment_line (lines_of r) \<and>
   snd (readComments r b) = b @ render (takeWhile comment_line (lines_of r))"
proof (induction r b rule: readComments.induct)
  case (1 r b)
  show ?case
  proof (cases "larDone r \<or> \<not> commentNext r")
    case True
    then show ?thesis by (subst (1 2) readComments.simps) (auto simp: lines_of_def commentNext_def comment_line_def lar_Peek_def)
  next
    case False
    then have "lines_of r = larCurrent r # larRest r" "comment_line (larCurrent r)"
      by (auto simp: lines_of_def commentNext_def comment_line_def lar_Peek_def)
    with False 1 show ?thesis by (subst (1 2) readComments.simps) (simp add: lines_of_Read)
  qed
qed

lemma readMetrics_lines:
  "lines_of (fst (readMetrics r b)) = dropWhile (\<lambda>l. \<not> HasPrefix l ''#'') (lines_of r) \<and>
   snd (readMetrics r b) = b @ render (takeWhile (\<lambda>l. \<not> HasPrefix l ''#'') (lines_of r))"
proof (induction r b rule: readMetrics.induct)
  case (1 r b)
  show ?case
  proof (cases "larDone r \<or> HasPrefix (larCurrent r) ''#''")
    case True
    then show ?thesis by (subst (1 2) readMetrics.simps) (auto simp: lines_of_def lar_Peek_def)
  next
    case False
    then have "lines_of r = larCurrent r # larRest r" by (auto simp: lines_of_def)
    with False 1 show ?thesis by (subst (1 2) readMetrics.simps) (simp add: lines_of_Read lar_Peek_def)
  qed
qed

text \<open>A block of lines: comments and blank lines, then lines that are no comments.\<close>

definition block_ok :: "string list \<Rightarrow> bool" where
  "block_ok g \<longleftrightarrow> g \<noteq> [] \<and> list_all (\<lambda>l. \<not> HasPrefix l ''#'') (dropWhile comment_line g)"

lemma dropWhile_takeWhile_append: "list_all P xs \<Longrightarrow> dropWhile P (xs @ ys) = dropWhile P ys"
  by (induction xs) auto

lemma mr_Read_lines:
  assumes "\<not> larDone r"
  shows "\<exists>g. fst (mr_Read r) = render g \<and> lines_of r = g @ lines_of (snd (mr_Read r)) \<and> block_ok g \<and>
    (case lines_of (snd (mr_Read r)) of [] \<Rightarrow> True | l # _ \<Rightarrow> HasPrefix l ''#'')"
proof -
  let ?ls = "lines_of r" and ?hash = "\<lambda>l. \<not> HasPrefix l ''#''"
  define cs ms rest where "cs = takeWhile comment_line ?ls" and "ms = takeWhile ?hash (dropWhile comment_line ?ls)"
    and "rest = dropWhile ?hash (dropWhile comment_line ?ls)"
  have split: "?ls = (cs @ ms) @ rest" by (simp add: cs_def ms_def rest_def)
  have read: "fst (mr_Read r) = render (cs @ ms)" "lines_of (snd (mr_Read r)) = rest"
    using readComments_lines [of r "[]"] readMetrics_lines
    by (simp_all add: mr_Read_def Let_def cs_def ms_def rest_def)
  have "list_all comment_line cs" by (auto simp: cs_def list_all_iff dest: set_takeWhileD)
  then have "dropWhile comment_line (cs @ ms) = dropWhile comment_line ms" by (rule dropWhile_takeWhile_append)
  moreover have "list_all ?hash ms" by (auto simp: ms_def list_all_iff dest: set_takeWhileD)
  ultimately have ok: "list_all ?hash (dropWhile comment_line (cs @ ms))"
    by (auto simp: list_all_iff dest: set_dropWhileD)
  have next_line: "case rest of [] \<Rightarrow> True | l # _ \<Rightarrow> HasPrefix l ''#''"
    using hd_dropWhile [of ?hash "dropWhile comment_line ?ls"] by (auto simp: rest_def [symmetric] split: list.split)
  have "cs @ ms \<noteq> []"
  proof
    assume "cs @ ms = []"
    then have "rest = ?ls" "comment_line = comment_line" using split by simp_all
    with assms next_line \<open>cs @ ms = []\<close> show False
      by (auto simp: lines_of_def cs_def comment_line_def split: if_splits)
  qed
  with split read ok next_line show ?thesis by (auto simp: block_ok_def)
qed

definition starts_comment :: "string list \<Rightarrow> bool" where
  "starts_comment g \<longleftrightarrow> HasPrefix (hd g) ''#''"

lemma mr_blocks_groups:
  "\<exists>groups. mr_blocks r = map render groups \<and> concat groups = lines_of r \<and> list_all block_ok groups \<and>
     list_all starts_comment (tl groups) \<and>
     (case lines_of r of [] \<Rightarrow> True | l # _ \<Rightarrow> groups \<noteq> [] \<and> hd (hd groups) = l)"
proof (induction r rule: mr_blocks.induct)
  case (1 r)
  show ?case
  proof (cases "larDone r")
    case True
    then show ?thesis by (subst mr_blocks.simps) (simp add: lines_of_def)
  next
    case False
    obtain groups where groups: "mr_blocks (snd (mr_Read r)) = map render groups"
        "concat groups = lines_of (snd (mr_Read r))" "list_all block_ok groups" "list_all starts_comment (tl groups)"
        "case lines_of (snd (mr_Read r)) of [] \<Rightarrow> True | l # _ \<Rightarrow> groups \<noteq> [] \<and> hd (hd groups) = l"
      using 1 [OF False] by blast
    obtain g where g: "fst (mr_Read r) = render g" "lines_of r = g @ lines_of (snd (mr_Read r))" "block_ok g"
        "case lines_of (snd (mr_Read r)) of [] \<Rightarrow> True | l # _ \<Rightarrow> HasPrefix l ''#''"
      using mr_Read_lines [OF False] by blast
    have "list_all starts_comment groups"
    proof (cases groups)
      case (Cons h hs)
      with groups(2,3) have "lines_of (snd (mr_Read r)) \<noteq> []" by (auto simp: block_ok_def)
      with Cons groups(4,5) g(4) show ?thesis
        by (auto simp: starts_comment_def split: list.splits)
    qed simp
    moreover have "mr_blocks r = map render (g # groups)"
      by (subst mr_blocks.simps) (simp add: False g(1) groups(1))
    moreover have "concat (g # groups) = lines_of r" using g(2) groups(2) by simp
    moreover have "case lines_of r of [] \<Rightarrow> True | l # _ \<Rightarrow> g # groups \<noteq> [] \<and> hd (hd (g # groups)) = l"
      using g(2,3) by (cases g) (auto simp: block_ok_def)
    ultimately show ?thesis using g(3) groups(3) by (intro exI [of _ "g # groups"]) simp
  qed
qed

lemma lines_of_new: "lines_of (NewLookaheadReader body) = scan_lines body"
  by (simp add: NewLookaheadReader_def advanceLine_def lines_of_def Let_def split: list.split)

text \<open>C27: The exposition is read to its end in blocks. For every body the loop over the blocks ends, after at
  most as many blocks as the scanner yields lines; no line is lost, repeated or put out of order; no block is
  empty, every block is comments (and blank lines) followed by lines that are no comments, and a new block
  begins only at a comment: the samples of a family are parsed together with the comments before them.\<close>
theorem exposition_blocks:
  "\<exists>groups. mr_blocks (NewLookaheadReader body) = map render groups \<and> concat groups = scan_lines body \<and>
     length groups \<le> length (scan_lines body) \<and> list_all block_ok groups \<and> list_all starts_comment (tl groups)"
proof -
  obtain groups where groups: "mr_blocks (NewLookaheadReader body) = map render groups" "concat groups = scan_lines body"
      "list_all block_ok groups" "list_all starts_comment (tl groups)"
    using mr_blocks_groups [of "NewLookaheadReader body"] by (auto simp: lines_of_new)
  have "list_all block_ok gs \<Longrightarrow> length gs \<le> length (concat gs)" for gs
  proof (induction gs)
    case (Cons g gs)
    then show ?case by (cases g) (auto simp: block_ok_def)
  qed simp
  from this [of groups] groups show ?thesis by (intro exI [of _ groups]) simp
qed


text \<open>The text of lines without line ends of their own is read back as it was written.\<close>

lemma raw_lines_line: "newline \<notin> set l \<Longrightarrow> raw_lines acc (l @ newline # rest) = (acc @ l) # raw_lines [] rest"
  by (induction l arbitrary: acc) auto

lemma raw_lines_render: "list_all (\<lambda>l. newline \<notin> set l) ls \<Longrightarrow> raw_lines [] (render ls) = ls"
  by (induction ls) (simp_all add: raw_lines_line)

definition plain_line :: "string \<Rightarrow> bool" where
  "plain_line l \<longleftrightarrow> newline \<notin> set l \<and> carriage \<notin> set l \<and> length l \<le> max_line"

lemma takeWhile_all: "list_all P xs \<Longrightarrow> takeWhile P xs = xs"
  by (induction xs) auto

lemma scan_lines_render:
  assumes "list_all plain_line ls"
  shows "scan_lines (render ls) = ls"
proof -
  have "raw_lines [] (render ls) = ls" using assms by (intro raw_lines_render) (auto simp: list_all_iff plain_line_def)
  moreover have "list_all (\<lambda>l. length l \<le> max_line) ls" using assms by (auto simp: list_all_iff plain_line_def)
  moreover have "map dropCR ls = ls"
    using assms by (intro map_idI) (auto simp: list_all_iff plain_line_def dropCR_def dest: last_in_set)
  ultimately show ?thesis by (simp add: scan_lines_def takeWhile_all)
qed

text \<open>C28: An exposition that ends its lines with a newline, has no carriage returns and no line of 64 kB or more
  is handed to the parser byte for byte: the blocks, one after the other, are the text.\<close>
theorem blocks_roundtrip:
  assumes "list_all plain_line ls"
  shows "concat (mr_blocks (NewLookaheadReader (render ls))) = render ls"
proof -
  obtain groups where "mr_blocks (NewLookaheadReader (render ls)) = map render groups" "concat groups = ls"
    using mr_blocks_groups [of "NewLookaheadReader (render ls)"] by (auto simp: lines_of_new scan_lines_render [OF assms])
  moreover have "concat (map render gs) = render (concat gs)" for gs by (induction gs) simp_all
  ultimately show ?thesis by simp
qed

theorem blocks_roundtrip_witness:
  "concat (mr_blocks (NewLookaheadReader (render [''# TYPE up gauge'', ''up 1'', '''', ''# TYPE n counter'', ''n 2'']))) =
     render [''# TYPE up gauge'', ''up 1'', '''', ''# TYPE n counter'', ''n 2'']"
  by (rule blocks_roundtrip) (simp add: plain_line_def newline_def carriage_def max_line_def)

section \<open>The points of an exposition\<close>

text \<open>
  The points the families give, before any filter: a gauge, counter or untyped value that is a number; the
  quantiles of a summary that are numbers, or the buckets of a histogram, with the count and the sum; or one
  distribution for a histogram that is converted.
\<close>

definition candidate :: "pointBuilder \<Rightarrow> string \<Rightarrow> f64 \<Rightarrow> int64 \<Rightarrow> tagmap \<Rightarrow> metric" where
  "candidate b name v now tags = MPoint (builder_point b name v now (pbSource b) tags)"

definition totals_of :: "pointBuilder \<Rightarrow> string \<Rightarrow> int64 \<Rightarrow> tagmap \<Rightarrow> prom_metric \<Rightarrow> metric list" where
  "totals_of b name now tags m =
     [candidate b (name @ ''.count'') (float_u64 (pmSampleCount m)) now tags,
      candidate b (name @ ''.sum'') (pmSampleSum m) now tags]"

definition value_of :: "prom_metric \<Rightarrow> (string \<times> f64) list" where
  "value_of m = (case (pmGauge m, pmCounter m, pmUntyped m) of
     (Some v, _, _) \<Rightarrow> [(''.gauge'', v)] | (None, Some v, _) \<Rightarrow> [(''.counter'', v)]
   | (None, None, Some v) \<Rightarrow> [(''.value'', v)] | _ \<Rightarrow> [])"

definition candidates ::
  "bool \<Rightarrow> (f64 \<Rightarrow> string) \<Rightarrow> pointBuilder \<Rightarrow> int64 \<Rightarrow> string \<Rightarrow> prom_type \<Rightarrow> prom_metric \<Rightarrow> metric list" where
  "candidates experimental fmt b now name ty m =
     (let tags = prom_buildTags b m
      in case ty of
           PromSummary \<Rightarrow>
             map (\<lambda>q. candidate b name (snd q) now (mput ''quantile'' (fmt (fst q)) tags))
               (filter (\<lambda>q. \<not> isNaN (snd q)) (pmQuantiles m)) @ totals_of b name now tags m
         | PromHistogram \<Rightarrow>
             if experimental \<or> pbConvertHistograms b then [buildWFHistogram b name m now tags]
             else map (\<lambda>q. candidate b (histogramName b name) (float_u64 (snd q)) now (mput ''le'' (fmt (fst q)) tags))
                    (pmBuckets m) @ totals_of b name now tags m
         | _ \<Rightarrow> map (\<lambda>e. candidate b (name @ fst e) (snd e) now tags) (filter (\<lambda>e. \<not> isNaN (snd e)) (value_of m)))"

definition family_candidates ::
  "bool \<Rightarrow> (f64 \<Rightarrow> string) \<Rightarrow> pointBuilder \<Rightarrow> int64 \<Rightarrow> (string, prom_family) gomap \<Rightarrow> metric list" where
  "family_candidates experimental fmt b now families =
     concat (map (\<lambda>e. concat (map (candidates experimental fmt b now (fst e) (mfType (snd e))) (mfMetric (snd e)))) families)"

text \<open>What the filter lets pass, with the tags it lets pass.\<close>

definition offered :: "pointBuilder \<Rightarrow> metric list \<Rightarrow> built_points \<Rightarrow> built_points" where
  "offered b ms st = (fst st @ passed (pbFilters b) ms,
     snd st + of_nat (length ms - length (passed (pbFilters b) ms)))"

lemma offered_Nil [simp]: "offered b [] st = st"
  by (simp add: offered_def)

lemma offered_append [simp]: "offered b (xs @ ys) st = offered b ys (offered b xs st)"
  using length_passed [of "pbFilters b" xs] length_passed [of "pbFilters b" ys]
  by (simp add: offered_def of_nat_diff algebra_simps)

lemma append_point_offered: "append_point b m st = offered b [m] st"
  by (cases st) (simp add: append_point_def offered_def FilterAppend_passed)

lemma offered_Cons: "offered b (m # ms) st = offered b ms (append_point b m st)"
  using offered_append [of b "[m]" ms st] by (simp add: append_point_offered)

lemma fold_offered:
  "foldl (\<lambda>st x. if P x then append_point b (f x) st else st) st xs = offered b (map f (filter P xs)) st"
  "foldl (\<lambda>st x. append_point b (f x) st) st xs = offered b (map f xs) st"
  by (induction xs arbitrary: st) (simp_all add: offered_Cons)

lemma build_metric_offered:
  "build_metric experimental fmt b now name ty st m = offered b (candidates experimental fmt b now name ty m) st"
proof -
  have totals: "count_and_sum b name m now tags st = offered b (totals_of b name now tags m) st" for tags st
    by (simp add: count_and_sum_def Let_def totals_of_def candidate_def offered_Cons)
  show ?thesis
    by (cases ty)
      (auto simp: build_metric_def candidates_def Let_def buildSummaryPoints_def buildHistogramPoints_def buildPoints_def
        totals fold_offered candidate_def value_of_def offered_Cons split: option.splits)
qed

lemma fold_build:
  "foldl (build_metric experimental fmt b now name ty) st ms =
     offered b (concat (map (candidates experimental fmt b now name ty) ms)) st"
  by (induction ms arbitrary: st) (simp_all add: build_metric_offered)

lemma build_offered:
  "build experimental fmt b now families filtered = offered b (family_candidates experimental fmt b now families) ([], filtered)"
proof -
  have "foldl (\<lambda>st e. foldl (build_metric experimental fmt b now (fst e) (mfType (snd e))) st (mfMetric (snd e))) st fs =
      offered b (family_candidates experimental fmt b now fs) st" for st fs
    by (induction fs arbitrary: st) (simp_all add: family_candidates_def fold_build)
  then show ?thesis by (simp add: build_def)
qed


definition exposition_candidates ::
  "bool \<Rightarrow> (f64 \<Rightarrow> string) \<Rightarrow> (string \<Rightarrow> (string, prom_family) gomap \<times> string option) \<Rightarrow> (string \<Rightarrow> int64) \<Rightarrow>
   prometheusMetricsSource \<Rightarrow> string \<Rightarrow> metric list" where
  "exposition_candidates experimental fmt parser clock src body =
     concat (map (\<lambda>block. family_candidates experimental fmt (NewPointBuilder src) (clock block) (fst (parser block)))
       (mr_blocks (NewLookaheadReader body)))"

lemma parseMetrics_offered:
  "parseMetrics experimental fmt parser clock src body filtered =
     (let all = exposition_candidates experimental fmt parser clock src body; kept = passed (prFilters src) all
      in ((kept, None), filtered + of_nat (length all - length kept)))"
proof -
  let ?b = "NewPointBuilder src"
  have "foldl (parse_block experimental fmt parser ?b clock) st blocks = offered ?b
      (concat (map (\<lambda>block. family_candidates experimental fmt ?b (clock block) (fst (parser block))) blocks)) st" for st blocks
  proof (induction blocks arbitrary: st)
    case (Cons block blocks)
    have "parse_block experimental fmt parser ?b clock st block =
        offered ?b (family_candidates experimental fmt ?b (clock block) (fst (parser block))) st"
      by (simp add: parse_block_def Let_def build_offered offered_def)
    then show ?case by (simp add: Cons.IH)
  qed simp
  moreover have "pbFilters ?b = prFilters src" by (simp add: NewPointBuilder_def)
  ultimately show ?thesis
    by (simp add: parseMetrics_def Let_def offered_def exposition_candidates_def)
qed

text \<open>C5: The scrape of a target. It fails exactly when the request fails or is answered with another status than 200,
  and then counts one error and delivers nothing. Otherwise it delivers, in order, what the filter lets pass of
  the points of every family the parser found in every block of the body, and counts the points delivered
  and the points filtered: whatever the parser says is wrong with a block, no error is returned and
  none is counted, and the blocks that can be read are delivered.\<close>
theorem prom_Scrape_outcome:
  "let r = prom_Scrape experimental fmt parser get now clock src n
   in case get (prMetricsURL src) of
        TransportError err \<Rightarrow> r = ((None, Some err), count_error n)
      | Response code status body \<Rightarrow>
          if code \<noteq> 200 then r = ((None, Some (HTTPError (prMetricsURL src) status)), count_error n)
          else
           (let all = exposition_candidates experimental fmt parser clock src body; kept = passed (prFilters src) all
            in fst r = (Some \<lparr>bTimestamp = now, Sets = [], Metrics = map Some kept\<rparr>, None) \<and>
               collectErrors (snd r) = collectErrors n \<and> prEps (snd r) = prEps n \<and>
               promFilteredPoints (snd r) = promFilteredPoints n + of_nat (length all - length kept) \<and>
               collectedPoints (snd r) = collectedPoints n + of_nat (sum_list (map m_Points kept)) \<and>
               prPps (snd r) = prPps n + of_nat (sum_list (map m_Points kept)))"
  by (simp add: prom_Scrape_def parseMetrics_offered Let_def split: response.split)

section \<open>The instances of a service\<close>

text \<open>The addresses of the subsets with the port of their subset: https before http, the last http port there is.\<close>

definition target_hosts :: "EndpointSubset list \<Rightarrow> string list" where
  "target_hosts subsets =
     concat (map (\<lambda>s. map (\<lambda>ip. ip @ '':'' @ show_int (sint (choosePort (esPorts s)))) (esAddresses s)) subsets)"

lemma unique_from_props:
  assumes "sorted (map inHost (uniq @ is))" "distinct (map inHost uniq)"
  shows "sorted (map inHost (unique_from uniq is)) \<and> distinct (map inHost (unique_from uniq is)) \<and>
    inHost ` set (unique_from uniq is) = inHost ` set (uniq @ is) \<and> set (unique_from uniq is) \<subseteq> set (uniq @ is)"
  using assms
proof (induction uniq "is" rule: unique_from.induct)
  case (2 uniq i "is")
  show ?case
  proof (cases "length uniq = 0 \<or> inHost (last uniq) \<noteq> inHost i")
    case True
    have "inHost i \<notin> inHost ` set uniq"
    proof
      assume "inHost i \<in> inHost ` set uniq"
      then have ne: "uniq \<noteq> []" and mem: "inHost i \<in> set (map inHost uniq)" by auto
      have "sorted (map inHost uniq)" using 2(2) by (simp add: sorted_append)
      moreover have "x \<le> last xs" if "sorted xs" "x \<in> set xs" for x and xs :: "string list"
        using that by (induction xs) auto
      ultimately have "inHost i \<le> inHost (last uniq)" using mem ne by (metis last_map)
      moreover have "inHost (last uniq) \<le> inHost i" using 2(2) ne by (auto simp: sorted_append)
      ultimately show False using True ne by (simp add: antisym)
    qed
    with True 2 show ?thesis by simp
  next
    case False
    then have "inHost i \<in> inHost ` set uniq" by (metis image_eqI last_in_set length_0_conv)
    moreover have "sorted (map inHost (uniq @ is))" using 2(2) by (simp add: sorted_append)
    ultimately show ?thesis using 2(1) 2(3) False by auto
  qed
qed simp

lemma foldM_subsets:
  "foldM (\<lambda>instances sub. case instancesFromSubset sub of Inl err \<Rightarrow> Inl err | Inr toAdd \<Rightarrow> Inr (instances @ toAdd)) acc subsets =
     (if list_ex (\<lambda>s. choosePort (esPorts s) = - 1) subsets then Inl ''could not find either HTTP or HTTPS port''
      else Inr (acc @ map (\<lambda>h. \<lparr>inHost = h, inTags = [(''instance'', h)]\<rparr>) (target_hosts subsets)))"
  by (induction subsets arbitrary: acc) (auto simp: instancesFromSubset_def Let_def target_hosts_def)

text \<open>The instances of a service. A service with a subset that has neither port is an error; any other gives
  one instance for every address with the port of its subset: the hosts are sorted, no host comes twice, and
  every instance is tagged with its host.\<close>
theorem instances_of_service:
  "case instancesFromEndpoints subsets of
     Inl err \<Rightarrow> list_ex (\<lambda>s. choosePort (esPorts s) = - 1) subsets
   | Inr instances \<Rightarrow> \<not> list_ex (\<lambda>s. choosePort (esPorts s) = - 1) subsets \<and>
       sorted (map inHost instances) \<and> distinct (map inHost instances) \<and>
       set (map inHost instances) = set (target_hosts subsets) \<and>
       list_all (\<lambda>i. inTags i = [(''instance'', inHost i)]) instances"
proof (cases "list_ex (\<lambda>s. choosePort (esPorts s) = - 1) subsets")
  case False
  let ?all = "map (\<lambda>h. \<lparr>inHost = h, inTags = [(''instance'', h)]\<rparr>) (target_hosts subsets)"
  have all: "list_all (\<lambda>i. inTags i = [(''instance'', inHost i)]) ?all" "inHost ` set ?all = set (target_hosts subsets)"
    by (auto simp: list_all_iff image_image)
  from unique_from_props [of "[]" "sort_key inHost ?all"] all False show ?thesis
    by (auto simp: instancesFromEndpoints_def foldM_subsets removeDuplicateInstances_def list_all_iff simp del: set_map) (auto simp: subset_iff)
qed (simp add: instancesFromEndpoints_def foldM_subsets)

text \<open>The unescaped point of the expression: a host of one label before \<open>.svc\<close> is taken for a name and a namespace.\<close>

lemma matchNSName_examples:
  "matchNSName ''prom.monitoring.svc.cluster.local:9090'' = Some (''prom'', ''monitoring'')"
  "matchNSName ''service.svc:80'' = Some (''servi'', ''e'')" "matchNSName ''10.0.0.1:80'' = None"
  by code_simp+

end
