(* ===== verification/Events.thy ===== *)
theory Events
  imports Kube Configuration
begin

text \<open>
  Kubernetes events (\<open>collector/plugins/events\<close>): the rules that annotate an event with a category
  (eventannotater.go), the filter on its tags (filter.go), and the router that turns what the informer reports
  into events for the sink and is started and stopped by the leadership (eventrouter.go). The globs, the
  workload cache and the sink are parameters; the router's state is its counters and the events it exported.
\<close>

section \<open>Events\<close>

record k8s_event =
  kevAnnotations :: tagmap
  kevKind :: string
  kevName :: string
  kevNamespace :: string
  kevReason :: string
  kevType :: string
  kevMessage :: string
  kevComponent :: string
  kevReportingController :: string
  kevHost :: string
  kevLastTimestamp :: "gotime option"
  kevEventTime :: "gotime option"

text \<open>A time that is zero is \<open>None\<close>. What the sink gets: the message, the time, the host, the annotations made of
  the tags, and the event itself.\<close>

record out_event =
  oeMessage :: string
  oeTs :: "gotime option"
  oeHost :: string
  oeOptions :: tagmap
  oeEvent :: k8s_event

section \<open>Annotations (eventannotater.go)\<close>

record eventMatcher =
  emMatch :: "k8s_event \<Rightarrow> bool"
  emCategory :: string
  emSubcategory :: string

definition getCategory :: "eventMatcher \<Rightarrow> k8s_event \<Rightarrow> string" where
  "getCategory em event = (if 0 < length (emCategory em) then emCategory em else kevKind event)"

definition getSubcategory :: "eventMatcher \<Rightarrow> k8s_event \<Rightarrow> string" where
  "getSubcategory em event = (if 0 < length (emSubcategory em) then emSubcategory em else kevKind event)"

definition set_annotation :: "string \<Rightarrow> string \<Rightarrow> k8s_event \<Rightarrow> k8s_event" where
  "set_annotation k v event = event\<lparr>kevAnnotations := mput k v (kevAnnotations event)\<rparr>"

definition matcher_categorize :: "eventMatcher \<Rightarrow> k8s_event \<Rightarrow> k8s_event \<times> bool" where
  "matcher_categorize em event =
     (if emMatch em event
      then (set_annotation ''important'' ''true''
              (set_annotation ''aria/subcategory'' (getSubcategory em event)
                (set_annotation ''aria/category'' (getCategory em event) event)), True)
      else (set_annotation ''important'' ''false'' event, False))"

fun ea_categorize :: "eventMatcher list \<Rightarrow> k8s_event \<Rightarrow> k8s_event" where
  "ea_categorize [] event = event"
| "ea_categorize (m # ms) event =
     (let r = matcher_categorize m event in if snd r then fst r else ea_categorize ms (fst r))"

text \<open>A regular expression \<open>[xX]rest\<close> on the message: one of the two spellings occurs.\<close>

definition occurs :: "string \<Rightarrow> string \<Rightarrow> k8s_event \<Rightarrow> bool" where
  "occurs a b event \<longleftrightarrow> Contains (kevMessage event) a \<or> Contains (kevMessage event) b"

definition warning :: "string \<Rightarrow> k8s_event \<Rightarrow> bool" where
  "warning reason event \<longleftrightarrow> kevType event = ''Warning'' \<and> kevReason event = reason"

definition schedulingMatchers :: "eventMatcher list" where
  "schedulingMatchers =
     [\<lparr>emMatch = \<lambda>e. warning ''FailedScheduling'' e \<and> occurs ''insufficient'' ''Insufficient'' e,
       emCategory = ''Scheduling'', emSubcategory = ''InsufficientResources''\<rparr>,
      \<lparr>emMatch = \<lambda>e. kevReason e = ''NodeNotReady'' \<and> kevKind e = ''Pod'' \<and> Contains (kevMessage e) ''not ready'',
       emCategory = ''Scheduling'', emSubcategory = ''NodeNotReady''\<rparr>]"

definition creationMatchers :: "eventMatcher list" where
  "creationMatchers =
     [\<lparr>emMatch = \<lambda>e. warning ''Failed'' e \<and> occurs ''image'' ''Image'' e,
       emCategory = ''Creation'', emSubcategory = ''ImagePullBackOff''\<rparr>,
      \<lparr>emMatch = \<lambda>e. kevType e = ''Normal'' \<and> kevReason e = ''BackOff'' \<and>
          occurs ''back-off pulling image'' ''Back-off pulling image'' e,
       emCategory = ''Creation'', emSubcategory = ''ImagePullBackOff''\<rparr>,
      \<lparr>emMatch = warning ''FailedMount'', emCategory = ''Creation'', emSubcategory = ''FailedMount''\<rparr>]"

definition runtimeMatchers :: "eventMatcher list" where
  "runtimeMatchers =
     [\<lparr>emMatch = \<lambda>e. warning ''BackOff'' e \<and> occurs ''back-off restarting'' ''Back-off restarting'' e,
       emCategory = ''Runtime'', emSubcategory = ''CrashLoopBackOff''\<rparr>,
      \<lparr>emMatch = warning ''Unhealthy'', emCategory = ''Runtime'', emSubcategory = ''Unhealthy''\<rparr>,
      \<lparr>emMatch = warning ''OOMKilling'', emCategory = ''Runtime'', emSubcategory = ''OOMKilled''\<rparr>]"

definition storageMatchers :: "eventMatcher list" where
  "storageMatchers =
     [\<lparr>emMatch = \<lambda>e. warning ''FailedCreate'' e \<and> occurs ''volume'' ''Volume'' e,
       emCategory = ''Storage'', emSubcategory = ''FailedCreate''\<rparr>,
      \<lparr>emMatch = warning ''ProvisioningFailed'', emCategory = ''Storage'', emSubcategory = ''ProvisioningFailed''\<rparr>]"

definition jobMatchers :: "eventMatcher list" where
  "jobMatchers =
     [\<lparr>emMatch = \<lambda>e. kevKind e = ''Job'' \<and> kevReason e = ''BackoffLimitExceeded'',
       emCategory = ''Job'', emSubcategory = ''BackoffLimitExceeded''\<rparr>]"

definition defaultMatcher :: eventMatcher where
  "defaultMatcher = \<lparr>emMatch = \<lambda>e. kevType e = ''Warning'', emCategory = '''', emSubcategory = ''''\<rparr>"

record EventAnnotator =
  eaWorkloadCache :: listers
  eaClusterName :: string
  eaClusterUUID :: string
  eventMatchers :: "eventMatcher list"

definition NewEventAnnotator :: "listers \<Rightarrow> string \<Rightarrow> string \<Rightarrow> EventAnnotator" where
  "NewEventAnnotator workloadCache clusterName clusterUUID =
     \<lparr>eaWorkloadCache = workloadCache, eaClusterName = clusterName, eaClusterUUID = clusterUUID,
      eventMatchers = schedulingMatchers @ creationMatchers @ runtimeMatchers @ storageMatchers @ jobMatchers @
        [defaultMatcher]\<rparr>"

definition annotate_workload :: "EventAnnotator \<Rightarrow> k8s_event \<Rightarrow> k8s_event" where
  "annotate_workload ea event =
     (if kevKind event = ''Pod''
      then (case GetWorkloadForPodName (eaWorkloadCache ea) (kevName event) (kevNamespace event) of
              (workloadName, workloadKind, nodeName) \<Rightarrow>
                let event = set_annotation ''aria/workload-kind'' workloadKind
                      (set_annotation ''aria/workload-name'' workloadName event)
                in if 0 < length nodeName then set_annotation ''aria/node-name'' nodeName event else event)
      else event)"

definition annotate :: "EventAnnotator \<Rightarrow> k8s_event \<Rightarrow> k8s_event" where
  "annotate ea event =
     (let event = set_annotation ''aria/cluster-uuid'' (eaClusterUUID ea)
            (set_annotation ''aria/cluster-name'' (eaClusterName ea) event)
      in ea_categorize (eventMatchers ea) (annotate_workload ea event))"

section \<open>The filter (filter.go)\<close>

record eventFilter =
  efAllowList :: "(string, glob) gomap option"
  efDenyList :: "(string, glob) gomap option"
  efAllowListSets :: "(string, glob) gomap option list"
  efDenyListSets :: "(string, glob) gomap option list"

definition newEventFilter :: "glob_compile \<Rightarrow> EventsFilter \<Rightarrow> eventFilter" where
  "newEventFilter gc filters =
     (let allowList = (if 0 < length (TagAllowList filters) then TagAllowList filters else TagWhitelist filters);
          denyList = (if 0 < length (TagDenyList filters) then TagDenyList filters else TagBlacklist filters);
          allowListSets = (if 0 < length (TagAllowListSets filters) then TagAllowListSets filters else TagWhitelistSets filters);
          denyListSets = (if 0 < length (TagDenyListSets filters) then TagDenyListSets filters else TagBlacklistSets filters)
      in \<lparr>efAllowList = MultiCompile gc allowList, efDenyList = MultiCompile gc denyList,
          efAllowListSets = MultiSetCompile gc allowListSets, efDenyListSets = MultiSetCompile gc denyListSets\<rparr>)"

text \<open>A nil map and an empty one have no globs.\<close>

definition globs :: "(string, glob) gomap option \<Rightarrow> (string, glob) gomap" where
  "globs m = (case m of None \<Rightarrow> [] | Some gs \<Rightarrow> gs)"

definition ef_matches :: "eventFilter \<Rightarrow> tagmap \<Rightarrow> bool" where
  "ef_matches ef tags =
     (if 0 < length (globs (efAllowList ef)) \<and> \<not> MatchesTags (globs (efAllowList ef)) tags then False
      else if 0 < length (globs (efDenyList ef)) \<and> MatchesTags (globs (efDenyList ef)) tags then False
      else if 0 < length (efAllowListSets ef)
      then list_ex (\<lambda>wl. MatchesAllTags (globs wl) tags) (efAllowListSets ef)
      else if 0 < length (efDenyListSets ef)
      then \<not> list_ex (\<lambda>bl. MatchesAllTags (globs bl) tags) (efDenyListSets ef)
      else True)"

section \<open>The router (eventrouter.go)\<close>

record EventRouter =
  erFilters :: eventFilter
  erAnnotator :: EventAnnotator
  erSynced :: bool
  erReceived :: int64
  erFiltered :: int64
  erSent :: int64
  erExported :: "out_event list"

definition NewEventRouter :: "glob_compile \<Rightarrow> EventsConfig \<Rightarrow> listers \<Rightarrow> EventRouter" where
  "NewEventRouter gc cfg workloadCache =
     \<lparr>erFilters = newEventFilter gc (evFilters cfg),
      erAnnotator = NewEventAnnotator workloadCache (evClusterName cfg) (evClusterUUID cfg),
      erSynced = False, erReceived = 0, erFiltered = 0, erSent = 0, erExported = []\<rparr>"

text \<open>\<open>strings.ToLower\<close> of a kind, which is ASCII.\<close>

definition lower :: "char \<Rightarrow> char" where
  "lower c = (let n = (of_char c :: nat) in if 64 < n \<and> n < 91 then char_of (n + 32) else c)"

definition ToLower :: "string \<Rightarrow> string" where
  "ToLower s = map lower s"

definition event_tags :: "k8s_event \<Rightarrow> tagmap" where
  "event_tags e =
     (let ns = (if length (kevNamespace e) = 0 then ''default'' else kevNamespace e);
          component = (if 0 < length (kevComponent e) then kevComponent e else kevReportingController e);
          tags = [(''namespace_name'', ns), (''kind'', kevKind e), (''reason'', kevReason e), (''component'', component),
                  (''type'', kevType e), (''important'', mgets (kevAnnotations e) ''important'')]
      in if kevName e \<noteq> ''''
         then (if ToLower (kevKind e) = ''pod'' then mput ''pod_name'' (kevName e) tags
               else mput ''resource_name'' (kevName e) tags)
         else tags)"

definition newEvent :: "string \<Rightarrow> gotime option \<Rightarrow> string \<Rightarrow> tagmap \<Rightarrow> k8s_event \<Rightarrow> out_event" where
  "newEvent message ts host tags coreV1Event =
     \<lparr>oeMessage = message, oeTs = ts, oeHost = host, oeOptions = tags, oeEvent = coreV1Event\<rparr>"

text \<open>\<open>None\<close>: an object that is no event. The events of the first listing are not reported.\<close>

definition addEvent :: "k8s_event option \<Rightarrow> bool \<Rightarrow> EventRouter \<Rightarrow> EventRouter" where
  "addEvent obj isInInitialList er =
     (if isInInitialList then er
      else case obj of
             None \<Rightarrow> er
           | Some e \<Rightarrow>
               let e = annotate (erAnnotator er) e;
                   tags = event_tags e;
                   er = er\<lparr>erReceived := erReceived er + 1\<rparr>
               in if \<not> ef_matches (erFilters er) tags then er\<lparr>erFiltered := erFiltered er + 1\<rparr>
                  else (let e = e\<lparr>kevAnnotations := mdel ''important'' (kevAnnotations e)\<rparr>;
                            tags = mdel ''important'' tags;
                            lastTimestamp = (case kevLastTimestamp e of None \<Rightarrow> kevEventTime e | Some t \<Rightarrow> Some t)
                        in er\<lparr>erSent := erSent er + 1,
                              erExported := erExported er @ [newEvent (kevMessage e) lastTimestamp (kevHost e) tags e]\<rparr>))"

text \<open>What the informer reports: an object that is added (also by the first listing), or updated, which a
  resynchronisation does with the same object; and the end of the first listing.\<close>

datatype informer_event =
    InfAdd "k8s_event option"
  | InfUpdate "k8s_event option" "k8s_event option"
  | InfSynced

fun informer_step :: "EventRouter \<Rightarrow> informer_event \<Rightarrow> EventRouter" where
  "informer_step er (InfAdd obj) = addEvent obj (\<not> erSynced er) er"
| "informer_step er (InfUpdate oldObj newObj) = (if oldObj = newObj then er else addEvent newObj False er)"
| "informer_step er InfSynced = er\<lparr>erSynced := True\<rparr>"


section \<open>The annotations of an event\<close>

text \<open>The events that matter: every warning, and three kinds of events that need not be warnings.\<close>

definition important :: "k8s_event \<Rightarrow> bool" where
  "important e \<longleftrightarrow> kevType e = ''Warning''
     \<or> kevReason e = ''NodeNotReady'' \<and> kevKind e = ''Pod'' \<and> Contains (kevMessage e) ''not ready''
     \<or> kevType e = ''Normal'' \<and> kevReason e = ''BackOff'' \<and> occurs ''back-off pulling image'' ''Back-off pulling image'' e
     \<or> kevKind e = ''Job'' \<and> kevReason e = ''BackoffLimitExceeded''"

definition all_matchers :: "eventMatcher list" where
  "all_matchers = schedulingMatchers @ creationMatchers @ runtimeMatchers @ storageMatchers @ jobMatchers @ [defaultMatcher]"

lemmas matcher_defs = all_matchers_def schedulingMatchers_def creationMatchers_def runtimeMatchers_def
  storageMatchers_def jobMatchers_def defaultMatcher_def

lemma important_iff: "important e \<longleftrightarrow> list_ex (\<lambda>m. emMatch m e) all_matchers"
  by (auto simp: important_def matcher_defs warning_def)

text \<open>The rules do not read the annotations.\<close>

definition same_but_annotations :: "k8s_event \<Rightarrow> k8s_event \<Rightarrow> bool" where
  "same_but_annotations e e' \<longleftrightarrow> e'\<lparr>kevAnnotations := []\<rparr> = e\<lparr>kevAnnotations := []\<rparr>"

lemma set_annotation_sel [simp]:
  "kevType (set_annotation k v e) = kevType e" "kevKind (set_annotation k v e) = kevKind e"
  "kevReason (set_annotation k v e) = kevReason e" "kevMessage (set_annotation k v e) = kevMessage e"
  "kevAnnotations (set_annotation k v e) = mput k v (kevAnnotations e)"
  "(set_annotation k v e)\<lparr>kevAnnotations := []\<rparr> = e\<lparr>kevAnnotations := []\<rparr>"
  by (simp_all add: set_annotation_def)

lemma category_annotation [simp]:
  "getCategory m (set_annotation k v e) = getCategory m e" "getSubcategory m (set_annotation k v e) = getSubcategory m e"
  by (simp_all add: getCategory_def getSubcategory_def)

lemma emMatch_annotation: "m \<in> set all_matchers \<Longrightarrow> emMatch m (set_annotation k v e) = emMatch m e"
  by (auto simp: matcher_defs warning_def occurs_def)

lemma ea_categorize_outcome:
  assumes "set ms \<subseteq> set all_matchers" and "ms \<noteq> []"
  shows "(ea_categorize ms e)\<lparr>kevAnnotations := []\<rparr> = e\<lparr>kevAnnotations := []\<rparr> \<and>
    mget (kevAnnotations (ea_categorize ms e)) ''important'' =
      Some (if list_ex (\<lambda>m. emMatch m e) ms then ''true'' else ''false'') \<and>
    mget (kevAnnotations (ea_categorize ms e)) ''aria/category'' =
      (case find (\<lambda>m. emMatch m e) ms of Some m \<Rightarrow> Some (getCategory m e) | None \<Rightarrow> mget (kevAnnotations e) ''aria/category'') \<and>
    mget (kevAnnotations (ea_categorize ms e)) ''aria/subcategory'' =
      (case find (\<lambda>m. emMatch m e) ms of Some m \<Rightarrow> Some (getSubcategory m e) | None \<Rightarrow> mget (kevAnnotations e) ''aria/subcategory'') \<and>
    (if k \<in> {''important'', ''aria/category'', ''aria/subcategory''} then True
     else mget (kevAnnotations (ea_categorize ms e)) k = mget (kevAnnotations e) k)"
  using assms
proof (induction ms arbitrary: e)
  case (Cons m ms)
  show ?case
  proof (cases "emMatch m e")
    case True
    then show ?thesis by (simp add: matcher_categorize_def)
  next
    case False
    let ?e = "set_annotation ''important'' ''false'' e"
    have step: "ea_categorize (m # ms) e = ea_categorize ms ?e" using False by (simp add: matcher_categorize_def)
    show ?thesis
    proof (cases "ms = []")
      case True
      then show ?thesis using False by (simp add: matcher_categorize_def)
    next
      case ne: False
      have match: "\<forall>m \<in> set ms. emMatch m ?e = emMatch m e" using Cons.prems by (auto simp: emMatch_annotation)
      then have "list_ex (\<lambda>m. emMatch m ?e) ms = list_ex (\<lambda>m. emMatch m e) ms"
        "find (\<lambda>m. emMatch m ?e) ms = find (\<lambda>m. emMatch m e) ms"
        by (auto simp: list_ex_iff intro: find_cong)
      then show ?thesis
        using Cons.IH [of ?e] Cons.prems(1) ne False unfolding step
          by (simp del: ea_categorize.simps split: option.splits)
    qed
  qed
qed simp

text \<open>The annotations of an event. Every event keeps what it is and gets the name and the id of the cluster;
  it is marked important exactly when it is a warning, or the pod of a node that is not ready, or a
  back-off of an image pull, or a job over its back-off limit; an important event gets the
  category and subcategory of the first rule that matches it, and another keeps those it had.\<close>
theorem annotate_outcome:
  "let e' = annotate (NewEventAnnotator wc clusterName clusterUUID) e
   in e'\<lparr>kevAnnotations := []\<rparr> = e\<lparr>kevAnnotations := []\<rparr> \<and>
      mget (kevAnnotations e') ''aria/cluster-name'' = Some clusterName \<and>
      mget (kevAnnotations e') ''aria/cluster-uuid'' = Some clusterUUID \<and>
      mget (kevAnnotations e') ''important'' = Some (if important e then ''true'' else ''false'') \<and>
      (case find (\<lambda>m. emMatch m e) (eventMatchers (NewEventAnnotator wc clusterName clusterUUID)) of
         Some m \<Rightarrow> important e \<and> mget (kevAnnotations e') ''aria/category'' = Some (getCategory m e) \<and>
           mget (kevAnnotations e') ''aria/subcategory'' = Some (getSubcategory m e)
       | None \<Rightarrow> \<not> important e \<and> mget (kevAnnotations e') ''aria/category'' = mget (kevAnnotations e) ''aria/category'' \<and>
           mget (kevAnnotations e') ''aria/subcategory'' = mget (kevAnnotations e) ''aria/subcategory'')"
proof -
  define ea where "ea = NewEventAnnotator wc clusterName clusterUUID"
  define e0 where "e0 = annotate_workload ea (set_annotation ''aria/cluster-uuid'' clusterUUID
    (set_annotation ''aria/cluster-name'' clusterName e))"
  have ms: "eventMatchers ea = all_matchers" by (simp add: ea_def NewEventAnnotator_def all_matchers_def)
  have e0: "e0\<lparr>kevAnnotations := []\<rparr> = e\<lparr>kevAnnotations := []\<rparr>"
      "mget (kevAnnotations e0) ''aria/cluster-name'' = Some clusterName"
      "mget (kevAnnotations e0) ''aria/cluster-uuid'' = Some clusterUUID"
      "mget (kevAnnotations e0) ''aria/category'' = mget (kevAnnotations e) ''aria/category''"
      "mget (kevAnnotations e0) ''aria/subcategory'' = mget (kevAnnotations e) ''aria/subcategory''"
    by (simp_all add: e0_def annotate_workload_def Let_def split: prod.split)
  have match: "\<forall>m \<in> set all_matchers. emMatch m e0 = emMatch m e"
    by (auto simp: e0_def annotate_workload_def Let_def emMatch_annotation split: prod.split)
  have found: "find (\<lambda>m. emMatch m e0) all_matchers = find (\<lambda>m. emMatch m e) all_matchers"
      "list_ex (\<lambda>m. emMatch m e0) all_matchers = important e"
    using match by (auto simp: important_iff list_ex_iff intro: find_cong)
  have cat: "getCategory m e0 = getCategory m e" "getSubcategory m e0 = getSubcategory m e" for m
    by (simp_all add: getCategory_def getSubcategory_def e0_def annotate_workload_def Let_def split: prod.split)
  have imp: "important e \<longleftrightarrow> find (\<lambda>m. emMatch m e) all_matchers \<noteq> None"
    by (auto simp: important_iff list_ex_iff find_None_iff)
  have "annotate ea e = ea_categorize all_matchers e0"
    by (simp add: annotate_def Let_def e0_def ms) (simp add: ea_def NewEventAnnotator_def)
  moreover have "all_matchers \<noteq> []" by (simp add: all_matchers_def)
  ultimately show ?thesis
    using ea_categorize_outcome [of all_matchers e0 "''aria/cluster-name''"]
      ea_categorize_outcome [of all_matchers e0 "''aria/cluster-uuid''"] e0 found cat imp
    unfolding ea_def [symmetric] Let_def ms by (auto split: option.splits)
qed

section \<open>The events the sink gets\<close>

text \<open>The events the informer reports, but those of the first listing and the updates that change nothing.\<close>

fun reported :: "bool \<Rightarrow> informer_event list \<Rightarrow> k8s_event list" where
  "reported synced [] = []"
| "reported synced (InfAdd obj # evs) = (case obj of Some e \<Rightarrow> if synced then [e] else [] | None \<Rightarrow> []) @ reported synced evs"
| "reported synced (InfUpdate oldObj newObj # evs) =
     (case newObj of Some e \<Rightarrow> if oldObj = newObj then [] else [e] | None \<Rightarrow> []) @ reported synced evs"
| "reported synced (InfSynced # evs) = reported True evs"

definition passes :: "EventRouter \<Rightarrow> k8s_event \<Rightarrow> bool" where
  "passes er e \<longleftrightarrow> ef_matches (erFilters er) (event_tags (annotate (erAnnotator er) e))"

definition exported_event :: "EventRouter \<Rightarrow> k8s_event \<Rightarrow> out_event" where
  "exported_event er e =
     (let a = annotate (erAnnotator er) e
      in newEvent (kevMessage a) (case kevLastTimestamp a of None \<Rightarrow> kevEventTime a | Some t \<Rightarrow> Some t) (kevHost a)
           (mdel ''important'' (event_tags a)) (a\<lparr>kevAnnotations := mdel ''important'' (kevAnnotations a)\<rparr>))"

lemma addEvent_reported:
  "addEvent (Some e) False er =
     (if passes er e then er\<lparr>erReceived := erReceived er + 1, erSent := erSent er + 1,
          erExported := erExported er @ [exported_event er e]\<rparr>
      else er\<lparr>erReceived := erReceived er + 1, erFiltered := erFiltered er + 1\<rparr>)"
  "addEvent None b er = er" "addEvent obj True er = er"
  by (simp_all add: addEvent_def passes_def exported_event_def Let_def split: option.split)

definition routed :: "EventRouter \<Rightarrow> k8s_event list \<Rightarrow> EventRouter \<Rightarrow> bool" where
  "routed er es er' \<longleftrightarrow> erFilters er' = erFilters er \<and> erAnnotator er' = erAnnotator er \<and>
     erReceived er' = erReceived er + of_nat (length es) \<and>
     erSent er' = erSent er + of_nat (length (filter (passes er) es)) \<and>
     erFiltered er' = erFiltered er + of_nat (length (filter (\<lambda>e. \<not> passes er e) es)) \<and>
     erExported er' = erExported er @ map (exported_event er) (filter (passes er) es)"

lemma routed_fold: "routed er (reported (erSynced er) evs) (foldl informer_step er evs)"
proof -
  have cong: "passes er' = passes er \<and> exported_event er' = exported_event er"
    if "erFilters er' = erFilters er" "erAnnotator er' = erAnnotator er" for er er'
    using that by (auto simp: passes_def exported_event_def fun_eq_iff)
  have trans: "routed er (es @ es') er''" if "routed er es er'" "routed er' es' er''" for er er' er'' es es'
    using that cong [of er' er] by (simp add: routed_def algebra_simps)
  show ?thesis
  proof (induction evs arbitrary: er)
    case (Cons ev evs)
    have synced: "erSynced (addEvent obj b er) = erSynced er" for obj b
      by (auto simp: addEvent_def Let_def split: option.split)
    show ?case
    proof (cases ev)
      case (InfAdd obj)
      have "routed er (case obj of Some e \<Rightarrow> if erSynced er then [e] else [] | None \<Rightarrow> []) (addEvent obj (\<not> erSynced er) er)"
        by (cases obj) (auto simp: routed_def addEvent_reported algebra_simps)
      from trans [OF this Cons.IH] show ?thesis by (simp add: InfAdd synced)
    next
      case (InfUpdate oldObj newObj)
      have "routed er (case newObj of Some e \<Rightarrow> if oldObj = newObj then [] else [e] | None \<Rightarrow> []) (informer_step er ev)"
        by (cases newObj) (auto simp: InfUpdate routed_def addEvent_reported algebra_simps)
      from trans [OF this Cons.IH] show ?thesis
        by (cases "oldObj = newObj") (simp_all add: InfUpdate synced split: option.split_asm option.split)
    next
      case InfSynced
      have "passes (er\<lparr>erSynced := True\<rparr>) = passes er" "exported_event (er\<lparr>erSynced := True\<rparr>) = exported_event er"
        using cong [of "er\<lparr>erSynced := True\<rparr>" er] by simp_all
      then show ?thesis using Cons.IH [of "er\<lparr>erSynced := True\<rparr>"] by (simp add: InfSynced routed_def)
    qed
  qed (simp add: routed_def)
qed

text \<open>What the router makes of what the informer reports. For every sequence of reports: the sink gets, in
  order, exactly the events that pass the filter, of those that were added after the first listing or that
  an update changed, with their annotations and without the mark that only the filter reads; every event
  received is counted as sent or as filtered.\<close>
theorem router_outcome:
  "let er = NewEventRouter gc cfg wc; er' = foldl informer_step er evs; es = reported False evs
   in erExported er' = map (exported_event er) (filter (passes er) es) \<and>
      erReceived er' = of_nat (length es) \<and> erSent er' = of_nat (length (erExported er')) \<and>
      erReceived er' = erFiltered er' + erSent er' \<and>
      list_all (\<lambda>oe. mget (oeOptions oe) ''important'' = None \<and>
        mget (kevAnnotations (oeEvent oe)) ''important'' = None) (erExported er')"
proof -
  have new: "erSynced (NewEventRouter gc cfg wc) = False" "erReceived (NewEventRouter gc cfg wc) = 0"
      "erFiltered (NewEventRouter gc cfg wc) = 0" "erSent (NewEventRouter gc cfg wc) = 0"
      "erExported (NewEventRouter gc cfg wc) = []"
    by (simp_all add: NewEventRouter_def)
  have "of_nat (length es) = (of_nat (length (filter (\<lambda>e. \<not> P e) es)) + of_nat (length (filter P es)) :: int64)"
    for P and es :: "k8s_event list"
    using sum_length_filter_compl [of P es] by (simp flip: of_nat_add add: add.commute)
  with routed_fold [of "NewEventRouter gc cfg wc" evs] show ?thesis
    by (simp add: routed_def new Let_def list_all_iff exported_event_def newEvent_def)
qed

end
