(* ===== verification/Discovery_Runtime.thy ===== *)
theory Discovery_Runtime
  imports Configuration
begin

text \<open>
  The rules of the discovery at run time (\<open>collector/plugins/discovery\<close>): rules that come from config maps and
  secrets and are combined with the configured ones (config.go), the check for changes and the manager that
  starts and stops the discovery (manager.go), and the cached check of the right to list secrets
  (auth_checker.go). A Go slice is a reference to an array, and \<open>append\<close> may write into it: the arrays are kept
  in a store. The YAML decoder, the API server and the clock are parameters.
\<close>

section \<open>Slices\<close>

text \<open>
  The store holds the arrays; an element that was not written is \<open>None\<close>. A slice that starts at the beginning
  of its array, as all slices of this component do, is the number of its array and its length; its capacity is
  the length of the array. \<open>grow\<close> is the capacity of the array that \<open>append\<close> makes for a slice of a capacity
  that needs a number of elements, which the language leaves open; it is at least what is needed.
\<close>

type_synonym 'a arrays = "'a option list list"
type_synonym slice = "nat \<times> nat"

definition slice_content :: "'a arrays \<Rightarrow> slice \<Rightarrow> 'a option list" where
  "slice_content st s = take (snd s) (st ! fst s)"

definition slice_append :: "(nat \<Rightarrow> nat \<Rightarrow> nat) \<Rightarrow> 'a arrays \<Rightarrow> slice \<Rightarrow> 'a list \<Rightarrow> 'a arrays \<times> slice" where
  "slice_append grow st s xs =
     (let a = fst s; l = snd s; n = l + length xs; arr = st ! a
      in if n \<le> length arr
         then (st[a := take l arr @ map Some xs @ drop n arr], (a, n))
         else (st @ [take l arr @ map Some xs @ replicate (grow (length arr) n - n) None], (length st, n)))"

section \<open>The configurations (config.go)\<close>

text \<open>A discovery configuration: its plugins are a slice, and the field \<open>PluginConfigs\<close> of the head is not used.\<close>

record sliced_config =
  scHead :: DiscoveryConfig
  scPlugins :: slice

record configHandler =
  wiredCfg :: sliced_config
  runtimeCfgs :: "(string, PluginConfig list) gomap"

record configResource =
  crName :: string
  crAnnotations :: tagmap
  crData :: "(string, string) gomap"

definition discoveryAnnotation :: string where
  "discoveryAnnotation = ''wavefront.com/discovery-config''"

definition annotated :: "tagmap \<Rightarrow> bool" where
  "annotated annotations \<longleftrightarrow> (case mget annotations discoveryAnnotation of Some val \<Rightarrow> val = ''true'' | None \<Rightarrow> False)"

text \<open>\<open>decode\<close> stands for \<open>discovery.FromYAML\<close>, of which the loop only uses the plugins.\<close>

definition load :: "(string \<Rightarrow> string + PluginConfig list) \<Rightarrow> (string, string) gomap \<Rightarrow> string + PluginConfig list" where
  "load decode data =
     foldM (\<lambda>plugins e. case decode (snd e) of Inl err \<Rightarrow> Inl err | Inr ps \<Rightarrow> Inr (plugins @ ps)) [] data"

definition ch_deleted :: "string \<Rightarrow> configHandler \<Rightarrow> configHandler" where
  "ch_deleted name handler =
     (if mhas (runtimeCfgs handler) name then handler\<lparr>runtimeCfgs := mdel name (runtimeCfgs handler)\<rparr> else handler)"

definition ch_updated :: "(string \<Rightarrow> string + PluginConfig list) \<Rightarrow> configResource \<Rightarrow> configHandler \<Rightarrow> configHandler" where
  "ch_updated decode res handler =
     (if \<not> annotated (crAnnotations res) then ch_deleted (crName res) handler
      else case load decode (crData res) of
             Inl err \<Rightarrow> handler
           | Inr loaded \<Rightarrow> handler\<lparr>runtimeCfgs := mput (crName res) loaded (runtimeCfgs handler)\<rparr>)"

text \<open>What the two informers report, of config maps and of secrets; an object of another type is \<open>None\<close>.\<close>

datatype config_event = CfgUpdated "configResource option" | CfgDeleted "configResource option"

fun config_step :: "(string \<Rightarrow> string + PluginConfig list) \<Rightarrow> configHandler \<Rightarrow> config_event \<Rightarrow> configHandler" where
  "config_step decode handler (CfgUpdated (Some res)) = ch_updated decode res handler"
| "config_step decode handler (CfgDeleted (Some res)) = ch_deleted (crName res) handler"
| "config_step decode handler _ = handler"

definition newConfigHandler :: "sliced_config \<Rightarrow> configHandler" where
  "newConfigHandler cfg = \<lparr>wiredCfg = cfg, runtimeCfgs = []\<rparr>"

text \<open>The head of the combined configuration: five of the fields; the others have their zero values.\<close>

definition combined_head :: "DiscoveryConfig \<Rightarrow> DiscoveryConfig" where
  "combined_head cfg =
     \<lparr>DiscoveryInterval = DiscoveryInterval cfg, AnnotationPrefix = AnnotationPrefix cfg,
      AnnotationExcludes = AnnotationExcludes cfg, EnableRuntimePlugins = False,
      DisableAnnotationDiscovery = DisableAnnotationDiscovery cfg, PluginConfigs = [],
      GlobalDiscoveryInterval = 0, PromConfigs = []\<rparr>"

definition combine_configs ::
  "(nat \<Rightarrow> nat \<Rightarrow> nat) \<Rightarrow> PluginConfig arrays \<Rightarrow> sliced_config \<Rightarrow> (string, PluginConfig list) gomap \<Rightarrow>
   PluginConfig arrays \<times> sliced_config" where
  "combine_configs grow st wired cfgs =
     (let keys = sorted_keys cfgs;
          r = foldl (\<lambda>r key. case mget cfgs key of
                 None \<Rightarrow> r
               | Some plugins \<Rightarrow> if 0 < length plugins then slice_append grow (fst r) (snd r) plugins else r)
               (st, scPlugins wired) keys
      in (fst r, \<lparr>scHead = combined_head (scHead wired), scPlugins = snd r\<rparr>))"

definition ch_Config :: "(nat \<Rightarrow> nat \<Rightarrow> nat) \<Rightarrow> PluginConfig arrays \<Rightarrow> configHandler \<Rightarrow> PluginConfig arrays \<times> sliced_config" where
  "ch_Config grow st handler = combine_configs grow st (wiredCfg handler) (runtimeCfgs handler)"

section \<open>Changes (manager.go)\<close>

text \<open>\<open>reflect.DeepEqual\<close> on two configurations: what they are now, in the store.\<close>

definition config_eq :: "PluginConfig arrays \<Rightarrow> sliced_config \<Rightarrow> sliced_config \<Rightarrow> bool" where
  "config_eq st a b \<longleftrightarrow> scHead a = scHead b \<and> slice_content st (scPlugins a) = slice_content st (scPlugins b)"

text \<open>
  \<open>NotifyOfChanges\<close>: the configuration is got once, and then at every tick; \<open>handlers\<close> are the states of the
  handler at the ticks. The first difference calls \<open>notify\<close>, which stops the manager and with it this loop. The
  result is the number of ticks before that, if there is one.
\<close>

fun watch_ticks ::
  "(nat \<Rightarrow> nat \<Rightarrow> nat) \<Rightarrow> PluginConfig arrays \<Rightarrow> sliced_config \<Rightarrow> configHandler list \<Rightarrow> nat option" where
  "watch_ticks grow st prevVal [] = None"
| "watch_ticks grow st prevVal (h # hs) =
     (let r = ch_Config grow st h
      in if \<not> config_eq (fst r) (snd r) prevVal then Some 0
         else map_option Suc (watch_ticks grow (fst r) prevVal hs))"

definition NotifyOfChanges ::
  "(nat \<Rightarrow> nat \<Rightarrow> nat) \<Rightarrow> PluginConfig arrays \<Rightarrow> configHandler \<Rightarrow> configHandler list \<Rightarrow> nat option" where
  "NotifyOfChanges grow st handler ticks =
     (let r = ch_Config grow st handler in watch_ticks grow (fst r) (snd r) ticks)"

section \<open>The manager (manager.go, pod.go, service.go)\<close>

text \<open>
  The channels the manager and its listeners stop with; \<open>None\<close> was not made, \<open>Some True\<close> is open, \<open>Some False\<close>
  closed. Closing a closed channel panics: the result is \<open>None\<close>. Of the discoverer the state is whether it runs.
\<close>

type_synonym stop_channel = "bool option"

definition stop_listener :: "stop_channel \<Rightarrow> stop_channel option" where
  "stop_listener ch = (case ch of None \<Rightarrow> Some None | Some True \<Rightarrow> Some (Some False) | Some False \<Rightarrow> None)"

record discovery_manager =
  dmRuntime :: bool
  dmNodes :: bool
  dmConfigCh :: stop_channel
  dmPodCh :: stop_channel
  dmServiceCh :: stop_channel
  dmStopCh :: stop_channel
  dmRunning :: bool

definition NewDiscoveryManager :: "bool \<Rightarrow> bool \<Rightarrow> discovery_manager" where
  "NewDiscoveryManager runtime nodes =
     \<lparr>dmRuntime = runtime, dmNodes = nodes, dmConfigCh = None, dmPodCh = None, dmServiceCh = None,
      dmStopCh = Some True, dmRunning = False\<rparr>"

definition dm_Start :: "discovery_manager \<Rightarrow> discovery_manager" where
  "dm_Start dm =
     dm\<lparr>dmStopCh := Some True, dmConfigCh := (if dmRuntime dm then Some True else dmConfigCh dm), dmRunning := True,
        dmPodCh := (if dmNodes dm then Some True else None), dmServiceCh := None\<rparr>"

definition dm_Resume :: "discovery_manager \<Rightarrow> discovery_manager" where
  "dm_Resume dm = dm\<lparr>dmServiceCh := Some True\<rparr>"

definition dm_Pause :: "discovery_manager \<Rightarrow> discovery_manager option" where
  "dm_Pause dm = map_option (\<lambda>ch. dm\<lparr>dmServiceCh := ch\<rparr>) (stop_listener (dmServiceCh dm))"

definition dm_Stop :: "discovery_manager \<Rightarrow> discovery_manager option" where
  "dm_Stop dm =
     (case stop_listener (dmConfigCh dm) of None \<Rightarrow> None
      | Some config \<Rightarrow> (case stop_listener (dmPodCh dm) of None \<Rightarrow> None
         | Some pod \<Rightarrow> (case stop_listener (dmServiceCh dm) of None \<Rightarrow> None
            | Some service \<Rightarrow> (case dmStopCh dm of
                 Some True \<Rightarrow> Some (dm\<lparr>dmConfigCh := config, dmPodCh := pod, dmServiceCh := service,
                                  dmStopCh := Some False, dmRunning := False\<rparr>)
               | _ \<Rightarrow> None))))"

section \<open>The right to list secrets (auth_checker.go)\<close>

record AuthChecker =
  hasAccess :: bool
  refreshInterval :: duration
  reportInterval :: duration
  lastChecked :: gotime
  lastReported :: gotime

definition NewAuthChecker :: "duration \<Rightarrow> duration \<Rightarrow> AuthChecker" where
  "NewAuthChecker refresh report =
     \<lparr>hasAccess = False, refreshInterval = refresh, reportInterval = report, lastChecked = zero_time, lastReported = zero_time\<rparr>"

text \<open>\<open>review\<close> is the answer of the API server: an error, or whether access is allowed.\<close>

definition canListSecretsAPI :: "string + bool \<Rightarrow> bool" where
  "canListSecretsAPI review = (case review of Inl err \<Rightarrow> False | Inr allowed \<Rightarrow> allowed)"

definition timeToRefresh :: "gotime \<Rightarrow> AuthChecker \<Rightarrow> bool" where
  "timeToRefresh now checker \<longleftrightarrow> time_sub now (lastChecked checker) > refreshInterval checker"

text \<open>The second component says whether the checker reports that it has no access.\<close>

definition reportAccess :: "gotime \<Rightarrow> AuthChecker \<Rightarrow> AuthChecker \<times> bool" where
  "reportAccess now checker =
     (if hasAccess checker then (checker\<lparr>lastReported := zero_time\<rparr>, False)
      else if time_sub now (lastReported checker) < reportInterval checker then (checker, False)
      else (checker\<lparr>lastReported := now\<rparr>, True))"

definition refreshAccess :: "gotime \<Rightarrow> string + bool \<Rightarrow> AuthChecker \<Rightarrow> AuthChecker \<times> bool" where
  "refreshAccess now review checker =
     (if \<not> timeToRefresh now checker then (checker, False)
      else (let checker = checker\<lparr>lastChecked := now\<rparr>;
                checker = checker\<lparr>hasAccess := canListSecretsAPI review\<rparr>
            in reportAccess now checker))"

definition CanListSecrets :: "gotime \<Rightarrow> string + bool \<Rightarrow> AuthChecker \<Rightarrow> bool \<times> AuthChecker \<times> bool" where
  "CanListSecrets now review checker =
     (let r = refreshAccess now review checker in (hasAccess (fst r), r))"


section \<open>What append does\<close>

definition wf_slice :: "'a arrays \<Rightarrow> slice \<Rightarrow> bool" where
  "wf_slice st s \<longleftrightarrow> fst s < length st \<and> snd s \<le> length (st ! fst s)"

definition full :: "'a arrays \<Rightarrow> slice \<Rightarrow> bool" where
  "full st s \<longleftrightarrow> snd s = length (st ! fst s)"

lemma slice_append_content:
  assumes "wf_slice st s"
  shows "wf_slice (fst (slice_append grow st s xs)) (snd (slice_append grow st s xs)) \<and>
    slice_content (fst (slice_append grow st s xs)) (snd (slice_append grow st s xs)) = slice_content st s @ map Some xs"
  using assms by (auto simp: slice_append_def wf_slice_def slice_content_def Let_def nth_append)

text \<open>An array is only written through a slice that has room left; a full slice moves to a new array.\<close>

lemma slice_append_frame:
  assumes "wf_slice st s" and "a < length st" and "a \<noteq> fst s \<or> full st s \<and> xs \<noteq> []"
  shows "fst (slice_append grow st s xs) ! a = st ! a" "length st \<le> length (fst (slice_append grow st s xs))"
    "fst s < n \<Longrightarrow> full st s \<and> xs \<noteq> [] \<Longrightarrow> fst (snd (slice_append grow st s xs)) = length st"
    "fst (snd (slice_append grow st s xs)) = fst s \<or> fst (snd (slice_append grow st s xs)) = length st"
  using assms by (auto simp: slice_append_def wf_slice_def full_def Let_def nth_append nth_list_update)

section \<open>The rules in force\<close>

text \<open>The configured rules, then those of the config maps and secrets in the order of their names.\<close>

definition runtime_rules :: "(string, PluginConfig list) gomap \<Rightarrow> PluginConfig list" where
  "runtime_rules cfgs = concat (map (\<lambda>k. case mget cfgs k of None \<Rightarrow> [] | Some ps \<Rightarrow> ps) (sorted_keys cfgs))"

definition rules_of :: "PluginConfig arrays \<Rightarrow> configHandler \<Rightarrow> PluginConfig option list" where
  "rules_of st h = slice_content st (scPlugins (wiredCfg h)) @ map Some (runtime_rules (runtimeCfgs h))"

text \<open>They do not depend on the order in which a map is traversed.\<close>

lemma runtime_rules_same_map:
  "same_map cfgs cfgs' \<Longrightarrow> wf_map cfgs \<Longrightarrow> wf_map cfgs' \<Longrightarrow> runtime_rules cfgs = runtime_rules cfgs'"
  by (simp add: runtime_rules_def sorted_keys_same_map same_mapD)

text \<open>The arrays there were are as they were, and the slice is the one there was or is of a new array.\<close>

definition extends :: "PluginConfig arrays \<Rightarrow> slice \<Rightarrow> PluginConfig arrays \<Rightarrow> slice \<Rightarrow> bool" where
  "extends st s st' s' \<longleftrightarrow> length st \<le> length st' \<and> (\<forall>a < length st. st' ! a = st ! a) \<and> wf_slice st' s' \<and>
     (s' = s \<or> length st \<le> fst s')"

lemma combine_step:
  assumes "wf_slice st s" and "full st s" and "extends st s st' s'"
  shows "let r = (if 0 < length xs then slice_append grow st' s' xs else (st', s'))
    in extends st s (fst r) (snd r) \<and> slice_content (fst r) (snd r) = slice_content st' s' @ map Some xs"
proof (cases "xs = []")
  case False
  have frame: "a \<noteq> fst s' \<or> full st' s' \<and> xs \<noteq> []" if "a < length st" for a
    using that assms False by (auto simp: extends_def full_def wf_slice_def)
  have wf': "wf_slice st' s'" using assms(3) by (simp add: extends_def)
  have old: "fst (slice_append grow st' s' xs) ! a = st ! a" if "a < length st" for a
    using slice_append_frame(1) [OF wf' _ frame [OF that]] that assms(3) by (auto simp: extends_def)
  have len: "length st \<le> length (fst (slice_append grow st' s' xs))"
    using assms(3) by (auto simp: slice_append_def Let_def extends_def)
  have new: "length st \<le> fst (snd (slice_append grow st' s' xs))"
    using assms False by (auto simp: slice_append_def Let_def extends_def full_def wf_slice_def)
  show ?thesis
    using slice_append_content [OF wf', of grow xs] old len new False by (simp add: extends_def)
qed (use assms(3) in simp)

lemma combine_configs_content:
  assumes "wf_slice st (scPlugins wired)" and "full st (scPlugins wired)"
  shows "let r = combine_configs grow st wired cfgs
    in extends st (scPlugins wired) (fst r) (scPlugins (snd r)) \<and> scHead (snd r) = combined_head (scHead wired) \<and>
       slice_content (fst r) (scPlugins (snd r)) = slice_content st (scPlugins wired) @ map Some (runtime_rules cfgs)"
proof -
  let ?s = "scPlugins wired"
  let ?step = "\<lambda>r key. case mget cfgs key of None \<Rightarrow> r
     | Some plugins \<Rightarrow> if 0 < length plugins then slice_append grow (fst r) (snd r) plugins else r"
  have "extends st ?s (fst r) (snd r) \<Longrightarrow>
      extends st ?s (fst (foldl ?step r keys)) (snd (foldl ?step r keys)) \<and>
      slice_content (fst (foldl ?step r keys)) (snd (foldl ?step r keys)) = slice_content (fst r) (snd r) @
        map Some (concat (map (\<lambda>k. case mget cfgs k of None \<Rightarrow> [] | Some ps \<Rightarrow> ps) keys))" for r keys
  proof (induction keys arbitrary: r)
    case (Cons k keys)
    let ?xs = "case mget cfgs k of None \<Rightarrow> [] | Some ps \<Rightarrow> ps"
    have step: "?step r k = (if 0 < length ?xs then slice_append grow (fst r) (snd r) ?xs else (fst r, snd r))"
      by (simp split: option.split)
    from combine_step [OF assms Cons.prems, of ?xs grow]
    have one: "extends st ?s (fst (?step r k)) (snd (?step r k))"
        "slice_content (fst (?step r k)) (snd (?step r k)) = slice_content (fst r) (snd r) @ map Some ?xs"
      unfolding step Let_def by blast+
    from Cons.IH [OF one(1)] one(2) show ?case by simp
  qed simp
  from this [of "(st, ?s)" "sorted_keys cfgs"] have
    "extends st ?s (fst (foldl ?step (st, ?s) (sorted_keys cfgs))) (snd (foldl ?step (st, ?s) (sorted_keys cfgs))) \<and>
     slice_content (fst (foldl ?step (st, ?s) (sorted_keys cfgs))) (snd (foldl ?step (st, ?s) (sorted_keys cfgs))) =
       slice_content st ?s @ map Some (runtime_rules cfgs)"
    using assms(1) by (simp add: extends_def runtime_rules_def)
  then show ?thesis
    by (simp add: combine_configs_def Let_def)
qed

fun first_index :: "('a \<Rightarrow> bool) \<Rightarrow> 'a list \<Rightarrow> nat option" where
  "first_index P [] = None"
| "first_index P (x # xs) = (if P x then Some 0 else map_option Suc (first_index P xs))"

lemma watch_ticks_first:
  assumes "wf_slice st s" "full st s" "extends st s st' s'" "slice_content st' s' = rules" "head = combined_head h"
    and "list_all (\<lambda>t. wiredCfg t = \<lparr>scHead = h, scPlugins = s\<rparr>) ticks"
  shows "watch_ticks grow st' \<lparr>scHead = head, scPlugins = s'\<rparr> ticks = first_index (\<lambda>t. rules_of st t \<noteq> rules) ticks"
  using assms(3,4,6)
proof (induction ticks arbitrary: st')
  case (Cons t ticks)
  have same: "st' ! fst s = st ! fst s" using Cons.prems(1) assms(1) by (simp add: extends_def wf_slice_def)
  have wired: "wiredCfg t = \<lparr>scHead = h, scPlugins = s\<rparr>" using Cons.prems(3) by simp
  have s: "wf_slice st' s" "full st' s" using same assms(1,2) Cons.prems(1) by (auto simp: wf_slice_def full_def extends_def)
  define r where "r = ch_Config grow st' t"
  have r: "extends st' s (fst r) (scPlugins (snd r))" "scHead (snd r) = combined_head h"
      "slice_content (fst r) (scPlugins (snd r)) = rules_of st t"
    using combine_configs_content [of st' "wiredCfg t" grow "runtimeCfgs t"] s same
    by (simp_all add: r_def ch_Config_def wired Let_def rules_of_def slice_content_def)
  have fst_s': "fst s' < length st'" using Cons.prems(1) by (simp add: extends_def wf_slice_def)
  then have keep: "slice_content (fst r) s' = rules"
    using r(1) Cons.prems(2) by (simp add: extends_def slice_content_def)
  have ext: "extends st s (fst r) s'"
    using r(1) Cons.prems(1) fst_s' by (auto simp: extends_def wf_slice_def)
  have "config_eq (fst r) (snd r) \<lparr>scHead = head, scPlugins = s'\<rparr> \<longleftrightarrow> rules_of st t = rules"
    using keep r(2,3) assms(5) by (simp add: config_eq_def)
  with Cons.IH [OF ext keep] Cons.prems(3) show ?case
    by (simp add: Let_def flip: r_def)
qed simp


definition sample_rule :: "string \<Rightarrow> PluginConfig" where
  "sample_rule name =
     \<lparr>plName = name, plType = ''prometheus'', plSelectors = \<lparr>selResourceType = ''pod'', selImages = [], selLabels = [],
        selNamespaces = []\<rparr>, plPort = '''', plScheme = '''', plPath = '''', plConf = '''', plSource = '''', plPrefix = '''',
        plTags = [], plIncludeLabels = '''', plFilters = emptyConfig, plConvertHistograms = False,
        plCollection = \<lparr>ccInterval = 0, ccTimeout = 0\<rparr>, plInternal = False\<rparr>"


definition sample_handler :: "nat \<Rightarrow> (string, PluginConfig list) gomap \<Rightarrow> configHandler" where
  "sample_handler n cfgs =
     \<lparr>wiredCfg = \<lparr>scHead = \<lparr>DiscoveryInterval = 0, AnnotationPrefix = '''', AnnotationExcludes = [],
          EnableRuntimePlugins = True, DisableAnnotationDiscovery = False, PluginConfigs = [],
          GlobalDiscoveryInterval = 0, PromConfigs = []\<rparr>, scPlugins = (0, n)\<rparr>, runtimeCfgs = cfgs\<rparr>"

definition sample_ticks :: "configHandler list" where
  "sample_ticks = [sample_handler 1 [(''a'', [sample_rule ''p''])], sample_handler 1 [(''a'', [sample_rule ''q''])]]"


text \<open>With room in the array of the configured rules, as an append that converts old rules leaves it, the rules
  that are read overwrite those that were read before: the change above is not seen.\<close>

lemma rule_changes_missed:
  "NotifyOfChanges grow [[Some (sample_rule ''w''), None]] (sample_handler 1 [(''a'', [sample_rule ''p''])]) sample_ticks = None"
  by (simp add: NotifyOfChanges_def ch_Config_def combine_configs_def sample_ticks_def sample_handler_def Let_def
      sorted_keys_def mkeys_def mget_Cons slice_append_def config_eq_def slice_content_def)

section \<open>The rules of the config maps and secrets\<close>

text \<open>Config maps and secrets share one name space: an object without the annotation removes the rules of the other
  kind of object that has its name.\<close>

lemma unannotated_removes:
  "\<not> annotated (crAnnotations res) \<Longrightarrow> \<not> mhas (runtimeCfgs (ch_updated decode res handler)) (crName res)"
  by (auto simp: ch_updated_def ch_deleted_def mhas_def)

lemma invalid_keeps: "load decode (crData res) = Inl err \<Longrightarrow> annotated (crAnnotations res) \<Longrightarrow>
  ch_updated decode res handler = handler"
  by (simp add: ch_updated_def)

section \<open>Stopping the manager\<close>

text \<open>A manager that is stopped after its service discovery was paused closes a closed channel.\<close>

lemma stop_after_pause: "dm_Pause (dm_Resume dm) = Some dm' \<Longrightarrow> dm_Stop dm' = None"
  by (auto simp: dm_Pause_def dm_Resume_def dm_Stop_def stop_listener_def split: option.splits bool.splits)

lemma stop_while_leading:
  "\<exists>dm'. dm_Stop (dm_Resume (dm_Start dm)) = Some dm' \<and> \<not> dmRunning dm' \<and> dmServiceCh dm' = Some False \<and>
     (dmRuntime dm \<longrightarrow> dmConfigCh dm' = Some False) \<and> (dmNodes dm \<longrightarrow> dmPodCh dm' = Some False)" if "dmConfigCh dm = None \<or> dmRuntime dm"
  using that by (auto simp: dm_Start_def dm_Resume_def dm_Stop_def stop_listener_def)

section \<open>The cached right to list secrets\<close>

text \<open>A run of the checker: the times of the calls with what the API server would answer. The result has for
  every call whether the server was asked, and the answer that was given.\<close>

fun auth_run :: "AuthChecker \<Rightarrow> (gotime \<times> (string + bool)) list \<Rightarrow> (gotime \<times> bool \<times> bool) list" where
  "auth_run checker [] = []"
| "auth_run checker ((now, review) # calls) =
     (let r = CanListSecrets now review checker
      in (now, timeToRefresh now checker, fst r) # auth_run (fst (snd r)) calls)"

definition asked :: "(gotime \<times> bool \<times> bool) list \<Rightarrow> gotime list" where
  "asked calls = map fst (filter (\<lambda>e. fst (snd e)) calls)"

lemma refreshAccess_sel:
  "refreshInterval (fst (refreshAccess now review checker)) = refreshInterval checker"
  "lastChecked (fst (refreshAccess now review checker)) = (if timeToRefresh now checker then now else lastChecked checker)"
  by (simp_all add: refreshAccess_def reportAccess_def Let_def)

lemma time_sub_mono: "t \<le> u \<Longrightarrow> time_sub t s \<le> time_sub u s"
  by (simp add: time_sub_def)

text \<open>The server is asked again only after more than the refresh interval.\<close>

lemma asked_apart:
  assumes "sorted (map fst calls)"
  shows "sorted_wrt (\<lambda>t u. time_sub u t > refreshInterval checker) (asked (auth_run checker calls)) \<and>
    list_all (\<lambda>u. time_sub u (lastChecked checker) > refreshInterval checker) (asked (auth_run checker calls))"
  using assms
proof (induction checker calls rule: auth_run.induct)
  case (2 checker now review calls)
  let ?c = "fst (refreshAccess now review checker)"
  have later: "now \<le> u" if "u \<in> set (asked (auth_run ?c calls))" for u
  proof -
    have "map fst (auth_run c cs) = map fst cs" for c cs by (induction c cs rule: auth_run.induct) (simp_all add: Let_def)
    moreover have "set (asked xs) \<subseteq> set (map fst xs)" for xs by (auto simp: asked_def)
    ultimately have "u \<in> set (map fst calls)" using that by (metis subsetD)
    with 2(2) show ?thesis by auto
  qed
  have IH: "sorted_wrt (\<lambda>t u. time_sub u t > refreshInterval checker) (asked (auth_run ?c calls))"
      "list_all (\<lambda>u. time_sub u (lastChecked ?c) > refreshInterval checker) (asked (auth_run ?c calls))"
    using 2(1) [OF refl] 2(2) by (simp_all add: CanListSecrets_def Let_def refreshAccess_sel)
  show ?case
  proof (cases "timeToRefresh now checker")
    case True
    then have "list_all (\<lambda>u. time_sub u (lastChecked checker) > refreshInterval checker) (asked (auth_run ?c calls))"
      using later time_sub_mono by (fastforce simp: timeToRefresh_def list_all_iff intro: less_le_trans)
    with True IH show ?thesis
      by (simp add: asked_def CanListSecrets_def Let_def refreshAccess_sel timeToRefresh_def list_all_iff)
  next
    case False
    with IH show ?thesis by (simp add: asked_def CanListSecrets_def Let_def refreshAccess_sel)
  qed
qed (simp add: asked_def)

end
