(* ===== verification/Systemd.thy ===== *)
theory Systemd
  imports Kstate
begin

text \<open>
  The units of systemd as points (\<open>collector/plugins/sources/systemd\<close>: filter.go, systemd.go). Six collectors run
  in goroutines of their own and send their points into one channel, from which another goroutine takes
  them through the filter: a schedule says which collector delivers next, and what is proved holds for every
  schedule. The connection to D-Bus is a parameter: the units, and the properties of a unit, that may be missing.
\<close>

section \<open>The filter on units (filter.go)\<close>

record unitFilter =
  unitAllowList :: "glob option"
  unitDenyList :: "glob option"

definition uf_match :: "unitFilter \<Rightarrow> string \<Rightarrow> bool" where
  "uf_match uf name =
     (if (case unitAllowList uf of None \<Rightarrow> False | Some g \<Rightarrow> \<not> g name) then False
      else if (case unitDenyList uf of None \<Rightarrow> False | Some g \<Rightarrow> g name) then False
      else True)"

definition unit_fromConfig :: "glob_compile \<Rightarrow> string list \<Rightarrow> string list \<Rightarrow> unitFilter option" where
  "unit_fromConfig gc allowList denyList =
     (if length allowList = 0 \<and> length denyList = 0 then None
      else Some \<lparr>unitAllowList = Compile gc allowList, unitDenyList = Compile gc denyList\<rparr>)"

section \<open>The source (systemd.go)\<close>

record sd_unit =
  unitName :: string
  ActiveState :: string
  LoadState :: string

text \<open>D-Bus: the units or an error, the properties by unit, interface and name, and the state of the system.\<close>

record dbus_conn =
  ListUnits :: "string + sd_unit list"
  prop_string :: "string \<Rightarrow> string \<Rightarrow> string \<Rightarrow> string option"
  prop_u32 :: "string \<Rightarrow> string \<Rightarrow> string \<Rightarrow> 32 word option"
  prop_u64 :: "string \<Rightarrow> string \<Rightarrow> string \<Rightarrow> int64 option"
  SystemState :: "string + string"

record systemdMetricsSource =
  sdPrefix :: string
  sdSource :: string
  collectTaskMetrics :: bool
  collectStartTimeMetrics :: bool
  collectRestartMetrics :: bool
  unitsFilter :: "unitFilter option"
  sdFilters :: "globFilter option"

definition unitStatesName :: "string list" where
  "unitStatesName = [''active'', ''activating'', ''deactivating'', ''inactive'', ''failed'']"

definition sd_metricPoint :: "systemdMetricsSource \<Rightarrow> string \<Rightarrow> f64 \<Rightarrow> int64 \<Rightarrow> nat \<Rightarrow> ref_point" where
  "sd_metricPoint src name v ts tags =
     metricPoint (sdPrefix src) (map (\<lambda>c. if c = CHR ''_'' then CHR ''.'' else c) name) v ts (sdSource src) tags"

definition setTag :: "string \<Rightarrow> string \<Rightarrow> tagmap \<Rightarrow> tagmap" where
  "setTag key val tags = (if val \<noteq> '''' then mput key val tags else tags)"

definition setTags :: "string \<Rightarrow> string \<Rightarrow> string \<Rightarrow> tagmap \<Rightarrow> tagmap" where
  "setTags name state service tags = setTag ''type'' service (setTag ''state_name'' state (setTag ''name'' name tags))"

definition float_u32 :: "32 word \<Rightarrow> f64" where
  "float_u32 n = f64_of_int (uint n)"

definition float_of_u64 :: "int64 \<Rightarrow> f64" where
  "float_of_u64 n = f64_of_int (uint n)"

definition serviceType :: "dbus_conn \<Rightarrow> sd_unit \<Rightarrow> string" where
  "serviceType conn u =
     (if HasSuffix (unitName u) ''.service''
      then (case prop_string conn (unitName u) ''Service'' ''Type'' of None \<Rightarrow> '''' | Some t \<Rightarrow> t)
      else if HasSuffix (unitName u) ''.mount''
      then (case prop_string conn (unitName u) ''Mount'' ''Type'' of None \<Rightarrow> '''' | Some t \<Rightarrow> t)
      else '''')"

text \<open>What each collector sends, with the tag maps it makes; the points of a socket share their tags.\<close>

definition unit_status :: "dbus_conn \<Rightarrow> systemdMetricsSource \<Rightarrow> int64 \<Rightarrow> sd_unit \<Rightarrow> built" where
  "unit_status conn src now u =
     append_built
       (join_built (map (\<lambda>stateName. single (setTags (unitName u) stateName (serviceType conn u) [])
          (sd_metricPoint src ''unit_state'' (if stateName = ActiveState u then Fin 1 else Fin 0) now)) unitStatesName))
       (if collectRestartMetrics src \<and> HasSuffix (unitName u) ''.service''
        then (case prop_u32 conn (unitName u) ''Service'' ''NRestarts'' of
                None \<Rightarrow> ([], [])
              | Some n \<Rightarrow> single (setTag ''name'' (unitName u) []) (sd_metricPoint src ''service_restart_total'' (float_u32 n) now))
        else ([], []))"

definition collectUnitStatusMetrics :: "dbus_conn \<Rightarrow> systemdMetricsSource \<Rightarrow> int64 \<Rightarrow> sd_unit list \<Rightarrow> built" where
  "collectUnitStatusMetrics conn src now units = join_built (map (unit_status conn src now) units)"

definition socket_points :: "dbus_conn \<Rightarrow> systemdMetricsSource \<Rightarrow> int64 \<Rightarrow> sd_unit \<Rightarrow> built" where
  "socket_points conn src now u =
     (if \<not> HasSuffix (unitName u) ''.socket'' then ([], [])
      else case prop_u32 conn (unitName u) ''Socket'' ''NAccepted'' of
        None \<Rightarrow> ([], [])
      | Some accepted \<Rightarrow>
          let tags = setTag ''name'' (unitName u) [];
              p1 = sd_metricPoint src ''socket_accepted_connections_total'' (float_u32 accepted) now 0
          in case prop_u32 conn (unitName u) ''Socket'' ''NConnections'' of
               None \<Rightarrow> ([tags], [p1])
             | Some current \<Rightarrow>
                 let p2 = sd_metricPoint src ''socket_current_connections'' (float_u32 current) now 0
                 in case prop_u32 conn (unitName u) ''Socket'' ''NRefused'' of
                      None \<Rightarrow> ([tags], [p1, p2])
                    | Some refused \<Rightarrow>
                        ([tags], [p1, p2, sd_metricPoint src ''socket_refused_connections_total'' (float_u32 refused) now 0]))"

definition collectSockets :: "dbus_conn \<Rightarrow> systemdMetricsSource \<Rightarrow> int64 \<Rightarrow> sd_unit list \<Rightarrow> built" where
  "collectSockets conn src now units = join_built (map (socket_points conn src now) units)"

definition micros :: "int64 \<Rightarrow> f64" where
  "micros n = fdiv (float_of_u64 n) (f64_of_int 1000000)"

definition sd_start_time :: "dbus_conn \<Rightarrow> systemdMetricsSource \<Rightarrow> int64 \<Rightarrow> sd_unit \<Rightarrow> built" where
  "sd_start_time conn src now u =
     (case (if ActiveState u \<noteq> ''active'' then Some 0 else prop_u64 conn (unitName u) ''Unit'' ''ActiveEnterTimestamp'') of
        None \<Rightarrow> ([], [])
      | Some startTimeUsec \<Rightarrow>
          single (setTag ''name'' (unitName u) []) (sd_metricPoint src ''unit_start_time_seconds'' (micros startTimeUsec) now))"

definition collectUnitStartTimeMetrics :: "dbus_conn \<Rightarrow> systemdMetricsSource \<Rightarrow> int64 \<Rightarrow> sd_unit list \<Rightarrow> built" where
  "collectUnitStartTimeMetrics conn src now units = join_built (map (sd_start_time conn src now) units)"

text \<open>A count that D-Bus reports as the greatest number is not set.\<close>

definition task_count :: "dbus_conn \<Rightarrow> systemdMetricsSource \<Rightarrow> int64 \<Rightarrow> sd_unit \<Rightarrow> string \<Rightarrow> string \<Rightarrow> built" where
  "task_count conn src now u property name =
     (case prop_u64 conn (unitName u) ''Service'' property of
        None \<Rightarrow> ([], [])
      | Some v \<Rightarrow> if v \<noteq> - 1 then single (setTag ''name'' (unitName u) []) (sd_metricPoint src name (float_of_u64 v) now)
                  else ([], []))"

definition collectUnitTasksMetrics :: "dbus_conn \<Rightarrow> systemdMetricsSource \<Rightarrow> int64 \<Rightarrow> sd_unit list \<Rightarrow> built" where
  "collectUnitTasksMetrics conn src now units =
     join_built (map (\<lambda>u. if HasSuffix (unitName u) ''.service''
       then append_built (task_count conn src now u ''TasksCurrent'' ''unit_tasks_current'')
              (task_count conn src now u ''TasksMax'' ''unit_tasks_max'')
       else ([], [])) units)"

definition collectTimers :: "dbus_conn \<Rightarrow> systemdMetricsSource \<Rightarrow> int64 \<Rightarrow> sd_unit list \<Rightarrow> built" where
  "collectTimers conn src now units =
     join_built (map (\<lambda>u. if \<not> HasSuffix (unitName u) ''.timer'' then ([], [])
       else (case prop_u64 conn (unitName u) ''Timer'' ''LastTriggerUSec'' of
               None \<Rightarrow> ([], [])
             | Some v \<Rightarrow> single (setTag ''name'' (unitName u) [])
                 (sd_metricPoint src ''timer_last_trigger_seconds'' (micros v) now))) units)"

definition summarizeUnits :: "sd_unit list \<Rightarrow> (string, f64) gomap" where
  "summarizeUnits units =
     foldl (\<lambda>m u. mput (ActiveState u) (fadd (case mget m (ActiveState u) of None \<Rightarrow> Fin 0 | Some v \<Rightarrow> v) (Fin 1)) m)
       (foldl (\<lambda>m s. mput s (Fin 0) m) [] unitStatesName) units"

definition collectSummaryMetrics :: "systemdMetricsSource \<Rightarrow> int64 \<Rightarrow> (string, f64) gomap \<Rightarrow> built" where
  "collectSummaryMetrics src now summary =
     join_built (map (\<lambda>e. single (setTag ''state_name'' (fst e) []) (sd_metricPoint src ''units'' (snd e) now)) summary)"

definition collectSystemState :: "dbus_conn \<Rightarrow> systemdMetricsSource \<Rightarrow> int64 \<Rightarrow> string option \<times> built" where
  "collectSystemState conn src now =
     (case SystemState conn of
        Inl err \<Rightarrow> (Some (''couldn't get system state: '' @ err), ([], []))
      | Inr state \<Rightarrow>
          (None, single [] (sd_metricPoint src ''system_running'' (if state = [CHR 0x22] @ ''running'' @ [CHR 0x22]
                   then Fin 1 else Fin 0) now)))"

definition filterUnits :: "systemdMetricsSource \<Rightarrow> sd_unit list \<Rightarrow> sd_unit list" where
  "filterUnits src units =
     filter (\<lambda>u. (case unitsFilter src of None \<Rightarrow> True | Some uf \<Rightarrow> uf_match uf (unitName u)) \<and> LoadState u = ''loaded'') units"

section \<open>The goroutines\<close>

text \<open>The points the gathering goroutine receives: the schedule names the collector that sends next; when it is
  used up the rest is received in turn.\<close>

fun deliver :: "nat list \<Rightarrow> 'a list list \<Rightarrow> 'a list" where
  "deliver [] ls = concat ls"
| "deliver (i # is) ls =
     (if i < length ls \<and> ls ! i \<noteq> [] then hd (ls ! i) # deliver is (ls[i := tl (ls ! i)]) else deliver is ls)"

text \<open>The maps of several collectors in one store: the points of each are moved behind the maps of those before.\<close>

fun gather_parts :: "nat \<Rightarrow> built list \<Rightarrow> tagmap list \<times> ref_point list list" where
  "gather_parts n [] = ([], [])"
| "gather_parts n (b # bs) =
     (let r = gather_parts (n + length (fst b)) bs
      in (fst b @ fst r, map (\<lambda>p. p\<lparr>rpRef := rpRef p + n\<rparr>) (snd b) # snd r))"

definition collectors :: "dbus_conn \<Rightarrow> systemdMetricsSource \<Rightarrow> int64 \<Rightarrow> sd_unit list \<Rightarrow> built list" where
  "collectors conn src now units =
     [collectUnitStatusMetrics conn src now units,
      if collectStartTimeMetrics src then collectUnitStartTimeMetrics conn src now units else ([], []),
      if collectTaskMetrics src then collectUnitTasksMetrics conn src now units else ([], []),
      collectTimers conn src now units, collectSockets conn src now units, snd (collectSystemState conn src now)]"

text \<open>A scrape: an error of the connection or of the listing, or the points with the tags they end up with and the
  error of the system state, if there was one; and what the counters of filtered points and of errors grow by.
  The summary is sent before the goroutines start.\<close>

definition systemd_Scrape ::
  "string + dbus_conn \<Rightarrow> nat list \<Rightarrow> int64 \<Rightarrow> systemdMetricsSource \<Rightarrow>
   (point list option \<times> string option) \<times> int64 \<times> int64" where
  "systemd_Scrape dbus sched now src =
     (case dbus of
        Inl err \<Rightarrow> ((None, Some (''couldn't get dbus connection: '' @ err)), 0, 1)
      | Inr conn \<Rightarrow>
          (case ListUnits conn of
             Inl err \<Rightarrow> ((None, Some (''couldn't get units: '' @ err)), 0, 1)
           | Inr allUnits \<Rightarrow>
               let summary = collectSummaryMetrics src now (summarizeUnits allUnits);
                   units = filterUnits src allUnits;
                   parts = gather_parts (length (fst summary)) (collectors conn src now units);
                   received = snd summary @ deliver sched (snd parts);
                   c = foldl (\<lambda>c p. filter_append (sdFilters src) p c)
                         \<lparr>cvStore = fst summary @ fst parts, cvPoints = [], cvFiltered = 0, cvCollected = 0\<rparr> received;
                   err = fst (collectSystemState conn src now)
               in ((Some (map (deref (cvStore c)) (cvPoints c)), err), cvFiltered c,
                   if err = None then 0 else 1)))"

definition NewSystemdProvider :: "glob_compile \<Rightarrow> string \<Rightarrow> string option \<Rightarrow> SystemdSourceConfig \<Rightarrow> systemdMetricsSource list" where
  "NewSystemdProvider gc nodeName hostname cfg =
     (let pfx = GetStringValue (trPrefix (sdTransforms cfg)) ''kubernetes.systemd.'';
          source = GetStringValue (trSource (sdTransforms cfg)) nodeName;
          source = (if source = '''' then (case hostname of Some h \<Rightarrow> h | None \<Rightarrow> ''wavefront-collector-for-kubernetes'')
                    else source)
      in [\<lparr>sdPrefix = pfx, sdSource = source, collectTaskMetrics = IncludeTaskMetrics cfg,
           collectStartTimeMetrics = IncludeStartTimeMetrics cfg, collectRestartMetrics = IncludeRestartMetrics cfg,
           unitsFilter = unit_fromConfig gc (UnitAllowList cfg) (UnitDenyList cfg),
           sdFilters = FromConfig gc (trFilters (sdTransforms cfg))\<rparr>])"


section \<open>What a scrape delivers, for every schedule\<close>

lemma rpRef_sd [simp]: "rpRef (sd_metricPoint src name v ts r) = r"
  by (simp add: sd_metricPoint_def)

lemma wf_single_sd [simp]: "wf_built (single tags (sd_metricPoint src name v ts))"
  by (simp add: wf_built_def single_def)

lemma wf_collectors: "list_all wf_built (collectSummaryMetrics src now summary # collectors conn src now units)"
proof -
  have "wf_built (unit_status conn src now u)" for u
    by (auto simp: unit_status_def intro!: wf_built_append split: option.split)
  moreover have "wf_built (socket_points conn src now u)" for u
    by (auto simp: socket_points_def Let_def wf_built_def split: option.split)
  moreover have "wf_built (sd_start_time conn src now u)" for u
    by (auto simp: sd_start_time_def split: option.split)
  moreover have "wf_built (task_count conn src now u p n)" for u p n
    by (auto simp: task_count_def split: option.split)
  ultimately show ?thesis
    by (auto simp: collectors_def collectUnitStatusMetrics_def collectSockets_def collectUnitStartTimeMetrics_def
        collectUnitTasksMetrics_def collectTimers_def collectSummaryMetrics_def collectSystemState_def list_all_iff
        intro!: wf_join_built wf_built_append split: option.split sum.split)
qed

lemma mset_deliver: "mset (deliver sched ls) = mset (concat ls)"
proof (induction sched ls rule: deliver.induct)
  case (2 i "is" ls)
  show ?case
  proof (cases "i < length ls \<and> ls ! i \<noteq> []")
    case True
    then have ls: "ls = take i ls @ ls ! i # drop (Suc i) ls" by (simp add: id_take_nth_drop)
    have upd: "ls[i := tl (ls ! i)] = take i ls @ tl (ls ! i) # drop (Suc i) ls" using True by (simp add: upd_conv_take_nth_drop)
    have "mset (hd (ls ! i) # concat (ls[i := tl (ls ! i)])) =
        mset (concat (take i ls) @ (hd (ls ! i) # tl (ls ! i)) @ concat (drop (Suc i) ls))"
      unfolding upd by simp
    also have "\<dots> = mset (concat ls)"
      using True by (subst (4) ls) simp
    finally show ?thesis using True 2(1) by simp
  next
    case False
    have skip: "deliver (i # is) ls = deliver is ls" by (simp add: False)
    show ?thesis using 2(2) [OF False] unfolding skip .
  qed
qed simp

text \<open>The points of the parts, each with the tags its collector gave it.\<close>

lemma gather_parts_points:
  assumes "list_all wf_built bs" and "length pre = n"
  shows "list_all (\<lambda>p. rpRef p < n + length (fst (gather_parts n bs))) (concat (snd (gather_parts n bs))) \<and>
    map (deref (pre @ fst (gather_parts n bs))) (concat (snd (gather_parts n bs))) = concat (map built_points bs)"
  using assms
proof (induction n bs arbitrary: pre rule: gather_parts.induct)
  case (2 n b bs)
  have b: "list_all (\<lambda>p. rpRef p < length (fst b)) (snd b)" using 2(2) by (simp add: wf_built_def)
  from 2(1) [of "pre @ fst b"] 2(2,3) have IH:
    "list_all (\<lambda>p. rpRef p < n + length (fst b) + length (fst (gather_parts (n + length (fst b)) bs)))
       (concat (snd (gather_parts (n + length (fst b)) bs)))"
    "map (deref ((pre @ fst b) @ fst (gather_parts (n + length (fst b)) bs))) (concat (snd (gather_parts (n + length (fst b)) bs))) =
       concat (map built_points bs)"
    by simp_all
  have "map (deref (pre @ fst b @ fst (gather_parts (n + length (fst b)) bs))) (map (\<lambda>p. p\<lparr>rpRef := rpRef p + n\<rparr>) (snd b)) =
      built_points b"
    using b 2(3) by (auto simp: built_points_def deref_def nth_append list_all_iff)
  with IH b show ?case by (auto simp: Let_def list_all_iff add.assoc)
qed simp

lemma scraped_received:
  assumes "list_all (\<lambda>p. rpRef p < length st) ps"
  shows "scraped fi (foldl (\<lambda>c p. filter_append fi p c) \<lparr>cvStore = st, cvPoints = [], cvFiltered = 0, cvCollected = 0\<rparr> ps)
    (map (deref st) ps)"
proof -
  let ?c = "\<lparr>cvStore = st, cvPoints = [], cvFiltered = 0, cvCollected = 0\<rparr>"
  have "scraped fi ?c []" by (simp add: scraped_def clean_def split: option.split)
  from scraped_points [OF this, of 0 ps st] assms show ?thesis by simp
qed

text \<open>The points of a scrape before the filter: the summary of all units, and what the collectors send for the units
  that are wanted.\<close>

definition systemd_points :: "dbus_conn \<Rightarrow> int64 \<Rightarrow> systemdMetricsSource \<Rightarrow> sd_unit list \<Rightarrow> point list" where
  "systemd_points conn now src allUnits =
     built_points (collectSummaryMetrics src now (summarizeUnits allUnits)) @
     concat (map built_points (collectors conn src now (filterUnits src allUnits)))"

text \<open>C30: The scrape of systemd does not depend on how its goroutines run. Without a connection or a listing it is an
  error, counted once. Otherwise, for every schedule: the points that are delivered and those that are filtered
  are together the points of all collectors, in some order, none lost and none twice; without a filter all are
  delivered with the tags their collector gave them, and with a filter every tag that is left passes it. A
  missing state of the system is counted as an error and returned with the points.\<close>
theorem systemd_Scrape_outcome:
  "case dbus of
     Inl err \<Rightarrow> systemd_Scrape dbus sched now src = ((None, Some (''couldn't get dbus connection: '' @ err)), 0, 1)
   | Inr conn \<Rightarrow> (case ListUnits conn of
       Inl err \<Rightarrow> systemd_Scrape dbus sched now src = ((None, Some (''couldn't get units: '' @ err)), 0, 1)
     | Inr allUnits \<Rightarrow>
         \<exists>received points filtered. mset received = mset (systemd_points conn now src allUnits) \<and>
           systemd_Scrape dbus sched now src =
             ((Some points, fst (collectSystemState conn src now)), filtered, case SystemState conn of Inl _ \<Rightarrow> 1 | Inr _ \<Rightarrow> 0) \<and>
           filtered + of_nat (length points) = of_nat (length received) \<and>
           subseq (map header points) (map header received) \<and>
           (case sdFilters src of None \<Rightarrow> points = received
            | Some f \<Rightarrow> list_all (\<lambda>p. list_all (MatchTag f) (mkeys (pttags p))) points))"
proof (cases "\<exists>conn allUnits. dbus = Inr conn \<and> ListUnits conn = Inr allUnits")
  case True
  then obtain conn allUnits where dbus: "dbus = Inr conn" "ListUnits conn = Inr allUnits" by blast
  let ?sum = "collectSummaryMetrics src now (summarizeUnits allUnits)"
  let ?cs = "collectors conn src now (filterUnits src allUnits)"
  let ?n = "length (fst ?sum)"
  define parts where "parts = gather_parts ?n ?cs"
  define st where "st = fst ?sum @ fst parts"
  define received where "received = snd ?sum @ deliver sched (snd parts)"
  define c where "c = foldl (\<lambda>c p. filter_append (sdFilters src) p c)
    \<lparr>cvStore = st, cvPoints = [], cvFiltered = 0, cvCollected = 0\<rparr> received"
  have wf: "wf_built ?sum" "list_all wf_built ?cs" using wf_collectors [of src now "summarizeUnits allUnits" conn "filterUnits src allUnits"] by simp_all
  note parts = gather_parts_points [OF wf(2), of "fst ?sum" ?n, folded parts_def, OF refl]
  have "set (deliver sched (snd parts)) = set (concat (snd parts))" by (metis mset_deliver set_mset_mset)
  then have "list_all (\<lambda>p. rpRef p < length st) received"
    using parts wf(1) by (auto simp: received_def st_def wf_built_def list_all_iff)
  from scraped_result [OF scraped_received [OF this, of "sdFilters src"], folded c_def]
  have result: "cvFiltered c + of_nat (length (map (deref (cvStore c)) (cvPoints c))) = of_nat (length (map (deref st) received)) \<and>
    subseq (map header (map (deref (cvStore c)) (cvPoints c))) (map header (map (deref st) received)) \<and>
    (case sdFilters src of None \<Rightarrow> map (deref (cvStore c)) (cvPoints c) = map (deref st) received
     | Some f \<Rightarrow> list_all (\<lambda>p. list_all (MatchTag f) (mkeys (pttags p))) (map (deref (cvStore c)) (cvPoints c)))" .
  have "mset (map (deref st) received) = mset (map (deref st) (snd ?sum)) + mset (map (deref st) (concat (snd parts)))"
    by (simp add: received_def mset_deliver)
  also have "map (deref st) (snd ?sum) = built_points ?sum"
    using wf(1) by (auto simp: st_def built_points_def deref_def nth_append wf_built_def list_all_iff)
  also have "map (deref st) (concat (snd parts)) = concat (map built_points ?cs)" using parts by (simp add: st_def)
  finally have all: "mset (map (deref st) received) = mset (systemd_points conn now src allUnits)"
    by (simp add: systemd_points_def)
  have run: "systemd_Scrape dbus sched now src = ((Some (map (deref (cvStore c)) (cvPoints c)),
      fst (collectSystemState conn src now)), cvFiltered c, case SystemState conn of Inl _ \<Rightarrow> 1 | Inr _ \<Rightarrow> 0)"
    by (simp add: systemd_Scrape_def dbus Let_def c_def st_def received_def parts_def collectSystemState_def split: sum.split)
  show ?thesis
    unfolding dbus sum.case
    by (rule exI [of _ "map (deref st) received"], rule exI [of _ "map (deref (cvStore c)) (cvPoints c)"],
        rule exI [of _ "cvFiltered c"]) (use result in \<open>intro conjI all run [unfolded dbus(1)]; blast\<close>)
qed (auto simp: systemd_Scrape_def split: sum.split)

end
