(* ===== verification/Metric_Keys.thy ===== *)
theory Metric_Keys
  imports Prelude
begin

text \<open>
  The names under which the collector registers its own metrics: a name and its tags in one key
  (\<open>reporting.EncodeKey\<close> and \<open>DecodeKey\<close> of the vendored reporting library, over the escaping of queries of
  \<open>net/url\<close>). What is read of a key is what was encoded in it.
\<close>

section \<open>Escaping of queries (net/url)\<close>

definition upperhex :: "nat \<Rightarrow> char" where
  "upperhex n = (if n < 10 then char_of (48 + n) else char_of (55 + n))"

definition unhex :: "char \<Rightarrow> nat option" where
  "unhex c =
     (let n = (of_char c :: nat)
      in if 48 \<le> n \<and> n \<le> 57 then Some (n - 48)
         else if 97 \<le> n \<and> n \<le> 102 then Some (n - 87)
         else if 65 \<le> n \<and> n \<le> 70 then Some (n - 55) else None)"

text \<open>Letters, digits and four marks stay as they are.\<close>

definition unreserved :: "char \<Rightarrow> bool" where
  "unreserved c =
     (let n = (of_char c :: nat)
      in 48 \<le> n \<and> n \<le> 57 \<or> 65 \<le> n \<and> n \<le> 90 \<or> 97 \<le> n \<and> n \<le> 122 \<or> c \<in> {CHR ''-'', CHR ''_'', CHR ''.'', CHR ''~''})"

definition escape_char :: "char \<Rightarrow> string" where
  "escape_char c =
     (if unreserved c then [c] else if c = CHR '' '' then ''+''
      else [CHR ''%'', upperhex (of_char c div 16), upperhex (of_char c mod 16)])"

definition QueryEscape :: "string \<Rightarrow> string" where
  "QueryEscape s = concat (map escape_char s)"

fun unescape :: "string \<Rightarrow> string option" where
  "unescape [] = Some []"
| "unescape (c # cs) =
     (if c = CHR ''%''
      then (case cs of
              a # b # rest \<Rightarrow> (case (unhex a, unhex b) of
                  (Some x, Some y) \<Rightarrow> map_option (Cons (char_of (16 * x + y))) (unescape rest)
                | _ \<Rightarrow> None)
            | _ \<Rightarrow> None)
      else map_option (Cons (if c = CHR ''+'' then CHR '' '' else c)) (unescape cs))"

text \<open>The callers drop the error, which leaves the empty string.\<close>

definition QueryUnescape :: "string \<Rightarrow> string" where
  "QueryUnescape s = (case unescape s of Some t \<Rightarrow> t | None \<Rightarrow> [])"

section \<open>Keys (utils.go)\<close>

definition TrimSuffix :: "string \<Rightarrow> string \<Rightarrow> string" where
  "TrimSuffix s t = (if HasSuffix s t then take (length s - length t) s else s)"

definition EncodeKey :: "string \<Rightarrow> (string, string) gomap \<Rightarrow> string" where
  "EncodeKey key tags =
     (if length tags = 0 then QueryEscape key
      else let sortedKeys = sort (mkeys tags);
               keyAppend = QueryEscape key @ ''['' @
                 concat (map (\<lambda>k. QueryEscape k @ ''='' @ QueryEscape (mgets tags k) @ ''&'') sortedKeys)
           in TrimSuffix keyAppend ''&'' @ '']'')"

text \<open>A key that is not well formed makes the code read past the end of a list: no result.\<close>

definition decode_pair :: "string \<Rightarrow> (string \<times> string) option" where
  "decode_pair pair =
     (let z = Split (CHR ''='') pair in if length z < 2 then None else Some (QueryUnescape (z ! 0), QueryUnescape (z ! 1)))"

fun decode_pairs :: "(string, string) gomap \<Rightarrow> string list \<Rightarrow> (string, string) gomap option" where
  "decode_pairs m [] = Some m"
| "decode_pairs m (p # ps) = (case decode_pair p of None \<Rightarrow> None | Some e \<Rightarrow> decode_pairs (mput (fst e) (snd e) m) ps)"

definition DecodeKey :: "string \<Rightarrow> (string \<times> (string, string) gomap) option" where
  "DecodeKey key =
     (if CHR ''['' \<notin> set key then Some (QueryUnescape key, [])
      else let parts = Split (CHR ''['') key; tagStr = parts ! 1
           in if tagStr = [] then None
              else map_option (\<lambda>m. (QueryUnescape (parts ! 0), m))
                     (decode_pairs [] (Split (CHR ''&'') (butlast tagStr))))"

section \<open>What a key holds\<close>

lemma unhex_upperhex: "n < 16 \<Longrightarrow> unhex (upperhex n) = Some n"
  by (simp add: unhex_def upperhex_def Let_def)

lemma of_char_less: "(of_char c :: nat) < 256"
  using of_char_mod_256 [of c, where 'a = nat] by (metis mod_less_divisor zero_less_numeral)

lemma of_char_div_less: "(of_char c :: nat) div 16 < 16"
  by (rule less_mult_imp_div_less) (use of_char_less [of c] in simp)

lemma unescape_escape_char: "unescape (escape_char c @ t) = map_option (Cons c) (unescape t)"
proof (cases "unreserved c")
  case True
  then have "c \<noteq> CHR ''%'' \<and> c \<noteq> CHR ''+''" by (auto simp: unreserved_def Let_def)
  with True show ?thesis by (simp add: escape_char_def)
next
  case False
  show ?thesis using False by (simp add: escape_char_def unhex_upperhex of_char_div_less)
qed

lemma unescape_QueryEscape: "unescape (QueryEscape s @ t) = map_option (append s) (unescape t)"
  by (induction s) (auto simp: QueryEscape_def unescape_escape_char option.map_comp comp_def option.map_ident)

lemma QueryUnescape_QueryEscape [simp]: "QueryUnescape (QueryEscape s) = s"
  using unescape_QueryEscape [of s "[]"] by (simp add: QueryUnescape_def)

lemma unreserved_sep: "\<not> unreserved (CHR ''['')" "\<not> unreserved (CHR ''='')" "\<not> unreserved (CHR ''&'')"
  by (simp_all add: unreserved_def)

lemma unreserved_upperhex: "n < 16 \<Longrightarrow> unreserved (upperhex n)"
  by (simp add: unreserved_def upperhex_def Let_def)

lemma escape_char_chars: "x \<in> set (escape_char c) \<Longrightarrow> unreserved x \<or> x = CHR ''+'' \<or> x = CHR ''%''"
  using of_char_div_less [of c] by (auto simp: escape_char_def unreserved_upperhex split: if_splits)

lemma QueryEscape_chars: "x \<in> set (QueryEscape s) \<Longrightarrow> unreserved x \<or> x = CHR ''+'' \<or> x = CHR ''%''"
  unfolding QueryEscape_def set_concat set_map by (blast dest: escape_char_chars)

lemma QueryEscape_no_sep [simp]:
  "CHR ''['' \<notin> set (QueryEscape s)" "CHR ''='' \<notin> set (QueryEscape s)" "CHR ''&'' \<notin> set (QueryEscape s)"
proof -
  have sep: "\<not> unreserved x \<Longrightarrow> x \<noteq> CHR ''+'' \<Longrightarrow> x \<noteq> CHR ''%'' \<Longrightarrow> x \<notin> set (QueryEscape s)" for x
    using QueryEscape_chars [of x s] by blast
  show "CHR ''['' \<notin> set (QueryEscape s)" by (rule sep) (simp_all add: unreserved_sep)
  show "CHR ''='' \<notin> set (QueryEscape s)" by (rule sep) (simp_all add: unreserved_sep)
  show "CHR ''&'' \<notin> set (QueryEscape s)" by (rule sep) (simp_all add: unreserved_sep)
qed

definition key_pair :: "(string, string) gomap \<Rightarrow> string \<Rightarrow> string" where
  "key_pair tags k = QueryEscape k @ ''='' @ QueryEscape (mgets tags k)"

lemma decode_key_pair [simp]: "decode_pair (key_pair tags k) = Some (k, mgets tags k)"
  by (simp add: decode_pair_def key_pair_def Split_append Split_no_sep)

lemma key_pair_no_sep [simp]: "CHR ''['' \<notin> set (key_pair tags k)" "CHR ''&'' \<notin> set (key_pair tags k)"
  by (simp_all add: key_pair_def)

lemma concat_pairs: "ks \<noteq> [] \<Longrightarrow> concat (map (\<lambda>k. f k @ ''&'') ks) = Join ''&'' (map f ks) @ ''&''"
  by (induction ks rule: induct_list012) simp_all

lemma set_Join: "set (Join sep xs) \<subseteq> set sep \<union> (\<Union>x \<in> set xs. set x)"
  by (induction sep xs rule: Join.induct) auto

lemma sort_keys_Nil [simp]: "sort (mkeys m) = [] \<longleftrightarrow> m = []"
  by (metis length_0_conv length_mkeys length_sort)

lemma EncodeKey_tags:
  "tags \<noteq> [] \<Longrightarrow> EncodeKey key tags = QueryEscape key @ ''['' @ Join ''&'' (map (key_pair tags) (sort (mkeys tags))) @ '']''"
proof -
  assume "tags \<noteq> []"
  then have "sort (mkeys tags) \<noteq> []" by simp
  then have "concat (map (\<lambda>k. QueryEscape k @ ''='' @ QueryEscape (mgets tags k) @ ''&'') (sort (mkeys tags))) =
      Join ''&'' (map (key_pair tags) (sort (mkeys tags))) @ ''&''"
    using concat_pairs [of _ "key_pair tags"] by (simp add: key_pair_def)
  then show ?thesis using \<open>tags \<noteq> []\<close> by (simp add: EncodeKey_def Let_def TrimSuffix_def HasSuffix_iff)
qed

definition sorted_tags :: "(string, string) gomap \<Rightarrow> (string, string) gomap" where
  "sorted_tags tags = map (\<lambda>k. (k, mgets tags k)) (sort (mkeys tags))"

lemma decode_pairs_keys:
  "distinct ks \<Longrightarrow> set ks \<inter> set (mkeys m) = {} \<Longrightarrow>
   decode_pairs m (map (key_pair tags) ks) = Some (m @ map (\<lambda>k. (k, mgets tags k)) ks)"
proof (induction ks arbitrary: m)
  case (Cons k ks)
  have "mput k (mgets tags k) m = m @ [(k, mgets tags k)]"
    using Cons.prems(2) by (induction m) (auto simp: mput_def mkeys_def)
  with Cons show ?case by (auto simp: mkeys_def)
qed simp

lemma DecodeKey_EncodeKey_sorted: "wf_map tags \<Longrightarrow> DecodeKey (EncodeKey key tags) = Some (key, sorted_tags tags)"
proof (cases "tags = []")
  case True
  then show ?thesis by (simp add: EncodeKey_def DecodeKey_def sorted_tags_def mkeys_def)
next
  case False
  assume wf: "wf_map tags"
  let ?ps = "map (key_pair tags) (sort (mkeys tags))"
  have ne: "?ps \<noteq> []" using False by simp
  have no: "CHR ''['' \<notin> set (Join ''&'' ?ps)"
    using set_Join [of "''&''" ?ps] by auto
  have split: "Split (CHR ''['') (EncodeKey key tags) = [QueryEscape key, Join ''&'' ?ps @ '']'']"
    using no by (simp add: EncodeKey_tags [OF False] Split_append Split_no_sep)
  have "Split (CHR ''&'') (Join ''&'' ?ps) = ?ps"
    by (rule Split_Join) (use ne in auto)
  moreover have "decode_pairs [] ?ps = Some (sorted_tags tags)"
    using wf decode_pairs_keys [of "sort (mkeys tags)" "[]"] by (simp add: wf_map_def mkeys_def sorted_tags_def)
  moreover have "CHR ''['' \<in> set (EncodeKey key tags)" by (simp add: EncodeKey_tags [OF False])
  ultimately show ?thesis unfolding DecodeKey_def split by (simp add: Let_def)
qed

lemma mget_sorted_tags [simp]: "mget (sorted_tags tags) k = mget tags k"
proof -
  have "mget (map (\<lambda>k. (k, mgets tags k)) ks) k = (if k \<in> set ks then Some (mgets tags k) else None)" for ks
    by (induction ks) (auto simp: mget_def)
  then show ?thesis
    by (cases "mget tags k") (auto simp: sorted_tags_def mgets_def mhas_mkeys [symmetric] mhas_def)
qed

text \<open>What is read from a key is what was encoded in it: the name, and the same tags, whatever bytes they
  consist of.\<close>
theorem DecodeKey_EncodeKey:
  assumes "wf_map tags"
  shows "case DecodeKey (EncodeKey key tags) of None \<Rightarrow> False | Some (k, t) \<Rightarrow> k = key \<and> same_map t tags"
  using assms by (simp add: DecodeKey_EncodeKey_sorted same_map_def)

lemma DecodeKey_EncodeKey_witness:
  "case DecodeKey (EncodeKey ''a b[c'' [(''x&'', ''1=2''), (''d'', '''')]) of None \<Rightarrow> False
   | Some (k, t) \<Rightarrow> k = ''a b[c'' \<and> same_map t [(''x&'', ''1=2''), (''d'', '''')]"
  by (rule DecodeKey_EncodeKey) (simp add: wf_map_def)

text \<open>A suffix that is put behind an encoded key is read as part of the name when there are no tags; otherwise it
  is lost, but for what it leaves in the value of the last tag.\<close>

lemma unescape_plain: "list_all (\<lambda>c. c \<noteq> CHR ''%'' \<and> c \<noteq> CHR ''+'') t \<Longrightarrow> unescape t = Some t"
  by (induction t) auto

lemma DecodeKey_suffix:
  assumes "list_all (\<lambda>c. c \<noteq> CHR ''%'' \<and> c \<noteq> CHR ''+'' \<and> c \<noteq> CHR ''['') t"
  shows "DecodeKey (EncodeKey key [] @ t) = Some (key @ t, [])"
proof -
  have "unescape t = Some t" using assms by (intro unescape_plain) (simp add: list_all_iff)
  then have "QueryUnescape (QueryEscape key @ t) = key @ t" by (simp add: QueryUnescape_def unescape_QueryEscape)
  moreover have "CHR ''['' \<notin> set t" using assms by (auto simp: list_all_iff)
  ultimately show ?thesis by (simp add: EncodeKey_def DecodeKey_def)
qed

lemma suffix_of_tagged_key:
  "DecodeKey (EncodeKey ''latency'' [(''type'', ''x'')] @ ''.duration.min'') = Some (''latency'', [(''type'', ''x].duration.mi'')])"
  by code_simp

end
