(* ===== verification/Internal_Stats.thy ===== *)
theory Internal_Stats
  imports Metric_Keys Kube Wf_Points Configuration
begin

text \<open>
  The metrics of the collector about itself as points (\<open>collector/plugins/sources/stats\<close>: stats.go, provider.go).
  The registry is the list of its entries in the order in which \<open>Each\<close> yields them, with the values a
  snapshot holds; the clock, the environment and the leadership are parameters. A name in the registry is a key that
  encodes tags.
\<close>

section \<open>The registry\<close>

text \<open>A snapshot of a timer, histogram or meter: times are in nanoseconds.\<close>

record gm_snapshot =
  gsCount :: int64
  gsMin :: int64
  gsMax :: int64
  gsMean :: f64
  gsMedian :: f64
  gsP75 :: f64
  gsP95 :: f64
  gsP99 :: f64
  gsP999 :: f64
  gsRate1 :: f64
  gsRateMean :: f64

datatype gm_metric =
    GCounter int64
  | GGauge int64
  | GGaugeFloat f64
  | GTimer gm_snapshot
  | GHistogram gm_snapshot
  | GMeter gm_snapshot
  | GOther

section \<open>The source (stats.go)\<close>

record internalMetricsSource =
  imPrefix :: string
  imTags :: tagmap
  imFilters :: "globFilter option"
  imSource :: string
  zeroFilters :: "string list"

definition stats_getDefault :: "string \<Rightarrow> string \<Rightarrow> string" where
  "stats_getDefault val defaultVal = (if val = '''' then defaultVal else val)"

definition newInternalMetricsSource :: "string \<Rightarrow> string \<Rightarrow> tagmap \<Rightarrow> globFilter option \<Rightarrow> internalMetricsSource" where
  "newInternalMetricsSource nodeName pfx tags filters =
     \<lparr>imPrefix = pfx, imTags = (if length tags = 0 then [] else tags), imFilters = filters,
      imSource = stats_getDefault nodeName ''wavefront-collector-for-kubernetes'',
      zeroFilters = [''filtered.count'', ''errors.count'', ''targets.registered'', ''collect.errors'',
                     ''points.filtered'', ''points.collected'']\<rparr>"

definition NewInternalStatsProvider :: "glob_compile \<Rightarrow> string \<Rightarrow> StatsSourceConfig \<Rightarrow> internalMetricsSource list" where
  "NewInternalStatsProvider gc nodeName cfg =
     [newInternalMetricsSource nodeName (GetStringValue (trPrefix (stTransforms cfg)) ''kubernetes.'')
        (trTags (stTransforms cfg)) (FromConfig gc (trFilters (stTransforms cfg)))]"

definition stats_combine :: "string \<Rightarrow> string \<Rightarrow> string" where
  "stats_combine pfx name = pfx @ ''.'' @ name"

definition stats_buildTags :: "internalMetricsSource \<Rightarrow> tagmap \<Rightarrow> tagmap" where
  "stats_buildTags src tags =
     foldl (\<lambda>tags e. if 0 < length (snd e) \<and> \<not> mhas tags (fst e) then mput (fst e) (snd e) tags else tags) tags (imTags src)"

definition filterName :: "internalMetricsSource \<Rightarrow> string \<Rightarrow> bool" where
  "filterName src name = list_ex (HasSuffix name) (zeroFilters src)"

text \<open>A counter that is zero gives no point; a key that does not decode ends the scrape with a panic, which is \<open>None\<close>.\<close>

definition stats_point :: "internalMetricsSource \<Rightarrow> string \<Rightarrow> f64 \<Rightarrow> int64 \<Rightarrow> metric option option" where
  "stats_point src key v ts =
     (case DecodeKey key of
        None \<Rightarrow> None
      | Some (name, tags) \<Rightarrow>
          if feq v (Fin 0) \<and> filterName src name then Some None
          else Some (Some (MPoint (NewPoint (imPrefix src @ ''collector.'' @ ReplaceChar (CHR ''_'') ''.'' name) v ts (imSource src)
                 (stats_buildTags src tags)))))"

definition stats_append ::
  "internalMetricsSource \<Rightarrow> int64 \<Rightarrow> (metric list \<times> int64) option \<Rightarrow> string \<times> f64 \<Rightarrow> (metric list \<times> int64) option" where
  "stats_append src now st nv =
     (case (st, stats_point src (fst nv) (snd nv) now) of
        (Some (points, filtered), Some p) \<Rightarrow> Some (FilterAppend (imFilters src) filtered points p)
      | _ \<Rightarrow> None)"

definition millis :: "f64 \<Rightarrow> f64" where
  "millis v = fdiv v (f64_of_int 1000000)"

text \<open>What \<open>addHisto\<close> and \<open>addRate\<close> offer, in their order.\<close>

definition addHisto :: "string \<Rightarrow> gm_snapshot \<Rightarrow> (string \<times> f64) list" where
  "addHisto name s =
     [(stats_combine name ''duration.min'', millis (f64_of_int (sint (gsMin s)))),
      (stats_combine name ''duration.max'', millis (f64_of_int (sint (gsMax s)))),
      (stats_combine name ''duration.mean'', millis (gsMean s)),
      (stats_combine name ''duration.median'', millis (gsMedian s)),
      (stats_combine name ''duration.p75'', millis (gsP75 s)),
      (stats_combine name ''duration.p95'', millis (gsP95 s)),
      (stats_combine name ''duration.p99'', millis (gsP99 s)),
      (stats_combine name ''duration.p999'', millis (gsP999 s))]"

definition addRate :: "string \<Rightarrow> gm_snapshot \<Rightarrow> (string \<times> f64) list" where
  "addRate name s =
     [(stats_combine name ''rate.count'', f64_of_int (sint (gsCount s))),
      (stats_combine name ''rate.m1'', gsRate1 s),
      (stats_combine name ''rate.mean'', gsRateMean s)]"

fun registry_values :: "string \<Rightarrow> gm_metric \<Rightarrow> (string \<times> f64) list" where
  "registry_values name (GCounter n) = [(name, f64_of_int (sint n))]"
| "registry_values name (GGauge n) = [(name, f64_of_int (sint n))]"
| "registry_values name (GGaugeFloat v) = [(name, v)]"
| "registry_values name (GTimer s) = addHisto name s @ addRate name s"
| "registry_values name (GHistogram s) = addHisto name s"
| "registry_values name (GMeter s) = addRate name s"
| "registry_values name GOther = []"

text \<open>A scrape sets the tags of the source anew, and keeps them. It yields the points, what the counters of filtered
  and of collected points grow by, and the source with its tags.\<close>

definition stats_tags :: "bool \<Rightarrow> string \<Rightarrow> string \<Rightarrow> string \<Rightarrow> tagmap \<Rightarrow> tagmap" where
  "stats_tags leading method version provider tags =
     AddK8sTags version provider
       (mput ''installation_method'' method (mput ''leading'' (if leading then ''true'' else ''false'') tags))"

definition internalStats ::
  "bool \<Rightarrow> string \<Rightarrow> string \<Rightarrow> string \<Rightarrow> int64 \<Rightarrow> (string \<times> gm_metric) list \<Rightarrow> internalMetricsSource \<Rightarrow>
   (metric list \<times> int64 \<times> int64 \<times> internalMetricsSource) option" where
  "internalStats leading method version provider now registry src =
     (let src = src\<lparr>imTags := stats_tags leading method version provider (imTags src)\<rparr>
      in case foldl (\<lambda>st e. foldl (stats_append src now) st (registry_values (fst e) (snd e))) (Some ([], 0)) registry of
           None \<Rightarrow> None
         | Some (points, filtered) \<Rightarrow> Some (points, filtered, of_nat (length points), src))"

section \<open>What is reported of what was registered\<close>

text \<open>A metric as it was registered: its name, its tags and its value.\<close>

type_synonym registered = "string \<times> tagmap \<times> gm_metric"

definition entry_of :: "registered \<Rightarrow> string \<times> gm_metric" where
  "entry_of r = (EncodeKey (fst r) (fst (snd r)), snd (snd r))"

fun single_valued :: "gm_metric \<Rightarrow> bool" where
  "single_valued (GTimer s) = False"
| "single_valued (GHistogram s) = False"
| "single_valued (GMeter s) = False"
| "single_valued m = True"

text \<open>The point for one value, with the name as it was registered, and whether it is left out.\<close>

definition reported_point :: "internalMetricsSource \<Rightarrow> int64 \<Rightarrow> tagmap \<Rightarrow> string \<times> f64 \<Rightarrow> metric list" where
  "reported_point src now tags nv =
     (if snd nv = Fin 0 \<and> list_ex (HasSuffix (fst nv)) (zeroFilters src) then []
      else [MPoint (NewPoint (imPrefix src @ ''collector.'' @ ReplaceChar (CHR ''_'') ''.'' (fst nv)) (snd nv) now (imSource src)
             (stats_buildTags src (sorted_tags tags)))])"

definition reported :: "internalMetricsSource \<Rightarrow> int64 \<Rightarrow> registered \<Rightarrow> metric list" where
  "reported src now r = concat (map (reported_point src now (fst (snd r))) (registry_values (fst r) (snd (snd r))))"

lemma mget_stats_buildTags:
  assumes "wf_map (imTags src)"
  shows "mget (stats_buildTags src tags) k =
    (case mget tags k of
       Some v \<Rightarrow> Some v
     | None \<Rightarrow> (case mget (imTags src) k of Some v \<Rightarrow> if v = [] then None else Some v | None \<Rightarrow> None))"
proof -
  have "wf_map ts \<Longrightarrow> mget (foldl (\<lambda>tags e. if 0 < length (snd e) \<and> \<not> mhas tags (fst e) then mput (fst e) (snd e) tags else tags) tags ts) k =
      (case mget tags k of Some v \<Rightarrow> Some v
       | None \<Rightarrow> (case mget ts k of Some v \<Rightarrow> if v = [] then None else Some v | None \<Rightarrow> None))" for ts
  proof (induction ts arbitrary: tags)
    case (Cons e ts)
    then have "wf_map ts" "mget ts (fst e) = None" by (auto simp: wf_map_def mget_None_iff)
    then show ?case unfolding foldl.simps Cons.IH [OF \<open>wf_map ts\<close>] by (auto simp: mget_Cons mhas_def split: option.split)
  qed (simp split: option.split)
  then show ?thesis using assms by (simp add: stats_buildTags_def)
qed

lemma registry_values_decode:
  assumes "wf_map tags" and "single_valued m \<or> tags = []"
  shows "list_all2 (\<lambda>kv nv. snd kv = snd nv \<and> DecodeKey (fst kv) = Some (fst nv, sorted_tags tags))
    (registry_values (EncodeKey name tags) m) (registry_values name m)"
proof -
  have suffix: "DecodeKey (stats_combine (EncodeKey name []) s) = Some (stats_combine name s, sorted_tags [])"
    if "list_all (\<lambda>c. c \<noteq> CHR ''%'' \<and> c \<noteq> CHR ''+'' \<and> c \<noteq> CHR ''['') s" for s
    using DecodeKey_suffix [of "''.'' @ s" name] that by (simp add: stats_combine_def sorted_tags_def mkeys_def)
  show ?thesis
    using assms by (cases m) (auto simp: DecodeKey_EncodeKey_sorted addHisto_def addRate_def suffix)
qed

lemma FilterAppend_None [simp]: "FilterAppend fi filtered points None = (points, filtered)"
  by (cases fi) (simp_all add: FilterAppend_def Filter_def Let_def)

lemma stats_append_reported:
  assumes "snd kv = snd nv" and "DecodeKey (fst kv) = Some (fst nv, sorted_tags tags)"
  shows "stats_append src now (Some (points, filtered)) kv =
    Some (points @ passed (imFilters src) (reported_point src now tags nv),
      filtered + of_nat (length (reported_point src now tags nv) - length (passed (imFilters src) (reported_point src now tags nv))))"
proof (cases "snd nv = Fin 0 \<and> list_ex (HasSuffix (fst nv)) (zeroFilters src)")
  case True
  then show ?thesis
    using assms by (simp add: stats_append_def stats_point_def reported_point_def filterName_def feq_def)
next
  case False
  then have "\<not> (feq (snd nv) (Fin 0) \<and> filterName src (fst nv))" by (auto simp: feq_def filterName_def)
  then show ?thesis
    using assms False unfolding reported_point_def if_not_P [OF False]
    by (simp only: stats_append_def stats_point_def option.case prod.case if_False FilterAppend_passed)
qed

lemma fold_stats_append:
  assumes "list_all2 (\<lambda>kv nv. snd kv = snd nv \<and> DecodeKey (fst kv) = Some (fst nv, sorted_tags tags)) kvs nvs"
  shows "foldl (stats_append src now) (Some st) kvs =
    Some (let ms = concat (map (reported_point src now tags) nvs); ps = passed (imFilters src) ms
          in (fst st @ ps, snd st + of_nat (length ms - length ps)))"
  using assms
proof (induction kvs nvs arbitrary: st rule: list_all2_induct)
  case (Cons kv kvs nv nvs)
  have "foldl (stats_append src now) (Some st) (kv # kvs) = foldl (stats_append src now) (stats_append src now (Some (fst st, snd st)) kv) kvs"
    by simp
  also have "stats_append src now (Some (fst st, snd st)) kv =
      Some (fst st @ passed (imFilters src) (reported_point src now tags nv), snd st +
        of_nat (length (reported_point src now tags nv) - length (passed (imFilters src) (reported_point src now tags nv))))"
    using Cons.hyps by (intro stats_append_reported) auto
  finally show ?case
    by (simp only: Cons.IH Let_def fst_conv snd_conv list.map concat.simps passed_simps append_assoc length_passed_split of_nat_add add.assoc)
qed simp

lemma internalStats_entries:
  assumes "list_all (\<lambda>r. wf_map (fst (snd r)) \<and> (single_valued (snd (snd r)) \<or> fst (snd r) = [])) rs"
  shows "foldl (\<lambda>st e. foldl (stats_append src now) st (registry_values (fst e) (snd e))) (Some st) (map entry_of rs) =
    Some (let ms = concat (map (reported src now) rs); ps = passed (imFilters src) ms
          in (fst st @ ps, snd st + of_nat (length ms - length ps)))"
  using assms
proof (induction rs arbitrary: st)
  case (Cons r rs)
  then have decode: "list_all2 (\<lambda>kv nv. snd kv = snd nv \<and> DecodeKey (fst kv) = Some (fst nv, sorted_tags (fst (snd r))))
    (registry_values (fst (entry_of r)) (snd (entry_of r))) (registry_values (fst r) (snd (snd r)))"
    by (auto simp: entry_of_def intro!: registry_values_decode)
  from Cons.prems have rest: "list_all (\<lambda>r. wf_map (fst (snd r)) \<and> (single_valued (snd (snd r)) \<or> fst (snd r) = [])) rs" by simp
  show ?case
    unfolding list.map foldl.simps fold_stats_append [OF decode] Let_def Cons.IH [OF rest]
    by (simp only: fst_conv snd_conv list.map concat.simps passed_simps append_assoc length_passed_split of_nat_add add.assoc reported_def)
qed simp

text \<open>The collector reports about itself what was registered. When the registry holds the keys of names with
  tags (times and rates under names without tags), a scrape does not fail; it offers to the filter, in the order of
  the registry, one point for a counter or gauge, eight for times and three for rates, each under the name it was
  registered with, but for counters of the kinds that are left out while they are zero; what the filter does not let
  through is counted. The tags of a point are those registered, and then those of the source that have a value.\<close>
theorem stats_reports_registered:
  assumes "list_all (\<lambda>r. wf_map (fst (snd r)) \<and> (single_valued (snd (snd r)) \<or> fst (snd r) = [])) rs"
    and "wf_map (imTags src)"
  shows "let src' = src\<lparr>imTags := stats_tags leading method version provider (imTags src)\<rparr>;
             offers = concat (map (reported src' now) rs); points = passed (imFilters src) offers
         in internalStats leading method version provider now (map entry_of rs) src =
              Some (points, of_nat (length offers - length points), of_nat (length points), src') \<and>
            (\<forall>tags k. mget (stats_buildTags src' (sorted_tags tags)) k =
              (case mget tags k of Some v \<Rightarrow> Some v
               | None \<Rightarrow> (case mget (imTags src') k of Some v \<Rightarrow> if v = [] then None else Some v | None \<Rightarrow> None)))"
proof -
  let ?src = "src\<lparr>imTags := stats_tags leading method version provider (imTags src)\<rparr>"
  have wf: "wf_map (imTags ?src)" using assms(2) by (simp add: stats_tags_def AddK8sTags_def Let_def)
  have "internalStats leading method version provider now (map entry_of rs) src =
      Some (passed (imFilters src) (concat (map (reported ?src now) rs)),
        of_nat (length (concat (map (reported ?src now) rs)) - length (passed (imFilters src) (concat (map (reported ?src now) rs)))),
        of_nat (length (passed (imFilters src) (concat (map (reported ?src now) rs)))), ?src)"
    unfolding internalStats_def Let_def internalStats_entries [OF assms(1)] by simp
  then show ?thesis using mget_stats_buildTags [OF wf] by (simp add: Let_def)
qed

definition sample_stats :: internalMetricsSource where
  "sample_stats = newInternalMetricsSource ''n1'' ''k.'' [(''env'', ''x'')] None"

lemma stats_reports_registered_witness:
  "let src' = sample_stats\<lparr>imTags := stats_tags True ''manual'' ''v1'' '''' (imTags sample_stats)\<rparr>;
       rs = [(''a_b'', [(''type'', ''t'')], GCounter 2), (''points.filtered'', [], GCounter 0)];
       offers = concat (map (reported src' 7) rs); points = passed None offers
   in internalStats True ''manual'' ''v1'' '''' 7 (map entry_of rs) sample_stats =
        Some (points, of_nat (length offers - length points), of_nat (length points), src') \<and>
      length points = 1"
proof -
  let ?rs = "[(''a_b'', [(''type'', ''t'')], GCounter 2), (''points.filtered'', [], GCounter 0)]"
  have "list_all (\<lambda>r. wf_map (fst (snd r)) \<and> (single_valued (snd (snd r)) \<or> fst (snd r) = [])) ?rs" "wf_map (imTags sample_stats)"
    by (simp_all add: wf_map_def sample_stats_def newInternalMetricsSource_def)
  from stats_reports_registered [OF this, of True "''manual''" "''v1''" "''''" 7] show ?thesis
    by (simp add: Let_def sample_stats_def newInternalMetricsSource_def reported_def reported_point_def HasSuffix_def f64_of_int_def)
qed

end
