(* ===== verification/Telegraf_Source.thy ===== *)
theory Telegraf_Source
  imports Metric_Keys Discovery Wf_Points
begin

text \<open>
  The source that runs a telegraf plugin (\<open>collector/plugins/sources/telegraf\<close>: accumulator.go, provider.go, system.go).
  A plugin is what it does to the accumulator: a list of calls, and the error it returns. The fields and tags of
  a call are maps; an argument that is no number, string or truth value is an error that is logged. The providers
  and their construction are in the theory of the discoverer.
\<close>

section \<open>The accumulator (accumulator.go)\<close>

text \<open>The value of a field: \<open>FvOther\<close> has a type that does not convert to a float; of a pointer one is followed.\<close>

datatype field_value =
    FvString string
  | FvBool bool
  | FvInt int64
  | FvUint int64
  | FvFloat f64
  | FvNil
  | FvOther string
  | FvPtr "field_value option"

record telegrafPluginSource =
  tpName :: string
  tpSource :: string
  tpPrefix :: string
  tpTags :: tagmap
  tpFilters :: "globFilter option"
  tpAutoDiscovered :: bool
  tpTargetTags :: tagmap

text \<open>\<open>None\<close> is a panic: the type of what a nil pointer points to is asked for.\<close>

fun convertible :: "field_value \<Rightarrow> f64 option" where
  "convertible (FvInt n) = Some (f64_of_int (sint n))"
| "convertible (FvUint n) = Some (f64_of_int (uint n))"
| "convertible (FvFloat v) = Some v"
| "convertible v = None"

definition getFloat :: "field_value \<Rightarrow> (string + f64) option" where
  "getFloat unk =
     (case unk of
        FvNil \<Rightarrow> Some (Inl ''cannot convert nil value to float64'')
      | FvPtr None \<Rightarrow> None
      | FvPtr (Some v) \<Rightarrow> Some (case convertible v of Some x \<Rightarrow> Inr x | None \<Rightarrow> Inl ''cannot convert to float64'')
      | v \<Rightarrow> Some (case convertible v of Some x \<Rightarrow> Inr x | None \<Rightarrow> Inl ''cannot convert to float64''))"

text \<open>The value a field gives, \<open>Inl\<close> when it is left out.\<close>

definition field_float :: "field_value \<Rightarrow> (string + f64) option" where
  "field_float v =
     (case v of
        FvString s \<Rightarrow> Some (Inl '''')
      | FvBool p \<Rightarrow> Some (Inr (if p then Fin 1 else Fin 0))
      | v \<Rightarrow> getFloat v)"

definition tele_buildTags :: "telegrafPluginSource \<Rightarrow> tagmap \<Rightarrow> tagmap" where
  "tele_buildTags src pointTags =
     (let put = (\<lambda>out e. if 0 < length (snd e) then mput (fst e) (snd e) out else out)
      in foldl put (foldl put [] (tpTags src)) pointTags)"

definition tele_metricName :: "telegrafPluginSource \<Rightarrow> string \<Rightarrow> string \<Rightarrow> string" where
  "tele_metricName src measurement metric =
     (let metricName = ReplaceChar (CHR ''_'') ''.'' (measurement @ ''.'' @ metric)
      in if 0 < length (tpPrefix src) then tpPrefix src @ ''.'' @ metricName else metricName)"

text \<open>Times are nanoseconds in 64 bits, and the division cuts towards zero.\<close>

definition unix_micros :: "gotime \<Rightarrow> int64" where
  "unix_micros t = word_of_int (sint (word_of_int t :: int64) sdiv 1000)"

definition tele_point :: "telegrafPluginSource \<Rightarrow> string \<Rightarrow> tagmap \<Rightarrow> gotime \<Rightarrow> string \<Rightarrow> f64 \<Rightarrow> metric" where
  "tele_point src measurement tags ts metric v =
     MPoint (NewPoint (tele_metricName src measurement metric) v (unix_micros ts) (tpSource src) (tele_buildTags src tags))"

type_synonym tele_batch = "metric list \<times> int64"

definition preparePoints ::
  "telegrafPluginSource \<Rightarrow> string \<Rightarrow> (string, field_value) gomap \<Rightarrow> tagmap \<Rightarrow> gotime \<Rightarrow> tele_batch \<Rightarrow> tele_batch option" where
  "preparePoints src measurement flds tags ts st =
     foldl (\<lambda>st e. case (st, field_float (snd e)) of
         (Some st, Some (Inr v)) \<Rightarrow> Some (FilterAppend (tpFilters src) (snd st) (fst st) (Some (tele_point src measurement tags ts (fst e) v)))
       | (Some st, Some (Inl err)) \<Rightarrow> Some st
       | _ \<Rightarrow> None) (Some st) flds"

text \<open>What a plugin may call. A time that is not given is the time of the call.\<close>

datatype acc_call =
    AddFields string "(string, field_value) gomap" tagmap "gotime option"
  | AddGauge string "(string, field_value) gomap" tagmap "gotime option"
  | AddCounter string "(string, field_value) gomap" tagmap "gotime option"
  | AddError "string option"
  | AddSummary
  | AddHistogram
  | AddMetric
  | SetPrecision
  | WithTracking

section \<open>The source (provider.go)\<close>

text \<open>The counters of a source; those of the target exist for a source that was discovered.\<close>

record tele_counters =
  tcCollected :: int64
  tcFiltered :: int64
  tcErrors :: int64
  tcTargetPPS :: "int64 option"
  tcTargetEPS :: "int64 option"

definition tele_count_error :: "tele_counters \<Rightarrow> tele_counters" where
  "tele_count_error n = n\<lparr>tcErrors := tcErrors n + 1, tcTargetEPS := map_option (\<lambda>e. e + 1) (tcTargetEPS n)\<rparr>"

type_synonym tele_state = "metric list \<times> tele_counters"

definition add_points ::
  "telegrafPluginSource \<Rightarrow> string \<Rightarrow> (string, field_value) gomap \<Rightarrow> tagmap \<Rightarrow> gotime \<Rightarrow> tele_state \<Rightarrow> tele_state option" where
  "add_points src measurement flds tags ts st =
     map_option (\<lambda>r. (fst r, (snd st)\<lparr>tcFiltered := snd r\<rparr>))
       (preparePoints src measurement flds tags ts (fst st, tcFiltered (snd st)))"

text \<open>A call on the accumulator at a time; \<open>None\<close>: the process ends (\<open>log.Fatal\<close>) or panics.\<close>

fun acc_step :: "telegrafPluginSource \<Rightarrow> gotime \<Rightarrow> acc_call \<Rightarrow> tele_state \<Rightarrow> tele_state option" where
  "acc_step src now (AddFields m flds tags ts) st = add_points src m flds tags (case ts of Some t \<Rightarrow> t | None \<Rightarrow> now) st"
| "acc_step src now (AddGauge m flds tags ts) st = add_points src m flds tags (case ts of Some t \<Rightarrow> t | None \<Rightarrow> now) st"
| "acc_step src now (AddCounter m flds tags ts) st = add_points src m flds tags (case ts of Some t \<Rightarrow> t | None \<Rightarrow> now) st"
| "acc_step src now (AddError err) st =
     Some (case err of None \<Rightarrow> st | Some e \<Rightarrow> (fst st, tele_count_error (snd st)))"
| "acc_step src now call st = None"

fun acc_run :: "telegrafPluginSource \<Rightarrow> (gotime \<times> acc_call) list \<Rightarrow> tele_state \<Rightarrow> tele_state option" where
  "acc_run src [] st = Some st"
| "acc_run src (c # cs) st = (case acc_step src (fst c) (snd c) st of None \<Rightarrow> None | Some st \<Rightarrow> acc_run src cs st)"

text \<open>A scrape: the plugin makes its calls and returns, with an error or without; the error is counted and not returned.\<close>

definition tele_Scrape ::
  "telegrafPluginSource \<Rightarrow> (gotime \<times> acc_call) list \<Rightarrow> string option \<Rightarrow> tele_counters \<Rightarrow> (metric list \<times> tele_counters) option" where
  "tele_Scrape src calls err n =
     (case acc_run src calls ([], n) of
        None \<Rightarrow> None
      | Some (points, n) \<Rightarrow>
          let n = (if err \<noteq> None then tele_count_error n else n);
              count = of_nat (length points)
          in Some (points, n\<lparr>tcCollected := tcCollected n + count,
                            tcTargetPPS := map_option (\<lambda>p. p + count) (tcTargetPPS n)\<rparr>))"

definition tele_extractTags :: "tagmap \<Rightarrow> string \<Rightarrow> string \<Rightarrow> tagmap" where
  "tele_extractTags tags name discovered =
     (let result = foldl (\<lambda>r e. if fst e \<in> {''pod'', ''service'', ''namespace'', ''node''} then mput (fst e) (snd e) r else r) [] tags;
          result = mput ''discovered'' (if discovered \<noteq> '''' then discovered else ''static'') result
      in mput ''type'' name result)"

text \<open>The registry is the list of the keys that are registered.\<close>

definition tele_pluginKeys :: "string \<Rightarrow> string list" where
  "tele_pluginKeys ptype =
     map (\<lambda>s. EncodeKey s [(''type'', ptype)])
       [''source.points.collected'', ''source.points.filtered'', ''source.collect.errors'']"

definition newTelegrafPluginSource ::
  "string \<Rightarrow> string \<Rightarrow> string \<Rightarrow> tagmap \<Rightarrow> globFilter option \<Rightarrow> string \<Rightarrow> string list \<Rightarrow> telegrafPluginSource \<times> string list" where
  "newTelegrafPluginSource nodeName name pfx tags filters discovered registry =
     (let ptype = tele_pluginType name @ ''.'' @ name;
          registry = foldl (\<lambda>r k. List.insert k r) registry (tele_pluginKeys ptype);
          targetTags = (if discovered \<noteq> '''' then tele_extractTags tags ptype discovered else []);
          registry = (if discovered \<noteq> ''''
                      then List.insert (EncodeKey ''target.collect.errors'' targetTags)
                             (List.insert (EncodeKey ''target.points.collected'' targetTags) registry)
                      else registry)
      in (\<lparr>tpName = name @ ''_plugin'', tpSource = nodeName, tpPrefix = pfx, tpTags = tags, tpFilters = filters,
           tpAutoDiscovered = 0 < length discovered, tpTargetTags = targetTags\<rparr>, registry))"

definition tele_Cleanup :: "telegrafPluginSource \<Rightarrow> string list \<Rightarrow> string list" where
  "tele_Cleanup src registry =
     removeAll (EncodeKey ''target.collect.errors'' (tpTargetTags src))
       (removeAll (EncodeKey ''target.collect.errors'' (tpTargetTags src)) registry)"

definition tele_Name :: "telegrafPluginSource \<Rightarrow> string" where
  "tele_Name src = ''telegraf_'' @ tpName src @ ''_source''"

definition tele_GetMetricsSources :: "bool \<Rightarrow> bool \<Rightarrow> source list \<Rightarrow> source list" where
  "tele_GetMetricsSources useLeaderElection leading sources = (if useLeaderElection \<and> \<not> leading then [] else sources)"

section \<open>The load and the uptime of the system (system.go)\<close>

record load_avg =
  Load1 :: f64
  Load5 :: f64
  Load15 :: f64

definition pad2 :: "char \<Rightarrow> int64 \<Rightarrow> string" where
  "pad2 fill n = (let s = show_nat (unat n) in replicate (2 - length s) fill @ s)"

definition formatUptime :: "int64 \<Rightarrow> string" where
  "formatUptime uptime =
     (let days = uptime div (60 * 60 * 24);
          head = (if days \<noteq> 0 then show_nat (unat days) @ '' day'' @ (if 1 < days then ''s'' else '''') @ '', '' else '''');
          minutes = uptime div 60;
          hours = minutes div 60;
          hours = hours mod 24;
          minutes = minutes mod 60
      in head @ pad2 (CHR '' '') hours @ '':'' @ pad2 (CHR ''0'') minutes)"

text \<open>The calls the plugin makes and the error it returns; \<open>None\<close> is a panic: an error that says ''not implemented'' is
  passed over, and the missing result is read. The fields of the first call are a map of four entries.\<close>

definition system_Gather ::
  "string + load_avg \<Rightarrow> int64 \<Rightarrow> gotime \<Rightarrow> string + int64 \<Rightarrow> ((gotime \<times> acc_call) list \<times> string option) option" where
  "system_Gather avg numCPU now up =
     (case avg of
        Inl err \<Rightarrow> if \<not> Contains err ''not implemented'' then Some ([], Some err) else None
      | Inr l \<Rightarrow>
          let gauge = (now, AddGauge ''system'' [(''load1'', FvFloat (Load1 l)), (''load5'', FvFloat (Load5 l)),
                  (''load15'', FvFloat (Load15 l)), (''n_cpus'', FvInt numCPU)] [] (Some now))
          in case up of
               Inl err \<Rightarrow> Some ([gauge], Some err)
             | Inr uptime \<Rightarrow>
                 Some ([gauge, (now, AddCounter ''system'' [(''uptime'', FvUint uptime)] [] (Some now)),
                        (now, AddFields ''system'' [(''uptime_format'', FvString (formatUptime uptime))] [] (Some now))], None))"

section \<open>What a scrape does\<close>

definition field_points :: "telegrafPluginSource \<Rightarrow> string \<Rightarrow> tagmap \<Rightarrow> gotime \<Rightarrow> (string, field_value) gomap \<Rightarrow> metric list" where
  "field_points src m tags ts flds =
     concat (map (\<lambda>e. case field_float (snd e) of Some (Inr v) \<Rightarrow> [tele_point src m tags ts (fst e) v] | _ \<Rightarrow> []) flds)"

definition panics_on :: "(string, field_value) gomap \<Rightarrow> bool" where
  "panics_on flds = list_ex (\<lambda>e. field_float (snd e) = None) flds"

fun call_points :: "telegrafPluginSource \<Rightarrow> gotime \<times> acc_call \<Rightarrow> metric list" where
  "call_points src (now, AddFields m flds tags ts) = field_points src m tags (case ts of Some t \<Rightarrow> t | None \<Rightarrow> now) flds"
| "call_points src (now, AddGauge m flds tags ts) = field_points src m tags (case ts of Some t \<Rightarrow> t | None \<Rightarrow> now) flds"
| "call_points src (now, AddCounter m flds tags ts) = field_points src m tags (case ts of Some t \<Rightarrow> t | None \<Rightarrow> now) flds"
| "call_points src c = []"

fun call_fatal :: "acc_call \<Rightarrow> bool" where
  "call_fatal (AddFields m flds tags ts) = panics_on flds"
| "call_fatal (AddGauge m flds tags ts) = panics_on flds"
| "call_fatal (AddCounter m flds tags ts) = panics_on flds"
| "call_fatal (AddError e) = False"
| "call_fatal c = True"

definition call_errors :: "acc_call \<Rightarrow> nat" where
  "call_errors c = (case c of AddError (Some e) \<Rightarrow> 1 | _ \<Rightarrow> 0)"

definition offers_to :: "globFilter option \<Rightarrow> metric list \<Rightarrow> tele_batch \<Rightarrow> tele_batch" where
  "offers_to fi ms st = (fst st @ passed fi ms, snd st + of_nat (length ms - length (passed fi ms)))"

lemma offers_to_Nil [simp]: "offers_to fi [] st = st"
  by (simp add: offers_to_def)

lemma offers_to_append: "offers_to fi ys (offers_to fi xs st) = offers_to fi (xs @ ys) st"
  by (simp only: offers_to_def fst_conv snd_conv passed_simps append_assoc length_passed_split of_nat_add add.assoc)

lemma preparePoints_offers:
  "preparePoints src m flds tags ts st =
     (if panics_on flds then None else Some (offers_to (tpFilters src) (field_points src m tags ts flds) st))"
proof -
  define step where "step = (\<lambda>st e. case (st, field_float (snd e)) of
      (Some st, Some (Inr v)) \<Rightarrow> Some (FilterAppend (tpFilters src) (snd st) (fst st) (Some (tele_point src m tags ts (fst e) v)))
    | (Some st, Some (Inl err)) \<Rightarrow> Some st | _ \<Rightarrow> None)"
  have none: "foldl step None flds = None" for flds by (induction flds) (simp_all add: step_def)
  have some: "step (Some st) e = (case field_float (snd e) of None \<Rightarrow> None
      | Some (Inl err) \<Rightarrow> Some st
      | Some (Inr v) \<Rightarrow> Some (offers_to (tpFilters src) [tele_point src m tags ts (fst e) v] st))" for st e
    by (simp add: step_def FilterAppend_passed offers_to_def split: option.split sum.split)
  have "foldl step (Some st) flds =
      (if panics_on flds then None else Some (offers_to (tpFilters src) (field_points src m tags ts flds) st))" for st
    by (induction flds arbitrary: st)
      (auto simp: none some panics_on_def field_points_def offers_to_append split: option.split sum.split)
  then show ?thesis by (simp add: preparePoints_def step_def)
qed

definition after_calls :: "telegrafPluginSource \<Rightarrow> (gotime \<times> acc_call) list \<Rightarrow> tele_state \<Rightarrow> tele_state" where
  "after_calls src cs st =
     (let ms = concat (map (call_points src) cs); e = of_nat (sum_list (map (call_errors \<circ> snd) cs)); n = snd st;
          r = offers_to (tpFilters src) ms (fst st, tcFiltered n)
      in (fst r, n\<lparr>tcFiltered := snd r, tcErrors := tcErrors n + e, tcTargetEPS := map_option (\<lambda>x. x + e) (tcTargetEPS n)\<rparr>))"

lemma after_calls_Nil: "after_calls src [] st = st"
  by (simp add: after_calls_def Let_def option.map_ident)

lemma after_calls_append: "after_calls src bs (after_calls src as st) = after_calls src (as @ bs) st"
  by (simp add: after_calls_def Let_def offers_to_append option.map_comp comp_def add.assoc)

lemma acc_step_after:
  "acc_step src (fst c) (snd c) st = (if call_fatal (snd c) then None else Some (after_calls src [c] st))"
  by (cases c; cases "snd c")
    (auto simp: add_points_def preparePoints_offers after_calls_def call_errors_def tele_count_error_def Let_def
      option.map_ident split: option.split)

lemma acc_run_after:
  "acc_run src cs st = (if list_ex (call_fatal \<circ> snd) cs then None else Some (after_calls src cs st))"
proof (induction cs arbitrary: st)
  case (Cons c cs)
  show ?case by (simp add: acc_step_after Cons.IH after_calls_append)
qed (simp add: after_calls_Nil)

text \<open>A scrape of a telegraf plugin. A call that the accumulator does not support ends the process, as does a nil
  pointer among the fields; otherwise, whatever the plugin returns, the scrape yields its points and no error: of
  every call one point for each field that is a number or a truth value, under the name of the measurement, in
  order, as far as the filter lets them through. Errors the plugin reports and the one it returns are counted, for
  the plugin and for the target alike, and no point or error is counted twice.\<close>
theorem tele_Scrape_outcome:
  "tele_Scrape src calls err n =
     (if list_ex (call_fatal \<circ> snd) calls then None
      else let offers = concat (map (call_points src) calls); points = passed (tpFilters src) offers;
               count = of_nat (length points);
               errors = of_nat (sum_list (map (call_errors \<circ> snd) calls)) + (if err = None then 0 else 1)
           in Some (points, n\<lparr>tcCollected := tcCollected n + count,
                              tcFiltered := tcFiltered n + of_nat (length offers - length points),
                              tcErrors := tcErrors n + errors,
                              tcTargetPPS := map_option (\<lambda>p. p + count) (tcTargetPPS n),
                              tcTargetEPS := map_option (\<lambda>e. e + errors) (tcTargetEPS n)\<rparr>))"
  by (simp add: tele_Scrape_def acc_run_after after_calls_def offers_to_def tele_count_error_def Let_def
      option.map_comp comp_def add.assoc)

section \<open>Counters of targets\<close>

lemma EncodeKey_inject: "wf_map s \<Longrightarrow> wf_map t \<Longrightarrow> EncodeKey a s = EncodeKey b t \<Longrightarrow> a = b \<and> same_map s t"
  by (metis DecodeKey_EncodeKey_sorted mget_sorted_tags option.inject prod.inject same_map_def)

lemma wf_tele_extractTags: "wf_map (tele_extractTags tags name discovered)"
proof -
  have "wf_map r \<Longrightarrow> wf_map (foldl (\<lambda>r e. if fst e \<in> {''pod'', ''service'', ''namespace'', ''node''} then mput (fst e) (snd e) r else r) r ts)"
    for r :: tagmap and ts
    by (induction ts arbitrary: r) simp_all
  then show ?thesis by (simp add: tele_extractTags_def Let_def)
qed

text \<open>Cleaning up removes one of the two counters of a target, twice, and leaves the other one registered.\<close>

lemma tele_Cleanup_leaks:
  assumes "discovered \<noteq> ''''"
  shows "case newTelegrafPluginSource node name pfx tags filters discovered registry of (src, r) \<Rightarrow>
    EncodeKey ''target.points.collected'' (tpTargetTags src) \<in> set (tele_Cleanup src r) \<and>
    EncodeKey ''target.collect.errors'' (tpTargetTags src) \<notin> set (tele_Cleanup src r)"
proof -
  have "EncodeKey ''target.points.collected'' t \<noteq> EncodeKey ''target.collect.errors'' t" if "wf_map t" for t
    using EncodeKey_inject [OF that that, of "''target.points.collected''" "''target.collect.errors''"] by auto
  with wf_tele_extractTags assms show ?thesis
    by (simp add: newTelegrafPluginSource_def tele_Cleanup_def Let_def)
qed

section \<open>The uptime\<close>

text \<open>The printed uptime are its days, hours and minutes: nothing wraps around.\<close>

lemma formatUptime_parts:
  "formatUptime uptime =
     (let n = unat uptime; d = n div 86400
      in (if d = 0 then '''' else show_nat d @ '' day'' @ (if d = 1 then '''' else ''s'') @ '', '') @
         (let s = show_nat (n div 3600 mod 24) in replicate (2 - length s) (CHR '' '') @ s) @ '':'' @
         (let s = show_nat (n div 60 mod 60) in replicate (2 - length s) (CHR ''0'') @ s))"
proof -
  have d: "unat (uptime div (60 * 60 * 24)) = unat uptime div 86400" by (simp add: unat_div)
  have h: "unat (uptime div 60 div 60 mod 24) = unat uptime div 3600 mod 24"
    by (simp add: unat_div unat_mod div_mult2_eq [symmetric])
  have m: "unat (uptime div 60 mod 60) = unat uptime div 60 mod 60" by (simp add: unat_div unat_mod)
  have zero: "uptime div (60 * 60 * 24) \<noteq> 0 \<longleftrightarrow> unat uptime div 86400 \<noteq> 0"
    by (simp only: d [symmetric] unat_eq_zero)
  have one: "1 < uptime div (60 * 60 * 24) \<longleftrightarrow> 1 < unat uptime div 86400"
    by (simp only: word_less_nat_alt d unat_1)
  show ?thesis
    unfolding formatUptime_def Let_def pad2_def d h m zero one by simp
qed

end
