(* ===== verification/Cadvisor.thy ===== *)
theory Cadvisor
  imports Prometheus Kube
begin

text \<open>
  The metrics of cAdvisor (\<open>collector/plugins/sources/cadvisor\<close>: generate_urls.go, provider.go,
  transform_permission_error.go; \<open>collector/internal/metrics/error_decorator.go\<close>): which kubelets an instance asks,
  and the Prometheus sources it asks with, whose errors are rewritten. The lister, the URL of a kubelet, the
  HTTP client and the parser of addresses are parameters; what a pod is granted by the API server is a
  \<open>restConfig\<close>.
\<close>

section \<open>Which kubelets (generate_urls.go)\<close>

definition cAdvisorEndpoint :: string where "cAdvisorEndpoint = ''/metrics/cadvisor''"

fun generate_urls ::
  "(string \<Rightarrow> bool) \<Rightarrow> string \<Rightarrow> bool \<Rightarrow> (string \<Rightarrow> string \<Rightarrow> string) \<Rightarrow> string list \<Rightarrow> Node list \<Rightarrow> string + string list" where
  "generate_urls parseIP myNode scrapeOwnNode kubeletURL urls [] = Inr urls"
| "generate_urls parseIP myNode scrapeOwnNode kubeletURL urls (node # nodes) =
     (case GetNodeHostnameAndIP parseIP node of
        Inl err \<Rightarrow> Inl err
      | Inr (host, ip) \<Rightarrow>
          let url = kubeletURL ip cAdvisorEndpoint
          in if scrapeOwnNode
             then (if omName (nodeMeta node) = myNode then Inr (urls @ [url])
                   else generate_urls parseIP myNode scrapeOwnNode kubeletURL urls nodes)
             else generate_urls parseIP myNode scrapeOwnNode kubeletURL (urls @ [url]) nodes)"

definition GenerateURLs ::
  "(string \<Rightarrow> bool) \<Rightarrow> string + Node list \<Rightarrow> string \<Rightarrow> bool \<Rightarrow> (string \<Rightarrow> string \<Rightarrow> string) \<Rightarrow> string + string list" where
  "GenerateURLs parseIP lister myNode scrapeOwnNode kubeletURL =
     (case lister of Inl err \<Rightarrow> Inl err | Inr nodes \<Rightarrow> generate_urls parseIP myNode scrapeOwnNode kubeletURL [] nodes)"

section \<open>Errors (transform_permission_error.go, error_decorator.go)\<close>

text \<open>An error of the Prometheus source: of a response with a status code, or another one.\<close>

datatype scrape_err = HTTPErr int string | OtherErr string

fun err_text :: "scrape_err \<Rightarrow> string" where
  "err_text (HTTPErr code s) = s"
| "err_text (OtherErr s) = s"

definition TransformPermissionError :: "scrape_err option \<Rightarrow> string option" where
  "TransformPermissionError e =
     (case e of
        Some (HTTPErr code msg) \<Rightarrow>
          if code = 401 \<or> code = 403
          then Some (''missing nodes/metrics permission in the collector's cluster role: '' @ msg) else Some msg
      | Some (OtherErr msg) \<Rightarrow> Some msg
      | None \<Rightarrow> None)"

text \<open>The error a scrape of a Prometheus source returned, with the status code when it came from a response.\<close>

definition scrape_error :: "response \<Rightarrow> string option \<Rightarrow> scrape_err option" where
  "scrape_error resp e =
     (case e of
        None \<Rightarrow> None
      | Some msg \<Rightarrow> Some (case resp of Response code status body \<Rightarrow> if code \<noteq> 200 then HTTPErr code msg else OtherErr msg
                         | TransportError err \<Rightarrow> OtherErr msg))"

definition decorated_Scrape ::
  "(scrape_err option \<Rightarrow> string option) \<Rightarrow> bool \<Rightarrow> (f64 \<Rightarrow> string) \<Rightarrow> (string \<Rightarrow> (string, prom_family) gomap \<times> string option) \<Rightarrow>
   (string \<Rightarrow> response) \<Rightarrow> gotime \<Rightarrow> (string \<Rightarrow> int64) \<Rightarrow> prometheusMetricsSource \<Rightarrow> prom_counters \<Rightarrow>
   (Batch option \<times> string option) \<times> prom_counters" where
  "decorated_Scrape errFunc experimental fmt parser get now clock src n =
     (case prom_Scrape experimental fmt parser get now clock src n of
        ((dataBatch, err), n) \<Rightarrow> ((dataBatch, errFunc (scrape_error (get (prMetricsURL src)) err)), n))"

section \<open>The provider (provider.go)\<close>

record restConfig =
  rcBearerTokenFile :: string
  rcBearerToken :: string
  rcTLS :: TLSConfig

definition generateHTTPCfg :: "restConfig \<Rightarrow> ClientConfig" where
  "generateHTTPCfg rc =
     \<lparr>BearerToken = rcBearerToken rc, BearerTokenFile = rcBearerTokenFile rc, ProxyURL = None, TLSConfigOf = rcTLS rc\<rparr>"

definition cadvisor_config :: "CadvisorSourceConfig \<Rightarrow> CadvisorSourceConfig" where
  "cadvisor_config cfg =
     cfg\<lparr>caTransforms := (caTransforms cfg)\<lparr>trTags := mput ''type'' ''pod_container'' (trTags (caTransforms cfg))\<rparr>\<rparr>"

definition generatePrometheusSource ::
  "glob_compile \<Rightarrow> (string \<Rightarrow> ClientConfig \<Rightarrow> string option) \<Rightarrow> (string \<Rightarrow> tagmap \<Rightarrow> string) \<Rightarrow> bool \<Rightarrow> CadvisorSourceConfig \<Rightarrow>
   string \<Rightarrow> restConfig \<Rightarrow> string + prometheusMetricsSource" where
  "generatePrometheusSource gc client encodeKey omit cfg promURL rc =
     NewPrometheusMetricsSource client encodeKey omit promURL (trPrefix (caTransforms cfg)) (trSource (caTransforms cfg)) ''''
       (trTags (caTransforms cfg)) (FromConfig gc (trFilters (caTransforms cfg))) False (generateHTTPCfg rc)"

fun generate_sources :: "('u \<Rightarrow> 'e + 'a) \<Rightarrow> 'a list \<Rightarrow> 'u list \<Rightarrow> 'a list" where
  "generate_sources gen sources [] = sources"
| "generate_sources gen sources (u # us) =
     (case gen u of Inl err \<Rightarrow> [] | Inr s \<Rightarrow> generate_sources gen (sources @ [s]) us)"

definition cadvisor_GetMetricsSources ::
  "AgentType \<Rightarrow> (string \<Rightarrow> bool) \<Rightarrow> string + Node list \<Rightarrow> string \<Rightarrow> (string \<Rightarrow> string \<Rightarrow> string) \<Rightarrow>
   (string \<Rightarrow> 'e + 'a) \<Rightarrow> 'a list" where
  "cadvisor_GetMetricsSources agent parseIP lister nodeName kubeletURL gen =
     (if \<not> ScrapeAnyNodes agent then []
      else case GenerateURLs parseIP lister nodeName (ScrapeOnlyOwnNode agent) kubeletURL of
             Inl err \<Rightarrow> []
           | Inr promURLs \<Rightarrow> generate_sources gen [] promURLs)"

section \<open>Whose metrics are scraped\<close>

definition usable :: "(string \<Rightarrow> bool) \<Rightarrow> Node \<Rightarrow> bool" where
  "usable parseIP node = (case GetNodeHostnameAndIP parseIP node of Inl _ \<Rightarrow> False | Inr _ \<Rightarrow> True)"

definition cadvisor_url :: "(string \<Rightarrow> bool) \<Rightarrow> (string \<Rightarrow> string \<Rightarrow> string) \<Rightarrow> Node \<Rightarrow> string" where
  "cadvisor_url parseIP kubeletURL node =
     (case GetNodeHostnameAndIP parseIP node of Inl _ \<Rightarrow> [] | Inr (host, ip) \<Rightarrow> kubeletURL ip cAdvisorEndpoint)"

lemma generate_urls_all:
  "case generate_urls parseIP myNode False kubeletURL urls nodes of
     Inl err \<Rightarrow> \<not> list_all (usable parseIP) nodes
   | Inr us \<Rightarrow> list_all (usable parseIP) nodes \<and> us = urls @ map (cadvisor_url parseIP kubeletURL) nodes"
  by (induction nodes arbitrary: urls)
    (force simp: usable_def cadvisor_url_def Let_def split: sum.splits)+

lemma generate_urls_own:
  "case generate_urls parseIP myNode True kubeletURL urls nodes of
     Inl err \<Rightarrow> \<exists>n. n < length nodes \<and> \<not> usable parseIP (nodes ! n) \<and> list_all (\<lambda>m. omName (nodeMeta m) \<noteq> myNode) (take n nodes)
   | Inr us \<Rightarrow> us = urls @ map (cadvisor_url parseIP kubeletURL) (take 1 (filter (\<lambda>m. omName (nodeMeta m) = myNode) nodes))"
proof (induction nodes)
  case (Cons m nodes)
  show ?case
  proof (cases "GetNodeHostnameAndIP parseIP m")
    case (Inl err)
    then show ?thesis by (auto simp: usable_def intro!: exI [of _ 0])
  next
    case (Inr r)
    then show ?thesis
      using Cons.IH by (cases r) (force simp: Let_def cadvisor_url_def split: sum.splits)
  qed
qed simp

text \<open>An instance of the collector scrapes the cAdvisor of the right nodes. An instance for the cluster scrapes none. When the
  nodes can be listed, are all ready and have an address, an instance for all nodes scrapes each of them once, in the
  order of the list, and an instance for its own node the first node of its name, if there is one. One node that is
  not ready or without an address leaves an instance for all nodes without any source; an instance for its own node,
  when it is listed before that one, or is it.\<close>
theorem cadvisor_urls:
  "GenerateURLs parseIP (Inl e) myNode own kubeletURL = Inl e \<and>
   (case GenerateURLs parseIP (Inr nodes) myNode False kubeletURL of
      Inl err \<Rightarrow> \<not> list_all (usable parseIP) nodes
    | Inr us \<Rightarrow> list_all (usable parseIP) nodes \<and> us = map (cadvisor_url parseIP kubeletURL) nodes) \<and>
   (case GenerateURLs parseIP (Inr nodes) myNode True kubeletURL of
      Inl err \<Rightarrow> \<exists>n. n < length nodes \<and> \<not> usable parseIP (nodes ! n) \<and> list_all (\<lambda>m. omName (nodeMeta m) \<noteq> myNode) (take n nodes)
    | Inr us \<Rightarrow> us = map (cadvisor_url parseIP kubeletURL) (take 1 (filter (\<lambda>m. omName (nodeMeta m) = myNode) nodes)))"
  using generate_urls_all [where parseIP = parseIP and myNode = myNode and kubeletURL = kubeletURL and urls = "[]" and nodes = nodes]
    generate_urls_own [where parseIP = parseIP and myNode = myNode and kubeletURL = kubeletURL and urls = "[]" and nodes = nodes]
  unfolding GenerateURLs_def sum.case append_Nil by blast

lemma generate_sources_all:
  "generate_sources gen sources us =
     (if list_all (\<lambda>u. case gen u of Inl _ \<Rightarrow> False | Inr _ \<Rightarrow> True) us
      then sources @ map (\<lambda>u. projr (gen u)) us else [])"
  by (induction us arbitrary: sources) (auto split: sum.split)

text \<open>The rewriting touches the errors of missing permissions only, and neither the points nor the counters.\<close>

lemma decorated_Scrape_outcome:
  "let r = prom_Scrape experimental fmt parser get now clock src n;
       d = decorated_Scrape TransformPermissionError experimental fmt parser get now clock src n
   in fst (fst d) = fst (fst r) \<and> snd d = snd r \<and>
      snd (fst d) = (case snd (fst r) of None \<Rightarrow> None | Some msg \<Rightarrow>
        Some (case get (prMetricsURL src) of
                Response code status body \<Rightarrow> if code = 401 \<or> code = 403
                  then ''missing nodes/metrics permission in the collector's cluster role: '' @ msg else msg
              | TransportError err \<Rightarrow> msg))"
  by (auto simp: decorated_Scrape_def TransformPermissionError_def scrape_error_def Let_def split: option.split response.split prod.split)

end
