(* ===== verification/Line_Grammars.thy ===== *)
theory Line_Grammars
  imports Prelude
begin

text \<open>
  The parsers that the generator peg makes of the two grammars of the test proxy
  (\<open>test-proxy/internal/testproxy\<close>: \<open>metricline/metric_grammar.peg\<close>, \<open>eventline/event_grammar.peg\<close> and the Go files
  generated from them): a rule reads a part of its input and collects the actions to be run when all of it has been
  read; where a choice fails, its actions are dropped. A line is UTF-8; a rule reads a rune at a time.
\<close>

section \<open>Rules\<close>

type_synonym 'a rule = "string \<Rightarrow> ('a list \<times> string) option"

definition sat :: "(char \<Rightarrow> bool) \<Rightarrow> 'a rule" where
  "sat P s = (case s of [] \<Rightarrow> None | c # r \<Rightarrow> if P c then Some ([], r) else None)"

definition lit :: "char \<Rightarrow> 'a rule" where
  "lit c = sat (\<lambda>x. x = c)"

text \<open>The length of the rune that starts with a byte.\<close>

definition rune_length :: "char \<Rightarrow> nat" where
  "rune_length c = (let n = (of_char c :: nat) in if n < 192 then 1 else if n < 224 then 2 else if n < 240 then 3 else 4)"

text \<open>A rune that is not the given ASCII character.\<close>

definition other_than :: "char \<Rightarrow> 'a rule" where
  "other_than c s = (case s of [] \<Rightarrow> None | x # r \<Rightarrow> if x = c then None else Some ([], drop (rune_length x) s))"

definition seq :: "'a rule \<Rightarrow> 'a rule \<Rightarrow> 'a rule" where
  "seq p q s = (case p s of None \<Rightarrow> None | Some (a, r) \<Rightarrow> (case q r of None \<Rightarrow> None | Some (b, t) \<Rightarrow> Some (a @ b, t)))"

definition alt :: "'a rule \<Rightarrow> 'a rule \<Rightarrow> 'a rule" where
  "alt p q s = (case p s of None \<Rightarrow> q s | Some x \<Rightarrow> Some x)"

definition opt :: "'a rule \<Rightarrow> 'a rule" where
  "opt p s = (case p s of None \<Rightarrow> Some ([], s) | Some x \<Rightarrow> Some x)"

text \<open>A repetition ends where its body fails; the bodies of the grammars read something, else the loop would not end.\<close>

fun star :: "'a rule \<Rightarrow> 'a rule" where
  "star p s =
     (case p s of
        None \<Rightarrow> Some ([], s)
      | Some (a, r) \<Rightarrow>
          if length r < length s
          then (case star p r of None \<Rightarrow> None | Some (b, t) \<Rightarrow> Some (a @ b, t))
          else Some (a, r))"

declare star.simps [simp del]

definition plus :: "'a rule \<Rightarrow> 'a rule" where
  "plus p = seq p (star p)"

primrec times :: "nat \<Rightarrow> 'a rule \<Rightarrow> 'a rule" where
  "times 0 p = (\<lambda>s. Some ([], s))"
| "times (Suc n) p = seq p (times n p)"

fun word :: "string \<Rightarrow> 'a rule" where
  "word [] s = Some ([], s)"
| "word (c # cs) s = seq (lit c) (word cs) s"

definition act :: "'a \<Rightarrow> 'a rule" where
  "act x s = Some ([x], s)"

text \<open>An action on the text that a rule has read.\<close>

definition capture :: "(string \<Rightarrow> 'a) \<Rightarrow> 'a rule \<Rightarrow> 'a rule" where
  "capture f p s = (case p s of None \<Rightarrow> None | Some (a, r) \<Rightarrow> Some (a @ [f (take (length s - length r) s)], r))"

definition end_of_line :: "'a rule" where
  "end_of_line s = (if s = [] then Some ([], s) else None)"

section \<open>Characters\<close>

definition is_digit :: "char \<Rightarrow> bool" where
  "is_digit c = (let n = (of_char c :: nat) in 48 \<le> n \<and> n \<le> 57)"

definition is_alnum :: "char \<Rightarrow> bool" where
  "is_alnum c = (let n = (of_char c :: nat) in 97 \<le> n \<and> n \<le> 122 \<or> 65 \<le> n \<and> n \<le> 90 \<or> 48 \<le> n \<and> n \<le> 57)"

definition is_name_char :: "char \<Rightarrow> bool" where
  "is_name_char c = (is_alnum c \<or> c \<in> set ''~-_./,'')"

definition quote :: char where "quote = CHR 0x22"
definition backslash :: char where "backslash = CHR 0x5C"

section \<open>What rules read\<close>

text \<open>A rule leaves a part of its input; a rule that reads something leaves less.\<close>

definition reads :: "'a rule \<Rightarrow> bool" where
  "reads p \<longleftrightarrow> (\<forall>s a r. p s = Some (a, r) \<longrightarrow> length r < length s)"

lemma reads_sat [intro, simp]: "reads (sat P)"
  by (auto simp: reads_def sat_def split: list.splits if_splits)

lemma reads_lit [intro, simp]: "reads (lit c)"
  by (simp add: lit_def)

lemma rune_length_pos [simp]: "0 < rune_length c"
  by (simp add: rune_length_def Let_def)

lemma reads_other_than [intro, simp]: "reads (other_than c)"
proof -
  have "length (drop (rune_length x) (x # s)) < length (x # s)" for x :: char and s
    using rune_length_pos [of x] by (simp del: rune_length_pos)
  then show ?thesis by (auto simp: reads_def other_than_def split: list.splits if_splits)
qed

definition shortens :: "'a rule \<Rightarrow> bool" where
  "shortens p \<longleftrightarrow> (\<forall>s a r. p s = Some (a, r) \<longrightarrow> length r \<le> length s)"

lemma reads_shortens: "reads p \<Longrightarrow> shortens p"
  by (force simp: reads_def shortens_def)

lemma shortens_star: "shortens p \<Longrightarrow> shortens (star p)"
proof -
  assume p: "shortens p"
  have "star p s = Some (a, r) \<Longrightarrow> length r \<le> length s" for s a r
  proof (induction s arbitrary: a r rule: length_induct)
    case (1 s)
    show ?case
    proof (cases "p s")
      case None
      with 1(2) show ?thesis by (simp add: star.simps [of p s])
    next
      case (Some x)
      obtain b u where x: "x = (b, u)" by (cases x)
      from 1(2) Some x p show ?thesis
        using 1(1) by (subst (asm) star.simps) (force simp: shortens_def split: if_splits option.splits)
    qed
  qed
  then show ?thesis by (simp add: shortens_def)
qed

lemma reads_seq: "reads p \<Longrightarrow> shortens q \<Longrightarrow> reads (seq p q)"
  by (force simp: reads_def shortens_def seq_def split: option.splits)

lemma shortens_seq: "shortens p \<Longrightarrow> shortens q \<Longrightarrow> shortens (seq p q)"
  by (force simp: shortens_def seq_def split: option.splits)

lemma shortens_opt: "shortens p \<Longrightarrow> shortens (opt p)"
  by (auto simp: shortens_def opt_def split: option.splits)

lemma reads_alt: "reads p \<Longrightarrow> reads q \<Longrightarrow> reads (alt p q)"
  by (auto simp: reads_def alt_def split: option.splits)

lemma reads_capture: "reads p \<Longrightarrow> reads (capture f p)"
  by (auto simp: reads_def capture_def split: option.splits)

lemma shortens_act [simp, intro]: "shortens (act x)"
  by (simp add: shortens_def act_def)

lemma reads_act: "reads q \<Longrightarrow> reads (seq (act x) q)"
  by (auto simp: reads_def seq_def act_def split: option.splits)

lemma reads_plus: "reads p \<Longrightarrow> reads (plus p)"
  by (simp add: plus_def reads_seq reads_shortens shortens_star)

lemma word_Cons: "word (c # cs) = seq (lit c) (word cs)"
  by (rule ext) simp

lemma shortens_word [simp]: "shortens (word cs)"
proof (induction cs)
  case Nil
  show ?case by (simp add: shortens_def)
qed (simp add: word_Cons shortens_seq reads_shortens)

lemma reads_word [simp]: "reads (word (c # cs))"
  by (simp add: word_Cons reads_seq)

lemmas reading = reads_seq shortens_seq shortens_opt reads_alt reads_capture reads_act reads_plus shortens_star reads_shortens

text \<open>A repetition of a rule that reads something: it ends where the rule fails, and goes on where it does not.\<close>

lemma star_stop: "p s = None \<Longrightarrow> star p s = Some ([], s)"
  by (simp add: star.simps)

lemma star_step: "reads p \<Longrightarrow> p s = Some (a, r) \<Longrightarrow> star p s = map_option (\<lambda>(b, t). (a @ b, t)) (star p r)"
  by (subst star.simps) (auto simp: reads_def split: option.splits)

definition stops :: "(char \<Rightarrow> bool) \<Rightarrow> string \<Rightarrow> bool" where
  "stops P r = (case r of [] \<Rightarrow> True | c # _ \<Rightarrow> \<not> P c)"

lemma stops_simps [simp]: "stops P []" "stops P (c # r) \<longleftrightarrow> \<not> P c"
  by (simp_all add: stops_def)

lemma star_sat: "list_all P xs \<Longrightarrow> stops P r \<Longrightarrow> star (sat P) (xs @ r) = Some ([] :: 'a list, r)"
proof (induction xs)
  case Nil
  then show ?case by (cases r) (simp_all add: star_stop sat_def)
next
  case (Cons x xs)
  from Cons.prems have prems: "list_all P xs" "stops P r" "P x" by simp_all
  have "sat P (x # xs @ r) = Some ([] :: 'a list, xs @ r)" using prems(3) by (simp add: sat_def)
  from star_step [OF reads_sat this] show ?case by (simp add: Cons.IH [OF prems(1,2)])
qed

lemma plus_sat: "list_all P xs \<Longrightarrow> xs \<noteq> [] \<Longrightarrow> stops P r \<Longrightarrow> plus (sat P) (xs @ r) = Some ([], r)"
  by (cases xs) (simp_all add: plus_def seq_def sat_def star_sat)

lemma capture_read: "p (xs @ r) = Some (a, r) \<Longrightarrow> capture f p (xs @ r) = Some (a @ [f xs], r)"
  by (simp add: capture_def)

lemma times_sat: "list_all P xs \<Longrightarrow> times (length xs) (sat P) (xs @ r) = Some ([], r)"
  by (induction xs) (simp_all add: seq_def sat_def)

lemma word_self [simp]: "word w (w @ r) = Some ([], r)"
  by (induction w) (simp_all add: seq_def lit_def sat_def)

text \<open>A list that is printed item by item is read item by item, when every item can be read before what may follow it.\<close>

lemma star_list:
  assumes "reads p" and "\<And>x r. x \<in> set xs \<Longrightarrow> F r \<Longrightarrow> p (pr x @ r) = Some (f x, r)"
    and "\<And>x r. x \<in> set xs \<Longrightarrow> F r \<Longrightarrow> F (pr x @ r)" and "F r0" and "p r0 = None"
  shows "star p (concat (map pr xs) @ r0) = Some (concat (map f xs), r0)"
proof -
  have "F (concat (map pr xs) @ r0) \<and> star p (concat (map pr xs) @ r0) = Some (concat (map f xs), r0)"
    using assms(2,3)
  proof (induction xs)
    case Nil
    then show ?case using assms(4,5) by (simp add: star_stop)
  next
    case (Cons x xs)
    then have IH: "F (concat (map pr xs) @ r0)" "star p (concat (map pr xs) @ r0) = Some (concat (map f xs), r0)" by auto
    have "p (pr x @ concat (map pr xs) @ r0) = Some (f x, concat (map pr xs) @ r0)" using Cons.prems(1) IH(1) by simp
    from star_step [OF assms(1) this] IH Cons.prems(2) show ?case by simp
  qed
  then show ?thesis by simp
qed

lemma Join_items: "Join [c] (map g (x # xs)) = g x @ concat (map (\<lambda>y. c # g y) xs)"
  by (induction xs arbitrary: x) simp_all

lemma seq_read: "p s = Some (a, r) \<Longrightarrow> q r = Some (b, t) \<Longrightarrow> seq p q s = Some (a @ b, t)"
  by (simp add: seq_def)

lemma lit_read [simp]: "lit c (c # r) = Some ([], r)" "x \<noteq> c \<Longrightarrow> lit c (x # r) = None" "lit c [] = None"
  by (simp_all add: lit_def sat_def)

lemma sat_read [simp]: "P x \<Longrightarrow> sat P (x # r) = Some ([], r)" "\<not> P x \<Longrightarrow> sat P (x # r) = None" "sat P [] = None"
  by (simp_all add: sat_def)

lemma act_read [simp]: "act x s = Some ([x], s)"
  by (simp add: act_def)

end
