(* ===== verification/Metric_Lines.thy ===== *)
theory Metric_Lines
  imports Line_Grammars
begin

text \<open>
  The metrics the test proxy receives (\<open>test-proxy/internal/testproxy/metricline\<close>: the grammar, parse.go, store.go):
  a line is a point or a histogram in the line format of Wavefront. A map of the code that is nil reads as an empty one.
\<close>

section \<open>The grammar (metric_grammar.peg)\<close>

datatype metric_action =
    HistogramAct
  | BucketsAct
  | CountAct string
  | BucketAct string
  | TagsAct
  | TagNameAct string
  | TagValueAct string
  | TimestampAct string
  | ValueAct string
  | NameAct string

definition is_quoted_tag_char :: "char \<Rightarrow> bool" where
  "is_quoted_tag_char c = (is_alnum c \<or> c \<in> set ''/-_.'')"

definition is_tag_char :: "char \<Rightarrow> bool" where
  "is_tag_char c = (is_alnum c \<or> c \<in> set ''-_.'')"

definition space :: "metric_action rule" where
  "space = lit (CHR '' '')"

definition g_number :: "metric_action rule" where
  "g_number = seq (opt (lit (CHR ''-''))) (seq (plus (sat is_digit)) (opt (seq (lit (CHR ''.'')) (plus (sat is_digit)))))"

definition aggregationInterval :: "metric_action rule" where
  "aggregationInterval = seq (lit (CHR ''!'')) (seq (sat (\<lambda>c. c \<in> set ''MHD'')) (act HistogramAct))"

definition histogramCount :: "metric_action rule" where
  "histogramCount = seq (lit (CHR ''#'')) (capture CountAct g_number)"

definition histogramValue :: "metric_action rule" where
  "histogramValue = capture BucketAct g_number"

definition histogramBucket :: "metric_action rule" where
  "histogramBucket = seq histogramCount (seq space histogramValue)"

definition histogramValues :: "metric_action rule" where
  "histogramValues = seq (act BucketsAct) (seq histogramBucket (star (seq space histogramBucket)))"

definition tagName :: "metric_action rule" where
  "tagName =
     alt (seq (lit quote) (seq (capture TagNameAct (plus (sat is_quoted_tag_char))) (lit quote)))
         (capture TagNameAct (plus (sat is_tag_char)))"

definition value_item :: "metric_action rule" where
  "value_item = alt (seq (lit backslash) (lit quote)) (other_than quote)"

definition tagValue :: "metric_action rule" where
  "tagValue = seq (lit quote) (seq (capture TagValueAct (plus value_item)) (lit quote))"

definition tag_rule :: "metric_action rule" where
  "tag_rule = seq tagName (seq (lit (CHR ''='')) tagValue)"

definition tags_rule :: "metric_action rule" where
  "tags_rule = seq (act TagsAct) (seq tag_rule (star (seq space tag_rule)))"

definition timestamp :: "metric_action rule" where
  "timestamp = capture TimestampAct
     (seq (times 10 (sat is_digit)) (seq (opt (times 3 (sat is_digit))) (opt (times 3 (sat is_digit)))))"

definition metricValue :: "metric_action rule" where
  "metricValue = capture ValueAct g_number"

text \<open>The sign for increments (U+2206), in UTF-8.\<close>

definition delta_sign :: string where "delta_sign = [CHR 0xE2, CHR 0x88, CHR 0x86]"

definition name_text :: "metric_action rule" where
  "name_text = seq (opt (word delta_sign)) (seq (opt (lit (CHR ''~''))) (plus (sat is_name_char)))"

definition metricName :: "metric_action rule" where
  "metricName = alt (seq (lit quote) (seq (capture NameAct name_text) (lit quote))) (capture NameAct name_text)"

definition MetricGrammar :: "metric_action rule" where
  "MetricGrammar =
     alt (seq aggregationInterval (seq (opt (seq space timestamp)) (seq space (seq histogramValues
            (seq space (seq metricName (seq space (seq tags_rule end_of_line))))))))
         (seq metricName (seq space (seq metricValue (seq (opt (seq space timestamp)) (seq space (seq tags_rule end_of_line))))))"

section \<open>The actions (Execute)\<close>

record grammar_state =
  gHistogram :: bool
  gBuckets :: "(string, string) gomap"
  currentHistogramCount :: string
  gName :: string
  gValue :: string
  gTimestamp :: string
  gTags :: "(string, string) gomap"
  currentTag :: string

fun execute :: "metric_action \<Rightarrow> grammar_state \<Rightarrow> grammar_state" where
  "execute HistogramAct p = p\<lparr>gHistogram := True\<rparr>"
| "execute BucketsAct p = p\<lparr>gBuckets := []\<rparr>"
| "execute (CountAct text) p = p\<lparr>currentHistogramCount := text\<rparr>"
| "execute (BucketAct text) p = p\<lparr>gBuckets := mput text (currentHistogramCount p) (gBuckets p)\<rparr>"
| "execute TagsAct p = p\<lparr>gTags := []\<rparr>"
| "execute (TagNameAct text) p = p\<lparr>currentTag := text\<rparr>"
| "execute (TagValueAct text) p = p\<lparr>gTags := mput (currentTag p) text (gTags p)\<rparr>"
| "execute (TimestampAct text) p = p\<lparr>gTimestamp := text\<rparr>"
| "execute (ValueAct text) p = p\<lparr>gValue := text\<rparr>"
| "execute (NameAct text) p = p\<lparr>gName := text\<rparr>"

section \<open>Parsing (parse.go)\<close>

record Metric =
  mlName :: string
  mlValue :: string
  mlTimestamp :: string
  mlTags :: "(string, string) gomap"
  mlBuckets :: "(string, string) gomap"

definition grammar_init :: grammar_state where
  "grammar_init = \<lparr>gHistogram = False, gBuckets = [], currentHistogramCount = '''', gName = '''', gValue = '''',
     gTimestamp = '''', gTags = [], currentTag = ''''\<rparr>"

definition Parse :: "string \<Rightarrow> Metric option" where
  "Parse line =
     (case MetricGrammar line of
        None \<Rightarrow> None
      | Some (actions, r) \<Rightarrow>
          let g = foldl (\<lambda>p a. execute a p) grammar_init actions;
              m = \<lparr>mlName = gName g, mlValue = '''', mlTimestamp = gTimestamp g, mlTags = gTags g, mlBuckets = []\<rparr>
          in Some (if gHistogram g then m\<lparr>mlBuckets := gBuckets g\<rparr> else m\<lparr>mlValue := gValue g\<rparr>))"

section \<open>The store (store.go)\<close>

record metric_store =
  stMetrics :: "Metric list"
  badMetrics :: "string list"

definition NewStore :: metric_store where
  "NewStore = \<lparr>stMetrics = [], badMetrics = []\<rparr>"

definition LogMetric :: "Metric \<Rightarrow> metric_store \<Rightarrow> metric_store" where
  "LogMetric metric s = s\<lparr>stMetrics := stMetrics s @ [metric]\<rparr>"

definition LogBadMetric :: "string \<Rightarrow> metric_store \<Rightarrow> metric_store" where
  "LogBadMetric metric s = s\<lparr>badMetrics := badMetrics s @ [metric]\<rparr>"

definition isEvent :: "string \<Rightarrow> bool" where
  "isEvent line = HasPrefix line ''@Event''"

definition isHistogram :: "string \<Rightarrow> bool" where
  "isHistogram line = (HasPrefix line ''!M'' \<or> HasPrefix line ''!H'' \<or> HasPrefix line ''!D'')"

text \<open>What the goroutine of \<open>Subscribe\<close> does with a line.\<close>

definition store_line :: "metric_store \<Rightarrow> string \<Rightarrow> metric_store" where
  "store_line s line =
     (if line = '''' then s
      else if isEvent line then s
      else case Parse line of
             None \<Rightarrow> LogBadMetric line s
           | Some metric \<Rightarrow> if 20 < length (mlTags metric) then s else LogMetric metric s)"

section \<open>The line format\<close>

text \<open>A tag has a name, which may be in quotes, and a value.\<close>

type_synonym line_tag = "bool \<times> string \<times> string"

datatype line_value = PointValue string | Buckets char "(string \<times> string) list"

definition quoted :: "bool \<Rightarrow> string \<Rightarrow> string" where
  "quoted q s = (if q then quote # s @ [quote] else s)"

fun print_tag :: "line_tag \<Rightarrow> string" where
  "print_tag (q, k, v) = quoted q k @ ''='' @ quoted True v"

definition print_tags :: "line_tag list \<Rightarrow> string" where
  "print_tags tags = Join '' '' (map print_tag tags)"

definition print_timestamp :: "string option \<Rightarrow> string" where
  "print_timestamp ts = (case ts of None \<Rightarrow> '''' | Some t \<Rightarrow> '' '' @ t)"

definition print_bucket :: "string \<times> string \<Rightarrow> string" where
  "print_bucket b = ''#'' @ fst b @ '' '' @ snd b"

fun print_line :: "bool \<Rightarrow> string \<Rightarrow> line_value \<Rightarrow> string option \<Rightarrow> line_tag list \<Rightarrow> string" where
  "print_line q name (PointValue v) ts tags =
     quoted q name @ '' '' @ v @ print_timestamp ts @ '' '' @ print_tags tags"
| "print_line q name (Buckets i bs) ts tags =
     ''!'' @ [i] @ print_timestamp ts @ '' '' @ Join '' '' (map print_bucket bs) @ '' '' @ quoted q name @ '' '' @ print_tags tags"

definition strip :: "string \<Rightarrow> string \<Rightarrow> string" where
  "strip p s = (if HasPrefix s p then drop (length p) s else s)"

definition valid_name :: "string \<Rightarrow> bool" where
  "valid_name n = (let m = strip ''~'' (strip delta_sign n) in m \<noteq> [] \<and> list_all is_name_char m)"

definition valid_number :: "string \<Rightarrow> bool" where
  "valid_number v =
     (let w = strip ''-'' v; f = dropWhile is_digit w
      in takeWhile is_digit w \<noteq> [] \<and> (f = [] \<or> hd f = CHR ''.'' \<and> tl f \<noteq> [] \<and> list_all is_digit (tl f)))"

definition valid_timestamp :: "string \<Rightarrow> bool" where
  "valid_timestamp t \<longleftrightarrow> list_all is_digit t \<and> length t \<in> {10, 13, 16}"

definition plain_char :: "char \<Rightarrow> bool" where
  "plain_char c \<longleftrightarrow> c \<noteq> quote \<and> (of_char c :: nat) < 128"

fun valid_tag :: "line_tag \<Rightarrow> bool" where
  "valid_tag (q, k, v) \<longleftrightarrow>
     k \<noteq> [] \<and> list_all (if q then is_quoted_tag_char else is_tag_char) k \<and>
     v \<noteq> [] \<and> list_all plain_char v \<and> last v \<noteq> backslash"

text \<open>A line without a time must not go on with what may be the start of one.\<close>

fun valid_value :: "line_value \<Rightarrow> string option \<Rightarrow> line_tag list \<Rightarrow> bool" where
  "valid_value (PointValue v) ts tags \<longleftrightarrow> valid_number v \<and>
     (case ts of Some t \<Rightarrow> valid_timestamp t | None \<Rightarrow> \<not> is_digit (hd (print_tags tags)))"
| "valid_value (Buckets i bs) ts tags \<longleftrightarrow> i \<in> set ''MHD'' \<and> bs \<noteq> [] \<and>
     list_all (\<lambda>b. valid_number (fst b) \<and> valid_number (snd b)) bs \<and>
     (case ts of Some t \<Rightarrow> valid_timestamp t | None \<Rightarrow> True)"

section \<open>What is read of a line\<close>

lemmas char_defs = is_digit_def is_alnum_def is_name_char_def is_tag_char_def is_quoted_tag_char_def quote_def backslash_def delta_sign_def

lemma stripD: "strip p s = m \<Longrightarrow> s = p @ m \<or> s = m \<and> \<not> HasPrefix s p"
  by (auto simp: strip_def HasPrefix_iff split: if_splits)

lemma digit_text:
  assumes "list_all is_digit i" and "i \<noteq> []" and "stops is_digit r"
  shows "plus (sat is_digit) (i @ r) = Some ([], r)"
  using assms by (simp add: plus_sat)

lemma g_number_read:
  assumes "valid_number v" and "stops (\<lambda>c. is_digit c \<or> c = CHR ''.'') r"
  shows "g_number (v @ r) = Some ([], r)"
proof -
  define w i f where defs: "w = strip ''-'' v" "i = takeWhile is_digit w" "f = dropWhile is_digit w"
  have "i \<noteq> [] \<and> (f = [] \<or> hd f = CHR ''.'' \<and> tl f \<noteq> [] \<and> list_all is_digit (tl f))"
    using assms(1) unfolding valid_number_def Let_def defs by blast
  then have v: "i \<noteq> []" "f = [] \<or> (\<exists>g. f = CHR ''.'' # g \<and> g \<noteq> [] \<and> list_all is_digit g)"
    by (simp, cases f) simp_all
  have i: "list_all is_digit i" by (auto simp: defs list_all_iff dest: set_takeWhileD)
  have w: "w = i @ f" by (simp add: defs)
  have r: "stops is_digit r" "stops (\<lambda>c. c = CHR ''.'') r" using assms(2) by (cases r; simp)+
  have frac: "opt (seq (lit (CHR ''.'')) (plus (sat is_digit))) (f @ r) = Some ([] :: metric_action list, r)"
    using v(2)
  proof
    assume "f = []"
    with r(2) show ?thesis by (cases r) (simp_all add: opt_def seq_def)
  next
    assume "\<exists>g. f = CHR ''.'' # g \<and> g \<noteq> [] \<and> list_all is_digit g"
    then show ?thesis by (auto simp: opt_def seq_def digit_text [OF _ _ r(1)])
  qed
  have "stops is_digit (f @ r)" using v(2) r(1) by (auto simp: is_digit_def)
  then have whole: "seq (plus (sat is_digit)) (opt (seq (lit (CHR ''.'')) (plus (sat is_digit)))) (w @ r) = Some ([] :: metric_action list, r)"
    by (simp add: w seq_def digit_text [OF i v(1)] frac)
  have "hd w \<noteq> CHR ''-''" and "w \<noteq> []" using i v(1) by (cases i; auto simp: w is_digit_def)+
  then have minus: "opt (lit (CHR ''-'')) (w @ r) = Some ([] :: metric_action list, w @ r)" by (cases w) (simp_all add: opt_def)
  from stripD [OF defs(1) [symmetric]] have "v = CHR ''-'' # w \<or> v = w" by auto
  then show ?thesis
  proof
    assume "v = CHR ''-'' # w"
    then show ?thesis by (simp add: g_number_def seq_def [of "opt (lit (CHR ''-''))"] opt_def [of "lit (CHR ''-'')"] whole)
  next
    assume "v = w"
    then show ?thesis by (simp add: g_number_def seq_def [of "opt (lit (CHR ''-''))"] minus whole)
  qed
qed

lemma word_delta_None: "s \<noteq> [] \<Longrightarrow> hd s \<noteq> CHR 0xE2 \<Longrightarrow> word delta_sign s = None"
  by (cases s) (simp_all add: delta_sign_def seq_def)

lemma name_text_read:
  assumes "valid_name n" and "stops is_name_char r"
  shows "name_text (n @ r) = Some ([], r)"
proof -
  define t m where defs: "t = strip delta_sign n" "m = strip ''~'' t"
  have m: "m \<noteq> []" "list_all is_name_char m" using assms(1) by (simp_all add: valid_name_def Let_def defs)
  have rest: "plus (sat is_name_char) (m @ r) = Some ([] :: metric_action list, r)" by (rule plus_sat [OF m(2,1) assms(2)])
  have hd_m: "is_name_char (hd m)" using m by (cases m) simp_all
  have t: "seq (opt (lit (CHR ''~''))) (plus (sat is_name_char)) (t @ r) = Some ([] :: metric_action list, r)"
    using stripD [OF defs(2) [symmetric]]
  proof
    assume "t = ''~'' @ m"
    then show ?thesis by (simp add: seq_def opt_def rest)
  next
    assume "t = m \<and> \<not> HasPrefix t ''~''"
    moreover from this have "hd m \<noteq> CHR ''~''" using m(1) by (cases m) auto
    ultimately show ?thesis using m(1) rest by (cases m) (simp_all add: seq_def opt_def)
  qed
  have "hd t \<noteq> CHR 0xE2" and "t \<noteq> []"
    using stripD [OF defs(2) [symmetric]] hd_m m(1) by (auto simp: char_defs)
  then have no: "opt (word delta_sign) (t @ r) = Some ([] :: metric_action list, t @ r)"
    by (simp add: opt_def word_delta_None)
  from stripD [OF defs(1) [symmetric]] have "n = delta_sign @ t \<or> n = t" by auto
  then show ?thesis
  proof
    assume "n = delta_sign @ t"
    then show ?thesis by (simp add: name_text_def seq_def [of "opt (word delta_sign)"] opt_def [of "word delta_sign"] t)
  next
    assume "n = t"
    then show ?thesis by (simp add: name_text_def seq_def [of "opt (word delta_sign)"] no t)
  qed
qed

lemma reads_value_item [simp, intro]: "reads value_item"
  by (simp add: value_item_def reading)

lemma value_item_char:
  assumes "plain_char c" and "c = backslash \<Longrightarrow> s \<noteq> [] \<and> hd s \<noteq> quote"
  shows "value_item (c # s) = Some ([], s)"
proof -
  have "seq (lit backslash) (lit quote) (c # s) = (None :: (metric_action list \<times> string) option)"
  proof (cases "c = backslash")
    case True
    with assms(2) show ?thesis by (cases s) (simp_all add: seq_def)
  qed (simp add: seq_def)
  moreover have "rune_length c = 1" using assms(1) by (simp add: rune_length_def plain_char_def Let_def)
  moreover have "c \<noteq> quote" using assms(1) by (simp add: plain_char_def)
  ultimately show ?thesis by (simp add: value_item_def alt_def other_than_def)
qed

lemma star_value:
  assumes "list_all plain_char v" and "v = [] \<or> last v \<noteq> backslash"
  shows "star value_item (v @ quote # r) = Some ([], quote # r)"
  using assms
proof (induction v)
  case Nil
  have "value_item (quote # r) = None" by (simp add: value_item_def alt_def seq_def other_than_def quote_def backslash_def)
  then show ?case by (simp add: star_stop)
next
  case (Cons c v)
  from Cons.prems have v: "list_all plain_char v" "v = [] \<or> last v \<noteq> backslash" by (auto split: if_splits)
  have "c = backslash \<Longrightarrow> v @ quote # r \<noteq> [] \<and> hd (v @ quote # r) \<noteq> quote"
    using Cons.prems by (cases v) (auto simp: plain_char_def)
  then have "value_item (c # v @ quote # r) = Some ([], v @ quote # r)"
    using Cons.prems(1) by (intro value_item_char) auto
  from star_step [OF reads_value_item this] Cons.IH [OF v] show ?case by simp
qed

lemma tagValue_read:
  assumes "v \<noteq> []" and "list_all plain_char v" and "last v \<noteq> backslash"
  shows "tagValue (quoted True v @ r) = Some ([TagValueAct v], r)"
proof -
  obtain c w where v: "v = c # w" using assms(1) by (cases v) auto
  have "c = backslash \<Longrightarrow> w @ quote # r \<noteq> [] \<and> hd (w @ quote # r) \<noteq> quote"
    using assms v by (cases w) (auto simp: plain_char_def)
  then have "value_item (c # w @ quote # r) = Some ([], w @ quote # r)"
    using assms(2) v by (intro value_item_char) auto
  moreover have "star value_item (w @ quote # r) = Some ([], quote # r)"
    using assms v by (intro star_value) (auto split: if_splits)
  ultimately have "plus value_item (v @ quote # r) = Some ([], quote # r)" by (simp add: v plus_def seq_def)
  from capture_read [of "plus value_item" v "quote # r" "[]" TagValueAct, OF this]
  show ?thesis by (simp add: tagValue_def quoted_def seq_def)
qed

lemma tagName_read:
  assumes "k \<noteq> []" and "list_all (if q then is_quoted_tag_char else is_tag_char) k"
  shows "tagName (quoted q k @ CHR ''='' # r) = Some ([TagNameAct k], CHR ''='' # r)"
proof (cases q)
  case True
  have "plus (sat is_quoted_tag_char) (k @ quote # CHR ''='' # r) = Some ([] :: metric_action list, quote # CHR ''='' # r)"
    using assms True by (intro plus_sat) (simp_all add: char_defs)
  from capture_read [of "plus (sat is_quoted_tag_char)" k "quote # CHR ''='' # r" "[]" TagNameAct, OF this] True
  show ?thesis by (simp add: tagName_def quoted_def alt_def seq_def)
next
  case False
  have plain: "plus (sat is_tag_char) (k @ CHR ''='' # r) = Some ([] :: metric_action list, CHR ''='' # r)"
    using assms False by (intro plus_sat) (simp_all add: char_defs)
  from capture_read [of "plus (sat is_tag_char)" k "CHR ''='' # r" "[]" TagNameAct, OF this]
  have k: "capture TagNameAct (plus (sat is_tag_char)) (k @ CHR ''='' # r) = Some ([TagNameAct k], CHR ''='' # r)" by simp
  have "hd k \<noteq> quote" using assms False by (cases k) (auto simp: char_defs)
  then have "lit quote (k @ CHR ''='' # r) = (None :: (metric_action list \<times> string) option)"
    using assms(1) by (cases k) simp_all
  with k False show ?thesis by (simp add: tagName_def quoted_def alt_def seq_def)
qed

fun tag_actions :: "line_tag \<Rightarrow> metric_action list" where
  "tag_actions (q, k, v) = [TagNameAct k, TagValueAct v]"

lemma tag_rule_read: "valid_tag t \<Longrightarrow> tag_rule (print_tag t @ r) = Some (tag_actions t, r)"
  by (cases t) (simp add: tag_rule_def seq_def tagName_read tagValue_read del: if_split)

lemma space_read [simp]: "space (CHR '' '' # r) = Some ([], r)" "space [] = None"
  by (simp_all add: space_def)

lemma reads_tag [simp]: "reads (seq space tag_rule)"
  by (simp add: space_def tag_rule_def tagName_def tagValue_def reading)

lemma tags_rule_read:
  assumes "tags \<noteq> []" and "list_all valid_tag tags"
  shows "tags_rule (print_tags tags) = Some (TagsAct # concat (map tag_actions tags), [])"
proof -
  obtain t ts where tags: "tags = t # ts" using assms(1) by (cases tags) auto
  have "star (seq space tag_rule) (concat (map (\<lambda>t. CHR '' '' # print_tag t) ts) @ []) = Some (concat (map tag_actions ts), [])"
    by (rule star_list [where F = "\<lambda>_. True"])
      (use assms(2) in \<open>auto simp: tags seq_def tag_rule_read list_all_iff\<close>)
  moreover have "print_tags tags = print_tag t @ concat (map (\<lambda>t. CHR '' '' # print_tag t) ts)"
    by (simp only: print_tags_def tags list.map Join_items [where g = print_tag, unfolded list.map])
  ultimately show ?thesis
    using assms(2) by (simp add: tags_rule_def seq_def tags tag_rule_read)
qed

lemma timestamp_read:
  assumes "valid_timestamp t" and "stops is_digit r"
  shows "timestamp (t @ r) = Some ([TimestampAct t], r)"
proof -
  define a b c where t: "a = take 10 t" "b = take 3 (drop 10 t)" "c = drop 13 t"
  have abc: "t = a @ b @ c"
    by (metis append_take_drop_id drop_drop t add.commute add_numeral_left arith_simps(1) numeral_plus_numeral semiring_norm)
  have len: "length a = 10" "b = [] \<or> length b = 3" "c = [] \<or> length c = 3" "b = [] \<Longrightarrow> c = []"
    using assms(1) by (auto simp: valid_timestamp_def t)
  have digits: "list_all is_digit a" "list_all is_digit b" "list_all is_digit c"
    using assms(1) by (auto simp: valid_timestamp_def abc)
  have none: "times 3 (sat is_digit) r = (None :: (metric_action list \<times> string) option)"
    using assms(2) by (cases r) (simp_all add: numeral_3_eq_3 seq_def)
  have three: "opt (times 3 (sat is_digit)) (x @ s) = Some ([] :: metric_action list, s)" if "list_all is_digit x" "length x = 3" for x s
  proof -
    have "times 3 (sat is_digit) (x @ s) = Some ([] :: metric_action list, s)" using times_sat [OF that(1)] that(2) by metis
    then show ?thesis by (simp add: opt_def)
  qed
  have c: "opt (times 3 (sat is_digit)) (c @ r) = Some ([] :: metric_action list, r)"
    using len(3) three [OF digits(3)] none by (auto simp: opt_def)
  have b: "seq (opt (times 3 (sat is_digit))) (opt (times 3 (sat is_digit))) (b @ c @ r) = Some ([] :: metric_action list, r)"
    using len(2) three [OF digits(2)] c len(4) none by (auto simp: seq_def opt_def)
  have "times 10 (sat is_digit) (a @ b @ c @ r) = Some ([] :: metric_action list, b @ c @ r)"
    using times_sat [OF digits(1)] len(1) by metis
  with b have "seq (times 10 (sat is_digit)) (seq (opt (times 3 (sat is_digit))) (opt (times 3 (sat is_digit)))) (t @ r) =
      Some ([] :: metric_action list, r)"
    by (simp add: abc seq_def)
  then show ?thesis unfolding timestamp_def by (rule capture_read [where a = "[]", unfolded append_Nil])
qed

lemma valid_name_hd:
  assumes "valid_name n"
  shows "n \<noteq> [] \<and> (is_name_char (hd n) \<or> hd n = CHR 0xE2)"
proof -
  define t m where defs: "t = strip delta_sign n" "m = strip ''~'' t"
  have m: "m \<noteq> []" "list_all is_name_char m" using assms by (simp_all add: valid_name_def Let_def defs)
  then have "is_name_char (hd m)" by (cases m) simp_all
  then have "t \<noteq> [] \<and> is_name_char (hd t)"
    using stripD [OF defs(2) [symmetric]] m(1) by (auto simp: is_name_char_def)
  then show ?thesis using stripD [OF defs(1) [symmetric]] by (auto simp: delta_sign_def)
qed

lemma not_name_char: "\<not> is_name_char quote" "\<not> is_name_char (CHR '' '')" "\<not> is_name_char (CHR ''!'')" "\<not> is_name_char (CHR ''#'')"
  by (simp_all add: char_defs)

lemma hd_quoted_name: "valid_name n \<Longrightarrow> quoted q n \<noteq> [] \<and> hd (quoted q n) \<noteq> CHR ''!'' \<and> hd (quoted q n) \<noteq> CHR ''#''"
  using valid_name_hd [of n] not_name_char by (auto simp: quoted_def quote_def)

lemma metricName_read:
  assumes "valid_name n"
  shows "metricName (quoted q n @ CHR '' '' # r) = Some ([NameAct n], CHR '' '' # r)"
proof (cases q)
  case True
  have "name_text (n @ quote # CHR '' '' # r) = Some ([], quote # CHR '' '' # r)"
    using not_name_char by (intro name_text_read assms) simp
  from capture_read [of name_text n _ "[]" NameAct, OF this] True
  show ?thesis by (simp add: metricName_def quoted_def alt_def seq_def)
next
  case False
  have "name_text (n @ CHR '' '' # r) = Some ([], CHR '' '' # r)"
    using not_name_char by (intro name_text_read assms) simp
  from capture_read [of name_text n _ "[]" NameAct, OF this]
  have n: "capture NameAct name_text (n @ CHR '' '' # r) = Some ([NameAct n], CHR '' '' # r)" by simp
  have "n \<noteq> [] \<and> hd n \<noteq> quote" using valid_name_hd [OF assms] not_name_char(1) by (auto simp: quote_def)
  then have "lit quote (n @ CHR '' '' # r) = (None :: (metric_action list \<times> string) option)" by (cases n) simp_all
  with n False show ?thesis by (simp add: metricName_def quoted_def alt_def seq_def)
qed

lemma captured_number:
  assumes "valid_number v"
  shows "capture f g_number (v @ CHR '' '' # r) = Some ([f v], CHR '' '' # r)"
proof -
  have "g_number (v @ CHR '' '' # r) = Some ([], CHR '' '' # r)"
    using assms by (intro g_number_read) (simp_all add: is_digit_def)
  from capture_read [of g_number v _ "[]" f, OF this] show ?thesis by simp
qed

definition bucket_actions :: "string \<times> string \<Rightarrow> metric_action list" where
  "bucket_actions b = [CountAct (fst b), BucketAct (snd b)]"

lemma histogramBucket_read:
  assumes "valid_number (fst b)" and "valid_number (snd b)"
  shows "histogramBucket (print_bucket b @ CHR '' '' # r) = Some (bucket_actions b, CHR '' '' # r)"
  by (simp add: histogramBucket_def histogramCount_def histogramValue_def print_bucket_def bucket_actions_def seq_def
      captured_number assms)

lemma reads_bucket [simp]: "reads (seq space histogramBucket)"
proof -
  have "shortens g_number" by (simp add: g_number_def reading)
  then have "shortens (capture f g_number)" for f by (auto simp: shortens_def capture_def split: option.splits)
  then show ?thesis by (simp add: space_def histogramBucket_def histogramCount_def histogramValue_def reading)
qed

lemma histogramValues_read:
  assumes "bs \<noteq> []" and "list_all (\<lambda>b. valid_number (fst b) \<and> valid_number (snd b)) bs" and "r \<noteq> []" and "hd r \<noteq> CHR ''#''"
  shows "histogramValues (Join '' '' (map print_bucket bs) @ CHR '' '' # r) =
    Some (BucketsAct # concat (map bucket_actions bs), CHR '' '' # r)"
proof -
  obtain b cs where bs: "bs = b # cs" using assms(1) by (cases bs) auto
  have none: "seq space histogramBucket (CHR '' '' # r) = None"
    using assms(3,4) by (cases r) (simp_all add: seq_def histogramBucket_def histogramCount_def)
  have star: "star (seq space histogramBucket) (concat (map (\<lambda>b. CHR '' '' # print_bucket b) cs) @ CHR '' '' # r) =
      Some (concat (map bucket_actions cs), CHR '' '' # r)"
    by (rule star_list [where F = "\<lambda>s. \<exists>t. s = CHR '' '' # t"])
      (use assms(2) none in \<open>auto simp: bs seq_def histogramBucket_read list_all_iff\<close>)
  obtain t where t: "concat (map (\<lambda>b. CHR '' '' # print_bucket b) cs) @ CHR '' '' # r = CHR '' '' # t"
    by (cases cs) auto
  have "histogramBucket (print_bucket b @ concat (map (\<lambda>b. CHR '' '' # print_bucket b) cs) @ CHR '' '' # r) =
      Some (bucket_actions b, concat (map (\<lambda>b. CHR '' '' # print_bucket b) cs) @ CHR '' '' # r)"
    unfolding t by (rule histogramBucket_read) (use assms(2) in \<open>simp_all add: bs\<close>)
  then show ?thesis
    by (simp only: histogramValues_def seq_def act_read option.case prod.case bs list.map Join_items [where g = print_bucket, unfolded list.map]
        append_assoc star) simp
qed

definition ts_actions :: "string option \<Rightarrow> metric_action list" where
  "ts_actions ts = (case ts of None \<Rightarrow> [] | Some t \<Rightarrow> [TimestampAct t])"

lemma opt_timestamp_read:
  assumes "case ts of Some t \<Rightarrow> valid_timestamp t | None \<Rightarrow> r \<noteq> [] \<and> \<not> is_digit (hd r)"
  shows "opt (seq space timestamp) (print_timestamp ts @ CHR '' '' # r) = Some (ts_actions ts, CHR '' '' # r)"
proof (cases ts)
  case None
  with assms have "timestamp r = None"
    by (cases r) (simp_all add: timestamp_def capture_def seq_def eval_nat_numeral)
  with None show ?thesis by (simp add: print_timestamp_def ts_actions_def opt_def seq_def)
next
  case (Some t)
  with assms timestamp_read [of t "CHR '' '' # r"] show ?thesis
    by (simp add: print_timestamp_def ts_actions_def opt_def seq_def is_digit_def)
qed

fun line_actions :: "string \<Rightarrow> line_value \<Rightarrow> string option \<Rightarrow> line_tag list \<Rightarrow> metric_action list" where
  "line_actions name (PointValue v) ts tags =
     NameAct name # ValueAct v # ts_actions ts @ TagsAct # concat (map tag_actions tags)"
| "line_actions name (Buckets i bs) ts tags =
     HistogramAct # ts_actions ts @ (BucketsAct # concat (map bucket_actions bs)) @ NameAct name # TagsAct # concat (map tag_actions tags)"

lemma print_tags_not_Nil: "tags \<noteq> [] \<Longrightarrow> list_all valid_tag tags \<Longrightarrow> print_tags tags \<noteq> []"
proof (cases tags)
  case (Cons t ts)
  then show ?thesis
    using Join_items [of "CHR '' ''" print_tag t ts] by (cases t) (simp add: print_tags_def quoted_def)
qed simp

lemma MetricGrammar_read:
  assumes "valid_name name" and "tags \<noteq> []" and "list_all valid_tag tags" and "valid_value value ts tags"
  shows "MetricGrammar (print_line q name value ts tags) = Some (line_actions name value ts tags, [])"
proof (cases "value")
  case (PointValue v)
  have "aggregationInterval (quoted q name @ s) = None" for s
    using hd_quoted_name [OF assms(1), of q] by (cases "quoted q name") (simp_all add: aggregationInterval_def seq_def)
  moreover have "valid_number v" "case ts of Some t \<Rightarrow> valid_timestamp t | None \<Rightarrow> print_tags tags \<noteq> [] \<and> \<not> is_digit (hd (print_tags tags))"
    using assms(4) print_tags_not_Nil [OF assms(2,3)] by (auto simp: PointValue split: option.splits)
  moreover have "metricValue (v @ print_timestamp ts @ CHR '' '' # s) = Some ([ValueAct v], print_timestamp ts @ CHR '' '' # s)" for s
    using calculation(2) captured_number [of v ValueAct] by (cases ts) (simp_all add: print_timestamp_def metricValue_def)
  ultimately show ?thesis
    using assms(1-3)
    by (simp add: PointValue MetricGrammar_def alt_def seq_def [of aggregationInterval] seq_def metricName_read opt_timestamp_read
        tags_rule_read end_of_line_def)
next
  case (Buckets i bs)
  have r: "quoted q name @ '' '' @ print_tags tags \<noteq> []" "hd (quoted q name @ '' '' @ print_tags tags) \<noteq> CHR ''#''"
    using hd_quoted_name [OF assms(1), of q] by simp_all
  have "aggregationInterval (CHR ''!'' # i # s) = Some ([HistogramAct], s)" for s
    using assms(4) by (auto simp: Buckets aggregationInterval_def seq_def)
  moreover have "histogramValues (Join '' '' (map print_bucket bs) @ CHR '' '' # quoted q name @ CHR '' '' # print_tags tags) =
      Some (BucketsAct # concat (map bucket_actions bs), CHR '' '' # quoted q name @ CHR '' '' # print_tags tags)"
    using histogramValues_read [OF _ _ r] assms(4) by (simp add: Buckets)
  moreover have "hd (Join '' '' (map print_bucket bs) @ s) = CHR ''#'' \<and> Join '' '' (map print_bucket bs) @ s \<noteq> []" for s
  proof -
    obtain b cs where "bs = b # cs" using assms(4) by (cases bs) (auto simp: Buckets)
    then show ?thesis using Join_items [of "CHR '' ''" print_bucket b cs] by (simp add: print_bucket_def)
  qed
  moreover from this have "case ts of Some t \<Rightarrow> valid_timestamp t | None \<Rightarrow> Join '' '' (map print_bucket bs) @ s \<noteq> [] \<and>
      \<not> is_digit (hd (Join '' '' (map print_bucket bs) @ s))" for s
    using assms(4) by (simp add: Buckets is_digit_def split: option.splits)
  ultimately show ?thesis
    using assms(1-3)
    by (simp add: Buckets MetricGrammar_def alt_def seq_def metricName_read opt_timestamp_read tags_rule_read end_of_line_def)
qed

section \<open>Round trip\<close>

lemma execute_tags:
  "\<exists>c. foldl (\<lambda>p a. execute a p) p (concat (map tag_actions tags)) = p\<lparr>gTags := mput_all (map snd tags) (gTags p), currentTag := c\<rparr>"
proof (induction tags arbitrary: p)
  case Nil
  show ?case by (auto intro: exI [of _ "currentTag p"])
next
  case (Cons t tags)
  obtain q k v where t: "t = (q, k, v)" by (cases t)
  from Cons.IH [of "p\<lparr>currentTag := k, gTags := mput k v (gTags p)\<rparr>"] show ?case by (auto simp: t mput_all_Cons)
qed

lemma execute_buckets:
  "\<exists>c. foldl (\<lambda>p a. execute a p) p (concat (map bucket_actions bs)) =
     p\<lparr>gBuckets := mput_all (map (\<lambda>b. (snd b, fst b)) bs) (gBuckets p), currentHistogramCount := c\<rparr>"
proof (induction bs arbitrary: p)
  case Nil
  show ?case by (auto intro: exI [of _ "currentHistogramCount p"])
next
  case (Cons b bs)
  from Cons.IH [of "p\<lparr>currentHistogramCount := fst b, gBuckets := mput (snd b) (fst b) (gBuckets p)\<rparr>"]
  show ?case by (auto simp: bucket_actions_def mput_all_Cons)
qed

definition line_metric :: "string \<Rightarrow> line_value \<Rightarrow> string option \<Rightarrow> line_tag list \<Rightarrow> Metric" where
  "line_metric name v ts tags =
     \<lparr>mlName = name, mlValue = (case v of PointValue x \<Rightarrow> x | Buckets i bs \<Rightarrow> ''''),
      mlTimestamp = (case ts of Some t \<Rightarrow> t | None \<Rightarrow> ''''), mlTags = mput_all (map snd tags) [],
      mlBuckets = (case v of PointValue x \<Rightarrow> [] | Buckets i bs \<Rightarrow> mput_all (map (\<lambda>b. (snd b, fst b)) bs) [])\<rparr>"

text \<open>C31: A line that is printed is read as it was meant: for every name, value or histogram, time and non-empty list of
  tags of the line format, with or without quotes around the name and the names of the tags, the parser accepts the
  line and gives the name, the value, the time, and the tags and buckets as maps, in which a later entry with the same
  name replaces an earlier one. The values of the tags may hold any ASCII character but a quote, and must not end
  with a backslash; without a time, the text of the tags must not start with a digit.\<close>
theorem Parse_print_line:
  assumes "valid_name name" and "tags \<noteq> []" and "list_all valid_tag tags" and "valid_value v ts tags"
  shows "Parse (print_line q name v ts tags) = Some (line_metric name v ts tags)"
proof (cases v)
  case (PointValue x)
  let ?p = "grammar_init\<lparr>gName := name, gValue := x, gTimestamp := (case ts of Some t \<Rightarrow> t | None \<Rightarrow> ''''), gTags := []\<rparr>"
  obtain c where "foldl (\<lambda>p a. execute a p) ?p (concat (map tag_actions tags)) =
      ?p\<lparr>gTags := mput_all (map snd tags) (gTags ?p), currentTag := c\<rparr>" using execute_tags by blast
  then have "foldl (\<lambda>p a. execute a p) grammar_init (line_actions name v ts tags) =
      ?p\<lparr>gTags := mput_all (map snd tags) [], currentTag := c\<rparr>"
    by (cases ts) (simp_all add: PointValue ts_actions_def grammar_init_def)
  with MetricGrammar_read [OF assms] show ?thesis by (simp add: Parse_def line_metric_def PointValue grammar_init_def)
next
  case (Buckets i bs)
  let ?h = "grammar_init\<lparr>gHistogram := True, gTimestamp := (case ts of Some t \<Rightarrow> t | None \<Rightarrow> ''''), gBuckets := []\<rparr>"
  obtain d where buckets: "foldl (\<lambda>p a. execute a p) ?h (concat (map bucket_actions bs)) =
      ?h\<lparr>gBuckets := mput_all (map (\<lambda>b. (snd b, fst b)) bs) (gBuckets ?h), currentHistogramCount := d\<rparr>"
    using execute_buckets by blast
  let ?p = "?h\<lparr>gBuckets := mput_all (map (\<lambda>b. (snd b, fst b)) bs) [], currentHistogramCount := d, gName := name, gTags := []\<rparr>"
  obtain c where "foldl (\<lambda>p a. execute a p) ?p (concat (map tag_actions tags)) =
      ?p\<lparr>gTags := mput_all (map snd tags) (gTags ?p), currentTag := c\<rparr>" using execute_tags by blast
  with buckets have "foldl (\<lambda>p a. execute a p) grammar_init (line_actions name v ts tags) =
      ?p\<lparr>gTags := mput_all (map snd tags) [], currentTag := c\<rparr>"
    by (cases ts) (simp_all add: Buckets ts_actions_def grammar_init_def)
  with MetricGrammar_read [OF assms] show ?thesis by (simp add: Parse_def line_metric_def Buckets grammar_init_def)
qed

lemma Parse_print_line_witness:
  "Parse (print_line True ''~a.b'' (Buckets (CHR ''M'') [(''20'', ''-30.5''), (''10'', ''5'')]) (Some ''1493773500'')
      [(False, ''source'', ''x y''), (True, ''a/b'', ''1'')]) =
   Some \<lparr>mlName = ''~a.b'', mlValue = '''', mlTimestamp = ''1493773500'', mlTags = [(''source'', ''x y''), (''a/b'', ''1'')],
         mlBuckets = [(''-30.5'', ''20''), (''5'', ''10'')]\<rparr>"
proof -
  have "valid_name ''~a.b''" "[(False, ''source'', ''x y''), (True, ''a/b'', ''1'')] \<noteq> []"
    "list_all valid_tag [(False, ''source'', ''x y''), (True, ''a/b'', ''1'')]"
    "valid_value (Buckets (CHR ''M'') [(''20'', ''-30.5''), (''10'', ''5'')]) (Some ''1493773500'')
       [(False, ''source'', ''x y''), (True, ''a/b'', ''1'')]"
    by code_simp+
  from Parse_print_line [OF this, of True] show ?thesis
    by (simp add: line_metric_def mput_all_def mput_def)
qed

text \<open>What the conditions are for: without a time, a name of a tag that starts like one is taken for one, and the whole line is rejected.\<close>

text \<open>What the conditions are for: without a time, the name of a tag that starts like one is taken for one, and the line is
  rejected; a value that ends with a backslash hides its closing quote.\<close>

lemma tag_taken_for_time:
  "Parse (''up 1 1600000000x='' @ quoted True ''a'') = None"
  "Parse (''up 1 x='' @ quoted True (''a'' @ [backslash])) = None"
  by code_simp+

end
