(* ===== verification/Metric_Diff.thy ===== *)
theory Metric_Diff
  imports Metric_Lines
begin

text \<open>
  The comparison of the metrics that were received with those that are expected (\<open>metricline/diff.go\<close>): every metric
  gets a key, with which an expected metric finds what was received for it. The globs and the printing of a string
  with quotes (\<open>%#v\<close>) are parameters.
\<close>

section \<open>Keys (diff.go)\<close>

type_synonym keyer = "Metric \<Rightarrow> bool \<times> string"
type_synonym key_glob = "string \<Rightarrow> (string \<Rightarrow> bool) option"

record Diff =
  Missing :: "Metric list"
  Extra :: "Metric list"
  Unwanted :: "Metric list"

fun composite_loop :: "keyer list \<Rightarrow> string list \<Rightarrow> keyer" where
  "composite_loop [] keys metric = (True, Join '' '' keys)"
| "composite_loop (k # ks) keys metric =
     (case k metric of (matched, key) \<Rightarrow> if \<not> matched then (False, '''') else composite_loop ks (keys @ [key]) metric)"

definition compositeKey :: "keyer list \<Rightarrow> keyer" where
  "compositeKey keyers metric = composite_loop keyers [] metric"

definition nameKey :: "string \<Rightarrow> keyer" where
  "nameKey expected metric = (mlName metric = expected, mlName metric)"

definition valueKey :: "string \<Rightarrow> keyer" where
  "valueKey expected metric = (mlValue metric = expected, mlValue metric)"

definition timestampKey :: "string \<Rightarrow> keyer" where
  "timestampKey expected metric = (mlTimestamp metric = expected, mlTimestamp metric)"

definition tagNameKey :: "string \<Rightarrow> keyer" where
  "tagNameKey name metric =
     (let key = TrimPrefix name ''!''
      in if HasPrefix name ''!'' then (\<not> mhas (mlTags metric) key, key @ ''!=*'')
         else (mhas (mlTags metric) key, key @ ''=*''))"

text \<open>The sign that marks a pattern in a key is U+2245.\<close>

definition approx_sign :: string where "approx_sign = [CHR 0xE2, CHR 0x89, CHR 0x85]"

definition fullTagKey :: "key_glob \<Rightarrow> (string \<Rightarrow> string) \<Rightarrow> string \<Rightarrow> string \<Rightarrow> keyer" where
  "fullTagKey gc gofmt name v metric =
     (let key = TrimPrefix name ''!''; tags = mlTags metric
      in if HasPrefix name ''!''
         then (let adjustedKey = (if 0 < length (mgets tags key) then key else remove1 (CHR ''!'') key)
               in (mgets tags adjustedKey \<noteq> v, key @ ''!='' @ gofmt (mgets tags key)))
         else if HasPrefix name ''~''
         then (let adjustedKey = (if 0 < length (mgets tags key) then key else remove1 (CHR ''~'') key)
               in (case gc v of Some g \<Rightarrow> g (mgets tags adjustedKey) | None \<Rightarrow> False, key @ approx_sign @ gofmt v))
         else (mgets tags key = v, key @ ''='' @ gofmt (mgets tags key)))"

definition tagsKey :: "key_glob \<Rightarrow> (string \<Rightarrow> string) \<Rightarrow> (string, string) gomap \<Rightarrow> keyer" where
  "tagsKey gc gofmt tags =
     compositeKey (map (\<lambda>name. if mgets tags name = '''' then tagNameKey name else fullTagKey gc gofmt name (mgets tags name))
       (sort (mkeys tags)))"

definition metricKeyer :: "key_glob \<Rightarrow> (string \<Rightarrow> string) \<Rightarrow> Metric \<Rightarrow> keyer" where
  "metricKeyer gc gofmt m =
     compositeKey
       ([nameKey (mlName m)] @ (if mlValue m \<noteq> '''' then [valueKey (mlValue m)] else []) @
        (if mlTimestamp m \<noteq> '''' then [timestampKey (mlTimestamp m)] else []) @ [tagsKey gc gofmt (mlTags m)])"

text \<open>A pattern that does not compile is a panic when its keyer is made.\<close>

definition key_compiles :: "key_glob \<Rightarrow> Metric \<Rightarrow> bool" where
  "key_compiles gc m = list_all (\<lambda>e. HasPrefix (fst e) ''~'' \<and> snd e \<noteq> '''' \<longrightarrow> gc (snd e) \<noteq> None) (mlTags m)"

type_synonym keyers = "(string, keyer list) gomap"

definition keyers_of :: "keyers \<Rightarrow> string \<Rightarrow> keyer list" where
  "keyers_of ks name = (case mget ks name of None \<Rightarrow> [] | Some l \<Rightarrow> l)"

definition metricKeyers :: "key_glob \<Rightarrow> (string \<Rightarrow> string) \<Rightarrow> Metric list \<Rightarrow> keyers option" where
  "metricKeyers gc gofmt expected =
     foldl (\<lambda>ks m. case ks of None \<Rightarrow> None | Some ks \<Rightarrow>
              if key_compiles gc m then Some (mput (mlName m) (keyers_of ks (mlName m) @ [metricKeyer gc gofmt m]) ks) else None)
       (Some []) expected"

text \<open>The first keyer of its name that matches gives a metric its key, else its own.\<close>

definition metric_key :: "key_glob \<Rightarrow> (string \<Rightarrow> string) \<Rightarrow> keyers \<Rightarrow> Metric \<Rightarrow> string option" where
  "metric_key gc gofmt ks m =
     (case find (\<lambda>k. fst (k m)) (keyers_of ks (mlName m)) of
        Some k \<Rightarrow> Some (snd (k m))
      | None \<Rightarrow> if key_compiles gc m then Some (snd (metricKeyer gc gofmt m m)) else None)"

type_synonym key_map = "(string, Metric) gomap"

definition metricKeyMap :: "key_glob \<Rightarrow> (string \<Rightarrow> string) \<Rightarrow> Metric list \<Rightarrow> keyers \<Rightarrow> key_map option" where
  "metricKeyMap gc gofmt metrics ks =
     foldl (\<lambda>km m. case (km, metric_key gc gofmt ks m) of (Some km, Some key) \<Rightarrow> Some (mput key m km) | _ \<Rightarrow> None)
       (Some []) metrics"

definition disjunct :: "key_map \<Rightarrow> key_map \<Rightarrow> Metric list \<times> Metric list" where
  "disjunct a b =
     (map snd (filter (\<lambda>e. \<not> mhas b (fst e)) a), map snd (filter (\<lambda>e. \<not> mhas a (fst e)) b))"

definition intersect :: "key_map \<Rightarrow> key_map \<Rightarrow> Metric list" where
  "intersect a b = concat (map (\<lambda>e. case mget b (fst e) of Some v \<Rightarrow> [v] | None \<Rightarrow> []) a)"

definition DiffMetrics :: "key_glob \<Rightarrow> (string \<Rightarrow> string) \<Rightarrow> Metric list \<Rightarrow> Metric list \<Rightarrow> Metric list \<Rightarrow> Diff option" where
  "DiffMetrics gc gofmt expected excluded actual =
     (case (metricKeyers gc gofmt expected, metricKeyers gc gofmt excluded) of
        (Some eks, Some xks) \<Rightarrow>
          (case (metricKeyMap gc gofmt expected eks, metricKeyMap gc gofmt actual eks,
                 metricKeyMap gc gofmt excluded xks, metricKeyMap gc gofmt actual xks) of
             (Some em, Some am, Some xm, Some axm) \<Rightarrow>
               Some \<lparr>Missing = fst (disjunct em am), Extra = snd (disjunct em am), Unwanted = intersect xm axm\<rparr>
           | _ \<Rightarrow> None)
      | _ \<Rightarrow> None)"

section \<open>What a difference means\<close>

text \<open>An expected metric asks for its name, for its value and time when they are given, and for its tags: a tag with a value, a tag with
  any value, or the absence of a tag.\<close>

definition plain_tag :: "string \<times> string \<Rightarrow> bool" where
  "plain_tag e \<longleftrightarrow> \<not> HasPrefix (fst e) ''~'' \<and> (HasPrefix (fst e) ''!'' \<longrightarrow> snd e = '''')"

definition tag_met :: "Metric \<Rightarrow> string \<times> string \<Rightarrow> bool" where
  "tag_met a e =
     (if HasPrefix (fst e) ''!'' then \<not> mhas (mlTags a) (TrimPrefix (fst e) ''!'')
      else if snd e = '''' then mhas (mlTags a) (fst e) else mgets (mlTags a) (fst e) = snd e)"

definition meets :: "Metric \<Rightarrow> Metric \<Rightarrow> bool" where
  "meets e a \<longleftrightarrow> mlName a = mlName e \<and> (mlValue e = '''' \<or> mlValue a = mlValue e) \<and>
     (mlTimestamp e = '''' \<or> mlTimestamp a = mlTimestamp e) \<and> list_all (tag_met a) (mlTags e)"

definition plain_metric :: "Metric \<Rightarrow> bool" where
  "plain_metric e \<longleftrightarrow> wf_map (mlTags e) \<and> list_all plain_tag (mlTags e) \<and>
     list_all (\<lambda>t. HasPrefix (fst t) ''!'' \<longrightarrow> \<not> mhas (mlTags e) (TrimPrefix (fst t) ''!'')) (mlTags e)"

lemma composite_loop_all:
  "composite_loop ks keys m =
     (if list_all (\<lambda>k. fst (k m)) ks then (True, Join '' '' (keys @ map (\<lambda>k. snd (k m)) ks)) else (False, ''''))"
  by (induction ks arbitrary: keys) (auto split: prod.split)

lemma compositeKey_all:
  "compositeKey ks m = (if list_all (\<lambda>k. fst (k m)) ks then (True, Join '' '' (map (\<lambda>k. snd (k m)) ks)) else (False, ''''))"
  by (simp add: compositeKey_def composite_loop_all)

definition tag_key :: "(string \<Rightarrow> string) \<Rightarrow> string \<times> string \<Rightarrow> string" where
  "tag_key gofmt e =
     (if snd e = '''' then (if HasPrefix (fst e) ''!'' then TrimPrefix (fst e) ''!'' @ ''!=*'' else fst e @ ''=*'')
      else fst e @ ''='' @ gofmt (snd e))"

lemma tag_keyer:
  assumes "plain_tag (n, v)" and "tag_met a (n, v)"
  shows "(if v = '''' then tagNameKey n else fullTagKey gc gofmt n v) a = (True, tag_key gofmt (n, v))"
proof -
  have "\<not> HasPrefix n ''!'' \<Longrightarrow> TrimPrefix n ''!'' = n" by (simp add: TrimPrefix_def)
  with assms show ?thesis
    by (cases "HasPrefix n ''!''") (auto simp: plain_tag_def tag_met_def tagNameKey_def fullTagKey_def tag_key_def)
qed

lemma compositeKey_map:
  "(\<And>x. x \<in> set xs \<Longrightarrow> h x a = (True, f x)) \<Longrightarrow> compositeKey (map h xs) a = (True, Join '' '' (map f xs))"
  by (simp add: compositeKey_all list_all_iff comp_def cong: map_cong)

lemma tagsKey_met:
  assumes "wf_map tags" and "list_all plain_tag tags" and "list_all (tag_met a) tags"
  shows "tagsKey gc gofmt tags a = (True, Join '' '' (map (\<lambda>n. tag_key gofmt (n, mgets tags n)) (sort (mkeys tags))))"
proof -
  have entry: "(n, mgets tags n) \<in> set tags" if "n \<in> set (mkeys tags)" for n
  proof -
    obtain v where "mget tags n = Some v" using \<open>n \<in> set (mkeys tags)\<close> by (auto simp: mhas_mkeys [symmetric] mhas_def)
    then show ?thesis by (simp add: mgets_def mget_in_set)
  qed
  have "(if mgets tags n = '''' then tagNameKey n else fullTagKey gc gofmt n (mgets tags n)) a = (True, tag_key gofmt (n, mgets tags n))"
    if "n \<in> set (mkeys tags)" for n
    by (rule tag_keyer) (use entry [OF that] assms(2,3) in \<open>auto simp: list_all_iff\<close>)
  then show ?thesis unfolding tagsKey_def by (intro compositeKey_map) simp
qed

text \<open>Whatever meets a plain metric gets the key of that metric.\<close>

lemma metricKeyer_met:
  assumes "plain_metric e" and "meets e a"
  shows "fst (metricKeyer gc gofmt e a)" and "snd (metricKeyer gc gofmt e a) = snd (metricKeyer gc gofmt e e)"
proof -
  have tag: "tagsKey gc gofmt (mlTags e) b = (True, Join '' '' (map (\<lambda>n. tag_key gofmt (n, mgets (mlTags e) n)) (sort (mkeys (mlTags e)))))"
    if "list_all (tag_met b) (mlTags e)" for b
    using assms(1) that by (intro tagsKey_met) (simp_all add: plain_metric_def)
  have "list_all (tag_met e) (mlTags e)"
  proof -
    have "tag_met e t" if "t \<in> set (mlTags e)" for t
    proof -
      have "mget (mlTags e) (fst t) = Some (snd t)"
        using assms(1) that by (simp add: plain_metric_def mget_iff_in_set)
      then show ?thesis
        using assms(1) that by (auto simp: plain_metric_def tag_met_def list_all_iff mhas_def mgets_def)
    qed
    then show ?thesis by (simp add: list_all_iff)
  qed
  note e = tag [OF this]
  from assms(2) have a: "list_all (tag_met a) (mlTags e)" by (simp add: meets_def)
  note a = tag [OF a]
  show "fst (metricKeyer gc gofmt e a)" "snd (metricKeyer gc gofmt e a) = snd (metricKeyer gc gofmt e e)"
    using assms(2) by (auto simp: metricKeyer_def compositeKey_all meets_def nameKey_def valueKey_def timestampKey_def a e)
qed

lemma metricKeyers_filter:
  assumes "metricKeyers gc gofmt ms = Some ks"
  shows "keyers_of ks n = map (metricKeyer gc gofmt) (filter (\<lambda>m. mlName m = n) ms)"
  using assms
proof (induction ms arbitrary: ks rule: rev_induct)
  case (snoc m ms)
  then obtain ks' where ks': "metricKeyers gc gofmt ms = Some ks'" "ks = mput (mlName m) (keyers_of ks' (mlName m) @ [metricKeyer gc gofmt m]) ks'"
    by (auto simp: metricKeyers_def split: option.splits if_splits)
  from snoc.IH [OF this(1)] show ?case by (auto simp: ks'(2) keyers_of_def)
qed (simp add: metricKeyers_def keyers_of_def)

lemma filter_distinct: "distinct (map f ms) \<Longrightarrow> e \<in> set ms \<Longrightarrow> filter (\<lambda>m. f m = f e) ms = [e]"
  by (induction ms) (auto simp: filter_empty_conv, metis imageI)

lemma metric_key_met:
  assumes "metricKeyers gc gofmt ms = Some ks" and "distinct (map mlName ms)" and "e \<in> set ms" and "plain_metric e" and "meets e a"
  shows "metric_key gc gofmt ks a = Some (snd (metricKeyer gc gofmt e e))"
proof -
  have "mlName a = mlName e" using assms(5) by (simp add: meets_def)
  then have "keyers_of ks (mlName a) = [metricKeyer gc gofmt e]"
    using metricKeyers_filter [OF assms(1)] filter_distinct [OF assms(2,3)] by simp
  then show ?thesis using metricKeyer_met [OF assms(4,5)] by (simp add: metric_key_def)
qed

lemma meets_refl: "plain_metric e \<Longrightarrow> meets e e"
  by (force simp: plain_metric_def meets_def tag_met_def list_all_iff mhas_def mgets_def mget_iff_in_set [symmetric])

lemma metricKeyMap_entries:
  assumes "metricKeyMap gc gofmt ms ks = Some km"
  shows "\<And>m. m \<in> set ms \<Longrightarrow> \<exists>k. metric_key gc gofmt ks m = Some k \<and> mhas km k"
    and "\<And>k v. (k, v) \<in> set km \<Longrightarrow> v \<in> set ms \<and> metric_key gc gofmt ks v = Some k"
    and "wf_map km"
proof -
  have "(\<forall>m \<in> set ms. \<exists>k. metric_key gc gofmt ks m = Some k \<and> mhas km k) \<and>
      (\<forall>k v. (k, v) \<in> set km \<longrightarrow> v \<in> set ms \<and> metric_key gc gofmt ks v = Some k) \<and> wf_map km"
    using assms
  proof (induction ms arbitrary: km rule: rev_induct)
    case (snoc m ms)
    then obtain km' k where km: "metricKeyMap gc gofmt ms ks = Some km'" "metric_key gc gofmt ks m = Some k" "km = mput k m km'"
      by (auto simp: metricKeyMap_def split: option.splits)
    note IH = snoc.IH [OF km(1)]
    have wf: "wf_map km" using IH by (simp add: km(3))
    have "v \<in> set (ms @ [m]) \<and> metric_key gc gofmt ks v = Some l" if "(l, v) \<in> set km" for l v
    proof -
      have "mget km l = Some v" using that wf by (simp add: mget_iff_in_set)
      then have "l = k \<and> v = m \<or> mget km' l = Some v" by (auto simp: km(3) split: if_splits)
      then show ?thesis using IH km(2) mget_in_set by fastforce
    qed
    with IH km wf show ?case by auto
  qed (simp add: metricKeyMap_def)
  then show "\<And>m. m \<in> set ms \<Longrightarrow> \<exists>k. metric_key gc gofmt ks m = Some k \<and> mhas km k"
    and "\<And>k v. (k, v) \<in> set km \<Longrightarrow> v \<in> set ms \<and> metric_key gc gofmt ks v = Some k" and "wf_map km"
    by blast+
qed

text \<open>C32: The comparison raises no false alarm. When the metrics that are expected (and those that are excluded) have different
  names and ask for values of tags, for tags, or for the absence of tags, then a metric that was received and meets an
  expected one is not reported as extra, the expected one is not reported as missing, and a metric that meets an
  excluded one makes the report of unwanted metrics non-empty.\<close>
theorem DiffMetrics_no_false_alarm:
  assumes "DiffMetrics gc gofmt expected excluded actual = Some d"
    and "list_all plain_metric (expected @ excluded)"
    and "distinct (map mlName expected)" and "distinct (map mlName excluded)"
    and "a \<in> set actual"
  shows "(e \<in> set expected \<and> meets e a \<longrightarrow> e \<notin> set (Missing d) \<and> a \<notin> set (Extra d)) \<and>
    (x \<in> set excluded \<and> meets x a \<longrightarrow> Unwanted d \<noteq> [])"
proof -
  from assms(1) obtain eks xks em am xm axm where runs:
    "metricKeyers gc gofmt expected = Some eks" "metricKeyers gc gofmt excluded = Some xks"
    "metricKeyMap gc gofmt expected eks = Some em" "metricKeyMap gc gofmt actual eks = Some am"
    "metricKeyMap gc gofmt excluded xks = Some xm" "metricKeyMap gc gofmt actual xks = Some axm"
    and d: "d = \<lparr>Missing = fst (disjunct em am), Extra = snd (disjunct em am), Unwanted = intersect xm axm\<rparr>"
    by (auto simp: DiffMetrics_def split: option.splits)
  have "e \<notin> set (Missing d) \<and> a \<notin> set (Extra d)" if e: "e \<in> set expected" "meets e a"
  proof -
    have plain: "plain_metric e" using assms(2) e(1) by (simp add: list_all_iff)
    let ?k = "snd (metricKeyer gc gofmt e e)"
    have ka: "metric_key gc gofmt eks a = Some ?k" and ke: "metric_key gc gofmt eks e = Some ?k"
      using metric_key_met [OF runs(1) assms(3) e(1) plain] e(2) meets_refl [OF plain] by auto
    have "mhas em ?k" "mhas am ?k"
      using metricKeyMap_entries(1) [OF runs(3) e(1)] metricKeyMap_entries(1) [OF runs(4) assms(5)] ka ke by auto
    then show ?thesis
      using metricKeyMap_entries(2) [OF runs(3)] metricKeyMap_entries(2) [OF runs(4)] ka ke
      by (force simp: d disjunct_def)
  qed
  moreover have "Unwanted d \<noteq> []" if x: "x \<in> set excluded" "meets x a"
  proof -
    have plain: "plain_metric x" using assms(2) x(1) by (simp add: list_all_iff)
    let ?k = "snd (metricKeyer gc gofmt x x)"
    have "mhas xm ?k" "mhas axm ?k"
      using metricKeyMap_entries(1) [OF runs(5) x(1)] metricKeyMap_entries(1) [OF runs(6) assms(5)]
        metric_key_met [OF runs(2) assms(4) x(1) plain] x(2) meets_refl [OF plain] by auto
    then obtain w v where "(?k, w) \<in> set xm" "mget axm ?k = Some v" by (auto simp: mhas_def dest: mget_in_set)
    then show ?thesis by (force simp: d intersect_def)
  qed
  ultimately show ?thesis by blast
qed

definition named :: "string \<Rightarrow> (string \<times> string) list \<Rightarrow> Metric" where
  "named n tags = \<lparr>mlName = n, mlValue = '''', mlTimestamp = '''', mlTags = tags, mlBuckets = []\<rparr>"

lemma DiffMetrics_no_false_alarm_witness:
  "(let e = named ''up'' [(''node'', ''''), (''!pod'', '''')]; a = named ''up'' [(''node'', ''n1''), (''x'', ''y'')];
        x = named ''down'' []
    in case DiffMetrics (\<lambda>_. None) id [e] [x] [a] of
         None \<Rightarrow> False | Some d \<Rightarrow> e \<notin> set (Missing d) \<and> a \<notin> set (Extra d))"
proof -
  let ?e = "named ''up'' [(''node'', ''''), (''!pod'', '''')]" and ?a = "named ''up'' [(''node'', ''n1''), (''x'', ''y'')]"
    and ?x = "named ''down'' []"
  obtain d where d: "DiffMetrics (\<lambda>_. None) id [?e] [?x] [?a] = Some d"
  proof -
    have "(case DiffMetrics (\<lambda>_. None) id [?e] [?x] [?a] of None \<Rightarrow> False | Some d \<Rightarrow> True)" by code_simp
    then show ?thesis using that by (cases "DiffMetrics (\<lambda>_. None) id [?e] [?x] [?a]") simp_all
  qed
  have "list_all plain_metric ([?e] @ [?x])" "distinct (map mlName [?e])" "distinct (map mlName [?x])" "meets ?e ?a"
    by code_simp+
  with DiffMetrics_no_false_alarm [OF d, of ?a ?e ?x] show ?thesis by (simp add: d)
qed

text \<open>With two expectations of one name the first one that matches takes a metric: an expectation that asks for more stands
  behind one that asks for less, and is never checked. A tag that must not have a value is only met without the tag.\<close>

lemma general_hides_specific:
  "(let d = DiffMetrics (\<lambda>_. None) id [named ''up'' [], named ''up'' [(''node'', ''n1'')]] [] [named ''up'' []]
    in map_option Missing d = Some [])"
  by code_simp

lemma other_value_reported:
  "(let d = DiffMetrics (\<lambda>_. None) id [named ''up'' [(''!node'', ''n1'')]] [] [named ''up'' [(''node'', ''n2'')]]
    in map_option (\<lambda>d. (length (Missing d), length (Extra d))) d = Some (1, 1))"
  by code_simp

end
