(* ===== verification/Event_Lines.thy ===== *)
theory Event_Lines
  imports Line_Grammars Events
begin

text \<open>
  The events the test proxy receives (\<open>test-proxy/internal/testproxy/eventline\<close>: the grammar, parser.go, store.go),
  and what it says of them.
\<close>

section \<open>The grammar (event_grammar.peg)\<close>

datatype event_action =
    EvName string
  | EvEndMillis string
  | EvStartMillis string
  | EvAnnotations
  | EvTags
  | EvKey string
  | EvAnnotation
  | EvTag
  | EvClear
  | EvQuote
  | EvText string

definition ev_name_text :: "event_action rule" where
  "ev_name_text = plus (sat is_name_char)"

definition eventName :: "event_action rule" where
  "eventName = alt (seq (lit quote) (seq (capture EvName ev_name_text) (lit quote))) (capture EvName ev_name_text)"

definition ev_timestamp :: "event_action rule" where
  "ev_timestamp = plus (sat is_digit)"

definition annotation_item :: "event_action rule" where
  "annotation_item =
     alt (seq (lit backslash) (seq (lit quote) (act EvQuote))) (capture EvText (other_than quote))"

definition annotationValue :: "event_action rule" where
  "annotationValue = seq (act EvClear) (seq (lit quote) (seq (plus annotation_item) (lit quote)))"

definition annotation :: "event_action rule" where
  "annotation = seq (capture EvKey ev_name_text) (seq (lit (CHR ''='')) (seq annotationValue (act EvAnnotation)))"

text \<open>The text of a tag is read in pairs of runes.\<close>

definition ev_tag_item :: "event_action rule" where
  "ev_tag_item =
     alt (seq (word [backslash, backslash, quote]) (act EvQuote))
         (capture EvText (seq (other_than backslash) (other_than quote)))"

definition ev_tagValue :: "event_action rule" where
  "ev_tagValue = seq (act EvClear) (seq (word [backslash, quote]) (seq (plus ev_tag_item) (word [backslash, quote])))"

definition ev_tag :: "event_action rule" where
  "ev_tag =
     seq (word (''tag='' @ [quote, backslash, quote])) (seq (capture EvKey ev_name_text)
       (seq (word ([backslash, quote] @ '': '')) (seq ev_tagValue (seq (lit quote) (act EvTag)))))"

definition annotationsOrTags :: "event_action rule" where
  "annotationsOrTags =
     seq (act EvAnnotations) (seq (act EvTags) (seq (alt ev_tag annotation)
       (star (seq (lit (CHR '' '')) (alt ev_tag annotation)))))"

definition EventGrammar :: "event_action rule" where
  "EventGrammar =
     seq (word ''@Event'') (seq (lit (CHR '' '')) (seq (capture EvStartMillis ev_timestamp) (seq (lit (CHR '' ''))
       (seq (capture EvEndMillis ev_timestamp) (seq (lit (CHR '' '')) (seq eventName (seq (lit (CHR '' ''))
         (seq annotationsOrTags end_of_line))))))))"

section \<open>The actions and the parser (Execute, parser.go)\<close>

record event_state =
  esName :: string
  esEnd :: string
  esStart :: string
  esAnnotations :: "(string, string) gomap"
  esTags :: "(string, string) gomap"
  currentKey :: string
  currentValue :: string

fun ev_execute :: "event_action \<Rightarrow> event_state \<Rightarrow> event_state" where
  "ev_execute (EvName text) p = p\<lparr>esName := text\<rparr>"
| "ev_execute (EvEndMillis text) p = p\<lparr>esEnd := text\<rparr>"
| "ev_execute (EvStartMillis text) p = p\<lparr>esStart := text\<rparr>"
| "ev_execute EvAnnotations p = p\<lparr>esAnnotations := []\<rparr>"
| "ev_execute EvTags p = p\<lparr>esTags := []\<rparr>"
| "ev_execute (EvKey text) p = p\<lparr>currentKey := text\<rparr>"
| "ev_execute EvAnnotation p = p\<lparr>esAnnotations := mput (currentKey p) (currentValue p) (esAnnotations p)\<rparr>"
| "ev_execute EvTag p = p\<lparr>esTags := mput (currentKey p) (currentValue p) (esTags p)\<rparr>"
| "ev_execute EvClear p = p\<lparr>currentValue := ''''\<rparr>"
| "ev_execute EvQuote p = p\<lparr>currentValue := currentValue p @ [quote]\<rparr>"
| "ev_execute (EvText text) p = p\<lparr>currentValue := currentValue p @ text\<rparr>"

record line_event =
  leName :: string
  leStart :: string
  leEnd :: string
  leAnnotations :: "(string, string) gomap"
  leTags :: "(string, string) gomap"

definition event_init :: event_state where
  "event_init = \<lparr>esName = '''', esEnd = '''', esStart = '''', esAnnotations = [], esTags = [], currentKey = '''', currentValue = ''''\<rparr>"

definition ev_Parse :: "string \<Rightarrow> line_event option" where
  "ev_Parse line =
     (case EventGrammar line of
        None \<Rightarrow> None
      | Some (actions, r) \<Rightarrow>
          let g = foldl (\<lambda>p a. ev_execute a p) event_init actions
          in Some \<lparr>leName = esName g, leStart = esStart g, leEnd = esEnd g, leAnnotations = esAnnotations g, leTags = esTags g\<rparr>)"

section \<open>The store (store.go)\<close>

record event_results =
  EventCount :: nat
  BadEventLines :: "string list"
  ZeroStartMillis :: "line_event list"
  MissingAnnotations :: "(string, line_event list) gomap"
  UnexpectedAnnotations :: "(string, line_event list) gomap"
  MissingTags :: "(string, line_event list) gomap"

definition event_NewStore :: event_results where
  "event_NewStore = \<lparr>EventCount = 0, BadEventLines = [], ZeroStartMillis = [], MissingAnnotations = [],
     UnexpectedAnnotations = [], MissingTags = []\<rparr>"

definition mappend :: "string \<Rightarrow> 'a \<Rightarrow> (string, 'a list) gomap \<Rightarrow> (string, 'a list) gomap" where
  "mappend k x m = mput k ((case mget m k of None \<Rightarrow> [] | Some xs \<Rightarrow> xs) @ [x]) m"

definition expectAnnotationNotMissing :: "string \<Rightarrow> line_event \<Rightarrow> event_results \<Rightarrow> event_results" where
  "expectAnnotationNotMissing key e r =
     (if mgets (leAnnotations e) key = '''' then r\<lparr>MissingAnnotations := mappend key e (MissingAnnotations r)\<rparr> else r)"

definition expectTagNotMissing :: "string \<Rightarrow> line_event \<Rightarrow> event_results \<Rightarrow> event_results" where
  "expectTagNotMissing key e r =
     (if mgets (leTags e) key = '''' then r\<lparr>MissingTags := mappend key e (MissingTags r)\<rparr> else r)"

definition event_Record :: "line_event \<Rightarrow> event_results \<Rightarrow> event_results" where
  "event_Record e r =
     (let r = r\<lparr>EventCount := EventCount r + 1\<rparr>;
          r = (if leStart e = ''0'' \<or> leStart e = '''' then r\<lparr>ZeroStartMillis := ZeroStartMillis r @ [e]\<rparr> else r);
          r = expectAnnotationNotMissing ''cluster'' e (expectAnnotationNotMissing ''host'' e r);
          r = (if mgets (leAnnotations e) ''type'' = ''Normal''
               then r\<lparr>UnexpectedAnnotations := mappend ''type'' e (UnexpectedAnnotations r)\<rparr> else r);
          r = expectTagNotMissing ''component'' e (expectTagNotMissing ''reason'' e
                (expectTagNotMissing ''kind'' e (expectTagNotMissing ''namespace'' e r)));
          kind = ToLower (mgets (leTags e) ''kind'')
      in if kind = ''pod'' \<and> mgets (leTags e) ''pod_name'' = ''''
         then r\<lparr>MissingTags := mappend ''pod_name'' e (MissingTags r)\<rparr>
         else if mgets (leTags e) ''resource_name'' = ''''
         then r\<lparr>MissingTags := mappend ''resource_name'' e (MissingTags r)\<rparr>
         else r)"

definition RecordBadLine :: "string \<Rightarrow> event_results \<Rightarrow> event_results" where
  "RecordBadLine line r = r\<lparr>BadEventLines := BadEventLines r @ [line]\<rparr>"

definition event_line :: "event_results \<Rightarrow> string \<Rightarrow> event_results" where
  "event_line r line =
     (if \<not> HasPrefix line ''@Event'' then r
      else case ev_Parse line of None \<Rightarrow> RecordBadLine line r | Some e \<Rightarrow> event_Record e r)"

section \<open>Tags are read in pairs\<close>

text \<open>A tag as it stands in a line: its name and value in quotes that are escaped, within quotes.\<close>

definition print_ev_tag :: "string \<Rightarrow> string \<Rightarrow> string" where
  "print_ev_tag k v = ''tag='' @ [quote, backslash, quote] @ k @ [backslash, quote] @ '': '' @ [backslash, quote] @ v @ [backslash, quote, quote]"

definition plain_ev_char :: "char \<Rightarrow> bool" where
  "plain_ev_char c \<longleftrightarrow> c \<noteq> quote \<and> c \<noteq> backslash \<and> (of_char c :: nat) < 128"

definition print_event :: "string \<Rightarrow> string \<Rightarrow> string \<Rightarrow> string \<Rightarrow> string \<Rightarrow> string" where
  "print_event start stop name k v = ''@Event '' @ start @ '' '' @ stop @ '' '' @ name @ '' '' @ print_ev_tag k v"

lemma other_than_plain: "plain_ev_char c \<Longrightarrow> c \<noteq> x \<Longrightarrow> other_than x (c # s) = Some ([], s)"
  by (simp add: other_than_def rune_length_def plain_ev_char_def Let_def)

lemma plus_star: "reads p \<Longrightarrow> p s = Some (a, r) \<Longrightarrow> plus p s = star p s"
  by (simp add: plus_def seq_def star_step split: option.split)

lemma reads_ev_items [simp]: "reads ev_tag_item" "reads annotation_item"
proof -
  show "reads ev_tag_item" by (simp add: ev_tag_item_def reading)
  show "reads annotation_item" by (simp add: annotation_item_def reading)
qed

fun pairs :: "string \<Rightarrow> event_action list" where
  "pairs (a # b # s) = EvText [a, b] # pairs s"
| "pairs s = []"

lemma quote_backslash [simp]: "quote \<noteq> backslash" "backslash \<noteq> quote"
  by (simp_all add: quote_def backslash_def)

lemma ev_tag_item_pair:
  assumes "plain_ev_char a" and "b \<noteq> quote" and "rune_length b = 1"
  shows "ev_tag_item (a # b # s) = Some ([EvText [a, b]], s)"
proof -
  have a: "a \<noteq> backslash" "rune_length a = 1" using assms(1) by (simp_all add: plain_ev_char_def rune_length_def Let_def)
  then show ?thesis
    using assms(2,3) by (simp add: ev_tag_item_def alt_def seq_def capture_def other_than_def)
qed

lemma star_pairs:
  assumes "list_all plain_ev_char v" and "even (length v)"
  shows "star ev_tag_item (v @ r) = map_option (\<lambda>(b, t). (pairs v @ b, t)) (star ev_tag_item r)"
  using assms
proof (induction v rule: pairs.induct)
  case (1 a b s)
  have "rune_length b = 1" "b \<noteq> quote" using 1(2) by (simp_all add: plain_ev_char_def rune_length_def Let_def)
  then have "ev_tag_item (a # b # s @ r) = Some ([EvText [a, b]], s @ r)" using 1(2) by (intro ev_tag_item_pair) simp_all
  from star_step [OF reads_ev_items(1) this] 1 show ?case by (simp add: option.map_comp comp_def split_def)
qed (simp_all add: option.map_id)

lemma tag_item_ends:
  "ev_tag_item (backslash # quote # s) = None" "ev_tag_item (quote # quote # s) = None" "ev_tag_item [] = None"
  by (simp_all add: ev_tag_item_def alt_def seq_def capture_def other_than_def rune_length_def quote_def backslash_def)

lemma ev_tagValue_even:
  assumes "v \<noteq> []" and "list_all plain_ev_char v" and "even (length v)"
  shows "ev_tagValue (backslash # quote # v @ backslash # quote # r) = Some (EvClear # pairs v, r)"
proof -
  obtain a b s where v: "v = a # b # s" using assms(1,3) by (cases v rule: pairs.cases) auto
  have "ev_tag_item (v @ backslash # quote # r) = Some ([EvText [a, b]], s @ backslash # quote # r)"
    using assms(2) by (simp add: v ev_tag_item_pair plain_ev_char_def rune_length_def Let_def)
  from plus_star [OF reads_ev_items(1) this] star_pairs [OF assms(2,3)]
  have "plus ev_tag_item (v @ backslash # quote # r) = Some (pairs v, backslash # quote # r)"
    by (simp add: star_stop tag_item_ends)
  then show ?thesis by (simp add: ev_tagValue_def seq_def)
qed

lemma ev_tagValue_odd:
  assumes "list_all plain_ev_char v" and "odd (length v)"
  shows "ev_tagValue (backslash # quote # v @ backslash # quote # quote # r) = None"
proof -
  define w c where "w = butlast v" and "c = last v"
  have v: "v = w @ [c]" using assms(2) by (cases v rule: rev_cases) (auto simp: w_def c_def)
  have w: "list_all plain_ev_char w" "even (length w)" and c: "plain_ev_char c" using assms by (simp_all add: v)
  have bs: "rune_length backslash = 1" by (simp add: rune_length_def backslash_def)
  have last: "ev_tag_item (c # backslash # quote # quote # r) = Some ([EvText [c, backslash]], quote # quote # r)"
    by (rule ev_tag_item_pair) (simp_all add: c bs)
  have "star ev_tag_item (v @ backslash # quote # quote # r) = Some (pairs w @ [EvText [c, backslash]], quote # quote # r)"
    using star_pairs [OF w, of "c # backslash # quote # quote # r"] star_step [OF reads_ev_items(1) last]
    by (simp add: v star_stop tag_item_ends)
  moreover have "\<exists>x. ev_tag_item (v @ backslash # quote # quote # r) = Some x"
  proof (cases w rule: pairs.cases)
    case (1 a b s)
    then show ?thesis using w(1) by (simp add: v ev_tag_item_pair plain_ev_char_def rune_length_def Let_def)
  qed (use w(2) last in \<open>simp_all add: v\<close>)
  ultimately have "plus ev_tag_item (v @ backslash # quote # quote # r) =
      Some (pairs w @ [EvText [c, backslash]], quote # quote # r)"
    using plus_star [OF reads_ev_items(1)] by fastforce
  then show ?thesis by (simp add: ev_tagValue_def seq_def)
qed

lemma star_annotation_plain:
  "list_all plain_ev_char xs \<Longrightarrow>
   star annotation_item (xs @ r) = map_option (\<lambda>(b, t). (map (\<lambda>c. EvText [c]) xs @ b, t)) (star annotation_item r)"
proof (induction xs)
  case (Cons c xs)
  then have c: "c \<noteq> backslash" "c \<noteq> quote" "rune_length c = 1" by (simp_all add: plain_ev_char_def rune_length_def Let_def)
  then have "annotation_item (c # xs @ r) = Some ([EvText [c]], xs @ r)"
    by (simp add: annotation_item_def alt_def seq_def capture_def other_than_def)
  from star_step [OF reads_ev_items(2) this] Cons show ?case by (simp add: option.map_comp comp_def split_def)
qed (simp add: option.map_id)

lemma annotation_item_quote: "annotation_item (backslash # quote # r) = Some ([EvQuote], r)"
  by (simp add: annotation_item_def alt_def seq_def)

lemma annotation_item_end: "annotation_item (quote # r) = None"
  by (simp add: annotation_item_def alt_def seq_def capture_def other_than_def)

lemma star_annotation_quote:
  "star annotation_item (backslash # quote # r) = map_option (\<lambda>(b, t). (EvQuote # b, t)) (star annotation_item r)"
  using star_step [OF reads_ev_items(2) annotation_item_quote] by simp

lemma star_annotation_end: "star annotation_item (quote # r) = Some ([], quote # r)"
  by (rule star_stop) (rule annotation_item_end)

lemma name_char_plain: "list_all is_name_char k \<Longrightarrow> list_all plain_ev_char k"
proof -
  have "is_name_char c \<Longrightarrow> plain_ev_char c" for c
    by (auto simp: is_name_char_def is_alnum_def plain_ev_char_def quote_def backslash_def Let_def)
  then show "list_all is_name_char k \<Longrightarrow> list_all plain_ev_char k" by (simp add: list_all_iff)
qed

lemma captured_run:
  assumes "list_all P k" and "k \<noteq> []" and "\<not> P x"
  shows "capture f (plus (sat P)) (k @ x # r) = Some ([f k], x # r)"
proof -
  have "plus (sat P) (k @ x # r) = Some ([], x # r)" using assms by (intro plus_sat) simp_all
  from capture_read [of "plus (sat P)" k _ "[]" f, OF this] show ?thesis by simp
qed

lemma not_ev_name_char [simp]: "\<not> is_name_char backslash" "\<not> is_name_char (CHR ''='')" "\<not> is_name_char (CHR '' '')" "\<not> is_name_char quote"
  "\<not> is_digit (CHR '' '')"
  by (simp_all add: is_name_char_def is_alnum_def is_digit_def backslash_def quote_def)

lemma ev_tag_even:
  assumes "list_all is_name_char k" "k \<noteq> []" "list_all plain_ev_char v" "v \<noteq> []" "even (length v)"
  shows "ev_tag (print_ev_tag k v) = Some (EvKey k # EvClear # pairs v @ [EvTag], [])"
proof -
  have key: "capture EvKey ev_name_text (k @ backslash # r) = Some ([EvKey k], backslash # r)" for r
    unfolding ev_name_text_def by (rule captured_run) (simp_all add: assms)
  show ?thesis
    using ev_tagValue_even [OF assms(4,3,5), of "[quote]"]
    by (simp add: ev_tag_def print_ev_tag_def seq_def key)
qed

lemma ev_tag_odd:
  assumes "list_all is_name_char k" "k \<noteq> []" "list_all plain_ev_char v" "odd (length v)"
  shows "ev_tag (print_ev_tag k v) = None"
proof -
  have key: "capture EvKey ev_name_text (k @ backslash # r) = Some ([EvKey k], backslash # r)" for r
    unfolding ev_name_text_def by (rule captured_run) (simp_all add: assms)
  show ?thesis
    using ev_tagValue_odd [OF assms(3,4), of "[]"]
    by (simp add: ev_tag_def print_ev_tag_def seq_def key)
qed

definition texts :: "string \<Rightarrow> event_action list" where
  "texts s = map (\<lambda>c. EvText [c]) s"

lemma annotation_of_tag:
  assumes "list_all is_name_char k" "list_all plain_ev_char v"
  shows "annotation (print_ev_tag k v) =
    Some (EvKey ''tag'' # EvClear # EvQuote # texts k @ EvQuote # texts '': '' @ EvQuote # texts v @ EvQuote # [EvAnnotation], [])"
proof -
  have key: "capture EvKey ev_name_text (''tag'' @ CHR ''='' # r) = Some ([EvKey ''tag''], CHR ''='' # r)" for r
    unfolding ev_name_text_def by (rule captured_run) (simp_all add: is_name_char_def is_alnum_def)
  let ?s = "backslash # quote # k @ backslash # quote # '': '' @ backslash # quote # v @ backslash # quote # [quote]"
  have k: "list_all plain_ev_char k" by (rule name_char_plain [OF assms(1)])
  have colon: "list_all plain_ev_char '': ''" by (simp add: plain_ev_char_def quote_def backslash_def)
  have "star annotation_item ?s = Some (EvQuote # texts k @ EvQuote # texts '': '' @ EvQuote # texts v @ [EvQuote], [quote])"
    by (simp only: star_annotation_quote star_annotation_plain [OF k] star_annotation_plain [OF colon] star_annotation_plain [OF assms(2)]
        star_annotation_end option.map prod.case texts_def)
  then have "plus annotation_item ?s = Some (EvQuote # texts k @ EvQuote # texts '': '' @ EvQuote # texts v @ [EvQuote], [quote])"
    using plus_star [OF reads_ev_items(2) annotation_item_quote] by simp
  then have "annotationValue (quote # ?s) = Some (EvClear # EvQuote # texts k @ EvQuote # texts '': '' @ EvQuote # texts v @ [EvQuote], [])"
    by (simp add: annotationValue_def seq_def)
  moreover have "print_ev_tag k v = ''tag'' @ CHR ''='' # quote # ?s" by (simp add: print_ev_tag_def)
  ultimately show ?thesis by (simp add: annotation_def seq_def key del: append_Cons)
qed

lemma execute_texts:
  "foldl (\<lambda>p a. ev_execute a p) p (texts s) = p\<lparr>currentValue := currentValue p @ s\<rparr>"
  by (induction s arbitrary: p) (simp_all add: texts_def)

lemma execute_pairs:
  "even (length s) \<Longrightarrow> foldl (\<lambda>p a. ev_execute a p) p (pairs s) = p\<lparr>currentValue := currentValue p @ s\<rparr>"
  by (induction s arbitrary: p rule: pairs.induct) simp_all

lemma EventGrammar_read:
  assumes "list_all is_digit start" "start \<noteq> []" "list_all is_digit stop" "stop \<noteq> []" "list_all is_name_char name" "name \<noteq> []"
    and "alt ev_tag annotation (print_ev_tag k v) = Some (acts, [])"
  shows "EventGrammar (print_event start stop name k v) =
    Some (EvStartMillis start # EvEndMillis stop # EvName name # EvAnnotations # EvTags # acts, [])"
proof -
  have start: "capture EvStartMillis ev_timestamp (start @ CHR '' '' # r) = Some ([EvStartMillis start], CHR '' '' # r)" for r
    unfolding ev_timestamp_def by (rule captured_run) (simp_all add: assms)
  have stop: "capture EvEndMillis ev_timestamp (stop @ CHR '' '' # r) = Some ([EvEndMillis stop], CHR '' '' # r)" for r
    unfolding ev_timestamp_def by (rule captured_run) (simp_all add: assms)
  have nametext: "capture EvName ev_name_text (name @ CHR '' '' # r) = Some ([EvName name], CHR '' '' # r)" for r
    unfolding ev_name_text_def by (rule captured_run) (simp_all add: assms)
  have "hd name \<noteq> quote" using assms(5,6) by (cases name) (auto simp: is_name_char_def is_alnum_def quote_def)
  then have "lit quote (name @ r) = (None :: (event_action list \<times> string) option)" for r using assms(6) by (cases name) simp_all
  with nametext have name: "eventName (name @ CHR '' '' # r) = Some ([EvName name], CHR '' '' # r)" for r
    by (simp add: eventName_def alt_def seq_def)
  have "star (seq (lit (CHR '' '')) (alt ev_tag annotation)) [] = Some ([], [])" by (rule star_stop) (simp add: seq_def)
  then have tags: "annotationsOrTags (print_ev_tag k v) = Some (EvAnnotations # EvTags # acts, [])"
    using assms(7) by (simp add: annotationsOrTags_def seq_def)
  show ?thesis
    by (simp add: EventGrammar_def print_event_def seq_def start stop name tags end_of_line_def)
qed

text \<open>What the test proxy makes of a tag of an event depends on the length of its value. For every event with one tag, whose value
  is ASCII without quotes and backslashes, the line is accepted with its times and name; a value of even length is read
  as the value of the tag, and a value of odd length is not: the whole text of the tag becomes the value of an
  annotation called tag, and the event has no tag.\<close>
theorem event_tag_parity:
  assumes "list_all is_digit start" "start \<noteq> []" "list_all is_digit stop" "stop \<noteq> []" "list_all is_name_char name" "name \<noteq> []"
    and "list_all is_name_char k" "k \<noteq> []" "list_all plain_ev_char v" "v \<noteq> []"
  shows "ev_Parse (print_event start stop name k v) =
    Some \<lparr>leName = name, leStart = start, leEnd = stop,
          leAnnotations = (if even (length v) then [] else [(''tag'', [quote] @ k @ [quote] @ '': '' @ [quote] @ v @ [quote])]),
          leTags = (if even (length v) then [(k, v)] else [])\<rparr>"
proof (cases "even (length v)")
  case True
  then have "alt ev_tag annotation (print_ev_tag k v) = Some (EvKey k # EvClear # pairs v @ [EvTag], [])"
    using ev_tag_even [OF assms(7-10)] by (simp add: alt_def)
  from EventGrammar_read [OF assms(1-6) this] show ?thesis
    using True by (simp add: ev_Parse_def event_init_def execute_pairs mput_def)
next
  case False
  then have "alt ev_tag annotation (print_ev_tag k v) =
      Some (EvKey ''tag'' # EvClear # EvQuote # texts k @ EvQuote # texts '': '' @ EvQuote # texts v @ EvQuote # [EvAnnotation], [])"
    using ev_tag_odd [OF assms(7-9)] annotation_of_tag [OF assms(7,9)] by (simp add: alt_def)
  from EventGrammar_read [OF assms(1-6) this] show ?thesis
    using False by (simp add: ev_Parse_def event_init_def execute_texts mput_def)
qed

lemma event_tag_parity_witness:
  "map_option leTags (ev_Parse (print_event ''1'' ''2'' ''e'' ''kind'' ''Pod'')) = Some [] \<and>
   map_option leTags (ev_Parse (print_event ''1'' ''2'' ''e'' ''kind'' ''Node'')) = Some [(''kind'', ''Node'')]"
proof -
  have chars: "list_all is_digit ''1''" "list_all is_digit ''2''" "list_all is_name_char ''e''" "list_all is_name_char ''kind''"
    "list_all plain_ev_char ''Pod''" "list_all plain_ev_char ''Node''"
    by code_simp+
  show ?thesis
    using event_tag_parity [OF chars(1) _ chars(2) _ chars(3) _ chars(4) _ chars(5)]
      event_tag_parity [OF chars(1) _ chars(2) _ chars(3) _ chars(4) _ chars(6)] by simp
qed

text \<open>What is recorded of an event: a pod must have both names, the one of pods and the one of other resources.\<close>

lemma pod_needs_both_names:
  assumes "ToLower (mgets (leTags e) ''kind'') = ''pod''" and "mgets (leTags e) ''pod_name'' \<noteq> ''''"
    and "mgets (leTags e) ''resource_name'' = ''''"
  shows "case mget (MissingTags (event_Record e r)) ''resource_name'' of None \<Rightarrow> False | Some es \<Rightarrow> last es = e"
  using assms by (simp add: event_Record_def Let_def mappend_def)

end
