(* ===== verification/Test_Proxy.thy ===== *)
theory Test_Proxy
  imports Metric_Diff Event_Lines
begin

text \<open>
  The test proxy as a whole (\<open>test-proxy/internal\<close>): the broadcaster that hands what was received to the stores, the
  store of external events, and the handlers for metrics and events. Decoders of JSON are parameters; of an HTTP
  reply the model has the status and what is encoded into it.
\<close>

section \<open>The broadcaster (broadcaster.go)\<close>

text \<open>The subscriptions with what each has received so far. An identifier is never used twice.\<close>

record 'm broadcaster =
  subscriptions :: "(nat \<times> 'm list) list"
  nextID :: nat

definition bc_New :: "'m broadcaster" where
  "bc_New = \<lparr>subscriptions = [], nextID = 0\<rparr>"

definition bc_Subscribe :: "'m broadcaster \<Rightarrow> nat \<times> 'm broadcaster" where
  "bc_Subscribe s = (nextID s, s\<lparr>nextID := nextID s + 1, subscriptions := mput (nextID s) [] (subscriptions s)\<rparr>)"

text \<open>Unsubscribing closes the channel: a second time it is closed already, which is a panic.\<close>

definition bc_Unsubscribe :: "nat \<Rightarrow> 'm broadcaster \<Rightarrow> 'm broadcaster option" where
  "bc_Unsubscribe i s = (if mhas (subscriptions s) i then Some (s\<lparr>subscriptions := mdel i (subscriptions s)\<rparr>) else None)"

text \<open>A message reaches the subscribers that take it before the time is up; the call returns when all took it or were given up.\<close>

definition bc_Publish :: "(nat \<Rightarrow> bool) \<Rightarrow> 'm \<Rightarrow> 'm broadcaster \<Rightarrow> 'm broadcaster" where
  "bc_Publish takes m s =
     s\<lparr>subscriptions := map (\<lambda>e. if takes (fst e) then (fst e, snd e @ [m]) else e) (subscriptions s)\<rparr>"

section \<open>External events (externalevent/store.go)\<close>

text \<open>Of an event the fields that are looked at: those of the collector's model of events, and the names and times it does not use.\<close>

record external_event =
  xeEvent :: k8s_event
  xeName :: string
  xeUID :: string
  xeObjectUID :: string
  xeFirstTimestamp :: "gotime option"

record external_results =
  xrEventCount :: nat
  BadEventJSONs :: "string list"
  ReceivedEventCategories :: "(string, external_event list) gomap"
  MissingEventCategories :: "string list"
  MissingFields :: "(string, external_event list) gomap"
  FirstTimestampsMissing :: "external_event list"
  LastTimestampsInvalid :: "external_event list"

definition expectedEventCategories :: "string list" where
  "expectedEventCategories =
     [''Creation.ImagePullBackOff'', ''Runtime.CrashLoopBackOff'', ''Scheduling.InsufficientResources'', ''Storage.ProvisioningFailed'']"

definition external_NewStore :: external_results where
  "external_NewStore = \<lparr>xrEventCount = 0, BadEventJSONs = [], ReceivedEventCategories = [], MissingEventCategories = [],
     MissingFields = [], FirstTimestampsMissing = [], LastTimestampsInvalid = []\<rparr>"

definition external_MarshalJSON :: "external_results \<Rightarrow> external_results" where
  "external_MarshalJSON r =
     r\<lparr>MissingEventCategories := filter (\<lambda>c. \<not> mhas (ReceivedEventCategories r) c) expectedEventCategories\<rparr>"

definition xe_annotation :: "external_event \<Rightarrow> string \<Rightarrow> string" where
  "xe_annotation e k = mgets (kevAnnotations (xeEvent e)) k"

definition lastTimestampIsValid :: "external_event \<Rightarrow> bool" where
  "lastTimestampIsValid e =
     (case kevLastTimestamp (xeEvent e) of
        None \<Rightarrow> kevEventTime (xeEvent e) \<noteq> None
      | Some l \<Rightarrow> (case xeFirstTimestamp e of None \<Rightarrow> True | Some f \<Rightarrow> f \<le> l))"

definition event_category :: "external_event \<Rightarrow> string" where
  "event_category e = xe_annotation e ''aria/category'' @ ''.'' @ xe_annotation e ''aria/subcategory''"

definition recordEventCategory :: "external_event \<Rightarrow> external_results \<Rightarrow> external_results" where
  "recordEventCategory e r = r\<lparr>ReceivedEventCategories := mappend (event_category e) e (ReceivedEventCategories r)\<rparr>"

text \<open>The fields that an event lacks, in the order in which they are looked at.\<close>

definition missing_fields :: "external_event \<Rightarrow> string list" where
  "missing_fields e =
     (let ev = xeEvent e; absent = (\<lambda>k. if xe_annotation e k = '''' then [k] else []); when = (\<lambda>b k. if b then [k] else [])
      in absent ''aria/cluster-name'' @ absent ''aria/cluster-uuid'' @ absent ''aria/category'' @ absent ''aria/subcategory'' @
         when (xeName e = '''') ''metadata.name'' @ when (xeUID e = '''') ''metadata.uid'' @
         when (xeObjectUID e = '''') ''involvedObject.uid'' @ when (kevName ev = '''') ''involvedObject.name'' @
         (if kevKind ev = '''' then [''involvedObject.kind'']
          else if kevKind ev = ''Pod'' then absent ''aria/workload-kind'' @ absent ''aria/workload-name'' else []) @
         (if kevReason ev = '''' then [''reason'']
          else if kevReason ev \<noteq> ''FailedScheduling'' \<and> kevKind ev = ''Pod'' then absent ''aria/node-name'' else []) @
         when (kevType ev = ''Normal'' \<and> kevReason ev \<noteq> ''BackOff'') ''unexpected-field'' @
         when (kevMessage ev = '''') ''message'' @
         when (kevComponent ev = '''' \<and> kevReportingController ev = '''') ''source.component'')"

definition external_Record :: "external_event \<Rightarrow> external_results \<Rightarrow> external_results" where
  "external_Record e r =
     (let r = recordEventCategory e (r\<lparr>xrEventCount := xrEventCount r + 1\<rparr>);
          r = r\<lparr>MissingFields := foldl (\<lambda>m k. mappend k e m) (MissingFields r) (missing_fields e)\<rparr>;
          r = (if xeFirstTimestamp e = None \<and> kevEventTime (xeEvent e) = None
               then r\<lparr>FirstTimestampsMissing := FirstTimestampsMissing r @ [e]\<rparr> else r)
      in if \<not> lastTimestampIsValid e then r\<lparr>LastTimestampsInvalid := LastTimestampsInvalid r @ [e]\<rparr> else r)"

definition external_json :: "(string \<Rightarrow> external_event option) \<Rightarrow> external_results \<Rightarrow> string \<Rightarrow> external_results" where
  "external_json decode r eventJSON =
     (case decode eventJSON of
        None \<Rightarrow> r\<lparr>BadEventJSONs := BadEventJSONs r @ [eventJSON]\<rparr>
      | Some e \<Rightarrow> external_Record e r)"

section \<open>Handlers (handlers.go)\<close>

text \<open>The lines of a connection that are published: none after the start of an HTTP request, which is not read.\<close>

fun HandleIncomingMetrics :: "string list \<Rightarrow> string list" where
  "HandleIncomingMetrics [] = []"
| "HandleIncomingMetrics (l # ls) =
     (if length l = 0 then HandleIncomingMetrics ls
      else if l = ''POST /report?f=wavefront HTTP/1.1'' then []
      else l # HandleIncomingMetrics ls)"

datatype metric_reply =
    MetricMethodNotAllowed
  | BadMetrics "string list"
  | AllMetrics "Metric list"
  | BadRequest string
  | DiffReply Diff
  | DiffPanic

definition DumpMetricsHandler :: "string \<Rightarrow> metric_store \<Rightarrow> metric_reply" where
  "DumpMetricsHandler httpMethod store =
     (if httpMethod \<noteq> ''GET'' then MetricMethodNotAllowed
      else if 0 < length (badMetrics store) then BadMetrics (badMetrics store)
      else AllMetrics (stMetrics store))"

text \<open>A line of the request is a metric that is expected or, behind a tilde, excluded; a line that cannot be decoded ends the request.\<close>

fun diff_request ::
  "(string \<Rightarrow> string + Metric) \<Rightarrow> Metric list \<times> Metric list \<Rightarrow> string list \<Rightarrow> string + Metric list \<times> Metric list" where
  "diff_request decode st [] = Inr st"
| "diff_request decode st (l # ls) =
     (if length l = 0 then diff_request decode st ls
      else if hd l = CHR ''~''
      then (case decode (tl l) of Inl err \<Rightarrow> Inl err | Inr m \<Rightarrow> diff_request decode (fst st, snd st @ [m]) ls)
      else (case decode l of Inl err \<Rightarrow> Inl err | Inr m \<Rightarrow> diff_request decode (fst st @ [m], snd st) ls))"

definition DiffMetricsHandler ::
  "key_glob \<Rightarrow> (string \<Rightarrow> string) \<Rightarrow> (string \<Rightarrow> string + Metric) \<Rightarrow> string \<Rightarrow> string list \<Rightarrow> string option \<Rightarrow> metric_store \<Rightarrow> metric_reply" where
  "DiffMetricsHandler gc gofmt decode httpMethod lines linesErr store =
     (if httpMethod \<noteq> ''POST'' then MetricMethodNotAllowed
      else if 0 < length (badMetrics store) then BadMetrics (badMetrics store)
      else case diff_request decode ([], []) lines of
             Inl err \<Rightarrow> BadRequest err
           | Inr (expected, excluded) \<Rightarrow>
               (case linesErr of
                  Some err \<Rightarrow> BadRequest err
                | None \<Rightarrow> (case DiffMetrics gc gofmt expected excluded (stMetrics store) of
                            None \<Rightarrow> DiffPanic | Some d \<Rightarrow> DiffReply d)))"

definition ExternalEventsHandler ::
  "string \<Rightarrow> string \<Rightarrow> (nat \<Rightarrow> bool) \<Rightarrow> string broadcaster \<Rightarrow> nat \<times> string broadcaster" where
  "ExternalEventsHandler contentType body takes externalEvents =
     (if contentType \<noteq> ''application/json'' then (415, externalEvents) else (204, bc_Publish takes body externalEvents))"

section \<open>What a subscriber receives\<close>

datatype 'm bc_op = BSubscribe | BUnsubscribe nat | BPublish "nat \<Rightarrow> bool" 'm

fun bc_step :: "'m bc_op \<Rightarrow> 'm broadcaster \<Rightarrow> 'm broadcaster option" where
  "bc_step BSubscribe s = Some (snd (bc_Subscribe s))"
| "bc_step (BUnsubscribe i) s = bc_Unsubscribe i s"
| "bc_step (BPublish takes m) s = Some (bc_Publish takes m s)"

fun bc_run :: "'m bc_op list \<Rightarrow> 'm broadcaster \<Rightarrow> 'm broadcaster option" where
  "bc_run [] s = Some s"
| "bc_run (x # xs) s = (case bc_step x s of None \<Rightarrow> None | Some s \<Rightarrow> bc_run xs s)"

fun taken :: "nat \<Rightarrow> 'm bc_op list \<Rightarrow> 'm list" where
  "taken i [] = []"
| "taken i (BPublish takes m # xs) = (if takes i then m # taken i xs else taken i xs)"
| "taken i (x # xs) = taken i xs"

definition bc_inv :: "'m broadcaster \<Rightarrow> bool" where
  "bc_inv s \<longleftrightarrow> list_all (\<lambda>e. fst e < nextID s) (subscriptions s)"

lemma mget_published: "mget (map (\<lambda>e. if takes (fst e) then (fst e, snd e @ [m]) else e) es) i =
   map_option (\<lambda>xs. if takes i then xs @ [m] else xs) (mget es i)"
  by (induction es) (auto simp: mget_Cons)

lemma mput_new: "k \<notin> fst ` set m \<Longrightarrow> mput k v m = m @ [(k, v)]"
  by (induction m) (auto simp: mput_def)

lemma bc_step_inv: "bc_inv s \<Longrightarrow> bc_step x s = Some t \<Longrightarrow> bc_inv t"
proof (cases x)
  case BSubscribe
  assume "bc_inv s" "bc_step x s = Some t"
  then have s: "list_all (\<lambda>e. fst e < nextID s) (subscriptions s)"
    and t: "t = s\<lparr>nextID := nextID s + 1, subscriptions := mput (nextID s) [] (subscriptions s)\<rparr>"
    using BSubscribe by (auto simp: bc_inv_def bc_Subscribe_def)
  have "nextID s \<notin> fst ` set (subscriptions s)" using s by (auto simp: list_all_iff)
  then have "mput (nextID s) [] (subscriptions s) = subscriptions s @ [(nextID s, [])]"
    by (rule mput_new)
  with s show ?thesis by (force simp: bc_inv_def t list_all_iff)
qed (force simp: bc_inv_def bc_Publish_def bc_Unsubscribe_def mdel_def list_all_iff split: if_splits)+

text \<open>C33: A subscriber receives what is published, in order, from the time it subscribes: however subscriptions come and go in the
  meantime, as long as it does not unsubscribe itself, it has received exactly the messages that it took before the time
  was up, each once and in the order in which they were published; nothing sent before its subscription, and nothing
  meant for another subscriber.\<close>
theorem broadcast_in_order:
  assumes "bc_inv s" and "bc_run steps (snd (bc_Subscribe s)) = Some t" and "BUnsubscribe (fst (bc_Subscribe s)) \<notin> set steps"
  shows "mget (subscriptions t) (fst (bc_Subscribe s)) = Some (taken (fst (bc_Subscribe s)) steps)"
proof -
  have "bc_inv s \<Longrightarrow> bc_run steps s = Some t \<Longrightarrow> BUnsubscribe i \<notin> set steps \<Longrightarrow> mget (subscriptions s) i = Some xs \<Longrightarrow>
      mget (subscriptions t) i = Some (xs @ taken i steps)" for i xs and s :: "'a broadcaster"
  proof (induction steps arbitrary: s xs)
    case (Cons x steps)
    from Cons.prems(2) obtain u where u: "bc_step x s = Some u" "bc_run steps u = Some t" by (auto split: option.splits)
    have inv: "bc_inv u" by (rule bc_step_inv [OF Cons.prems(1) u(1)])
    have "i < nextID s" using Cons.prems(1,4) mget_in_set [of "subscriptions s" i xs] by (auto simp: bc_inv_def list_all_iff)
    then have "mget (subscriptions u) i = Some (xs @ taken i [x])"
      using u(1) Cons.prems(3,4)
      by (cases x) (auto simp: bc_Subscribe_def bc_Unsubscribe_def bc_Publish_def mget_published split: if_splits)
    from Cons.IH [OF inv u(2) _ this] Cons.prems(3) show ?case by (cases x) auto
  qed simp
  moreover have "bc_inv (snd (bc_Subscribe s))" using bc_step_inv [OF assms(1), of BSubscribe] by simp
  ultimately show ?thesis using assms(2,3) by (simp add: bc_Subscribe_def)
qed

lemma broadcast_in_order_witness:
  "(let s = snd (bc_Subscribe bc_New)
    in case bc_run [BPublish (\<lambda>i. i = 1) ''a'', BSubscribe, BUnsubscribe 0, BPublish (\<lambda>_. True) ''b'', BPublish (\<lambda>i. i = 2) ''c'']
        (snd (bc_Subscribe s)) of
       None \<Rightarrow> False | Some t \<Rightarrow> mget (subscriptions t) 1 = Some [''a'', ''b''])"
proof -
  let ?s = "snd (bc_Subscribe (bc_New :: string broadcaster))"
    and ?steps = "[BPublish (\<lambda>i. i = 1) ''a'', BSubscribe, BUnsubscribe 0, BPublish (\<lambda>_. True) ''b'', BPublish (\<lambda>i. i = 2) ''c'']"
  have inv: "bc_inv ?s" by (simp add: bc_inv_def bc_Subscribe_def bc_New_def mput_def)
  have "bc_run ?steps (snd (bc_Subscribe ?s)) = Some \<lparr>subscriptions = [(1, [''a'', ''b'']), (2, [''b'', ''c''])], nextID = 3\<rparr>"
    by (simp add: bc_Subscribe_def bc_New_def bc_Publish_def bc_Unsubscribe_def mput_def mdel_def mhas_def mget_def)
  from broadcast_in_order [OF inv this] this show ?thesis
    by (simp add: bc_Subscribe_def bc_New_def)
qed

section \<open>Every line is accounted for\<close>

definition too_many_tags :: "string \<Rightarrow> bool" where
  "too_many_tags line = (\<not> isEvent line \<and> (case Parse line of None \<Rightarrow> False | Some m \<Rightarrow> 20 < length (mlTags m)))"

lemma HandleIncomingMetrics_lines: "[] \<notin> set (HandleIncomingMetrics ls)"
  by (induction ls) auto

lemma store_line_count:
  "line \<noteq> '''' \<Longrightarrow> length (stMetrics (store_line s line)) + length (badMetrics (store_line s line)) =
     length (stMetrics s) + length (badMetrics s) + (if isEvent line \<or> too_many_tags line then 0 else 1)"
  by (auto simp: store_line_def too_many_tags_def LogMetric_def LogBadMetric_def split: option.split)

definition counts :: "event_results \<Rightarrow> nat \<times> string list" where
  "counts r = (EventCount r, BadEventLines r)"

lemma counts_simps [simp]:
  "counts (r\<lparr>EventCount := n\<rparr>) = (n, snd (counts r))" "counts (r\<lparr>ZeroStartMillis := es\<rparr>) = counts r"
  "counts (r\<lparr>MissingAnnotations := m\<rparr>) = counts r" "counts (r\<lparr>UnexpectedAnnotations := m\<rparr>) = counts r"
  "counts (r\<lparr>MissingTags := m\<rparr>) = counts r"
  by (simp_all add: counts_def)

lemma counts_expect [simp]:
  "counts (expectAnnotationNotMissing k e r) = counts r" "counts (expectTagNotMissing k e r) = counts r"
  by (simp_all add: expectAnnotationNotMissing_def expectTagNotMissing_def)

lemma counts_event_Record: "counts (event_Record e r) = (EventCount r + 1, BadEventLines r)"
proof -
  have "counts (event_Record e r) = counts (r\<lparr>EventCount := EventCount r + 1\<rparr>)"
    unfolding event_Record_def Let_def by (simp only: if_distrib [of counts] counts_simps(2-) counts_expect if_cancel)
  then show ?thesis by (simp add: counts_def)
qed

lemma event_line_count:
  "EventCount (event_line r line) + length (BadEventLines (event_line r line)) =
     EventCount r + length (BadEventLines r) + (if isEvent line then 1 else 0)"
  by (cases "ev_Parse line") (use counts_event_Record in \<open>simp_all add: event_line_def isEvent_def RecordBadLine_def counts_def\<close>)


section \<open>Events of the collector\<close>

lemma set_annotation_simps [simp]:
  "kevType (set_annotation k v e) = kevType e" "kevKind (set_annotation k v e) = kevKind e"
  "kevReason (set_annotation k v e) = kevReason e" "kevName (set_annotation k v e) = kevName e"
  "kevMessage (set_annotation k v e) = kevMessage e"
  "mgets (kevAnnotations (set_annotation k v e)) k' = (if k = k' then v else mgets (kevAnnotations e) k')"
  by (simp_all add: set_annotation_def)

lemma categorize_default:
  assumes "kevType e = ''Warning''" and "kevKind e \<noteq> ''''"
  shows "let r = ea_categorize (ms @ [defaultMatcher]) e
    in mgets (kevAnnotations r) ''aria/category'' \<noteq> '''' \<and> mgets (kevAnnotations r) ''aria/subcategory'' \<noteq> '''' \<and>
      mgets (kevAnnotations r) ''aria/cluster-name'' = mgets (kevAnnotations e) ''aria/cluster-name'' \<and>
      mgets (kevAnnotations r) ''aria/cluster-uuid'' = mgets (kevAnnotations e) ''aria/cluster-uuid''"
  using assms
proof (induction ms arbitrary: e)
  case Nil
  then show ?case by (simp add: matcher_categorize_def defaultMatcher_def getCategory_def getSubcategory_def Let_def)
next
  case (Cons m ms)
  show ?case
  proof (cases "emMatch m e")
    case True
    then show ?thesis using Cons.prems by (simp add: matcher_categorize_def getCategory_def getSubcategory_def Let_def)
  next
    case False
    with Cons.IH [of "set_annotation ''important'' ''false'' e"] Cons.prems show ?thesis
      by (simp add: matcher_categorize_def Let_def)
  qed
qed

text \<open>A warning that the collector has annotated has what the test proxy asks for of the cluster and the category.\<close>

lemma annotated_warning_accepted:
  assumes "kevType ev = ''Warning''" and "kevKind ev \<noteq> ''''" and "cn \<noteq> ''''" and "cu \<noteq> ''''"
    and "k \<in> {''aria/cluster-name'', ''aria/cluster-uuid'', ''aria/category'', ''aria/subcategory''}"
  shows "k \<notin> set (missing_fields (e\<lparr>xeEvent := annotate (NewEventAnnotator wc cn cu) ev\<rparr>))"
proof -
  let ?ea = "NewEventAnnotator wc cn cu"
  let ?w = "annotate_workload ?ea (set_annotation ''aria/cluster-uuid'' cu (set_annotation ''aria/cluster-name'' cn ev))"
  have w: "kevType ?w = kevType ev" "kevKind ?w = kevKind ev"
    "mgets (kevAnnotations ?w) ''aria/cluster-name'' = cn" "mgets (kevAnnotations ?w) ''aria/cluster-uuid'' = cu"
    by (auto simp: annotate_workload_def Let_def split: prod.split)
  have "annotate ?ea ev = ea_categorize ((schedulingMatchers @ creationMatchers @ runtimeMatchers @ storageMatchers @ jobMatchers) @ [defaultMatcher]) ?w"
    by (simp add: annotate_def NewEventAnnotator_def Let_def)
  with categorize_default [of ?w "schedulingMatchers @ creationMatchers @ runtimeMatchers @ storageMatchers @ jobMatchers"] w assms
  have "mgets (kevAnnotations (annotate ?ea ev)) k \<noteq> ''''" by (auto simp: Let_def)
  then show ?thesis using assms(5) by (auto simp: missing_fields_def xe_annotation_def Let_def split: if_splits)
qed

end
