(* ===== verification/Log_Checks.thy ===== *)
theory Log_Checks
  imports Prelude
begin

text \<open>
  How the test proxy checks logs (\<open>test-proxy/internal/testproxy/logs\<close>: logs.go, results.go; the handlers for logs of
  \<open>handlers/handlers.go\<close>). The decoder of JSON is a parameter. The verdicts start undecided; one that has
  become negative stays so.
\<close>

section \<open>Results (results.go)\<close>

datatype jval = JNull | JString string | JMap "(string \<times> jval) list" | JOther string

datatype verdict = Undecided | Valid | Invalid

record log_results =
  HasValidFormat :: verdict
  HasValidTags :: verdict
  MissingExpectedOptionalTagsMap :: "(string, string) gomap"
  MissingExpectedTagsMap :: "(string, unit) gomap"
  MissingExpectedTagsCount :: nat
  EmptyExpectedTagsMap :: "(string, unit) gomap"
  EmptyExpectedTagsCount :: nat
  UnexpectedAllowedLogs :: "jval list"
  UnexpectedAllowedLogsCount :: nat
  UnexpectedDeniedTagsMap :: "(string, unit) gomap"
  UnexpectedDeniedTagsCount :: nat
  ReceivedLogCount :: nat

definition NewLogResults :: "(string, string) gomap \<Rightarrow> log_results" where
  "NewLogResults optionalTags =
     \<lparr>HasValidFormat = Undecided, HasValidTags = Undecided, MissingExpectedOptionalTagsMap = optionalTags,
      MissingExpectedTagsMap = [], MissingExpectedTagsCount = 0, EmptyExpectedTagsMap = [], EmptyExpectedTagsCount = 0,
      UnexpectedAllowedLogs = [], UnexpectedAllowedLogsCount = 0, UnexpectedDeniedTagsMap = [],
      UnexpectedDeniedTagsCount = 0, ReceivedLogCount = 0\<rparr>"

definition decide :: "bool \<Rightarrow> verdict \<Rightarrow> verdict" where
  "decide isValid v = (if v = Invalid then v else if isValid then Valid else Invalid)"

definition SetHasValidFormat :: "bool \<Rightarrow> log_results \<Rightarrow> log_results" where
  "SetHasValidFormat isValid l = l\<lparr>HasValidFormat := decide isValid (HasValidFormat l)\<rparr>"

definition SetHasValidTags :: "bool \<Rightarrow> log_results \<Rightarrow> log_results" where
  "SetHasValidTags isValid l = l\<lparr>HasValidTags := decide isValid (HasValidTags l)\<rparr>"

definition AddMissingExpectedTag :: "string \<Rightarrow> log_results \<Rightarrow> log_results" where
  "AddMissingExpectedTag t l = l\<lparr>MissingExpectedTagsMap := mput t () (MissingExpectedTagsMap l)\<rparr>"

definition AddEmptyExpectedTag :: "string \<Rightarrow> log_results \<Rightarrow> log_results" where
  "AddEmptyExpectedTag t l = l\<lparr>EmptyExpectedTagsMap := mput t () (EmptyExpectedTagsMap l)\<rparr>"

definition AddUnexpectedAllowedLog :: "jval \<Rightarrow> log_results \<Rightarrow> log_results" where
  "AddUnexpectedAllowedLog x l = l\<lparr>UnexpectedAllowedLogs := UnexpectedAllowedLogs l @ [x]\<rparr>"

definition AddUnexpectedDeniedTag :: "string \<Rightarrow> log_results \<Rightarrow> log_results" where
  "AddUnexpectedDeniedTag t l = l\<lparr>UnexpectedDeniedTagsMap := mput t () (UnexpectedDeniedTagsMap l)\<rparr>"

definition IncrementMissingExpectedTagsCount :: "log_results \<Rightarrow> log_results" where
  "IncrementMissingExpectedTagsCount l = l\<lparr>MissingExpectedTagsCount := MissingExpectedTagsCount l + 1\<rparr>"

definition IncrementEmptyExpectedTagsCount :: "log_results \<Rightarrow> log_results" where
  "IncrementEmptyExpectedTagsCount l = l\<lparr>EmptyExpectedTagsCount := EmptyExpectedTagsCount l + 1\<rparr>"

definition IncrementUnexpectedAllowedLogsCount :: "log_results \<Rightarrow> log_results" where
  "IncrementUnexpectedAllowedLogsCount l = l\<lparr>UnexpectedAllowedLogsCount := UnexpectedAllowedLogsCount l + 1\<rparr>"

definition IncrementUnexpectedDeniedTagsCount :: "log_results \<Rightarrow> log_results" where
  "IncrementUnexpectedDeniedTagsCount l = l\<lparr>UnexpectedDeniedTagsCount := UnexpectedDeniedTagsCount l + 1\<rparr>"

definition AddReceivedCount :: "nat \<Rightarrow> log_results \<Rightarrow> log_results" where
  "AddReceivedCount n l = l\<lparr>ReceivedLogCount := ReceivedLogCount l + n\<rparr>"

definition RemoveExpectedOptionalTag :: "string \<Rightarrow> log_results \<Rightarrow> log_results" where
  "RemoveExpectedOptionalTag t l = l\<lparr>MissingExpectedOptionalTagsMap := mdel t (MissingExpectedOptionalTagsMap l)\<rparr>"

text \<open>Reading the results decides them: an optional tag that is still missing makes the verdict negative.\<close>

definition ToJSON :: "log_results \<Rightarrow> log_results" where
  "ToJSON l = (if 0 < length (MissingExpectedOptionalTagsMap l) then SetHasValidTags False l else l)"

section \<open>The checks (logs.go)\<close>

record LogVerifier =
  lvExpectedTags :: "string list"
  lvOptionalTags :: "(string, string) gomap"
  lvAllowList :: "(string, string list) gomap"
  lvDenyList :: "(string, string list) gomap"

text \<open>A line that is no map is a panic: the handler ends, what was recorded stays. The flag says whether it went on.\<close>

type_synonym check = "log_results \<times> bool"

text \<open>What the first byte must be, and what the decoder makes of the rest; \<open>None\<close> is an error.\<close>

definition VerifyJsonArrayFormat :: "(string \<Rightarrow> jval list option) \<Rightarrow> string \<Rightarrow> log_results \<Rightarrow> jval list \<times> log_results" where
  "VerifyJsonArrayFormat unmarshal body l =
     (let lines = (if body = [] then [] else if hd body \<noteq> CHR ''['' then []
                   else case unmarshal body of None \<Rightarrow> [] | Some ls \<Rightarrow> ls)
      in if lines = [] then ([], SetHasValidFormat False l)
         else (lines, SetHasValidFormat True (AddReceivedCount (length lines) l)))"

text \<open>The values the decoder yields one after the other; \<open>None\<close>: it fails. The result is \<open>None\<close> for a panic.\<close>

fun json_lines :: "jval list \<Rightarrow> jval option list \<Rightarrow> jval list option option" where
  "json_lines acc [] = Some (Some acc)"
| "json_lines acc (None # vs) = Some None"
| "json_lines acc (Some (JMap m) # vs) = (if length m = 0 then Some None else json_lines (acc @ [JMap m]) vs)"
| "json_lines acc (Some v # vs) = None"

definition VerifyJsonLinesFormat ::
  "(string \<Rightarrow> jval option list) \<Rightarrow> string \<Rightarrow> log_results \<Rightarrow> (jval list \<times> log_results) option" where
  "VerifyJsonLinesFormat decode line l =
     (if line = [] then Some ([], SetHasValidFormat False l)
      else if hd line \<noteq> CHR ''{'' then Some ([], SetHasValidFormat False l)
      else case json_lines [] (decode line) of
             None \<Rightarrow> None
           | Some None \<Rightarrow> Some ([], SetHasValidFormat False l)
           | Some (Some ls) \<Rightarrow> Some (ls, AddReceivedCount (length ls) (SetHasValidFormat True l)))"

fun each_line :: "((string \<times> jval) list \<Rightarrow> 's \<Rightarrow> 's) \<Rightarrow> 's \<Rightarrow> jval list \<Rightarrow> 's \<times> bool" where
  "each_line f st [] = (st, True)"
| "each_line f st (JMap m # ls) = each_line f (f m st) ls"
| "each_line f st (v # ls) = (st, False)"

definition ValidateExpectedOptionalTags :: "LogVerifier \<Rightarrow> jval list \<Rightarrow> log_results \<Rightarrow> check" where
  "ValidateExpectedOptionalTags v logLines l =
     each_line (\<lambda>logTags l. foldl (\<lambda>l e. case map_of logTags (fst e) of
           Some val \<Rightarrow> if val = JString (snd e) then RemoveExpectedOptionalTag (fst e) l else l
         | None \<Rightarrow> l) l (lvOptionalTags v)) l logLines"

definition expected_tag :: "(string \<times> jval) list \<Rightarrow> log_results \<times> bool \<Rightarrow> string \<Rightarrow> log_results \<times> bool" where
  "expected_tag logTags st t =
     (case map_of logTags t of
        Some val \<Rightarrow>
          if val = JNull \<or> val = JString ''''
          then (IncrementEmptyExpectedTagsCount (AddEmptyExpectedTag t (fst st)), False) else st
      | None \<Rightarrow> (IncrementMissingExpectedTagsCount (AddMissingExpectedTag t (fst st)), False))"

text \<open>The verdict of a check is set when all lines have been seen.\<close>

definition conclude :: "(log_results \<times> bool) \<times> bool \<Rightarrow> check" where
  "conclude r = (if snd r then (SetHasValidTags (snd (fst r)) (fst (fst r)), True) else (fst (fst r), False))"

definition ValidateExpectedTags :: "LogVerifier \<Rightarrow> jval list \<Rightarrow> log_results \<Rightarrow> check" where
  "ValidateExpectedTags v logLines l =
     conclude (each_line (\<lambda>logTags st. foldl (expected_tag logTags) st (lvExpectedTags v)) (l, True) logLines)"

definition has_allowed_tag :: "LogVerifier \<Rightarrow> (string \<times> jval) list \<Rightarrow> bool" where
  "has_allowed_tag v logTags =
     list_ex (\<lambda>e. case mget (lvAllowList v) (fst e) of None \<Rightarrow> False
                  | Some allowed \<Rightarrow> list_ex (\<lambda>a. snd e = JString a) allowed) logTags"

definition ValidateAllowedTags :: "LogVerifier \<Rightarrow> jval list \<Rightarrow> log_results \<Rightarrow> check" where
  "ValidateAllowedTags v logLines l =
     conclude (each_line (\<lambda>logTags st.
        if \<not> has_allowed_tag v logTags
        then (IncrementUnexpectedAllowedLogsCount (AddUnexpectedAllowedLog (JMap logTags) (fst st)), False)
        else st) (l, True) logLines)"

definition denied_tag :: "(string \<times> jval) list \<Rightarrow> log_results \<times> bool \<Rightarrow> string \<times> string list \<Rightarrow> log_results \<times> bool" where
  "denied_tag logTags st e =
     (case map_of logTags (fst e) of
        None \<Rightarrow> st
      | Some val \<Rightarrow> foldl (\<lambda>st d. if val = JString d
            then (IncrementUnexpectedDeniedTagsCount (AddUnexpectedDeniedTag (fst e @ '':'' @ d) (fst st)), False) else st)
          st (snd e))"

definition ValidateDeniedTags :: "LogVerifier \<Rightarrow> jval list \<Rightarrow> log_results \<Rightarrow> check" where
  "ValidateDeniedTags v logLines l =
     conclude (each_line (\<lambda>logTags st. foldl (denied_tag logTags) st (lvDenyList v)) (l, True) logLines)"

section \<open>The handlers (handlers.go)\<close>

text \<open>The checks of a request, one after the other, as long as none panics.\<close>

fun run_checks :: "(log_results \<Rightarrow> check) list \<Rightarrow> log_results \<Rightarrow> check" where
  "run_checks [] l = (l, True)"
| "run_checks (c # cs) l = (case c l of (l, go) \<Rightarrow> if go then run_checks cs l else (l, False))"

definition log_checks :: "LogVerifier \<Rightarrow> jval list \<Rightarrow> log_results \<Rightarrow> check" where
  "log_checks v logLines =
     run_checks [ValidateExpectedTags v logLines, ValidateAllowedTags v logLines, ValidateDeniedTags v logLines,
       ValidateExpectedOptionalTags v logLines]"

definition LogJsonArrayHandler :: "(string \<Rightarrow> jval list option) \<Rightarrow> LogVerifier \<Rightarrow> string \<Rightarrow> log_results \<Rightarrow> check" where
  "LogJsonArrayHandler unmarshal v body l =
     (case VerifyJsonArrayFormat unmarshal body l of
        (logLines, l) \<Rightarrow> if length logLines = 0 then (l, True) else log_checks v logLines l)"

definition LogJsonLinesHandler :: "(string \<Rightarrow> jval option list) \<Rightarrow> LogVerifier \<Rightarrow> string \<Rightarrow> log_results \<Rightarrow> check" where
  "LogJsonLinesHandler decode v body l =
     (case VerifyJsonLinesFormat decode body l of
        None \<Rightarrow> (l, False)
      | Some (logLines, l) \<Rightarrow> if length logLines = 0 then (l, True) else log_checks v logLines l)"

datatype log_reply = LogMethodNotAllowed | NoLogs | LogReport log_results

definition LogAssertionHandler :: "string \<Rightarrow> log_results \<Rightarrow> log_reply \<times> log_results" where
  "LogAssertionHandler httpMethod l =
     (if httpMethod \<noteq> ''GET'' then (LogMethodNotAllowed, l)
      else if ReceivedLogCount l = 0 then (NoLogs, l)
      else (LogReport (ToJSON l), ToJSON l))"

section \<open>The verdict\<close>

text \<open>A line that is as it should be.\<close>

definition expected_ok :: "(string \<times> jval) list \<Rightarrow> string \<Rightarrow> bool" where
  "expected_ok m t = (case map_of m t of None \<Rightarrow> False | Some val \<Rightarrow> val \<noteq> JNull \<and> val \<noteq> JString '''')"

definition denied :: "(string \<times> jval) list \<Rightarrow> string \<times> string list \<Rightarrow> bool" where
  "denied m e = (case map_of m (fst e) of None \<Rightarrow> False | Some val \<Rightarrow> list_ex (\<lambda>d. val = JString d) (snd e))"

definition good_log :: "LogVerifier \<Rightarrow> (string \<times> jval) list \<Rightarrow> bool" where
  "good_log v m \<longleftrightarrow> list_all (expected_ok m) (lvExpectedTags v) \<and> has_allowed_tag v m \<and> \<not> list_ex (denied m) (lvDenyList v)"

definition has_optional :: "(string \<times> jval) list \<Rightarrow> string \<times> string \<Rightarrow> bool" where
  "has_optional m e \<longleftrightarrow> map_of m (fst e) = Some (JString (snd e))"

text \<open>What the checks may change of what the verdict depends on.\<close>

definition core :: "log_results \<Rightarrow> verdict \<times> (string, string) gomap" where
  "core l = (HasValidTags l, MissingExpectedOptionalTagsMap l)"

lemma core_simps [simp]:
  "core (AddMissingExpectedTag t l) = core l" "core (AddEmptyExpectedTag t l) = core l"
  "core (AddUnexpectedAllowedLog x l) = core l" "core (AddUnexpectedDeniedTag t l) = core l"
  "core (IncrementMissingExpectedTagsCount l) = core l" "core (IncrementEmptyExpectedTagsCount l) = core l"
  "core (IncrementUnexpectedAllowedLogsCount l) = core l" "core (IncrementUnexpectedDeniedTagsCount l) = core l"
  "core (AddReceivedCount n l) = core l" "core (SetHasValidFormat b l) = core l"
  "core (SetHasValidTags b l) = (decide b (fst (core l)), snd (core l))"
  by (simp_all add: core_def AddMissingExpectedTag_def AddEmptyExpectedTag_def AddUnexpectedAllowedLog_def
      AddUnexpectedDeniedTag_def IncrementMissingExpectedTagsCount_def IncrementEmptyExpectedTagsCount_def
      IncrementUnexpectedAllowedLogsCount_def IncrementUnexpectedDeniedTagsCount_def AddReceivedCount_def
      SetHasValidFormat_def SetHasValidTags_def)

lemma each_line_maps: "each_line f st (map JMap ms) = (foldl (\<lambda>st m. f m st) st ms, True)"
  by (induction ms arbitrary: st) simp_all

lemma expected_fold:
  "core (fst (foldl (expected_tag m) st ts)) = core (fst st) \<and>
   snd (foldl (expected_tag m) st ts) = (snd st \<and> list_all (expected_ok m) ts)"
  by (induction ts arbitrary: st) (auto simp: expected_tag_def expected_ok_def split: option.splits)

lemma denied_fold:
  "core (fst (foldl (denied_tag m) st es)) = core (fst st) \<and>
   snd (foldl (denied_tag m) st es) = (snd st \<and> \<not> list_ex (denied m) es)"
proof -
  have inner: "core (fst (foldl (\<lambda>st d. if val = JString d then (IncrementUnexpectedDeniedTagsCount (AddUnexpectedDeniedTag (k @ '':'' @ d) (fst st)), False) else st) st ds)) = core (fst st) \<and>
      snd (foldl (\<lambda>st d. if val = JString d then (IncrementUnexpectedDeniedTagsCount (AddUnexpectedDeniedTag (k @ '':'' @ d) (fst st)), False) else st) st ds) =
        (snd st \<and> \<not> list_ex (\<lambda>d. val = JString d) ds)" for val k st ds
    by (induction ds arbitrary: st) auto
  have step: "core (fst (denied_tag m st e)) = core (fst st) \<and> snd (denied_tag m st e) = (snd st \<and> \<not> denied m e)" for st e
    using inner by (auto simp: denied_tag_def denied_def split: option.split)
  show ?thesis by (induction es arbitrary: st) (use step in auto)
qed

lemma fold_check:
  assumes "\<And>st m. core (fst (f m st)) = core (fst st) \<and> snd (f m st) = (snd st \<and> P m)"
  shows "core (fst (foldl (\<lambda>st m. f m st) st ms)) = core (fst st) \<and> snd (foldl (\<lambda>st m. f m st) st ms) = (snd st \<and> list_all P ms)"
  using assms by (induction ms arbitrary: st) auto

lemma check_maps:
  assumes "\<And>st m. core (fst (f m st)) = core (fst st) \<and> snd (f m st) = (snd st \<and> P m)"
  shows "\<exists>l'. conclude (each_line f (l, True) (map JMap ms)) = (l', True) \<and>
    core l' = (decide (list_all P ms) (fst (core l)), snd (core l))"
  using fold_check [of f P "(l, True)" ms, OF assms] by (auto simp: conclude_def each_line_maps)

lemma decide_decide [simp]: "decide a (decide b v) = decide (a \<and> b) v"
  by (auto simp: decide_def)

lemma tag_checks:
  "\<exists>l'. ValidateExpectedTags v (map JMap ms) l = (l', True) \<and>
     core l' = (decide (list_all (\<lambda>m. list_all (expected_ok m) (lvExpectedTags v)) ms) (fst (core l)), snd (core l))"
  "\<exists>l'. ValidateAllowedTags v (map JMap ms) l = (l', True) \<and>
     core l' = (decide (list_all (has_allowed_tag v) ms) (fst (core l)), snd (core l))"
  "\<exists>l'. ValidateDeniedTags v (map JMap ms) l = (l', True) \<and>
     core l' = (decide (list_all (\<lambda>m. \<not> list_ex (denied m) (lvDenyList v)) ms) (fst (core l)), snd (core l))"
  unfolding ValidateExpectedTags_def ValidateAllowedTags_def ValidateDeniedTags_def
  by (rule check_maps; use expected_fold denied_fold in auto)+

lemma optional_step:
  "HasValidTags (foldl (\<lambda>l e. case map_of m (fst e) of Some val \<Rightarrow> if val = JString (snd e) then RemoveExpectedOptionalTag (fst e) l else l
         | None \<Rightarrow> l) l opts) = HasValidTags l \<and>
    MissingExpectedOptionalTagsMap (foldl (\<lambda>l e. case map_of m (fst e) of Some val \<Rightarrow> if val = JString (snd e) then RemoveExpectedOptionalTag (fst e) l else l
         | None \<Rightarrow> l) l opts) = filter (\<lambda>x. \<not> list_ex (\<lambda>e. fst e = fst x \<and> has_optional m e) opts) (MissingExpectedOptionalTagsMap l)"
  by (induction opts arbitrary: l)
    (auto simp: RemoveExpectedOptionalTag_def mdel_def has_optional_def intro!: filter_cong split: option.split)

lemma optional_check:
  "\<exists>l'. ValidateExpectedOptionalTags v (map JMap ms) l = (l', True) \<and>
     core l' = (fst (core l), filter (\<lambda>x. \<not> list_ex (\<lambda>m. list_ex (\<lambda>e. fst e = fst x \<and> has_optional m e) (lvOptionalTags v)) ms) (snd (core l)))"
proof -
  define step where "step = (\<lambda>l m. foldl (\<lambda>l e. case map_of m (fst e) of
      Some val \<Rightarrow> if val = JString (snd e) then RemoveExpectedOptionalTag (fst e) l else l | None \<Rightarrow> l) l (lvOptionalTags v))"
  have step: "core (step l m) = (fst (core l), filter (\<lambda>x. \<not> list_ex (\<lambda>e. fst e = fst x \<and> has_optional m e) (lvOptionalTags v)) (snd (core l)))" for l m
    unfolding step_def core_def using optional_step [of m l "lvOptionalTags v"] by simp
  have "core (foldl step l ms) =
      (fst (core l), filter (\<lambda>x. \<not> list_ex (\<lambda>m. list_ex (\<lambda>e. fst e = fst x \<and> has_optional m e) (lvOptionalTags v)) ms) (snd (core l)))" for l
    by (induction ms arbitrary: l) (simp_all add: step conj_commute)
  then show ?thesis by (simp add: ValidateExpectedOptionalTags_def each_line_maps step_def)
qed

text \<open>A request whose body decodes to these maps.\<close>

definition request :: "LogVerifier \<Rightarrow> log_results \<Rightarrow> (string \<times> jval) list list \<Rightarrow> log_results" where
  "request v l ms = fst (LogJsonArrayHandler (\<lambda>_. Some (map JMap ms)) v ''['' l)"

definition still_missing :: "LogVerifier \<Rightarrow> (string \<times> jval) list list \<Rightarrow> (string, string) gomap \<Rightarrow> (string, string) gomap" where
  "still_missing v ms opts =
     filter (\<lambda>x. \<not> list_ex (\<lambda>m. list_ex (\<lambda>e. fst e = fst x \<and> has_optional m e) (lvOptionalTags v)) ms) opts"

lemma request_core:
  "core (request v l ms) = (if ms = [] then fst (core l) else decide (list_all (good_log v) ms) (fst (core l)), still_missing v ms (snd (core l)))"
proof (cases "ms = []")
  case True
  then show ?thesis by (simp add: request_def LogJsonArrayHandler_def VerifyJsonArrayFormat_def still_missing_def)
next
  case False
  let ?l0 = "SetHasValidFormat True (AddReceivedCount (length ms) l)"
  obtain l1 where l1: "ValidateExpectedTags v (map JMap ms) ?l0 = (l1, True)"
    "core l1 = (decide (list_all (\<lambda>m. list_all (expected_ok m) (lvExpectedTags v)) ms) (fst (core l)), snd (core l))"
    using tag_checks(1) [of v ms ?l0] by auto
  obtain l2 where l2: "ValidateAllowedTags v (map JMap ms) l1 = (l2, True)"
    "core l2 = (decide (list_all (has_allowed_tag v) ms) (fst (core l1)), snd (core l1))"
    using tag_checks(2) [of v ms l1] by auto
  obtain l3 where l3: "ValidateDeniedTags v (map JMap ms) l2 = (l3, True)"
    "core l3 = (decide (list_all (\<lambda>m. \<not> list_ex (denied m) (lvDenyList v)) ms) (fst (core l2)), snd (core l2))"
    using tag_checks(3) [of v ms l2] by auto
  obtain l4 where l4: "ValidateExpectedOptionalTags v (map JMap ms) l3 = (l4, True)"
    "core l4 = (fst (core l3), still_missing v ms (snd (core l3)))"
    using optional_check [of v ms l3] by (auto simp: still_missing_def)
  have "request v l ms = l4"
    using False l1(1) l2(1) l3(1) l4(1) by (simp add: request_def LogJsonArrayHandler_def VerifyJsonArrayFormat_def log_checks_def)
  moreover have "list_all (good_log v) ms \<longleftrightarrow> list_all (\<lambda>m. list_all (expected_ok m) (lvExpectedTags v)) ms \<and>
      list_all (has_allowed_tag v) ms \<and> list_all (\<lambda>m. \<not> list_ex (denied m) (lvDenyList v)) ms"
    by (auto simp: good_log_def list_all_iff)
  ultimately show ?thesis using False l1(2) l2(2) l3(2) l4(2) by (auto simp: conj_ac)
qed

lemma requests_core:
  "core (foldl (request v) l reqs) =
     (if concat reqs = [] then fst (core l) else decide (list_all (good_log v) (concat reqs)) (fst (core l)),
      still_missing v (concat reqs) (snd (core l)))"
proof (induction reqs arbitrary: l)
  case (Cons ms reqs)
  have "still_missing v (concat reqs) (still_missing v ms o') = still_missing v (ms @ concat reqs) o'" for o'
    by (auto simp: still_missing_def intro!: filter_cong)
  then show ?case
    by (cases "ms = []"; cases "concat reqs = []") (simp_all add: Cons.IH request_core conj_commute del: concat_eq_Nil_conv)
qed (simp add: still_missing_def)

text \<open>The verdict on the tags. However the logs are spread over the requests, the verdict that is read after them is positive exactly
  when some log was received, every log has all expected tags with a value, a tag of the allow list and none of the
  deny list, and every optional tag was seen with its value in one log at least. A verdict that is read too early is final: while an
  optional tag has not been seen, reading makes it negative, and it stays negative whatever is received afterwards.\<close>
theorem logs_verdict:
  assumes "wf_map (lvOptionalTags v)"
  shows "(HasValidTags (ToJSON (foldl (request v) (NewLogResults (lvOptionalTags v)) reqs)) = Valid \<longleftrightarrow>
      concat reqs \<noteq> [] \<and> list_all (good_log v) (concat reqs) \<and>
      list_all (\<lambda>e. list_ex (\<lambda>m. has_optional m e) (concat reqs)) (lvOptionalTags v)) \<and>
    (MissingExpectedOptionalTagsMap l = [] \<or> HasValidTags (ToJSON (foldl (request v) (ToJSON l) reqs)) = Invalid)"
proof -
  let ?l = "foldl (request v) (NewLogResults (lvOptionalTags v)) reqs"
  have new: "core (NewLogResults (lvOptionalTags v)) = (Undecided, lvOptionalTags v)" by (simp add: core_def NewLogResults_def)
  have tags: "HasValidTags ?l = (if concat reqs = [] then Undecided else decide (list_all (good_log v) (concat reqs)) Undecided)"
    and missing: "MissingExpectedOptionalTagsMap ?l = still_missing v (concat reqs) (lvOptionalTags v)"
    using requests_core [of v "NewLogResults (lvOptionalTags v)" reqs]
    by (simp_all add: new core_def [of ?l] del: concat_eq_Nil_conv)
  have "still_missing v (concat reqs) (lvOptionalTags v) = [] \<longleftrightarrow>
      list_all (\<lambda>e. list_ex (\<lambda>m. has_optional m e) (concat reqs)) (lvOptionalTags v)"
  proof -
    have same: "fst e = fst x \<Longrightarrow> e \<in> set (lvOptionalTags v) \<Longrightarrow> x \<in> set (lvOptionalTags v) \<Longrightarrow> e = x" for e x
      using assms by (auto simp: wf_map_def distinct_map inj_on_def)
    show ?thesis
      unfolding still_missing_def filter_empty_conv list_all_iff list_ex_iff using same by blast
  qed
  then have "HasValidTags (ToJSON ?l) = Valid \<longleftrightarrow> concat reqs \<noteq> [] \<and> list_all (good_log v) (concat reqs) \<and>
      list_all (\<lambda>e. list_ex (\<lambda>m. has_optional m e) (concat reqs)) (lvOptionalTags v)"
    using tags missing by (auto simp: ToJSON_def SetHasValidTags_def decide_def simp del: concat_eq_Nil_conv)
  moreover have "MissingExpectedOptionalTagsMap l \<noteq> [] \<Longrightarrow> HasValidTags (ToJSON (foldl (request v) (ToJSON l) reqs)) = Invalid"
  proof -
    assume "MissingExpectedOptionalTagsMap l \<noteq> []"
    then have "HasValidTags (ToJSON l) = Invalid" by (simp add: ToJSON_def SetHasValidTags_def decide_def)
    then have "HasValidTags (foldl (request v) (ToJSON l) reqs) = Invalid"
      using requests_core [of v "ToJSON l" reqs] by (simp add: core_def decide_def)
    then show ?thesis by (simp add: ToJSON_def SetHasValidTags_def decide_def)
  qed
  ultimately show ?thesis by blast
qed

definition sample_verifier :: LogVerifier where
  "sample_verifier = \<lparr>lvExpectedTags = [''log''], lvOptionalTags = [(''level'', ''ERROR'')],
     lvAllowList = [(''ns'', [''a''])], lvDenyList = [(''c'', [''x''])]\<rparr>"

lemma logs_verdict_witness:
  "(let log = [(''log'', JString ''m''), (''ns'', JString ''a''), (''level'', JString ''ERROR'')];
        l = NewLogResults (lvOptionalTags sample_verifier)
    in HasValidTags (ToJSON (foldl (request sample_verifier) l [[log]])) = Valid \<and>
       HasValidTags (ToJSON (foldl (request sample_verifier) (ToJSON l) [[log]])) = Invalid)"
proof -
  have wf: "wf_map (lvOptionalTags sample_verifier)" by code_simp
  have "list_all (good_log sample_verifier) (concat [[[(''log'', JString ''m''), (''ns'', JString ''a''), (''level'', JString ''ERROR'')]]])"
    "list_all (\<lambda>e. list_ex (\<lambda>m. has_optional m e) (concat [[[(''log'', JString ''m''), (''ns'', JString ''a''), (''level'', JString ''ERROR'')]]]))
      (lvOptionalTags sample_verifier)"
    "MissingExpectedOptionalTagsMap (NewLogResults (lvOptionalTags sample_verifier)) \<noteq> []"
    by code_simp+
  moreover have "concat [[[(''log'', JString ''m''), (''ns'', JString ''a''), (''level'', JString ''ERROR'')]]] \<noteq> []" by simp
  ultimately show ?thesis
    using logs_verdict [OF wf, of "[[[(''log'', JString ''m''), (''ns'', JString ''a''), (''level'', JString ''ERROR'')]]]"
        "NewLogResults (lvOptionalTags sample_verifier)"]
    unfolding Let_def by blast
qed

end
