(* ===== verification/Standard_Metrics.thy ===== *)
theory Standard_Metrics
  imports Metrics_Model
begin

text \<open>
  The functions of the metrics of \<open>collector/internal/metrics/metrics.go\<close>, which read a sample of cAdvisor,
  and the lists of labels of \<open>labels.go\<close>. A metric is its descriptor with four functions, each of which may be nil.
  Of cAdvisor's types the model has the fields that are read; its counters are \<open>uint64\<close>, and the
  conversion to \<open>int64\<close> keeps the bits. The metrics agree with their descriptors.
\<close>

named_theorems std_defs "the metrics with functions"

section \<open>The samples of cAdvisor\<close>

record InterfaceStats =
  ifRxBytes :: int64
  ifRxErrors :: int64
  ifTxBytes :: int64
  ifTxErrors :: int64

record FsStats =
  fsDevice :: string
  fsUsage :: int64
  fsLimit :: int64
  fsAvailable :: int64
  fsHasInodes :: bool
  fsInodes :: int64
  fsInodesFree :: int64

record AcceleratorStats =
  acMake :: string
  acModel :: string
  acID :: string
  acMemoryTotal :: int64
  acMemoryUsed :: int64
  acDutyCycle :: int64

record PerDiskStats =
  pdDevice :: string
  pdMajor :: int64
  pdMinor :: int64
  pdStats :: "(string, int64) gomap"

record ContainerSpec =
  csp_CreationTime :: gotime
  csp_HasCpu :: bool
  csp_HasMemory :: bool
  csp_HasNetwork :: bool
  csp_HasFilesystem :: bool
  csp_HasDiskIo :: bool

record cadvisor_stats =
  cst_LoadAverage :: "32 word"
  cst_CpuTotal :: int64
  cst_MemUsage :: int64
  cst_MemCache :: int64
  cst_MemRSS :: int64
  cst_MemWorkingSet :: int64
  cst_MemPgfault :: int64
  cst_MemPgmajfault :: int64
  cst_Interfaces :: "InterfaceStats list"
  cst_Filesystem :: "FsStats list"
  cst_Accelerators :: "AcceleratorStats list"
  cst_IoServiceBytes :: "PerDiskStats list"

section \<open>Metrics\<close>

record ResourceMetric =
  meDescriptor :: MetricDescriptor
  meHasValue :: "(ContainerSpec \<Rightarrow> bool) option"
  meGetValue :: "(gotime \<Rightarrow> ContainerSpec \<Rightarrow> cadvisor_stats \<Rightarrow> mvalue) option"
  meHasLabeled :: "(ContainerSpec \<Rightarrow> cadvisor_stats \<Rightarrow> bool) option"
  meGetLabeled :: "(ContainerSpec \<Rightarrow> cadvisor_stats \<Rightarrow> LabeledValue list) option"

definition value_metric ::
  "MetricDescriptor \<Rightarrow> (ContainerSpec \<Rightarrow> bool) \<Rightarrow> (gotime \<Rightarrow> ContainerSpec \<Rightarrow> cadvisor_stats \<Rightarrow> mvalue) \<Rightarrow> ResourceMetric" where
  "value_metric d has get =
     \<lparr>meDescriptor = d, meHasValue = Some has, meGetValue = Some get, meHasLabeled = None, meGetLabeled = None\<rparr>"

definition labeled_metric ::
  "MetricDescriptor \<Rightarrow> (ContainerSpec \<Rightarrow> cadvisor_stats \<Rightarrow> bool) \<Rightarrow>
    (ContainerSpec \<Rightarrow> cadvisor_stats \<Rightarrow> LabeledValue list) \<Rightarrow> ResourceMetric" where
  "labeled_metric d has get =
     \<lparr>meDescriptor = d, meHasValue = None, meGetValue = None, meHasLabeled = Some has, meGetLabeled = Some get\<rparr>"

definition labeled_int :: "string \<Rightarrow> tagmap \<Rightarrow> int64 \<Rightarrow> LabeledValue" where
  "labeled_int name labels n = \<lparr>lvName = name, lvLabels = labels, lvValue = intValue n\<rparr>"

definition Millisecond :: duration where "Millisecond = 1000000"

text \<open>The sum of the counters of the interfaces wraps.\<close>

definition sum_interfaces :: "(InterfaceStats \<Rightarrow> int64) \<Rightarrow> cadvisor_stats \<Rightarrow> int64" where
  "sum_interfaces f stat = foldl (\<lambda>n i. n + f i) 0 (cst_Interfaces stat)"

text \<open>A disk is named by its device, or by its numbers when that is empty; they are unsigned.\<close>

definition partition_id :: "PerDiskStats \<Rightarrow> string" where
  "partition_id p =
     (if pdDevice p = [] then show_nat (unat (pdMajor p)) @ '':'' @ show_nat (unat (pdMinor p)) else pdDevice p)"

definition stat_of :: "string \<Rightarrow> PerDiskStats \<Rightarrow> int64" where
  "stat_of key p = (case mget (pdStats p) key of Some v \<Rightarrow> v | None \<Rightarrow> 0)"

definition UptimeMetric :: ResourceMetric where
  [std_defs]: "UptimeMetric = value_metric MetricUptime
     (\<lambda>spec. csp_CreationTime spec \<noteq> zero_time)
     (\<lambda>now spec stat. intValue (word_of_int (time_sub now (csp_CreationTime spec) sdiv Millisecond)))"

definition CpuLoadMetric :: ResourceMetric where
  [std_defs]: "CpuLoadMetric = value_metric MetricCpuLoad
     (\<lambda>spec. csp_HasCpu spec)
     (\<lambda>now spec stat. intValue (scast (cst_LoadAverage stat)))"

definition CpuUsageMetric :: ResourceMetric where
  [std_defs]: "CpuUsageMetric = value_metric MetricCpuUsage
     (\<lambda>spec. csp_HasCpu spec)
     (\<lambda>now spec stat. intValue (cst_CpuTotal stat))"

definition MemoryUsageMetric :: ResourceMetric where
  [std_defs]: "MemoryUsageMetric = value_metric MetricMemoryUsage
     (\<lambda>spec. csp_HasMemory spec)
     (\<lambda>now spec stat. intValue (cst_MemUsage stat))"

definition MemoryCacheMetric :: ResourceMetric where
  [std_defs]: "MemoryCacheMetric = value_metric MetricMemoryCache
     (\<lambda>spec. csp_HasMemory spec)
     (\<lambda>now spec stat. intValue (cst_MemCache stat))"

definition MemoryRSSMetric :: ResourceMetric where
  [std_defs]: "MemoryRSSMetric = value_metric MetricMemoryRSS
     (\<lambda>spec. csp_HasMemory spec)
     (\<lambda>now spec stat. intValue (cst_MemRSS stat))"

definition MemoryWorkingSetMetric :: ResourceMetric where
  [std_defs]: "MemoryWorkingSetMetric = value_metric MetricMemoryWorkingSet
     (\<lambda>spec. csp_HasMemory spec)
     (\<lambda>now spec stat. intValue (cst_MemWorkingSet stat))"

definition MemoryPageFaultsMetric :: ResourceMetric where
  [std_defs]: "MemoryPageFaultsMetric = value_metric MetricMemoryPageFaults
     (\<lambda>spec. csp_HasMemory spec)
     (\<lambda>now spec stat. intValue (cst_MemPgfault stat))"

definition MemoryMajorPageFaultsMetric :: ResourceMetric where
  [std_defs]: "MemoryMajorPageFaultsMetric = value_metric MetricMemoryMajorPageFaults
     (\<lambda>spec. csp_HasMemory spec)
     (\<lambda>now spec stat. intValue (cst_MemPgmajfault stat))"

definition NetworkRxMetric :: ResourceMetric where
  [std_defs]: "NetworkRxMetric = value_metric MetricNetworkRx
     (\<lambda>spec. csp_HasNetwork spec)
     (\<lambda>now spec stat. intValue (sum_interfaces ifRxBytes stat))"

definition NetworkRxErrorsMetric :: ResourceMetric where
  [std_defs]: "NetworkRxErrorsMetric = value_metric MetricNetworkRxErrors
     (\<lambda>spec. csp_HasNetwork spec)
     (\<lambda>now spec stat. intValue (sum_interfaces ifRxErrors stat))"

definition NetworkTxMetric :: ResourceMetric where
  [std_defs]: "NetworkTxMetric = value_metric MetricNetworkTx
     (\<lambda>spec. csp_HasNetwork spec)
     (\<lambda>now spec stat. intValue (sum_interfaces ifTxBytes stat))"

definition NetworkTxErrorsMetric :: ResourceMetric where
  [std_defs]: "NetworkTxErrorsMetric = value_metric MetricNetworkTxErrors
     (\<lambda>spec. csp_HasNetwork spec)
     (\<lambda>now spec stat. intValue (sum_interfaces ifTxErrors stat))"

definition FilesystemUsageMetric :: ResourceMetric where
  [std_defs]: "FilesystemUsageMetric = labeled_metric MetricFilesystemUsage
     (\<lambda>spec stat. csp_HasFilesystem spec)
     (\<lambda>spec stat. map (\<lambda>fs. labeled_int ''filesystem/usage'' [(LabelKey LabelResourceID, fsDevice fs)] (fsUsage fs)) (cst_Filesystem stat))"

definition FilesystemLimitMetric :: ResourceMetric where
  [std_defs]: "FilesystemLimitMetric = labeled_metric MetricFilesystemLimit
     (\<lambda>spec stat. csp_HasFilesystem spec)
     (\<lambda>spec stat. map (\<lambda>fs. labeled_int ''filesystem/limit'' [(LabelKey LabelResourceID, fsDevice fs)] (fsLimit fs)) (cst_Filesystem stat))"

definition FilesystemAvailableMetric :: ResourceMetric where
  [std_defs]: "FilesystemAvailableMetric = labeled_metric MetricFilesystemAvailable
     (\<lambda>spec stat. csp_HasFilesystem spec)
     (\<lambda>spec stat. map (\<lambda>fs. labeled_int ''filesystem/available'' [(LabelKey LabelResourceID, fsDevice fs)] (fsAvailable fs)) (cst_Filesystem stat))"

definition FilesystemInodesMetric :: ResourceMetric where
  [std_defs]: "FilesystemInodesMetric = labeled_metric MetricFilesystemInodes
     (\<lambda>spec stat. csp_HasFilesystem spec)
     (\<lambda>spec stat. map (\<lambda>fs. labeled_int ''filesystem/inodes'' [(LabelKey LabelResourceID, fsDevice fs)] (fsInodes fs))
        (filter fsHasInodes (cst_Filesystem stat)))"

definition FilesystemInodesFreeMetric :: ResourceMetric where
  [std_defs]: "FilesystemInodesFreeMetric = labeled_metric MetricFilesystemInodesFree
     (\<lambda>spec stat. csp_HasFilesystem spec)
     (\<lambda>spec stat. map (\<lambda>fs. labeled_int ''filesystem/inodes_free'' [(LabelKey LabelResourceID, fsDevice fs)] (fsInodesFree fs))
        (filter fsHasInodes (cst_Filesystem stat)))"

definition AcceleratorMemoryTotalMetric :: ResourceMetric where
  [std_defs]: "AcceleratorMemoryTotalMetric = labeled_metric MetricAcceleratorMemoryTotal
     (\<lambda>spec stat. length (cst_Accelerators stat) \<noteq> 0)
     (\<lambda>spec stat. map (\<lambda>ac. labeled_int ''accelerator/memory_total''
        [(LabelKey LabelAcceleratorMake, acMake ac), (LabelKey LabelAcceleratorModel, acModel ac),
         (LabelKey LabelAcceleratorID, acID ac)] (acMemoryTotal ac)) (cst_Accelerators stat))"

definition AcceleratorMemoryUsedMetric :: ResourceMetric where
  [std_defs]: "AcceleratorMemoryUsedMetric = labeled_metric MetricAcceleratorMemoryUsed
     (\<lambda>spec stat. length (cst_Accelerators stat) \<noteq> 0)
     (\<lambda>spec stat. map (\<lambda>ac. labeled_int ''accelerator/memory_used''
        [(LabelKey LabelAcceleratorMake, acMake ac), (LabelKey LabelAcceleratorModel, acModel ac),
         (LabelKey LabelAcceleratorID, acID ac)] (acMemoryUsed ac)) (cst_Accelerators stat))"

definition AcceleratorDutyCycleMetric :: ResourceMetric where
  [std_defs]: "AcceleratorDutyCycleMetric = labeled_metric MetricAcceleratorDutyCycle
     (\<lambda>spec stat. length (cst_Accelerators stat) \<noteq> 0)
     (\<lambda>spec stat. map (\<lambda>ac. labeled_int ''accelerator/duty_cycle''
        [(LabelKey LabelAcceleratorMake, acMake ac), (LabelKey LabelAcceleratorModel, acModel ac),
         (LabelKey LabelAcceleratorID, acID ac)] (acDutyCycle ac)) (cst_Accelerators stat))"

definition DiskIOReadMetric :: ResourceMetric where
  [std_defs]: "DiskIOReadMetric = labeled_metric MetricDiskIORead
     (\<lambda>spec stat. csp_HasDiskIo spec)
     (\<lambda>spec stat. map (\<lambda>p. labeled_int ''disk/io_read_bytes'' [(LabelKey LabelResourceID, partition_id p)] (stat_of ''Read'' p))
        (cst_IoServiceBytes stat))"

definition DiskIOWriteMetric :: ResourceMetric where
  [std_defs]: "DiskIOWriteMetric = labeled_metric MetricDiskIOWrite
     (\<lambda>spec stat. csp_HasDiskIo spec)
     (\<lambda>spec stat. map (\<lambda>p. labeled_int ''disk/io_write_bytes'' [(LabelKey LabelResourceID, partition_id p)] (stat_of ''Write'' p))
        (cst_IoServiceBytes stat))"

text \<open>The other metrics have a descriptor and no functions.\<close>

definition plain_metric :: "MetricDescriptor \<Rightarrow> ResourceMetric" where
  "plain_metric d = \<lparr>meDescriptor = d, meHasValue = None, meGetValue = None, meHasLabeled = None, meGetLabeled = None\<rparr>"

definition standard_metrics :: "ResourceMetric list" where
  "standard_metrics = [
     UptimeMetric,
     CpuUsageMetric,
     CpuLoadMetric,
     plain_metric MetricEphemeralStorageUsage,
     MemoryUsageMetric,
     MemoryRSSMetric,
     MemoryCacheMetric,
     MemoryWorkingSetMetric,
     MemoryPageFaultsMetric,
     MemoryMajorPageFaultsMetric,
     NetworkRxMetric,
     NetworkRxErrorsMetric,
     NetworkTxMetric,
     NetworkTxErrorsMetric]"

definition labeled_metrics :: "ResourceMetric list" where
  "labeled_metrics = [
     DiskIOReadMetric,
     plain_metric MetricDiskIOReadRate,
     DiskIOWriteMetric,
     plain_metric MetricDiskIOWriteRate,
     FilesystemUsageMetric,
     FilesystemLimitMetric,
     FilesystemAvailableMetric,
     FilesystemInodesMetric,
     FilesystemInodesFreeMetric,
     AcceleratorMemoryTotalMetric,
     AcceleratorMemoryUsedMetric,
     AcceleratorDutyCycleMetric]"

section \<open>The lists of labels\<close>

definition commonLabels :: "LabelDescriptor list" where
  "commonLabels = [LabelNodename, LabelHostname, LabelHostID]"

definition containerLabels :: "LabelDescriptor list" where
  "containerLabels = [LabelContainerName, LabelContainerBaseImage]"

definition podLabels :: "LabelDescriptor list" where
  "podLabels = [LabelPodName, LabelPodId, LabelPodNamespaceUID, LabelLabels]"

definition customMetricLabels :: "LabelDescriptor list" where
  "customMetricLabels = [LabelCustomMetricName]"

definition gcmLabels :: "LabelDescriptor list" where
  "gcmLabels = [LabelMetricSetType, LabelPodName, LabelNamespaceName, LabelHostname, LabelHostID,
     LabelContainerName, LabelContainerBaseImage, LabelCustomMetricName, LabelResourceID]"

definition gcmNodeAutoscalingLabels :: "LabelDescriptor list" where
  "gcmNodeAutoscalingLabels = [LabelGCEResourceID, LabelGCEResourceType, LabelHostname]"

text \<open>\<open>copy\<close> overwrites the front of the destination; a slice that was made holds zero values.\<close>

definition copy_into :: "'a list \<Rightarrow> 'a list \<Rightarrow> 'a list" where
  "copy_into dst src = take (length dst) src @ drop (length src) dst"

definition zero_label :: LabelDescriptor where
  "zero_label = \<lparr>LabelKey = '''', LabelDescription = ''''\<rparr>"

definition CommonLabels :: "LabelDescriptor list" where
  "CommonLabels = copy_into (replicate (length commonLabels) zero_label) commonLabels"

definition ContainerLabels :: "LabelDescriptor list" where
  "ContainerLabels = copy_into (replicate (length containerLabels) zero_label) containerLabels"

definition PodLabels :: "LabelDescriptor list" where
  "PodLabels = copy_into (replicate (length podLabels) zero_label) podLabels"

definition MetricLabels :: "LabelDescriptor list" where
  "MetricLabels =
     (let result = replicate (length metricLabels + length customMetricLabels) zero_label;
          result = copy_into result metricLabels
      in copy_into result customMetricLabels)"

definition SupportedLabels :: "LabelDescriptor list" where
  "SupportedLabels = CommonLabels @ PodLabels @ MetricLabels"

definition labels_by_key :: "LabelDescriptor list \<Rightarrow> (string, LabelDescriptor) gomap" where
  "labels_by_key ls = foldl (\<lambda>result l. mput (LabelKey l) l result) [] ls"

definition GcmLabels :: "(string, LabelDescriptor) gomap" where
  "GcmLabels = labels_by_key gcmLabels"

definition GcmNodeAutoscalingLabels :: "(string, LabelDescriptor) gomap" where
  "GcmNodeAutoscalingLabels = labels_by_key gcmNodeAutoscalingLabels"

section \<open>What the metrics promise\<close>

lemma metric_lists:
  "map meDescriptor standard_metrics = StandardMetrics" "map meDescriptor labeled_metrics = LabeledMetrics"
  by (simp_all add: standard_metrics_def labeled_metrics_def StandardMetrics_def LabeledMetrics_def plain_metric_def
    std_defs value_metric_def labeled_metric_def)

text \<open>What a metric yields for a sample is what its descriptor says.\<close>

definition agrees :: "ResourceMetric \<Rightarrow> gotime \<Rightarrow> ContainerSpec \<Rightarrow> cadvisor_stats \<Rightarrow> bool" where
  "agrees m now spec stat \<longleftrightarrow>
     (meHasValue m = None) = (meGetValue m = None) \<and> (meHasLabeled m = None) = (meGetLabeled m = None) \<and>
     (case meGetValue m of None \<Rightarrow> True | Some get \<Rightarrow> ValueTypeOf (get now spec stat) = DescValueType (meDescriptor m)) \<and>
     (case meGetLabeled m of None \<Rightarrow> True
      | Some get \<Rightarrow> list_all (\<lambda>lv. lvName lv = Name (meDescriptor m) \<and>
           mkeys (lvLabels lv) = map LabelKey (DescLabels (meDescriptor m)) \<and>
           ValueTypeOf (lvValue lv) = DescValueType (meDescriptor m)) (get spec stat))"

lemma agrees_value: "DescValueType d = ValueInt64 \<Longrightarrow> (\<And>a b c. \<exists>n. get a b c = intValue n) \<Longrightarrow> agrees (value_metric d has get) now spec stat"
  unfolding agrees_def value_metric_def by (simp, metis value_sel(2))

lemma agrees_plain [simp]: "agrees (plain_metric d) now spec stat"
  by (simp add: agrees_def plain_metric_def)

lemma agrees_labeled:
  assumes "DescValueType d = ValueInt64"
    and "list_all (\<lambda>lv. lvName lv = Name d \<and> mkeys (lvLabels lv) = map LabelKey (DescLabels d) \<and>
           (\<exists>n. lvValue lv = intValue n)) (get spec stat)"
  shows "agrees (labeled_metric d has get) now spec stat"
  using assms unfolding agrees_def labeled_metric_def by (auto simp: list_all_iff)

text \<open>C35: Every metric of the collector that reads a sample of cAdvisor agrees with its descriptor: the value has the
  type of the descriptor, a labelled value has its name and exactly its labels, and a metric has both functions or neither.\<close>

theorem metric_functions_agree:
  "list_all (\<lambda>m. agrees m now spec stat) (standard_metrics @ labeled_metrics)"
proof -
  have "list_all (\<lambda>m. agrees m now spec stat) standard_metrics"
    unfolding standard_metrics_def list.pred_inject agrees_plain std_defs
    by (intro conjI TrueI agrees_value exI [of _ "_ :: int64"] refl) (simp_all add: metric_defs)
  moreover have "list_all (\<lambda>m. agrees m now spec stat) labeled_metrics"
    unfolding labeled_metrics_def list.pred_inject agrees_plain std_defs
    by (intro conjI TrueI agrees_labeled)
      (simp_all add: metric_defs label_defs labeled_int_def list_all_iff mkeys_def metricLabels_def acceleratorLabels_def exI [of _ "_ :: int64"])
  ultimately show ?thesis by (simp only: list_all_append)
qed

text \<open>The second \<open>copy\<close> of \<open>MetricLabels\<close> overwrites what the first put in: the label of the resource is lost, and
  a descriptor without a key takes its place.\<close>

lemma MetricLabels_lost:
  "MetricLabels = [LabelCustomMetricName, zero_label]" "LabelResourceID \<notin> set SupportedLabels"
  by (simp_all add: MetricLabels_def SupportedLabels_def CommonLabels_def PodLabels_def copy_into_def metricLabels_def
    customMetricLabels_def commonLabels_def podLabels_def zero_label_def label_defs Let_def)

text \<open>Counters of \<open>uint64\<close> that add up to more than an \<open>int64\<close> holds come out negative.\<close>

lemma network_sum_mod: "unat (sum_interfaces f stat) = sum_list (map (unat \<circ> f) (cst_Interfaces stat)) mod 2 ^ 64"
proof -
  have "unat (foldl (\<lambda>n i. n + f i) a xs) = (unat a + sum_list (map (unat \<circ> f) xs)) mod 2 ^ 64" for a xs
  proof (induction xs arbitrary: a)
    case Nil
    have "unat a < 2 ^ LENGTH(64)" by (rule unsigned_less)
    then show ?case by simp
  qed (simp add: unat_word_ariths mod_simps add.assoc)
  from this [of 0] show ?thesis by (simp add: sum_interfaces_def)
qed

end
