(* ===== verification/Pixie_Sizer.thy ===== *)
theory Pixie_Sizer
  imports Prometheus Discovery_Rules
begin

text \<open>
  The sizer of Pixie (\<open>operator/pixie-sizer\<close>): the store of numbers by the minute (stats.go), what it records of the
  metrics of a PEM (stats.go, prom.go), what the logs and the cron scripts say (k8s.go), the recommendation
  (recommender.go) and the environment (env.go). The API server, the logs and the message bus are parameters; a slice
  index out of range, a negative length and an explicit \<open>panic\<close> are \<open>None\<close>.
\<close>

section \<open>Numbers by the minute\<close>

record 'v observation =
  obAt :: gotime
  obValue :: 'v

record 'v number_store =
  nsRetentionMinutes :: int
  nsIndex :: nat
  nsObservations :: "'v observation list list"

definition NewNumberStore :: "int \<Rightarrow> 'v number_store option" where
  "NewNumberStore retentionMinutes =
     (if retentionMinutes < 0 then None
      else Some \<lparr>nsRetentionMinutes = retentionMinutes, nsIndex = 0,
                 nsObservations = replicate (nat retentionMinutes) []\<rparr>)"

definition minute_of :: "gotime \<Rightarrow> int" where
  "minute_of t = sint (Unix t) sdiv 60"

definition slot_minute :: "'v observation list \<Rightarrow> int" where
  "slot_minute obs = (case obs of [] \<Rightarrow> 0 | ob # _ \<Rightarrow> minute_of (obAt ob))"

definition lastMinute :: "'v number_store \<Rightarrow> int option" where
  "lastMinute s =
     (if nsIndex s < length (nsObservations s) then Some (slot_minute (nsObservations s ! nsIndex s)) else None)"

definition ns_Record :: "gotime \<Rightarrow> 'v \<Rightarrow> 'v number_store \<Rightarrow> 'v number_store option" where
  "ns_Record t v s =
     (let minute = minute_of t
      in case lastMinute s of
           None \<Rightarrow> None
         | Some last_minute \<Rightarrow>
             (let s = (if minute \<noteq> last_minute
                       then (let i = (nsIndex s + 1) mod length (nsObservations s)
                             in s\<lparr>nsIndex := i, nsObservations := (nsObservations s)[i := []]\<rparr>)
                       else s)
              in Some (s\<lparr>nsObservations :=
                   (nsObservations s)[nsIndex s := nsObservations s ! nsIndex s @ [\<lparr>obAt = t, obValue = v\<rparr>]]\<rparr>)))"

text \<open>\<open>each\<close> visits the slots in the order of the ring.\<close>

definition ns_each :: "('s \<Rightarrow> 'v \<Rightarrow> 's) \<Rightarrow> 's \<Rightarrow> 'v number_store \<Rightarrow> 's" where
  "ns_each visit a s = foldl (\<lambda>a obs. foldl (\<lambda>a ob. visit a (obValue ob)) a obs) a (nsObservations s)"

definition MaxValue :: "('v \<Rightarrow> 'v \<Rightarrow> bool) \<Rightarrow> 'v \<Rightarrow> 'v number_store \<Rightarrow> 'v" where
  "MaxValue lt zero = ns_each (\<lambda>maxValue v. if lt maxValue v then v else maxValue) zero"

definition ns_Sum :: "int64 number_store \<Rightarrow> int64" where
  "ns_Sum = ns_each (\<lambda>n v. n + v) 0"

definition MaxNumber :: "int \<Rightarrow> int \<Rightarrow> int" where
  "MaxNumber a b = (if b > a then b else a)"

section \<open>The statistics of a PEM\<close>

definition retentionTimeNsMetricName :: string where "retentionTimeNsMetricName = ''min_time''"
definition colBytesMetricName :: string where "colBytesMetricName = ''table_cold_bytes''"
definition hotBytesMetricName :: string where "hotBytesMetricName = ''table_hot_bytes''"
definition tableNumBatchesMetricName :: string where "tableNumBatchesMetricName = ''table_num_batches''"
definition UnknownTable :: string where "UnknownTable = ''unknown''"
definition HTTPEventsTable :: string where "HTTPEventsTable = ''http_events''"
definition KnownTables :: "string list" where "KnownTables = [HTTPEventsTable]"

definition LabelValue :: "prom_metric \<Rightarrow> string \<Rightarrow> string" where
  "LabelValue m name = (case find (\<lambda>l. fst l = name) (pmLabels m) of Some l \<Rightarrow> snd l | None \<Rightarrow> '''')"

definition FindMetricByLabels :: "prom_metric list \<Rightarrow> tagmap \<Rightarrow> prom_metric option" where
  "FindMetricByLabels ms labels =
     find (\<lambda>m. foldl (\<lambda>allMatched l. allMatched \<and> LabelValue m (fst l) = snd l) True labels) ms"

definition FindMetricByTableName :: "prom_metric list \<Rightarrow> string \<Rightarrow> prom_metric option" where
  "FindMetricByTableName ms tableName = FindMetricByLabels ms [(''name'', tableName)]"

text \<open>The getters of protobuf give the zero value for what is nil.\<close>

definition family_metrics :: "(string, prom_family) gomap \<Rightarrow> string \<Rightarrow> prom_metric list" where
  "family_metrics fams name = (case mget fams name of None \<Rightarrow> [] | Some f \<Rightarrow> mfMetric f)"

definition gauge_value :: "prom_metric option \<Rightarrow> f64" where
  "gauge_value m = (case m of None \<Rightarrow> Fin 0 | Some m \<Rightarrow> (case pmGauge m of None \<Rightarrow> Fin 0 | Some v \<Rightarrow> v))"

record StatsStore =
  ssSamplePeriodMinutes :: int
  ssKnownTables :: "string list"
  ssTableRates :: "(string, f64 number_store) gomap"
  ssTableBytes :: "(string, int64 number_store) gomap"
  ssTableRowBatches :: "(string, int64 number_store) gomap"
  ssTableCountStore :: "int64 number_store"

definition NewStatsStore :: "int \<Rightarrow> string list \<Rightarrow> StatsStore option" where
  "NewStatsStore measureMinutes knownTables =
     (case NewNumberStore measureMinutes of
        None \<Rightarrow> None
      | Some n \<Rightarrow> Some \<lparr>ssSamplePeriodMinutes = measureMinutes, ssKnownTables = knownTables, ssTableRates = [],
                        ssTableBytes = [], ssTableRowBatches = [], ssTableCountStore = n\<rparr>)"

definition normalizedTableName :: "StatsStore \<Rightarrow> string \<Rightarrow> string" where
  "normalizedTableName s tableName = (if tableName \<in> set (ssKnownTables s) then tableName else UnknownTable)"

text \<open>The store of a table, made when it is first asked for.\<close>

definition table_store :: "StatsStore \<Rightarrow> (string, 'v number_store) gomap \<Rightarrow> string \<Rightarrow> 'v number_store option" where
  "table_store s stores tableName =
     (case mget stores tableName of Some n \<Rightarrow> Some n | None \<Rightarrow> NewNumberStore (ssSamplePeriodMinutes s))"

definition TableRate :: "StatsStore \<Rightarrow> string \<Rightarrow> (f64 number_store \<times> StatsStore) option" where
  "TableRate s tableName =
     (let tableName = normalizedTableName s tableName
      in map_option (\<lambda>n. (n, s\<lparr>ssTableRates := mput tableName n (ssTableRates s)\<rparr>)) (table_store s (ssTableRates s) tableName))"

definition TableBytes :: "StatsStore \<Rightarrow> string \<Rightarrow> (int64 number_store \<times> StatsStore) option" where
  "TableBytes s tableName =
     (let tableName = normalizedTableName s tableName
      in map_option (\<lambda>n. (n, s\<lparr>ssTableBytes := mput tableName n (ssTableBytes s)\<rparr>)) (table_store s (ssTableBytes s) tableName))"

definition TableRowBatches :: "StatsStore \<Rightarrow> string \<Rightarrow> (int64 number_store \<times> StatsStore) option" where
  "TableRowBatches s tableName =
     (let tableName = normalizedTableName s tableName
      in map_option (\<lambda>n. (n, s\<lparr>ssTableRowBatches := mput tableName n (ssTableRowBatches s)\<rparr>))
           (table_store s (ssTableRowBatches s) tableName))"

text \<open>The numbers of one table, or none when its retention is zero: the rate, the bytes and the row batches.\<close>

record table_sample =
  tsTable :: string
  tsRate :: f64
  tsBytes :: int64
  tsBatches :: int64

definition sample_of :: "(string, prom_family) gomap \<Rightarrow> prom_metric \<Rightarrow> table_sample option" where
  "sample_of fams retentionNs =
     (let tableName = LabelValue retentionNs ''name'';
          retention = fdiv (gauge_value (Some retentionNs)) (f64_of_int Second)
      in if feq retention (Fin 0) then None
         else (let coldBytes = gauge_value (FindMetricByTableName (family_metrics fams colBytesMetricName) tableName);
                   hotBytes = gauge_value (FindMetricByTableName (family_metrics fams hotBytesMetricName) tableName);
                   rowBatches = gauge_value (FindMetricByTableName (family_metrics fams tableNumBatchesMetricName) tableName)
               in Some \<lparr>tsTable = tableName, tsRate = fdiv (fadd hotBytes coldBytes) retention,
                        tsBytes = word_of_int (int_of_f64 (fadd hotBytes coldBytes)),
                        tsBatches = word_of_int (int_of_f64 rowBatches)\<rparr>))"

definition record_in :: "gotime \<Rightarrow> 'v \<Rightarrow> string \<Rightarrow> StatsStore \<Rightarrow> (string, 'v number_store) gomap \<Rightarrow>
    (string, 'v number_store) gomap option" where
  "record_in now v tableName s stores =
     (let tableName = normalizedTableName s tableName
      in case table_store s stores tableName of
           None \<Rightarrow> None
         | Some n \<Rightarrow> map_option (\<lambda>n. mput tableName n stores) (ns_Record now v n))"

definition record_sample :: "gotime \<Rightarrow> table_sample \<Rightarrow> StatsStore \<Rightarrow> StatsStore option" where
  "record_sample now x s =
     (case record_in now (tsRate x) (tsTable x) s (ssTableRates s) of
        None \<Rightarrow> None
      | Some rates \<Rightarrow>
     (case record_in now (tsBytes x) (tsTable x) s (ssTableBytes s) of
        None \<Rightarrow> None
      | Some bytes \<Rightarrow>
     (case record_in now (tsBatches x) (tsTable x) s (ssTableRowBatches s) of
        None \<Rightarrow> None
      | Some batches \<Rightarrow>
          Some (s\<lparr>ssTableRates := rates, ssTableBytes := bytes, ssTableRowBatches := batches\<rparr>))))"

fun record_all :: "gotime \<Rightarrow> table_sample list \<Rightarrow> StatsStore \<Rightarrow> StatsStore option" where
  "record_all now [] s = Some s"
| "record_all now (x # xs) s = (case record_sample now x s of None \<Rightarrow> None | Some s' \<Rightarrow> record_all now xs s')"

definition stats_Record :: "gotime \<Rightarrow> (string, prom_family) gomap \<Rightarrow> StatsStore \<Rightarrow> StatsStore option" where
  "stats_Record now fams s =
     (let ms = family_metrics fams retentionTimeNsMetricName
      in case ns_Record now (word_of_int (int (length ms))) (ssTableCountStore s) of
           None \<Rightarrow> None
         | Some n \<Rightarrow> record_all now (List.map_filter (sample_of fams) ms) (s\<lparr>ssTableCountStore := n\<rparr>))"

text \<open>What the subscription of \<open>main\<close> does with a message; another pod than a PEM is passed over.\<close>

definition on_metrics :: "gotime \<Rightarrow> string \<Rightarrow> (string, prom_family) gomap \<Rightarrow> StatsStore \<Rightarrow> StatsStore option" where
  "on_metrics now podName fams s =
     (if \<not> HasPrefix podName ''vizier-pem'' then Some s else stats_Record now fams s)"

section \<open>The window of the last minutes\<close>

text \<open>
  The abstract store: the groups of observations of the last minutes that had any, the newest last. A new minute
  drops the oldest group. The ring of slots implements it.
\<close>

definition window :: "'v number_store \<Rightarrow> 'v observation list list" where
  "window s = drop (nsIndex s + 1) (nsObservations s) @ take (nsIndex s + 1) (nsObservations s)"

definition window_record :: "gotime \<Rightarrow> 'v \<Rightarrow> 'v observation list list \<Rightarrow> 'v observation list list" where
  "window_record t v w =
     (if minute_of t \<noteq> slot_minute (last w) then tl w @ [[\<lparr>obAt = t, obValue = v\<rparr>]]
      else butlast w @ [last w @ [\<lparr>obAt = t, obValue = v\<rparr>]])"

definition ns_ok :: "'v number_store \<Rightarrow> bool" where
  "ns_ok s \<longleftrightarrow> nsIndex s < length (nsObservations s)"

lemma length_window [simp]: "length (window s) = length (nsObservations s)"
  by (simp add: window_def)

lemma last_window: "ns_ok s \<Longrightarrow> last (window s) = nsObservations s ! nsIndex s"
  by (auto simp: window_def ns_ok_def take_Suc_conv_app_nth)

lemma window_append:
  assumes "ns_ok s"
  shows "window (s\<lparr>nsObservations := (nsObservations s)[nsIndex s := x]\<rparr>) = butlast (window s) @ [x]"
  using assms by (auto simp: window_def ns_ok_def take_Suc_conv_app_nth butlast_append)

lemma window_advance:
  assumes "ns_ok s"
  defines "i \<equiv> (nsIndex s + 1) mod length (nsObservations s)"
  shows "window (s\<lparr>nsIndex := i, nsObservations := (nsObservations s)[i := []]\<rparr>) = tl (window s) @ [[]]"
proof (cases "nsIndex s + 1 = length (nsObservations s)")
  case True
  with assms show ?thesis
    by (cases "nsObservations s") (auto simp: window_def ns_ok_def)
next
  case False
  with assms(1) have i: "i = nsIndex s + 1" "i < length (nsObservations s)" by (auto simp: i_def ns_ok_def)
  have "drop i (nsObservations s) = nsObservations s ! i # drop (i + 1) (nsObservations s)"
    using i(2) by (simp add: Cons_nth_drop_Suc)
  with i show ?thesis by (simp add: window_def take_Suc_conv_app_nth)
qed

lemma ns_Record_window:
  assumes ok: "ns_ok s"
  obtains s' where "ns_Record t v s = Some s'" "ns_ok s'" "window s' = window_record t v (window s)"
    "length (nsObservations s') = length (nsObservations s)"
proof -
  let ?ob = "\<lparr>obAt = t, obValue = v\<rparr>"
  have lm: "lastMinute s = Some (slot_minute (last (window s)))"
    using ok by (simp add: lastMinute_def last_window) (simp add: ns_ok_def)
  show thesis
  proof (cases "minute_of t = slot_minute (last (window s))")
    case True
    have w: "window (s\<lparr>nsObservations := (nsObservations s)[nsIndex s := nsObservations s ! nsIndex s @ [?ob]]\<rparr>) =
        window_record t v (window s)"
      using True ok by (simp add: window_append last_window window_record_def)
    have r: "ns_Record t v s =
        Some (s\<lparr>nsObservations := (nsObservations s)[nsIndex s := nsObservations s ! nsIndex s @ [?ob]]\<rparr>)"
      using True by (simp add: ns_Record_def lm Let_def)
    show thesis by (rule that [OF r _ w]) (use ok in \<open>simp_all add: ns_ok_def\<close>)
  next
    case False
    define i where "i = (nsIndex s + 1) mod length (nsObservations s)"
    define s1 where "s1 = s\<lparr>nsIndex := i, nsObservations := (nsObservations s)[i := []]\<rparr>"
    have w1: "window s1 = tl (window s) @ [[]]" unfolding s1_def i_def by (rule window_advance [OF ok])
    have ok1: "ns_ok s1" using ok by (auto simp: ns_ok_def s1_def i_def intro: mod_less_divisor)
    have e: "nsObservations s1 ! nsIndex s1 = []" using last_window [OF ok1] by (simp add: w1)
    have w: "window (s1\<lparr>nsObservations := (nsObservations s1)[nsIndex s1 := nsObservations s1 ! nsIndex s1 @ [?ob]]\<rparr>) =
        window_record t v (window s)"
      using False by (simp only: window_append [OF ok1] w1 e) (simp add: window_record_def)
    have r: "ns_Record t v s =
        Some (s1\<lparr>nsObservations := (nsObservations s1)[nsIndex s1 := nsObservations s1 ! nsIndex s1 @ [?ob]]\<rparr>)"
      using False by (simp add: ns_Record_def lm Let_def s1_def i_def)
    show thesis by (rule that [OF r _ w]) (use ok1 in \<open>simp_all add: ns_ok_def s1_def\<close>)
  qed
qed

fun ns_records :: "(gotime \<times> 'v) list \<Rightarrow> 'v number_store \<Rightarrow> 'v number_store option" where
  "ns_records [] s = Some s"
| "ns_records (x # xs) s = (case ns_Record (fst x) (snd x) s of None \<Rightarrow> None | Some s' \<Rightarrow> ns_records xs s')"

text \<open>The observations of a history, in groups of one minute.\<close>

definition add_observation :: "'v observation list list \<Rightarrow> gotime \<times> 'v \<Rightarrow> 'v observation list list" where
  "add_observation gs x =
     (if gs \<noteq> [] \<and> minute_of (fst x) = slot_minute (last gs)
      then butlast gs @ [last gs @ [\<lparr>obAt = fst x, obValue = snd x\<rparr>]]
      else gs @ [[\<lparr>obAt = fst x, obValue = snd x\<rparr>]])"

definition minute_groups :: "(gotime \<times> 'v) list \<Rightarrow> 'v observation list list" where
  "minute_groups h = foldl add_observation [] h"

definition last_groups :: "nat \<Rightarrow> 'v observation list list \<Rightarrow> 'v observation list list" where
  "last_groups n gs = drop (length gs - n) gs"

definition padded :: "nat \<Rightarrow> 'v observation list list \<Rightarrow> 'v observation list list" where
  "padded n gs = replicate (n - length gs) [] @ last_groups n gs"

lemma padded_snoc:
  "0 < n \<Longrightarrow> padded n (bs @ [g]) = (replicate (n - Suc (length bs)) [] @ drop (Suc (length bs) - n) bs) @ [g]"
  by (simp add: padded_def last_groups_def)

lemma tl_padded: "0 < n \<Longrightarrow> tl (padded n gs) @ [g] = padded n (gs @ [g])"
proof (cases "length gs < n")
  case True
  then obtain k where "n - length gs = Suc k" by (metis Suc_diff_Suc)
  moreover from this have "n - Suc (length gs) = k" by simp
  ultimately show "0 < n \<Longrightarrow> ?thesis" using True by (simp add: padded_snoc) (simp add: padded_def last_groups_def)
next
  case False
  then have "n - length gs = 0" "n - Suc (length gs) = 0" "Suc (length gs) - n = Suc (length gs - n)" by auto
  then show "0 < n \<Longrightarrow> ?thesis" by (simp add: padded_snoc) (simp add: padded_def last_groups_def tl_drop drop_Suc)
qed

lemma padded_record:
  assumes n: "0 < n" and t: "minute_of (fst x) \<noteq> 0"
  shows "window_record (fst x) (snd x) (padded n gs) = padded n (add_observation gs x)"
proof (cases gs rule: rev_cases)
  case Nil
  then have "last (padded n gs) = []" using n by (simp add: padded_def last_groups_def)
  with Nil n t show ?thesis
    by (simp add: window_record_def slot_minute_def add_observation_def tl_padded del: append.simps)
next
  case (snoc bs g)
  show ?thesis
  proof (cases "minute_of (fst x) = slot_minute g")
    case True
    then show ?thesis
      by (simp add: window_record_def add_observation_def snoc padded_snoc [OF n] butlast_append del: append_assoc)
  next
    case False
    have "last (padded n gs) = g" by (simp add: snoc padded_snoc [OF n])
    with False show ?thesis by (simp add: window_record_def add_observation_def snoc tl_padded [OF n])
  qed
qed

lemma ns_records_window:
  assumes "ns_ok s" "length (nsObservations s) = n" "window s = padded n gs"
    and "list_all (\<lambda>x. minute_of (fst x) \<noteq> 0) h"
  shows "\<exists>s'. ns_records h s = Some s' \<and> ns_ok s' \<and> window s' = padded n (foldl add_observation gs h)"
  using assms
proof (induction h arbitrary: s gs)
  case (Cons x h)
  obtain s' where s': "ns_Record (fst x) (snd x) s = Some s'" "ns_ok s'"
      "window s' = window_record (fst x) (snd x) (window s)" "length (nsObservations s') = length (nsObservations s)"
    using ns_Record_window [OF Cons.prems(1)] by metis
  have "0 < n" using Cons.prems(1,2) by (auto simp: ns_ok_def)
  with Cons.prems s'(3) have "window s' = padded n (add_observation gs x)" by (simp add: padded_record)
  with Cons.IH [OF s'(2)] Cons.prems s' show ?case by simp
qed auto

lemma ns_records_groups:
  assumes "0 < n" and h: "list_all (\<lambda>x. minute_of (fst x) \<noteq> 0) h"
  obtains s0 s where "NewNumberStore (int n) = Some s0" "ns_records h s0 = Some s" "ns_ok s"
    "concat (window s) = concat (last_groups n (minute_groups h))"
proof -
  let ?s0 = "\<lparr>nsRetentionMinutes = int n, nsIndex = 0, nsObservations = replicate n []\<rparr> :: 'a number_store"
  have w0: "window ?s0 = padded n []"
  proof -
    have "replicate (length (window ?s0)) [] = window ?s0"
      by (rule replicate_length_same) (auto simp: window_def dest: in_set_dropD in_set_takeD)
    then show ?thesis by (simp add: padded_def last_groups_def)
  qed
  have "ns_ok ?s0" using assms(1) by (simp add: ns_ok_def)
  from ns_records_window [OF this _ w0 h] obtain s
    where s: "ns_records h ?s0 = Some s" "ns_ok s" "window s = padded n (foldl add_observation [] h)" by auto
  have "concat (window s) = concat (last_groups n (minute_groups h))"
    unfolding s(3) by (simp add: padded_def minute_groups_def)
  then show thesis using s(1,2) by (intro that [of ?s0 s]) (simp_all add: NewNumberStore_def)
qed

text \<open>What the ring yields does not depend on where it is cut.\<close>

definition ns_values :: "'v number_store \<Rightarrow> 'v list" where
  "ns_values s = map obValue (concat (nsObservations s))"

lemma ns_each_values: "ns_each f a s = foldl f a (ns_values s)"
proof -
  have "foldl (\<lambda>a obs. foldl (\<lambda>a ob. f a (obValue ob)) a obs) a os = foldl f a (map obValue (concat os))" for os
    by (induction os arbitrary: a) (simp_all add: foldl_map)
  then show ?thesis by (simp add: ns_each_def ns_values_def)
qed

lemma mset_ns_values: "mset (ns_values s) = mset (map obValue (concat (window s)))"
proof -
  have "mset (concat (window s)) =
      mset (concat (take (nsIndex s + 1) (nsObservations s) @ drop (nsIndex s + 1) (nsObservations s)))"
    unfolding window_def concat_append mset_append by (rule add.commute)
  then have "mset (concat (window s)) = mset (concat (nsObservations s))" by (simp only: append_take_drop_id)
  then show ?thesis by (simp add: ns_values_def)
qed

lemma ns_Sum_values: "ns_Sum s = sum_list (ns_values s)"
proof -
  have "foldl (\<lambda>n v. n + v) a xs = a + sum_list xs" for a :: int64 and xs
    by (induction xs arbitrary: a) (simp_all add: add.assoc)
  then show ?thesis by (simp add: ns_Sum_def ns_each_values)
qed

definition max_int :: "int64 number_store \<Rightarrow> int64" where
  "max_int = MaxValue (\<lambda>a b. sint a < sint b) 0"

definition max_float :: "f64 number_store \<Rightarrow> f64" where
  "max_float = MaxValue flt (Fin 0)"

lemma Max_insert2: "finite S \<Longrightarrow> Max (insert a (insert b S)) = Max (insert (max a b) S)" for a b :: int
  by (cases "S = {}") (simp_all add: max.assoc)

lemma max_int_values: "sint (max_int s) = Max (insert 0 (set (map sint (ns_values s))))"
proof -
  have "sint (foldl (\<lambda>m v. if sint m < sint v then v else m) a xs) = Max (insert (sint a) (set (map sint xs)))"
    for a :: int64 and xs
  proof (induction xs arbitrary: a)
    case (Cons x xs)
    have "Max (insert (sint a) (set (map sint (x # xs)))) = Max (insert (max (sint a) (sint x)) (set (map sint xs)))"
      using Max_insert2 [of "set (map sint xs)" "sint a" "sint x"] by simp
    with Cons show ?case by (simp add: max_def)
  qed simp
  from this [of 0] show ?thesis by (simp add: max_int_def MaxValue_def ns_each_values)
qed

definition kept_values :: "nat \<Rightarrow> (gotime \<times> 'v) list \<Rightarrow> 'v list" where
  "kept_values n h = map obValue (concat (last_groups n (minute_groups h)))"

text \<open>C36: A store of \<open>n\<close> minutes holds, whatever was recorded at whatever times, exactly the observations of the last \<open>n\<close>
  groups of consecutive observations of one minute; its sum and its maximum are those of these observations (the
  sum in 64 bits, the maximum at least zero).\<close>

theorem number_store_window:
  assumes "0 < n" and "list_all (\<lambda>x. minute_of (fst x) \<noteq> 0) h"
  shows "\<exists>s0 s. NewNumberStore (int n) = Some s0 \<and> ns_records h s0 = Some s \<and>
    mset (ns_values s) = mset (kept_values n h) \<and> ns_Sum s = sum_list (kept_values n h) \<and>
    sint (max_int s) = Max (insert 0 (set (map sint (kept_values n h))))"
proof -
  obtain s0 s where s: "NewNumberStore (int n) = Some s0" "ns_records h s0 = Some s"
      "concat (window s) = concat (last_groups n (minute_groups h))"
    using ns_records_groups [OF assms] by metis
  have m: "mset (ns_values s) = mset (kept_values n h)"
    unfolding mset_ns_values s(3) kept_values_def ..
  then have "sum_list (ns_values s) = sum_list (kept_values n h)" "set (ns_values s) = set (kept_values n h)"
    by (metis sum_mset_sum_list) (metis m set_mset_mset)
  with s(1,2) m show ?thesis by (auto simp: ns_Sum_values max_int_values)
qed

theorem number_store_window_witness:
  "\<exists>s0 s. NewNumberStore (int 2) = Some s0 \<and>
     ns_records [(60 * Second, 5), (61 * Second, 7), (130 * Second, 1), (300 * Second, 2)] s0 = Some s \<and>
     mset (ns_values s) = {#1, 2#} \<and> ns_Sum s = 3 \<and> sint (max_int s) = 2"
proof -
  let ?h = "[(60 * Second, 5), (61 * Second, 7), (130 * Second, 1), (300 * Second, 2)] :: (gotime \<times> int64) list"
  have k: "kept_values 2 ?h = [1, 2]"
    by (simp add: kept_values_def last_groups_def minute_groups_def add_observation_def minute_of_def Unix_def Second_def
      slot_minute_def signed_divide_int_def)
  have "list_all (\<lambda>x. minute_of (fst x) \<noteq> 0) ?h"
    by (simp add: minute_of_def Unix_def Second_def signed_divide_int_def)
  from number_store_window [OF _ this, of 2] show ?thesis by (simp add: k add.commute)
qed

section \<open>Logs and cron scripts\<close>

text \<open>The digits at the front of a string, and \<open>ParseInt\<close> of a string of digits.\<close>

definition digits_of :: "string \<Rightarrow> string \<times> string" where
  "digits_of s = (takeWhile is_digit s, dropWhile is_digit s)"

definition ParseInt_digits :: "string \<Rightarrow> int option" where
  "ParseInt_digits ds = (if decimal ds < 2 ^ 63 then Some (decimal ds) else None)"

record RowBatchSizeError =
  rbRowBatchSize :: int
  rbMaxTableSize :: int

text \<open>
  The expression \<open>RowBatch size \((\d+)\).+\((\d+)\).$\<close> on a line of ASCII: the leftmost start, and as the
  greedy middle part leaves it, the last digits in parentheses before the last character.
\<close>

fun row_batch_start :: "string \<Rightarrow> (string \<times> string) option" where
  "row_batch_start [] = None"
| "row_batch_start (c # s) =
     (let mark = ''RowBatch size ('';
          (ds, r) = digits_of (drop (length mark) (c # s))
      in if HasPrefix (c # s) mark \<and> ds \<noteq> [] \<and> HasPrefix r '')'' then Some (ds, tl r) else row_batch_start s)"

definition table_size_end :: "string \<Rightarrow> string option" where
  "table_size_end r =
     (case rev r of
        c # d # r' \<Rightarrow>
          (let (ds, r'') = digits_of r'
           in if d = CHR '')'' \<and> ds \<noteq> [] \<and> HasPrefix r'' ''('' \<and> tl r'' \<noteq> [] then Some (rev ds) else None)
      | _ \<Rightarrow> None)"

text \<open>Outside \<open>None\<close> is a panic, inside no match.\<close>

definition ExtractRowBatchSizeError :: "string \<Rightarrow> RowBatchSizeError option option" where
  "ExtractRowBatchSizeError line =
     (case row_batch_start line of
        None \<Rightarrow> Some None
      | Some (size1, r) \<Rightarrow>
     (case table_size_end r of
        None \<Rightarrow> Some None
      | Some size2 \<Rightarrow>
     (case ParseInt_digits size1 of
        None \<Rightarrow> None
      | Some rowBatchSize \<Rightarrow>
     (case ParseInt_digits size2 of
        None \<Rightarrow> None
      | Some maxTableSize \<Rightarrow> Some (Some \<lparr>rbRowBatchSize = rowBatchSize, rbMaxTableSize = maxTableSize\<rparr>)))))"

lemma extract_example:
  "ExtractRowBatchSizeError ''RowBatch size (17) is bigger than the maximum table size (5).'' =
     Some (Some \<lparr>rbRowBatchSize = 17, rbMaxTableSize = 5\<rparr>)"
  "ExtractRowBatchSizeError ''RowBatch size (17)(5).'' = Some None"
  by (simp_all add: ExtractRowBatchSizeError_def digits_of_def is_digit_def Let_def table_size_end_def ParseInt_digits_def decimal_def)

text \<open>Outside \<open>None\<close> is a panic. A log is an error, or its lines and whether the scanner failed after them; then the
  code asks the error that is nil for its text.\<close>

fun extract_all :: "(string \<Rightarrow> 'a option option) \<Rightarrow> string list \<Rightarrow> 'a list option" where
  "extract_all extract_line [] = Some []"
| "extract_all extract_line (l # ls) =
     (case extract_line l of
        None \<Rightarrow> None
      | Some data \<Rightarrow> map_option (\<lambda>matched. (case data of None \<Rightarrow> [] | Some d \<Rightarrow> [d]) @ matched) (extract_all extract_line ls))"

definition ExtractFromPodLogs ::
  "('p \<Rightarrow> string + (string list \<times> bool)) \<Rightarrow> (string \<Rightarrow> 'a option option) \<Rightarrow> 'p \<Rightarrow> (string + 'a list) option" where
  "ExtractFromPodLogs logs extract_line pod =
     (case logs pod of
        Inl err \<Rightarrow> Some (Inl (''error in opening stream: '' @ err))
      | Inr (lines, failed) \<Rightarrow>
     (case extract_all extract_line lines of
        None \<Rightarrow> None
      | Some matched \<Rightarrow> if failed then None else Some (Inr matched)))"

definition MiBytes :: f64 where "MiBytes = Fin (2 ^ 20)"

definition fceil :: "f64 \<Rightarrow> f64" where
  "fceil x = (case x of Fin q \<Rightarrow> Fin (of_int \<lceil>q\<rceil>) | _ \<Rightarrow> x)"

text \<open>One error comes at the start of a PEM; \<open>Inl\<close> ends the program.\<close>

fun max_missed :: "('p \<Rightarrow> string + (string list \<times> bool)) \<Rightarrow> 'p list \<Rightarrow> int \<Rightarrow> (string + int) option" where
  "max_missed logs [] m = Some (Inr m)"
| "max_missed logs (p # ps) m =
     (case ExtractFromPodLogs logs ExtractRowBatchSizeError p of
        None \<Rightarrow> None
      | Some (Inl err) \<Rightarrow> Some (Inl (''error extracting row batch size errors: '' @ err))
      | Some (Inr es) \<Rightarrow>
          if length es \<le> 1 then max_missed logs ps m
          else max_missed logs ps (foldl (\<lambda>m e. MaxNumber (rbRowBatchSize e) m) m (drop 1 es)))"

definition GetMaxMissedRowBatchSize :: "('p \<Rightarrow> string + (string list \<times> bool)) \<Rightarrow> 'p list \<Rightarrow> (string + int) option" where
  "GetMaxMissedRowBatchSize logs pemPods =
     map_option (map_sum id (\<lambda>m. int_of_f64 (fceil (fdiv (f64_of_int m) MiBytes)))) (max_missed logs pemPods 0)"

text \<open>The expression \<open>(?m)frequency_s:\s*(\d+)$\<close>.\<close>

definition re_space :: "char \<Rightarrow> bool" where
  "re_space c \<longleftrightarrow> c \<in> {CHR '' '', CHR 0x09, CHR 0x0A, CHR 0x0C, CHR 0x0D}"

fun cron_frequency :: "string \<Rightarrow> string option" where
  "cron_frequency [] = None"
| "cron_frequency (c # s) =
     (let mark = ''frequency_s:'';
          (ds, r) = digits_of (dropWhile re_space (drop (length mark) (c # s)))
      in if HasPrefix (c # s) mark \<and> ds \<noteq> [] \<and> (r = [] \<or> HasPrefix r [CHR 0x0A]) then Some ds else cron_frequency s)"

fun max_frequency :: "tagmap list \<Rightarrow> int \<Rightarrow> int option" where
  "max_frequency [] m = Some m"
| "max_frequency (cm # cms) m =
     (case cron_frequency (mgets cm ''cron.yaml'') of
        None \<Rightarrow> max_frequency cms m
      | Some ds \<Rightarrow> (case ParseInt_digits ds of None \<Rightarrow> None | Some f \<Rightarrow> max_frequency cms (MaxNumber m f)))"

definition GetMaxFrequencyFromCronScripts :: "tagmap list \<Rightarrow> duration option" where
  "GetMaxFrequencyFromCronScripts configMaps =
     map_option (\<lambda>m. sint (word_of_int (m * Second) :: int64)) (max_frequency configMaps 0)"

section \<open>The recommendation\<close>

record PEMLimits =
  plTotal :: int
  plHTTP :: int

definition CalculatePerTableSize :: "f64 \<Rightarrow> duration \<Rightarrow> int" where
  "CalculatePerTableSize maxBytesPerSecond targetRetention =
     int_of_f64 (fceil (fdiv (fmul maxBytesPerSecond (Seconds targetRetention)) MiBytes))"

definition CalculatePEMLimits :: "int \<Rightarrow> int \<Rightarrow> int \<Rightarrow> int \<Rightarrow> int \<Rightarrow> PEMLimits" where
  "CalculatePEMLimits numTables otherTableSize stirlingErrorsSize procExitEventsSize httpSize =
     (let memoryLimit = int_of_f64 (fceil
            (fadd (fadd (fmul (f64_of_int otherTableSize) (f64_of_int (numTables - 4))) (f64_of_int httpSize))
                  (fdiv (f64_of_int (stirlingErrorsSize + procExitEventsSize)) MiBytes)))
      in \<lparr>plTotal = memoryLimit,
          plHTTP = int_of_f64 (fceil (fmul (fdiv (f64_of_int httpSize) (f64_of_int memoryLimit)) (Fin 100)))\<rparr>)"

definition MemoryLimit :: "PEMLimits \<Rightarrow> int" where
  "MemoryLimit l = sint (word_of_int (MaxNumber 0 (sint (word_of_int (plTotal l - 200) :: int64)) + 750) :: int64)"

definition FprintlnWithIndent :: "nat \<Rightarrow> string \<Rightarrow> string" where
  "FprintlnWithIndent tabs line = concat (replicate tabs ''  '') @ line @ [CHR 0x0A]"

definition YAMLSnippet :: "PEMLimits \<Rightarrow> string" where
  "YAMLSnippet l =
     FprintlnWithIndent 0 ''spec:'' @ FprintlnWithIndent 1 ''experimental:'' @ FprintlnWithIndent 2 ''pixie:'' @
     FprintlnWithIndent 3 ''table_store_limits:'' @
     FprintlnWithIndent 4 (''total_mib: '' @ show_int (plTotal l)) @
     FprintlnWithIndent 4 (''http_events_percent: '' @ show_int (plHTTP l))"

definition ScaleDuration :: "f64 \<Rightarrow> duration \<Rightarrow> duration" where
  "ScaleDuration x d = int_of_f64 (fmul x (f64_of_int d))"

definition avg_row_batch_size :: "int64 number_store \<Rightarrow> int64 number_store \<Rightarrow> int" where
  "avg_row_batch_size bytes batches =
     int_of_f64 (fceil (fdiv (fdiv (f64_of_int64 (ns_Sum bytes)) (f64_of_int64 (ns_Sum batches))) MiBytes))"

text \<open>One round of the loop of \<open>Run\<close>; \<open>Inl\<close> ends the program, \<open>None\<close> is a panic.\<close>

definition table_averages :: "StatsStore \<Rightarrow> string \<Rightarrow> (int \<times> StatsStore) option" where
  "table_averages s tableName =
     (case TableBytes s tableName of
        None \<Rightarrow> None
      | Some (bytes, s) \<Rightarrow> map_option (\<lambda>(batches, s). (avg_row_batch_size bytes batches, s)) (TableRowBatches s tableName))"

definition table_limits :: "int \<Rightarrow> duration \<Rightarrow> StatsStore \<Rightarrow> (PEMLimits \<times> StatsStore) option" where
  "table_limits maxMissedRowBatchSize scaledRetentionTime s =
     (case table_averages s HTTPEventsTable of
        None \<Rightarrow> None
      | Some (httpAvg, s) \<Rightarrow>
     (case table_averages s UnknownTable of
        None \<Rightarrow> None
      | Some (otherAvg, s) \<Rightarrow>
          (let httpMinTableSize = MaxNumber maxMissedRowBatchSize httpAvg;
               otherMinTableSize = MaxNumber maxMissedRowBatchSize otherAvg;
               tableCount = sint (max_int (ssTableCountStore s))
           in case TableRate s UnknownTable of
                None \<Rightarrow> None
              | Some (otherRate, s) \<Rightarrow>
             (case TableRate s HTTPEventsTable of
                None \<Rightarrow> None
              | Some (httpRate, s) \<Rightarrow>
                  Some (CalculatePEMLimits tableCount
                    (MaxNumber otherMinTableSize (CalculatePerTableSize (max_float otherRate) scaledRetentionTime)) 0 0
                    (MaxNumber httpMinTableSize (CalculatePerTableSize (max_float httpRate) scaledRetentionTime)), s)))))"

definition recommend ::
  "f64 \<Rightarrow> (string + tagmap list) \<Rightarrow> (string + 'p list) \<Rightarrow> ('p \<Rightarrow> string + (string list \<times> bool)) \<Rightarrow>
    StatsStore \<Rightarrow> (string + (PEMLimits \<times> StatsStore)) option" where
  "recommend trafficScaleFactor cronScripts pemPods logs s =
     (case cronScripts of
        Inl err \<Rightarrow> Some (Inl (''error fetching cron scripts: '' @ err))
      | Inr cms \<Rightarrow>
     (case GetMaxFrequencyFromCronScripts cms of
        None \<Rightarrow> None
      | Some targetRetentionTime \<Rightarrow>
     (case pemPods of
        Inl err \<Rightarrow> Some (Inl (''error listing PEMs: '' @ err))
      | Inr pods \<Rightarrow>
     (case GetMaxMissedRowBatchSize logs pods of
        None \<Rightarrow> None
      | Some (Inl err) \<Rightarrow> Some (Inl err)
      | Some (Inr maxMissed) \<Rightarrow>
          map_option Inr (table_limits maxMissed (ScaleDuration trafficScaleFactor targetRetentionTime) s)))))"

section \<open>The environment\<close>

text \<open>An empty variable counts as one that is not set; the result is the new value, or \<open>None\<close> for a panic.\<close>

definition RequireFromEnv :: "(string \<Rightarrow> string) \<Rightarrow> string \<Rightarrow> (string \<Rightarrow> string + 'a) \<Rightarrow> 'a \<Rightarrow> 'a option" where
  "RequireFromEnv env envName parse v =
     (let envValue = env envName
      in if envValue = '''' then None
         else (case parse envValue of Inl err \<Rightarrow> None | Inr v \<Rightarrow> Some v))"

definition OptionalFromEnv :: "(string \<Rightarrow> string) \<Rightarrow> string \<Rightarrow> (string \<Rightarrow> string + 'a) \<Rightarrow> 'a \<Rightarrow> 'a option" where
  "OptionalFromEnv env envName parse v =
     (let envValue = env envName
      in if envValue = '''' then Some v
         else (case parse envValue of Inl err \<Rightarrow> None | Inr v \<Rightarrow> Some v))"

lemma env_unset:
  "OptionalFromEnv (\<lambda>_. '''') n parse v = Some v" "RequireFromEnv (\<lambda>_. '''') n parse v = None"
  by (simp_all add: OptionalFromEnv_def RequireFromEnv_def)

section \<open>The recommended limits\<close>

lemma round_half_even_near: "x - 1 / 2 \<le> of_int (round_half_even x)"
  unfolding round_half_even_def Let_def by (auto split: if_splits) linarith+

lemma f64_exp_normal:
  assumes "2 powi (- 1022) \<le> q"
  shows "2 powi f64_exp q \<le> q / 2 ^ 52"
proof -
  have q: "0 < q" using assms powi2_pos [of "- 1022"] by linarith
  have "2 powi (- 1022) < (2::rat) powi (rat_log2 q + 1)" using assms rat_log2_bounds(2) [OF q] by linarith
  then have "- 1022 < rat_log2 q + 1" by (rule pow_lt_lt)
  then have "f64_exp q = rat_log2 q - 52" using q by (simp add: f64_exp_def)
  then have "2 powi f64_exp q = (2::rat) powi rat_log2 q / 2 ^ 52" by (simp add: power_int_diff)
  then show ?thesis using rat_log2_bounds(1) [OF q] by (simp add: divide_right_mono)
qed

lemma rnd_lower:
  assumes lo: "2 powi (- 1022) \<le> q" and hi: "q \<le> 2 ^ k" and k: "k \<le> 1000"
  obtains r where "rnd q = Fin r" and "q * (1 - 1 / 2 ^ 53) \<le> r" and "r \<le> 2 ^ k"
proof -
  have q: "0 < q" using lo powi2_pos [of "- 1022"] by linarith
  define u where "u = (2::rat) powi f64_exp q"
  have u: "0 < u" by (simp add: u_def)
  from rnd_upto [OF q hi k] obtain r where r: "rnd q = Fin r" "r \<le> 2 ^ k"
      "r = of_int (round_half_even (q / u)) * u" unfolding u_def by metis
  have "(q / u - 1 / 2) * u \<le> r"
    unfolding r(3) using round_half_even_near u by (intro mult_right_mono) auto
  then have "q - u / 2 \<le> r" using u by (simp add: algebra_simps)
  moreover have "u \<le> q / 2 ^ 52" unfolding u_def by (rule f64_exp_normal [OF lo])
  ultimately have "q * (1 - 1 / 2 ^ 53) \<le> r" by (simp add: algebra_simps)
  with r show thesis by (intro that)
qed

lemma rnd_le_int:
  assumes q: "0 < q" and n: "q \<le> of_int n" and small: "n < 2 ^ 53" and r: "rnd q = Fin r"
  shows "r \<le> of_int n"
proof -
  define u where "u = (2::rat) powi f64_exp q"
  have u: "0 < u" by (simp add: u_def)
  have "(of_int n :: rat) < of_int (2 ^ 53)" using small by (simp only: of_int_less_iff)
  then have "(2::rat) powi rat_log2 q < 2 powi 53" using rat_log2_bounds(1) [OF q] n by simp
  then have "rat_log2 q < 53" by (rule pow_lt_lt)
  then have e: "f64_exp q \<le> 0" using q by (simp add: f64_exp_def)
  have "1 / u = 2 powi (- f64_exp q)" by (simp add: u_def power_int_minus inverse_eq_divide)
  then have iu: "1 / u = of_int (2 ^ nat (- f64_exp q))" using e by (simp add: powi2_int)
  have "q / u \<le> of_int n / u" using n u by (simp add: divide_right_mono)
  also have "\<dots> = of_int (n * 2 ^ nat (- f64_exp q))" using iu by (simp add: divide_inverse)
  finally have "round_half_even (q / u) \<le> n * 2 ^ nat (- f64_exp q)" by (rule round_half_even_le)
  then have "(of_int (round_half_even (q / u)) :: rat) \<le> of_int (n * 2 ^ nat (- f64_exp q))" by (simp only: of_int_le_iff)
  also have "\<dots> = of_int n / u" using iu by (simp add: divide_inverse)
  finally have "of_int (round_half_even (q / u)) * u \<le> of_int n" using u by (simp add: le_divide_eq)
  moreover have "r = of_int (round_half_even (q / u)) * u"
    using q r by (simp add: rnd_def Let_def u_def [symmetric] split: if_splits)
  ultimately show ?thesis by simp
qed

lemma int_of_fceil: "\<bar>q\<bar> \<le> 2 ^ 62 \<Longrightarrow> int_of_f64 (fceil (Fin q)) = \<lceil>q\<rceil>"
proof -
  assume "\<bar>q\<bar> \<le> 2 ^ 62"
  then have "\<lceil>q\<rceil> \<le> 2 ^ 62" "- (2 ^ 62) \<le> \<lceil>q\<rceil>" by (simp_all add: ceiling_le_iff le_ceiling_iff)
  then show ?thesis by (auto simp: int_of_f64_def fceil_def rat_trunc_def)
qed

lemma PEM_total:
  assumes "4 \<le> n" "n \<le> 2 ^ 11" "0 \<le> other" "other \<le> 2 ^ 31" "1 \<le> http" "http \<le> 2 ^ 31"
  defines "t \<equiv> other * (n - 4) + http"
  shows "1 \<le> t" "t \<le> 2 ^ 43" "http \<le> t"
    "CalculatePEMLimits n other 0 0 http =
      \<lparr>plTotal = t, plHTTP = int_of_f64 (fceil (fmul (fdiv (Fin (of_int http)) (Fin (of_int t))) (Fin 100)))\<rparr>"
proof -
  have o: "0 \<le> other * (n - 4)" using assms by simp
  have "other * (n - 4) \<le> 2 ^ 31 * 2 ^ 11" using assms by (intro mult_mono) auto
  then have b: "other * (n - 4) \<le> 2 ^ 42" by simp
  show t: "1 \<le> t" "t \<le> 2 ^ 43" "http \<le> t" using o b assms(5,6) unfolding t_def by simp_all
  have m: "fmul (Fin (of_int other)) (Fin (of_int (n - 4))) = Fin (of_int (other * (n - 4)))"
    using o b rnd_int [of "other * (n - 4)"] by simp
  have a: "fadd (Fin (of_int (other * (n - 4)))) (Fin (of_int http)) = Fin (of_int t)"
    using t unfolding t_def by (intro fadd_int) simp
  have z: "fadd (Fin (of_int t)) (fdiv (Fin 0) MiBytes) = Fin (of_int t)"
    using t rnd_int [of t] by (simp add: MiBytes_def)
  have e: "f64_of_int other = Fin (of_int other)" "f64_of_int http = Fin (of_int http)"
      "f64_of_int (n - 4) = Fin (of_int (n - 4))" "f64_of_int (0 + 0) = Fin 0" "f64_of_int t = Fin (of_int t)"
    using assms t by (simp_all only: f64_of_int_exact) simp_all
  have c: "int_of_f64 (fceil (Fin (of_int t))) = t"
    using int_of_fceil [of "of_int t"] t by (simp add: abs_le_iff)
  show "CalculatePEMLimits n other 0 0 http =
      \<lparr>plTotal = t, plHTTP = int_of_f64 (fceil (fmul (fdiv (Fin (of_int http)) (Fin (of_int t))) (Fin 100)))\<rparr>"
    unfolding CalculatePEMLimits_def Let_def e m a z c ..
qed



text \<open>With fewer than four tables the total can be negative, as at the start, when nothing was recorded.\<close>

lemma PEMLimits_no_tables: "plTotal (CalculatePEMLimits 0 10 0 0 10) = - 30"
proof -
  have "rnd (- 30) = Fin (- 30)" "rnd (- 40) = Fin (- 40)" using rnd_int [of "- 30"] rnd_int [of "- 40"] by simp_all
  then show ?thesis by (simp add: CalculatePEMLimits_def MiBytes_def fceil_def int_of_f64_def rat_trunc_def f64_of_int_def
      f64_of_int_exact [of "- 4", unfolded f64_of_int_def, simplified])
qed

section \<open>The statistics never panic\<close>

definition stores_ok :: "int \<Rightarrow> (string, 'v number_store) gomap \<Rightarrow> bool" where
  "stores_ok n m \<longleftrightarrow> list_all (\<lambda>e. ns_ok (snd e)) m \<and> 0 < n"

definition stats_ok :: "StatsStore \<Rightarrow> bool" where
  "stats_ok s \<longleftrightarrow> ns_ok (ssTableCountStore s) \<and> stores_ok (ssSamplePeriodMinutes s) (ssTableRates s) \<and>
     stores_ok (ssSamplePeriodMinutes s) (ssTableBytes s) \<and> stores_ok (ssSamplePeriodMinutes s) (ssTableRowBatches s)"

lemma NewStatsStore_ok: "0 < n \<Longrightarrow> \<exists>s. NewStatsStore n tables = Some s \<and> stats_ok s"
  by (simp add: NewStatsStore_def NewNumberStore_def stats_ok_def stores_ok_def ns_ok_def)

lemma stores_ok_mput: "stores_ok n m \<Longrightarrow> ns_ok x \<Longrightarrow> stores_ok n (mput k x m)"
  by (induction m) (auto simp: stores_ok_def mput_def split: if_splits)

lemma table_store_ok:
  assumes "stores_ok (ssSamplePeriodMinutes s) m"
  obtains x where "table_store s m k = Some x" "ns_ok x"
proof (cases "mget m k")
  case None
  with assms show thesis
    by (intro that [of "the (NewNumberStore (ssSamplePeriodMinutes s))"])
      (simp_all add: table_store_def NewNumberStore_def stores_ok_def ns_ok_def)
next
  case (Some x)
  then have "(k, x) \<in> set m" by (rule mget_in_set)
  with assms have "ns_ok x" by (auto simp: stores_ok_def list_all_iff)
  with Some show thesis by (intro that [of x]) (simp_all add: table_store_def)
qed

lemma record_in_ok:
  assumes "stores_ok (ssSamplePeriodMinutes s) m"
  obtains m' where "record_in now v k s m = Some m'" "stores_ok (ssSamplePeriodMinutes s) m'"
proof -
  obtain x where x: "table_store s m (normalizedTableName s k) = Some x" "ns_ok x" by (rule table_store_ok [OF assms])
  obtain x' where "ns_Record now v x = Some x'" "ns_ok x'" by (rule ns_Record_window [OF x(2)])
  with x(1) assms show thesis
    by (intro that [of "mput (normalizedTableName s k) x' m"]) (simp_all add: record_in_def stores_ok_mput)
qed

lemma record_sample_ok:
  assumes "stats_ok s"
  obtains s' where "record_sample now x s = Some s'" "stats_ok s'"
proof -
  from assms have ok: "stores_ok (ssSamplePeriodMinutes s) (ssTableRates s)"
      "stores_ok (ssSamplePeriodMinutes s) (ssTableBytes s)" "stores_ok (ssSamplePeriodMinutes s) (ssTableRowBatches s)"
    by (simp_all add: stats_ok_def)
  obtain r where r: "record_in now (tsRate x) (tsTable x) s (ssTableRates s) = Some r" "stores_ok (ssSamplePeriodMinutes s) r"
    by (rule record_in_ok [OF ok(1)])
  obtain b where b: "record_in now (tsBytes x) (tsTable x) s (ssTableBytes s) = Some b" "stores_ok (ssSamplePeriodMinutes s) b"
    by (rule record_in_ok [OF ok(2)])
  obtain c where c: "record_in now (tsBatches x) (tsTable x) s (ssTableRowBatches s) = Some c"
      "stores_ok (ssSamplePeriodMinutes s) c"
    by (rule record_in_ok [OF ok(3)])
  show thesis
    by (rule that [of "s\<lparr>ssTableRates := r, ssTableBytes := b, ssTableRowBatches := c\<rparr>"])
      (use assms r b c in \<open>simp_all add: record_sample_def stats_ok_def\<close>)
qed

lemma record_all_ok: "stats_ok s \<Longrightarrow> \<exists>s'. record_all now xs s = Some s' \<and> stats_ok s'"
proof (induction xs arbitrary: s)
  case (Cons x xs)
  obtain s1 where "record_sample now x s = Some s1" "stats_ok s1" by (rule record_sample_ok [OF Cons.prems])
  with Cons.IH show ?case by simp
qed simp

text \<open>Whatever the PEMs report, and whenever, the statistics of a positive period record it without a panic.\<close>

lemma on_metrics_ok: "stats_ok s \<Longrightarrow> \<exists>s'. on_metrics now podName fams s = Some s' \<and> stats_ok s'"
proof (cases "HasPrefix podName ''vizier-pem''")
  case True
  assume ok: "stats_ok s"
  let ?n = "word_of_int (int (length (family_metrics fams retentionTimeNsMetricName))) :: int64"
  have "ns_ok (ssTableCountStore s)" using ok by (simp add: stats_ok_def)
  then obtain c where c: "ns_Record now ?n (ssTableCountStore s) = Some c" "ns_ok c" by (rule ns_Record_window)
  then have "stats_ok (s\<lparr>ssTableCountStore := c\<rparr>)" using ok by (simp add: stats_ok_def)
  from record_all_ok [OF this] c(1) True show ?thesis by (simp add: on_metrics_def stats_Record_def Let_def)
next
  case False
  then show "stats_ok s \<Longrightarrow> ?thesis" by (simp add: on_metrics_def)
qed

end
