(* ===== verification/Collector_Options.thy ===== *)
theory Collector_Options
  imports Configuration
begin

text \<open>
  The flags of the collector (\<open>collector/internal/flags\<close>, \<open>collector/internal/options\<close>): sources and sinks as URIs, the
  values in their queries, the agent type, and the configuration that is made of the flags when there is no
  configuration file. The parser of flags, the URL parser and the file reader are parameters; a URL is what the code
  asks of it. What ends a conversion is a panic, the end of the program, or an error.
\<close>

section \<open>URIs (flags.go)\<close>

record url =
  uScheme :: string
  uHost :: string
  uPath :: string
  uQuery :: strlists
  uString :: string

definition empty_url :: url where
  "empty_url = \<lparr>uScheme = '''', uHost = '''', uPath = '''', uQuery = [], uString = ''''\<rparr>"

record Uri =
  uriKey :: string
  uriVal :: url

definition Uri_String :: "Uri \<Rightarrow> string" where
  "Uri_String u = (if uString (uriVal u) = '''' then uriKey u else uriKey u @ '':'' @ uString (uriVal u))"

text \<open>The first value that is returned is the error.\<close>

definition Uri_Set :: "(string \<Rightarrow> string) \<Rightarrow> (string \<Rightarrow> string + url) \<Rightarrow> string \<Rightarrow> Uri \<Rightarrow> string option \<times> Uri" where
  "Uri_Set expandEnv parseURL v u =
     (let s = SplitN2 (CHR '':'') v
      in if s ! 0 = '''' then (Some (''missing uri key in '' @ [CHR 0x27] @ v @ [CHR 0x27]), u)
         else (let u = u\<lparr>uriKey := s ! 0\<rparr>
               in if length s > 1 \<and> s ! 1 \<noteq> ''''
                  then (case parseURL (expandEnv (s ! 1)) of
                          Inl err \<Rightarrow> (Some err, u)
                        | Inr uri \<Rightarrow> (None, u\<lparr>uriVal := uri\<rparr>))
                  else (None, u)))"

definition Uris_String :: "Uri list \<Rightarrow> string" where
  "Uris_String us = ''['' @ Join '' '' (map Uri_String us) @ '']''"

definition Uris_Set ::
  "(string \<Rightarrow> string) \<Rightarrow> (string \<Rightarrow> string + url) \<Rightarrow> string \<Rightarrow> Uri list \<Rightarrow> string option \<times> Uri list" where
  "Uris_Set expandEnv parseURL v us =
     (case Uri_Set expandEnv parseURL v \<lparr>uriKey = '''', uriVal = empty_url\<rparr> of
        (Some err, _) \<Rightarrow> (Some err, us)
      | (None, u) \<Rightarrow> (None, us @ [u]))"

section \<open>Values in a query (utils.go)\<close>

definition DecodeTags :: "strlists \<Rightarrow> tagmap" where
  "DecodeTags vals =
     foldl (\<lambda>tags tag. case Split (CHR '':'') tag of [k, v] \<Rightarrow> mput k v tags | _ \<Rightarrow> tags) [] (query vals ''tag'')"

definition DecodeValue :: "strlists \<Rightarrow> string \<Rightarrow> string" where
  "DecodeValue vals name = (if length (query vals name) > 0 then query vals name ! 0 else '''')"

text \<open>\<open>strconv.ParseBool\<close>: what reads as true, what reads as false, and everything else, which is an error.\<close>

definition strconv_ParseBool :: "string \<Rightarrow> bool option" where
  "strconv_ParseBool s =
     (if s \<in> {''1'', ''t'', ''T'', ''TRUE'', ''true'', ''True''} then Some True
      else if s \<in> {''0'', ''f'', ''F'', ''FALSE'', ''false'', ''False''} then Some False else None)"

definition DecodeBoolean :: "strlists \<Rightarrow> string \<Rightarrow> bool" where
  "DecodeBoolean vals name =
     (if length (query vals name) > 0
      then (case strconv_ParseBool (query vals name ! 0) of None \<Rightarrow> False | Some b \<Rightarrow> b) else False)"

definition flag_ParseDuration :: "(string \<Rightarrow> string + duration) \<Rightarrow> strlists \<Rightarrow> string \<Rightarrow> duration \<Rightarrow> duration" where
  "flag_ParseDuration parse vals prop d =
     (if length (query vals prop) > 0
      then (case parse (query vals prop ! 0) of Inl err \<Rightarrow> d | Inr res \<Rightarrow> res) else d)"

section \<open>Options (options.go)\<close>

record CollectorRunOptions =
  roVersion :: bool
  roEnableProfiling :: bool
  roDaemon :: bool
  roAgentType :: AgentType
  roConfigFile :: string
  roLogLevel :: string
  roMaxProcs :: int
  roForceGC :: bool
  roMetricResolution :: duration
  roSources :: "Uri list"
  roSinks :: "Uri list"
  roSinkExportDataTimeout :: duration
  roEnableDiscovery :: bool
  roEnableRuntimeConfigs :: bool
  roDiscoveryConfigFile :: string
  roInternalStatsPrefix :: string
  roScrapeTimeout :: duration

definition default_options :: CollectorRunOptions where
  "default_options = \<lparr>roVersion = False, roEnableProfiling = False, roDaemon = False, roAgentType = AllAgentType,
     roConfigFile = '''', roLogLevel = ''info'', roMaxProcs = 0, roForceGC = False,
     roMetricResolution = 60 * Second, roSources = [], roSinks = [], roSinkExportDataTimeout = 20 * Second,
     roEnableDiscovery = True, roEnableRuntimeConfigs = False, roDiscoveryConfigFile = '''',
     roInternalStatsPrefix = ''kubernetes.'', roScrapeTimeout = 20 * Second\<rparr>"

text \<open>\<open>changed\<close> says which flags were given.\<close>

definition handleDaemonFlag :: "(string \<Rightarrow> bool) \<Rightarrow> CollectorRunOptions \<Rightarrow> string + CollectorRunOptions" where
  "handleDaemonFlag changed opts =
     (if changed ''daemon'' \<and> changed ''agent'' then Inl ''cannot set --daemon with --agent''
      else if changed ''daemon''
      then Inr (opts\<lparr>roAgentType := if roDaemon opts then LegacyAgentType else AllAgentType\<rparr>)
      else Inr opts)"

text \<open>The parser of the flags yields an error, or the options and which flags were given.\<close>

definition options_Parse ::
  "(CollectorRunOptions \<Rightarrow> string list \<Rightarrow> string + (CollectorRunOptions \<times> (string \<Rightarrow> bool))) \<Rightarrow> string list \<Rightarrow>
    string + CollectorRunOptions" where
  "options_Parse parse args =
     (case parse default_options args of
        Inl err \<Rightarrow> Inl err
      | Inr (opts, changed) \<Rightarrow> handleDaemonFlag changed opts)"

section \<open>From flags to a configuration (adapter.go)\<close>

datatype stopped = Panics | Fatal string | Err string

definition getTransforms :: "strlists \<Rightarrow> Transforms" where
  "getTransforms vals =
     \<lparr>trSource = DecodeValue vals ''source'', trPrefix = DecodeValue vals ''prefix'', trTags = DecodeTags vals,
      trFilters = FromQuery vals, ConvertHistograms = False\<rparr>"

definition no_collection :: CollectionConfig where
  "no_collection = \<lparr>ccInterval = 0, ccTimeout = 0\<rparr>"

definition addSummarySource :: "Uri \<Rightarrow> SourceConfig \<Rightarrow> SourceConfig" where
  "addSummarySource uri src =
     (let u = uriVal uri; vals = uQuery u
      in src\<lparr>SummaryConfig := Some
           \<lparr>ssTransforms = getTransforms vals, ssCollection = no_collection,
            ssURL = (if uScheme u \<noteq> '''' then uScheme u @ ''://'' @ uHost u @ uPath u else ''''),
            KubeletPort = DecodeValue vals ''kubeletPort'', KubeletHttps = DecodeValue vals ''kubeletHttps'',
            InClusterConfig = DecodeValue vals ''inClusterConfig'',
            UseServiceAccount = DecodeValue vals ''useServiceAccount'', Insecure = DecodeValue vals ''insecure'',
            Auth = DecodeValue vals ''auth''\<rparr>\<rparr>)"

definition addStateSource :: "Uri \<Rightarrow> SourceConfig \<Rightarrow> SourceConfig" where
  "addStateSource uri src =
     src\<lparr>StateConfig := Some \<lparr>ksTransforms = getTransforms (uQuery (uriVal uri)), ksCollection = no_collection\<rparr>\<rparr>"

definition prometheus_of :: "Uri \<Rightarrow> PrometheusSourceConfig" where
  "prometheus_of uri =
     (let vals = uQuery (uriVal uri)
      in \<lparr>psTransforms = getTransforms vals, psCollection = no_collection, psURL = DecodeValue vals ''url'',
          HTTPClientConfig = emptyClient, psName = '''', psDiscovered = '''', psUseLeaderElection = False\<rparr>)"

definition addPrometheusSource :: "Uri \<Rightarrow> SourceConfig \<Rightarrow> SourceConfig" where
  "addPrometheusSource uri src = src\<lparr>PrometheusConfigs := PrometheusConfigs src @ [prometheus_of uri]\<rparr>"

definition addCadvisorSource :: "Uri \<Rightarrow> SourceConfig \<Rightarrow> SourceConfig" where
  "addCadvisorSource uri src =
     src\<lparr>CadvisorConfig := Some \<lparr>caTransforms = getTransforms (uQuery (uriVal uri)), caCollection = no_collection\<rparr>\<rparr>"

definition telegraf_of :: "Uri \<Rightarrow> TelegrafSourceConfig" where
  "telegraf_of uri =
     (let vals = uQuery (uriVal uri); plugins = DecodeValue vals ''plugins''
      in \<lparr>tgTransforms = getTransforms vals, tgCollection = no_collection,
          tgPlugins = (if length plugins > 0 then Split (CHR '','') plugins else []),
          tgConf = '''', tgDiscovered = '''', tgName = '''', tgUseLeaderElection = False\<rparr>)"

definition addTelegrafSource :: "Uri \<Rightarrow> SourceConfig \<Rightarrow> SourceConfig" where
  "addTelegrafSource uri src = src\<lparr>TelegrafConfigs := TelegrafConfigs src @ [telegraf_of uri]\<rparr>"

definition addSystemdSource :: "Uri \<Rightarrow> SourceConfig \<Rightarrow> SourceConfig" where
  "addSystemdSource uri src =
     (let vals = uQuery (uriVal uri)
      in src\<lparr>SystemdConfig := Some
           \<lparr>sdTransforms = getTransforms vals, sdCollection = no_collection,
            IncludeTaskMetrics = DecodeBoolean vals ''taskMetrics'',
            IncludeStartTimeMetrics = DecodeBoolean vals ''startTimeMetrics'',
            IncludeRestartMetrics = DecodeBoolean vals ''restartMetrics'',
            UnitAllowList = query vals ''unitWhitelist'', UnitDenyList = query vals ''unitBlacklist''\<rparr>\<rparr>)"

definition emptySources :: SourceConfig where
  "emptySources = \<lparr>SummaryConfig = None, CadvisorConfig = None, PrometheusConfigs = [], TelegrafConfigs = [],
     SystemdConfig = None, StatsConfig = None, StateConfig = None\<rparr>"

text \<open>An unknown source ends the loop.\<close>

fun add_sources :: "Uri list \<Rightarrow> SourceConfig \<Rightarrow> SourceConfig" where
  "add_sources [] src = src"
| "add_sources (u # us) src =
     (if uriKey u = ''kubernetes.summary_api'' then add_sources us (addSummarySource u src)
      else if uriKey u = ''kubernetes.state'' then add_sources us (addStateSource u src)
      else if uriKey u = ''prometheus'' then add_sources us (addPrometheusSource u src)
      else if uriKey u = ''kubernetes.cadvisor'' then add_sources us (addCadvisorSource u src)
      else if uriKey u = ''telegraf'' then add_sources us (addTelegrafSource u src)
      else if uriKey u = ''systemd'' then add_sources us (addSystemdSource u src)
      else src)"

definition addSources :: "Uri list \<Rightarrow> SourceConfig" where
  "addSources us = add_sources us emptySources"

definition emptySink :: SinkConfig where
  "emptySink = \<lparr>skTransforms = emptyTransforms, skType = WavefrontSinkType, skEnableEvents = None, Server = '''',
     Token = '''', BatchSize = 0, MaxBufferSize = 0, ProxyAddress = '''', TestMode = False, ErrorLogPercent = Fin 0,
     ExternalEndpointURL = '''', ExternalEndpointAccessKey = '''', skClusterName = '''', InternalStatsPrefix = '''',
     HeartbeatInterval = 0\<rparr>"

definition addWavefrontSink :: "Uri \<Rightarrow> SinkConfig" where
  "addWavefrontSink uri =
     (let vals = uQuery (uriVal uri)
      in emptySink\<lparr>Server := DecodeValue vals ''server'', Token := DecodeValue vals ''token'',
           ProxyAddress := DecodeValue vals ''proxyAddress'', skClusterName := DecodeValue vals ''clusterName'',
           skTransforms := getTransforms vals\<rparr>)"

fun addSinks :: "Uri list \<Rightarrow> SinkConfig list" where
  "addSinks [] = []"
| "addSinks (u # us) = (if uriKey u = ''wavefront'' then addWavefrontSink u # addSinks us else [])"

definition addInternalStatsSource :: "string \<Rightarrow> SourceConfig \<Rightarrow> SourceConfig" where
  "addInternalStatsSource prefix src =
     src\<lparr>StatsConfig := Some \<lparr>stTransforms = emptyTransforms\<lparr>trPrefix := prefix\<rparr>, stCollection = no_collection\<rparr>\<rparr>"

text \<open>A prefix moves from the first sink to the Kubernetes source, which may not be there.\<close>

definition set_summary_prefix :: "string \<Rightarrow> SourceConfig \<Rightarrow> SourceConfig option" where
  "set_summary_prefix prefix src =
     map_option (\<lambda>su. src\<lparr>SummaryConfig := Some (su\<lparr>ssTransforms := (ssTransforms su)\<lparr>trPrefix := prefix\<rparr>\<rparr>)\<rparr>) (SummaryConfig src)"

definition extractSinkProperties ::
  "SinkConfig list \<Rightarrow> SourceConfig \<Rightarrow> stopped + (SinkConfig list \<times> SourceConfig \<times> string)" where
  "extractSinkProperties sinks src =
     (case sinks of
        [] \<Rightarrow> Inl (Fatal ''no sink configured'')
      | sink # rest \<Rightarrow>
          (let prefix = trPrefix (skTransforms sink)
           in if prefix \<noteq> ''''
              then (case set_summary_prefix prefix src of
                      None \<Rightarrow> Inl Panics
                    | Some src \<Rightarrow> Inr (sink\<lparr>skTransforms := (skTransforms sink)\<lparr>trPrefix := ''''\<rparr>\<rparr> # rest, src, skClusterName sink))
              else Inr (sinks, src, skClusterName sink)))"

definition flags_discovery ::
  "(string \<Rightarrow> string + DiscoveryConfig) \<Rightarrow> CollectorRunOptions \<Rightarrow> DiscoveryConfig \<Rightarrow> stopped + DiscoveryConfig" where
  "flags_discovery fromFile opts dc =
     (if \<not> roEnableDiscovery opts then Inr dc
      else
       (let dc = dc\<lparr>EnableRuntimePlugins := roEnableRuntimeConfigs opts\<rparr>;
            dc = (if DiscoveryInterval dc = 0 then dc\<lparr>DiscoveryInterval := 5 * Minute\<rparr> else dc)
        in if roDiscoveryConfigFile opts \<noteq> ''''
           then (case fromFile (roDiscoveryConfigFile opts) of
                   Inl err \<Rightarrow> Inl (Fatal (''error loading discovery configuration: '' @ err))
                 | Inr cfg \<Rightarrow> Inr (dc\<lparr>PluginConfigs := PluginConfigs (ConvertPromToPlugin cfg)\<rparr>))
           else Inr dc))"

definition convert_flags ::
  "(string \<Rightarrow> string + DiscoveryConfig) \<Rightarrow> CollectorRunOptions \<Rightarrow> CollectorConfig \<Rightarrow> stopped + CollectorConfig" where
  "convert_flags fromFile opts cfg =
     (let cfg = cfg\<lparr>DefaultCollectionInterval := roMetricResolution opts, FlushInterval := roMetricResolution opts,
                SinkExportDataTimeout := roSinkExportDataTimeout opts, EnableDiscovery := roEnableDiscovery opts\<rparr>
      in if length (roSources opts) = 0 then Inl (Err ''missing sources'')
         else if length (roSinks opts) = 0 then Inl (Err ''missing sink'')
         else
          (let src = addInternalStatsSource (roInternalStatsPrefix opts) (addSources (roSources opts));
               sinks = Sinks cfg @ addSinks (roSinks opts)
           in case extractSinkProperties sinks src of
                Inl e \<Rightarrow> Inl e
              | Inr (sinks, src, clusterName) \<Rightarrow>
             (case flags_discovery fromFile opts (DiscoveryConfigOf cfg) of
                Inl e \<Rightarrow> Inl e
              | Inr dc \<Rightarrow>
                  Inr (cfg\<lparr>Sources := Some src, Sinks := sinks, ClusterName := clusterName, DiscoveryConfigOf := dc\<rparr>))))"

definition Convert ::
  "environment \<Rightarrow> (string \<Rightarrow> string + DiscoveryConfig) \<Rightarrow> CollectorRunOptions \<Rightarrow> stopped + CollectorConfig" where
  "Convert env fromFile opts =
     (case convert_flags fromFile opts defaultConfig of
        Inl e \<Rightarrow> Inl e
      | Inr cfg \<Rightarrow>
          (case New env (\<lambda>_. Inr cfg) of Inl None \<Rightarrow> Inl Panics | Inl (Some e) \<Rightarrow> Inl (Err e) | Inr cfg \<Rightarrow> Inr cfg))"

section \<open>What the flags amount to\<close>

text \<open>A URI is read back from its text when the URL parser reads its URL back.\<close>

lemma Uri_Set_String:
  assumes "CHR '':'' \<notin> set (uriKey u)" "uriKey u \<noteq> ''''" "expandEnv (uString (uriVal u)) = uString (uriVal u)"
    "parseURL (uString (uriVal u)) = Inr (uriVal u)" "uString (uriVal u) = '''' \<Longrightarrow> uriVal u = empty_url"
  shows "Uris_Set expandEnv parseURL (Uri_String u) us = (None, us @ [u])"
proof -
  have "takeWhile (\<lambda>x. x \<noteq> CHR '':'') (uriKey u @ ys) = uriKey u @ takeWhile (\<lambda>x. x \<noteq> CHR '':'') ys"
      "dropWhile (\<lambda>x. x \<noteq> CHR '':'') (uriKey u @ ys) = dropWhile (\<lambda>x. x \<noteq> CHR '':'') ys" for ys
    using assms(1) by (auto intro!: takeWhile_append2 dropWhile_append2)
  with assms show ?thesis
    by (auto simp: Uris_Set_def Uri_Set_def Uri_String_def SplitN2_def Let_def)
qed

definition known_sources :: "Uri list \<Rightarrow> Uri list" where
  "known_sources us =
     takeWhile (\<lambda>u. uriKey u \<in> {''kubernetes.summary_api'', ''kubernetes.state'', ''prometheus'',
       ''kubernetes.cadvisor'', ''telegraf'', ''systemd''}) us"

definition has_summary :: "Uri list \<Rightarrow> bool" where
  "has_summary us \<longleftrightarrow> (\<exists>u \<in> set (known_sources us). uriKey u = ''kubernetes.summary_api'')"

lemmas add_defs = addSummarySource_def addStateSource_def addPrometheusSource_def addCadvisorSource_def
  addTelegrafSource_def addSystemdSource_def

lemma add_sources_configs:
  "PrometheusConfigs (add_sources us src) =
     PrometheusConfigs src @ map prometheus_of (filter (\<lambda>u. uriKey u = ''prometheus'') (known_sources us))"
  "TelegrafConfigs (add_sources us src) =
     TelegrafConfigs src @ map telegraf_of (filter (\<lambda>u. uriKey u = ''telegraf'') (known_sources us))"
  by (induction us src rule: add_sources.induct) (auto simp: known_sources_def add_defs Let_def)

lemma add_sources_summary:
  "(SummaryConfig (add_sources us src) \<noteq> None) = (SummaryConfig src \<noteq> None \<or> has_summary us)"
  by (induction us src rule: add_sources.induct) (auto simp: known_sources_def has_summary_def add_defs Let_def)

lemma addSinks_map: "addSinks us = map addWavefrontSink (takeWhile (\<lambda>u. uriKey u = ''wavefront'') us)"
  by (induction us) auto

definition first_sink :: "Uri list \<Rightarrow> Uri option" where
  "first_sink us = (case us of u # _ \<Rightarrow> if uriKey u = ''wavefront'' then Some u else None | [] \<Rightarrow> None)"

definition discovery_readable :: "(string \<Rightarrow> string + DiscoveryConfig) \<Rightarrow> CollectorRunOptions \<Rightarrow> bool" where
  "discovery_readable fromFile opts \<longleftrightarrow>
     (roEnableDiscovery opts \<and> roDiscoveryConfigFile opts \<noteq> '''' \<longrightarrow> (\<exists>cfg. fromFile (roDiscoveryConfigFile opts) = Inr cfg))"

lemma flags_discovery_ok: "(\<exists>dc'. flags_discovery fromFile opts dc = Inr dc') = discovery_readable fromFile opts"
  by (auto simp: flags_discovery_def discovery_readable_def Let_def split: sum.splits)

lemma flags_discovery_Inl: "flags_discovery fromFile opts dc = Inl e \<Longrightarrow> \<exists>m. e = Fatal m"
  by (auto simp: flags_discovery_def Let_def split: sum.splits if_splits)

lemma extract_cases:
  "extractSinkProperties (s # ss) src =
     (if trPrefix (skTransforms s) \<noteq> '''' \<and> SummaryConfig src = None then Inl Panics
      else Inr (s\<lparr>skTransforms := (skTransforms s)\<lparr>trPrefix := ''''\<rparr>\<rparr> # ss,
                (if trPrefix (skTransforms s) = '''' then src else the (set_summary_prefix (trPrefix (skTransforms s)) src)),
                skClusterName s))"
  by (cases "SummaryConfig src") (auto simp: extractSinkProperties_def set_summary_prefix_def Let_def)

lemma set_summary_prefix_keeps:
  assumes "SummaryConfig src \<noteq> None"
  shows "SummaryConfig (the (set_summary_prefix p src)) \<noteq> None"
    "PrometheusConfigs (the (set_summary_prefix p src)) = PrometheusConfigs src"
    "TelegrafConfigs (the (set_summary_prefix p src)) = TelegrafConfigs src"
  using assms by (auto simp: set_summary_prefix_def)

lemma addSinks_Cons: "first_sink us = Some u \<Longrightarrow> \<exists>rest. addSinks us = addWavefrontSink u # rest"
  by (cases us) (auto simp: first_sink_def split: if_splits)

lemma addSinks_Nil: "(addSinks us = []) = (first_sink us = None)"
  by (cases us) (auto simp: first_sink_def)

definition flag_sources :: "CollectorRunOptions \<Rightarrow> SourceConfig" where
  "flag_sources opts = addInternalStatsSource (roInternalStatsPrefix opts) (addSources (roSources opts))"

lemma flag_sources_sel:
  "(SummaryConfig (flag_sources opts) = None) = (\<not> has_summary (roSources opts))"
  "PrometheusConfigs (flag_sources opts) = map prometheus_of (filter (\<lambda>u. uriKey u = ''prometheus'') (known_sources (roSources opts)))"
  "TelegrafConfigs (flag_sources opts) = map telegraf_of (filter (\<lambda>u. uriKey u = ''telegraf'') (known_sources (roSources opts)))"
  using add_sources_summary [of "roSources opts" emptySources]
  by (auto simp: flag_sources_def addInternalStatsSource_def addSources_def add_sources_configs emptySources_def)

lemma sink_sel:
  "trPrefix (skTransforms (addWavefrontSink u)) = DecodeValue (uQuery (uriVal u)) ''prefix''"
  "skClusterName (addWavefrontSink u) = DecodeValue (uQuery (uriVal u)) ''clusterName''"
  by (simp_all add: addWavefrontSink_def getTransforms_def Let_def)

lemma Convert_nothing:
  assumes "roSources opts = [] \<or> first_sink (roSinks opts) = None"
  shows "\<exists>e. Convert env fromFile opts = Inl e \<and> e \<noteq> Panics"
proof (cases "roSources opts = [] \<or> roSinks opts = []")
  case True
  then show ?thesis by (auto simp: Convert_def convert_flags_def Let_def)
next
  case False
  with assms have "addSinks (roSinks opts) = []" by (simp add: addSinks_Nil)
  with False show ?thesis by (simp add: Convert_def convert_flags_def Let_def extractSinkProperties_def defaultConfig_def)
qed

lemma convert_flags_sink:
  assumes "roSources opts \<noteq> []" "addSinks (roSinks opts) = s # rest" "Sinks cfg = []"
  shows "convert_flags fromFile opts cfg =
    (if trPrefix (skTransforms s) \<noteq> '''' \<and> \<not> has_summary (roSources opts) then Inl Panics
     else case flags_discovery fromFile opts (DiscoveryConfigOf cfg) of
       Inl e \<Rightarrow> Inl e
     | Inr dc \<Rightarrow> Inr (cfg\<lparr>DefaultCollectionInterval := roMetricResolution opts, FlushInterval := roMetricResolution opts,
         SinkExportDataTimeout := roSinkExportDataTimeout opts, EnableDiscovery := roEnableDiscovery opts,
         Sources := Some (if trPrefix (skTransforms s) = '''' then flag_sources opts
           else the (set_summary_prefix (trPrefix (skTransforms s)) (flag_sources opts))),
         Sinks := s\<lparr>skTransforms := (skTransforms s)\<lparr>trPrefix := ''''\<rparr>\<rparr> # rest,
         ClusterName := skClusterName s, DiscoveryConfigOf := dc\<rparr>))"
proof -
  have "roSinks opts \<noteq> []" using assms(2) by auto
  with assms show ?thesis
    by (simp add: convert_flags_def Let_def extract_cases flag_sources_def [symmetric] flag_sources_sel split: sum.split)
qed

lemma New_const:
  "Sources cfg = Some src \<Longrightarrow> Sinks cfg \<noteq> [] \<Longrightarrow>
   (\<exists>c. New env (\<lambda>_. Inr cfg) = Inr c) = (5 * Second \<le> FlushInterval cfg \<and> SummaryConfig src \<noteq> None) \<and>
   New env (\<lambda>_. Inr cfg) \<noteq> Inl None"
  by (auto simp: New_def validateCfg_def reconcileGlobalProperties_def Let_def split: option.splits)

lemma New_const_Inr:
  "New env (\<lambda>_. Inr cfg) = Inr c \<Longrightarrow> Sources cfg = Some src \<Longrightarrow>
   map_option PrometheusConfigs (Sources c) = Some (PrometheusConfigs src) \<and>
   map_option TelegrafConfigs (Sources c) = Some (TelegrafConfigs src) \<and> ClusterName c = ClusterName cfg \<and>
   length (Sinks c) = length (Sinks cfg) \<and> FlushInterval c = FlushInterval cfg"
  by (auto simp: New_def reconcileGlobalProperties_def Let_def split: option.splits)

text \<open>C38: The flags make a configuration exactly when there are sources, the first sink is a Wavefront sink, a Kubernetes
  source comes before any unknown source, the discovery file can be read, and the resolution is at
  least five seconds. They crash the collector exactly when the first sink has a prefix and there is no such source.
  The sources of Prometheus and telegraf are those before the first unknown source, the cluster is that of the first
  sink, and the sinks end at the first that is unknown.\<close>

theorem Convert_outcome:
  "let res = Convert env fromFile opts; us = roSources opts; sink = first_sink (roSinks opts)
   in ((\<exists>c. res = Inr c) = (us \<noteq> [] \<and> sink \<noteq> None \<and> has_summary us \<and> discovery_readable fromFile opts \<and>
                             5 * Second \<le> roMetricResolution opts)) \<and>
      (res = Inl Panics) = (us \<noteq> [] \<and> (case sink of None \<Rightarrow> False
         | Some u \<Rightarrow> DecodeValue (uQuery (uriVal u)) ''prefix'' \<noteq> '''' \<and> \<not> has_summary us)) \<and>
      (case res of Inl _ \<Rightarrow> True
       | Inr c \<Rightarrow> map_option PrometheusConfigs (Sources c) =
             Some (map prometheus_of (filter (\<lambda>u. uriKey u = ''prometheus'') (known_sources us))) \<and>
           map_option TelegrafConfigs (Sources c) =
             Some (map telegraf_of (filter (\<lambda>u. uriKey u = ''telegraf'') (known_sources us))) \<and>
           ClusterName c = DecodeValue (uQuery (uriVal (the sink))) ''clusterName'' \<and>
           length (Sinks c) = length (takeWhile (\<lambda>u. uriKey u = ''wavefront'') (roSinks opts)) \<and>
           FlushInterval c = roMetricResolution opts)"
proof (cases "roSources opts = [] \<or> first_sink (roSinks opts) = None")
  case True
  then obtain e where "Convert env fromFile opts = Inl e" "e \<noteq> Panics" using Convert_nothing by blast
  with True show ?thesis by (auto split: option.split)
next
  case False
  then obtain u where u: "first_sink (roSinks opts) = Some u" and us: "roSources opts \<noteq> []" by auto
  then obtain rest where rest: "addSinks (roSinks opts) = addWavefrontSink u # rest" using addSinks_Cons by blast
  have len: "Suc (length rest) = length (takeWhile (\<lambda>u. uriKey u = ''wavefront'') (roSinks opts))"
    using arg_cong [OF rest, of length] by (simp add: addSinks_map)
  note flags = convert_flags_sink [OF us rest, of defaultConfig fromFile, unfolded sink_sel]
  have none: "Sinks defaultConfig = []" by (simp add: defaultConfig_def)
  let ?p = "DecodeValue (uQuery (uriVal u)) ''prefix''"
  show ?thesis
  proof (cases "?p \<noteq> '''' \<and> \<not> has_summary (roSources opts)")
    case True
    then have "Convert env fromFile opts = Inl Panics" by (simp add: Convert_def flags [OF none])
    with True u us show ?thesis by simp
  next
    case ok: False
    show ?thesis
    proof (cases "flags_discovery fromFile opts (DiscoveryConfigOf defaultConfig)")
      case (Inl e)
      then have "\<not> discovery_readable fromFile opts" "e \<noteq> Panics"
        using flags_discovery_ok [of fromFile opts "DiscoveryConfigOf defaultConfig"] flags_discovery_Inl [OF Inl] by auto
      moreover have "Convert env fromFile opts = Inl e" using ok Inl by (auto simp: Convert_def flags [OF none])
      ultimately show ?thesis using u us ok by auto
    next
      case (Inr dc)
      then have d: "discovery_readable fromFile opts" by (metis flags_discovery_ok)
      from ok Inr obtain cfg src where cfg: "convert_flags fromFile opts defaultConfig = Inr cfg" "Sources cfg = Some src"
          "length (Sinks cfg) = Suc (length rest)" "ClusterName cfg = DecodeValue (uQuery (uriVal u)) ''clusterName''"
          "FlushInterval cfg = roMetricResolution opts"
          "src = (if ?p = '''' then flag_sources opts else the (set_summary_prefix ?p (flag_sources opts)))"
        by (auto simp: flags [OF none])
      have src: "(SummaryConfig src \<noteq> None) = has_summary (roSources opts)"
          "PrometheusConfigs src = PrometheusConfigs (flag_sources opts)" "TelegrafConfigs src = TelegrafConfigs (flag_sources opts)"
        using ok set_summary_prefix_keeps [of "flag_sources opts" ?p]
        by (cases "?p = ''''"; simp add: cfg(6) flag_sources_sel del: not_None_eq)+
      have "Sinks cfg \<noteq> []" using cfg(3) by auto
      note n = New_const [OF cfg(2) this, of env] New_const_Inr [OF _ cfg(2), of env]
      show ?thesis
      proof (cases "New env (\<lambda>_. Inr cfg)")
        case (Inl e)
        then obtain m where "Convert env fromFile opts = Inl (Err m)" using n(1) by (cases e) (auto simp: Convert_def cfg(1))
        with Inl n(1) u us ok d src(1) cfg(5) show ?thesis by auto
      next
        case (Inr c)
        then have "Convert env fromFile opts = Inr c" by (simp add: Convert_def cfg(1))
        with n(1) n(2) [OF Inr] Inr u us d src cfg(3-5) len show ?thesis by (simp add: flag_sources_sel)
      qed
    qed
  qed
qed

end
