(* ===== verification/Http_Clients.thy ===== *)
theory Http_Clients
  imports Collector_Options Discovery_Rules
begin

text \<open>
  The clients of the collector: the one for targets (\<open>collector/internal/httputil\<close>: client.go, parser.go), the one for
  the API server (\<open>collector/internal/kubernetes/configs.go\<close>) and the one for kubelets
  (\<open>collector/plugins/sources/summary/kubelet\<close>: configs.go, transport.go, kubelet_client.go). Files, certificates,
  the URL parser, the configurations that client-go finds and the transport are parameters. Who gets a token, when
  certificates are not checked, and what becomes of the answers.
\<close>

section \<open>The client for targets (client.go)\<close>

record tls_config =
  tlInsecureSkipVerify :: bool
  tlRootCAs :: "string option"
  tlServerName :: string
  tlCertificate :: "(string \<times> string) option"

text \<open>\<open>readFile\<close> and \<open>loadPair\<close> yield an error, the contents, or nothing but success.\<close>

definition NewTLSConfig ::
  "(string \<Rightarrow> string + string) \<Rightarrow> (string \<Rightarrow> string \<Rightarrow> string option) \<Rightarrow> TLSConfig \<Rightarrow> string + tls_config" where
  "NewTLSConfig readFile loadPair cfg =
     (let tc = \<lparr>tlInsecureSkipVerify = InsecureSkipVerify cfg, tlRootCAs = None, tlServerName = '''', tlCertificate = None\<rparr>
      in case (if length (CAFile cfg) > 0
               then (case readFile (CAFile cfg) of
                       Inl err \<Rightarrow> Inl (''unable to use specified CA cert '' @ CAFile cfg @ '': '' @ err)
                     | Inr caCert \<Rightarrow> Inr (tc\<lparr>tlRootCAs := Some caCert\<rparr>))
               else Inr tc) of
           Inl err \<Rightarrow> Inl err
         | Inr tc \<Rightarrow>
             (let tc = (if length (ServerName cfg) > 0 then tc\<lparr>tlServerName := ServerName cfg\<rparr> else tc)
              in if length (CertFile cfg) > 0 \<and> length (KeyFile cfg) = 0
                 then Inl (''client cert file '' @ CertFile cfg @ '' specified without client key file'')
                 else if length (KeyFile cfg) > 0 \<and> length (CertFile cfg) = 0
                 then Inl (''client key file '' @ KeyFile cfg @ '' specified without client cert file'')
                 else if length (CertFile cfg) > 0 \<and> length (KeyFile cfg) > 0
                 then (case loadPair (CertFile cfg) (KeyFile cfg) of
                         Some err \<Rightarrow> Inl (''unable to use specified client cert ('' @ CertFile cfg @ '') & key ('' @ KeyFile cfg @
                           ''): '' @ err)
                       | None \<Rightarrow> Inr (tc\<lparr>tlCertificate := Some (CertFile cfg, KeyFile cfg)\<rparr>))
                 else Inr tc))"

datatype round_tripper = Plain "string option" tls_config | BearerTokenRT string round_tripper | BearerFileRT string round_tripper

definition NewRoundTripper ::
  "(string \<Rightarrow> string + string) \<Rightarrow> (string \<Rightarrow> string \<Rightarrow> string option) \<Rightarrow> ClientConfig \<Rightarrow> string + round_tripper" where
  "NewRoundTripper readFile loadPair cfg =
     (case NewTLSConfig readFile loadPair (TLSConfigOf cfg) of
        Inl err \<Rightarrow> Inl err
      | Inr tlsConfig \<Rightarrow>
          (let rt = Plain (ProxyURL cfg) tlsConfig
           in Inr (if length (BearerToken cfg) > 0 then BearerTokenRT (BearerToken cfg) rt
                   else if length (BearerTokenFile cfg) > 0 then BearerFileRT (BearerTokenFile cfg) rt
                   else rt)))"

definition is_white :: "char \<Rightarrow> bool" where
  "is_white c \<longleftrightarrow> c \<in> {CHR '' '', CHR 0x09, CHR 0x0A, CHR 0x0B, CHR 0x0C, CHR 0x0D}"

text \<open>A request is its headers; what a round tripper hands to the transport at the end, or an error.\<close>

type_synonym headers = "(string, string) gomap"

definition set_authorization :: "string \<Rightarrow> headers \<Rightarrow> headers" where
  "set_authorization token req = mput ''Authorization'' (''Bearer '' @ token) req"

fun RoundTrip :: "(string \<Rightarrow> string + string) \<Rightarrow> round_tripper \<Rightarrow> headers \<Rightarrow> string + headers" where
  "RoundTrip readFile (Plain proxy tc) req = Inr req"
| "RoundTrip readFile (BearerTokenRT token rt) req =
     RoundTrip readFile rt (if length (mgets req ''Authorization'') = 0 then set_authorization token req else req)"
| "RoundTrip readFile (BearerFileRT bearerFile rt) req =
     (if length (mgets req ''Authorization'') = 0
      then (case readFile bearerFile of
              Inl err \<Rightarrow> Inl (''unable to read bearer token file '' @ bearerFile @ '': '' @ err)
            | Inr b \<Rightarrow> RoundTrip readFile rt (set_authorization (Trim is_white b) req))
      else RoundTrip readFile rt req)"

definition http_FromYAML :: "(string \<Rightarrow> string + ClientConfig) \<Rightarrow> string \<Rightarrow> string + ClientConfig" where
  "http_FromYAML unmarshal contents =
     (case unmarshal contents of
        Inl err \<Rightarrow> Inl (''unable to parse http configuration: '' @ err)
      | Inr cfg \<Rightarrow> Inr cfg)"

section \<open>The client for the API server (configs.go)\<close>

record kube_config =
  kcHost :: string
  kcInsecure :: bool
  kcCAFile :: string
  kcCAData :: string
  kcCertFile :: string
  kcCertData :: string
  kcKeyFile :: string
  kcKeyData :: string
  kcBearerToken :: string
  kcGroupVersion :: string
  kcContentType :: string

definition empty_kube_config :: kube_config where
  "empty_kube_config = \<lparr>kcHost = '''', kcInsecure = False, kcCAFile = '''', kcCAData = '''', kcCertFile = '''', kcCertData = '''',
     kcKeyFile = '''', kcKeyData = '''', kcBearerToken = '''', kcGroupVersion = '''', kcContentType = ''''\<rparr>"

definition parse_bool_error :: "string \<Rightarrow> string" where
  "parse_bool_error s = ''strconv.ParseBool: parsing '' @ s @ '': invalid syntax''"

text \<open>A setting that is empty has its default, one that is no boolean is an error.\<close>

definition bool_setting :: "string \<Rightarrow> bool \<Rightarrow> string + bool" where
  "bool_setting s d =
     (if length s > 0 then (case strconv_ParseBool s of None \<Rightarrow> Inl (parse_bool_error s) | Some b \<Rightarrow> Inr b) else Inr d)"

text \<open>The server and whether certificates are checked.\<close>

definition getConfigOverridesFromConfig ::
  "(string \<Rightarrow> string + url) \<Rightarrow> SummarySourceConfig \<Rightarrow> string + (string \<times> bool)" where
  "getConfigOverridesFromConfig parseURL cfg =
     (case (if ssURL cfg \<noteq> ''''
            then (case parseURL (ssURL cfg) of
                    Inl err \<Rightarrow> Inl err
                  | Inr uri \<Rightarrow> Inr (if length (uScheme uri) \<noteq> 0 \<and> length (uHost uri) \<noteq> 0
                                  then uScheme uri @ ''://'' @ uHost uri else ''''))
            else Inr '''') of
        Inl err \<Rightarrow> Inl err
      | Inr server \<Rightarrow> map_sum id (Pair server) (bool_setting (Insecure cfg) False))"

text \<open>The variant that takes the overrides from a URL and its query.\<close>

definition getConfigOverrides :: "url \<Rightarrow> string + (string \<times> bool)" where
  "getConfigOverrides uri =
     (let server = (if length (uScheme uri) \<noteq> 0 \<and> length (uHost uri) \<noteq> 0 then uScheme uri @ ''://'' @ uHost uri else '''');
          opts = query (uQuery uri) ''insecure''
      in if length opts > 0
         then (case strconv_ParseBool (opts ! 0) of None \<Rightarrow> Inl (parse_bool_error (opts ! 0)) | Some b \<Rightarrow> Inr (server, b))
         else Inr (server, False))"

record kube_world =
  kwParseURL :: "string \<Rightarrow> string + url"
  kwInCluster :: "string + kube_config"
  kwLoadConfig :: "string \<Rightarrow> string + kube_config"
  kwReadFile :: "string \<Rightarrow> string + string"

definition defaultServiceAccountFile :: string where
  "defaultServiceAccountFile = ''/var/run/secrets/kubernetes.io/serviceaccount/token''"

definition base_config :: "kube_world \<Rightarrow> SummarySourceConfig \<Rightarrow> bool \<Rightarrow> string \<Rightarrow> bool \<Rightarrow> string + kube_config" where
  "base_config kw cfg inClusterConfig server insecure =
     (if inClusterConfig
      then (case kwInCluster kw of
              Inl err \<Rightarrow> Inl err
            | Inr kc \<Rightarrow>
                (let kc = (if server \<noteq> '''' then kc\<lparr>kcHost := server\<rparr> else kc);
                     kc = kc\<lparr>kcGroupVersion := ''v1'', kcInsecure := insecure\<rparr>
                 in Inr (if insecure then kc\<lparr>kcCAFile := ''''\<rparr> else kc)))
      else if length (Auth cfg) > 0 then kwLoadConfig kw (Auth cfg)
      else Inr (empty_kube_config\<lparr>kcHost := server, kcInsecure := insecure, kcGroupVersion := ''v1''\<rparr>))"

definition GetKubeClientConfig :: "kube_world \<Rightarrow> SummarySourceConfig \<Rightarrow> string + kube_config" where
  "GetKubeClientConfig kw cfg =
     (case getConfigOverridesFromConfig (kwParseURL kw) cfg of
        Inl err \<Rightarrow> Inl err
      | Inr (server, insecure) \<Rightarrow>
     (case bool_setting (InClusterConfig cfg) True of
        Inl err \<Rightarrow> Inl err
      | Inr inClusterConfig \<Rightarrow>
     (case base_config kw cfg inClusterConfig server insecure of
        Inl err \<Rightarrow> Inl err
      | Inr kubeConfig \<Rightarrow>
          if length (kcHost kubeConfig) = 0 then Inl ''invalid kubernetes master url specified''
          else (case bool_setting (UseServiceAccount cfg) False of
                  Inl err \<Rightarrow> Inl err
                | Inr useServiceAccount \<Rightarrow>
                    (let kubeConfig = (if useServiceAccount
                           then (case kwReadFile kw defaultServiceAccountFile of
                                   Inl err \<Rightarrow> kubeConfig
                                 | Inr contents \<Rightarrow> kubeConfig\<lparr>kcBearerToken := contents\<rparr>)
                           else kubeConfig)
                     in Inr (kubeConfig\<lparr>kcContentType := ''application/vnd.kubernetes.protobuf''\<rparr>))))))"

section \<open>The client for kubelets (configs.go, transport.go, kubelet_client.go)\<close>

record KubeletClientConfig =
  klcPort :: int64
  klcEnableHttps :: bool
  klcTLS :: kube_config
  klcBearerToken :: string

text \<open>\<open>strconv.Atoi\<close>: a sign, digits, and a value of 64 bits.\<close>

definition Atoi :: "string \<Rightarrow> string + int" where
  "Atoi s =
     (let neg = HasPrefix s ''-''; ds = (if HasPrefix s ''-'' \<or> HasPrefix s ''+'' then drop 1 s else s)
      in if ds = '''' \<or> \<not> list_all is_digit ds then Inl (''strconv.Atoi: parsing '' @ s @ '': invalid syntax'')
         else if (if neg then decimal ds \<le> 2 ^ 63 else decimal ds < 2 ^ 63)
         then Inr (if neg then - decimal ds else decimal ds)
         else Inl (''strconv.Atoi: parsing '' @ s @ '': value out of range''))"

definition GetKubeConfigs :: "kube_world \<Rightarrow> SummarySourceConfig \<Rightarrow> string + (kube_config \<times> KubeletClientConfig)" where
  "GetKubeConfigs kw cfg =
     (case GetKubeClientConfig kw cfg of
        Inl err \<Rightarrow> Inl err
      | Inr kubeConfig \<Rightarrow>
     (case (if length (KubeletPort cfg) \<ge> 1 then Atoi (KubeletPort cfg) else Inr 10255) of
        Inl err \<Rightarrow> Inl err
      | Inr kubeletPort \<Rightarrow>
     (case bool_setting (KubeletHttps cfg) False of
        Inl err \<Rightarrow> Inl err
      | Inr kubeletHttps \<Rightarrow>
          Inr (kubeConfig, \<lparr>klcPort = word_of_int kubeletPort, klcEnableHttps = kubeletHttps, klcTLS = kubeConfig,
                            klcBearerToken = kcBearerToken kubeConfig\<rparr>))))"

definition HTTPSEnabled :: "KubeletClientConfig option \<Rightarrow> bool" where
  "HTTPSEnabled c = (case c of None \<Rightarrow> True | Some c \<Rightarrow> klcEnableHttps c)"

definition kubelet_Scheme :: "KubeletClientConfig option \<Rightarrow> string" where
  "kubelet_Scheme c = (if HTTPSEnabled c then ''https'' else ''http'')"

text \<open>The text of the URL: the address is printed as it is, the port is unsigned.\<close>

definition BaseURL :: "('ip \<Rightarrow> string) \<Rightarrow> KubeletClientConfig \<Rightarrow> 'ip \<Rightarrow> string \<Rightarrow> string" where
  "BaseURL printIP c ip path =
     kubelet_Scheme (Some c) @ ''://'' @ printIP ip @ '':'' @ show_nat (unat (klcPort c)) @ path"

record transport_config =
  tcCA :: "string \<times> string"
  tcCert :: "string \<times> string"
  tcKey :: "string \<times> string"
  tcBearerToken :: string
  tcInsecure :: bool

definition HasCA :: "transport_config \<Rightarrow> bool" where
  "HasCA t \<longleftrightarrow> length (snd (tcCA t)) > 0 \<or> length (fst (tcCA t)) > 0"

definition transportConfig :: "KubeletClientConfig \<Rightarrow> transport_config" where
  "transportConfig c =
     (let k = klcTLS c;
          cfg = \<lparr>tcCA = (kcCAFile k, kcCAData k), tcCert = (kcCertFile k, kcCertData k), tcKey = (kcKeyFile k, kcKeyData k),
                 tcBearerToken = '''', tcInsecure = False\<rparr>;
          cfg = (if klcEnableHttps c then cfg\<lparr>tcBearerToken := klcBearerToken c\<rparr> else cfg)
      in if klcEnableHttps c \<and> \<not> HasCA cfg then cfg\<lparr>tcInsecure := True\<rparr> else cfg)"

text \<open>An answer: a transport error, or a status, its text, and the body or the error of reading it.\<close>

datatype kubelet_answer = KTransport string | KAnswer int string "string + string"

datatype 'a kubelet_result = KFatal string | KNotFound string | KError string | KValue 'a

definition postRequestAndGetValue :: "(string \<Rightarrow> string + 'a) \<Rightarrow> string \<Rightarrow> kubelet_answer \<Rightarrow> 'a kubelet_result" where
  "postRequestAndGetValue unmarshal url answer =
     (case answer of
        KTransport err \<Rightarrow> KError err
      | KAnswer code status body \<Rightarrow>
          (case body of
             Inl err \<Rightarrow> KError (''failed to read response body - '' @ err)
           | Inr body \<Rightarrow>
               if code = 404 then KNotFound url
               else if code = 403
               then KFatal (''Missing ClusterRole resource nodes/stats or nodes/proxy, '' @
                      ''see https://docs.wavefront.com/kubernetes.html#kubernetes-manual-install'')
               else if code \<noteq> 200 then KError (''request failed - '' @ status @ '', response: '' @ body)
               else (case unmarshal body of
                       Inl err \<Rightarrow> KError (''failed to parse output. Response: '' @ body @ ''. Error: '' @ err)
                     | Inr v \<Rightarrow> KValue v)))"

text \<open>\<open>newRequest\<close> says whether a URL makes a request; \<open>net\<close> answers one.\<close>

definition kubelet_Get ::
  "('ip \<Rightarrow> string) \<Rightarrow> (string \<Rightarrow> string option) \<Rightarrow> (string \<Rightarrow> kubelet_answer) \<Rightarrow> (string \<Rightarrow> string + 'a) \<Rightarrow>
    KubeletClientConfig \<Rightarrow> string \<Rightarrow> 'ip \<Rightarrow> 'a kubelet_result" where
  "kubelet_Get printIP newRequest net unmarshal c path ip =
     (let u = BaseURL printIP c ip path
      in case newRequest u of
           Some err \<Rightarrow> KError err
         | None \<Rightarrow> postRequestAndGetValue unmarshal u (net u))"

definition kubelet_GetSummary where
  "kubelet_GetSummary printIP newRequest net unmarshal c ip = kubelet_Get printIP newRequest net unmarshal c ''/stats/summary'' ip"

definition kubelet_GetPodList where
  "kubelet_GetPodList printIP newRequest net unmarshal c ip = kubelet_Get printIP newRequest net unmarshal c ''/pods'' ip"

record container_info =
  ciName :: string
  ciAliases :: "string list"
  ciStats :: "string list"

definition sampleContainerStats :: "'a list \<Rightarrow> 'a list" where
  "sampleContainerStats stats = (if length stats = 0 then [] else [stats ! (length stats - 1)])"

definition parseStat :: "container_info \<Rightarrow> container_info" where
  "parseStat c =
     (let c = c\<lparr>ciStats := sampleContainerStats (ciStats c)\<rparr>
      in if length (ciAliases c) > 0 then c\<lparr>ciName := ciAliases c ! 0\<rparr> else c)"

definition escapeString :: "string \<Rightarrow> string" where
  "escapeString input = ReplaceChar (CHR 0x0D) '''' (ReplaceChar (CHR 0x0A) '''' input)"

section \<open>Tokens and certificates\<close>

text \<open>A client for targets exists exactly when its certificate and key are given together and can be loaded.\<close>

lemma NewTLSConfig_ok:
  "(\<exists>tc. NewTLSConfig readFile loadPair cfg = Inr tc) =
     ((CAFile cfg = '''' \<or> (\<exists>ca. readFile (CAFile cfg) = Inr ca)) \<and>
      (CertFile cfg = '''') = (KeyFile cfg = '''') \<and>
      (CertFile cfg = '''' \<or> loadPair (CertFile cfg) (KeyFile cfg) = None))"
  by (auto simp: NewTLSConfig_def Let_def split: sum.splits option.splits)

lemma NewTLSConfig_checks:
  "NewTLSConfig readFile loadPair cfg = Inr tc \<Longrightarrow> tlInsecureSkipVerify tc = InsecureSkipVerify cfg"
  by (auto simp: NewTLSConfig_def Let_def split: sum.splits option.splits if_splits)

text \<open>A request that brings its own authorization keeps it; else the token of the configuration wins over its file.\<close>

lemma RoundTrip_authorization:
  assumes "NewRoundTripper readFile loadPair cfg = Inr rt"
  shows "RoundTrip readFile rt req =
    (if mgets req ''Authorization'' \<noteq> '''' then Inr req
     else if BearerToken cfg \<noteq> '''' then Inr (set_authorization (BearerToken cfg) req)
     else if BearerTokenFile cfg \<noteq> ''''
     then (case readFile (BearerTokenFile cfg) of
             Inl err \<Rightarrow> Inl (''unable to read bearer token file '' @ BearerTokenFile cfg @ '': '' @ err)
           | Inr b \<Rightarrow> Inr (set_authorization (Trim is_white b) req))
     else Inr req)"
  using assms by (auto simp: NewRoundTripper_def Let_def split: sum.splits if_splits)

lemma bool_setting_Inr: "(bool_setting s d = Inr b) = (if s = '''' then b = d else strconv_ParseBool s = Some b)"
  by (auto simp: bool_setting_def split: option.splits)

lemma GetKubeClientConfig_host: "GetKubeClientConfig kw cfg = Inr kc \<Longrightarrow> kcHost kc \<noteq> ''''"
  by (auto simp: GetKubeClientConfig_def Let_def split: sum.splits prod.splits if_splits)

text \<open>C39: A client for kubelets has the configuration of the client for the API server, which names a server. Its token
  is sent over https only, whatever the configuration says. Certificates go unchecked exactly when it speaks https and
  has no certificate authority. It speaks https only when the configuration asks for it, on the configured port, or
  10255 where none is given.\<close>

theorem kubelet_client_safe:
  "case GetKubeConfigs kw cfg of
     Inl _ \<Rightarrow> True
   | Inr (kc, kl) \<Rightarrow>
       (let t = transportConfig kl; https = (kubelet_Scheme (Some kl) = ''https'')
        in GetKubeClientConfig kw cfg = Inr kc \<and> kcHost kc \<noteq> '''' \<and>
           tcBearerToken t = (if https then kcBearerToken kc else '''') \<and>
           tcInsecure t = (https \<and> kcCAFile kc = '''' \<and> kcCAData kc = '''') \<and>
           tcCert t = (kcCertFile kc, kcCertData kc) \<and> tcKey t = (kcKeyFile kc, kcKeyData kc) \<and>
           https = (KubeletHttps cfg \<noteq> '''' \<and> strconv_ParseBool (KubeletHttps cfg) = Some True) \<and>
           (if KubeletPort cfg = '''' then klcPort kl = 10255
            else \<exists>n. Atoi (KubeletPort cfg) = Inr n \<and> klcPort kl = word_of_int n))"
proof (cases "GetKubeConfigs kw cfg")
  case (Inr p)
  obtain kc kl where p: "p = (kc, kl)" by (cases p)
  from Inr p have g: "GetKubeClientConfig kw cfg = Inr kc" "klcTLS kl = kc" "klcBearerToken kl = kcBearerToken kc"
      "bool_setting (KubeletHttps cfg) False = Inr (klcEnableHttps kl)"
      "if KubeletPort cfg = '''' then klcPort kl = 10255 else \<exists>n. Atoi (KubeletPort cfg) = Inr n \<and> klcPort kl = word_of_int n"
    by (auto simp: GetKubeConfigs_def Suc_le_eq split: sum.splits if_splits)
  have https: "(kubelet_Scheme (Some kl) = ''https'') = klcEnableHttps kl"
    by (simp add: kubelet_Scheme_def HTTPSEnabled_def)
  have s: "klcEnableHttps kl = (KubeletHttps cfg \<noteq> '''' \<and> strconv_ParseBool (KubeletHttps cfg) = Some True)"
    using g(4) by (auto simp: bool_setting_Inr split: if_splits)
  from Inr p g GetKubeClientConfig_host [OF g(1)] show ?thesis
    by (simp add: https Let_def s [symmetric]) (auto simp: transportConfig_def HasCA_def Let_def)
qed simp

text \<open>A value comes only from an answer with the status 200 that decodes.\<close>

lemma postRequest_value:
  "(postRequestAndGetValue unmarshal url answer = KValue v) =
     (\<exists>status body. answer = KAnswer 200 status (Inr body) \<and> unmarshal body = Inr v)"
  by (auto simp: postRequestAndGetValue_def split: kubelet_answer.splits sum.splits if_splits)

end
