(* ===== verification/Sinks_Factory.thy ===== *)
theory Sinks_Factory
  imports Wavefront_Sink Rates Collector_Options Kube
begin

text \<open>
  The sinks and how they are made: the sink for events (\<open>collector/plugins/sinks/external/sink.go\<close>), the sender for
  tests (\<open>collector/plugins/sinks/wavefront/testsender.go\<close>) and the factory (\<open>collector/plugins/sinks/factory\<close>). JSON,
  the HTTP client and the printing of floats are parameters.
\<close>

section \<open>The external sink (sink.go)\<close>

record ExternalSink =
  esEventsEnabled :: bool
  esEndpointURL :: string
  esAccessKey :: string

text \<open>An event switch that is not set panics.\<close>

definition NewExternalSink :: "SinkConfig \<Rightarrow> ExternalSink option" where
  "NewExternalSink cfg =
     map_option (\<lambda>ev. \<lparr>esEventsEnabled = ev, esEndpointURL = ExternalEndpointURL cfg, esAccessKey = ExternalEndpointAccessKey cfg\<rparr>)
       (skEnableEvents cfg)"

definition es_Export :: "Batch \<Rightarrow> ExternalSink \<Rightarrow> ExternalSink" where
  "es_Export b sink = sink"

text \<open>A request: method, URL, headers and body; \<open>post\<close> answers with an error or a status.\<close>

record http_request =
  hrMethod :: string
  hrURL :: string
  hrHeaders :: "(string, string) gomap"
  hrBody :: string

datatype push_result = NotEnabled | PushError string string | Pushed http_request

definition event_request :: "ExternalSink \<Rightarrow> string \<Rightarrow> http_request" where
  "event_request sink body =
     \<lparr>hrMethod = ''POST'', hrURL = esEndpointURL sink,
      hrHeaders = mput ''Authorization'' (''Bearer '' @ esAccessKey sink) (mput ''Content-Type'' ''application/json'' []),
      hrBody = body\<rparr>"

definition es_ExportEvent ::
  "('e \<Rightarrow> string + string) \<Rightarrow> (string \<Rightarrow> string option) \<Rightarrow> (int \<Rightarrow> string) \<Rightarrow> (http_request \<Rightarrow> string + int) \<Rightarrow>
    ExternalSink \<Rightarrow> 'e \<Rightarrow> push_result" where
  "es_ExportEvent marshal badURL statusText post sink ev =
     (if \<not> esEventsEnabled sink then NotEnabled
      else case marshal ev of
        Inl err \<Rightarrow> PushError ''error marshalling event JSON'' err
      | Inr b \<Rightarrow>
     (case badURL (esEndpointURL sink) of
        Some err \<Rightarrow> PushError ''error creating HTTP request'' err
      | None \<Rightarrow>
          (let req = event_request sink b
           in case post req of
                Inl err \<Rightarrow> PushError ''error sending event'' err
              | Inr code \<Rightarrow>
                  if code > 299
                  then PushError ''error sending event'' (''endpoint returned status code '' @ show_int code @ '': '' @ statusText code)
                  else Pushed req)))"

section \<open>The sender for tests (testsender.go)\<close>

definition orderedTagString :: "tagmap \<Rightarrow> string" where
  "orderedTagString tags =
     concat (map (\<lambda>tagName. if tagName \<noteq> ''cluster'' then tagName @ ''='' @ [CHR 0x22] @ mgets tags tagName @ [CHR 0x22] @ '' '' else '''')
       (sorted_keys tags))"

definition quoted_source :: "string \<Rightarrow> string" where
  "quoted_source source = ''source='' @ [CHR 0x22] @ source @ [CHR 0x22]"

definition test_SendMetric :: "(f64 \<Rightarrow> string) \<Rightarrow> string \<Rightarrow> f64 \<Rightarrow> string \<Rightarrow> tagmap \<Rightarrow> string \<Rightarrow> string" where
  "test_SendMetric printf name v source tags received =
     received @ ''Metric: '' @ name @ '' '' @ printf v @ '' '' @ quoted_source source @ '' '' @ orderedTagString tags @ [CHR 0x0A]"

definition test_SendEvent :: "string \<Rightarrow> string \<Rightarrow> tagmap \<Rightarrow> string \<Rightarrow> string" where
  "test_SendEvent name source tags received =
     received @ name @ '' event '' @ quoted_source source @ '' '' @ orderedTagString tags @ [CHR 0x0A]"

text \<open>What does not belong to points and events is accepted and forgotten.\<close>

definition test_SendDistribution :: "string \<Rightarrow> string option \<times> string" where
  "test_SendDistribution received = (None, received)"

section \<open>The factory (factory.go)\<close>

datatype sink = WavefrontS wavefrontSink sender_config | ExternalS ExternalSink

record sink_world =
  swAtoi :: "string \<Rightarrow> string + int64"
  swSender :: "sender_config \<Rightarrow> string option"
  swGlob :: glob_compile

text \<open>\<open>Inl None\<close> is a panic, \<open>Inl (Some e)\<close> an error.\<close>

definition sink_Build :: "sink_world \<Rightarrow> SinkConfig \<Rightarrow> string option + sink" where
  "sink_Build sw cfg =
     (if skType cfg = ExternalSinkType
      then (case NewExternalSink cfg of None \<Rightarrow> Inl None | Some s \<Rightarrow> Inr (ExternalS s))
      else map_sum id (\<lambda>(s, c). WavefrontS s c) (NewWavefrontSink (swAtoi sw) (swSender sw) (swGlob sw) cfg))"

fun build_sinks :: "sink_world \<Rightarrow> SinkConfig list \<Rightarrow> stopped + sink list" where
  "build_sinks sw [] = Inr []"
| "build_sinks sw (cfg # cfgs) =
     (case sink_Build sw cfg of
        Inl None \<Rightarrow> Inl Panics
      | Inl (Some err) \<Rightarrow> build_sinks sw cfgs
      | Inr s \<Rightarrow> map_sum id ((#) s) (build_sinks sw cfgs))"

definition BuildAll :: "sink_world \<Rightarrow> SinkConfig list \<Rightarrow> stopped + sink list" where
  "BuildAll sw cfgs =
     (case build_sinks sw cfgs of
        Inl e \<Rightarrow> Inl e
      | Inr result \<Rightarrow> if length result = 0 then Inl (Fatal ''No available sink to use'') else Inr result)"

section \<open>What the factory makes\<close>

lemma sink_Build_panics:
  assumes "skEnableEvents cfg \<noteq> None"
  shows "(sink_Build sw cfg = Inl None) =
    (skType cfg \<noteq> ExternalSinkType \<and>
      ((\<not> TestMode cfg \<and> ProxyAddress cfg \<noteq> '''' \<and> CHR '':'' \<notin> set (ProxyAddress cfg)) \<or>
       (\<exists>c. new_sender (swAtoi sw) (swSender sw) cfg = Inr c) \<and> HeartbeatInterval cfg \<le> 0))"
proof (cases "skType cfg = ExternalSinkType")
  case True
  with assms show ?thesis by (auto simp: sink_Build_def NewExternalSink_def)
next
  case False
  have "(map_sum id f x = Inl y) = (x = Inl y)" for f :: "wavefrontSink \<times> sender_config \<Rightarrow> sink" and x and y :: "string option"
    by (cases x) auto
  with False NewWavefrontSink_panics_iff [OF assms, of "swAtoi sw" "swSender sw" "swGlob sw"] show ?thesis
    by (simp add: sink_Build_def)
qed

definition built :: "sink_world \<Rightarrow> SinkConfig list \<Rightarrow> sink list" where
  "built sw cfgs = concat (map (\<lambda>cfg. case sink_Build sw cfg of Inr s \<Rightarrow> [s] | Inl _ \<Rightarrow> []) cfgs)"

text \<open>One sink that cannot be made is left out; only a panic, or that none is left, ends the collector.\<close>

lemma BuildAll_outcome:
  "BuildAll sw cfgs =
     (if list_ex (\<lambda>cfg. sink_Build sw cfg = Inl None) cfgs then Inl Panics
      else if built sw cfgs = [] then Inl (Fatal ''No available sink to use'') else Inr (built sw cfgs))"
proof -
  have "build_sinks sw cfgs =
      (if list_ex (\<lambda>cfg. sink_Build sw cfg = Inl None) cfgs then Inl Panics else Inr (built sw cfgs))"
    by (induction cfgs) (auto simp: built_def split: sum.split option.split)
  then show ?thesis by (simp add: BuildAll_def)
qed

text \<open>An event goes out with the access key, and only when the endpoint takes it is it counted as pushed.\<close>

lemma es_ExportEvent_pushed:
  "(es_ExportEvent marshal badURL statusText post sink ev = Pushed req) =
     (esEventsEnabled sink \<and> badURL (esEndpointURL sink) = None \<and>
      (\<exists>b code. marshal ev = Inr b \<and> req = event_request sink b \<and> post req = Inr code \<and> code \<le> 299))"
  by (auto simp: es_ExportEvent_def Let_def split: sum.splits option.splits if_splits)

section \<open>The heartbeat (sink.go)\<close>

text \<open>What the process knows of its surroundings; the version and the provider of the cluster may become known later.\<close>

record heartbeat_env =
  hbNodeName :: string
  hbInstallation :: string
  hbVersion :: f64

definition hb_source :: "heartbeat_env \<Rightarrow> string" where
  "hb_source he = (if hbNodeName he = '''' then ''wavefront-collector-for-kubernetes'' else hbNodeName he)"

definition GetInstallationMethod :: "string \<Rightarrow> string" where
  "GetInstallationMethod installationMethod = (if length installationMethod = 0 then ''unknown'' else installationMethod)"

definition hb_tags :: "heartbeat_env \<Rightarrow> SinkConfig \<Rightarrow> tagmap" where
  "hb_tags he cfg =
     mput ''installation_method'' (GetInstallationMethod (hbInstallation he))
       (mput ''stats_prefix'' (GetStringValue (trPrefix (skTransforms cfg)) ''kubernetes.'')
         (mput ''cluster'' (skClusterName cfg) []))"

definition hb_send :: "'o client \<Rightarrow> heartbeat_env \<Rightarrow> string \<Rightarrow> f64 \<Rightarrow> tagmap \<times> 'o sinkState \<Rightarrow> tagmap \<times> 'o sinkState" where
  "hb_send client he name v s = (fst s, snd (call client (WMetric name v 0 (hb_source he) (fst s)) (snd s)))"

definition hb_version :: "'o client \<Rightarrow> heartbeat_env \<Rightarrow> string \<times> string \<Rightarrow> tagmap \<times> 'o sinkState \<Rightarrow> tagmap \<times> 'o sinkState" where
  "hb_version client he k8s s =
     hb_send client he ''~wavefront.kubernetes.collector.version'' (hbVersion he)
       (AddK8sTags (fst k8s) (snd k8s) (fst s), snd s)"

text \<open>The loop: a tick with the version and provider of the cluster as they are known then, or the stop channel.\<close>

fun heartbeat_loop ::
  "'o client \<Rightarrow> heartbeat_env \<Rightarrow> bool \<Rightarrow> (string \<times> string) option list \<Rightarrow> tagmap \<times> 'o sinkState \<Rightarrow> tagmap \<times> 'o sinkState" where
  "heartbeat_loop client he enabled [] s = s"
| "heartbeat_loop client he enabled (None # ticks) s = s"
| "heartbeat_loop client he enabled (Some k8s # ticks) s =
     heartbeat_loop client he enabled ticks
       (hb_send client he ''~wavefront.kubernetes.collector.config.events.enabled'' (if enabled then Fin 1 else Fin 0)
         (hb_version client he k8s s))"

definition emitHeartbeat ::
  "'o client \<Rightarrow> heartbeat_env \<Rightarrow> SinkConfig \<Rightarrow> wavefrontSink \<Rightarrow> string \<times> string \<Rightarrow> (string \<times> string) option list \<Rightarrow>
    'o sinkState \<Rightarrow> 'o sinkState" where
  "emitHeartbeat client he cfg sink k8s ticks st =
     snd (heartbeat_loop client he (wsEventsEnabled sink) ticks (hb_version client he k8s (hb_tags he cfg, st)))"

text \<open>The tags of the beats: what is known of the cluster once is kept, whatever the environment says later.\<close>

fun beat_tags :: "tagmap \<Rightarrow> (string \<times> string) list \<Rightarrow> tagmap list" where
  "beat_tags tags [] = []"
| "beat_tags tags (k8s # ks) = (let t = AddK8sTags (fst k8s) (snd k8s) tags in t # beat_tags t ks)"

definition beat_calls :: "heartbeat_env \<Rightarrow> bool \<Rightarrow> tagmap \<Rightarrow> 'o wire list" where
  "beat_calls he enabled tags =
     [WMetric ''~wavefront.kubernetes.collector.version'' (hbVersion he) 0 (hb_source he) tags,
      WMetric ''~wavefront.kubernetes.collector.config.events.enabled'' (if enabled then Fin 1 else Fin 0) 0 (hb_source he) tags]"

lemma heartbeat_loop_calls:
  "calls (snd (heartbeat_loop client he enabled (map Some ks @ None # rest) s)) =
     calls (snd s) @ concat (map (beat_calls he enabled) (beat_tags (fst s) ks))"
  by (induction ks arbitrary: s) (simp_all add: hb_version_def hb_send_def call_def beat_calls_def Let_def)

text \<open>One version when the sink is made, then a version and the event switch for every tick, until it is stopped; none of
  them counts as a point of the sink.\<close>

lemma emitHeartbeat_calls:
  "let st' = emitHeartbeat client he cfg sink k8s (map Some ks @ None # rest) st;
       tags = beat_tags (hb_tags he cfg) (k8s # ks)
   in calls st' = calls st @ hd (beat_calls he False (hd tags)) # concat (map (beat_calls he (wsEventsEnabled sink)) (tl tags)) \<and>
      sentPoints st' = sentPoints st \<and> errPoints st' = errPoints st"
proof -
  have counters: "sentPoints (snd (heartbeat_loop client he en ticks s)) = sentPoints (snd s) \<and>
      errPoints (snd (heartbeat_loop client he en ticks s)) = errPoints (snd s)" for en ticks and s :: "tagmap \<times> 'a sinkState"
    by (induction client he en ticks s rule: heartbeat_loop.induct) (simp_all add: hb_version_def hb_send_def call_def)
  show ?thesis
    by (simp add: emitHeartbeat_def heartbeat_loop_calls counters Let_def)
       (simp add: hb_version_def hb_send_def call_def beat_calls_def)
qed

end
