(* ===== verification/Collector_Agent.thy ===== *)
theory Collector_Agent
  imports Pipeline Leadership Discovery_Runtime Events Http_Clients Sinks_Factory
begin

text \<open>
  The collector as a whole (\<open>collector/cmd/wavefront-collector/main.go\<close>, \<open>collector/internal/agent\<close>): the watcher of the
  configuration file and its listener (\<open>internal/util/watcher.go\<close>, \<open>wait.go\<close>, \<open>internal/configuration/listener.go\<close>), the
  experimental features, the listers that are made once, the life cycles of the flush manager and the event router, how
  an agent is made from a configuration, and how it is stopped and replaced when the configuration changes.
\<close>

section \<open>Watching a file (wait.go, watcher.go)\<close>

text \<open>What the loop sees at every tick: its stop channel is closed (\<open>None\<close>), or the input of the function.\<close>

fun Retry :: "('i \<Rightarrow> 's \<Rightarrow> 's) \<Rightarrow> 'i option list \<Rightarrow> 's \<Rightarrow> 's" where
  "Retry f [] s = s"
| "Retry f (None # ticks) s = s"
| "Retry f (Some i # ticks) s = Retry f ticks (f i s)"

text \<open>\<open>fwInitial\<close> is the local variable of \<open>Watch\<close>; \<open>fwChanged\<close> has for every tick whether the listener was called.\<close>

record fileWatcher =
  fwModTime :: gotime
  fwInitial :: bool
  fwChanged :: "bool list"

definition watch_tick :: "string + gotime \<Rightarrow> fileWatcher \<Rightarrow> fileWatcher" where
  "watch_tick stat fw =
     (case stat of
        Inl err \<Rightarrow> fw\<lparr>fwChanged := fwChanged fw @ [False]\<rparr>
      | Inr modTime \<Rightarrow>
          if fwModTime fw < modTime
          then fw\<lparr>fwModTime := modTime, fwInitial := False, fwChanged := fwChanged fw @ [\<not> fwInitial fw]\<rparr>
          else fw\<lparr>fwChanged := fwChanged fw @ [False]\<rparr>)"

definition fw_Watch :: "(string + gotime) option list \<Rightarrow> fileWatcher" where
  "fw_Watch ticks = Retry watch_tick ticks \<lparr>fwModTime = zero_time, fwInitial = True, fwChanged = []\<rparr>"

section \<open>Loading the configuration (parser.go, config.go, listener.go)\<close>

record config_reader =
  crReadFile :: "string \<Rightarrow> string + string"
  crEnvironment :: environment
  crUnmarshal :: "string \<Rightarrow> CollectorConfig \<Rightarrow> string + CollectorConfig"

definition config_FromFile :: "config_reader \<Rightarrow> string \<Rightarrow> string option + CollectorConfig" where
  "config_FromFile cr filename =
     (case crReadFile cr filename of
        Inl err \<Rightarrow> Inl (Some (''unable to load configuration file: '' @ err))
      | Inr contents \<Rightarrow> FromYAML (crEnvironment cr) (crUnmarshal cr) contents)"

definition LoadOrDie :: "config_reader \<Rightarrow> string \<Rightarrow> stopped + CollectorConfig option" where
  "LoadOrDie cr file =
     (if file = '''' then Inr None
      else case config_FromFile cr file of
             Inl None \<Rightarrow> Inl Panics
           | Inl (Some err) \<Rightarrow> Inl (Fatal (''invalid configuration file: '' @ err))
           | Inr cfg \<Rightarrow> Inr (Some cfg))"

text \<open>The listener hands a configuration that loads to its handler; \<open>s\<close> is what the handler works on.\<close>

definition listener_Changed ::
  "config_reader \<Rightarrow> (CollectorConfig \<Rightarrow> 's \<Rightarrow> stopped + 's) \<Rightarrow> string \<Rightarrow> 's \<Rightarrow> stopped + 's" where
  "listener_Changed cr handler file s =
     (case config_FromFile cr file of
        Inl None \<Rightarrow> Inl Panics
      | Inl (Some err) \<Rightarrow> Inr s
      | Inr cfg \<Rightarrow> handler cfg s)"

text \<open>The file of discovery rules (\<open>internal/discovery/parser.go\<close>), which the flags may name.\<close>

definition discovery_FromYAML :: "(string \<Rightarrow> string + DiscoveryConfig) \<Rightarrow> string \<Rightarrow> string + DiscoveryConfig" where
  "discovery_FromYAML unmarshal contents =
     (case unmarshal contents of Inl err \<Rightarrow> Inl (''unable to parse discovery config: '' @ err) | Inr cfg \<Rightarrow> Inr cfg)"

definition discovery_FromFile ::
  "(string \<Rightarrow> string + string) \<Rightarrow> (string \<Rightarrow> string + DiscoveryConfig) \<Rightarrow> string \<Rightarrow> string + DiscoveryConfig" where
  "discovery_FromFile readFile unmarshal filename =
     (case readFile filename of
        Inl err \<Rightarrow> Inl (''unable to load discovery config file: '' @ err)
      | Inr contents \<Rightarrow> discovery_FromYAML unmarshal contents)"

definition convertOrDie ::
  "config_reader \<Rightarrow> (string \<Rightarrow> string + DiscoveryConfig) \<Rightarrow> CollectorRunOptions \<Rightarrow> CollectorConfig option \<Rightarrow>
    stopped + CollectorConfig" where
  "convertOrDie cr unmarshal opts cfg =
     (case cfg of
        Some cfg \<Rightarrow> Inr cfg
      | None \<Rightarrow>
          (case Convert (crEnvironment cr) (discovery_FromFile (crReadFile cr) unmarshal) opts of
             Inl (Err err) \<Rightarrow> Inl (Fatal (''error converting flags to config: '' @ err))
           | Inl e \<Rightarrow> Inl e
           | Inr cfg \<Rightarrow> Inr cfg))"

section \<open>Process settings (main.go, version.go)\<close>

definition setMaxProcs :: "int \<Rightarrow> CollectorRunOptions \<Rightarrow> int" where
  "setMaxProcs numCPU opts =
     (if roMaxProcs opts < 1 then (if numCPU = 1 then 2 else numCPU) else roMaxProcs opts)"

definition version_Float64 :: "(string \<Rightarrow> f64) \<Rightarrow> string \<Rightarrow> f64" where
  "version_Float64 parseFloat version =
     (let parts = Split (CHR ''.'') version
      in if length parts \<noteq> 3 then f64_of_int 0
         else parseFloat ((parts ! 0) @ ''.'' @ (parts ! 1) @ (parts ! 2)))"

text \<open>The agent type, the number of threads and the value of the version gauge.\<close>

definition preRegister ::
  "(string \<Rightarrow> f64) \<Rightarrow> string \<Rightarrow> int \<Rightarrow> string \<Rightarrow> CollectorRunOptions \<Rightarrow> stopped + (AgentType \<times> int \<times> f64)" where
  "preRegister parseFloat version numCPU nodeName opts =
     (if nodeName = '''' \<and> ScrapeOnlyOwnNode (roAgentType opts)
      then Inl (Fatal ''missing environment variable POD_NODE_NAME'')
      else Inr (roAgentType opts, setMaxProcs numCPU opts, version_Float64 parseFloat version))"

section \<open>Experimental features (feature.go)\<close>

type_synonym features = "(string, bool) gomap"

definition IsEnabled :: "string \<Rightarrow> features \<Rightarrow> bool" where
  "IsEnabled name enabled = (case mget enabled name of None \<Rightarrow> False | Some b \<Rightarrow> b)"

definition EnableFeature :: "string \<Rightarrow> features \<Rightarrow> features" where
  "EnableFeature name enabled = mput name True enabled"

definition DisableFeature :: "string \<Rightarrow> features \<Rightarrow> features" where
  "DisableFeature name enabled = mdel name enabled"

definition DisableAll :: features where
  "DisableAll = []"

section \<open>Listers (util.go, workload_cache.go)\<close>

text \<open>Which listers the process has, and the reflectors it has started, by resource and field selector (empty for
  everything). A reflector is never stopped.\<close>

record lister_state =
  lsPods :: bool
  lsNodes :: bool
  lsNamespaces :: bool
  lsWorkloads :: bool
  lsReflectors :: "(string \<times> string) list"

definition no_listers :: lister_state where
  "no_listers = \<lparr>lsPods = False, lsNodes = False, lsNamespaces = False, lsWorkloads = False, lsReflectors = []\<rparr>"

definition GetFieldSelector :: "AgentType \<Rightarrow> string \<Rightarrow> string \<Rightarrow> string" where
  "GetFieldSelector agentType nodeName resource =
     (if ScrapeOnlyOwnNode agentType \<and> nodeName \<noteq> ''''
      then (if resource = ''pods'' then ''spec.nodeName='' @ nodeName
            else if resource = ''nodes'' then ''metadata.name='' @ nodeName else '''')
      else '''')"

definition start_reflector :: "string \<Rightarrow> string \<Rightarrow> lister_state \<Rightarrow> lister_state" where
  "start_reflector resource selector ls = ls\<lparr>lsReflectors := lsReflectors ls @ [(resource, selector)]\<rparr>"

definition GetPodLister :: "AgentType \<Rightarrow> string \<Rightarrow> lister_state \<Rightarrow> lister_state" where
  "GetPodLister agentType nodeName ls =
     (if lsPods ls then ls
      else (start_reflector ''pods'' (GetFieldSelector agentType nodeName ''pods'') ls)\<lparr>lsPods := True\<rparr>)"

definition GetNodeLister :: "AgentType \<Rightarrow> string \<Rightarrow> lister_state \<Rightarrow> lister_state" where
  "GetNodeLister agentType nodeName ls =
     (if lsNodes ls then ls
      else (start_reflector ''nodes'' (GetFieldSelector agentType nodeName ''nodes'') ls)\<lparr>lsNodes := True\<rparr>)"

definition GetNamespaceStore :: "lister_state \<Rightarrow> lister_state" where
  "GetNamespaceStore ls =
     (if lsNamespaces ls then ls else (start_reflector ''namespaces'' '''' ls)\<lparr>lsNamespaces := True\<rparr>)"

definition GetServiceLister :: "lister_state \<Rightarrow> lister_state" where
  "GetServiceLister ls = start_reflector ''services'' '''' ls"

definition NewWorkloadCache :: "AgentType \<Rightarrow> string \<Rightarrow> lister_state \<Rightarrow> lister_state" where
  "NewWorkloadCache agentType nodeName ls =
     start_reflector ''jobs'' '''' (start_reflector ''replicaSets'' '''' (GetPodLister agentType nodeName ls))"

definition GetWorkloadCache :: "AgentType \<Rightarrow> string \<Rightarrow> lister_state \<Rightarrow> lister_state" where
  "GetWorkloadCache agentType nodeName ls =
     (if lsWorkloads ls then ls else (NewWorkloadCache agentType nodeName ls)\<lparr>lsWorkloads := True\<rparr>)"

section \<open>The flush manager (plugins/manager/manager.go)\<close>

record 'h flush_manager =
  fmProcessors :: "'h processor list"
  fmSinks :: "out_event sinkManager"
  fmInterval :: duration
  fmTicking :: bool

definition NewFlushManager :: "'h processor list \<Rightarrow> out_event sinkManager \<Rightarrow> duration \<Rightarrow> 'h flush_manager" where
  "NewFlushManager processors sink flushInterval =
     \<lparr>fmProcessors = processors, fmSinks = sink, fmInterval = flushInterval, fmTicking = False\<rparr>"

text \<open>A ticker needs a positive interval: otherwise it panics.\<close>

definition fm_Start :: "'h flush_manager \<Rightarrow> 'h flush_manager option" where
  "fm_Start fm = (if fmInterval fm \<le> 0 then None else Some (fm\<lparr>fmTicking := True\<rparr>))"

text \<open>The two cases of the loop: a tick pushes and exports, the stop message stops the ticker and the sinks.\<close>

definition fm_tick ::
  "'h collector_env \<Rightarrow> 'h flush_manager \<times> sourceManager \<times> 'h processor_state \<Rightarrow>
    panic + 'h flush_manager \<times> sourceManager \<times> 'h processor_state" where
  "fm_tick env s =
     (case s of (fm, sm, st) \<Rightarrow>
        if \<not> fmTicking fm then Inr s
        else case push (fmProcessors fm) env sm st of
               Inl e \<Rightarrow> Inl e
             | Inr (sm, st, None) \<Rightarrow> Inr (fm, sm, st)
             | Inr (sm, st, Some b) \<Rightarrow> Inr (fm\<lparr>fmSinks := sinkManager_Export b (fmSinks fm)\<rparr>, sm, st))"

definition fm_Stop :: "'h flush_manager \<Rightarrow> 'h flush_manager" where
  "fm_Stop fm = fm\<lparr>fmTicking := False, fmSinks := sinkManager_Stop (fmSinks fm)\<rparr>"

section \<open>The event router's life cycle (eventrouter.go)\<close>

text \<open>Its stop channel, as for the listeners of the discovery manager: the informers run while it is open.\<close>

definition er_Resume :: "stop_channel \<Rightarrow> stop_channel" where
  "er_Resume stop = Some True"

definition er_Pause :: "stop_channel \<Rightarrow> stop_channel option" where
  "er_Pause stop = stop_listener stop"

text \<open>What a subsystem has become after what its leadership manager did (\<open>leadership/manager.go\<close>): \<open>None\<close> when a
  call panicked. A resumption is started in a goroutine of its own; the model lets it run at once.\<close>

fun obey :: "('s \<Rightarrow> 's) \<Rightarrow> ('s \<Rightarrow> 's option) \<Rightarrow> bool list \<Rightarrow> 's \<Rightarrow> 's option" where
  "obey resume pause [] s = Some s"
| "obey resume pause (isLeader # msgs) s =
     (if isLeader then obey resume pause msgs (resume s)
      else case pause s of None \<Rightarrow> None | Some s \<Rightarrow> obey resume pause msgs s)"

section \<open>The agent (agent.go)\<close>

text \<open>The discovery manager and the event router come with the number of the channel they are subscribed with, if
  they are.\<close>

record 'h agent_state =
  asFlush :: "'h flush_manager"
  asDiscovery :: "(discovery_manager \<times> nat option) option"
  asRouter :: "(EventRouter \<times> nat option) option"

record collector_process =
  cpEnv :: "(string, string) gomap"
  cpFeatures :: features
  cpListers :: lister_state
  cpSources :: sourceManager
  cpElection :: election

type_synonym 'h running = "'h agent_state \<times> collector_process"

definition subscribe_to :: "env \<Rightarrow> bool \<Rightarrow> string \<Rightarrow> election \<Rightarrow> election \<times> nat option" where
  "subscribe_to env cluster name e =
     (if cluster then (case Manager_Start env name e of (e, Inl err) \<Rightarrow> (e, None) | (e, Inr ch) \<Rightarrow> (e, Some ch))
      else (e, None))"

definition start_discovery :: "env \<Rightarrow> bool \<Rightarrow> 'h running \<Rightarrow> 'h running" where
  "start_discovery env cluster r =
     (case asDiscovery (fst r) of
        None \<Rightarrow> r
      | Some (dm, _) \<Rightarrow>
          (case subscribe_to env cluster ''discovery.manager'' (cpElection (snd r)) of
             (e, ch) \<Rightarrow> ((fst r)\<lparr>asDiscovery := Some (dm_Start dm, ch)\<rparr>, (snd r)\<lparr>cpElection := e\<rparr>)))"

definition start_router :: "env \<Rightarrow> bool \<Rightarrow> 'h running \<Rightarrow> 'h running" where
  "start_router env cluster r =
     (case asRouter (fst r) of
        None \<Rightarrow> r
      | Some (er, _) \<Rightarrow>
          (case subscribe_to env cluster ''eventRouter'' (cpElection (snd r)) of
             (e, ch) \<Rightarrow> ((fst r)\<lparr>asRouter := Some (er, ch)\<rparr>, (snd r)\<lparr>cpElection := e\<rparr>)))"

definition Agent_Start :: "env \<Rightarrow> bool \<Rightarrow> 'h running \<Rightarrow> 'h running option" where
  "Agent_Start env cluster r =
     map_option (\<lambda>fm. start_router env cluster (start_discovery env cluster ((fst r)\<lparr>asFlush := fm\<rparr>, snd r)))
       (fm_Start (asFlush (fst r)))"

text \<open>Stopping, cut where other goroutines can come between: two of the calls take the lock of the election.\<close>

datatype stop_action = StopFlush | UnsubDiscovery | StopDiscovery | CloseRouter | UnsubRouter | PauseRouter | StopSources

definition stop_program :: "bool \<Rightarrow> 'h agent_state \<Rightarrow> stop_action list" where
  "stop_program cluster a =
     [StopFlush] @
     (if asDiscovery a \<noteq> None then [UnsubDiscovery, StopDiscovery] else []) @
     (if asRouter a \<noteq> None then (if cluster then [CloseRouter, UnsubRouter] else []) @ [PauseRouter] else []) @
     [StopSources]"

definition needs_lock :: "stop_action \<Rightarrow> bool" where
  "needs_lock act \<longleftrightarrow> act \<in> {UnsubDiscovery, UnsubRouter}"

definition chan_calls :: "election \<Rightarrow> nat option \<Rightarrow> bool list" where
  "chan_calls e ch = (case ch of None \<Rightarrow> [] | Some ch \<Rightarrow> sbCalls (elChans e ! ch))"

definition stop_discovery :: "election \<Rightarrow> discovery_manager \<times> nat option \<Rightarrow> discovery_manager option" where
  "stop_discovery e d = Option.bind (obey dm_Resume dm_Pause (chan_calls e (snd d)) (fst d)) dm_Stop"

definition stop_router :: "election \<Rightarrow> nat option \<Rightarrow> stop_channel option" where
  "stop_router e ch = Option.bind (obey er_Resume er_Pause (chan_calls e ch) None) er_Pause"

text \<open>\<open>Manager.Stop\<close> up to the lock: closing a channel that is closed panics.\<close>

definition close_manager :: "election \<Rightarrow> nat option \<Rightarrow> election option" where
  "close_manager e ch =
     (case ch of
        None \<Rightarrow> Some e
      | Some ch \<Rightarrow>
          if sbPhase (elChans e ! ch) = Running then Some (upd_chan ch (sbPhase_update (\<lambda>_. Stopping)) e) else None)"

fun perform :: "stop_action \<Rightarrow> 'h running \<Rightarrow> 'h running option" where
  "perform StopFlush (a, p) = Some (a\<lparr>asFlush := fm_Stop (asFlush a)\<rparr>, p)"
| "perform UnsubDiscovery (a, p) = Some (a, p\<lparr>cpElection := Unsubscribe ''discovery.manager'' (cpElection p)\<rparr>)"
| "perform StopDiscovery (a, p) =
     (case asDiscovery a of
        None \<Rightarrow> Some (a, p)
      | Some d \<Rightarrow> map_option (\<lambda>dm. (a\<lparr>asDiscovery := Some (dm, None)\<rparr>, p)) (stop_discovery (cpElection p) d))"
| "perform CloseRouter (a, p) =
     (case asRouter a of
        None \<Rightarrow> Some (a, p)
      | Some (er, ch) \<Rightarrow> map_option (\<lambda>e. (a, p\<lparr>cpElection := e\<rparr>)) (close_manager (cpElection p) ch))"
| "perform UnsubRouter (a, p) = Some (a, p\<lparr>cpElection := Unsubscribe ''eventRouter'' (cpElection p)\<rparr>)"
| "perform PauseRouter (a, p) =
     (case asRouter a of
        None \<Rightarrow> Some (a, p)
      | Some (er, ch) \<Rightarrow> map_option (\<lambda>_. (a, p)) (stop_router (cpElection p) ch))"
| "perform StopSources (a, p) = Some (a, p\<lparr>cpSources := StopProviders (cpSources p)\<rparr>)"

text \<open>\<open>Stop\<close> when nothing comes between.\<close>

fun perform_all :: "stop_action list \<Rightarrow> 'h running \<Rightarrow> 'h running option" where
  "perform_all [] r = Some r"
| "perform_all (act # acts) r = Option.bind (perform act r) (perform_all acts)"

definition Agent_Stop :: "bool \<Rightarrow> 'h running \<Rightarrow> 'h running option" where
  "Agent_Stop cluster r = perform_all (stop_program cluster (fst r)) r"

section \<open>Making an agent (main.go)\<close>

record collector_world =
  cwKube :: kube_world
  cwNewClient :: "kube_config \<Rightarrow> string option"
  cwSinks :: sink_world
  cwMk :: "provider_config \<Rightarrow> string + provider"
  cwNow :: "provider \<Rightarrow> gotime"
  cwElection :: env
  cwAgentType :: AgentType
  cwListers :: listers

definition FormatBool :: "bool \<Rightarrow> string" where
  "FormatBool b = (if b then ''true'' else ''false'')"

definition createKubeClientOrDie :: "collector_world \<Rightarrow> SummarySourceConfig \<Rightarrow> stopped + unit" where
  "createKubeClientOrDie w cfg =
     (case GetKubeClientConfig (cwKube w) cfg of
        Inl err \<Rightarrow> Inl (Fatal (''Failed to get client config: '' @ err))
      | Inr kubeConfig \<Rightarrow> (case cwNewClient w kubeConfig of Some err \<Rightarrow> Inl Panics | None \<Rightarrow> Inr ()))"

text \<open>The listers in the order in which they are asked for: the workload cache, the pods, the services and nodes when
  discovery is on, then those of the processors.\<close>

definition agent_listers :: "AgentType \<Rightarrow> string \<Rightarrow> bool \<Rightarrow> lister_state \<Rightarrow> lister_state" where
  "agent_listers agentType nodeName discovery ls =
     (let ls = GetPodLister agentType nodeName (GetWorkloadCache agentType nodeName ls);
          ls = (if discovery then GetNodeLister agentType nodeName (GetServiceLister ls) else ls)
      in GetNodeLister agentType nodeName (GetNamespaceStore ls))"

definition sink_Name :: "sink \<Rightarrow> string" where
  "sink_Name s = (case s of WavefrontS _ _ \<Rightarrow> ''wavefront_sink'' | ExternalS _ \<Rightarrow> ''k8s_events_sink'')"

definition createDiscoveryManager :: "collector_world \<Rightarrow> CollectorConfig \<Rightarrow> discovery_manager option" where
  "createDiscoveryManager w cfg =
     (if EnableDiscovery cfg
      then Some (NewDiscoveryManager (EnableRuntimePlugins (DiscoveryConfigOf cfg)) (ScrapeAnyNodes (cwAgentType w)))
      else None)"

definition new_agent :: "collector_world \<Rightarrow> CollectorConfig \<Rightarrow> SummarySourceConfig \<Rightarrow> sink list \<Rightarrow> 'h agent_state" where
  "new_agent w cfg summary sinkList =
     \<lparr>asFlush = NewFlushManager (CreateDataProcessors (swGlob (cwSinks w)) (ClusterName cfg) cfg summary)
        (NewSinkManager (map sink_Name sinkList)) (FlushInterval cfg),
      asDiscovery = map_option (\<lambda>dm. (dm, None)) (createDiscoveryManager w cfg),
      asRouter = (if EventsAreEnabled cfg
                  then Some (NewEventRouter (swGlob (cwSinks w)) (EventsConfigOf cfg) (cwListers w), None) else None)\<rparr>"

text \<open>The election that \<open>main.go\<close> starts, with a subscription whose channel nobody reads.\<close>

definition start_election :: "collector_world \<Rightarrow> election \<Rightarrow> stopped + election" where
  "start_election w e =
     (if ScrapeCluster (cwAgentType w)
      then (case Subscribe (cwElection w) NoReader ''agent'' e of
              (e, Inl err) \<Rightarrow> Inl (Fatal (''Failed to start leader election: '' @ err))
            | (e, Inr ch) \<Rightarrow> Inr e)
      else Inr e)"

definition create_sources :: "collector_world \<Rightarrow> CollectorConfig \<Rightarrow> SourceConfig \<Rightarrow> sourceManager \<Rightarrow> stopped + sourceManager" where
  "create_sources w cfg src sm =
     (case BuildProviders (cwMk w) (cwNow w) src (sm\<lparr>smDefault := DefaultCollectionInterval cfg\<rparr>) of
        None \<Rightarrow> Inl (Fatal ''No available source to use'')
      | Some (Inl err) \<Rightarrow> Inl (Fatal (''Failed to create source manager: '' @ err))
      | Some (Inr sm) \<Rightarrow> Inr sm)"

definition createAgentOrDie :: "collector_world \<Rightarrow> CollectorConfig \<Rightarrow> collector_process \<Rightarrow> stopped + 'h running" where
  "createAgentOrDie w cfg p =
     (let p = p\<lparr>cpFeatures := foldl (\<lambda>m feature. EnableFeature feature m) DisableAll (Experimental cfg),
                cpEnv := mput ''omitBucketSuffix'' (FormatBool (OmitBucketSuffix cfg)) (cpEnv p)\<rparr>
      in case Sources cfg of None \<Rightarrow> Inl Panics | Some src \<Rightarrow>
     (case SummaryConfig src of None \<Rightarrow> Inl Panics | Some summary \<Rightarrow>
     (case createKubeClientOrDie w summary of Inl e \<Rightarrow> Inl e | Inr _ \<Rightarrow>
     (case create_sources w cfg src (cpSources p) of Inl e \<Rightarrow> Inl e | Inr sm \<Rightarrow>
     (case BuildAll (cwSinks w) (Sinks cfg) of Inl e \<Rightarrow> Inl e | Inr sinkList \<Rightarrow>
     (case start_election w (cpElection p) of Inl e \<Rightarrow> Inl e | Inr e \<Rightarrow>
        (let ls = agent_listers (cwAgentType w) (evNodeName (cwElection w)) (EnableDiscovery cfg) (cpListers p)
         in case Agent_Start (cwElection w) (ScrapeCluster (cwAgentType w))
                   (new_agent w cfg summary sinkList, p\<lparr>cpSources := sm, cpListers := ls, cpElection := e\<rparr>) of
              None \<Rightarrow> Inl Panics
            | Some r \<Rightarrow> Inr r)))))))"

text \<open>A changed configuration: the old agent is stopped before the new one is made.\<close>

definition handleCollectorCfg :: "collector_world \<Rightarrow> CollectorConfig \<Rightarrow> 'h running \<Rightarrow> stopped + 'h running" where
  "handleCollectorCfg w cfg r =
     (case Agent_Stop (ScrapeCluster (cwAgentType w)) r of
        None \<Rightarrow> Inl Panics
      | Some (_, p) \<Rightarrow> createAgentOrDie w cfg p)"

section \<open>Which changes of a file are reported\<close>

definition seen_times :: "(string + gotime) list \<Rightarrow> gotime list" where
  "seen_times stats = concat (map (case_sum (\<lambda>_. []) (\<lambda>t. if zero_time < t then [t] else [])) stats)"

lemma seen_times_snoc [simp]: "seen_times (stats @ [x]) =
    seen_times stats @ (case x of Inl _ \<Rightarrow> [] | Inr t \<Rightarrow> if zero_time < t then [t] else [])"
  by (simp add: seen_times_def)

lemma Retry_snoc: "Retry f (map Some xs @ [Some x]) s = f x (Retry f (map Some xs) s)"
  by (induction xs arbitrary: s) simp_all

definition reported_changes :: "(string + gotime) list \<Rightarrow> bool list" where
  "reported_changes stats = map (\<lambda>i. case stats ! i of Inl _ \<Rightarrow> False
     | Inr t \<Rightarrow> seen_times (take i stats) \<noteq> [] \<and> list_all (\<lambda>u. u < t) (seen_times (take i stats))) [0..<length stats]"

lemma reported_changes_snoc: "reported_changes (stats @ [x]) = reported_changes stats @
    [case x of Inl _ \<Rightarrow> False | Inr t \<Rightarrow> seen_times stats \<noteq> [] \<and> list_all (\<lambda>u. u < t) (seen_times stats)]"
  by (auto simp: reported_changes_def nth_append split: sum.splits)

definition latest :: "gotime list \<Rightarrow> gotime" where
  "latest us = foldl max zero_time us"

lemma latest_simps [simp]: "latest [] = zero_time" "latest (us @ [t]) = (if latest us < t then t else latest us)"
  by (simp_all add: latest_def max_def)

lemma latest_less: "latest us < t \<longleftrightarrow> zero_time < t \<and> list_all (\<lambda>u. u < t) us"
  by (induction us rule: rev_induct) auto

lemma seen_times_later: "seen_times stats \<noteq> [] \<Longrightarrow> list_all (\<lambda>u. u < t) (seen_times stats) \<Longrightarrow> zero_time < t"
proof -
  have "list_all (\<lambda>u. zero_time < u) (seen_times stats)"
    by (induction stats) (auto simp: seen_times_def split: sum.splits)
  then show "seen_times stats \<noteq> [] \<Longrightarrow> list_all (\<lambda>u. u < t) (seen_times stats) \<Longrightarrow> zero_time < t"
    by (cases "seen_times stats") auto
qed

lemma watch_tick_simps:
  "watch_tick (Inl err) fw = fw\<lparr>fwChanged := fwChanged fw @ [False]\<rparr>"
  "watch_tick (Inr t) fw = (if fwModTime fw < t
     then fw\<lparr>fwModTime := t, fwInitial := False, fwChanged := fwChanged fw @ [\<not> fwInitial fw]\<rparr>
     else fw\<lparr>fwChanged := fwChanged fw @ [False]\<rparr>)"
  by (simp_all add: watch_tick_def)

lemma Retry_watch: "Retry watch_tick (map Some stats) \<lparr>fwModTime = zero_time, fwInitial = True, fwChanged = []\<rparr> =
    \<lparr>fwModTime = latest (seen_times stats), fwInitial = (seen_times stats = []), fwChanged = reported_changes stats\<rparr>"
proof (induction stats rule: rev_induct)
  case Nil
  show ?case by (simp add: seen_times_def reported_changes_def)
next
  case (snoc x stats)
  show ?case
  proof (cases x)
    case (Inr t)
    show ?thesis
      by (cases "latest (seen_times stats) < t")
         (auto simp: Inr Retry_snoc snoc watch_tick_simps reported_changes_snoc latest_less dest: seen_times_later)
  qed (simp add: Retry_snoc snoc watch_tick_simps reported_changes_snoc)
qed

text \<open>C40: The watcher of the configuration file reports exactly the ticks at which the file is newer than at every
  tick before, of which there must be one that saw the file: whatever was changed before the first tick, a minute
  after the configuration was read, is never reported.\<close>

theorem watcher_reports: "fwChanged (fw_Watch (map Some stats)) = reported_changes stats"
  by (simp add: fw_Watch_def Retry_watch)

section \<open>Reflectors\<close>

text \<open>One reflector for every resource, except that every agent with discovery starts another one for services.\<close>

lemma reflectors_started:
  "let ls = foldl (\<lambda>ls d. agent_listers ty node d ls) no_listers ds;
       others = filter (\<lambda>r. fst r \<noteq> ''services'') (lsReflectors ls)
   in length (filter (\<lambda>r. fst r = ''services'') (lsReflectors ls)) = length (filter id ds) \<and>
      (ds = [] \<and> others = [] \<or> map fst others = [''pods'', ''replicaSets'', ''jobs'', ''namespaces'', ''nodes''] \<or>
       map fst others = [''pods'', ''replicaSets'', ''jobs'', ''nodes'', ''namespaces''])"
proof -
  note defs = agent_listers_def GetWorkloadCache_def NewWorkloadCache_def GetPodLister_def GetNodeLister_def
    GetNamespaceStore_def GetServiceLister_def start_reflector_def no_listers_def
  define I where "I ds ls \<longleftrightarrow>
      length (filter (\<lambda>r. fst r = ''services'') (lsReflectors ls)) = length (filter id ds) \<and>
      (if ds = [] then ls = no_listers
       else lsPods ls \<and> lsNodes ls \<and> lsNamespaces ls \<and> lsWorkloads ls \<and>
        map fst (filter (\<lambda>r. fst r \<noteq> ''services'') (lsReflectors ls)) \<in>
          {[''pods'', ''replicaSets'', ''jobs'', ''namespaces'', ''nodes''],
           [''pods'', ''replicaSets'', ''jobs'', ''nodes'', ''namespaces'']})" for ds ls
  have "I ds (foldl (\<lambda>ls d. agent_listers ty node d ls) no_listers ds)"
  proof (induction ds rule: rev_induct)
    case (snoc d ds)
    then show ?case by (cases "ds = []"; cases d) (auto simp: I_def defs Let_def)
  qed (simp add: I_def no_listers_def)
  then show ?thesis by (auto simp: I_def Let_def no_listers_def split: if_splits)
qed

section \<open>The life of the event router\<close>

lemma obey_router:
  assumes "promoted_once ms"
  shows "obey er_Resume er_Pause ms None =
    (case length ms of 0 \<Rightarrow> Some None | Suc 0 \<Rightarrow> Some (Some True) | Suc (Suc 0) \<Rightarrow> Some (Some False) | _ \<Rightarrow> None)"
proof (cases "ms = []")
  case False
  with assms obtain n where ms: "ms = True # replicate n False" by (auto simp: promoted_once_iff)
  show ?thesis
    by (cases n; cases "n - 1") (auto simp: ms er_Resume_def er_Pause_def stop_listener_def)
qed simp

lemma stop_router_ok:
  assumes "promoted_once (chan_calls e ch)"
  shows "(stop_router e ch = None) = (False \<in> set (chan_calls e ch))"
proof (cases "chan_calls e ch = []")
  case False
  with assms obtain n where ms: "chan_calls e ch = True # replicate n False" by (auto simp: promoted_once_iff)
  show ?thesis
    by (cases n; cases "n - 1") (auto simp: stop_router_def ms er_Resume_def er_Pause_def stop_listener_def)
qed (simp add: stop_router_def er_Pause_def stop_listener_def)

section \<open>Replacing the agent\<close>

lemma perform_frame:
  "perform act r = Some r' \<Longrightarrow> cpSources (snd r') = (if act = StopSources then StopProviders (cpSources (snd r)) else cpSources (snd r))"
  "perform act r = Some r' \<Longrightarrow> fmTicking (asFlush (fst r')) = (act \<noteq> StopFlush \<and> fmTicking (asFlush (fst r)))"
  by (cases r; cases act; auto simp: fm_Stop_def split: option.splits)+

lemma perform_all_sources: "perform_all acts r = Some r' \<Longrightarrow>
    cpSources (snd r') = (StopProviders ^^ length (filter (\<lambda>act. act = StopSources) acts)) (cpSources (snd r))"
proof (induction acts arbitrary: r)
  case (Cons act acts)
  then obtain r1 where "perform act r = Some r1" "perform_all acts r1 = Some r'" by (auto simp: bind_eq_Some_conv)
  with Cons.IH [of r1] perform_frame(1) [of act r r1] show ?case by (simp add: funpow_swap1)
qed simp

lemma Agent_Stop_sources: "Agent_Stop cluster r = Some r' \<Longrightarrow> cpSources (snd r') = StopProviders (cpSources (snd r))"
  using perform_all_sources [of "stop_program cluster (fst r)" r r'] by (simp add: Agent_Stop_def stop_program_def)

interpretation timed: provider_handler "\<lambda>p. AddProvider (now p) p" DeleteProvider pvName "\<lambda>sm. mget (smProviders sm)" registry_inv
  by unfold_locales (auto simp: registry_inv_Add registry_inv_Delete mget_Providers_Add mget_Providers_Delete fun_eq_iff)

definition made_providers :: "collector_world \<Rightarrow> SourceConfig \<Rightarrow> provider list" where
  "made_providers w src = foldl (appendProvider (cwMk w)) [] (provider_configs src)"

definition by_name :: "provider list \<Rightarrow> string \<rightharpoonup> provider" where
  "by_name ps = foldl (\<lambda>r p. r(pvName p \<mapsto> p)) Map.empty ps"

lemma create_sources_exact:
  assumes "registry_inv sm" "mget (smProviders sm) = Map.empty" "create_sources w cfg src sm = Inr sm'"
  shows "registry_inv sm' \<and> mget (smProviders sm') = by_name (made_providers w src)"
proof -
  let ?sm = "sm\<lparr>smDefault := DefaultCollectionInterval cfg\<rparr>"
  have "registry_inv ?sm" using assms(1) by (simp add: registry_inv_def live_def runs_provider_def)
  from timed.adds [OF this, of "cwNow w" "made_providers w src"] assms(2,3) show ?thesis
    by (auto simp: create_sources_def BuildProviders_def buildProviders_def made_providers_def by_name_def Let_def
        split: if_splits option.splits sum.splits)
qed

lemma Agent_Start_frame:
  assumes "Agent_Start env cluster (a, p) = Some (a', p')"
  shows "cpSources p' = cpSources p \<and> cpFeatures p' = cpFeatures p \<and> cpEnv p' = cpEnv p \<and> fmTicking (asFlush a') \<and>
    fmSinks (asFlush a') = fmSinks (asFlush a) \<and> (asDiscovery a' = None) = (asDiscovery a = None) \<and>
    (asRouter a' = None) = (asRouter a = None)"
  using assms
  by (auto simp: Agent_Start_def start_router_def start_discovery_def fm_Start_def case_prod_beta split: option.splits if_splits)

lemma enabled_features: "IsEnabled f (foldl (\<lambda>m feature. EnableFeature feature m) m0 fs) \<longleftrightarrow> f \<in> set fs \<or> IsEnabled f m0"
  by (induction fs arbitrary: m0) (auto simp: IsEnabled_def EnableFeature_def)

lemma createAgentOrDie_frame:
  assumes "createAgentOrDie w cfg p = Inr (a', p')" "registry_inv (cpSources p)" "mget (smProviders (cpSources p)) = Map.empty"
  shows "mget (smProviders (cpSources p')) = (case Sources cfg of None \<Rightarrow> Map.empty | Some src \<Rightarrow> by_name (made_providers w src))"
    and "fmTicking (asFlush a') \<and> map shName (skHolders (fmSinks (asFlush a'))) = map sink_Name (built (cwSinks w) (Sinks cfg))"
    and "IsEnabled f (cpFeatures p') = (f \<in> set (Experimental cfg))"
    and "(asDiscovery a' \<noteq> None) = EnableDiscovery cfg \<and> (asRouter a' \<noteq> None) = EventsAreEnabled cfg"
proof -
  obtain src summary sm sinkList e where parts: "Sources cfg = Some src" "SummaryConfig src = Some summary"
      "create_sources w cfg src (cpSources p) = Inr sm" "BuildAll (cwSinks w) (Sinks cfg) = Inr sinkList"
    and start: "Agent_Start (cwElection w) (ScrapeCluster (cwAgentType w)) (new_agent w cfg summary sinkList,
        p\<lparr>cpFeatures := foldl (\<lambda>m feature. EnableFeature feature m) DisableAll (Experimental cfg),
          cpEnv := mput ''omitBucketSuffix'' (FormatBool (OmitBucketSuffix cfg)) (cpEnv p), cpSources := sm,
          cpListers := agent_listers (cwAgentType w) (evNodeName (cwElection w)) (EnableDiscovery cfg) (cpListers p),
          cpElection := e\<rparr>) = Some (a', p')"
    using assms(1) by (auto simp: createAgentOrDie_def Let_def split: option.splits sum.splits)
  note frame = Agent_Start_frame [OF start]
  have sinks: "sinkList = built (cwSinks w) (Sinks cfg)" using parts(4) by (simp add: BuildAll_outcome split: if_splits)
  show "mget (smProviders (cpSources p')) = (case Sources cfg of None \<Rightarrow> Map.empty | Some src \<Rightarrow> by_name (made_providers w src))"
    using frame create_sources_exact [OF assms(2,3) parts(3)] by (simp add: parts(1))
  show "fmTicking (asFlush a') \<and> map shName (skHolders (fmSinks (asFlush a'))) = map sink_Name (built (cwSinks w) (Sinks cfg))"
    using frame by (simp add: new_agent_def NewFlushManager_def NewSinkManager_def sinks comp_def)
  show "IsEnabled f (cpFeatures p') = (f \<in> set (Experimental cfg))"
    using frame by (simp add: enabled_features) (simp add: IsEnabled_def DisableAll_def)
  show "(asDiscovery a' \<noteq> None) = EnableDiscovery cfg \<and> (asRouter a' \<noteq> None) = EventsAreEnabled cfg"
    using frame by (auto simp: new_agent_def createDiscoveryManager_def)
qed

lemma registry_inv_handled: "registry_inv (foldl handle new_manager cs)"
  by (induction cs rule: rev_induct) (simp_all add: registry_inv_new handle_refines)


section \<open>Stopping while nodes are elected\<close>

text \<open>One step: the next call of \<open>Stop\<close>, which waits for the lock where it takes it and may panic (\<open>None\<close>), or a
  step of the election, of its callback or of the managers' goroutines.\<close>

inductive agent_step ::
  "env \<Rightarrow> stop_action list \<times> 'h running option \<Rightarrow> stop_action list \<times> 'h running option \<Rightarrow> bool" for env where
  next_call: "needs_lock act \<longrightarrow> elCallback (cpElection (snd r)) = None \<Longrightarrow>
    agent_step env (act # acts, Some r) (acts, perform act r)"
| others: "step env (cpElection p) e \<Longrightarrow> agent_step env (acts, Some (a, p)) (acts, Some (a, p\<lparr>cpElection := e\<rparr>))"

definition over :: "stop_action list \<times> 'h running option \<Rightarrow> bool" where
  "over s \<longleftrightarrow> fst s = [] \<or> snd s = None"

inductive_cases agent_stepE: "agent_step env s t"

lemma others_star: "rtranclp (step env) (cpElection p) e \<Longrightarrow>
    rtranclp (agent_step env) (acts, Some (a, p)) (acts, Some (a, p\<lparr>cpElection := e\<rparr>))"
proof (induction rule: rtranclp_induct)
  case (step e e')
  then have "agent_step env (acts, Some (a, p\<lparr>cpElection := e\<rparr>)) (acts, Some (a, p\<lparr>cpElection := e, cpElection := e'\<rparr>))"
    by (intro others) simp
  with step.IH show ?case by simp
qed simp

lemma perform_lock:
  assumes "perform act r = Some r'" "elCallback (cpElection (snd r)) = None"
  shows "elCallback (cpElection (snd r')) = None"
  using assms by (cases r; cases act) (auto simp: Unsubscribe_def close_manager_def split: option.splits if_splits)

lemma free_runs: "elCallback (cpElection (snd r)) = None \<Longrightarrow> \<exists>t. rtranclp (agent_step env) (acts, Some r) t \<and> over t"
proof (induction acts arbitrary: r)
  case Nil
  show ?case by (intro exI [of _ "([], Some r)"]) (simp add: over_def)
next
  case (Cons act acts)
  have st: "agent_step env (act # acts, Some r) (acts, perform act r)" using Cons.prems by (intro next_call) simp
  show ?case
  proof (cases "perform act r")
    case None
    with st show ?thesis by (intro exI [of _ "(acts, None)"]) (auto simp: over_def)
  next
    case (Some r')
    from Cons.IH [OF perform_lock [OF Some Cons.prems]] obtain t where "rtranclp (agent_step env) (acts, Some r') t" "over t"
      by blast
    with st Some show ?thesis by (metis converse_rtranclp_into_rtranclp)
  qed
qed

text \<open>A program that is past nothing but the calls before the first that takes the lock.\<close>

definition waiting :: "stop_action list \<Rightarrow> 'h running \<Rightarrow> stop_action list \<times> 'h running option \<Rightarrow> bool" where
  "waiting acts r s \<longleftrightarrow> (\<exists>r'. snd s = Some r' \<and> stuck (cpElection (snd r')) \<and>
     (fst s = StopFlush # UnsubDiscovery # acts \<or> fst s = UnsubDiscovery # acts) \<and> cpSources (snd r') = cpSources (snd r))"

lemma waiting_step: "agent_step env s t \<Longrightarrow> waiting acts r s \<Longrightarrow> waiting acts r t"
  by (erule agent_stepE) (auto simp: waiting_def needs_lock_def stuck_def intro: step_stuck, (metis step_stuck stuck_def)+)


definition sample_agent :: "unit agent_state" where
  "sample_agent = \<lparr>asFlush = (NewFlushManager [] (NewSinkManager [''wavefront_sink'']) (60 * Second))\<lparr>fmTicking := True\<rparr>,
     asDiscovery = Some (dm_Start (NewDiscoveryManager False True), None), asRouter = None\<rparr>"

definition sample_process :: "election \<Rightarrow> collector_process" where
  "sample_process e = \<lparr>cpEnv = [], cpFeatures = [], cpListers = no_listers, cpSources = new_manager, cpElection = e\<rparr>"


end
