(* ===== verification/Spec2Isabelle.thy ===== *)
theory Spec2Isabelle
  imports Wavefront_Sink Histogram_Rates Pipeline Leadership Discovery Operator_Validation Operator_Health Operator_Preprocess Operator_Components Operator_Resources Operator_Metrics Operator_Reconcile Summary Kstate Prometheus Events Discovery_Runtime Systemd Metric_Keys Internal_Stats Telegraf_Source Cadvisor Test_Proxy Log_Checks Standard_Metrics Pixie_Sizer Collector_Options Http_Clients Sinks_Factory Collector_Agent
begin

text \<open>
  A verification development for the observability collector and operator for Kubernetes. It models the Go code
  of three programs of the repository: the collector (\<open>src/collector\<close>), which scrapes metrics on every node and of
  the cluster and sends them to Wavefront; the operator (\<open>src/operator\<close>), which turns one custom resource into the
  objects that run the collector, the proxy, logging and Pixie, with the sizer of Pixie; and the test proxy
  (\<open>src/test-proxy\<close>), against which the integration tests compare what the collector sends.

  \<^bold>\<open>How the parts interact.\<close> \<open>main.go\<close> reads flags or a file into a configuration and makes an agent from it
  (\<open>createAgentOrDie\<close>): the source manager gets a provider for every configured source and runs a goroutine with a
  timer for each; the sink manager gets the sinks; the discovery manager watches pods, services and rules and adds and
  deletes providers at the source manager; the event router passes events of the cluster to the sinks; the flush
  manager takes at every tick the batches that came in, runs the processors (rates, enrichers, aggregators and, last,
  the converter from metric sets to points) and exports the result. Which node serves the cluster is decided by the
  election, whose callback tells the subscribers; a changed configuration file stops the agent and makes a new one.
  The operator fills in, validates and renders the components of the custom resource at every reconciliation, applies
  and deletes objects, and reports the health of the workloads in the status and as metrics of its own.

  \<^bold>\<open>The theories of the collector\<close>, in the order of the imports. State is a record, an operation takes the record and
  returns it, an error is a value (\<open>string + 'a\<close>, \<open>'a option\<close> or a datatype where the code can also panic or end the
  process), and the names are those of the code, with a prefix where two packages use the same.
  \<^item> \<open>Prelude\<close>: Go maps as association lists with distinct keys, strings, 64-bit words, times and durations, monadic
    folds, sorted keys; the locale \<open>map_ops\<close> and the collections \<open>gomap_simps\<close> and \<open>gomap_intros\<close>. \<open>Float64\<close>: IEEE 754
    doubles with exact rational values and rounding to nearest even.
  \<^item> \<open>Metrics_Model\<close>, \<open>Standard_Metrics\<close> (\<open>internal/metrics\<close>): values, labels, metric sets, resource keys and the functions
    of the standard metrics. \<open>Filters\<close> (\<open>internal/filter\<close>). \<open>Wf_Points\<close>, \<open>Histograms\<close>, \<open>Histogram_Rates\<close> (\<open>internal/wf\<close>): points,
    distributions and what their conversions keep; the locale \<open>wf_metric\<close> is the contract of both kinds of metric.
  \<^item> \<open>Tag_Cleaning\<close>, \<open>Wavefront_Sink\<close>, \<open>Sinks_Factory\<close> (\<open>plugins/sinks\<close>): the budget of tags, sending, export with its
    counters, the sink for events, the heartbeat and the factory.
  \<^item> \<open>Configuration\<close> (\<open>internal/configuration\<close>, \<open>internal/discovery/configs.go\<close>), \<open>Collector_Options\<close> (\<open>internal/flags\<close>,
    \<open>internal/options\<close>), \<open>Http_Clients\<close> (\<open>internal/httputil\<close>, \<open>internal/kubernetes\<close>, the client for kubelets).
  \<^item> \<open>Kube\<close> (\<open>internal/util\<close>): the objects of Kubernetes with the fields that are read, and the helpers over them.
  \<^item> \<open>Rates\<close>, \<open>Aggregators\<close>, \<open>Pod_Aggregation\<close>, \<open>Enrichers\<close>, \<open>Converter\<close> (\<open>plugins/processors\<close>, the converter of
    \<open>plugins/sources/summary\<close>): the processors; the locales \<open>grouping\<close> and \<open>pods_and_containers\<close> are the contract that the
    aggregators of namespaces, nodes and the cluster share.
  \<^item> \<open>Sources_Manager\<close> (\<open>plugins/sources\<close>): registry, timers, scraping, pending batches; the locale \<open>provider_handler\<close> is the
    interface that the discovery calls. \<open>Pipeline\<close> (\<open>plugins/manager\<close>, \<open>internal/setup\<close>, \<open>plugins/sinks/manager.go\<close>): one
    flush from the batches to the sinks.
  \<^item> \<open>Leadership\<close> (\<open>internal/leadership\<close>): the election as a step relation over the state under the lock.
  \<^item> \<open>Discovery_Rules\<close>, \<open>Discovery\<close>, \<open>Discovery_Runtime\<close> (\<open>internal/discovery\<close>, \<open>plugins/discovery\<close>): from a resource and the
    rules to providers, the table of endpoints (locale \<open>endpoint_registry\<close>, an extension of \<open>provider_handler\<close> that is
    interpreted on the source manager), rules from config maps with slices as references, and the life of the manager.
  \<^item> The sources: \<open>Summary\<close> (kubelets), \<open>Cadvisor\<close>, \<open>Kstate\<close> (state of the cluster), \<open>Prometheus\<close>, \<open>Systemd\<close>, \<open>Telegraf_Source\<close>,
    \<open>Internal_Stats\<close> with \<open>Metric_Keys\<close> (the collector about itself), and \<open>Events\<close> (\<open>plugins/events\<close>).
  \<^item> \<open>Collector_Agent\<close> (\<open>cmd/wavefront-collector\<close>, \<open>internal/agent\<close>, the file watcher): the composition of all these, and how an
    agent is stopped while the election goes on.

  \<^bold>\<open>The theories of the operator.\<close> \<open>Operator_Types\<close> (the custom resource), \<open>Operator_Validation\<close>, \<open>Operator_Preprocess\<close>,
  \<open>Operator_Components\<close> (the configuration of each component), \<open>Operator_Resources\<close> (templates and patches), \<open>Operator_Health\<close>,
  \<open>Operator_Metrics\<close> (the connection for the operator's own metrics), \<open>Operator_Reconcile\<close> (the whole reconciliation over a
  store of objects), and \<open>Pixie_Sizer\<close> (\<open>operator/pixie-sizer\<close>).

  \<^bold>\<open>The theories of the test proxy.\<close> \<open>Line_Grammars\<close> (the two generated parsers as combinators), \<open>Metric_Lines\<close>, \<open>Event_Lines\<close>,
  \<open>Metric_Diff\<close>, \<open>Log_Checks\<close>, and \<open>Test_Proxy\<close> (the broadcaster, the stores and the handlers).

  \<^bold>\<open>What the lemmas show.\<close> Of the election: what a subscriber is told, when the callback can give its lock back, and what that
  means for stopping the agent. Of registries (source manager, discovery, replaced agents): that they implement
  maps, with exactly one live goroutine for each entry. Of metrics: that rates, histograms, sums, enrichment, conversion and
  flushing keep every sample or say which are dropped, that sums do not depend on the order of maps, and that the tags that
  leave the sink keep to its budget. Of sources: the points and counters of a scrape on every branch, errors included. Of
  parsers: round trips, and blocks of an exposition that end. Of configurations: when they are accepted and what they then
  contain, and where a wrong one crashes the program instead of being reported. Of the operator: which objects exist
  after a reconciliation that accepts or rejects the resource, the outcome of validation, and the health and status it
  reports. Of the test proxy: that comparisons raise no false alarm, and that the stores account for every line.
  Lemmas named after a fault of the code (\<open>KeyBytes_collision\<close>, \<open>rule_changes_missed\<close>, \<open>stop_after_pause\<close>,
  \<open>PEMLimits_no_tables\<close>, \<open>general_hides_specific\<close> and others) evaluate the model on an input that shows it.

  \<^bold>\<open>Parameters.\<close> What is not under src/ is an argument of the definitions that use it, and only documented behaviour is assumed
  of it, as hypotheses with witnesses: the library of globs, the decoders of YAML, JSON and TOML, the rendering of templates,
  SHA-1 and blake2b, parsers of URLs, quantities and durations, the printing of floats and of values with the percent verbs, the API
  server, listers and informers of client-go (as functions or as lists of events), kubectl's arithmetic of requests, the
  HTTP clients, D-Bus, the parser of the exposition format, telegraf's plugins, the senders of the SDK, the file system, the
  parser of flags, the clock, the environment, which maps the decoded summary shares, and how \<open>append\<close> grows a slice. The
  conversion of a float to an integer out of range is that of amd64.

  \<^bold>\<open>Bounds and loops.\<close> There is no fuel. Loops over data are structural recursion or folds; repetition in the grammars stops when
  a round consumes nothing, so its recursion is on the length of the input; loops that never end (tickers,
  watches, goroutines) are step functions or relations that are run over a list of what they see, of any length.
  The constants that matter are those of the source: twenty tags for a point, 247 bytes of a status message, lines of 64
  kilobytes for the scanner, a buffer of one message for a subscriber, five seconds as the least flush interval. Counters and
  times are 64-bit words or exact integers where the code cannot overflow before the end of the range of dates.

  \<^bold>\<open>Not modelled.\<close> Log output and its sampling, the latency histogram and the random delays of scraping; fields that only go to
  libraries; data races, except where an interleaving is what a theory is about (\<open>Leadership\<close>, \<open>Collector_Agent\<close>, \<open>Systemd\<close>,
  \<open>Test_Proxy\<close>): a flush is one step, a time-out of a sink is decided at once, and a resumption runs when it is started. The entry
  points of the operator, the test proxy and the sizer only wire flags and servers of libraries; \<open>zz_generated.deepcopy.go\<close>
  copies values, which in HOL are not shared; of the generated parsers the printing of syntax trees is left out; test
  helpers, fakes, dummies and code that nothing calls (\<open>historical_types.go\<close>, \<open>pod.go\<close>), the string interner and the file of the
  termination message have no behaviour to state. Vendored code is not modelled, except for the keys of the
  registry of metrics (\<open>Metric_Keys\<close>), on which the collector's own source rests.
\<close>

end
